(* ===== verification/KnhvPrelude.thy ===== *)
theory KnhvPrelude
  imports Main "HOL-Library.Word"
begin

text \<open>
  Shared vocabulary of the development: the fixed-width integers of
  \<^verbatim>\<open>src/src/include/knhv_abi.h\<close>, the helpers that several contract models repeat
  (versioned structure checks, checked addition, physical-address checks, page spans), the word
  lemmas the component proofs rest on, and two interface locales:
  \<^item> \<open>mapped_range\<close>: a contiguous address mapping with a containment test; its lemmas give the
    exactness of one translation stage and of two stages composed;
  \<^item> \<open>guarded_machine\<close>: a step relation with an invariant and a decreasing rank; its lemmas give
    the invariant on every run, the bound on the length of a run and the shape of dead ends.

  Conventions used by every component. A nullable pointer argument is an \<open>option\<close>, with
  \<open>None\<close> for \<^verbatim>\<open>nullptr\<close>. An operation that mutates an object through a pointer takes the
  object and returns the pair of its result and the object afterwards, so that what a failing
  call leaves behind is part of the model. Objects passed through different pointers do not
  overlap. A structure's \<^verbatim>\<open>sizeof\<close> is the constant of the static assertion in its header.
\<close>

unbundle bit_operations_syntax

type_synonym u8 = "8 word"
type_synonym u16 = "16 word"
type_synonym u32 = "32 word"
type_synonym u64 = "64 word"

named_theorems knhv_valid \<open>definitions of the validity predicates\<close>
named_theorems knhv_ops \<open>definitions of the state-changing operations\<close>

section \<open>Helpers repeated by the contract models\<close>

text \<open>
  \<^verbatim>\<open>IsVersionedSizeValid\<close>: the contract version and the largest structure size are constants
  of the component, passed first.
\<close>

definition IsVersionedSizeValid :: "u32 \<Rightarrow> u32 \<Rightarrow> u32 \<Rightarrow> u32 \<Rightarrow> u32 \<Rightarrow> bool" where
  "IsVersionedSizeValid contract_version max_size version size' required \<longleftrightarrow>
     version = contract_version \<and> size' \<ge> required \<and> size' \<le> max_size"

text \<open>\<^verbatim>\<open>AddOverflow\<close>: \<open>None\<close> where the C++ function reports an overflow.\<close>

definition AddOverflow :: "u64 \<Rightarrow> u64 \<Rightarrow> u64 option" where
  "AddOverflow left right = (if left > NOT 0 - right then None else Some (left + right))"

definition IsAddressBitsValid :: "u32 \<Rightarrow> bool" where
  "IsAddressBitsValid bits \<longleftrightarrow> bits \<ge> 12 \<and> bits \<le> 52"

definition IsPhysicalAddress :: "u64 \<Rightarrow> u32 \<Rightarrow> bool" where
  "IsPhysicalAddress address bits \<longleftrightarrow>
     IsAddressBitsValid bits \<and> drop_bit (unat bits) address = 0"

text \<open>
  \<^verbatim>\<open>MappingSpan\<close>: the page size of a page order and the bytes that a number of such pages
  take; \<open>None\<close> where the C++ function returns false.
\<close>

definition MappingSpan :: "u64 \<Rightarrow> u32 \<Rightarrow> (u64 \<times> u64) option" where
  "MappingSpan page_count page_order =
     (if page_count = 0 \<or> page_count > 1048576 \<or> page_order > 2 then None
      else let page_size = push_bit (unat (12 + page_order * 9)) (1 :: u64)
           in if page_count > NOT 0 div page_size then None
              else let span_bytes = page_count * page_size
                   in if span_bytes \<noteq> 0 then Some (page_size, span_bytes) else None)"

section \<open>Word lemmas\<close>

lemma le_max_minus_iff: "(l :: u64) \<le> - 1 - r \<longleftrightarrow> unat l + unat r < 2 ^ 64"
proof -
  have "unat (- 1 - r) = unat (- 1 :: u64) - unat r"
    by (rule unat_sub) (simp add: word_order.extremum)
  then have u: "unat (- 1 - r) = 2 ^ 64 - 1 - unat r"
    by (simp add: unsigned_minus_1_eq_mask mask_eq_exp_minus_1)
  have "unat r < 2 ^ 64"
    using unsigned_less [where w = r] by simp
  then show ?thesis
    unfolding word_le_nat_alt u by auto
qed

lemma AddOverflow_alt:
  "AddOverflow l r = (if unat l + unat r < 2 ^ 64 then Some (l + r) else None)"
  using le_max_minus_iff [of l r] by (auto simp: AddOverflow_def not_less)

lemma AddOverflow_Some_iff:
  "AddOverflow l r = Some s \<longleftrightarrow> unat l + unat r < 2 ^ 64 \<and> s = l + r"
  by (auto simp: AddOverflow_alt)

lemma AddOverflow_None_iff: "AddOverflow l r = None \<longleftrightarrow> 2 ^ 64 \<le> unat l + unat r"
  by (auto simp: AddOverflow_alt)

lemma unat_add_small: "unat l + unat r < 2 ^ 64 \<Longrightarrow> unat (l + r :: u64) = unat l + unat r"
  by (subst unat_add_lem [symmetric]) simp

lemma AddOverflow_unat: "AddOverflow l r = Some s \<Longrightarrow> unat s = unat l + unat r"
  by (simp add: AddOverflow_Some_iff unat_add_small)

lemma drop_bit_eq_0_iff_unat:
  "drop_bit n (w :: 'a::len word) = 0 \<longleftrightarrow> unat w < 2 ^ n"
proof -
  have "drop_bit n w = 0 \<longleftrightarrow> unat (drop_bit n w) = 0"
    by (simp add: unat_eq_zero)
  also have "unat (drop_bit n w) = unat w div 2 ^ n"
    by (metis drop_bit_eq_div unat_drop_bit_eq)
  finally show ?thesis
    by (simp add: div_eq_0_iff)
qed

lemma IsPhysicalAddress_iff:
  "IsPhysicalAddress a bits \<longleftrightarrow> IsAddressBitsValid bits \<and> unat a < 2 ^ unat bits"
  by (simp add: IsPhysicalAddress_def drop_bit_eq_0_iff_unat)

lemma IsAddressBitsValid_unat: "IsAddressBitsValid b \<longleftrightarrow> 12 \<le> unat b \<and> unat b \<le> 52"
  by (simp add: IsAddressBitsValid_def word_le_nat_alt)

text \<open>A page span: the page size is a power of two of at least 4096 and at most \<open>2^30\<close>.\<close>

lemma page_order_cases:
  assumes "(page_order :: u32) \<le> 2"
  obtains "page_order = 0" | "page_order = 1" | "page_order = 2"
proof -
  have "unat page_order \<le> 2"
    using assms by (simp add: word_le_nat_alt)
  then have "unat page_order = 0 \<or> unat page_order = 1 \<or> unat page_order = 2"
    by arith
  then have "page_order = 0 \<or> page_order = 1 \<or> page_order = 2"
    by (auto simp: word_unat_eq_iff)
  then show ?thesis using that by blast
qed

lemma page_size_unat:
  assumes "(page_order :: u32) \<le> 2"
  shows "unat (push_bit (unat (12 + page_order * 9)) (1 :: u64)) = 2 ^ (12 + 9 * unat page_order)"
  using assms by (rule page_order_cases) simp_all

lemma page_size_le:
  assumes "(page_order :: u32) \<le> 2"
  shows "(2 :: nat) ^ (12 + 9 * unat page_order) \<le> 2 ^ 30"
  using assms by (rule page_order_cases) simp_all

lemma MappingSpan_SomeD:
  assumes "MappingSpan n ord = Some (ps, span)"
  shows "ord \<le> 2" and "unat ps = 2 ^ (12 + 9 * unat ord)"
    and "unat span = unat n * unat ps" and "0 < unat n" and "unat n \<le> 2 ^ 20"
proof -
  have n: "n \<noteq> 0" "n \<le> 1048576" and ord: "ord \<le> 2"
    and ps: "ps = push_bit (unat (12 + ord * 9)) (1 :: u64)" and span: "span = n * ps"
    using assms by (auto simp: MappingSpan_def Let_def split: if_splits)
  show "ord \<le> 2" by (rule ord)
  show u: "unat ps = 2 ^ (12 + 9 * unat ord)"
    unfolding ps by (rule page_size_unat [OF ord])
  show n0: "0 < unat n"
    using n(1) by (simp add: unat_gt_0)
  show n1: "unat n \<le> 2 ^ 20"
    using n(2) by (simp add: word_le_nat_alt)
  have "unat n * unat ps \<le> 2 ^ 20 * 2 ^ 30"
    unfolding u using n1 page_size_le [OF ord] by (rule mult_le_mono)
  then have "unat n * unat ps < 2 ^ LENGTH(64)"
    by simp
  then show "unat span = unat n * unat ps"
    unfolding span by (simp add: unat_mult_lem [THEN iffD1])
qed

text \<open>The overflow and emptiness tests of \<^verbatim>\<open>MappingSpan\<close> never fire: only the count and the
  order of the pages decide.\<close>

lemma MappingSpan_defined_iff:
  "(\<exists>ps span. MappingSpan n ord = Some (ps, span)) \<longleftrightarrow> n \<noteq> 0 \<and> n \<le> 1048576 \<and> ord \<le> 2"
proof
  assume R: "n \<noteq> 0 \<and> n \<le> 1048576 \<and> ord \<le> 2"
  define ps where "ps = push_bit (unat (12 + ord * 9)) (1 :: u64)"
  have u: "unat ps = 2 ^ (12 + 9 * unat ord)"
    using page_size_unat [of ord] R by (simp add: ps_def)
  have le: "unat ps \<le> 2 ^ 30" and pos: "0 < unat ps"
    using page_size_le [of ord] R by (simp_all add: u)
  have n1: "unat n \<le> 2 ^ 20" and n0: "0 < unat n"
    using R by (simp_all add: word_le_nat_alt unat_gt_0)
  have mul: "unat n * unat ps \<le> 2 ^ 20 * 2 ^ 30"
    using n1 le by (rule mult_le_mono)
  then have m: "unat (n * ps) = unat n * unat ps"
    by (simp add: unat_mult_lem [THEN iffD1])
  have "unat n \<le> (2 ^ 64 - 1) div unat ps"
    using mul pos by (simp add: less_eq_div_iff_mult_less_eq)
  then have "n \<le> - 1 div ps"
    by (simp add: word_le_nat_alt unat_div unsigned_minus_1_eq_mask mask_eq_exp_minus_1)
  moreover have "n * ps \<noteq> 0"
    using m n0 pos by (metis mult_pos_pos unat_0 less_irrefl)
  ultimately show "\<exists>ps span. MappingSpan n ord = Some (ps, span)"
    using R by (simp add: MappingSpan_def Let_def ps_def not_less)
qed (auto simp: MappingSpan_def Let_def split: if_splits)

text \<open>Alignment to a power of two and the end of a non-empty range, read as natural numbers.\<close>

lemma aligned_iff_dvd:
  assumes "unat (ps :: u64) = 2 ^ n" and "n < 64"
  shows "a AND (ps - 1) = 0 \<longleftrightarrow> 2 ^ n dvd unat a"
proof -
  have "unat (2 ^ n :: u64) = 2 ^ n"
    using assms(2) by (simp add: unsigned_of_nat [of "2 ^ n", simplified] take_bit_nat_eq_self)
  then have "ps = 2 ^ n"
    using assms(1) by (metis word_unat_eq_iff)
  then have m: "a AND (ps - 1) = take_bit n a"
    by (simp add: take_bit_eq_mask mask_eq_exp_minus_1)
  have u: "unat (take_bit n a) = unat a mod 2 ^ n"
    by (metis unsigned_take_bit_eq take_bit_eq_mod)
  show ?thesis
    unfolding m by (metis u dvd_eq_mod_eq_0 unat_0 unat_eq_zero)
qed

lemma range_last:
  assumes "0 < unat span" and "AddOverflow base (span - 1) = Some l"
  shows "unat l = unat base + unat span - 1"
proof -
  have "unat (span - 1) = unat span - 1"
    using assms(1) by (metis unat_minus_one unat_0 less_irrefl)
  then show ?thesis
    using AddOverflow_unat [OF assms(2)] assms(1) by simp
qed

lemma range_fits:
  assumes "0 < unat span" and "AddOverflow base (span - 1) = Some l" and "IsPhysicalAddress l bits"
  shows "unat base + unat span \<le> 2 ^ unat bits"
  using range_last [OF assms(1,2)] assms(1,3) unfolding IsPhysicalAddress_iff by linarith

lemma range_fits_iff:
  assumes "0 < unat span" and "IsAddressBitsValid bits"
  shows "(\<exists>l. AddOverflow base (span - 1) = Some l \<and> IsPhysicalAddress l bits) \<longleftrightarrow>
           unat base + unat span \<le> 2 ^ unat bits"
proof
  assume le: "unat base + unat span \<le> 2 ^ unat bits"
  have "(2 :: nat) ^ unat bits \<le> 2 ^ 52"
    using assms(2) by (intro power_increasing) (auto simp: IsAddressBitsValid_unat)
  moreover have s: "unat (span - 1) = unat span - 1"
    using assms(1) by (metis unat_minus_one unat_0 less_irrefl)
  ultimately have o: "AddOverflow base (span - 1) = Some (base + (span - 1))"
    using le assms(1) by (simp add: AddOverflow_Some_iff)
  show "\<exists>l. AddOverflow base (span - 1) = Some l \<and> IsPhysicalAddress l bits"
    using o range_last [OF assms(1) o] le assms by (auto simp: IsPhysicalAddress_iff)
qed (use assms range_fits in blast)

text \<open>Masks.\<close>

lemma low_bits_clear:
  fixes r :: u64
  assumes "r AND 4095 = 0" and "m = 4095 AND m"
  shows "r AND m = 0"
  by (metis assms and.assoc bit.conj_zero_left)

lemma three_bits:
  assumes "unat (w :: u64) < 8"
  shows "w \<in> {0, 1, 2, 3, 4, 5, 6, 7}"
proof -
  have "unat w \<in> {0, 1, 2, 3, 4, 5, 6, 7}"
    using assms by auto
  then show ?thesis by (auto simp: word_unat_eq_iff)
qed

lemma known_mask_iff: "(x :: 'a::len word) AND NOT m = 0 \<longleftrightarrow> x AND m = x"
  by (auto simp: bit_eq_iff bit_simps)

lemma single_bit: "(x :: 'a::len word) AND 2 ^ n = 0 \<or> x AND 2 ^ n = 2 ^ n"
proof (cases "bit x n")
  case True
  then have "x AND 2 ^ n = 2 ^ n" by (auto intro!: bit_word_eqI simp: bit_simps)
  then show ?thesis ..
next
  case False
  then have "x AND 2 ^ n = 0" by (auto intro!: bit_word_eqI simp: bit_simps)
  then show ?thesis ..
qed

lemma and_numeral_flag:
  fixes p :: "'a::len word"
  shows "p AND 1 = 0 \<longleftrightarrow> \<not> bit p 0" and "p AND 2 = 0 \<longleftrightarrow> \<not> bit p 1"
    and "p AND 4 = 0 \<longleftrightarrow> \<not> bit p 2"
  using and_exp_eq_0_iff_not_bit [of p 0] and_exp_eq_0_iff_not_bit [of p 1]
    and_exp_eq_0_iff_not_bit [of p 2] by simp_all

text \<open>Bounded sums and products.\<close>

lemma bounded_add_u32:
  assumes "(obs :: u32) \<le> req" and "n \<le> req - obs"
  shows "unat (obs + n) = unat obs + unat n" and "unat obs + unat n \<le> unat req" 
proof -
  have "unat n \<le> unat req - unat obs"
    using assms by (simp add: word_le_nat_alt unat_sub)
  then show le: "unat obs + unat n \<le> unat req"
    using assms(1) by (simp add: word_le_nat_alt)
  then have "unat obs + unat n < 2 ^ LENGTH(32)"
    using unsigned_less [where w = req and 'a = nat] by linarith
  then show "unat (obs + n) = unat obs + unat n"
    by (simp add: unat_add_lem [THEN iffD1])
qed

lemma le_max_div_iff:
  assumes "(r :: u64) \<noteq> 0"
  shows "l \<le> - 1 div r \<longleftrightarrow> unat l * unat r < 2 ^ 64"
proof -
  have "l \<le> - 1 div r \<longleftrightarrow> unat l \<le> (2 ^ 64 - 1) div unat r"
    by (simp add: word_le_nat_alt unat_div unsigned_minus_1_eq_mask mask_eq_exp_minus_1)
  also have "\<dots> \<longleftrightarrow> unat l * unat r \<le> 2 ^ 64 - 1"
    using assms by (simp add: less_eq_div_iff_mult_less_eq unat_gt_0)
  finally show ?thesis by auto
qed

lemma unat_mult_small: "unat l * unat r < 2 ^ 64 \<Longrightarrow> unat (l * r :: u64) = unat l * unat r"
  by (simp add: unat_mult_lem [THEN iffD1])

lemma ucast_u32_u64_unat: "unat (ucast (x :: u32) :: u64) = unat x"
proof -
  have "unat x < 2 ^ 32"
    using unsigned_less [where w = x and 'a = nat] by simp
  then have "unat x < 2 ^ 64"
    by (rule less_trans) simp
  then show ?thesis
    by (simp add: unsigned_ucast_eq take_bit_nat_eq_self)
qed

lemma unat_of_nat_u32: "n < 2 ^ 32 \<Longrightarrow> unat (word_of_nat n :: u32) = n"
  by (simp add: unat_of_nat)

text \<open>Inclusion of the set bits of one word in those of another.\<close>

definition bits_le :: "'a::len word \<Rightarrow> 'a word \<Rightarrow> bool" where
  "bits_le a b \<longleftrightarrow> a AND b = a"

lemma bits_le_bit: "bits_le a b \<longleftrightarrow> (\<forall>n. bit a n \<longrightarrow> bit b n)"
proof
  assume "bits_le a b"
  then show "\<forall>n. bit a n \<longrightarrow> bit b n" unfolding bits_le_def by (metis bit_and_iff)
next
  assume "\<forall>n. bit a n \<longrightarrow> bit b n"
  then show "bits_le a b" by (auto simp: bits_le_def bit_eq_iff bit_simps)
qed

lemma bits_le_and: "bits_le (a AND b) a" "bits_le (a AND b) b"
  by (simp_all add: bits_le_bit bit_simps)

lemma bits_le_trans: "bits_le a b \<Longrightarrow> bits_le b c \<Longrightarrow> bits_le a c"
  by (simp add: bits_le_bit)

section \<open>Interface: a contiguous address mapping\<close>

text \<open>
  What the nested EPT walk and the nested DMA walk need of one mapping: a valid mapping sends a
  source range to a target range of the same length, both inside the physical address space and
  aligned to the 4096-byte page, and \<open>contains\<close> decides membership in the source range.
\<close>

locale mapped_range =
  fixes valid :: "'m \<Rightarrow> bool"
    and src :: "'m \<Rightarrow> u64"
    and tgt :: "'m \<Rightarrow> u64"
    and span :: "'m \<Rightarrow> nat"
    and bits :: nat
    and contains :: "'m \<Rightarrow> u64 \<Rightarrow> bool"
  assumes bits_le: "valid m \<Longrightarrow> bits \<le> 52"
    and tgt_bound: "valid m \<Longrightarrow> unat (tgt m) + span m \<le> 2 ^ bits"
    and src_aligned: "valid m \<Longrightarrow> 4096 dvd unat (src m)"
    and tgt_aligned: "valid m \<Longrightarrow> 4096 dvd unat (tgt m)"
    and contains_iff: "valid m \<Longrightarrow>
          contains m a \<longleftrightarrow> unat (src m) \<le> unat a \<and> unat a < unat (src m) + span m"
begin

lemma offset_unat:
  assumes "valid m" and "contains m a"
  shows "unat (a - src m) = unat a - unat (src m)"
proof -
  have "src m \<le> a"
    using assms contains_iff by (simp add: word_le_nat_alt)
  then show ?thesis by (rule unat_sub)
qed

lemma translate_bound:
  assumes "valid m" and "contains m a"
  shows "unat (tgt m) + unat (a - src m) < 2 ^ bits"
  using assms tgt_bound [of m] contains_iff [of m a] offset_unat [of m a] by linarith

lemma translate_no_overflow:
  assumes "valid m" and "contains m a"
  shows "AddOverflow (tgt m) (a - src m) = Some (tgt m + (a - src m))"
proof -
  have "(2 :: nat) ^ bits \<le> 2 ^ 64"
    using bits_le [OF assms(1)] by (intro power_increasing) auto
  then show ?thesis
    using translate_bound [OF assms] by (simp add: AddOverflow_Some_iff)
qed

lemma translate_unat:
  assumes "valid m" and "contains m a"
  shows "unat (tgt m + (a - src m)) = unat (tgt m) + (unat a - unat (src m))"
  using AddOverflow_unat [OF translate_no_overflow [OF assms]] offset_unat [OF assms] by simp

lemma translate_in_range:
  assumes "valid m" and "contains m a"
  shows "unat (tgt m) \<le> unat (tgt m + (a - src m))"
    and "unat (tgt m + (a - src m)) < unat (tgt m) + span m"
  using translate_unat [OF assms] contains_iff [OF assms(1), of a] assms(2) by auto

lemma translate_page_offset:
  assumes "valid m" and "contains m a"
  shows "unat (tgt m + (a - src m)) mod 4096 = unat a mod 4096"
proof -
  have le: "unat (src m) \<le> unat a"
    using assms contains_iff by blast
  obtain k l where k: "unat (src m) = 4096 * k" and l: "unat (tgt m) = 4096 * l"
    using src_aligned [OF assms(1)] tgt_aligned [OF assms(1)] by (auto elim!: dvdE)
  have "unat a = 4096 * k + (unat a - unat (src m))"
    using le k by simp
  then show ?thesis
    unfolding translate_unat [OF assms] l by (metis mod_mult_self2 add.commute)
qed

end

text \<open>Two stages: the target of the first is the source of the second.\<close>

locale two_stage = first: mapped_range valid src1 tgt1 span bits contains1 +
  second: mapped_range valid src2 tgt2 span bits contains2
  for valid :: "'m \<Rightarrow> bool"
    and src1 tgt1 src2 tgt2 :: "'m \<Rightarrow> u64"
    and span :: "'m \<Rightarrow> nat"
    and bits :: nat
    and contains1 contains2 :: "'m \<Rightarrow> u64 \<Rightarrow> bool"
begin

lemma compose_unat:
  assumes "valid l1" and "valid root" and "contains1 l1 a"
    and "contains2 root (tgt1 l1 + (a - src1 l1))"
  shows "unat (tgt2 root + (tgt1 l1 + (a - src1 l1) - src2 root)) =
           unat (tgt2 root) + (unat (tgt1 l1) + (unat a - unat (src1 l1)) - unat (src2 root))"
  using first.translate_unat [OF assms(1,3)] second.translate_unat [OF assms(2,4)] by simp

lemma compose_page_offset:
  assumes "valid l1" and "valid root" and "contains1 l1 a"
    and "contains2 root (tgt1 l1 + (a - src1 l1))"
  shows "unat (tgt2 root + (tgt1 l1 + (a - src1 l1) - src2 root)) mod 4096 = unat a mod 4096"
  using first.translate_page_offset [OF assms(1,3)] second.translate_page_offset [OF assms(2,4)]
  by simp

end

section \<open>Interface: guarded step relations\<close>

text \<open>An invariant that every step keeps, lifted to runs.\<close>

locale invariant_machine =
  fixes step :: "'s \<Rightarrow> 's \<Rightarrow> bool" and inv :: "'s \<Rightarrow> bool"
  assumes step_inv: "step s t \<Longrightarrow> inv s \<Longrightarrow> inv t"
begin

lemma star_inv: "step\<^sup>*\<^sup>* s t \<Longrightarrow> inv s \<Longrightarrow> inv t"
  by (induction rule: rtranclp_induct) (auto intro: step_inv)

lemma star_frame:
  assumes "step\<^sup>*\<^sup>* s t" and "inv s" and "\<And>x y. step x y \<Longrightarrow> inv x \<Longrightarrow> f y = f x"
  shows "f t = f s"
  using assms(1)
proof (induction rule: rtranclp_induct)
  case (step y z)
  then show ?case using assms(3) [of y z] star_inv [OF _ assms(2)] by simp
qed simp

end

text \<open>With a rank that every step decreases, runs are bounded and end in a dead end.\<close>

locale guarded_machine = invariant_machine step inv
  for step :: "'s \<Rightarrow> 's \<Rightarrow> bool" and inv :: "'s \<Rightarrow> bool" +
  fixes rank :: "'s \<Rightarrow> nat"
  assumes step_rank: "step s t \<Longrightarrow> inv s \<Longrightarrow> rank t < rank s"
begin

lemma run_bound: "(step ^^ n) s t \<Longrightarrow> inv s \<Longrightarrow> n + rank t \<le> rank s"
proof (induction n arbitrary: t)
  case (Suc n)
  then obtain u where u: "(step ^^ n) s u" "step u t" by auto
  then have "inv u" using star_inv [OF relpowp_imp_rtranclp] Suc.prems(2) by blast
  then show ?case using Suc.IH [OF u(1) Suc.prems(2)] step_rank [OF u(2)] by simp
qed simp

lemma reaches_dead_end:
  assumes "inv s"
  shows "\<exists>t. step\<^sup>*\<^sup>* s t \<and> (\<forall>u. \<not> step t u)"
  using assms
proof (induction "rank s" arbitrary: s rule: less_induct)
  case less
  show ?case
  proof (cases "\<exists>u. step s u")
    case True
    then obtain u where u: "step s u" by blast
    then obtain t where "step\<^sup>*\<^sup>* u t" "\<forall>v. \<not> step t v"
      using less.hyps [of u] step_rank step_inv less.prems by blast
    then show ?thesis using u by (blast intro: converse_rtranclp_into_rtranclp)
  qed blast
qed

end

end
