(* ===== verification/EptModel.thy ===== *)
theory EptModel
  imports KnhvPrelude
begin

text \<open>
  The extended-page-table policy model of \<^verbatim>\<open>src/src/ept/ept_model.cpp\<close> and
  \<^verbatim>\<open>src/src/include/knhv_ept.h\<close>: EPT pointers, nested mappings and their resolution,
  debug-hook leases and requests, the hook transaction state machine, the hook rate test and
  the generation hand-over.
\<close>

section \<open>Constants and enumerations\<close>

abbreviation kEptContractVersion :: u32 where "kEptContractVersion \<equiv> 1"
abbreviation kEptMaxStructSize :: u32 where "kEptMaxStructSize \<equiv> 4096"
abbreviation kEptPageSize :: u64 where "kEptPageSize \<equiv> 4096"
abbreviation kEptMaxPhysicalAddressBits :: u32 where "kEptMaxPhysicalAddressBits \<equiv> 52"
abbreviation kEptMinWalkLength :: u32 where "kEptMinWalkLength \<equiv> 4"
abbreviation kEptMaxWalkLength :: u32 where "kEptMaxWalkLength \<equiv> 5"
abbreviation kEptMemoryTypeUc :: "'a::len word" where "kEptMemoryTypeUc \<equiv> 0"
abbreviation kEptMemoryTypeWb :: "'a::len word" where "kEptMemoryTypeWb \<equiv> 6"
abbreviation kEptpFlagAccessDirty :: u32 where "kEptpFlagAccessDirty \<equiv> 1"
abbreviation kEptpKnownFlagMask :: u32 where "kEptpKnownFlagMask \<equiv> kEptpFlagAccessDirty"
abbreviation kEptMappingFlagPresent :: u32 where "kEptMappingFlagPresent \<equiv> 1"
abbreviation kEptMappingFlagLargePage :: u32 where "kEptMappingFlagLargePage \<equiv> 2"
abbreviation kEptMappingFlagHostOwned :: u32 where "kEptMappingFlagHostOwned \<equiv> 8"
abbreviation kEptMappingKnownFlagMask :: u32 where "kEptMappingKnownFlagMask \<equiv> 15"
abbreviation kEptPermissionRead :: u32 where "kEptPermissionRead \<equiv> 1"
abbreviation kEptPermissionWrite :: u32 where "kEptPermissionWrite \<equiv> 2"
abbreviation kEptPermissionExecute :: u32 where "kEptPermissionExecute \<equiv> 4"
abbreviation kEptPermissionKnownMask :: u32 where "kEptPermissionKnownMask \<equiv> 7"
abbreviation kEptMaxMappingPages :: "'a::len word" where "kEptMaxMappingPages \<equiv> 1048576"
abbreviation kEptHookMaxCpuAcks :: u32 where "kEptHookMaxCpuAcks \<equiv> 4096"
abbreviation kEptHookKnownCetPolicyMask :: u32 where "kEptHookKnownCetPolicyMask \<equiv> 3"
abbreviation kEptHookKnownCfgPolicyMask :: u32 where "kEptHookKnownCfgPolicyMask \<equiv> 4"
abbreviation kEptpMemoryTypeMask :: u64 where "kEptpMemoryTypeMask \<equiv> 0x7"
abbreviation kEptpWalkLengthMask :: u64 where "kEptpWalkLengthMask \<equiv> 0x38"
abbreviation kEptpAccessDirtyBit :: u64 where "kEptpAccessDirtyBit \<equiv> 0x40"
abbreviation kEptPhysicalAddressMask :: u64 where "kEptPhysicalAddressMask \<equiv> 0x000FFFFFFFFFF000"
abbreviation kEptpKnownMask :: u64 where "kEptpKnownMask \<equiv> kEptPhysicalAddressMask OR 0x7F"

text \<open>
  The enumerations are stored in and compared as \<^verbatim>\<open>u32\<close>; each gets its constructors and the
  \<^verbatim>\<open>static_cast<u32>\<close> of the source.
\<close>

datatype EptAccess = EptAccessRead | EptAccessWrite | EptAccessExecute

fun EptAccess_u32 :: "EptAccess \<Rightarrow> u32" where
  "EptAccess_u32 EptAccessRead = 1"
| "EptAccess_u32 EptAccessWrite = 2"
| "EptAccess_u32 EptAccessExecute = 3"

datatype EptViewKind = RootNative | GuestRuntime | GuestDebug

fun EptViewKind_u32 :: "EptViewKind \<Rightarrow> u32" where
  "EptViewKind_u32 RootNative = 1"
| "EptViewKind_u32 GuestRuntime = 2"
| "EptViewKind_u32 GuestDebug = 3"

datatype EptHookKind = HookExecute | HookRead | HookWrite | HookAccess | HookMonitor

fun EptHookKind_u32 :: "EptHookKind \<Rightarrow> u32" where
  "EptHookKind_u32 HookExecute = 1"
| "EptHookKind_u32 HookRead = 2"
| "EptHookKind_u32 HookWrite = 3"
| "EptHookKind_u32 HookAccess = 4"
| "EptHookKind_u32 HookMonitor = 5"

datatype EptLookupStatus = EptHit | EptNotPresent | EptPermissionDenied | EptStale | EptInvalid
  | EptHostOwned

fun EptLookupStatus_u32 :: "EptLookupStatus \<Rightarrow> u32" where
  "EptLookupStatus_u32 EptHit = 0"
| "EptLookupStatus_u32 EptNotPresent = 1"
| "EptLookupStatus_u32 EptPermissionDenied = 2"
| "EptLookupStatus_u32 EptStale = 3"
| "EptLookupStatus_u32 EptInvalid = 4"
| "EptLookupStatus_u32 EptHostOwned = 5"

datatype EptHookState = HookLeaseActive | HookLeaseExpired | HookLeaseRevoked
  | HookLeaseQuarantined

fun EptHookState_u32 :: "EptHookState \<Rightarrow> u32" where
  "EptHookState_u32 HookLeaseActive = 1"
| "EptHookState_u32 HookLeaseExpired = 2"
| "EptHookState_u32 HookLeaseRevoked = 3"
| "EptHookState_u32 HookLeaseQuarantined = 4"

datatype EptGenerationState = GenActive | GenPending | GenRetired | GenQuarantined

fun EptGenerationState_u32 :: "EptGenerationState \<Rightarrow> u32" where
  "EptGenerationState_u32 GenActive = 1"
| "EptGenerationState_u32 GenPending = 2"
| "EptGenerationState_u32 GenRetired = 3"
| "EptGenerationState_u32 GenQuarantined = 4"

datatype EptHookTransactionState = TxPrepared | TxPublished | TxRetired | TxRolledBack
  | TxQuarantined

fun EptHookTransactionState_u32 :: "EptHookTransactionState \<Rightarrow> u32" where
  "EptHookTransactionState_u32 TxPrepared = 1"
| "EptHookTransactionState_u32 TxPublished = 2"
| "EptHookTransactionState_u32 TxRetired = 3"
| "EptHookTransactionState_u32 TxRolledBack = 4"
| "EptHookTransactionState_u32 TxQuarantined = 5"

section \<open>Structures\<close>

record EptpConfig =
  ec_size :: u32
  ec_version :: u32
  ec_root_physical :: u64
  ec_memory_type :: u32
  ec_walk_length :: u32
  ec_flags :: u32
  ec_reserved :: u32
  ec_generation :: u64

record EptMapping =
  em_size :: u32
  em_version :: u32
  em_guest_physical :: u64
  em_host_physical :: u64
  em_page_count :: u64
  em_page_order :: u32
  em_permissions :: u32
  em_memory_type :: u32
  em_flags :: u32
  em_generation :: u64

record EptLookupResult =
  elr_size :: u32
  elr_version :: u32
  elr_status :: u32
  elr_permissions :: u32
  elr_host_physical :: u64
  elr_generation :: u64

record EptHookLease =
  hl_size :: u32
  hl_version :: u32
  hl_owner_id :: u64
  hl_generation :: u64
  hl_expires_tsc :: u64
  hl_view :: u32
  hl_hook_kind :: u32
  hl_state :: u32
  hl_max_pages :: u32
  hl_max_exits_per_second :: u32
  hl_reserved :: u32

record EptHookRequest =
  hr_size :: u32
  hr_version :: u32
  hr_owner_id :: u64
  hr_expected_generation :: u64
  hr_guest_physical :: u64
  hr_page_count :: u64
  hr_view :: u32
  hr_hook_kind :: u32
  hr_permissions :: u32
  hr_reserved :: u32
  hr_module_hash0 :: u64
  hr_module_hash1 :: u64

record EptGeneration =
  eg_size :: u32
  eg_version :: u32
  eg_generation :: u64
  eg_parent_generation :: u64
  eg_state :: u32
  eg_required_cpu_acks :: u32
  eg_observed_cpu_acks :: u32
  eg_reserved :: u32

record EptHookMetadata =
  hm_size :: u32
  hm_version :: u32
  hm_original_page_physical :: u64
  hm_shadow_page_physical :: u64
  hm_module_hash0 :: u64
  hm_module_hash1 :: u64
  hm_target_rip :: u64
  hm_instruction_length :: u32
  hm_cet_policy :: u32
  hm_cfg_policy :: u32
  hm_reserved :: u32
  hm_rollback_generation :: u64

record EptHookTransaction =
  tx_size :: u32
  tx_version :: u32
  tx_transaction_id :: u64
  tx_owner_id :: u64
  tx_parent_generation :: u64
  tx_pending_generation :: u64
  tx_guest_physical :: u64
  tx_page_count :: u64
  tx_deadline_tsc :: u64
  tx_rollback_generation :: u64
  tx_view :: u32
  tx_hook_kind :: u32
  tx_state :: u32
  tx_required_cpu_acks :: u32
  tx_observed_cpu_acks :: u32
  tx_max_exits_per_second :: u32
  tx_reserved :: u32

abbreviation ept_versioned :: "u32 \<Rightarrow> u32 \<Rightarrow> u32 \<Rightarrow> bool" where
  "ept_versioned \<equiv> IsVersionedSizeValid kEptContractVersion kEptMaxStructSize"

section \<open>File-local helpers\<close>

abbreviation EptMappingSpan :: "EptMapping \<Rightarrow> (u64 \<times> u64) option" where
  "EptMappingSpan mapping \<equiv> MappingSpan (em_page_count mapping) (em_page_order mapping)"

definition IsHookKindValid :: "u32 \<Rightarrow> bool" where [knhv_valid]:
  "IsHookKindValid v \<longleftrightarrow> v \<ge> EptHookKind_u32 HookExecute \<and> v \<le> EptHookKind_u32 HookMonitor"

definition IsHookTransactionStateValid :: "u32 \<Rightarrow> bool" where [knhv_valid]:
  "IsHookTransactionStateValid v \<longleftrightarrow>
     v \<ge> EptHookTransactionState_u32 TxPrepared \<and> v \<le> EptHookTransactionState_u32 TxQuarantined"

definition IsHookRangeValid :: "u64 \<Rightarrow> u64 \<Rightarrow> bool" where
  "IsHookRangeValid guest_physical page_count \<longleftrightarrow>
     (if page_count = 0 \<or> page_count > kEptMaxMappingPages \<or>
         guest_physical AND (kEptPageSize - 1) \<noteq> 0 \<or> page_count > NOT 0 div kEptPageSize
      then False
      else let span = page_count * kEptPageSize
           in case AddOverflow guest_physical (span - 1) of
                None \<Rightarrow> False
              | Some last_byte \<Rightarrow> IsPhysicalAddress guest_physical kEptMaxPhysicalAddressBits \<and>
                             IsPhysicalAddress last_byte kEptMaxPhysicalAddressBits)"

definition IsCanonicalInstructionAddress :: "u64 \<Rightarrow> bool" where
  "IsCanonicalInstructionAddress address \<longleftrightarrow>
     (let upper = drop_bit 48 address in upper = 0 \<or> upper = 0xFFFF)"

text \<open>\<^verbatim>\<open>AddMulOverflow\<close>: \<open>None\<close> where the C++ function reports an overflow.\<close>

definition AddMulOverflow :: "u64 \<Rightarrow> u64 \<Rightarrow> u64 option" where
  "AddMulOverflow left right =
     (if right \<noteq> 0 \<and> left > NOT 0 div right then None else Some (left * right))"

definition MakeLookup :: "EptLookupStatus \<Rightarrow> u32 \<Rightarrow> u64 \<Rightarrow> u64 \<Rightarrow> EptLookupResult" where
  "MakeLookup status permissions hpa generation =
     \<lparr>elr_size = 32, elr_version = kEptContractVersion, elr_status = EptLookupStatus_u32 status,
      elr_permissions = permissions, elr_host_physical = hpa, elr_generation = generation\<rparr>"

section \<open>EPT pointers\<close>

definition IsEptpConfigValid :: "EptpConfig option \<Rightarrow> u32 \<Rightarrow> bool" where
  "IsEptpConfigValid config max_physical_bits = (case config of None \<Rightarrow> False | Some c \<Rightarrow>
     ept_versioned (ec_version c) (ec_size c) 40 \<and>
     ec_reserved c = 0 \<and>
     ec_flags c AND NOT kEptpKnownFlagMask = 0 \<and>
     (ec_memory_type c = kEptMemoryTypeUc \<or> ec_memory_type c = kEptMemoryTypeWb) \<and>
     ec_walk_length c \<ge> kEptMinWalkLength \<and> ec_walk_length c \<le> kEptMaxWalkLength \<and>
     ec_generation c \<noteq> 0 \<and>
     IsPhysicalAddress (ec_root_physical c) max_physical_bits \<and>
     ec_root_physical c AND (kEptPageSize - 1) = 0)"

text \<open>\<open>None\<close>: the C++ function returns false and leaves the output untouched.\<close>

definition BuildEptPointer :: "EptpConfig option \<Rightarrow> u64 option" where
  "BuildEptPointer config = (case config of None \<Rightarrow> None | Some c \<Rightarrow>
     if \<not> IsEptpConfigValid (Some c) kEptMaxPhysicalAddressBits then None
     else let v = ec_root_physical c AND kEptPhysicalAddressMask;
              v = v OR (ucast (ec_memory_type c) AND kEptpMemoryTypeMask);
              v = v OR push_bit 3 (ucast (ec_walk_length c - 1))
          in Some (if ec_flags c AND kEptpFlagAccessDirty \<noteq> 0 then v OR kEptpAccessDirtyBit else v))"

definition DecodeEptPointer :: "u64 \<Rightarrow> EptpConfig option" where
  "DecodeEptPointer raw_eptp =
     (let memory_type = raw_eptp AND kEptpMemoryTypeMask
      in if raw_eptp AND NOT kEptpKnownMask \<noteq> 0 \<or>
            (memory_type \<noteq> kEptMemoryTypeUc \<and> memory_type \<noteq> kEptMemoryTypeWb) then None
         else let walk_length = ucast (drop_bit 3 (raw_eptp AND kEptpWalkLengthMask)) + 1
              in if walk_length < kEptMinWalkLength \<or> walk_length > kEptMaxWalkLength then None
                 else Some \<lparr>ec_size = 40, ec_version = kEptContractVersion,
                            ec_root_physical = raw_eptp AND kEptPhysicalAddressMask,
                            ec_memory_type = ucast memory_type, ec_walk_length = walk_length,
                            ec_flags = (if raw_eptp AND kEptpAccessDirtyBit \<noteq> 0
                                        then kEptpFlagAccessDirty else 0),
                            ec_reserved = 0, ec_generation = 0\<rparr>)"

section \<open>Mappings and nested resolution\<close>

definition IsEptMappingValid :: "EptMapping option \<Rightarrow> u32 \<Rightarrow> bool" where
  "IsEptMappingValid mapping max_physical_bits = (case mapping of None \<Rightarrow> False | Some m \<Rightarrow>
     ept_versioned (em_version m) (em_size m) 56 \<and>
     em_flags m AND NOT kEptMappingKnownFlagMask = 0 \<and>
     em_flags m AND kEptMappingFlagPresent \<noteq> 0 \<and>
     em_permissions m AND NOT kEptPermissionKnownMask = 0 \<and>
     em_permissions m \<noteq> 0 \<and>
     (em_memory_type m = kEptMemoryTypeUc \<or> em_memory_type m = kEptMemoryTypeWb) \<and>
     em_generation m \<noteq> 0 \<and>
     (case EptMappingSpan m of None \<Rightarrow> False | Some (page_size, span_bytes) \<Rightarrow>
        em_guest_physical m AND (page_size - 1) = 0 \<and>
        em_host_physical m AND (page_size - 1) = 0 \<and>
        \<not> (em_page_order m = 0 \<and> em_flags m AND kEptMappingFlagLargePage \<noteq> 0) \<and>
        \<not> (em_page_order m \<noteq> 0 \<and> em_flags m AND kEptMappingFlagLargePage = 0) \<and>
        IsPhysicalAddress (em_guest_physical m) max_physical_bits \<and>
        IsPhysicalAddress (em_host_physical m) max_physical_bits \<and>
        (case AddOverflow (em_guest_physical m) (span_bytes - 1) of None \<Rightarrow> False
         | Some last_guest \<Rightarrow>
             (case AddOverflow (em_host_physical m) (span_bytes - 1) of None \<Rightarrow> False
              | Some last_host \<Rightarrow> IsPhysicalAddress last_guest max_physical_bits \<and>
                                  IsPhysicalAddress last_host max_physical_bits))))"

definition EptMappingContains :: "EptMapping option \<Rightarrow> u64 \<Rightarrow> bool" where
  "EptMappingContains mapping guest_physical = (case mapping of None \<Rightarrow> False | Some m \<Rightarrow>
     if \<not> IsEptMappingValid (Some m) kEptMaxPhysicalAddressBits then False
     else case EptMappingSpan m of None \<Rightarrow> False
          | Some (page_size, span_bytes) \<Rightarrow>
              if guest_physical < em_guest_physical m then False
              else guest_physical - em_guest_physical m < span_bytes)"

text \<open>The access is the \<^verbatim>\<open>u32\<close> value of an \<^verbatim>\<open>EptAccess\<close>; every other value is the default case.\<close>

definition IsEptAccessAllowed :: "u32 \<Rightarrow> u32 \<Rightarrow> bool" where
  "IsEptAccessAllowed permissions access =
     (if access = EptAccess_u32 EptAccessRead then permissions AND kEptPermissionRead \<noteq> 0
      else if access = EptAccess_u32 EptAccessWrite then permissions AND kEptPermissionWrite \<noteq> 0
      else if access = EptAccess_u32 EptAccessExecute then permissions AND kEptPermissionExecute \<noteq> 0
      else False)"

definition ResolveNestedEpt ::
  "EptMapping option \<Rightarrow> EptMapping option \<Rightarrow> u64 \<Rightarrow> u32 \<Rightarrow> EptLookupResult" where
  "ResolveNestedEpt l1_mapping root_mapping l2_guest_physical access =
    (case (l1_mapping, root_mapping) of (Some l1, Some root) \<Rightarrow>
      if \<not> IsEptMappingValid (Some l1) kEptMaxPhysicalAddressBits \<or>
         \<not> IsEptMappingValid (Some root) kEptMaxPhysicalAddressBits
      then MakeLookup EptInvalid 0 0 0
      else if em_generation l1 \<noteq> em_generation root
      then MakeLookup EptStale 0 0 (em_generation root)
      else if \<not> EptMappingContains (Some l1) l2_guest_physical
      then MakeLookup EptNotPresent 0 0 (em_generation root)
      else if \<not> IsEptAccessAllowed (em_permissions l1) access
      then MakeLookup EptPermissionDenied 0 0 (em_generation root)
      else let l1_offset = l2_guest_physical - em_guest_physical l1
      in case AddOverflow (em_host_physical l1) l1_offset of
        None \<Rightarrow> MakeLookup EptInvalid 0 0 (em_generation root)
      | Some l1_guest_physical \<Rightarrow>
          if \<not> EptMappingContains (Some root) l1_guest_physical
          then MakeLookup EptNotPresent 0 0 (em_generation root)
          else if em_flags root AND kEptMappingFlagHostOwned \<noteq> 0
          then MakeLookup EptHostOwned 0 0 (em_generation root)
          else if \<not> IsEptAccessAllowed (em_permissions root) access
          then MakeLookup EptPermissionDenied 0 0 (em_generation root)
          else let root_offset = l1_guest_physical - em_guest_physical root
          in case AddOverflow (em_host_physical root) root_offset of
            None \<Rightarrow> MakeLookup EptInvalid 0 0 (em_generation root)
          | Some host_physical \<Rightarrow>
              MakeLookup EptHit (em_permissions l1 AND em_permissions root) host_physical
                (em_generation root)
    | _ \<Rightarrow> MakeLookup EptInvalid 0 0 0)"

section \<open>Debug-hook leases and requests\<close>

definition IsEptHookLeaseValid :: "EptHookLease option \<Rightarrow> bool" where
  "IsEptHookLeaseValid lease = (case lease of None \<Rightarrow> False | Some l \<Rightarrow>
     ept_versioned (hl_version l) (hl_size l) 56 \<and>
     hl_owner_id l \<noteq> 0 \<and> hl_generation l \<noteq> 0 \<and> hl_expires_tsc l \<noteq> 0 \<and>
     hl_view l = EptViewKind_u32 GuestDebug \<and>
     IsHookKindValid (hl_hook_kind l) \<and>
     hl_state l = EptHookState_u32 HookLeaseActive \<and>
     hl_max_pages l \<noteq> 0 \<and> hl_max_pages l \<le> kEptMaxMappingPages \<and>
     hl_max_exits_per_second l \<noteq> 0 \<and> hl_reserved l = 0)"

definition IsEptHookRequestValid :: "EptHookRequest option \<Rightarrow> bool" where
  "IsEptHookRequestValid request = (case request of None \<Rightarrow> False | Some r \<Rightarrow>
     ept_versioned (hr_version r) (hr_size r) 72 \<and>
     hr_owner_id r \<noteq> 0 \<and> hr_expected_generation r \<noteq> 0 \<and>
     IsHookRangeValid (hr_guest_physical r) (hr_page_count r) \<and>
     hr_view r = EptViewKind_u32 GuestDebug \<and>
     IsHookKindValid (hr_hook_kind r) \<and>
     hr_permissions r AND NOT kEptPermissionKnownMask = 0 \<and>
     hr_permissions r \<noteq> 0 \<and> hr_reserved r = 0 \<and>
     \<not> (hr_module_hash0 r = 0 \<and> hr_module_hash1 r = 0))"

definition CanPublishEptHook ::
  "EptHookLease option \<Rightarrow> EptHookRequest option \<Rightarrow> u64 \<Rightarrow> u64 \<Rightarrow> bool" where
  "CanPublishEptHook lease request current_generation now_tsc =
    (case (lease, request) of (Some l, Some r) \<Rightarrow>
       IsEptHookLeaseValid (Some l) \<and> IsEptHookRequestValid (Some r) \<and>
       current_generation \<noteq> 0 \<and> hl_owner_id l = hr_owner_id r \<and>
       hl_generation l = current_generation \<and>
       hr_expected_generation r = current_generation \<and>
       hl_hook_kind l = hr_hook_kind r \<and>
       now_tsc < hl_expires_tsc l \<and>
       hr_page_count r \<le> ucast (hl_max_pages l)
     | _ \<Rightarrow> False)"

definition IsEptHookMetadataValid :: "EptHookMetadata option \<Rightarrow> bool" where
  "IsEptHookMetadataValid metadata = (case metadata of None \<Rightarrow> False | Some m \<Rightarrow>
     ept_versioned (hm_version m) (hm_size m) 72 \<and>
     hm_original_page_physical m \<noteq> hm_shadow_page_physical m \<and>
     hm_original_page_physical m \<noteq> 0 \<and> hm_shadow_page_physical m \<noteq> 0 \<and>
     hm_original_page_physical m AND (kEptPageSize - 1) = 0 \<and>
     hm_shadow_page_physical m AND (kEptPageSize - 1) = 0 \<and>
     IsPhysicalAddress (hm_original_page_physical m) kEptMaxPhysicalAddressBits \<and>
     IsPhysicalAddress (hm_shadow_page_physical m) kEptMaxPhysicalAddressBits \<and>
     \<not> (hm_module_hash0 m = 0 \<and> hm_module_hash1 m = 0) \<and>
     hm_target_rip m \<noteq> 0 \<and> IsCanonicalInstructionAddress (hm_target_rip m) \<and>
     hm_instruction_length m \<noteq> 0 \<and> hm_instruction_length m \<le> 15 \<and>
     hm_cet_policy m AND NOT kEptHookKnownCetPolicyMask = 0 \<and>
     hm_cfg_policy m AND NOT kEptHookKnownCfgPolicyMask = 0 \<and>
     hm_reserved m = 0 \<and> hm_rollback_generation m \<noteq> 0)"

section \<open>Hook transactions\<close>

definition IsEptHookTransactionValid :: "EptHookTransaction option \<Rightarrow> bool" where
  "IsEptHookTransactionValid transaction = (case transaction of None \<Rightarrow> False | Some t \<Rightarrow>
     ept_versioned (tx_version t) (tx_size t) 104 \<and>
     tx_transaction_id t \<noteq> 0 \<and> tx_owner_id t \<noteq> 0 \<and>
     tx_parent_generation t \<noteq> 0 \<and> tx_parent_generation t \<noteq> NOT 0 \<and>
     tx_pending_generation t = tx_parent_generation t + 1 \<and>
     tx_rollback_generation t = tx_parent_generation t \<and>
     tx_deadline_tsc t \<noteq> 0 \<and>
     IsHookRangeValid (tx_guest_physical t) (tx_page_count t) \<and>
     tx_view t = EptViewKind_u32 GuestDebug \<and>
     IsHookKindValid (tx_hook_kind t) \<and>
     IsHookTransactionStateValid (tx_state t) \<and>
     tx_required_cpu_acks t \<noteq> 0 \<and> tx_required_cpu_acks t \<le> kEptHookMaxCpuAcks \<and>
     tx_observed_cpu_acks t \<le> tx_required_cpu_acks t \<and>
     tx_max_exits_per_second t \<noteq> 0 \<and> tx_reserved t = 0)"

definition IsEptHookMetadataCompatible ::
  "EptHookRequest option \<Rightarrow> EptHookTransaction option \<Rightarrow> EptHookMetadata option \<Rightarrow> bool" where
  "IsEptHookMetadataCompatible request transaction metadata =
    (case (request, transaction, metadata) of (Some r, Some t, Some m) \<Rightarrow>
       IsEptHookRequestValid (Some r) \<and> IsEptHookTransactionValid (Some t) \<and>
       IsEptHookMetadataValid (Some m) \<and>
       (tx_state t = EptHookTransactionState_u32 TxPrepared \<or>
        tx_state t = EptHookTransactionState_u32 TxPublished) \<and>
       hr_owner_id r = tx_owner_id t \<and>
       hr_expected_generation r = tx_parent_generation t \<and>
       hr_guest_physical r = tx_guest_physical t \<and>
       hr_page_count r = tx_page_count t \<and>
       hr_view r = tx_view t \<and> hr_hook_kind r = tx_hook_kind t \<and>
       hr_module_hash0 r = hm_module_hash0 m \<and> hr_module_hash1 r = hm_module_hash1 m \<and>
       hm_rollback_generation m = tx_rollback_generation t
     | _ \<Rightarrow> False)"

definition zero_transaction :: EptHookTransaction where
  "zero_transaction = \<lparr>tx_size = 0, tx_version = 0, tx_transaction_id = 0, tx_owner_id = 0,
     tx_parent_generation = 0, tx_pending_generation = 0, tx_guest_physical = 0,
     tx_page_count = 0, tx_deadline_tsc = 0, tx_rollback_generation = 0, tx_view = 0,
     tx_hook_kind = 0, tx_state = 0, tx_required_cpu_acks = 0, tx_observed_cpu_acks = 0,
     tx_max_exits_per_second = 0, tx_reserved = 0\<rparr>"

definition BeginEptHookUpdate ::
  "EptHookLease option \<Rightarrow> EptHookRequest option \<Rightarrow> u64 \<Rightarrow> u64 \<Rightarrow> u32 \<Rightarrow> u64 \<Rightarrow>
   EptHookTransaction option \<Rightarrow> bool \<times> EptHookTransaction option" where [knhv_ops]:
  "BeginEptHookUpdate lease request current_generation now_tsc required_cpu_acks transaction_id
     transaction =
    (case transaction of None \<Rightarrow> (False, None) | Some _ \<Rightarrow>
     (case (lease, request) of (Some l, Some r) \<Rightarrow>
       if \<not> CanPublishEptHook (Some l) (Some r) current_generation now_tsc \<or>
          required_cpu_acks = 0 \<or> required_cpu_acks > kEptHookMaxCpuAcks \<or>
          transaction_id = 0 \<or> current_generation = NOT 0
       then (False, Some zero_transaction)
       else let t = zero_transaction
              \<lparr>tx_size := 104, tx_version := kEptContractVersion,
               tx_transaction_id := transaction_id, tx_owner_id := hr_owner_id r,
               tx_parent_generation := current_generation,
               tx_pending_generation := current_generation + 1,
               tx_guest_physical := hr_guest_physical r, tx_page_count := hr_page_count r,
               tx_deadline_tsc := hl_expires_tsc l,
               tx_rollback_generation := current_generation,
               tx_view := hr_view r, tx_hook_kind := hr_hook_kind r,
               tx_state := EptHookTransactionState_u32 TxPrepared,
               tx_required_cpu_acks := required_cpu_acks,
               tx_max_exits_per_second := hl_max_exits_per_second l\<rparr>
            in (IsEptHookTransactionValid (Some t), Some t)
     | _ \<Rightarrow> (False, Some zero_transaction)))"

definition IsEptHookTransactionLive :: "EptHookTransaction option \<Rightarrow> u64 \<Rightarrow> bool" where
  "IsEptHookTransactionLive transaction now_tsc = (case transaction of None \<Rightarrow> False | Some t \<Rightarrow>
     IsEptHookTransactionValid (Some t) \<and>
     (tx_state t = EptHookTransactionState_u32 TxPrepared \<or>
      tx_state t = EptHookTransactionState_u32 TxPublished) \<and>
     now_tsc < tx_deadline_tsc t)"

definition AcknowledgeEptHookCpu ::
  "EptHookTransaction option \<Rightarrow> u64 \<Rightarrow> u32 \<Rightarrow> u64 \<Rightarrow> bool \<times> EptHookTransaction option" where [knhv_ops]:
  "AcknowledgeEptHookCpu transaction generation cpu_count now_tsc =
    (case transaction of None \<Rightarrow> (False, None) | Some t \<Rightarrow>
       if \<not> IsEptHookTransactionLive (Some t) now_tsc \<or>
          tx_state t \<noteq> EptHookTransactionState_u32 TxPrepared \<or>
          generation \<noteq> tx_parent_generation t \<or> cpu_count = 0 \<or>
          cpu_count > tx_required_cpu_acks t - tx_observed_cpu_acks t
       then (False, Some t)
       else (True, Some (t\<lparr>tx_observed_cpu_acks := tx_observed_cpu_acks t + cpu_count\<rparr>)))"

definition PublishEptHookUpdate ::
  "EptHookTransaction option \<Rightarrow> u64 \<Rightarrow> u64 \<Rightarrow> bool \<times> EptHookTransaction option" where [knhv_ops]:
  "PublishEptHookUpdate transaction current_generation now_tsc =
    (case transaction of None \<Rightarrow> (False, None) | Some t \<Rightarrow>
       if \<not> IsEptHookTransactionLive (Some t) now_tsc \<or>
          tx_state t \<noteq> EptHookTransactionState_u32 TxPrepared \<or>
          current_generation \<noteq> tx_parent_generation t \<or>
          tx_observed_cpu_acks t \<noteq> tx_required_cpu_acks t
       then (False, Some t)
       else (True, Some (t\<lparr>tx_state := EptHookTransactionState_u32 TxPublished\<rparr>)))"

definition RetireEptHookUpdate ::
  "EptHookTransaction option \<Rightarrow> u64 \<Rightarrow> bool \<times> EptHookTransaction option" where [knhv_ops]:
  "RetireEptHookUpdate transaction current_generation =
    (case transaction of None \<Rightarrow> (False, None) | Some t \<Rightarrow>
       if \<not> IsEptHookTransactionValid (Some t) \<or>
          tx_state t \<noteq> EptHookTransactionState_u32 TxPublished \<or>
          current_generation \<noteq> tx_pending_generation t
       then (False, Some t)
       else (True, Some (t\<lparr>tx_state := EptHookTransactionState_u32 TxRetired\<rparr>)))"

definition RollbackEptHookUpdate ::
  "EptHookTransaction option \<Rightarrow> u64 \<Rightarrow> bool \<times> EptHookTransaction option" where [knhv_ops]:
  "RollbackEptHookUpdate transaction current_generation =
    (case transaction of None \<Rightarrow> (False, None) | Some t \<Rightarrow>
       if \<not> IsEptHookTransactionValid (Some t) \<or>
          (tx_state t \<noteq> EptHookTransactionState_u32 TxPrepared \<and>
           tx_state t \<noteq> EptHookTransactionState_u32 TxPublished) \<or>
          (if tx_state t = EptHookTransactionState_u32 TxPrepared
           then current_generation \<noteq> tx_parent_generation t
           else current_generation \<noteq> tx_pending_generation t)
       then (False, Some t)
       else (True, Some (t\<lparr>tx_state := EptHookTransactionState_u32 TxRolledBack\<rparr>)))"

definition QuarantineEptHookUpdate ::
  "EptHookTransaction option \<Rightarrow> u64 \<Rightarrow> bool \<times> EptHookTransaction option" where [knhv_ops]:
  "QuarantineEptHookUpdate transaction current_generation =
    (case transaction of None \<Rightarrow> (False, None) | Some t \<Rightarrow>
       if \<not> IsEptHookTransactionValid (Some t) \<or>
          tx_state t = EptHookTransactionState_u32 TxRetired \<or>
          tx_state t = EptHookTransactionState_u32 TxRolledBack \<or>
          tx_state t = EptHookTransactionState_u32 TxQuarantined \<or>
          (if tx_state t = EptHookTransactionState_u32 TxPrepared
           then current_generation \<noteq> tx_parent_generation t
           else current_generation \<noteq> tx_pending_generation t)
       then (False, Some t)
       else (True, Some (t\<lparr>tx_state := EptHookTransactionState_u32 TxQuarantined\<rparr>)))"

definition ExpireEptHookUpdate ::
  "EptHookTransaction option \<Rightarrow> u64 \<Rightarrow> u64 \<Rightarrow> bool \<times> EptHookTransaction option" where [knhv_ops]:
  "ExpireEptHookUpdate transaction current_generation now_tsc =
    (case transaction of None \<Rightarrow> (False, None) | Some t \<Rightarrow>
       if \<not> IsEptHookTransactionValid (Some t) \<or> now_tsc < tx_deadline_tsc t then (False, Some t)
       else if tx_state t = EptHookTransactionState_u32 TxPrepared \<and>
               current_generation = tx_parent_generation t
       then (True, Some (t\<lparr>tx_state := EptHookTransactionState_u32 TxRolledBack\<rparr>))
       else if tx_state t = EptHookTransactionState_u32 TxPublished \<and>
               current_generation = tx_pending_generation t
       then (True, Some (t\<lparr>tx_state := EptHookTransactionState_u32 TxQuarantined\<rparr>))
       else (False, Some t))"

section \<open>Hook rate and generations\<close>

definition IsEptHookRateWithin :: "EptHookLease option \<Rightarrow> u64 \<Rightarrow> u64 \<Rightarrow> u64 \<Rightarrow> bool" where
  "IsEptHookRateWithin lease exit_count window_tsc tsc_hz = (case lease of None \<Rightarrow> False | Some l \<Rightarrow>
     if \<not> IsEptHookLeaseValid (Some l) \<or> tsc_hz = 0 \<or> window_tsc = 0 then False
     else if window_tsc \<ge> tsc_hz
     then let seconds = window_tsc div tsc_hz
          in case AddMulOverflow (ucast (hl_max_exits_per_second l)) seconds of
               None \<Rightarrow> False
             | Some allowed \<Rightarrow> exit_count \<le> allowed
     else if exit_count > NOT 0 div tsc_hz \<or>
             ucast (hl_max_exits_per_second l) > NOT 0 div window_tsc then False
     else exit_count * tsc_hz \<le> ucast (hl_max_exits_per_second l) * window_tsc)"

definition NextEptGeneration :: "u64 \<Rightarrow> u64 option" where
  "NextEptGeneration current_generation =
     (if current_generation = NOT 0 then None
      else Some (if current_generation = 0 then 1 else current_generation + 1))"

definition BeginEptGeneration ::
  "EptGeneration option \<Rightarrow> EptGeneration option \<Rightarrow> bool \<times> EptGeneration option" where
  "BeginEptGeneration current pending =
    (case (current, pending) of (Some c, Some p) \<Rightarrow>
       if \<not> ept_versioned (eg_version c) (eg_size c) 40 \<or>
          eg_state c \<noteq> EptGenerationState_u32 GenActive \<or>
          eg_generation c = 0 \<or> eg_reserved c \<noteq> 0 then (False, Some p)
       else (case NextEptGeneration (eg_generation c) of
               None \<Rightarrow> (False, Some p)
             | Some next_generation \<Rightarrow>
                 (True, Some \<lparr>eg_size = 40, eg_version = kEptContractVersion,
                    eg_generation = next_generation, eg_parent_generation = eg_generation c,
                    eg_state = EptGenerationState_u32 GenPending, eg_required_cpu_acks = 0,
                    eg_observed_cpu_acks = 0, eg_reserved = 0\<rparr>))
     | _ \<Rightarrow> (False, pending))"

definition AcknowledgeEptGeneration ::
  "EptGeneration option \<Rightarrow> u32 \<Rightarrow> bool \<times> EptGeneration option" where
  "AcknowledgeEptGeneration pending cpu_count =
    (case pending of None \<Rightarrow> (False, None) | Some p \<Rightarrow>
       if \<not> ept_versioned (eg_version p) (eg_size p) 40 \<or>
          eg_state p \<noteq> EptGenerationState_u32 GenPending \<or>
          cpu_count = 0 \<or> eg_required_cpu_acks p = 0 \<or>
          eg_observed_cpu_acks p > eg_required_cpu_acks p \<or>
          cpu_count > eg_required_cpu_acks p - eg_observed_cpu_acks p
       then (False, Some p)
       else (True, Some (p\<lparr>eg_observed_cpu_acks := eg_observed_cpu_acks p + cpu_count\<rparr>)))"

definition PublishEptGeneration :: "EptGeneration option \<Rightarrow> bool \<times> EptGeneration option" where
  "PublishEptGeneration pending =
    (case pending of None \<Rightarrow> (False, None) | Some p \<Rightarrow>
       if \<not> ept_versioned (eg_version p) (eg_size p) 40 \<or>
          eg_state p \<noteq> EptGenerationState_u32 GenPending \<or>
          eg_required_cpu_acks p = 0 \<or>
          eg_observed_cpu_acks p \<noteq> eg_required_cpu_acks p
       then (False, Some p)
       else (True, Some (p\<lparr>eg_state := EptGenerationState_u32 GenActive\<rparr>)))"

section \<open>Mappings as contiguous ranges\<close>

text \<open>The bytes a mapping covers, as a natural number.\<close>

definition em_span :: "EptMapping \<Rightarrow> nat" where
  "em_span m = unat (em_page_count m) * 2 ^ (12 + 9 * unat (em_page_order m))"

lemma EptMappingSpan_em_span:
  assumes "EptMappingSpan m = Some (ps, span)"
  shows "unat span = em_span m" and "0 < unat span"
  using MappingSpan_SomeD [OF assms] by (simp_all add: em_span_def)

lemma IsEptMappingValid_SomeE:
  assumes "IsEptMappingValid (Some m) bits"
  obtains ps span where "EptMappingSpan m = Some (ps, span)"
    and "em_guest_physical m AND (ps - 1) = 0" and "em_host_physical m AND (ps - 1) = 0"
    and "unat (em_guest_physical m) + em_span m \<le> 2 ^ unat bits"
    and "unat (em_host_physical m) + em_span m \<le> 2 ^ unat bits"
    and "IsAddressBitsValid bits" and "em_generation m \<noteq> 0" and "em_permissions m \<noteq> 0"
proof -
  obtain ps span lg lh where *: "EptMappingSpan m = Some (ps, span)"
    "em_guest_physical m AND (ps - 1) = 0" "em_host_physical m AND (ps - 1) = 0"
    "AddOverflow (em_guest_physical m) (span - 1) = Some lg"
    "AddOverflow (em_host_physical m) (span - 1) = Some lh"
    "IsPhysicalAddress lg bits" "IsPhysicalAddress lh bits"
    "em_generation m \<noteq> 0" "em_permissions m \<noteq> 0"
    using assms by (auto simp: IsEptMappingValid_def split: option.splits)
  have sp: "unat span = em_span m" "0 < unat span"
    using EptMappingSpan_em_span [OF *(1)] .
  show ?thesis
    using that [OF *(1-3)] range_fits [OF sp(2) *(4,6)] range_fits [OF sp(2) *(5,7)] *(6,8,9)
    by (simp add: sp(1) IsPhysicalAddress_iff)
qed

lemma EptMappingContains_iff:
  assumes "IsEptMappingValid (Some m) 52"
  shows "EptMappingContains (Some m) a \<longleftrightarrow>
           unat (em_guest_physical m) \<le> unat a \<and> unat a < unat (em_guest_physical m) + em_span m"
proof -
  obtain ps span where sp: "EptMappingSpan m = Some (ps, span)"
    using assms by (rule IsEptMappingValid_SomeE)
  have "EptMappingContains (Some m) a \<longleftrightarrow>
          em_guest_physical m \<le> a \<and> a - em_guest_physical m < span"
    using assms sp by (auto simp: EptMappingContains_def not_less)
  also have "\<dots> \<longleftrightarrow> unat (em_guest_physical m) \<le> unat a \<and>
                       unat a - unat (em_guest_physical m) < unat span"
    by (auto simp: word_le_nat_alt word_less_nat_alt unat_sub)
  finally show ?thesis
    using EptMappingSpan_em_span(1) [OF sp] by auto
qed

interpretation ept_range: mapped_range "\<lambda>m. IsEptMappingValid (Some m) 52" em_guest_physical
  em_host_physical em_span 52 "\<lambda>m. EptMappingContains (Some m)"
proof
  fix m :: EptMapping and a :: u64
  assume v: "IsEptMappingValid (Some m) 52"
  from v obtain ps span where sp: "EptMappingSpan m = Some (ps, span)"
    and al: "em_guest_physical m AND (ps - 1) = 0" "em_host_physical m AND (ps - 1) = 0"
    and "unat (em_guest_physical m) + em_span m \<le> 2 ^ unat (52 :: u32)"
    and le: "unat (em_host_physical m) + em_span m \<le> 2 ^ unat (52 :: u32)"
    by (rule IsEptMappingValid_SomeE)
  have ps: "unat ps = 2 ^ (12 + 9 * unat (em_page_order m))" and
       n: "12 + 9 * unat (em_page_order m) < 64"
    using MappingSpan_SomeD(1,2) [OF sp] by (simp_all add: word_le_nat_alt)
  have d: "(4096 :: nat) dvd 2 ^ (12 + 9 * unat (em_page_order m))"
    using le_imp_power_dvd [of 12 "12 + 9 * unat (em_page_order m)" "2 :: nat"] by simp
  show "(52 :: nat) \<le> 52" by simp
  show "unat (em_host_physical m) + em_span m \<le> 2 ^ 52"
    using le by simp
  show "4096 dvd unat (em_guest_physical m)"
    using d al(1) aligned_iff_dvd [OF ps n] dvd_trans by blast
  show "4096 dvd unat (em_host_physical m)"
    using d al(2) aligned_iff_dvd [OF ps n] dvd_trans by blast
  show "EptMappingContains (Some m) a \<longleftrightarrow>
          unat (em_guest_physical m) \<le> unat a \<and> unat a < unat (em_guest_physical m) + em_span m"
    by (rule EptMappingContains_iff [OF v])
qed

interpretation ept_walk: two_stage "\<lambda>m. IsEptMappingValid (Some m) 52" em_guest_physical
  em_host_physical em_guest_physical em_host_physical em_span 52
  "\<lambda>m. EptMappingContains (Some m)" "\<lambda>m. EptMappingContains (Some m)"
  by unfold_locales

section \<open>Nested resolution\<close>

text \<open>The intermediate and the final address of the walk.\<close>

definition ept_l1_address :: "EptMapping \<Rightarrow> u64 \<Rightarrow> u64" where
  "ept_l1_address l1 gpa = em_host_physical l1 + (gpa - em_guest_physical l1)"

definition ept_host_address :: "EptMapping \<Rightarrow> EptMapping \<Rightarrow> u64 \<Rightarrow> u64" where
  "ept_host_address l1 root gpa =
     em_host_physical root + (ept_l1_address l1 gpa - em_guest_physical root)"

text \<open>When a walk may hit: the specification the resolver is compared with.\<close>

definition ept_may_access :: "EptMapping \<Rightarrow> EptMapping \<Rightarrow> u64 \<Rightarrow> u32 \<Rightarrow> bool" where
  "ept_may_access l1 root gpa access \<longleftrightarrow>
     IsEptMappingValid (Some l1) 52 \<and> IsEptMappingValid (Some root) 52 \<and>
     em_generation l1 = em_generation root \<and>
     EptMappingContains (Some l1) gpa \<and>
     EptMappingContains (Some root) (ept_l1_address l1 gpa) \<and>
     em_flags root AND kEptMappingFlagHostOwned = 0 \<and>
     IsEptAccessAllowed (em_permissions l1) access \<and>
     IsEptAccessAllowed (em_permissions root) access"

lemma MakeLookup_sel [simp]:
  "elr_status (MakeLookup st p h g) = EptLookupStatus_u32 st"
  "elr_permissions (MakeLookup st p h g) = p"
  "elr_host_physical (MakeLookup st p h g) = h"
  "elr_generation (MakeLookup st p h g) = g"
  by (simp_all add: MakeLookup_def)

lemma EptLookupStatus_u32_inj [simp]:
  "EptLookupStatus_u32 a = EptLookupStatus_u32 b \<longleftrightarrow> a = b"
  by (cases a; cases b) simp_all

text \<open>Once both stages contain the address the overflow branches of the resolver are dead.\<close>

lemma ResolveNestedEpt_alt:
  "ResolveNestedEpt (Some l1) (Some root) gpa access =
     (if \<not> IsEptMappingValid (Some l1) 52 \<or> \<not> IsEptMappingValid (Some root) 52
      then MakeLookup EptInvalid 0 0 0
      else if em_generation l1 \<noteq> em_generation root
      then MakeLookup EptStale 0 0 (em_generation root)
      else if \<not> EptMappingContains (Some l1) gpa
      then MakeLookup EptNotPresent 0 0 (em_generation root)
      else if \<not> IsEptAccessAllowed (em_permissions l1) access
      then MakeLookup EptPermissionDenied 0 0 (em_generation root)
      else if \<not> EptMappingContains (Some root) (ept_l1_address l1 gpa)
      then MakeLookup EptNotPresent 0 0 (em_generation root)
      else if em_flags root AND kEptMappingFlagHostOwned \<noteq> 0
      then MakeLookup EptHostOwned 0 0 (em_generation root)
      else if \<not> IsEptAccessAllowed (em_permissions root) access
      then MakeLookup EptPermissionDenied 0 0 (em_generation root)
      else MakeLookup EptHit (em_permissions l1 AND em_permissions root)
             (ept_host_address l1 root gpa) (em_generation root))"
  using ept_range.translate_no_overflow [of l1 gpa]
    ept_range.translate_no_overflow [of root "ept_l1_address l1 gpa"]
  unfolding ResolveNestedEpt_def ept_host_address_def ept_l1_address_def Let_def
  by (simp split: option.split)

lemma ResolveNestedEpt_hit_iff:
  "elr_status (ResolveNestedEpt (Some l1) (Some root) gpa access) = EptLookupStatus_u32 EptHit \<longleftrightarrow>
     ept_may_access l1 root gpa access"
  by (auto simp: ResolveNestedEpt_alt ept_may_access_def)

section \<open>EPT pointers round trip\<close>

lemma page_aligned_pa:
  assumes "(r::u64) AND 4095 = 0" "drop_bit 52 r = 0" shows "r AND 0x000FFFFFFFFFF000 = r"
proof -
  have m: "(0x000FFFFFFFFFF000::u64) = mask 52 AND NOT (mask 12)"
    by (simp add: mask_eq_exp_minus_1)
  have hi: "take_bit 52 r = r" using assms(2) by (simp add: take_bit_eq_self_iff_drop_bit_eq_0)
  have lo: "take_bit 12 r = 0" using assms(1) by (simp add: take_bit_eq_mask mask_eq_exp_minus_1)
  show ?thesis unfolding m
  proof (rule bit_word_eqI)
    fix n show "bit (r AND (mask 52 AND NOT (mask 12))) n = bit r n"
      using arg_cong [OF hi, of "\<lambda>w. bit w n"] arg_cong [OF lo, of "\<lambda>w. bit w n"]
      by (auto simp: bit_simps)
  qed
qed

lemma eptp_config_cases:
  assumes "IsEptpConfigValid (Some c) 52"
  shows "ec_memory_type c \<in> {0, 6}" "ec_walk_length c \<in> {4, 5}" "ec_flags c \<in> {0, 1}"
    "ec_root_physical c AND 4095 = 0" "drop_bit 52 (ec_root_physical c) = 0"
    "ec_reserved c = 0" "ec_version c = 1"
proof -
  have v: "ec_memory_type c = 0 \<or> ec_memory_type c = 6" "4 \<le> ec_walk_length c"
    "ec_walk_length c \<le> 5" "ec_flags c AND NOT 1 = 0" "ec_root_physical c AND 4095 = 0"
    "drop_bit 52 (ec_root_physical c) = 0" "ec_reserved c = 0" "ec_version c = 1"
    using assms by (auto simp: IsEptpConfigValid_def IsVersionedSizeValid_def IsPhysicalAddress_def)
  show "ec_memory_type c \<in> {0, 6}" "ec_root_physical c AND 4095 = 0"
    "drop_bit 52 (ec_root_physical c) = 0" "ec_reserved c = 0" "ec_version c = 1"
    using v by auto
  have "unat (ec_walk_length c) = 4 \<or> unat (ec_walk_length c) = 5"
    using v(2,3) by (auto simp: word_le_nat_alt)
  then show "ec_walk_length c \<in> {4, 5}" by (auto simp: word_unat_eq_iff)
  have "ec_flags c = ec_flags c AND 1"
    using v(4) unfolding known_mask_iff by simp
  also have "... \<in> {0, 1}" by (auto simp: and_one_eq)
  finally show "ec_flags c \<in> {0, 1}" .
qed

lemma BuildEptPointer_eq:
  assumes "IsEptpConfigValid (Some c) 52"
  shows "BuildEptPointer (Some c) =
    Some (ec_root_physical c OR (ucast (ec_memory_type c) OR push_bit 3 (ucast (ec_walk_length c - 1)) OR
      push_bit 6 (ucast (ec_flags c))))"
proof -
  note cs = eptp_config_cases [OF assms]
  show ?thesis
    unfolding BuildEptPointer_def Let_def using cs(1-3) assms
    by (elim insertE emptyE) (simp_all add: page_aligned_pa [OF cs(4,5)] or.assoc)
qed

lemma DecodeEptPointer_or:
  assumes "(r::u64) AND 4095 = 0" "drop_bit 52 r = 0"
    and low: "low AND 0x7F = low"
  shows "(r OR low) AND 0xFFF0000000000F80 = 0" "(r OR low) AND 7 = low AND 7" "(r OR low) AND 0x38 = low AND 0x38"
    "(r OR low) AND 0x40 = low AND 0x40"  "(r OR low) AND 0x000FFFFFFFFFF000 = r"
proof -
  have pa: "r AND 0x000FFFFFFFFFF000 = r" by (rule page_aligned_pa [OF assms(1,2)])
  have "(r AND 0x000FFFFFFFFFF000) AND 0xFFF0000000000F80 = 0" by (simp add: and.assoc)
  then have "r AND 0xFFF0000000000F80 = 0" using pa by simp
  moreover have "(low AND 0x7F) AND 0xFFF0000000000F80 = 0" "(low AND 0x7F) AND 0x000FFFFFFFFFF000 = 0" by (simp_all add: and.assoc)
  ultimately show "(r OR low) AND 0xFFF0000000000F80 = 0" "(r OR low) AND 0x000FFFFFFFFFF000 = r"
    using low pa by (simp_all add: word_ao_dist)
  show  "(r OR low) AND 7 = low AND 7" "(r OR low) AND 0x38 = low AND 0x38"
    "(r OR low) AND 0x40 = low AND 0x40" 
    by (simp_all add: word_ao_dist low_bits_clear [OF assms(1)])
qed

lemma eptp_low_bits: assumes "mt \<in> {0, 6::u32}" "wl \<in> {4,5::u32}" "fl \<in> {0,1::u32}"
  shows "(ucast mt OR push_bit 3 (ucast (wl - 1)) OR push_bit 6 (ucast fl)) AND 0x7F = (ucast mt OR push_bit 3 (ucast (wl - 1)) OR push_bit 6 (ucast fl) :: u64)"
  using assms by (elim insertE emptyE) simp_all

lemma not_known_mask: "NOT kEptpKnownMask = 0xFFF0000000000F80" by simp

lemma DecodeEptPointer_low: assumes "(r::u64) AND 4095 = 0" "drop_bit 52 r = 0" "low AND 0x7F = low" 
 shows "DecodeEptPointer (r OR low) = (if low AND 7 \<noteq> 0 \<and> low AND 7 \<noteq> 6 then None
         else let walk_length = ucast (drop_bit 3 (low AND kEptpWalkLengthMask)) + 1
              in if walk_length < kEptMinWalkLength \<or> walk_length > kEptMaxWalkLength then None
                 else Some \<lparr>ec_size = 40, ec_version = kEptContractVersion,
                            ec_root_physical = r,
                            ec_memory_type = ucast (low AND 7), ec_walk_length = walk_length,
                            ec_flags = (if low AND kEptpAccessDirtyBit \<noteq> 0
                                        then kEptpFlagAccessDirty else 0),
                            ec_reserved = 0, ec_generation = 0\<rparr>)"
  unfolding DecodeEptPointer_def Let_def not_known_mask DecodeEptPointer_or[OF assms] by (simp only: simp_thms)

lemma DecodeEptPointer_built: assumes "mt \<in> {0, 6::u32}" "wl \<in> {4,5::u32}" "fl \<in> {0,1::u32}" "(r::u64) AND 4095 = 0" "drop_bit 52 r = 0"
  shows "DecodeEptPointer (r OR (ucast mt OR push_bit 3 (ucast (wl - 1)) OR push_bit 6 (ucast fl))) =
     Some \<lparr>ec_size = 40, ec_version = kEptContractVersion, ec_root_physical = r, ec_memory_type = mt,
       ec_walk_length = wl, ec_flags = fl, ec_reserved = 0, ec_generation = 0\<rparr>"
  unfolding DecodeEptPointer_low [OF assms(4,5) eptp_low_bits [OF assms(1-3)]]
  using assms(1-3) by (elim insertE emptyE) simp_all

lemma raw_split:
  assumes "(raw::u64) AND NOT kEptpKnownMask = 0"
  shows "raw = (raw AND kEptPhysicalAddressMask) OR ((raw AND 7) OR ((raw AND 0x38) OR (raw AND 0x40)))"
proof -
  have "raw = raw AND kEptpKnownMask"
    using assms unfolding known_mask_iff by simp
  also have "kEptpKnownMask = kEptPhysicalAddressMask OR (7 OR (0x38 OR 0x40))" by simp
  finally show ?thesis unfolding word_ao_dist2 .
qed

lemma walk_bits:
  assumes "walk = ucast (drop_bit 3 ((raw::u64) AND 0x38)) + (1::u32)" "\<not> walk < 4" "\<not> walk > 5"
  shows "raw AND 0x38 = push_bit 3 (ucast (walk - 1))" "walk \<in> {4,5}"
proof -
  define w where "w = drop_bit 3 (raw AND 0x38)"
  have w: "w = drop_bit 3 raw AND 7" unfolding w_def by (simp add: drop_bit_and)
  have "w \<le> 7" unfolding w by (rule word_and_le1)
  then have "unat w < 8" by (simp add: word_le_nat_alt)
  then have "w \<in> {0, 1, 2, 3, 4, 5, 6, 7}" by (rule three_bits)
  then have w2: "w = 3 \<or> w = 4" using assms(2,3) unfolding assms(1) w_def[symmetric]
    by (elim insertE emptyE) simp_all
  then show "walk \<in> {4,5}" unfolding assms(1) w_def[symmetric] by auto
  have "raw AND 0x38 = push_bit 3 w"
  proof -
    have "take_bit 3 (raw AND 0x38) = 0"
      by (simp add: take_bit_eq_mask mask_eq_exp_minus_1 and.assoc)
    then show ?thesis
      using bits_ident [of 3 "raw AND 0x38"] by (simp add: w_def)
  qed
  then show "raw AND 0x38 = push_bit 3 (ucast (walk - 1))"
     using w2 unfolding assms(1) w_def[symmetric] by auto
qed

lemma dirty_bit: "(raw::u64) AND 0x40 = 0 \<or> raw AND 0x40 = 0x40"
  using single_bit [of raw 6] by simp

text \<open>
C2: Building the EPT pointer of a valid configuration succeeds, and decoding it gives the
configuration back with the canonical size and an unset generation.
\<close>

theorem eptp_build_decode:
  "IsEptpConfigValid (Some c) 52 \<Longrightarrow>
   \<exists>raw. BuildEptPointer (Some c) = Some raw \<and> DecodeEptPointer raw = Some (c\<lparr>ec_size := 40, ec_generation := 0\<rparr>)"
proof -
  assume v: "IsEptpConfigValid (Some c) 52"
  note cs = eptp_config_cases [OF v]
  have c: "c\<lparr>ec_size := 40, ec_generation := 0\<rparr> = \<lparr>ec_size = 40, ec_version = 1,
      ec_root_physical = ec_root_physical c, ec_memory_type = ec_memory_type c,
      ec_walk_length = ec_walk_length c, ec_flags = ec_flags c, ec_reserved = 0, ec_generation = 0\<rparr>"
    using cs(6,7) by (cases c) simp
  show ?thesis using BuildEptPointer_eq [OF v] DecodeEptPointer_built [OF cs(1-5)] unfolding c by blast
qed

theorem eptp_decode_build:
  assumes "DecodeEptPointer raw = Some c" and "g \<noteq> 0"
  shows "BuildEptPointer (Some (c\<lparr>ec_generation := g\<rparr>)) = Some raw"
proof -
  define root where "root = raw AND kEptPhysicalAddressMask"
  define walk :: u32 where "walk = ucast (drop_bit 3 (raw AND 0x38)) + 1"
  have k: "raw AND NOT kEptpKnownMask = 0" and mt: "raw AND 7 = 0 \<or> raw AND 7 = 6"
    and wl: "\<not> walk < 4" "\<not> walk > 5"
    and c: "c = \<lparr>ec_size = 40, ec_version = 1, ec_root_physical = root,
      ec_memory_type = ucast (raw AND 7), ec_walk_length = walk,
      ec_flags = (if raw AND 0x40 \<noteq> 0 then 1 else 0), ec_reserved = 0, ec_generation = 0\<rparr>"
    using assms(1) unfolding DecodeEptPointer_def Let_def walk_def root_def
    by (auto split: if_splits)
  note w = walk_bits [OF walk_def wl]
  have al: "root AND 4095 = 0" "drop_bit 52 root = 0"
    by (simp_all add: root_def and.assoc drop_bit_and)
  have v: "IsEptpConfigValid (Some (c\<lparr>ec_generation := g\<rparr>)) 52"
    using mt w(2) al assms(2)
    by (auto simp: c IsEptpConfigValid_def IsVersionedSizeValid_def IsPhysicalAddress_def IsAddressBitsValid_def)
  have b: "BuildEptPointer (Some (c\<lparr>ec_generation := g\<rparr>)) = Some (root OR ((raw AND 7) OR ((raw AND 0x38) OR (raw AND 0x40))))"
    unfolding BuildEptPointer_eq [OF v] w(1) using mt dirty_bit [of raw] by (auto simp: c)
  show ?thesis unfolding b root_def using raw_split [OF k] by simp
qed

section \<open>The hook transaction machine\<close>

text \<open>One rule per operation that succeeds on a transaction.\<close>

inductive hook_step :: "EptHookTransaction \<Rightarrow> EptHookTransaction \<Rightarrow> bool" where
  step_ack: "AcknowledgeEptHookCpu (Some t) gen n now = (True, Some t') \<Longrightarrow> hook_step t t'"
| step_publish: "PublishEptHookUpdate (Some t) gen now = (True, Some t') \<Longrightarrow> hook_step t t'"
| step_retire: "RetireEptHookUpdate (Some t) gen = (True, Some t') \<Longrightarrow> hook_step t t'"
| step_rollback: "RollbackEptHookUpdate (Some t) gen = (True, Some t') \<Longrightarrow> hook_step t t'"
| step_quarantine: "QuarantineEptHookUpdate (Some t) gen = (True, Some t') \<Longrightarrow> hook_step t t'"
| step_expire: "ExpireEptHookUpdate (Some t) gen now = (True, Some t') \<Longrightarrow> hook_step t t'"

lemma hook_state_cases:
  assumes "IsEptHookTransactionValid (Some t)"
  shows "tx_state t \<in> {1, 2, 3, 4, 5}"
proof -
  have "IsHookTransactionStateValid (tx_state t)"
    using assms by (simp add: IsEptHookTransactionValid_def)
  then have "1 \<le> unat (tx_state t)" "unat (tx_state t) \<le> 5"
    by (simp_all add: IsHookTransactionStateValid_def word_le_nat_alt)
  then have "unat (tx_state t) \<in> {1, 2, 3, 4, 5}" by auto
  then show ?thesis by (auto simp: word_unat_eq_iff)
qed

text \<open>Every successful step either records acknowledgements or changes the state alone.\<close>

lemma hook_stepE:
  assumes "hook_step t t'"
  obtains (ack) n where "tx_state t = 1" "n \<noteq> 0" "n \<le> tx_required_cpu_acks t - tx_observed_cpu_acks t"
      "t' = t\<lparr>tx_observed_cpu_acks := tx_observed_cpu_acks t + n\<rparr>" "IsEptHookTransactionValid (Some t)"
  | (publish) "tx_state t = 1" "tx_observed_cpu_acks t = tx_required_cpu_acks t"
      "t' = t\<lparr>tx_state := 2\<rparr>" "IsEptHookTransactionValid (Some t)"
  | (retire) "tx_state t = 2" "t' = t\<lparr>tx_state := 3\<rparr>" "IsEptHookTransactionValid (Some t)"
  | (abandon) s where "tx_state t = 1 \<or> tx_state t = 2" "s = 4 \<or> s = 5" "t' = t\<lparr>tx_state := s\<rparr>"
      "IsEptHookTransactionValid (Some t)"
  using assms
proof cases
  case (step_ack gen n now)
  then have "IsEptHookTransactionValid (Some t)" "tx_state t = 1" "n \<noteq> 0"
    "n \<le> tx_required_cpu_acks t - tx_observed_cpu_acks t"
    "t' = t\<lparr>tx_observed_cpu_acks := tx_observed_cpu_acks t + n\<rparr>"
    by (simp_all add: AcknowledgeEptHookCpu_def IsEptHookTransactionLive_def not_less split: if_splits)
  then show ?thesis by (intro ack)
next
  case (step_publish gen now)
  then have "IsEptHookTransactionValid (Some t)" "tx_state t = 1"
    "tx_observed_cpu_acks t = tx_required_cpu_acks t" "t' = t\<lparr>tx_state := 2\<rparr>"
    by (simp_all add: PublishEptHookUpdate_def IsEptHookTransactionLive_def split: if_splits)
  then show ?thesis by (intro publish)
next
  case (step_retire gen)
  then have "IsEptHookTransactionValid (Some t)" "tx_state t = 2" "t' = t\<lparr>tx_state := 3\<rparr>"
    by (simp_all add: RetireEptHookUpdate_def split: if_splits)
  then show ?thesis by (intro retire)
next
  case (step_rollback gen)
  then have "IsEptHookTransactionValid (Some t)" "tx_state t = 1 \<or> tx_state t = 2"
    "t' = t\<lparr>tx_state := 4\<rparr>"
    by (auto simp: RollbackEptHookUpdate_def split: if_splits)
  then show ?thesis by (intro abandon [of 4]) simp_all
next
  case (step_quarantine gen)
  then have v: "IsEptHookTransactionValid (Some t)" and
    n: "tx_state t \<noteq> 3" "tx_state t \<noteq> 4" "tx_state t \<noteq> 5" and t': "t' = t\<lparr>tx_state := 5\<rparr>"
    by (simp_all add: QuarantineEptHookUpdate_def split: if_splits)
  have "tx_state t = 1 \<or> tx_state t = 2"
    using hook_state_cases [OF v] n by auto
  then show ?thesis using v t' by (intro abandon [of 5]) simp_all
next
  case (step_expire gen now)
  then have "IsEptHookTransactionValid (Some t)" "tx_state t = 1 \<or> tx_state t = 2"
    "\<exists>s. (s = 4 \<or> s = 5) \<and> t' = t\<lparr>tx_state := s\<rparr>"
    by (auto simp: ExpireEptHookUpdate_def split: if_splits)
  then show ?thesis using abandon by blast
qed

definition hook_inv :: "EptHookTransaction \<Rightarrow> bool" where
  "hook_inv t \<longleftrightarrow> IsEptHookTransactionValid (Some t) \<and>
     (tx_state t = EptHookTransactionState_u32 TxPublished \<or>
      tx_state t = EptHookTransactionState_u32 TxRetired \<longrightarrow>
        tx_observed_cpu_acks t = tx_required_cpu_acks t)"

definition hook_rank :: "EptHookTransaction \<Rightarrow> nat" where
  "hook_rank t =
     (if tx_state t = EptHookTransactionState_u32 TxPrepared
      then 2 + (unat (tx_required_cpu_acks t) - unat (tx_observed_cpu_acks t))
      else if tx_state t = EptHookTransactionState_u32 TxPublished then 1 else 0)"

interpretation hook: guarded_machine hook_step hook_inv hook_rank
proof
  fix s t assume st: "hook_step s t" and inv: "hook_inv s"
  show "hook_inv t"
    using st
  proof (cases rule: hook_stepE)
    case (ack n)
    have "tx_observed_cpu_acks s \<le> tx_required_cpu_acks s"
      using ack(5) by (simp add: IsEptHookTransactionValid_def)
    then have "tx_observed_cpu_acks s + n \<le> tx_required_cpu_acks s"
      using bounded_add_u32 ack(3) by (simp add: word_le_nat_alt)
    then show ?thesis using ack by (simp add: hook_inv_def IsEptHookTransactionValid_def)
  next
    case publish
    then show ?thesis by (simp add: hook_inv_def IsEptHookTransactionValid_def IsHookTransactionStateValid_def)
  next
    case retire
    then show ?thesis using inv by (simp add: hook_inv_def IsEptHookTransactionValid_def IsHookTransactionStateValid_def)
  next
    case (abandon u)
    then show ?thesis by (auto simp: hook_inv_def IsEptHookTransactionValid_def IsHookTransactionStateValid_def)
  qed
  show "hook_rank t < hook_rank s"
    using st
  proof (cases rule: hook_stepE)
    case (ack n)
    have "tx_observed_cpu_acks s \<le> tx_required_cpu_acks s"
      using ack(5) by (simp add: IsEptHookTransactionValid_def)
    moreover have "0 < unat n" using ack(2) by (simp add: unat_gt_0)
    ultimately show ?thesis using bounded_add_u32 [OF _ ack(3)] ack(1,4) by (simp add: hook_rank_def)
  qed (auto simp: hook_rank_def)
qed

lemma hook_dead_end_iff:
  assumes "hook_inv t"
  shows "(\<forall>u. \<not> hook_step t u) \<longleftrightarrow> tx_state t \<noteq> 1 \<and> tx_state t \<noteq> 2"
proof
  assume "\<forall>u. \<not> hook_step t u"
  then show "tx_state t \<noteq> 1 \<and> tx_state t \<noteq> 2"
    using assms step_rollback [of t "tx_parent_generation t"] step_rollback [of t "tx_pending_generation t"]
    by (auto simp: RollbackEptHookUpdate_def hook_inv_def)
qed (auto elim: hook_stepE)

lemma AddMulOverflow_unat:
  assumes "AddMulOverflow l r = Some p"
  shows "unat p = unat l * unat r"
proof (cases "r = 0")
  case True
  then show ?thesis using assms by (simp add: AddMulOverflow_def)
next
  case False
  then have "l \<le> - 1 div r" "p = l * r"
    using assms by (simp_all add: AddMulOverflow_def not_less split: if_splits)
  then show ?thesis using le_max_div_iff [OF False] by (simp add: unat_mult_small)
qed

theorem hook_rate_sound:
  assumes "IsEptHookRateWithin (Some l) exit_count window_tsc tsc_hz"
  shows "unat exit_count * unat tsc_hz \<le> unat (hl_max_exits_per_second l) * unat window_tsc"
proof (cases "window_tsc \<ge> tsc_hz")
  case True
  then obtain allowed where al: "AddMulOverflow (ucast (hl_max_exits_per_second l)) (window_tsc div tsc_hz) = Some allowed"
    and le: "exit_count \<le> allowed"
    using assms by (auto simp: IsEptHookRateWithin_def Let_def split: if_splits option.splits)
  have "unat allowed = unat (hl_max_exits_per_second l) * (unat window_tsc div unat tsc_hz)"
    using AddMulOverflow_unat [OF al] by (simp add: ucast_u32_u64_unat unat_div)
  then have "unat exit_count \<le> unat (hl_max_exits_per_second l) * (unat window_tsc div unat tsc_hz)"
    using le by (simp add: word_le_nat_alt)
  then have "unat exit_count * unat tsc_hz \<le>
      unat (hl_max_exits_per_second l) * (unat window_tsc div unat tsc_hz) * unat tsc_hz"
    by (rule mult_le_mono1)
  also have "\<dots> \<le> unat (hl_max_exits_per_second l) * unat window_tsc"
    by (simp add: mult.assoc)
  finally show ?thesis .
next
  case False
  let ?m = "ucast (hl_max_exits_per_second l) :: u64"
  have nz: "tsc_hz \<noteq> 0" "window_tsc \<noteq> 0"
    and le: "exit_count \<le> - 1 div tsc_hz" "?m \<le> - 1 div window_tsc"
    and c: "exit_count * tsc_hz \<le> ?m * window_tsc"
    using assms False by (auto simp: IsEptHookRateWithin_def not_less split: if_splits)
  have "unat (exit_count * tsc_hz) = unat exit_count * unat tsc_hz"
    "unat (?m * window_tsc) = unat ?m * unat window_tsc"
    using le le_max_div_iff nz by (simp_all add: unat_mult_small)
  then show ?thesis using c by (simp add: word_le_nat_alt ucast_u32_u64_unat)
qed

lemma Begin_SomeD:
  assumes "BeginEptHookUpdate lease request g now acks tid tx = (True, Some t)"
  shows "hook_inv t" "tx_parent_generation t = g" "tx_required_cpu_acks t = acks"
    "tx_observed_cpu_acks t = 0" "tx_state t = 1" "tx_transaction_id t = tid"
    "\<exists>l r. lease = Some l \<and> request = Some r \<and> CanPublishEptHook (Some l) (Some r) g now \<and>
       tx_owner_id t = hr_owner_id r \<and> tx_deadline_tsc t = hl_expires_tsc l \<and>
       tx_guest_physical t = hr_guest_physical r \<and> tx_page_count t = hr_page_count r"
  using assms unfolding BeginEptHookUpdate_def hook_inv_def
  by (simp_all add: Let_def zero_transaction_def split: option.splits if_splits) auto

definition hook_identity :: "EptHookTransaction \<Rightarrow> u64 \<times> u64 \<times> u64 \<times> u64 \<times> u64 \<times> u64 \<times> u64 \<times> u32" where
  "hook_identity t = (tx_transaction_id t, tx_owner_id t, tx_parent_generation t,
     tx_pending_generation t, tx_guest_physical t, tx_page_count t, tx_deadline_tsc t,
     tx_required_cpu_acks t)"

lemma hook_step_identity: "hook_step t t' \<Longrightarrow> hook_identity t' = hook_identity t"
  by (erule hook_stepE) (simp_all add: hook_identity_def)

text \<open>
C3: On every run of a hook transaction created by BeginEptHookUpdate the transaction stays
valid, its identity, range, deadline and generations never change, and it is published or
retired only with the acknowledgement of every required CPU.
\<close>

theorem hook_transaction_safety:
  assumes "BeginEptHookUpdate lease request g now acks tid tx = (True, Some t0)"
    and "hook_step\<^sup>*\<^sup>* t0 t"
  shows "IsEptHookTransactionValid (Some t) \<and> hook_identity t = hook_identity t0 \<and>
    tx_parent_generation t = g \<and> tx_pending_generation t = g + 1 \<and>
    (tx_state t = EptHookTransactionState_u32 TxPublished \<or>
     tx_state t = EptHookTransactionState_u32 TxRetired \<longrightarrow> tx_observed_cpu_acks t = acks)"
proof -
  note b = Begin_SomeD [OF assms(1)]
  have i: "hook_inv t"
    using hook.star_inv assms(2) b(1) by blast
  have id: "hook_identity t = hook_identity t0"
    using hook.star_frame [OF assms(2) b(1), of hook_identity] hook_step_identity by blast
  then have "tx_parent_generation t = g" "tx_required_cpu_acks t = acks"
    using b(2,3) by (simp_all add: hook_identity_def)
  then show ?thesis using i id by (simp add: hook_inv_def IsEptHookTransactionValid_def)
qed

text \<open>
C4: A hook transaction makes at most two more successful steps than it has required CPU
acknowledgements, and the states in which no operation succeeds any more are exactly retired,
rolled back and quarantined.
\<close>

theorem hook_transaction_terminates:
  assumes "BeginEptHookUpdate lease request g now acks tid tx = (True, Some t0)"
    and "(hook_step ^^ n) t0 t"
  shows "n \<le> unat acks + 2 \<and>
    ((\<forall>u. \<not> hook_step t u) \<longleftrightarrow>
      tx_state t = EptHookTransactionState_u32 TxRetired \<or>
      tx_state t = EptHookTransactionState_u32 TxRolledBack \<or>
      tx_state t = EptHookTransactionState_u32 TxQuarantined)"
proof -
  note b = Begin_SomeD [OF assms(1)]
  have i: "hook_inv t"
    using hook.star_inv [OF relpowp_imp_rtranclp [OF assms(2)] b(1)] .
  then have st: "tx_state t \<in> {1, 2, 3, 4, 5}"
    using hook_state_cases by (simp add: hook_inv_def)
  have "n + hook_rank t \<le> hook_rank t0"
    by (rule hook.run_bound [OF assms(2) b(1)])
  then have "n \<le> unat acks + 2"
    using b(3,4,5) by (simp add: hook_rank_def)
  then show ?thesis using hook_dead_end_iff [OF i] st by auto
qed

section \<open>Properties of the nested walk and of generations\<close>

text \<open>
  The specification of the walk: a mapping and an access give a partial function on natural
  addresses, and the nested walk is the composition of the two functions.
\<close>

definition ept_view :: "EptMapping \<Rightarrow> u32 \<Rightarrow> nat \<Rightarrow> nat option" where
  "ept_view m access a =
     (if IsEptMappingValid (Some m) 52 \<and> IsEptAccessAllowed (em_permissions m) access \<and>
         unat (em_guest_physical m) \<le> a \<and> a < unat (em_guest_physical m) + em_span m
      then Some (unat (em_host_physical m) + (a - unat (em_guest_physical m))) else None)"

lemma ept_view_word:
  "ept_view m access (unat gpa) =
     (if IsEptMappingValid (Some m) 52 \<and> IsEptAccessAllowed (em_permissions m) access \<and>
         EptMappingContains (Some m) gpa
      then Some (unat (ept_l1_address m gpa)) else None)"
proof (cases "IsEptMappingValid (Some m) 52")
  case True
  then show ?thesis
    using ept_range.translate_unat [OF True, of gpa]
    by (simp add: ept_view_def EptMappingContains_iff ept_l1_address_def)
qed (simp add: ept_view_def)

text \<open>
C1: ResolveNestedEpt implements the composition of two partial address functions: for two
mappings of the same generation whose root is not host owned it hits exactly where both stages
map the address for that access, and the host address of a hit is the composed one; in every
other case it does not hit.
\<close>

theorem nested_ept_refines_composition:
  "(if elr_status (ResolveNestedEpt (Some l1) (Some root) gpa access) = EptLookupStatus_u32 EptHit
    then Some (unat (elr_host_physical (ResolveNestedEpt (Some l1) (Some root) gpa access)))
    else None) =
   (if em_generation l1 = em_generation root \<and> em_flags root AND kEptMappingFlagHostOwned = 0
    then (ept_view root access \<circ>\<^sub>m ept_view l1 access) (unat gpa) else None)"
proof -
  have "ept_host_address l1 root gpa = ept_l1_address root (ept_l1_address l1 gpa)"
    by (simp add: ept_host_address_def ept_l1_address_def)
  then show ?thesis
    by (auto simp: map_comp_def ept_view_word ResolveNestedEpt_alt)
qed

lemma IsEptAccessAllowed_bit:
  "IsEptAccessAllowed p access \<longleftrightarrow>
     access = 1 \<and> bit p 0 \<or> access = 2 \<and> bit p 1 \<or> access = 3 \<and> bit p 2"
  by (simp add: IsEptAccessAllowed_def and_numeral_flag del: bit_0)

lemma IsEptAccessAllowed_and:
  "IsEptAccessAllowed (p AND q) access \<longleftrightarrow>
     IsEptAccessAllowed p access \<and> IsEptAccessAllowed q access"
  unfolding IsEptAccessAllowed_bit bit_and_iff by (auto simp del: bit_0)

theorem nested_ept_hit_safe:
  assumes "ResolveNestedEpt (Some l1) (Some root) gpa access = r"
    and "elr_status r = EptLookupStatus_u32 EptHit"
  shows "unat (elr_host_physical r) < 2 ^ 52 \<and>
    unat (em_host_physical root) \<le> unat (elr_host_physical r) \<and>
    unat (elr_host_physical r) < unat (em_host_physical root) + em_span root \<and>
    unat (elr_host_physical r) mod 4096 = unat gpa mod 4096 \<and>
    elr_permissions r = em_permissions l1 AND em_permissions root \<and>
    IsEptAccessAllowed (elr_permissions r) access \<and>
    elr_generation r = em_generation l1 \<and> elr_generation r = em_generation root"
proof -
  have may: "ept_may_access l1 root gpa access"
    using assms ResolveNestedEpt_hit_iff by metis
  then have v: "IsEptMappingValid (Some l1) 52" "IsEptMappingValid (Some root) 52"
    and c: "EptMappingContains (Some l1) gpa"
      "EptMappingContains (Some root) (em_host_physical l1 + (gpa - em_guest_physical l1))"
    and p: "IsEptAccessAllowed (em_permissions l1) access" "IsEptAccessAllowed (em_permissions root) access"
    by (simp_all add: ept_may_access_def ept_l1_address_def)
  have r: "r = MakeLookup EptHit (em_permissions l1 AND em_permissions root)
             (ept_host_address l1 root gpa) (em_generation root)"
    using assms(1) may by (auto simp: ResolveNestedEpt_alt ept_may_access_def)
  have h: "elr_host_physical r = em_host_physical root +
     (em_host_physical l1 + (gpa - em_guest_physical l1) - em_guest_physical root)"
    by (simp add: r ept_host_address_def ept_l1_address_def)
  have "unat (elr_host_physical r) mod 4096 = unat gpa mod 4096"
    unfolding h by (rule ept_walk.compose_page_offset [OF v c])
  moreover note ept_range.translate_in_range [OF v(2) c(2), folded h]
  moreover have "unat (em_host_physical root) + em_span root \<le> 2 ^ 52"
    by (rule ept_range.tgt_bound [OF v(2)])
  moreover have "em_generation l1 = em_generation root"
    using may by (simp add: ept_may_access_def)
  moreover have "IsEptAccessAllowed (elr_permissions r) access"
    using p by (simp add: r IsEptAccessAllowed_and)
  ultimately show ?thesis by (simp add: r)
qed

theorem nested_ept_fail_closed:
  "elr_status (ResolveNestedEpt l1 root gpa access) = EptLookupStatus_u32 EptHit \<or>
   (elr_permissions (ResolveNestedEpt l1 root gpa access) = 0 \<and>
    elr_host_physical (ResolveNestedEpt l1 root gpa access) = 0)"
  by (cases l1; cases root)
    (simp_all add: ResolveNestedEpt_alt, simp_all add: ResolveNestedEpt_def)

theorem ept_generation_handover:
  assumes "BeginEptGeneration (Some c) (Some p) = (True, Some q)" and "k \<noteq> 0"
  shows "eg_generation q = eg_generation c + 1 \<and> eg_parent_generation q = eg_generation c \<and>
    \<not> fst (PublishEptGeneration (Some (q\<lparr>eg_required_cpu_acks := k\<rparr>))) \<and>
    (\<exists>q1 q2. AcknowledgeEptGeneration (Some (q\<lparr>eg_required_cpu_acks := k\<rparr>)) k = (True, Some q1) \<and>
      PublishEptGeneration (Some q1) = (True, Some q2) \<and>
      eg_state q2 = EptGenerationState_u32 GenActive \<and> eg_generation q2 = eg_generation q)"
  using assms by (auto simp: BeginEptGeneration_def NextEptGeneration_def AcknowledgeEptGeneration_def
      PublishEptGeneration_def IsVersionedSizeValid_def split: if_splits)

section \<open>Samples and witnesses\<close>

lemmas ept_eval = IsEptMappingValid_def EptMappingContains_def MappingSpan_def AddOverflow_def
  IsPhysicalAddress_def IsAddressBitsValid_def IsVersionedSizeValid_def IsEptAccessAllowed_def
  ResolveNestedEpt_def MakeLookup_def IsEptpConfigValid_def BuildEptPointer_def
  DecodeEptPointer_def IsHookRangeValid_def IsHookKindValid_def IsHookTransactionStateValid_def
  IsEptHookLeaseValid_def IsEptHookRequestValid_def CanPublishEptHook_def
  IsEptHookTransactionValid_def IsEptHookTransactionLive_def BeginEptHookUpdate_def
  zero_transaction_def AcknowledgeEptHookCpu_def PublishEptHookUpdate_def RetireEptHookUpdate_def

definition sample_mapping :: "u64 \<Rightarrow> u64 \<Rightarrow> EptMapping" where
  "sample_mapping guest host = \<lparr>em_size = 56, em_version = 1, em_guest_physical = guest,
     em_host_physical = host, em_page_count = 4, em_page_order = 0, em_permissions = 7,
     em_memory_type = 6, em_flags = 1, em_generation = 1\<rparr>"

theorem nested_ept_hit_safe_witness:
  "elr_status (ResolveNestedEpt (Some (sample_mapping 0 0x2000)) (Some (sample_mapping 0x2000 0x8000))
     0x1234 1) = EptLookupStatus_u32 EptHit \<and>
   elr_host_physical (ResolveNestedEpt (Some (sample_mapping 0 0x2000))
     (Some (sample_mapping 0x2000 0x8000)) 0x1234 1) = 0x9234 \<and>
   unat (elr_host_physical (ResolveNestedEpt (Some (sample_mapping 0 0x2000))
     (Some (sample_mapping 0x2000 0x8000)) 0x1234 1)) < 2 ^ 52"
proof -
  let ?r = "ResolveNestedEpt (Some (sample_mapping 0 0x2000)) (Some (sample_mapping 0x2000 0x8000))
     0x1234 1"
  have "elr_status ?r = EptLookupStatus_u32 EptHit" and "elr_host_physical ?r = 0x9234"
    by (simp_all add: sample_mapping_def ept_eval)
  then show ?thesis using nested_ept_hit_safe [OF refl, of _ _ "0x1234" 1] by blast
qed

definition sample_config :: EptpConfig where
  "sample_config = \<lparr>ec_size = 40, ec_version = 1, ec_root_physical = 0x1000, ec_memory_type = 6,
     ec_walk_length = 4, ec_flags = 1, ec_reserved = 0, ec_generation = 1\<rparr>"

theorem eptp_build_decode_witness:
  "BuildEptPointer (Some sample_config) = Some 0x105E \<and>
   DecodeEptPointer 0x105E = Some (sample_config\<lparr>ec_size := 40, ec_generation := 0\<rparr>)"
proof -
  have v: "IsEptpConfigValid (Some sample_config) 52" and b: "BuildEptPointer (Some sample_config) = Some 0x105E"
    by (simp_all add: sample_config_def ept_eval)
  show ?thesis using eptp_build_decode [OF v] b by simp
qed

theorem eptp_decode_build_witness:
  "BuildEptPointer (Some (sample_config\<lparr>ec_generation := 9\<rparr>)) = Some 0x105E"
proof -
  have d: "DecodeEptPointer 0x105E = Some (sample_config\<lparr>ec_generation := 0\<rparr>)"
    by (simp add: sample_config_def ept_eval)
  show ?thesis using eptp_decode_build [OF d, of 9] by simp
qed

definition sample_hook_lease :: EptHookLease where
  "sample_hook_lease = \<lparr>hl_size = 56, hl_version = 1, hl_owner_id = 7, hl_generation = 4,
     hl_expires_tsc = 1000, hl_view = 3, hl_hook_kind = 1, hl_state = 1, hl_max_pages = 4,
     hl_max_exits_per_second = 100, hl_reserved = 0\<rparr>"

definition sample_hook_request :: EptHookRequest where
  "sample_hook_request = \<lparr>hr_size = 72, hr_version = 1, hr_owner_id = 7,
     hr_expected_generation = 4, hr_guest_physical = 0x4000, hr_page_count = 2, hr_view = 3,
     hr_hook_kind = 1, hr_permissions = 4, hr_reserved = 0, hr_module_hash0 = 0x1234,
     hr_module_hash1 = 0\<rparr>"

definition sample_transaction :: EptHookTransaction where
  "sample_transaction = \<lparr>tx_size = 104, tx_version = 1, tx_transaction_id = 77, tx_owner_id = 7,
     tx_parent_generation = 4, tx_pending_generation = 5, tx_guest_physical = 0x4000,
     tx_page_count = 2, tx_deadline_tsc = 1000, tx_rollback_generation = 4, tx_view = 3,
     tx_hook_kind = 1, tx_state = 1, tx_required_cpu_acks = 2, tx_observed_cpu_acks = 0,
     tx_max_exits_per_second = 100, tx_reserved = 0\<rparr>"

lemma sample_begin:
  "BeginEptHookUpdate (Some sample_hook_lease) (Some sample_hook_request) 4 999 2 77
     (Some zero_transaction) = (True, Some sample_transaction)"
  by (simp add: sample_hook_lease_def sample_hook_request_def sample_transaction_def ept_eval)

lemma sample_run:
  "(hook_step ^^ 3) sample_transaction (sample_transaction\<lparr>tx_observed_cpu_acks := 2, tx_state := 3\<rparr>)"
proof -
  have 1: "hook_step sample_transaction (sample_transaction\<lparr>tx_observed_cpu_acks := 2\<rparr>)"
    by (rule step_ack [where gen = 4 and n = 2 and now = 999]) (simp add: sample_transaction_def ept_eval)
  have 2: "hook_step (sample_transaction\<lparr>tx_observed_cpu_acks := 2\<rparr>)
      (sample_transaction\<lparr>tx_observed_cpu_acks := 2, tx_state := 2\<rparr>)"
    by (rule step_publish [where gen = 4 and now = 999]) (simp add: sample_transaction_def ept_eval)
  have 3: "hook_step (sample_transaction\<lparr>tx_observed_cpu_acks := 2, tx_state := 2\<rparr>)
      (sample_transaction\<lparr>tx_observed_cpu_acks := 2, tx_state := 3\<rparr>)"
    by (rule step_retire [where gen = 5]) (simp add: sample_transaction_def ept_eval)
  show ?thesis using 1 2 3 by (auto simp: eval_nat_numeral)
qed

theorem hook_transaction_safety_witness:
  "IsEptHookTransactionValid (Some (sample_transaction\<lparr>tx_observed_cpu_acks := 2, tx_state := 3\<rparr>))"
  using hook_transaction_safety [OF sample_begin relpowp_imp_rtranclp [OF sample_run]] by simp

theorem hook_transaction_terminates_witness:
  "(3 :: nat) \<le> unat (2 :: u32) + 2 \<and>
   (\<forall>u. \<not> hook_step (sample_transaction\<lparr>tx_observed_cpu_acks := 2, tx_state := 3\<rparr>) u)"
  using hook_transaction_terminates [OF sample_begin sample_run] by simp

theorem hook_rate_sound_witness:
  "IsEptHookRateWithin (Some sample_hook_lease) 10 200 1000 \<and>
   unat (10 :: u64) * unat (1000 :: u64) \<le> unat (100 :: u32) * unat (200 :: u64)"
proof -
  have r: "IsEptHookRateWithin (Some sample_hook_lease) 10 200 1000"
    by (simp add: sample_hook_lease_def IsEptHookRateWithin_def ept_eval)
  show ?thesis using hook_rate_sound [OF r] r by (simp add: sample_hook_lease_def)
qed

definition sample_generation :: EptGeneration where
  "sample_generation = \<lparr>eg_size = 40, eg_version = 1, eg_generation = 4, eg_parent_generation = 3,
     eg_state = 1, eg_required_cpu_acks = 0, eg_observed_cpu_acks = 0, eg_reserved = 0\<rparr>"

theorem ept_generation_handover_witness:
  "\<exists>q. BeginEptGeneration (Some sample_generation) (Some sample_generation) = (True, Some q) \<and>
     eg_generation q = 5 \<and>
     \<not> fst (PublishEptGeneration (Some (q\<lparr>eg_required_cpu_acks := 2\<rparr>)))"
proof -
  obtain q where q: "BeginEptGeneration (Some sample_generation) (Some sample_generation) = (True, Some q)"
    by (simp add: BeginEptGeneration_def NextEptGeneration_def sample_generation_def ept_eval)
  show ?thesis using ept_generation_handover [OF q, of 2] q by (simp add: sample_generation_def)
qed

end
