(* ===== verification/IommuModel.thy ===== *)
theory IommuModel
  imports KnhvPrelude
begin

text \<open>
  The device and DMA-domain contract of \<^verbatim>\<open>src/src/iommu/iommu_model.cpp\<close> and
  \<^verbatim>\<open>src/src/include/knhv_iommu.h\<close>: capability, device-profile, domain and mapping validation,
  the nested DMA walk, the preparation of a device assignment and its life cycle with fault
  quarantine. Arrays of fixed length are fields of their own.
\<close>

section \<open>Constants and enumerations\<close>

abbreviation kIommuContractVersion :: u32 where "kIommuContractVersion \<equiv> 1"
abbreviation kIommuMaxStructSize :: u32 where "kIommuMaxStructSize \<equiv> 4096"
abbreviation kIommuPageSize :: u64 where "kIommuPageSize \<equiv> 4096"
abbreviation kIommuPageShift :: u32 where "kIommuPageShift \<equiv> 12"
abbreviation kIommuMaxPhysicalAddressBits :: u32 where "kIommuMaxPhysicalAddressBits \<equiv> 52"
abbreviation kIommuMaxReservedRanges :: u32 where "kIommuMaxReservedRanges \<equiv> 4"
abbreviation kIommuMaxMappingPages :: u64 where "kIommuMaxMappingPages \<equiv> 1048576"
abbreviation kIommuMaxMsixVectors :: u32 where "kIommuMaxMsixVectors \<equiv> 2048"
abbreviation kIommuCapQueuedInvalidation :: u64 where "kIommuCapQueuedInvalidation \<equiv> 1"
abbreviation kIommuCapInterruptRemapping :: u64 where "kIommuCapInterruptRemapping \<equiv> 2"
abbreviation kIommuCapNestedTranslation :: u64 where "kIommuCapNestedTranslation \<equiv> 4"
abbreviation kIommuCapAts :: u64 where "kIommuCapAts \<equiv> 8"
abbreviation kIommuCapPri :: u64 where "kIommuCapPri \<equiv> 16"
abbreviation kIommuCapPasid :: u64 where "kIommuCapPasid \<equiv> 32"
abbreviation kIommuKnownCapabilityMask :: u64 where "kIommuKnownCapabilityMask \<equiv> 127"
abbreviation kIommuDeviceHostOwned :: u32 where "kIommuDeviceHostOwned \<equiv> 1"
abbreviation kIommuDeviceSystemCritical :: u32 where "kIommuDeviceSystemCritical \<equiv> 2"
abbreviation kIommuDeviceDisplay :: u32 where "kIommuDeviceDisplay \<equiv> 4"
abbreviation kIommuDeviceIsolationComplete :: u32 where "kIommuDeviceIsolationComplete \<equiv> 8"
abbreviation kIommuDeviceResetReliable :: u32 where "kIommuDeviceResetReliable \<equiv> 16"
abbreviation kIommuDeviceAllowL1 :: u32 where "kIommuDeviceAllowL1 \<equiv> 32"
abbreviation kIommuDeviceAllowL2 :: u32 where "kIommuDeviceAllowL2 \<equiv> 64"
abbreviation kIommuDeviceAts :: u32 where "kIommuDeviceAts \<equiv> 256"
abbreviation kIommuDevicePri :: u32 where "kIommuDevicePri \<equiv> 512"
abbreviation kIommuDevicePasid :: u32 where "kIommuDevicePasid \<equiv> 1024"
abbreviation kIommuDeviceHasRmrr :: u32 where "kIommuDeviceHasRmrr \<equiv> 2048"
abbreviation kIommuDeviceMsix :: u32 where "kIommuDeviceMsix \<equiv> 4096"
abbreviation kIommuKnownDeviceMask :: u32 where "kIommuKnownDeviceMask \<equiv> 8191"
abbreviation kIommuDomainNested :: u32 where "kIommuDomainNested \<equiv> 1"
abbreviation kIommuDomainInterruptRemap :: u32 where "kIommuDomainInterruptRemap \<equiv> 2"
abbreviation kIommuDomainIdentity :: u32 where "kIommuDomainIdentity \<equiv> 8"
abbreviation kIommuKnownDomainMask :: u32 where "kIommuKnownDomainMask \<equiv> 15"
abbreviation kIommuMappingPresent :: u32 where "kIommuMappingPresent \<equiv> 1"
abbreviation kIommuMappingHostOwned :: u32 where "kIommuMappingHostOwned \<equiv> 2"
abbreviation kIommuMappingPinned :: u32 where "kIommuMappingPinned \<equiv> 4"
abbreviation kIommuMappingLargePage :: u32 where "kIommuMappingLargePage \<equiv> 8"
abbreviation kIommuKnownMappingMask :: u32 where "kIommuKnownMappingMask \<equiv> 15"
abbreviation kIommuPermissionRead :: u32 where "kIommuPermissionRead \<equiv> 1"
abbreviation kIommuPermissionWrite :: u32 where "kIommuPermissionWrite \<equiv> 2"
abbreviation kIommuKnownPermissionMask :: u32 where "kIommuKnownPermissionMask \<equiv> 3"
abbreviation kIommuReadyHostQuiesced :: u32 where "kIommuReadyHostQuiesced \<equiv> 1"
abbreviation kIommuReadyDmaDrained :: u32 where "kIommuReadyDmaDrained \<equiv> 2"
abbreviation kIommuReadyInterruptsDrained :: u32 where "kIommuReadyInterruptsDrained \<equiv> 4"
abbreviation kIommuReadyResetComplete :: u32 where "kIommuReadyResetComplete \<equiv> 8"
abbreviation kIommuKnownReadyMask :: u32 where "kIommuKnownReadyMask \<equiv> 15"
abbreviation kIommuActivateReadyMask :: u32 where "kIommuActivateReadyMask \<equiv> 15"
abbreviation kIommuDetachReadyMask :: u32 where "kIommuDetachReadyMask \<equiv> 7"
abbreviation kIommuCompleteDetachReadyMask :: u32 where "kIommuCompleteDetachReadyMask \<equiv> 15"
abbreviation kIommuAssignmentNested :: u32 where "kIommuAssignmentNested \<equiv> 1"
abbreviation kIommuAssignmentInterruptRemap :: u32 where "kIommuAssignmentInterruptRemap \<equiv> 2"
abbreviation kIommuAssignmentQuarantined :: u32 where "kIommuAssignmentQuarantined \<equiv> 4"
abbreviation kIommuKnownAssignmentMask :: u32 where "kIommuKnownAssignmentMask \<equiv> 7"

datatype IommuDomainKind = DomainHost | DomainL1 | DomainL2 | DomainQuarantine

fun IommuDomainKind_u32 :: "IommuDomainKind \<Rightarrow> u32" where
  "IommuDomainKind_u32 DomainHost = 1"
| "IommuDomainKind_u32 DomainL1 = 2"
| "IommuDomainKind_u32 DomainL2 = 3"
| "IommuDomainKind_u32 DomainQuarantine = 4"

datatype IommuDomainState = DomainEmpty | DomainPrepared | DomainActive | DomainDraining
  | DomainQuarantined | DomainRetired

fun IommuDomainState_u32 :: "IommuDomainState \<Rightarrow> u32" where
  "IommuDomainState_u32 DomainEmpty = 0"
| "IommuDomainState_u32 DomainPrepared = 1"
| "IommuDomainState_u32 DomainActive = 2"
| "IommuDomainState_u32 DomainDraining = 3"
| "IommuDomainState_u32 DomainQuarantined = 4"
| "IommuDomainState_u32 DomainRetired = 5"

datatype IommuResetMethod = ResetNone | ResetFlr | ResetSecondaryBus

fun IommuResetMethod_u32 :: "IommuResetMethod \<Rightarrow> u32" where
  "IommuResetMethod_u32 ResetNone = 0"
| "IommuResetMethod_u32 ResetFlr = 1"
| "IommuResetMethod_u32 ResetSecondaryBus = 2"

datatype IommuDmaAccess = DmaRead | DmaWrite

fun IommuDmaAccess_u32 :: "IommuDmaAccess \<Rightarrow> u32" where
  "IommuDmaAccess_u32 DmaRead = 1"
| "IommuDmaAccess_u32 DmaWrite = 2"

datatype IommuLookupStatus = DmaHit | DmaNotPresent | DmaPermissionDenied | DmaStale | DmaInvalid
  | DmaHostOwned | DmaQuarantined

fun IommuLookupStatus_u32 :: "IommuLookupStatus \<Rightarrow> u32" where
  "IommuLookupStatus_u32 DmaHit = 0"
| "IommuLookupStatus_u32 DmaNotPresent = 1"
| "IommuLookupStatus_u32 DmaPermissionDenied = 2"
| "IommuLookupStatus_u32 DmaStale = 3"
| "IommuLookupStatus_u32 DmaInvalid = 4"
| "IommuLookupStatus_u32 DmaHostOwned = 5"
| "IommuLookupStatus_u32 DmaQuarantined = 6"

datatype IommuFaultReason = FaultInvalidAddress | FaultPermission | FaultTranslation
  | FaultInterrupt | FaultDeviceState | FaultUnknown

fun IommuFaultReason_u32 :: "IommuFaultReason \<Rightarrow> u32" where
  "IommuFaultReason_u32 FaultInvalidAddress = 1"
| "IommuFaultReason_u32 FaultPermission = 2"
| "IommuFaultReason_u32 FaultTranslation = 3"
| "IommuFaultReason_u32 FaultInterrupt = 4"
| "IommuFaultReason_u32 FaultDeviceState = 5"
| "IommuFaultReason_u32 FaultUnknown = 6"

datatype IommuAssignmentStatus = AsgSuccess | AsgInvalidParameter | AsgCapabilityMismatch
  | AsgIsolationIncomplete | AsgHostOwned | AsgCriticalDevice | AsgResetUnsupported
  | AsgGenerationMismatch | AsgDomainInvalid | AsgAddressInvalid | AsgQuiesceRequired
  | AsgStateConflict | AsgFaultQuarantined

fun IommuAssignmentStatus_u32 :: "IommuAssignmentStatus \<Rightarrow> u32" where
  "IommuAssignmentStatus_u32 AsgSuccess = 0"
| "IommuAssignmentStatus_u32 AsgInvalidParameter = 1"
| "IommuAssignmentStatus_u32 AsgCapabilityMismatch = 2"
| "IommuAssignmentStatus_u32 AsgIsolationIncomplete = 3"
| "IommuAssignmentStatus_u32 AsgHostOwned = 4"
| "IommuAssignmentStatus_u32 AsgCriticalDevice = 5"
| "IommuAssignmentStatus_u32 AsgResetUnsupported = 6"
| "IommuAssignmentStatus_u32 AsgGenerationMismatch = 7"
| "IommuAssignmentStatus_u32 AsgDomainInvalid = 8"
| "IommuAssignmentStatus_u32 AsgAddressInvalid = 9"
| "IommuAssignmentStatus_u32 AsgQuiesceRequired = 10"
| "IommuAssignmentStatus_u32 AsgStateConflict = 11"
| "IommuAssignmentStatus_u32 AsgFaultQuarantined = 12"

section \<open>Structures\<close>

record IommuBdf =
  bdf_segment :: u16
  bdf_bus :: u8
  bdf_device :: u8
  bdf_function :: u8
  bdf_reserved0 :: u8
  bdf_reserved1 :: u8
  bdf_reserved2 :: u8

record IommuRange =
  ir_base :: u64
  ir_length :: u64
  ir_flags :: u32
  ir_reserved :: u32

record IommuCapabilities =
  ic_size :: u32
  ic_version :: u32
  ic_feature_flags :: u64
  ic_max_physical_address_bits :: u32
  ic_max_domain_address_bits :: u32
  ic_max_domains :: u32
  ic_max_msix_vectors :: u32
  ic_max_reserved_ranges :: u32
  ic_reserved :: u32
  ic_generation :: u64

record IommuDeviceProfile =
  ip_size :: u32
  ip_version :: u32
  ip_bdf :: IommuBdf
  ip_isolation_group :: u32
  ip_flags :: u32
  ip_reset_method :: u32
  ip_dma_address_bits :: u32
  ip_max_msix_vectors :: u32
  ip_rmrr_count :: u32
  ip_profile_generation :: u64
  ip_rmrr0 :: IommuRange
  ip_rmrr1 :: IommuRange
  ip_rmrr2 :: IommuRange
  ip_rmrr3 :: IommuRange
  ip_dma_mask :: u64
  ip_reserved :: u32
  ip_reserved2 :: u32

record IommuDomain =
  id_size :: u32
  id_version :: u32
  id_domain_id :: u64
  id_owner_id :: u64
  id_parent_domain_id :: u64
  id_generation :: u64
  id_kind :: u32
  id_state :: u32
  id_flags :: u32
  id_address_bits :: u32
  id_guest_base :: u64
  id_guest_limit :: u64
  id_mapped_pages :: u64
  id_reserved :: u32
  id_reserved2 :: u32

record IommuDmaMapping =
  im_size :: u32
  im_version :: u32
  im_iova :: u64
  im_guest_physical :: u64
  im_host_physical :: u64
  im_page_count :: u64
  im_page_order :: u32
  im_permissions :: u32
  im_flags :: u32
  im_reserved :: u32
  im_generation :: u64

record IommuDmaResult =
  idr_size :: u32
  idr_version :: u32
  idr_status :: u32
  idr_permissions :: u32
  idr_host_physical :: u64
  idr_generation :: u64

record IommuAssignment =
  ia_size :: u32
  ia_version :: u32
  ia_status :: u32
  ia_state :: u32
  ia_bdf :: IommuBdf
  ia_reset_method :: u32
  ia_flags :: u32
  ia_owner_id :: u64
  ia_domain_id :: u64
  ia_generation :: u64
  ia_fault_count :: u64

record IommuFaultRecord =
  if_size :: u32
  if_version :: u32
  if_reason :: u32
  if_access :: u32
  if_bdf :: IommuBdf
  if_reserved :: u32
  if_address :: u64
  if_generation :: u64
  if_sequence :: u64

abbreviation iommu_versioned :: "u32 \<Rightarrow> u32 \<Rightarrow> u32 \<Rightarrow> bool" where
  "iommu_versioned \<equiv> IsVersionedSizeValid kIommuContractVersion kIommuMaxStructSize"

section \<open>Validation\<close>

definition IsEnumValueValid :: "u32 \<Rightarrow> u32 \<Rightarrow> u32 \<Rightarrow> bool" where
  "IsEnumValueValid v first_value last_value \<longleftrightarrow> v \<ge> first_value \<and> v \<le> last_value"

definition IsDomainKindValid :: "u32 \<Rightarrow> bool" where
  "IsDomainKindValid v \<longleftrightarrow>
     IsEnumValueValid v (IommuDomainKind_u32 DomainHost) (IommuDomainKind_u32 DomainQuarantine)"

definition IsDomainStateValid :: "u32 \<Rightarrow> bool" where
  "IsDomainStateValid v \<longleftrightarrow> v \<le> IommuDomainState_u32 DomainRetired"

definition IsResetMethodValid :: "u32 \<Rightarrow> bool" where
  "IsResetMethodValid v \<longleftrightarrow> v \<le> IommuResetMethod_u32 ResetSecondaryBus"

definition IsDmaAccessValid :: "u32 \<Rightarrow> bool" where
  "IsDmaAccessValid v \<longleftrightarrow> v = IommuDmaAccess_u32 DmaRead \<or> v = IommuDmaAccess_u32 DmaWrite"

definition IsFaultReasonValid :: "u32 \<Rightarrow> bool" where
  "IsFaultReasonValid v \<longleftrightarrow>
     IsEnumValueValid v (IommuFaultReason_u32 FaultInvalidAddress) (IommuFaultReason_u32 FaultUnknown)"

definition IsReadinessValid :: "u32 \<Rightarrow> u32 \<Rightarrow> bool" where
  "IsReadinessValid readiness required \<longleftrightarrow>
     readiness AND NOT kIommuKnownReadyMask = 0 \<and> readiness AND required = required"

definition IsSameBdf :: "IommuBdf \<Rightarrow> IommuBdf \<Rightarrow> bool" where
  "IsSameBdf left right \<longleftrightarrow>
     bdf_segment left = bdf_segment right \<and> bdf_bus left = bdf_bus right \<and>
     bdf_device left = bdf_device right \<and> bdf_function left = bdf_function right"

definition IsRangeEndValid :: "u64 \<Rightarrow> u64 \<Rightarrow> u32 \<Rightarrow> bool" where
  "IsRangeEndValid base len address_bits =
     (if len = 0 \<or> base AND (kIommuPageSize - 1) \<noteq> 0 \<or> len AND (kIommuPageSize - 1) \<noteq> 0
      then False
      else case AddOverflow base (len - 1) of None \<Rightarrow> False
           | Some last_byte \<Rightarrow> IsPhysicalAddress base address_bits \<and>
                               IsPhysicalAddress last_byte address_bits)"

abbreviation IommuMappingSpan :: "IommuDmaMapping \<Rightarrow> (u64 \<times> u64) option" where
  "IommuMappingSpan mapping \<equiv> MappingSpan (im_page_count mapping) (im_page_order mapping)"

definition MakeDmaResult :: "IommuLookupStatus \<Rightarrow> u32 \<Rightarrow> u64 \<Rightarrow> u64 \<Rightarrow> IommuDmaResult" where
  "MakeDmaResult status permissions host_physical generation =
     \<lparr>idr_size = 32, idr_version = kIommuContractVersion,
      idr_status = IommuLookupStatus_u32 status, idr_permissions = permissions,
      idr_host_physical = host_physical, idr_generation = generation\<rparr>"

definition IsIommuBdfValid :: "IommuBdf option \<Rightarrow> bool" where
  "IsIommuBdfValid bdf = (case bdf of None \<Rightarrow> False | Some b \<Rightarrow>
     bdf_device b < 32 \<and> bdf_function b < 8 \<and>
     bdf_reserved0 b = 0 \<and> bdf_reserved1 b = 0 \<and> bdf_reserved2 b = 0)"

definition IsAssignmentValid :: "IommuAssignment option \<Rightarrow> bool" where
  "IsAssignmentValid assignment = (case assignment of None \<Rightarrow> False | Some a \<Rightarrow>
     iommu_versioned (ia_version a) (ia_size a) 64 \<and>
     IsIommuBdfValid (Some (ia_bdf a)) \<and>
     IsResetMethodValid (ia_reset_method a) \<and>
     ia_flags a AND NOT kIommuKnownAssignmentMask = 0 \<and>
     IsDomainStateValid (ia_state a) \<and>
     ia_state a \<noteq> IommuDomainState_u32 DomainEmpty \<and>
     ia_owner_id a \<noteq> 0 \<and> ia_domain_id a \<noteq> 0 \<and> ia_generation a \<noteq> 0)"

definition SetAssignmentStatus :: "IommuAssignment \<Rightarrow> IommuAssignmentStatus \<Rightarrow> IommuAssignment" where
  "SetAssignmentStatus a status =
     a\<lparr>ia_status := IommuAssignmentStatus_u32 status,
       ia_state := IommuDomainState_u32 DomainEmpty\<rparr>"

definition IsIommuRangeValid :: "IommuRange option \<Rightarrow> u32 \<Rightarrow> bool" where
  "IsIommuRangeValid rng address_bits = (case rng of None \<Rightarrow> False | Some r \<Rightarrow>
     if ir_flags r \<noteq> 0 \<or> ir_reserved r \<noteq> 0 then False
     else IsRangeEndValid (ir_base r) (ir_length r) address_bits)"

definition IsIommuCapabilitiesValid :: "IommuCapabilities option \<Rightarrow> bool" where
  "IsIommuCapabilitiesValid capabilities = (case capabilities of None \<Rightarrow> False | Some c \<Rightarrow>
     iommu_versioned (ic_version c) (ic_size c) 48 \<and>
     ic_feature_flags c AND NOT kIommuKnownCapabilityMask = 0 \<and>
     IsAddressBitsValid (ic_max_physical_address_bits c) \<and>
     IsAddressBitsValid (ic_max_domain_address_bits c) \<and>
     ic_max_domain_address_bits c \<le> ic_max_physical_address_bits c \<and>
     ic_max_domains c \<noteq> 0 \<and>
     ic_max_msix_vectors c \<noteq> 0 \<and> ic_max_msix_vectors c \<le> kIommuMaxMsixVectors \<and>
     ic_max_reserved_ranges c \<le> kIommuMaxReservedRanges \<and>
     ic_reserved c = 0 \<and> ic_generation c \<noteq> 0)"

text \<open>The loop over the reserved ranges, from an index on.\<close>

fun rmrr_loop :: "u32 \<Rightarrow> u32 \<Rightarrow> u32 \<Rightarrow> IommuRange list \<Rightarrow> bool" where
  "rmrr_loop index count address_bits [] = True"
| "rmrr_loop index count address_bits (rng # rest) =
     (if index < count
      then if \<not> IsIommuRangeValid (Some rng) address_bits then False
           else rmrr_loop (index + 1) count address_bits rest
      else if ir_base rng \<noteq> 0 \<or> ir_length rng \<noteq> 0 \<or> ir_flags rng \<noteq> 0 \<or> ir_reserved rng \<noteq> 0
      then False
      else rmrr_loop (index + 1) count address_bits rest)"

definition IsIommuDeviceProfileValid :: "IommuDeviceProfile option \<Rightarrow> u32 \<Rightarrow> bool" where
  "IsIommuDeviceProfileValid profile address_bits = (case profile of None \<Rightarrow> False | Some p \<Rightarrow>
     iommu_versioned (ip_version p) (ip_size p) 160 \<and>
     IsIommuBdfValid (Some (ip_bdf p)) \<and>
     ip_flags p AND NOT kIommuKnownDeviceMask = 0 \<and>
     IsResetMethodValid (ip_reset_method p) \<and>
     IsAddressBitsValid address_bits \<and>
     ip_dma_address_bits p \<ge> kIommuPageShift \<and>
     ip_dma_address_bits p \<le> address_bits \<and>
     ip_dma_address_bits p \<le> kIommuMaxPhysicalAddressBits \<and>
     ip_rmrr_count p \<le> kIommuMaxReservedRanges \<and>
     ip_profile_generation p \<noteq> 0 \<and> ip_reserved p = 0 \<and> ip_reserved2 p = 0 \<and>
     ip_dma_mask p = push_bit (unat (ip_dma_address_bits p)) 1 - 1 \<and>
     (ip_flags p AND kIommuDeviceResetReliable \<noteq> 0 \<longleftrightarrow>
        ip_reset_method p \<noteq> IommuResetMethod_u32 ResetNone) \<and>
     (ip_flags p AND kIommuDeviceHasRmrr \<noteq> 0 \<longleftrightarrow> ip_rmrr_count p \<noteq> 0) \<and>
     (if ip_flags p AND kIommuDeviceMsix \<noteq> 0
      then ip_max_msix_vectors p \<noteq> 0 \<and> ip_max_msix_vectors p \<le> kIommuMaxMsixVectors
      else ip_max_msix_vectors p = 0) \<and>
     \<not> (ip_flags p AND kIommuDeviceIsolationComplete \<noteq> 0 \<and> ip_isolation_group p = 0) \<and>
     \<not> (ip_flags p AND kIommuDeviceHasRmrr = 0 \<and> ip_rmrr_count p \<noteq> 0) \<and>
     rmrr_loop 0 (ip_rmrr_count p) address_bits [ip_rmrr0 p, ip_rmrr1 p, ip_rmrr2 p, ip_rmrr3 p])"

definition IsIommuDomainValid :: "IommuDomain option \<Rightarrow> u32 \<Rightarrow> bool" where
  "IsIommuDomainValid domain address_bits = (case domain of None \<Rightarrow> False | Some d \<Rightarrow>
     iommu_versioned (id_version d) (id_size d) 88 \<and>
     id_domain_id d \<noteq> 0 \<and> IsDomainKindValid (id_kind d) \<and>
     IsDomainStateValid (id_state d) \<and>
     id_flags d AND NOT kIommuKnownDomainMask = 0 \<and>
     IsAddressBitsValid address_bits \<and>
     id_address_bits d \<ge> kIommuPageShift \<and>
     id_address_bits d \<le> address_bits \<and> id_generation d \<noteq> 0 \<and>
     id_guest_base d \<le> id_guest_limit d \<and>
     IsPhysicalAddress (id_guest_base d) (id_address_bits d) \<and>
     IsPhysicalAddress (id_guest_limit d) (id_address_bits d) \<and>
     id_guest_base d AND (kIommuPageSize - 1) = 0 \<and>
     id_mapped_pages d \<le> kIommuMaxMappingPages \<and>
     id_reserved d = 0 \<and> id_reserved2 d = 0 \<and>
     (if id_kind d = IommuDomainKind_u32 DomainHost
      then id_owner_id d = 0 \<and> id_parent_domain_id d = 0 \<and>
           id_flags d AND kIommuDomainIdentity \<noteq> 0 \<and>
           id_state d = IommuDomainState_u32 DomainActive
      else if id_kind d = IommuDomainKind_u32 DomainL1
      then id_owner_id d \<noteq> 0 \<and> id_flags d AND kIommuDomainInterruptRemap \<noteq> 0 \<and>
           id_flags d AND kIommuDomainNested = 0 \<and>
           id_state d \<noteq> IommuDomainState_u32 DomainEmpty
      else if id_kind d = IommuDomainKind_u32 DomainL2
      then id_owner_id d \<noteq> 0 \<and> id_parent_domain_id d \<noteq> 0 \<and>
           id_flags d AND kIommuDomainNested \<noteq> 0 \<and>
           id_flags d AND kIommuDomainInterruptRemap \<noteq> 0 \<and>
           id_state d \<noteq> IommuDomainState_u32 DomainEmpty
      else if id_kind d = IommuDomainKind_u32 DomainQuarantine
      then id_state d = IommuDomainState_u32 DomainQuarantined
      else True))"

definition IsIommuDmaMappingValid :: "IommuDmaMapping option \<Rightarrow> u32 \<Rightarrow> bool" where
  "IsIommuDmaMappingValid mapping address_bits = (case mapping of None \<Rightarrow> False | Some m \<Rightarrow>
     iommu_versioned (im_version m) (im_size m) 64 \<and>
     im_flags m AND NOT kIommuKnownMappingMask = 0 \<and>
     im_flags m AND kIommuMappingPresent \<noteq> 0 \<and>
     im_flags m AND kIommuMappingPinned \<noteq> 0 \<and>
     im_permissions m AND NOT kIommuKnownPermissionMask = 0 \<and>
     im_permissions m \<noteq> 0 \<and> im_reserved m = 0 \<and>
     im_generation m \<noteq> 0 \<and> IsAddressBitsValid address_bits \<and>
     (case IommuMappingSpan m of None \<Rightarrow> False | Some (page_size, span_bytes) \<Rightarrow>
        im_iova m AND (page_size - 1) = 0 \<and>
        im_guest_physical m AND (page_size - 1) = 0 \<and>
        im_host_physical m AND (page_size - 1) = 0 \<and>
        \<not> (im_page_order m = 0 \<and> im_flags m AND kIommuMappingLargePage \<noteq> 0) \<and>
        \<not> (im_page_order m \<noteq> 0 \<and> im_flags m AND kIommuMappingLargePage = 0) \<and>
        IsPhysicalAddress (im_iova m) address_bits \<and>
        IsPhysicalAddress (im_guest_physical m) address_bits \<and>
        IsPhysicalAddress (im_host_physical m) address_bits \<and>
        (case AddOverflow (im_iova m) (span_bytes - 1) of None \<Rightarrow> False
         | Some last_iova \<Rightarrow>
         (case AddOverflow (im_guest_physical m) (span_bytes - 1) of None \<Rightarrow> False
          | Some last_guest \<Rightarrow>
          (case AddOverflow (im_host_physical m) (span_bytes - 1) of None \<Rightarrow> False
           | Some last_host \<Rightarrow>
             IsPhysicalAddress last_iova address_bits \<and>
             IsPhysicalAddress last_guest address_bits \<and>
             IsPhysicalAddress last_host address_bits)))))"

definition IommuDmaMappingContains :: "IommuDmaMapping option \<Rightarrow> u64 \<Rightarrow> u32 \<Rightarrow> bool" where
  "IommuDmaMappingContains mapping iova address_bits = (case mapping of None \<Rightarrow> False | Some m \<Rightarrow>
     if \<not> IsIommuDmaMappingValid (Some m) address_bits then False
     else case IommuMappingSpan m of None \<Rightarrow> False
          | Some (page_size, span_bytes) \<Rightarrow>
              if iova < im_iova m then False else iova - im_iova m < span_bytes)"

definition IsIommuDmaAccessAllowed :: "u32 \<Rightarrow> u32 \<Rightarrow> bool" where
  "IsIommuDmaAccessAllowed permissions access =
     (if access = IommuDmaAccess_u32 DmaRead then permissions AND kIommuPermissionRead \<noteq> 0
      else if access = IommuDmaAccess_u32 DmaWrite then permissions AND kIommuPermissionWrite \<noteq> 0
      else False)"

section \<open>The nested DMA walk\<close>

definition ResolveNestedDma ::
  "IommuDmaMapping option \<Rightarrow> IommuDmaMapping option \<Rightarrow> u64 \<Rightarrow> u32 \<Rightarrow> u32 \<Rightarrow> IommuDmaResult" where
  "ResolveNestedDma l1_mapping root_mapping iova access address_bits =
    (case (l1_mapping, root_mapping) of (Some l1, Some root) \<Rightarrow>
      if \<not> IsIommuDmaMappingValid (Some l1) address_bits \<or>
         \<not> IsIommuDmaMappingValid (Some root) address_bits
      then MakeDmaResult DmaInvalid 0 0 0
      else if im_generation l1 \<noteq> im_generation root
      then MakeDmaResult DmaStale 0 0 (im_generation root)
      else if im_flags l1 AND kIommuMappingHostOwned \<noteq> 0
      then MakeDmaResult DmaHostOwned 0 0 (im_generation root)
      else if \<not> IommuDmaMappingContains (Some l1) iova address_bits
      then MakeDmaResult DmaNotPresent 0 0 (im_generation root)
      else if \<not> IsIommuDmaAccessAllowed (im_permissions l1) access
      then MakeDmaResult DmaPermissionDenied 0 0 (im_generation root)
      else let l1_offset = iova - im_iova l1
      in case AddOverflow (im_guest_physical l1) l1_offset of
        None \<Rightarrow> MakeDmaResult DmaInvalid 0 0 (im_generation root)
      | Some guest_physical \<Rightarrow>
          if \<not> IommuDmaMappingContains (Some root) guest_physical address_bits
          then MakeDmaResult DmaNotPresent 0 0 (im_generation root)
          else if im_flags root AND kIommuMappingHostOwned \<noteq> 0
          then MakeDmaResult DmaHostOwned 0 0 (im_generation root)
          else if \<not> IsIommuDmaAccessAllowed (im_permissions root) access
          then MakeDmaResult DmaPermissionDenied 0 0 (im_generation root)
          else let root_offset = guest_physical - im_iova root
          in case AddOverflow (im_host_physical root) root_offset of
            None \<Rightarrow> MakeDmaResult DmaInvalid 0 0 (im_generation root)
          | Some host_physical \<Rightarrow>
              if \<not> IsPhysicalAddress host_physical address_bits
              then MakeDmaResult DmaInvalid 0 0 (im_generation root)
              else MakeDmaResult DmaHit (im_permissions l1 AND im_permissions root) host_physical
                     (im_generation root)
    | _ \<Rightarrow> MakeDmaResult DmaInvalid 0 0 0)"

section \<open>Device assignment\<close>

definition zero_bdf :: IommuBdf where
  "zero_bdf = \<lparr>bdf_segment = 0, bdf_bus = 0, bdf_device = 0, bdf_function = 0, bdf_reserved0 = 0,
     bdf_reserved1 = 0, bdf_reserved2 = 0\<rparr>"

text \<open>The assignment after the zero initialisation and the size and version of its header.\<close>

definition fresh_assignment :: IommuAssignment where
  "fresh_assignment = \<lparr>ia_size = 64, ia_version = kIommuContractVersion, ia_status = 0,
     ia_state = 0, ia_bdf = zero_bdf, ia_reset_method = 0, ia_flags = 0, ia_owner_id = 0,
     ia_domain_id = 0, ia_generation = 0, ia_fault_count = 0\<rparr>"

abbreviation assignment_refused ::
  "IommuAssignmentStatus \<Rightarrow> IommuAssignmentStatus \<times> IommuAssignment option" where
  "assignment_refused status \<equiv> (status, Some (SetAssignmentStatus fresh_assignment status))"

definition PrepareIommuAssignment ::
  "IommuCapabilities option \<Rightarrow> IommuDeviceProfile option \<Rightarrow> IommuDomain option \<Rightarrow> u64 \<Rightarrow> u64 \<Rightarrow>
   IommuAssignment option \<Rightarrow> IommuAssignmentStatus \<times> IommuAssignment option" where
  "PrepareIommuAssignment capabilities profile domain owner_id generation assignment =
    (case assignment of None \<Rightarrow> (AsgInvalidParameter, None) | Some _ \<Rightarrow>
     (case (capabilities, profile, domain) of (Some c, Some p, Some d) \<Rightarrow>
       if owner_id = 0 \<or> generation = 0 then assignment_refused AsgInvalidParameter
       else if \<not> IsIommuCapabilitiesValid (Some c) \<or>
               \<not> IsIommuDeviceProfileValid (Some p) (ic_max_physical_address_bits c)
       then assignment_refused AsgInvalidParameter
       else if \<not> IsIommuDomainValid (Some d) (ic_max_physical_address_bits c)
       then assignment_refused AsgDomainInvalid
       else if generation \<noteq> ic_generation c \<or> generation \<noteq> ip_profile_generation p \<or>
               generation \<noteq> id_generation d
       then assignment_refused AsgGenerationMismatch
       else if id_owner_id d \<noteq> owner_id \<or> id_domain_id d > ucast (ic_max_domains c)
       then assignment_refused AsgDomainInvalid
       else if ip_dma_address_bits p > ic_max_domain_address_bits c \<or>
               (ip_flags p AND kIommuDeviceMsix \<noteq> 0 \<and> ip_max_msix_vectors p > ic_max_msix_vectors c)
       then assignment_refused AsgCapabilityMismatch
       else if ip_flags p AND kIommuDeviceHostOwned \<noteq> 0 then assignment_refused AsgHostOwned
       else if ip_flags p AND kIommuDeviceSystemCritical \<noteq> 0 \<or> ip_flags p AND kIommuDeviceDisplay \<noteq> 0
       then assignment_refused AsgCriticalDevice
       else if ip_flags p AND kIommuDeviceIsolationComplete = 0 \<or> ip_isolation_group p = 0
       then assignment_refused AsgIsolationIncomplete
       else if ip_flags p AND kIommuDeviceHasRmrr \<noteq> 0 then assignment_refused AsgIsolationIncomplete
       else if id_kind d = IommuDomainKind_u32 DomainHost \<or>
               id_kind d = IommuDomainKind_u32 DomainQuarantine
       then assignment_refused AsgDomainInvalid
       else if ip_flags p AND kIommuDeviceResetReliable = 0 then assignment_refused AsgResetUnsupported
       else let required_caps = kIommuCapQueuedInvalidation OR kIommuCapInterruptRemapping
       in if ic_feature_flags c AND required_caps \<noteq> required_caps \<or>
             id_flags d AND kIommuDomainInterruptRemap = 0
       then assignment_refused AsgCapabilityMismatch
       else let nested_caps = required_caps OR kIommuCapNestedTranslation
       in if id_kind d = IommuDomainKind_u32 DomainL1 \<and> ip_flags p AND kIommuDeviceAllowL1 = 0
       then assignment_refused AsgCapabilityMismatch
       else if id_kind d = IommuDomainKind_u32 DomainL2 \<and>
               (ic_feature_flags c AND nested_caps \<noteq> nested_caps \<or>
                ip_flags p AND kIommuDeviceAllowL2 = 0 \<or> id_flags d AND kIommuDomainNested = 0)
       then assignment_refused AsgCapabilityMismatch
       else if id_kind d = IommuDomainKind_u32 DomainL2 \<and>
               ip_flags p AND kIommuDeviceAts \<noteq> 0 \<and> ic_feature_flags c AND kIommuCapAts = 0
       then assignment_refused AsgCapabilityMismatch
       else if id_kind d = IommuDomainKind_u32 DomainL2 \<and>
               ip_flags p AND kIommuDevicePri \<noteq> 0 \<and> ic_feature_flags c AND kIommuCapPri = 0
       then assignment_refused AsgCapabilityMismatch
       else if id_kind d = IommuDomainKind_u32 DomainL2 \<and>
               ip_flags p AND kIommuDevicePasid \<noteq> 0 \<and> ic_feature_flags c AND kIommuCapPasid = 0
       then assignment_refused AsgCapabilityMismatch
       else if id_kind d \<noteq> IommuDomainKind_u32 DomainL1 \<and> id_kind d \<noteq> IommuDomainKind_u32 DomainL2
       then assignment_refused AsgDomainInvalid
       else let f = (if id_kind d = IommuDomainKind_u32 DomainL2 then kIommuAssignmentNested else 0);
                f = (if id_flags d AND kIommuDomainInterruptRemap \<noteq> 0
                     then f OR kIommuAssignmentInterruptRemap else f)
       in (AsgSuccess, Some (fresh_assignment
            \<lparr>ia_bdf := ip_bdf p, ia_reset_method := ip_reset_method p, ia_owner_id := owner_id,
             ia_domain_id := id_domain_id d, ia_generation := generation,
             ia_state := IommuDomainState_u32 DomainPrepared,
             ia_status := IommuAssignmentStatus_u32 AsgSuccess, ia_flags := f\<rparr>))
     | _ \<Rightarrow> assignment_refused AsgInvalidParameter))"

definition ActivateIommuAssignment ::
  "IommuAssignment option \<Rightarrow> u64 \<Rightarrow> u32 \<Rightarrow> bool \<times> IommuAssignment option" where
  "ActivateIommuAssignment assignment generation readiness =
    (case assignment of None \<Rightarrow> (False, None) | Some a \<Rightarrow>
       if \<not> IsAssignmentValid (Some a) \<or>
          ia_status a \<noteq> IommuAssignmentStatus_u32 AsgSuccess \<or>
          ia_state a \<noteq> IommuDomainState_u32 DomainPrepared \<or>
          ia_generation a \<noteq> generation \<or>
          \<not> IsReadinessValid readiness kIommuActivateReadyMask
       then (False, Some a)
       else (True, Some (a\<lparr>ia_state := IommuDomainState_u32 DomainActive\<rparr>)))"

definition BeginIommuDetach ::
  "IommuAssignment option \<Rightarrow> u64 \<Rightarrow> u32 \<Rightarrow> bool \<times> IommuAssignment option" where
  "BeginIommuDetach assignment generation readiness =
    (case assignment of None \<Rightarrow> (False, None) | Some a \<Rightarrow>
       if \<not> IsAssignmentValid (Some a) \<or>
          ia_status a \<noteq> IommuAssignmentStatus_u32 AsgSuccess \<or>
          ia_state a \<noteq> IommuDomainState_u32 DomainActive \<or>
          ia_generation a \<noteq> generation \<or>
          \<not> IsReadinessValid readiness kIommuDetachReadyMask
       then (False, Some a)
       else (True, Some (a\<lparr>ia_state := IommuDomainState_u32 DomainDraining\<rparr>)))"

definition CompleteIommuDetach ::
  "IommuAssignment option \<Rightarrow> u64 \<Rightarrow> u32 \<Rightarrow> bool \<times> IommuAssignment option" where
  "CompleteIommuDetach assignment generation readiness =
    (case assignment of None \<Rightarrow> (False, None) | Some a \<Rightarrow>
       if \<not> IsAssignmentValid (Some a) \<or>
          ia_status a \<noteq> IommuAssignmentStatus_u32 AsgSuccess \<or>
          ia_state a \<noteq> IommuDomainState_u32 DomainDraining \<or>
          ia_generation a \<noteq> generation \<or>
          \<not> IsReadinessValid readiness kIommuCompleteDetachReadyMask
       then (False, Some a)
       else (True, Some (a\<lparr>ia_state := IommuDomainState_u32 DomainRetired\<rparr>)))"

definition IsIommuFaultRecordValid :: "IommuFaultRecord option \<Rightarrow> u32 \<Rightarrow> bool" where
  "IsIommuFaultRecordValid fault address_bits = (case fault of None \<Rightarrow> False | Some f \<Rightarrow>
     iommu_versioned (if_version f) (if_size f) 56 \<and>
     IsIommuBdfValid (Some (if_bdf f)) \<and> IsFaultReasonValid (if_reason f) \<and>
     IsDmaAccessValid (if_access f) \<and> if_reserved f = 0 \<and>
     if_generation f \<noteq> 0 \<and> if_sequence f \<noteq> 0 \<and>
     IsPhysicalAddress (if_address f) address_bits)"

definition QuarantineIommuAssignment ::
  "IommuAssignment option \<Rightarrow> IommuFaultRecord option \<Rightarrow> bool \<times> IommuAssignment option" where
  "QuarantineIommuAssignment assignment fault =
    (case assignment of None \<Rightarrow> (False, None) | Some a \<Rightarrow>
     (case fault of None \<Rightarrow> (False, Some a) | Some f \<Rightarrow>
       if \<not> IsAssignmentValid (Some a) \<or>
          \<not> IsIommuFaultRecordValid (Some f) kIommuMaxPhysicalAddressBits \<or>
          ia_state a = IommuDomainState_u32 DomainRetired \<or>
          ia_state a = IommuDomainState_u32 DomainQuarantined \<or>
          \<not> IsSameBdf (ia_bdf a) (if_bdf f) \<or>
          ia_generation a \<noteq> if_generation f \<or>
          ia_fault_count a = NOT 0
       then (False, Some a)
       else (True, Some (a\<lparr>ia_fault_count := ia_fault_count a + 1,
                           ia_flags := ia_flags a OR kIommuAssignmentQuarantined,
                           ia_state := IommuDomainState_u32 DomainQuarantined,
                           ia_status := IommuAssignmentStatus_u32 AsgFaultQuarantined\<rparr>))))"

section \<open>Mappings as contiguous ranges\<close>

definition im_span :: "IommuDmaMapping \<Rightarrow> nat" where
  "im_span m = unat (im_page_count m) * 2 ^ (12 + 9 * unat (im_page_order m))"

lemma IommuMappingSpan_im_span:
  assumes "IommuMappingSpan m = Some (ps, span)"
  shows "unat span = im_span m" and "0 < unat span"
  using MappingSpan_SomeD [OF assms] by (simp_all add: im_span_def)

lemma IsIommuDmaMappingValid_SomeE:
  assumes "IsIommuDmaMappingValid (Some m) bits"
  obtains ps span where "IommuMappingSpan m = Some (ps, span)"
    and "im_iova m AND (ps - 1) = 0" and "im_guest_physical m AND (ps - 1) = 0"
    and "im_host_physical m AND (ps - 1) = 0"
    and "unat (im_iova m) + im_span m \<le> 2 ^ unat bits"
    and "unat (im_guest_physical m) + im_span m \<le> 2 ^ unat bits"
    and "unat (im_host_physical m) + im_span m \<le> 2 ^ unat bits"
    and "IsAddressBitsValid bits"
proof -
  obtain ps span li lg lh where *: "IommuMappingSpan m = Some (ps, span)"
    "im_iova m AND (ps - 1) = 0" "im_guest_physical m AND (ps - 1) = 0"
    "im_host_physical m AND (ps - 1) = 0"
    "AddOverflow (im_iova m) (span - 1) = Some li" "IsPhysicalAddress li bits"
    "AddOverflow (im_guest_physical m) (span - 1) = Some lg" "IsPhysicalAddress lg bits"
    "AddOverflow (im_host_physical m) (span - 1) = Some lh" "IsPhysicalAddress lh bits"
  proof (cases "IommuMappingSpan m")
    case None
    then show ?thesis using assms by (simp add: IsIommuDmaMappingValid_def)
  next
    case (Some x)
    obtain ps span where x: "x = (ps, span)" by (cases x)
    show ?thesis
      using assms Some x that [of ps span]
      by (cases "AddOverflow (im_iova m) (span - 1)";
          cases "AddOverflow (im_guest_physical m) (span - 1)";
          cases "AddOverflow (im_host_physical m) (span - 1)")
        (simp_all add: IsIommuDmaMappingValid_def)
  qed
  have sp: "unat span = im_span m" "0 < unat span"
    using IommuMappingSpan_im_span [OF *(1)] .
  show ?thesis
    using that [OF *(1-4)] range_fits [OF sp(2) *(5,6)] range_fits [OF sp(2) *(7,8)]
      range_fits [OF sp(2) *(9,10)] *(6)
    by (simp add: sp(1) IsPhysicalAddress_iff)
qed

lemma IommuDmaMappingContains_iff:
  assumes "IsIommuDmaMappingValid (Some m) bits"
  shows "IommuDmaMappingContains (Some m) a bits \<longleftrightarrow>
           unat (im_iova m) \<le> unat a \<and> unat a < unat (im_iova m) + im_span m"
proof -
  obtain ps span where sp: "IommuMappingSpan m = Some (ps, span)"
    using assms by (rule IsIommuDmaMappingValid_SomeE)
  have "IommuDmaMappingContains (Some m) a bits \<longleftrightarrow> im_iova m \<le> a \<and> a - im_iova m < span"
    using assms sp by (auto simp: IommuDmaMappingContains_def not_less)
  also have "\<dots> \<longleftrightarrow> unat (im_iova m) \<le> unat a \<and> unat a - unat (im_iova m) < unat span"
    by (auto simp: word_le_nat_alt word_less_nat_alt unat_sub)
  finally show ?thesis
    using IommuMappingSpan_im_span(1) [OF sp] by auto
qed

lemma iommu_mapping_laws:
  assumes v: "IsIommuDmaMappingValid (Some m) bits"
  shows "unat bits \<le> 52" and "4096 dvd unat (im_iova m)" and "4096 dvd unat (im_guest_physical m)"
    and "4096 dvd unat (im_host_physical m)"
    and "unat (im_guest_physical m) + im_span m \<le> 2 ^ unat bits"
    and "unat (im_host_physical m) + im_span m \<le> 2 ^ unat bits"
proof -
  from v obtain ps span where sp: "IommuMappingSpan m = Some (ps, span)"
    and al: "im_iova m AND (ps - 1) = 0" "im_guest_physical m AND (ps - 1) = 0"
      "im_host_physical m AND (ps - 1) = 0"
    and "unat (im_iova m) + im_span m \<le> 2 ^ unat bits"
    and le: "unat (im_guest_physical m) + im_span m \<le> 2 ^ unat bits"
      "unat (im_host_physical m) + im_span m \<le> 2 ^ unat bits" and b: "IsAddressBitsValid bits"
    by (rule IsIommuDmaMappingValid_SomeE)
  have ps: "unat ps = 2 ^ (12 + 9 * unat (im_page_order m))" and
       n: "12 + 9 * unat (im_page_order m) < 64"
    using MappingSpan_SomeD(1,2) [OF sp] by (simp_all add: word_le_nat_alt)
  have d: "(4096 :: nat) dvd 2 ^ (12 + 9 * unat (im_page_order m))"
    using le_imp_power_dvd [of 12 "12 + 9 * unat (im_page_order m)" "2 :: nat"] by simp
  show "4096 dvd unat (im_iova m)" "4096 dvd unat (im_guest_physical m)"
    "4096 dvd unat (im_host_physical m)"
    using d al aligned_iff_dvd [OF ps n] dvd_trans by blast+
  show "unat (im_guest_physical m) + im_span m \<le> 2 ^ unat bits"
    "unat (im_host_physical m) + im_span m \<le> 2 ^ unat bits"
    by (rule le)+
  show "unat bits \<le> 52"
    using b by (simp add: IsAddressBitsValid_unat)
qed

interpretation dma_first: mapped_range "\<lambda>m. IsIommuDmaMappingValid (Some m) bits" im_iova
  im_guest_physical im_span "unat bits" "\<lambda>m a. IommuDmaMappingContains (Some m) a bits"
  for bits :: u32
  by unfold_locales (rule iommu_mapping_laws IommuDmaMappingContains_iff; assumption)+

interpretation dma_second: mapped_range "\<lambda>m. IsIommuDmaMappingValid (Some m) bits" im_iova
  im_host_physical im_span "unat bits" "\<lambda>m a. IommuDmaMappingContains (Some m) a bits"
  for bits :: u32
  by unfold_locales (rule iommu_mapping_laws IommuDmaMappingContains_iff; assumption)+

interpretation dma_walk: two_stage "\<lambda>m. IsIommuDmaMappingValid (Some m) bits" im_iova
  im_guest_physical im_iova im_host_physical im_span "unat bits"
  "\<lambda>m a. IommuDmaMappingContains (Some m) a bits" "\<lambda>m a. IommuDmaMappingContains (Some m) a bits"
  for bits :: u32
  by unfold_locales

section \<open>The nested DMA walk\<close>

definition dma_guest_address :: "IommuDmaMapping \<Rightarrow> u64 \<Rightarrow> u64" where
  "dma_guest_address l1 iova = im_guest_physical l1 + (iova - im_iova l1)"

definition dma_host_address :: "IommuDmaMapping \<Rightarrow> u64 \<Rightarrow> u64" where
  "dma_host_address root gpa = im_host_physical root + (gpa - im_iova root)"

lemma MakeDmaResult_sel [simp]:
  "idr_status (MakeDmaResult st p h g) = IommuLookupStatus_u32 st"
  "idr_permissions (MakeDmaResult st p h g) = p"
  "idr_host_physical (MakeDmaResult st p h g) = h"
  "idr_generation (MakeDmaResult st p h g) = g"
  by (simp_all add: MakeDmaResult_def)

lemma IommuLookupStatus_u32_inj [simp]:
  "IommuLookupStatus_u32 a = IommuLookupStatus_u32 b \<longleftrightarrow> a = b"
  by (cases a; cases b) simp_all

lemma dma_host_address_physical:
  assumes "IsIommuDmaMappingValid (Some m) bits" and "IommuDmaMappingContains (Some m) a bits"
  shows "IsPhysicalAddress (dma_host_address m a) bits"
proof -
  have "IsAddressBitsValid bits"
    using assms(1) by (rule IsIommuDmaMappingValid_SomeE)
  then show ?thesis
    using dma_second.translate_bound [OF assms] dma_second.translate_unat [OF assms]
      dma_second.offset_unat [OF assms]
    by (simp add: IsPhysicalAddress_iff dma_host_address_def)
qed

lemma ResolveNestedDma_alt:
  "ResolveNestedDma (Some l1) (Some root) iova access bits =
     (if \<not> IsIommuDmaMappingValid (Some l1) bits \<or> \<not> IsIommuDmaMappingValid (Some root) bits
      then MakeDmaResult DmaInvalid 0 0 0
      else if im_generation l1 \<noteq> im_generation root
      then MakeDmaResult DmaStale 0 0 (im_generation root)
      else if im_flags l1 AND kIommuMappingHostOwned \<noteq> 0
      then MakeDmaResult DmaHostOwned 0 0 (im_generation root)
      else if \<not> IommuDmaMappingContains (Some l1) iova bits
      then MakeDmaResult DmaNotPresent 0 0 (im_generation root)
      else if \<not> IsIommuDmaAccessAllowed (im_permissions l1) access
      then MakeDmaResult DmaPermissionDenied 0 0 (im_generation root)
      else if \<not> IommuDmaMappingContains (Some root) (dma_guest_address l1 iova) bits
      then MakeDmaResult DmaNotPresent 0 0 (im_generation root)
      else if im_flags root AND kIommuMappingHostOwned \<noteq> 0
      then MakeDmaResult DmaHostOwned 0 0 (im_generation root)
      else if \<not> IsIommuDmaAccessAllowed (im_permissions root) access
      then MakeDmaResult DmaPermissionDenied 0 0 (im_generation root)
      else MakeDmaResult DmaHit (im_permissions l1 AND im_permissions root)
             (dma_host_address root (dma_guest_address l1 iova)) (im_generation root))"
  using dma_first.translate_no_overflow [of l1 bits iova]
    dma_second.translate_no_overflow [of root bits "dma_guest_address l1 iova"]
    dma_host_address_physical [of root bits "dma_guest_address l1 iova"]
  unfolding ResolveNestedDma_def dma_host_address_def dma_guest_address_def Let_def
  by (simp split: option.split)

text \<open>The specification of the walk: partial functions on natural addresses.\<close>

definition dma_view :: "(IommuDmaMapping \<Rightarrow> u64) \<Rightarrow> u32 \<Rightarrow> IommuDmaMapping \<Rightarrow> u32 \<Rightarrow> nat \<Rightarrow> nat option" where
  "dma_view tgt bits m access a =
     (if IsIommuDmaMappingValid (Some m) bits \<and> im_flags m AND kIommuMappingHostOwned = 0 \<and>
         IsIommuDmaAccessAllowed (im_permissions m) access \<and>
         unat (im_iova m) \<le> a \<and> a < unat (im_iova m) + im_span m
      then Some (unat (tgt m) + (a - unat (im_iova m))) else None)"

lemma dma_view_word:
  "dma_view im_guest_physical bits m access (unat a) =
     (if IsIommuDmaMappingValid (Some m) bits \<and> im_flags m AND kIommuMappingHostOwned = 0 \<and>
         IsIommuDmaAccessAllowed (im_permissions m) access \<and> IommuDmaMappingContains (Some m) a bits
      then Some (unat (dma_guest_address m a)) else None)"
  "dma_view im_host_physical bits m access (unat a) =
     (if IsIommuDmaMappingValid (Some m) bits \<and> im_flags m AND kIommuMappingHostOwned = 0 \<and>
         IsIommuDmaAccessAllowed (im_permissions m) access \<and> IommuDmaMappingContains (Some m) a bits
      then Some (unat (dma_host_address m a)) else None)"
  using dma_first.translate_unat [of m bits a] dma_second.translate_unat [of m bits a]
  by (auto simp: dma_view_def IommuDmaMappingContains_iff dma_guest_address_def
      dma_host_address_def)

text \<open>
C5: For two mappings of the same generation ResolveNestedDma implements the composition of the
guest and the root DMA stage as partial address functions, where a stage maps an address if its
mapping is valid, not host owned, contains the address and permits the access: it hits exactly
where both stages map, and a hit gives the composed host address, exactly the intersection of
the two permission masks and the generation of the mappings; mappings of different generations
never hit, and what is not a hit returns neither an address nor permissions.
\<close>

theorem nested_dma_refines_composition:
  "let r = ResolveNestedDma (Some l1) (Some root) iova access bits; hit = (idr_status r = IommuLookupStatus_u32 DmaHit)
   in (if hit then Some (unat (idr_host_physical r)) else None) =
        (if im_generation l1 = im_generation root
         then (dma_view im_host_physical bits root access \<circ>\<^sub>m dma_view im_guest_physical bits l1 access) (unat iova)
         else None) \<and>
      (if hit then idr_permissions r = im_permissions l1 AND im_permissions root \<and> idr_generation r = im_generation root
       else idr_permissions r = 0 \<and> idr_host_physical r = 0)"
  by (auto simp: Let_def map_comp_def dma_view_word ResolveNestedDma_alt)

theorem nested_dma_fail_closed:
  "idr_status (ResolveNestedDma l1 root iova access bits) = IommuLookupStatus_u32 DmaHit \<or>
   (idr_permissions (ResolveNestedDma l1 root iova access bits) = 0 \<and>
    idr_host_physical (ResolveNestedDma l1 root iova access bits) = 0)"
  by (cases l1; cases root)
    (simp_all add: ResolveNestedDma_alt, simp_all add: ResolveNestedDma_def)

section \<open>Preparing an assignment\<close>

text \<open>What a device and a domain must offer before a device is handed over.\<close>

definition device_isolated :: "IommuDeviceProfile \<Rightarrow> bool" where
  "device_isolated p \<longleftrightarrow>
     ip_flags p AND kIommuDeviceHostOwned = 0 \<and> ip_flags p AND kIommuDeviceSystemCritical = 0 \<and>
     ip_flags p AND kIommuDeviceDisplay = 0 \<and> ip_flags p AND kIommuDeviceIsolationComplete \<noteq> 0 \<and>
     ip_isolation_group p \<noteq> 0 \<and> ip_flags p AND kIommuDeviceHasRmrr = 0 \<and>
     ip_flags p AND kIommuDeviceResetReliable \<noteq> 0"

definition domain_accepts :: "IommuCapabilities \<Rightarrow> IommuDeviceProfile \<Rightarrow> IommuDomain \<Rightarrow> bool" where
  "domain_accepts c p d \<longleftrightarrow>
     ic_feature_flags c AND 3 = 3 \<and>
     id_flags d AND kIommuDomainInterruptRemap \<noteq> 0 \<and>
     (id_kind d = IommuDomainKind_u32 DomainL1 \<and> ip_flags p AND kIommuDeviceAllowL1 \<noteq> 0 \<or>
      id_kind d = IommuDomainKind_u32 DomainL2 \<and> ip_flags p AND kIommuDeviceAllowL2 \<noteq> 0 \<and>
        ic_feature_flags c AND 7 = 7 \<and> id_flags d AND kIommuDomainNested \<noteq> 0)"

definition prepared_assignment :: "IommuDeviceProfile \<Rightarrow> IommuDomain \<Rightarrow> u64 \<Rightarrow> u64 \<Rightarrow> IommuAssignment" where
  "prepared_assignment p d owner g = fresh_assignment
     \<lparr>ia_bdf := ip_bdf p, ia_reset_method := ip_reset_method p, ia_owner_id := owner,
      ia_domain_id := id_domain_id d, ia_generation := g,
      ia_state := IommuDomainState_u32 DomainPrepared,
      ia_status := IommuAssignmentStatus_u32 AsgSuccess,
      ia_flags := (if id_kind d = IommuDomainKind_u32 DomainL2 then 3 else 2)\<rparr>"

lemma prepare_SuccessD:
  assumes "PrepareIommuAssignment (Some c) (Some p) (Some d) owner g (Some x) = (AsgSuccess, Some a)"
  shows "owner \<noteq> 0" "g \<noteq> 0" "IsIommuCapabilitiesValid (Some c)"
    "IsIommuDeviceProfileValid (Some p) (ic_max_physical_address_bits c)"
    "IsIommuDomainValid (Some d) (ic_max_physical_address_bits c)"
    "ic_generation c = g" "ip_profile_generation p = g" "id_generation d = g"
    "id_owner_id d = owner" "ip_dma_address_bits p \<le> ic_max_domain_address_bits c"
    "device_isolated p" "domain_accepts c p d" "a = prepared_assignment p d owner g"
  using assms
  unfolding PrepareIommuAssignment_def Let_def domain_accepts_def device_isolated_def
    prepared_assignment_def
  by (simp_all add: not_less split: if_splits)

lemma prepare_status_Some:
  assumes "PrepareIommuAssignment c p d owner g x = (AsgSuccess, r)"
  obtains c' p' d' x' a where "c = Some c'" "p = Some p'" "d = Some d'" "x = Some x'" "r = Some a"
proof (cases "c = None \<or> p = None \<or> d = None \<or> x = None")
  case True
  then show ?thesis
    using assms by (cases c; cases p; cases d; cases x) (simp_all add: PrepareIommuAssignment_def)
next
  case False
  then obtain c' p' d' x' where s: "c = Some c'" "p = Some p'" "d = Some d'" "x = Some x'" by auto
  moreover have "\<exists>a. r = Some a"
    using assms unfolding s PrepareIommuAssignment_def Let_def by (auto split: if_splits)
  ultimately show ?thesis using that by blast
qed

lemma IsIommuDeviceProfileValidD:
  assumes "IsIommuDeviceProfileValid (Some p) bits"
  shows "IsIommuBdfValid (Some (ip_bdf p))" "IsResetMethodValid (ip_reset_method p)"
    "ip_dma_mask p = push_bit (unat (ip_dma_address_bits p)) 1 - 1" "ip_dma_address_bits p \<le> 52"
    "ip_flags p AND kIommuDeviceResetReliable \<noteq> 0 \<longleftrightarrow> ip_reset_method p \<noteq> 0"
    "ip_flags p AND kIommuDeviceHasRmrr \<noteq> 0 \<longleftrightarrow> ip_rmrr_count p \<noteq> 0"
  using assms unfolding IsIommuDeviceProfileValid_def option.case IommuResetMethod_u32.simps
  by blast+

lemma unat_low_mask_less:
  fixes m :: u64
  assumes "m = push_bit n 1 - 1"
  shows "unat m < 2 ^ n"
proof -
  have "m = take_bit n (- 1)" by (simp add: assms push_bit_eq_mult mask_eq_exp_minus_1)
  then have "drop_bit n m = 0" by (simp only: drop_bit_take_bit diff_self_eq_0 take_bit_0)
  then show ?thesis by (simp only: drop_bit_eq_0_iff_unat)
qed

lemma prepare_success_facts:
  assumes "PrepareIommuAssignment (Some c) (Some p) (Some d) owner g (Some x) = (AsgSuccess, Some a)"
  shows "ip_rmrr_count p = 0" "ip_reset_method p \<noteq> 0"
    "unat (ip_dma_mask p) < 2 ^ unat (ic_max_domain_address_bits c)"
    "IsAssignmentValid (Some (prepared_assignment p d owner g))"
proof -
  note P = prepare_SuccessD [OF assms]
  note V = IsIommuDeviceProfileValidD [OF P(4)]
  show "ip_rmrr_count p = 0" "ip_reset_method p \<noteq> 0"
    using V(5,6) P(11) unfolding device_isolated_def by blast+
  have "id_domain_id d \<noteq> 0"
    using P(5) by (simp add: IsIommuDomainValid_def)
  then show "IsAssignmentValid (Some (prepared_assignment p d owner g))"
    using P(1,2) V(1,2)
    by (simp add: prepared_assignment_def IsAssignmentValid_def fresh_assignment_def
        IsVersionedSizeValid_def IsDomainStateValid_def)
  have "unat (ip_dma_mask p) < 2 ^ unat (ip_dma_address_bits p)"
    by (rule unat_low_mask_less [OF V(3)])
  also have "(2 :: nat) ^ unat (ip_dma_address_bits p) \<le> 2 ^ unat (ic_max_domain_address_bits c)"
    using P(10) by (simp add: word_le_nat_alt)
  finally show "unat (ip_dma_mask p) < 2 ^ unat (ic_max_domain_address_bits c)" .
qed


theorem prepare_failure_inert:
  assumes "PrepareIommuAssignment c p d owner g (Some x) = (status, r)" and "status \<noteq> AsgSuccess"
  shows "r = Some (SetAssignmentStatus fresh_assignment status) \<and> \<not> IsAssignmentValid r \<and>
    fst (ActivateIommuAssignment r gen ready) = False \<and>
    fst (QuarantineIommuAssignment r fault) = False"
proof -
  have r: "r = Some (SetAssignmentStatus fresh_assignment status)"
    using assms unfolding PrepareIommuAssignment_def Let_def
    by (simp split: if_splits option.splits)
  then show ?thesis
    by (simp add: IsAssignmentValid_def SetAssignmentStatus_def ActivateIommuAssignment_def
        QuarantineIommuAssignment_def split: option.split)
qed

theorem prepare_ignores_domain_state:
  assumes "id_kind d = IommuDomainKind_u32 DomainL1 \<or> id_kind d = IommuDomainKind_u32 DomainL2"
    and "s \<in> {1, 2, 3, 4, 5}" and "s' \<in> {1, 2, 3, 4, 5}"
  shows "PrepareIommuAssignment c p (Some (d\<lparr>id_state := s\<rparr>)) owner g x =
         PrepareIommuAssignment c p (Some (d\<lparr>id_state := s'\<rparr>)) owner g x"
proof -
  have ok: "IsDomainStateValid t \<and> t \<noteq> 0" if "t \<in> {1, 2, 3, 4, 5}" for t
    using that by (auto simp: IsDomainStateValid_def)
  have k: "id_kind d \<noteq> IommuDomainKind_u32 DomainHost"
    "id_kind d \<noteq> IommuDomainKind_u32 DomainQuarantine" using assms(1) by auto
  have "IsIommuDomainValid (Some (d\<lparr>id_state := s\<rparr>)) bits =
        IsIommuDomainValid (Some (d\<lparr>id_state := s'\<rparr>)) bits" for bits
    using ok [OF assms(2)] ok [OF assms(3)] k
    by (simp add: IsIommuDomainValid_def)
  then show ?thesis unfolding PrepareIommuAssignment_def Let_def by (simp split: option.split)
qed

section \<open>The life cycle of an assignment\<close>

inductive assignment_step :: "IommuAssignment \<Rightarrow> IommuAssignment \<Rightarrow> bool" where
  step_activate: "ActivateIommuAssignment (Some a) g ready = (True, Some a') \<Longrightarrow> assignment_step a a'"
| step_begin_detach: "BeginIommuDetach (Some a) g ready = (True, Some a') \<Longrightarrow> assignment_step a a'"
| step_complete_detach: "CompleteIommuDetach (Some a) g ready = (True, Some a') \<Longrightarrow> assignment_step a a'"
| step_fault: "QuarantineIommuAssignment (Some a) fault = (True, Some a') \<Longrightarrow> assignment_step a a'"

definition assignment_inv :: "IommuAssignment \<Rightarrow> bool" where
  "assignment_inv a \<longleftrightarrow> IsAssignmentValid (Some a) \<and>
     (if ia_state a = IommuDomainState_u32 DomainQuarantined
      then ia_status a = IommuAssignmentStatus_u32 AsgFaultQuarantined \<and>
           ia_flags a AND kIommuAssignmentQuarantined \<noteq> 0 \<and> ia_fault_count a = 1
      else ia_status a = IommuAssignmentStatus_u32 AsgSuccess \<and>
           ia_flags a AND kIommuAssignmentQuarantined = 0 \<and> ia_fault_count a = 0)"

definition assignment_rank :: "IommuAssignment \<Rightarrow> nat" where
  "assignment_rank a =
     (if ia_state a = IommuDomainState_u32 DomainPrepared then 3
      else if ia_state a = IommuDomainState_u32 DomainActive then 2
      else if ia_state a = IommuDomainState_u32 DomainDraining then 1 else 0)"

lemma assignment_state_cases:
  assumes "IsAssignmentValid (Some a)"
  shows "ia_state a \<in> {1, 2, 3, 4, 5}"
proof -
  have "unat (ia_state a) \<le> 5" "ia_state a \<noteq> 0"
    using assms by (simp_all add: IsAssignmentValid_def IsDomainStateValid_def word_le_nat_alt)
  then have "unat (ia_state a) \<in> {1, 2, 3, 4, 5}" using unat_gt_0 [of "ia_state a"] by auto
  then show ?thesis by (auto simp: word_unat_eq_iff)
qed

lemma assignment_stepE:
  assumes "assignment_step a a'"
  obtains (advance) s where "IsAssignmentValid (Some a)" "ia_status a = 0"
      "ia_state a = 1 \<and> s = 2 \<or> ia_state a = 2 \<and> s = 3 \<or> ia_state a = 3 \<and> s = 5"
      "a' = a\<lparr>ia_state := s\<rparr>"
  | (fault) "IsAssignmentValid (Some a)" "ia_state a \<in> {1, 2, 3}"
      "a' = a\<lparr>ia_fault_count := ia_fault_count a + 1, ia_flags := ia_flags a OR 4, ia_state := 4,
             ia_status := 12\<rparr>"
  using assms
proof cases
  case (step_activate g ready)
  then have "IsAssignmentValid (Some a)" "ia_status a = 0" "ia_state a = 1" "a' = a\<lparr>ia_state := 2\<rparr>"
    by (simp_all add: ActivateIommuAssignment_def split: if_splits)
  then show ?thesis by (intro advance [of 2]) simp_all
next
  case (step_begin_detach g ready)
  then have "IsAssignmentValid (Some a)" "ia_status a = 0" "ia_state a = 2" "a' = a\<lparr>ia_state := 3\<rparr>"
    by (simp_all add: BeginIommuDetach_def split: if_splits)
  then show ?thesis by (intro advance [of 3]) simp_all
next
  case (step_complete_detach g ready)
  then have "IsAssignmentValid (Some a)" "ia_status a = 0" "ia_state a = 3" "a' = a\<lparr>ia_state := 5\<rparr>"
    by (simp_all add: CompleteIommuDetach_def split: if_splits)
  then show ?thesis by (intro advance [of 5]) simp_all
next
  case (step_fault f)
  then have v: "IsAssignmentValid (Some a)" and "ia_state a \<noteq> 5" "ia_state a \<noteq> 4"
    and a': "a' = a\<lparr>ia_fault_count := ia_fault_count a + 1, ia_flags := ia_flags a OR 4,
             ia_state := 4, ia_status := 12\<rparr>"
    by (simp_all add: QuarantineIommuAssignment_def split: if_splits option.splits)
  then show ?thesis using assignment_state_cases [OF v] by (intro fault) auto
qed

interpretation assignment: guarded_machine assignment_step assignment_inv assignment_rank
proof
  fix a a' assume st: "assignment_step a a'" and inv: "assignment_inv a"
  show "assignment_inv a'"
    using st
  proof (cases rule: assignment_stepE)
    case (advance s)
    then have "ia_state a \<noteq> 4" "s \<noteq> 4" "s \<noteq> 0" "s \<le> 5" by auto
    then show ?thesis using advance inv
      by (simp add: assignment_inv_def IsAssignmentValid_def IsDomainStateValid_def)
  next
    case fault
    have k: "ia_flags a AND NOT 7 = 0" "ia_fault_count a = 0"
      using inv fault(2) by (auto simp: assignment_inv_def IsAssignmentValid_def)
    then have "(ia_flags a OR 4) AND NOT 7 = 0" by (simp add: word_ao_dist)
    moreover have "(ia_flags a OR 4) AND 4 \<noteq> 0" by (simp add: word_ao_dist) 
    ultimately show ?thesis using fault inv k
      by (simp add: assignment_inv_def IsAssignmentValid_def IsDomainStateValid_def)
  qed
  show "assignment_rank a' < assignment_rank a"
    using st by (cases rule: assignment_stepE) (auto simp: assignment_rank_def)
qed

definition assignment_identity :: "IommuAssignment \<Rightarrow> IommuBdf \<times> u32 \<times> u64 \<times> u64 \<times> u64" where
  "assignment_identity a =
     (ia_bdf a, ia_reset_method a, ia_owner_id a, ia_domain_id a, ia_generation a)"

lemma assignment_step_identity: "assignment_step a a' \<Longrightarrow> assignment_identity a' = assignment_identity a"
  by (erule assignment_stepE) (simp_all add: assignment_identity_def)

lemma prepared_inv:
  assumes "PrepareIommuAssignment c p d owner g x = (AsgSuccess, Some a)"
  shows "assignment_inv a" "ia_state a = 1"
proof -
  from assms obtain c' p' d' x' where s: "c = Some c'" "p = Some p'" "d = Some d'" "x = Some x'"
    by (rule prepare_status_Some) simp
  note v = prepare_success_facts(4) [OF assms [unfolded s]]
  have a: "a = prepared_assignment p' d' owner g" by (rule prepare_SuccessD(13) [OF assms [unfolded s]])
  show "assignment_inv a" "ia_state a = 1"
    using v by (simp_all add: assignment_inv_def a prepared_assignment_def fresh_assignment_def)
qed

lemma assignment_dead_end_iff:
  assumes "assignment_inv a"
  shows "(\<forall>u. \<not> assignment_step a u) \<longleftrightarrow> ia_state a = 4 \<or> ia_state a = 5"
proof
  assume dead: "\<forall>u. \<not> assignment_step a u"
  have v: "IsAssignmentValid (Some a)" using assms by (simp add: assignment_inv_def)
  have r: "IsReadinessValid 15 15" "IsReadinessValid 15 7" by (simp_all add: IsReadinessValid_def)
  have "ia_state a \<noteq> 1"
    using dead step_activate [of a "ia_generation a" 15] assms v r
    by (auto simp: ActivateIommuAssignment_def assignment_inv_def)
  moreover have "ia_state a \<noteq> 2"
    using dead step_begin_detach [of a "ia_generation a" 15] assms v r
    by (auto simp: BeginIommuDetach_def assignment_inv_def)
  moreover have "ia_state a \<noteq> 3"
    using dead step_complete_detach [of a "ia_generation a" 15] assms v r
    by (auto simp: CompleteIommuDetach_def assignment_inv_def)
  ultimately show "ia_state a = 4 \<or> ia_state a = 5"
    using assignment_state_cases [OF v] by auto
qed (auto elim: assignment_stepE)

text \<open>
C7: Every run of a prepared assignment has at most three successful operations, keeps the
assignment valid and its identity fixed, keeps the quarantine state, status and flag together,
and is stuck exactly when the assignment is quarantined or retired.
\<close>

theorem assignment_lifecycle:
  assumes "PrepareIommuAssignment c p d owner g x = (AsgSuccess, Some a0)"
    and "(assignment_step ^^ n) a0 a"
  shows "n \<le> 3 \<and> IsAssignmentValid (Some a) \<and> assignment_identity a = assignment_identity a0 \<and>
    (ia_state a = IommuDomainState_u32 DomainQuarantined \<longleftrightarrow>
       ia_status a = IommuAssignmentStatus_u32 AsgFaultQuarantined) \<and>
    (ia_state a = IommuDomainState_u32 DomainQuarantined \<longleftrightarrow>
       ia_flags a AND kIommuAssignmentQuarantined \<noteq> 0) \<and>
    ((\<forall>u. \<not> assignment_step a u) \<longleftrightarrow>
      ia_state a = IommuDomainState_u32 DomainQuarantined \<or>
      ia_state a = IommuDomainState_u32 DomainRetired)"
proof -
  note i0 = prepared_inv [OF assms(1)]
  have run: "assignment_step\<^sup>*\<^sup>* a0 a" by (rule relpowp_imp_rtranclp [OF assms(2)])
  have i: "assignment_inv a" using assignment.star_inv [OF run i0(1)] .
  have "assignment_identity a = assignment_identity a0"
    using assignment.star_frame [OF run i0(1), of assignment_identity] assignment_step_identity by blast
  moreover have "n \<le> 3"
    using assignment.run_bound [OF assms(2) i0(1)] i0(2) by (simp add: assignment_rank_def)
  ultimately show ?thesis
    using i assignment_dead_end_iff [OF i] by (auto simp: assignment_inv_def)
qed


section \<open>Evaluation on concrete assignments\<close>

definition sample_bdf :: IommuBdf where
  "sample_bdf = zero_bdf\<lparr>bdf_bus := 3, bdf_device := 2\<rparr>"

definition sample_capabilities :: IommuCapabilities where
  "sample_capabilities = \<lparr>ic_size = 48, ic_version = 1, ic_feature_flags = 7,
     ic_max_physical_address_bits = 46, ic_max_domain_address_bits = 39, ic_max_domains = 16,
     ic_max_msix_vectors = 64, ic_max_reserved_ranges = 4, ic_reserved = 0, ic_generation = 5\<rparr>"

definition zero_range :: IommuRange where
  "zero_range = \<lparr>ir_base = 0, ir_length = 0, ir_flags = 0, ir_reserved = 0\<rparr>"

definition sample_profile :: IommuDeviceProfile where
  "sample_profile = \<lparr>ip_size = 160, ip_version = 1, ip_bdf = sample_bdf, ip_isolation_group = 9,
     ip_flags = 120, ip_reset_method = 1, ip_dma_address_bits = 32, ip_max_msix_vectors = 0,
     ip_rmrr_count = 0, ip_profile_generation = 5, ip_rmrr0 = zero_range, ip_rmrr1 = zero_range,
     ip_rmrr2 = zero_range, ip_rmrr3 = zero_range, ip_dma_mask = 0xFFFFFFFF, ip_reserved = 0,
     ip_reserved2 = 0\<rparr>"

definition sample_domain :: "u32 \<Rightarrow> IommuDomain" where
  "sample_domain state = \<lparr>id_size = 88, id_version = 1, id_domain_id = 4, id_owner_id = 7,
     id_parent_domain_id = 2, id_generation = 5, id_kind = IommuDomainKind_u32 DomainL2,
     id_state = state, id_flags = 3, id_address_bits = 39, id_guest_base = 0x1000,
     id_guest_limit = 0xFFFFFF, id_mapped_pages = 16, id_reserved = 0, id_reserved2 = 0\<rparr>"

lemmas iommu_eval = IsVersionedSizeValid_def IsIommuBdfValid_def IsResetMethodValid_def
  IsEnumValueValid_def IsAddressBitsValid_def IsPhysicalAddress_def IsDomainKindValid_def
  IsDomainStateValid_def sample_bdf_def zero_bdf_def sample_capabilities_def zero_range_def
  sample_profile_def sample_domain_def

lemma sample_capabilities_ok: "IsIommuCapabilitiesValid (Some sample_capabilities)"
  by (simp add: IsIommuCapabilitiesValid_def iommu_eval)

lemma sample_profile_ok: "IsIommuDeviceProfileValid (Some sample_profile) 46"
  by (simp add: IsIommuDeviceProfileValid_def iommu_eval push_bit_eq_mult)

lemma sample_domain_ok:
  "IsIommuDomainValid (Some (sample_domain 1)) 46" "IsIommuDomainValid (Some (sample_domain 4)) 46"
  by (simp_all add: IsIommuDomainValid_def iommu_eval)

lemma sample_prepared:
  "PrepareIommuAssignment (Some sample_capabilities) (Some sample_profile) (Some (sample_domain 1)) 7 5
     (Some fresh_assignment)
   = (AsgSuccess, Some (prepared_assignment sample_profile (sample_domain 1) 7 5))"
  using sample_capabilities_ok sample_profile_ok sample_domain_ok
  by (simp add: PrepareIommuAssignment_def prepared_assignment_def sample_capabilities_def
      sample_profile_def sample_domain_def)


theorem prepare_failure_inert_witness:
  "PrepareIommuAssignment (Some sample_capabilities) None None 7 5 (Some fresh_assignment) =
     (AsgInvalidParameter, Some (SetAssignmentStatus fresh_assignment AsgInvalidParameter)) \<and>
   \<not> IsAssignmentValid (Some (SetAssignmentStatus fresh_assignment AsgInvalidParameter))"
proof -
  have p: "PrepareIommuAssignment (Some sample_capabilities) None None 7 5 (Some fresh_assignment) =
     (AsgInvalidParameter, Some (SetAssignmentStatus fresh_assignment AsgInvalidParameter))"
    by (simp add: PrepareIommuAssignment_def)
  show ?thesis using p prepare_failure_inert [OF p] by simp
qed

theorem prepare_ignores_domain_state_witness:
  "fst (PrepareIommuAssignment (Some sample_capabilities) (Some sample_profile)
     (Some (sample_domain (IommuDomainState_u32 DomainQuarantined))) 7 5 (Some fresh_assignment)) = AsgSuccess"
proof -
  have e: "(sample_domain 1)\<lparr>id_state := s\<rparr> = sample_domain s" for s by (simp add: sample_domain_def)
  show ?thesis
    using prepare_ignores_domain_state [of "sample_domain 1" 1 4 "Some sample_capabilities"
        "Some sample_profile" 7 5 "Some fresh_assignment"] sample_prepared
    by (simp add: e sample_domain_def)
qed

definition sample_assignment :: IommuAssignment where
  "sample_assignment = prepared_assignment sample_profile (sample_domain 1) 7 5"

definition sample_fault :: IommuFaultRecord where
  "sample_fault = \<lparr>if_size = 56, if_version = 1, if_reason = 2, if_access = 1, if_bdf = sample_bdf,
     if_reserved = 0, if_address = 0x2000, if_generation = 5, if_sequence = 1\<rparr>"

lemma sample_assignment_run:
  "(assignment_step ^^ 2) sample_assignment (sample_assignment\<lparr>ia_fault_count := 1, ia_flags := 7,
     ia_state := 4, ia_status := 12\<rparr>)"
proof -
  have "assignment_step sample_assignment (sample_assignment\<lparr>ia_state := 2\<rparr>)"
    by (rule step_activate [of _ 5 15])
      (simp add: ActivateIommuAssignment_def IsAssignmentValid_def IsReadinessValid_def
        sample_assignment_def prepared_assignment_def fresh_assignment_def iommu_eval)
  moreover have "assignment_step (sample_assignment\<lparr>ia_state := 2\<rparr>) (sample_assignment
     \<lparr>ia_fault_count := 1, ia_flags := 7, ia_state := 4, ia_status := 12\<rparr>)"
    by (rule step_fault [of _ "Some sample_fault"])
      (simp add: QuarantineIommuAssignment_def IsAssignmentValid_def IsIommuFaultRecordValid_def
        IsFaultReasonValid_def IsDmaAccessValid_def IsSameBdf_def sample_fault_def
        sample_assignment_def prepared_assignment_def fresh_assignment_def iommu_eval)
  ultimately show ?thesis by (auto simp: numeral_2_eq_2)
qed

theorem assignment_lifecycle_witness:
  "\<forall>u. \<not> assignment_step (sample_assignment\<lparr>ia_fault_count := 1, ia_flags := 7, ia_state := 4,
     ia_status := 12\<rparr>) u"
  using assignment_lifecycle [OF sample_prepared [folded sample_assignment_def] sample_assignment_run]
  by simp

end
