(* ===== verification/KnhvAbi.thy ===== *)
theory KnhvAbi
  imports KnhvPrelude
begin

text \<open>
  The parts of the public contract \<^verbatim>\<open>src/src/include/knhv_abi.h\<close> that several components use:
  the status codes, the capability bits, the version checks and the session key.
\<close>

datatype HvStatus = Success | InvalidParameter | UnsupportedMode | CapabilityMismatch
  | HardwareOwnerConflict | NestedUnavailable | VmfailInvalid | VmfailValid | Cancelled | Timeout
  | Quarantined | LoadOnly | IncompatibleProvider | VirtualUnsupported | ArchUnsupported
  | BootHandoffFailed | RecoveryRequired | HardwareUnsupported | BufferTooSmall | Busy

abbreviation kAbiVersion :: u32 where "kAbiVersion \<equiv> 1"
abbreviation kAbiMinVersion :: u32 where "kAbiMinVersion \<equiv> 1"
abbreviation kAbiV2Version :: u32 where "kAbiV2Version \<equiv> 2"
abbreviation kAbiV2MinVersion :: u32 where "kAbiV2MinVersion \<equiv> 2"
abbreviation kAbiV2MaxStructSize :: u32 where "kAbiV2MaxStructSize \<equiv> 4096"

abbreviation kCapVmx :: u64 where "kCapVmx \<equiv> 1"
abbreviation kCapEpt :: u64 where "kCapEpt \<equiv> 2"
abbreviation kCapVpid :: u64 where "kCapVpid \<equiv> 4"
abbreviation kCapNestedVmx :: u64 where "kCapNestedVmx \<equiv> 8"
abbreviation kCapEnlightenedVmcs :: u64 where "kCapEnlightenedVmcs \<equiv> 16"
abbreviation kCapVirtualTlbFlush :: u64 where "kCapVirtualTlbFlush \<equiv> 32"
abbreviation kCapWhpPartition :: u64 where "kCapWhpPartition \<equiv> 64"
abbreviation kCapBootL0 :: u64 where "kCapBootL0 \<equiv> 128"
abbreviation kCapIommu :: u64 where "kCapIommu \<equiv> 256"
abbreviation kCapVirtualApic :: u64 where "kCapVirtualApic \<equiv> 512"
abbreviation kCapTscContract :: u64 where "kCapTscContract \<equiv> 1024"
abbreviation kKnownCapabilityMask :: u64 where "kKnownCapabilityMask \<equiv> 2047"

record HvSessionKey =
  sk_client_id :: u64
  sk_generation :: u32
  sk_reserved :: u32

definition IsVersionedBufferValid :: "u32 \<Rightarrow> u32 \<Rightarrow> u32 \<Rightarrow> bool" where
  "IsVersionedBufferValid version size' required_size \<longleftrightarrow>
     version \<ge> kAbiMinVersion \<and> version \<le> kAbiVersion \<and> size' \<ge> required_size"

definition IsAbiV2BufferValid :: "u32 \<Rightarrow> u32 \<Rightarrow> u32 \<Rightarrow> bool" where
  "IsAbiV2BufferValid version size' required_size \<longleftrightarrow>
     version \<ge> kAbiV2MinVersion \<and> version \<le> kAbiV2Version \<and> size' \<ge> required_size \<and>
     size' \<le> kAbiV2MaxStructSize"

end
