(* ===== verification/NestedLinear.thy ===== *)
theory NestedLinear
  imports KnhvAbi
begin

text \<open>
  Guest linear memory as the nested VMX emulation sees it:
  \<^verbatim>\<open>src/src/nested/nested_memory.cpp\<close> and the memory callbacks of
  \<^verbatim>\<open>src/src/include/knhv_nested.h\<close>. The callbacks are supplied by the client of the nested
  model; they are function fields of the memory record, applied to the object behind the
  context pointer, which they may change. A read callback that succeeds determines the bytes of
  the destination buffer; they are given as a function of the offset.
\<close>

abbreviation kNestedPageSize :: u32 where "kNestedPageSize \<equiv> 4096"

datatype NestedMemoryAccess = AccessRead | AccessWrite

fun NestedMemoryAccess_u32 :: "NestedMemoryAccess \<Rightarrow> u32" where
  "NestedMemoryAccess_u32 AccessRead = 1"
| "NestedMemoryAccess_u32 AccessWrite = 2"

record 's NestedMemory =
  nm_context :: 's
  nm_translate :: "('s \<Rightarrow> u64 \<Rightarrow> u32 \<Rightarrow> u64 option \<times> 's) option"
  nm_read :: "('s \<Rightarrow> u64 \<Rightarrow> u32 \<Rightarrow> (nat \<Rightarrow> u8) option \<times> 's) option"
  nm_write :: "('s \<Rightarrow> u64 \<Rightarrow> u8 list \<Rightarrow> u32 \<Rightarrow> bool \<times> 's) option"

section \<open>Little-endian byte sequences\<close>

text \<open>How the x64 target stores an integer of a number of bytes.\<close>

definition word_bytes :: "nat \<Rightarrow> 'a::len word \<Rightarrow> u8 list" where
  "word_bytes n x = map (\<lambda>i. ucast (drop_bit (8 * i) x)) [0..<n]"

fun bytes_word :: "u8 list \<Rightarrow> 'a::len word" where
  "bytes_word [] = 0"
| "bytes_word (b # bs) = ucast b OR push_bit 8 (bytes_word bs)"

section \<open>Accesses that cross pages\<close>

text \<open>One call of a callback, with the object it leaves behind.\<close>

definition TranslateLinear :: "'s NestedMemory \<Rightarrow> u64 \<Rightarrow> u32 \<Rightarrow> u64 option \<times> 's NestedMemory" where
  "TranslateLinear memory linear access =
     (case nm_translate memory of None \<Rightarrow> (None, memory)
      | Some translate \<Rightarrow>
          let (r, c) = translate (nm_context memory) linear access
          in (r, memory\<lparr>nm_context := c\<rparr>))"

definition call_read :: "'s NestedMemory \<Rightarrow> u64 \<Rightarrow> u32 \<Rightarrow> u8 list option \<times> 's NestedMemory" where
  "call_read memory guest_physical length' =
     (case nm_read memory of None \<Rightarrow> (None, memory)
      | Some rd \<Rightarrow>
          let (r, c) = rd (nm_context memory) guest_physical length'
          in (map_option (\<lambda>f. map f [0..<unat length']) r, memory\<lparr>nm_context := c\<rparr>))"

definition call_write :: "'s NestedMemory \<Rightarrow> u64 \<Rightarrow> u8 list \<Rightarrow> u32 \<Rightarrow> bool \<times> 's NestedMemory" where
  "call_write memory guest_physical source length' =
     (case nm_write memory of None \<Rightarrow> (False, memory)
      | Some wr \<Rightarrow>
          let (r, c) = wr (nm_context memory) guest_physical source length'
          in (r, memory\<lparr>nm_context := c\<rparr>))"

text \<open>The bytes of an access that lie on the page of its first byte.\<close>

definition page_chunk :: "u64 \<Rightarrow> u32 \<Rightarrow> u32" where
  "page_chunk current remaining =
     (let page_offset = ucast (current AND (ucast kNestedPageSize - 1)) :: u32
      in if remaining < kNestedPageSize - page_offset then remaining
         else kNestedPageSize - page_offset)"

lemma page_chunk_le: "page_chunk current remaining \<le> remaining"
  by (simp add: page_chunk_def Let_def not_less)

lemma page_chunk_progress:
  assumes "page_chunk current remaining \<noteq> 0"
  shows "unat (remaining - page_chunk current remaining) < unat remaining"
  using assms page_chunk_le [of current remaining]
  by (metis unat_sub word_le_nat_alt diff_less unat_gt_0 order_less_le_trans)

text \<open>The loop of \<^verbatim>\<open>ReadLinear\<close>: the bytes read so far are an accumulator.\<close>

function read_linear_loop ::
  "'s NestedMemory \<Rightarrow> u64 \<Rightarrow> u32 \<Rightarrow> u32 \<Rightarrow> u8 list \<Rightarrow> u8 list option \<times> 's NestedMemory" where
  "read_linear_loop memory current remaining access destination =
     (if remaining = 0 then (Some destination, memory)
      else case TranslateLinear memory current access of
        (None, memory) \<Rightarrow> (None, memory)
      | (Some guest_physical, memory) \<Rightarrow>
          (let chunk = page_chunk current remaining
           in if chunk = 0 then (None, memory)
              else case call_read memory guest_physical chunk of
                (None, memory) \<Rightarrow> (None, memory)
              | (Some bytes, memory) \<Rightarrow>
                  (let destination = destination @ bytes; rest = remaining - chunk
                   in if rest \<noteq> 0
                      then if current > NOT 0 - ucast chunk then (None, memory)
                           else read_linear_loop memory (current + ucast chunk) rest access destination
                      else (Some destination, memory))))"
  by pat_completeness auto
termination
  by (relation "measure (\<lambda>(memory, current, remaining, access, destination). unat remaining)")
    (auto simp: page_chunk_progress)

declare read_linear_loop.simps [simp del]

definition ReadLinear ::
  "'s NestedMemory \<Rightarrow> u64 \<Rightarrow> u8 list option \<Rightarrow> u32 \<Rightarrow> u32 \<Rightarrow> u8 list option \<times> 's NestedMemory" where
  "ReadLinear memory linear buffer length' access =
     (if buffer = None \<or> length' = 0 \<or> nm_read memory = None \<or> nm_translate memory = None
      then (None, memory)
      else read_linear_loop memory linear length' access [])"

function write_linear_loop ::
  "'s NestedMemory \<Rightarrow> u64 \<Rightarrow> u32 \<Rightarrow> u8 list \<Rightarrow> bool \<times> 's NestedMemory" where
  "write_linear_loop memory current remaining source =
     (if remaining = 0 then (True, memory)
      else case TranslateLinear memory current (NestedMemoryAccess_u32 AccessWrite) of
        (None, memory) \<Rightarrow> (False, memory)
      | (Some guest_physical, memory) \<Rightarrow>
          (let chunk = page_chunk current remaining
           in if chunk = 0 then (False, memory)
              else case call_write memory guest_physical (take (unat chunk) source) chunk of
                (False, memory) \<Rightarrow> (False, memory)
              | (True, memory) \<Rightarrow>
                  (let source = drop (unat chunk) source; rest = remaining - chunk
                   in if rest \<noteq> 0
                      then if current > NOT 0 - ucast chunk then (False, memory)
                           else write_linear_loop memory (current + ucast chunk) rest source
                      else (True, memory))))"
  by pat_completeness auto
termination
  by (relation "measure (\<lambda>(memory, current, remaining, source). unat remaining)")
    (auto simp: page_chunk_progress)

declare write_linear_loop.simps [simp del]

definition WriteLinear ::
  "'s NestedMemory \<Rightarrow> u64 \<Rightarrow> u8 list option \<Rightarrow> u32 \<Rightarrow> bool \<times> 's NestedMemory" where
  "WriteLinear memory linear buffer length' =
     (case buffer of None \<Rightarrow> (False, memory)
      | Some source \<Rightarrow>
          if length' = 0 \<or> nm_write memory = None \<or> nm_translate memory = None
          then (False, memory)
          else write_linear_loop memory linear length' source)"

section \<open>Page arithmetic\<close>

lemma u64_bound: "unat (l :: u64) < 2 ^ 64"
  using unsigned_less [of l] by simp

lemma page_offset_unat: "unat (ucast (l AND 4095 :: u64) :: u32) = unat l mod 4096"
proof -
  have m: "(4095 :: u64) = mask 12" by (simp add: mask_eq_exp_minus_1)
  have u: "unat (l AND 4095) = unat l mod 4096"
    unfolding m take_bit_eq_mask [symmetric] by (simp add: take_bit_eq_mod unat_mod)
  have "unat l mod 4096 < 4096" by simp
  then have "unat l mod 4096 < 2 ^ 32" by simp
  then show ?thesis using u by (simp add: unsigned_ucast_eq take_bit_nat_eq_self)
qed

lemma page_chunk_unat:
  "unat (page_chunk l n) = min (unat n) (4096 - unat l mod 4096)"
proof -
  define off :: u32 where "off = ucast (l AND 4095)"
  have o: "unat off = unat l mod 4096" by (simp add: off_def page_offset_unat)
  have "unat (4096 - off) = 4096 - unat l mod 4096"
    using o by (subst unat_sub) (simp_all add: word_le_nat_alt)
  then show ?thesis
    by (simp add: page_chunk_def Let_def off_def [symmetric] word_less_nat_alt min_def)
qed

lemma page_chunk_nonzero: "n \<noteq> 0 \<Longrightarrow> page_chunk l n \<noteq> 0"
proof
  assume n: "n \<noteq> 0" and "page_chunk l n = 0"
  then have "min (unat n) (4096 - unat l mod 4096) = 0" using page_chunk_unat [of l n] by simp
  moreover have "unat l mod 4096 < 4096" by simp
  ultimately show False using n by (simp add: unat_gt_0 [symmetric] min_def split: if_splits)
qed

lemma same_page:
  assumes "k < unat (page_chunk l n)"
  shows "unat (l + of_nat k) = unat l + k" "unat (l + of_nat k) div 4096 = unat l div 4096"
proof -
  have k: "k < 4096 - unat l mod 4096" using assms by (simp add: page_chunk_unat)
  let ?q = "unat l div 4096"
  have "unat l < 2 ^ 64" using unsigned_less [of l] by simp
  then have q: "?q < 2 ^ 52" by (simp add: less_mult_imp_div_less)
  have "unat l mod 4096 + k < 4096" using k by linarith
  then have lo: "4096 * ?q \<le> unat l + k" and hi: "unat l + k < 4096 * Suc ?q"
    using mult_div_mod_eq [of 4096 "unat l"] unfolding mult_Suc_right by linarith+
  have "4096 * Suc ?q \<le> 4096 * 2 ^ 52" using q by (intro mult_le_mono2) simp
  then have b: "unat l + k < 2 ^ 64" using hi by simp
  then have "unat (of_nat k :: u64) = k" by (simp add: unat_of_nat)
  then show u: "unat (l + of_nat k) = unat l + k" using unat_add_small [of l "of_nat k"] b by simp
  show "unat (l + of_nat k) div 4096 = ?q"
    unfolding u by (rule div_nat_eqI [OF lo [simplified mult.commute] hi [simplified mult.commute]])
qed

section \<open>The guest memory interface\<close>

text \<open>
  What a client of the nested model promises about its callbacks: translation and reads do not
  change the memory, translation is linear inside a page, a read or a write of a run of bytes
  succeeds exactly when every byte of it exists, and a write changes exactly those bytes.
\<close>

locale guest_memory =
  fixes translate :: "'s \<Rightarrow> u64 \<Rightarrow> u32 \<Rightarrow> u64 option \<times> 's"
    and rd :: "'s \<Rightarrow> u64 \<Rightarrow> u32 \<Rightarrow> (nat \<Rightarrow> u8) option \<times> 's"
    and wr :: "'s \<Rightarrow> u64 \<Rightarrow> u8 list \<Rightarrow> u32 \<Rightarrow> bool \<times> 's"
    and physical :: "u64 \<Rightarrow> u64 option"
    and byte :: "'s \<Rightarrow> u64 \<Rightarrow> u8 option"
  assumes translate_spec: "access \<noteq> 0 \<Longrightarrow> translate s l access = (physical l, s)"
    and physical_page: "physical l = Some p \<Longrightarrow> unat l div 4096 = unat l' div 4096 \<Longrightarrow>
          physical l' = Some (p + (l' - l))"
    and read_state: "snd (rd s p n) = s"
    and read_defined: "n \<noteq> 0 \<Longrightarrow>
          (fst (rd s p n) \<noteq> None) = (\<forall>k<unat n. byte s (p + of_nat k) \<noteq> None)"
    and read_bytes: "fst (rd s p n) = Some f \<Longrightarrow> k < unat n \<Longrightarrow> byte s (p + of_nat k) = Some (f k)"
    and write_defined: "n \<noteq> 0 \<Longrightarrow>
          fst (wr s p bs n) = (\<forall>k<unat n. byte s (p + of_nat k) \<noteq> None)"
    and write_refused: "\<not> fst (wr s p bs n) \<Longrightarrow> snd (wr s p bs n) = s"
    and write_bytes: "n \<noteq> 0 \<Longrightarrow> length bs = unat n \<Longrightarrow> fst (wr s p bs n) \<Longrightarrow>
          byte (snd (wr s p bs n)) q =
            (if unat (q - p) < unat n then Some (bs ! unat (q - p)) else byte s q)"
begin

definition memory_of :: "'s \<Rightarrow> 's NestedMemory" where
  "memory_of s = \<lparr>nm_context = s, nm_translate = Some translate, nm_read = Some rd, nm_write = Some wr\<rparr>"

text \<open>The byte at a linear address.\<close>

definition linear_byte :: "'s \<Rightarrow> u64 \<Rightarrow> u8 option" where
  "linear_byte s l = Option.bind (physical l) (byte s)"

lemma TranslateLinear_memory [simp]:
  "access \<noteq> 0 \<Longrightarrow> TranslateLinear (memory_of s) l access = (physical l, memory_of s)"
  by (simp add: TranslateLinear_def memory_of_def translate_spec)

lemma call_read_memory:
  assumes "n \<noteq> 0"
  shows "call_read (memory_of s) p n =
    (if \<forall>k<unat n. byte s (p + of_nat k) \<noteq> None
     then Some (map (\<lambda>k. the (byte s (p + of_nat k))) [0..<unat n]) else None, memory_of s)"
proof (cases "fst (rd s p n)")
  case None
  then have "\<not> (\<forall>k<unat n. byte s (p + of_nat k) \<noteq> None)" using read_defined [OF assms] by blast
  moreover have "rd s p n = (None, s)" using None read_state by (metis prod.collapse)
  ultimately show ?thesis by (simp add: call_read_def memory_of_def)
next
  case (Some f)
  then have a: "\<forall>k<unat n. byte s (p + of_nat k) \<noteq> None"
    using read_defined [OF assms] by blast
  have "rd s p n = (Some f, s)" using Some read_state by (metis prod.collapse)
  moreover have "map f [0..<unat n] = map (\<lambda>k. the (byte s (p + of_nat k))) [0..<unat n]"
    using read_bytes [OF Some] by simp
  ultimately show ?thesis using a by (simp add: call_read_def memory_of_def)
qed

lemma call_write_memory:
  "call_write (memory_of s) p bs n = (fst (wr s p bs n), memory_of (snd (wr s p bs n)))"
  by (simp add: call_write_def memory_of_def split_beta)

text \<open>On one page the linear bytes are the physical ones from the translation on.\<close>

lemma linear_byte_chunk:
  assumes "physical l = Some p" and "k < unat (page_chunk l n)"
  shows "linear_byte s (l + of_nat k) = byte s (p + of_nat k)"
  using physical_page [OF assms(1) same_page(2) [OF assms(2), symmetric]] by (simp add: linear_byte_def)

lemma linear_byte_unmapped: "physical l = None \<Longrightarrow> linear_byte s l = None"
  by (simp add: linear_byte_def)

text \<open>
  The chunked loop reads the same bytes as a byte-wise read, and fails exactly when one of them
  does not exist or the range runs past the end of the address space.
\<close>

definition linear_range :: "'s \<Rightarrow> u64 \<Rightarrow> nat \<Rightarrow> bool" where
  "linear_range s l n \<longleftrightarrow> unat l + n \<le> 2 ^ 64 \<and> (\<forall>k<n. linear_byte s (l + of_nat k) \<noteq> None)"

definition linear_bytes :: "'s \<Rightarrow> u64 \<Rightarrow> nat \<Rightarrow> u8 list" where
  "linear_bytes s l n = map (\<lambda>k. the (linear_byte s (l + of_nat k))) [0..<n]"

lemma linear_range_split:
  assumes "unat l + c < 2 ^ 64"
  shows "linear_range s l (c + r) \<longleftrightarrow>
    (\<forall>k<c. linear_byte s (l + of_nat k) \<noteq> None) \<and> linear_range s (l + of_nat c) r"
proof -
  have "unat (of_nat c :: u64) = c" using assms by (simp add: unat_of_nat)
  then have u: "unat (l + of_nat c) = unat l + c"
    using unat_add_small [of l "of_nat c"] assms by simp
  have "(\<forall>k<c + r. P k) \<longleftrightarrow> (\<forall>k<c. P k) \<and> (\<forall>k<r. P (c + k))" for P :: "nat \<Rightarrow> bool"
  proof (intro iffI conjI allI impI)
    fix k assume a: "(\<forall>k<c. P k) \<and> (\<forall>k<r. P (c + k))" and k: "k < c + r"
    show "P k"
    proof (cases "k < c")
      case False
      then have "k - c < r" "c + (k - c) = k" using k by auto
      then show ?thesis using a by metis
    qed (use a in blast)
  qed auto
  then show ?thesis by (simp add: linear_range_def u add.assoc) blast
qed

lemma linear_bytes_split:
  "linear_bytes s l (c + r) = linear_bytes s l c @ linear_bytes s (l + of_nat c) r"
proof -
  have "[0..<c + r] = [0..<c] @ map (\<lambda>k. c + k) [0..<r]"
    using upt_add_eq_append [of 0 c r] map_add_upt [of c r] by (simp add: add.commute)
  then show ?thesis by (simp add: linear_bytes_def add.assoc o_def)
qed

lemma next_page:
  "l > NOT 0 - ucast (page_chunk l n) \<longleftrightarrow> \<not> unat l + unat (page_chunk l n) < 2 ^ 64"
  using le_max_minus_iff [of l "ucast (page_chunk l n)"]
  by (simp add: not_le [symmetric] ucast_u32_u64_unat)

text \<open>One page of a range, and the rest of it.\<close>

lemma linear_range_step:
  fixes s :: 's
  assumes n0: "n \<noteq> 0" and c: "c = page_chunk l n"
  shows "linear_range s l (unat n) \<longleftrightarrow> physical l \<noteq> None \<and>
    (\<forall>k<unat c. linear_byte s (l + of_nat k) \<noteq> None) \<and>
    (n - c = 0 \<or> unat l + unat c < 2 ^ 64 \<and> linear_range s (l + ucast c) (unat (n - c)))"
proof -
  have cn: "unat n = unat c + unat (n - c)"
    using page_chunk_le [of l n] by (simp add: c unat_sub word_le_nat_alt)
  have c0: "0 < unat c" using page_chunk_nonzero [OF n0, of l] by (simp add: c unat_gt_0)
  have oc: "of_nat (unat c) = (ucast c :: u64)" by simp
  have mapped: "physical l \<noteq> None" if "\<forall>k<unat c. linear_byte s (l + of_nat k) \<noteq> None"
  proof -
    have "linear_byte s l \<noteq> None" using that [rule_format, OF c0] by simp
    then show "physical l \<noteq> None" by (cases "physical l") (simp_all add: linear_byte_def)
  qed
  show ?thesis
  proof (cases "n - c = 0")
    case True
    have "unat c - 1 < unat (page_chunk l n)" using c0 c by simp
    then have "unat l + unat c \<le> 2 ^ 64"
      using same_page(1) [of "unat c - 1" l n] u64_bound [of "l + of_nat (unat c - 1)"] c0 by linarith
    then show ?thesis using True cn mapped by (auto simp: linear_range_def)
  next
    case False
    then have r0: "0 < unat (n - c)" by (simp only: unat_gt_0 not_False_eq_True)
    show ?thesis
    proof (cases "unat l + unat c < 2 ^ 64")
      case True
      then show ?thesis
        using False linear_range_split [OF True, of s "unat (n - c)"] mapped by (auto simp: cn oc)
    next
      case wraps: False
      then have "\<not> linear_range s l (unat n)" using r0 cn by (simp add: linear_range_def)
      then show ?thesis using False wraps by blast
    qed
  qed
qed

lemma read_chunk:
  assumes "physical l = Some p" and "n \<noteq> 0" and c: "c = page_chunk l n"
  shows "call_read (memory_of s) p c =
    (if \<forall>k<unat c. linear_byte s (l + of_nat k) \<noteq> None
     then Some (linear_bytes s l (unat c)) else None, memory_of s)"
  using call_read_memory [OF page_chunk_nonzero [OF assms(2)], of s p l] linear_byte_chunk [OF assms(1), of _ n s]
  by (simp add: c linear_bytes_def)

lemma read_linear_loop_exact:
  assumes "access \<noteq> 0"
  shows "read_linear_loop (memory_of s) l n access acc =
    (if linear_range s l (unat n) then Some (acc @ linear_bytes s l (unat n)) else None, memory_of s)"
proof (induction "unat n" arbitrary: l n acc rule: less_induct)
  case less
  show ?case
  proof (cases "n = 0")
    case True
    then show ?thesis
      using u64_bound [of l]
      by (simp add: read_linear_loop.simps [of "memory_of s"] linear_range_def linear_bytes_def)
  next
    case False
    define c where "c = page_chunk l n"
    note step = linear_range_step [OF False c_def, of s]
    note L = read_linear_loop.simps [of "memory_of s" l n access acc] c_def [symmetric] Let_def False assms
      page_chunk_nonzero [OF False, of l, folded c_def]
    have cn: "unat n = unat c + unat (n - c)"
      using page_chunk_le [of l n] by (simp add: c_def unat_sub word_le_nat_alt)
    have "unat (n - c) < unat n" using cn L(6) by (simp add: unat_gt_0)
    note IH = less.hyps [OF this, of "l + ucast c" "acc @ linear_bytes s l (unat c)"]
    have bytes: "linear_bytes s l (unat n) = linear_bytes s l (unat c) @ linear_bytes s (l + ucast c) (unat (n - c))"
      using linear_bytes_split [of s l "unat c" "unat (n - c)"] cn by simp
    have none: "linear_bytes s q 0 = []" for q by (simp add: linear_bytes_def)
    show ?thesis
    proof (cases "physical l")
      case None
      then show ?thesis using step by (simp add: L)
    next
      case (Some p)
      note r = read_chunk [OF Some False c_def, of s]
      show ?thesis
      proof (cases "\<forall>k<unat c. linear_byte s (l + of_nat k) \<noteq> None")
        case True
        have "call_read (memory_of s) p c = (Some (linear_bytes s l (unat c)), memory_of s)"
          by (simp only: r if_P [OF True])
        note called = this
        show ?thesis
        proof (cases "n - c = 0")
          case last: True
          then have eq: "n = c" by simp
          moreover have "page_chunk l n = n" using eq by (simp add: c_def)
          ultimately show ?thesis
            using True Some called unfolding step bytes by (subst L(1), simp add: L(3-6) none)
        next
          case False
          then show ?thesis
            using True Some IH called next_page [of l n, folded c_def] unfolding step bytes by (simp add: L)
        qed
      next
        case False
        have "call_read (memory_of s) p c = (None, memory_of s)" by (simp only: r if_not_P [OF False])
        then show ?thesis using False Some unfolding step by (simp add: L)
      qed
    qed
  qed
qed

lemma ReadLinear_exact:
  "ReadLinear (memory_of s) l (Some b) n access =
    (if n \<noteq> 0 \<and> linear_range s l (unat n) then Some (linear_bytes s l (unat n)) else None, memory_of s)"
  if "access \<noteq> 0"
  using read_linear_loop_exact [OF that, of s l n "[]"]
  by (simp add: ReadLinear_def) (simp add: memory_of_def)

lemma region_scan_reads: "fst (call_read (memory_of s) p n) \<noteq> None \<longleftrightarrow>
    (\<forall>k<unat n. byte s (p + of_nat k) \<noteq> None)" if "n \<noteq> 0"
  using call_read_memory [OF that, of s p] by simp

end

text \<open>The bytes of a first chunk and those of the rest make up the whole.\<close>

lemma next_chunk_byte:
  fixes c r n :: u32 and q l :: u64
  assumes n: "unat n = unat c + unat r" and len: "length bs = unat n"
  shows "(if unat (q - (l + ucast c)) < unat r then Some (drop (unat c) bs ! unat (q - (l + ucast c)))
      else if unat (q - l) < unat c then Some (take (unat c) bs ! unat (q - l)) else y) =
    (if unat (q - l) < unat n then Some (bs ! unat (q - l)) else y)"
proof -
  let ?d = "q - l"
  have d: "q - (l + ucast c) = ?d - ucast c" by (simp add: algebra_simps)
  have u: "unat (?d - ucast c) = (if unat c \<le> unat ?d then unat ?d - unat c else unat ?d + 2 ^ 64 - unat c)"
    by (simp add: unat_sub_if' ucast_u32_u64_unat)
  have "unat c < 2 ^ 32" "unat r < 2 ^ 32" using unsigned_less [of c] unsigned_less [of r] by simp_all
  then show ?thesis unfolding d u using n len by (auto simp: nth_drop)
qed

text \<open>
  With distinct linear addresses at distinct physical ones, what is written is what is read back,
  and nothing else changes.
\<close>

locale flat_memory = guest_memory +
  assumes physical_inj: "physical l = Some p \<Longrightarrow> physical l' = Some p \<Longrightarrow> l = l'"
begin

lemma written_byte:
  assumes p: "physical l = Some p" and len: "length bs = unat n" and n: "n \<noteq> 0"
    and chunk: "unat n \<le> 4096 - unat l mod 4096" and ok: "fst (wr s p bs n)"
  shows "linear_byte (snd (wr s p bs n)) q =
    (if unat (q - l) < unat n then Some (bs ! unat (q - l)) else linear_byte s q)"
proof (cases "unat (q - l) < unat n")
  case True
  have pc: "page_chunk l n = n" using chunk page_chunk_unat [of l n] by (simp add: word_unat_eq_iff)
  have "q = l + of_nat (unat (q - l))" by simp
  then have "physical q = Some (p + (q - l))"
    using same_page(2) [of "unat (q - l)" l n] physical_page [OF p, of q] True pc by simp
  then show ?thesis using True write_bytes [OF n len ok, of "p + (q - l)"] by (simp add: linear_byte_def)
next
  case False
  show ?thesis
  proof (cases "physical q")
    case (Some pq)
    have "\<not> unat (pq - p) < unat n"
    proof
      assume lt: "unat (pq - p) < unat n"
      have pc: "page_chunk l n = n" using chunk page_chunk_unat [of l n] by (simp add: word_unat_eq_iff)
      have "physical (l + (pq - p)) = Some (p + (pq - p))"
        using same_page(2) [of "unat (pq - p)" l n] physical_page [OF p, of "l + (pq - p)"] lt pc by simp
      then have "q = l + (pq - p)" using physical_inj Some by (metis add_diff_cancel_left' diff_add_cancel add.commute)
      then show False using False lt by simp
    qed
    then show ?thesis using False Some write_bytes [OF n len ok] by (simp add: linear_byte_def)
  qed (use False in \<open>simp add: linear_byte_def\<close>)
qed

text \<open>What writing the first chunk does to the linear bytes.\<close>

lemma write_chunk:
  assumes p: "physical l = Some p" and n0: "n \<noteq> 0" and c: "c = page_chunk l n"
    and len: "length bs = unat n" and w: "w = wr s p (take (unat c) bs) c"
  shows "call_write (memory_of s) p (take (unat c) bs) c = (fst w, memory_of (snd w))"
    "fst w \<longleftrightarrow> (\<forall>k<unat c. linear_byte s (l + of_nat k) \<noteq> None)"
    "\<not> fst w \<Longrightarrow> snd w = s"
    "fst w \<Longrightarrow> linear_byte (snd w) q =
       (if unat (q - l) < unat c then Some (take (unat c) bs ! unat (q - l)) else linear_byte s q)"
    "linear_byte (snd w) q = None \<longleftrightarrow> linear_byte s q = None"
proof -
  have c0: "c \<noteq> 0" using page_chunk_nonzero [OF n0] c by simp
  have l: "length (take (unat c) bs) = unat c"
    using page_chunk_le [of l n] len by (simp add: c word_le_nat_alt)
  have cp: "unat c \<le> 4096 - unat l mod 4096" by (simp add: c page_chunk_unat)
  show "call_write (memory_of s) p (take (unat c) bs) c = (fst w, memory_of (snd w))"
    by (simp add: call_write_memory w)
  show def: "fst w \<longleftrightarrow> (\<forall>k<unat c. linear_byte s (l + of_nat k) \<noteq> None)"
    using write_defined [OF c0] linear_byte_chunk [OF p, of _ n s] by (simp add: w c)
  show same: "\<not> fst w \<Longrightarrow> snd w = s" using write_refused by (simp add: w)
  have wb: "linear_byte (snd w) q =
     (if unat (q - l) < unat c then Some (take (unat c) bs ! unat (q - l)) else linear_byte s q)" if "fst w" for q
    using written_byte [OF p l c0 cp] that by (simp add: w)
  then show "fst w \<Longrightarrow> linear_byte (snd w) q =
     (if unat (q - l) < unat c then Some (take (unat c) bs ! unat (q - l)) else linear_byte s q)" .
  show "linear_byte (snd w) q = None \<longleftrightarrow> linear_byte s q = None"
    using wb [of q] def same
    by (cases "fst w"; cases "unat (q - l) < unat c") (auto dest: spec [of _ "unat (q - l)"])
qed

definition written :: "'a \<Rightarrow> u64 \<Rightarrow> u8 list \<Rightarrow> 'a \<Rightarrow> bool" where
  "written s l bs s' \<longleftrightarrow> (\<forall>q. linear_byte s' q =
     (if unat (q - l) < length bs then Some (bs ! unat (q - l)) else linear_byte s q))"

lemma write_linear_loop_exact:
  assumes "length bs = unat n"
  shows "\<exists>s'. write_linear_loop (memory_of s) l n bs = (linear_range s l (unat n), memory_of s') \<and>
    (\<forall>q. linear_byte s' q = None \<longleftrightarrow> linear_byte s q = None) \<and>
    (linear_range s l (unat n) \<longrightarrow> written s l bs s')"
  using assms
proof (induction "unat n" arbitrary: l n bs s rule: less_induct)
  case less
  show ?case
  proof (cases "n = 0")
    case True
    then show ?thesis
      using u64_bound [of l] less.prems
      by (intro exI [of _ s]) (simp add: write_linear_loop.simps [of "memory_of s"] linear_range_def written_def)
  next
    case n0: False
    define c where "c = page_chunk l n"
    note step = linear_range_step [OF n0 c_def, of s]
    note L = write_linear_loop.simps [of "memory_of s" l n bs] c_def [symmetric] Let_def n0
      page_chunk_nonzero [OF n0, of l, folded c_def]
    have cn: "unat n = unat c + unat (n - c)"
      using page_chunk_le [of l n] by (simp add: c_def unat_sub word_le_nat_alt)
    show ?thesis
    proof (cases "physical l")
      case None
      then show ?thesis using step by (intro exI [of _ s]) (simp add: L)
    next
      case (Some p)
      define w where "w = wr s p (take (unat c) bs) c"
      note W = write_chunk [OF Some n0 c_def less.prems w_def]
      consider (refused) "\<not> fst w" | (final) "fst w" "n - c = 0" | (wraps) "fst w" "n - c \<noteq> 0" "\<not> unat l + unat c < 2 ^ 64"
        | (more) "fst w" "n - c \<noteq> 0" "unat l + unat c < 2 ^ 64" by blast
      then show ?thesis
      proof cases
        case refused
        then have "\<not> linear_range s l (unat n)" "call_write (memory_of s) p (take (unat c) bs) c = (False, memory_of s)"
          using step W(1-3) by simp_all
        then show ?thesis using Some by (intro exI [of _ s]) (simp add: L)
      next
        case final
        then have "written s l bs (snd w)" "linear_range s l (unat n)"
          "call_write (memory_of s) p (take (unat c) bs) c = (True, memory_of (snd w))"
          using step W(1,2,4) Some less.prems cn by (simp_all add: written_def)
        moreover have eq: "n = c" using final(2) by simp
        moreover have "page_chunk l n = n" using eq by (simp add: c_def)
        ultimately show ?thesis
          using Some W(5) by (intro exI [of _ "snd w"]) (subst L(1), simp add: L(3-5))
      next
        case wraps
        then have "\<not> linear_range s l (unat n)"
          "call_write (memory_of s) p (take (unat c) bs) c = (True, memory_of (snd w))"
          using step W(1,2) by simp_all
        then show ?thesis
          using Some wraps W(5) next_page [of l n, folded c_def] by (intro exI [of _ "snd w"]) (simp add: L)
      next
        case more
        have lt: "unat (n - c) < unat n" using cn L(5) by (simp add: unat_gt_0)
        have lr: "length (drop (unat c) bs) = unat (n - c)" using less.prems cn by simp
        have rng: "linear_range s l (unat n) \<longleftrightarrow> linear_range (snd w) (l + ucast c) (unat (n - c))"
          unfolding step using more Some W(2,5) by (simp add: linear_range_def)
        obtain s' where s': "write_linear_loop (memory_of (snd w)) (l + ucast c) (n - c) (drop (unat c) bs) =
            (linear_range s l (unat n), memory_of s')"
          and ex': "\<And>q. linear_byte s' q = None \<longleftrightarrow> linear_byte (snd w) q = None"
          and wr': "linear_range s l (unat n) \<Longrightarrow> written (snd w) (l + ucast c) (drop (unat c) bs) s'"
          using less.hyps [OF lt lr, of "snd w" "l + ucast c"] unfolding rng by blast
        have "written s l bs s'" if "linear_range s l (unat n)"
          unfolding written_def
            wr' [OF that, unfolded written_def lr W(4) [OF more(1)] next_chunk_byte [OF cn less.prems], rule_format]
          by (simp only: less.prems) simp
        moreover have "call_write (memory_of s) p (take (unat c) bs) c = (True, memory_of (snd w))"
          using W(1) more(1) by simp
        ultimately show ?thesis
          using more Some W(5) s' ex' next_page [of l n, folded c_def] by (intro exI [of _ s']) (simp add: L)
      qed
    qed
  qed
qed

lemma WriteLinear_exact:
  assumes "length bs = unat n" and "n \<noteq> 0"
  shows "\<exists>s'. WriteLinear (memory_of s) l (Some bs) n = (linear_range s l (unat n), memory_of s') \<and>
    (linear_range s l (unat n) \<longrightarrow> written s l bs s' \<and> linear_range s' l (unat n) \<and> linear_bytes s' l (unat n) = bs)"
proof -
  have m: "WriteLinear (memory_of s) l (Some bs) n = write_linear_loop (memory_of s) l n bs"
    using assms(2) by (simp add: WriteLinear_def) (simp add: memory_of_def)
  obtain s' where s': "write_linear_loop (memory_of s) l n bs = (linear_range s l (unat n), memory_of s')"
    "\<And>q. linear_byte s' q = None \<longleftrightarrow> linear_byte s q = None" "linear_range s l (unat n) \<Longrightarrow> written s l bs s'"
    using write_linear_loop_exact [OF assms(1), of s l] by blast
  have "linear_bytes s' l (unat n) = bs" if "written s l bs s'"
  proof (rule nth_equalityI)
    fix k assume "k < length (linear_bytes s' l (unat n))"
    then have k: "k < unat n" by (simp add: linear_bytes_def)
    have "unat n < 2 ^ 32" using unsigned_less [of n] by simp
    then have "k < 2 ^ 64" using k by simp
    then have "unat (of_nat k :: u64) = k" by (simp add: unat_of_nat)
    then show "linear_bytes s' l (unat n) ! k = bs ! k"
      using that k assms by (simp add: linear_bytes_def written_def)
  qed (simp add: linear_bytes_def assms)
  moreover have "linear_range s' l (unat n) = linear_range s l (unat n)"
    using s'(2) by (simp add: linear_range_def)
  ultimately show ?thesis using s' m by (intro exI [of _ s']) simp
qed

end

end
