(* ===== verification/NestedVmcs.thy ===== *)
theory NestedVmcs
  imports NestedLinear
begin

text \<open>
  The virtual VMCS (VMCS12) of the nested VMX emulation: the data model of
  \<^verbatim>\<open>src/src/include/knhv_nested.h\<close> and \<^verbatim>\<open>src/src/nested/nested_internal.h\<close> and the
  functions of \<^verbatim>\<open>src/src/nested/nested_vmcs.cpp\<close>: the table of field rules, field access,
  control and entry-state validation, VMX region validation, results and failures, and the
  initial state. A pointer into the rule table or into the VMCS slots is its index.
\<close>

section \<open>Constants\<close>

abbreviation kNestedModelVersion :: u32 where "kNestedModelVersion \<equiv> 1"
abbreviation kNestedVmcsSlots :: nat where "kNestedVmcsSlots \<equiv> 16"
abbreviation kNestedVmcsFields :: nat where "kNestedVmcsFields \<equiv> 96"
abbreviation kNestedVmxRevisionMask :: u32 where "kNestedVmxRevisionMask \<equiv> 0x7FFFFFFF"
abbreviation kRflagsCarry :: u64 where "kRflagsCarry \<equiv> 1"
abbreviation kRflagsZero :: u64 where "kRflagsZero \<equiv> 64"
abbreviation kInstructionOperandIsRegister :: u32 where "kInstructionOperandIsRegister \<equiv> 1"
abbreviation kDescriptorIsInline :: u32 where "kDescriptorIsInline \<equiv> 2"
abbreviation kNestedSecondaryEnableEpt :: u32 where "kNestedSecondaryEnableEpt \<equiv> 2"
abbreviation kNestedSecondaryEnableVpid :: u32 where "kNestedSecondaryEnableVpid \<equiv> 32"
abbreviation kNestedSecondaryEnableVmfunc :: u32 where "kNestedSecondaryEnableVmfunc \<equiv> 0x2000"
abbreviation kPrimaryActivateSecondary :: u32 where "kPrimaryActivateSecondary \<equiv> 0x80000000"
abbreviation kMask16 :: u64 where "kMask16 \<equiv> NOT 0xFFFF"
abbreviation kMask32 :: u64 where "kMask32 \<equiv> NOT 0xFFFFFFFF"
abbreviation kVmcsFieldVpid :: u32 where "kVmcsFieldVpid \<equiv> 0x0000"
abbreviation kVmcsFieldEptpIndex :: u32 where "kVmcsFieldEptpIndex \<equiv> 0x0004"
abbreviation kVmcsFieldIoBitmapA :: u32 where "kVmcsFieldIoBitmapA \<equiv> 0x2000"
abbreviation kVmcsFieldIoBitmapB :: u32 where "kVmcsFieldIoBitmapB \<equiv> 0x2002"
abbreviation kVmcsFieldMsrBitmap :: u32 where "kVmcsFieldMsrBitmap \<equiv> 0x2004"
abbreviation kVmcsFieldEptPointer :: u32 where "kVmcsFieldEptPointer \<equiv> 0x201A"
abbreviation kVmcsFieldVpidAddress :: u32 where "kVmcsFieldVpidAddress \<equiv> 0x201C"
abbreviation kVmcsFieldPinControls :: u32 where "kVmcsFieldPinControls \<equiv> 0x4000"
abbreviation kVmcsFieldPrimaryControls :: u32 where "kVmcsFieldPrimaryControls \<equiv> 0x4002"
abbreviation kVmcsFieldExceptionBitmap :: u32 where "kVmcsFieldExceptionBitmap \<equiv> 0x4004"
abbreviation kVmcsFieldExitControls :: u32 where "kVmcsFieldExitControls \<equiv> 0x400C"
abbreviation kVmcsFieldEntryControls :: u32 where "kVmcsFieldEntryControls \<equiv> 0x4012"
abbreviation kVmcsFieldSecondaryControls :: u32 where "kVmcsFieldSecondaryControls \<equiv> 0x401E"
abbreviation kVmcsFieldInstructionError :: u32 where "kVmcsFieldInstructionError \<equiv> 0x4400"
abbreviation kVmcsFieldExitReason :: u32 where "kVmcsFieldExitReason \<equiv> 0x4402"
abbreviation kVmcsFieldExitQualification :: u32 where "kVmcsFieldExitQualification \<equiv> 0x6400"
abbreviation kVmcsFieldGuestCr0 :: u32 where "kVmcsFieldGuestCr0 \<equiv> 0x6800"
abbreviation kVmcsFieldGuestCr3 :: u32 where "kVmcsFieldGuestCr3 \<equiv> 0x6802"
abbreviation kVmcsFieldGuestCr4 :: u32 where "kVmcsFieldGuestCr4 \<equiv> 0x6804"
abbreviation kVmcsFieldGuestRsp :: u32 where "kVmcsFieldGuestRsp \<equiv> 0x681C"
abbreviation kVmcsFieldGuestRip :: u32 where "kVmcsFieldGuestRip \<equiv> 0x681E"
abbreviation kVmcsFieldGuestRflags :: u32 where "kVmcsFieldGuestRflags \<equiv> 0x6820"
abbreviation kVmcsFieldHostCr0 :: u32 where "kVmcsFieldHostCr0 \<equiv> 0x6C00"
abbreviation kVmcsFieldHostCr3 :: u32 where "kVmcsFieldHostCr3 \<equiv> 0x6C02"
abbreviation kVmcsFieldHostCr4 :: u32 where "kVmcsFieldHostCr4 \<equiv> 0x6C04"
abbreviation kVmcsFieldHostRsp :: u32 where "kVmcsFieldHostRsp \<equiv> 0x6C14"
abbreviation kVmcsFieldHostRip :: u32 where "kVmcsFieldHostRip \<equiv> 0x6C16"

section \<open>Data model\<close>

datatype VmxOpcode = Vmxon | Vmxoff | Vmclear | Vmptrld | Vmptrst | Vmread | Vmwrite | Vmlaunch
  | Vmresume | Invept | Invvpid | Vmfunc | Vmcall

fun VmxOpcode_u32 :: "VmxOpcode \<Rightarrow> u32" where
  "VmxOpcode_u32 Vmxon = 1"
| "VmxOpcode_u32 Vmxoff = 2"
| "VmxOpcode_u32 Vmclear = 3"
| "VmxOpcode_u32 Vmptrld = 4"
| "VmxOpcode_u32 Vmptrst = 5"
| "VmxOpcode_u32 Vmread = 6"
| "VmxOpcode_u32 Vmwrite = 7"
| "VmxOpcode_u32 Vmlaunch = 8"
| "VmxOpcode_u32 Vmresume = 9"
| "VmxOpcode_u32 Invept = 10"
| "VmxOpcode_u32 Invvpid = 11"
| "VmxOpcode_u32 Vmfunc = 12"
| "VmxOpcode_u32 Vmcall = 13"

datatype NestedAction = ResumeL1 | EnterL2 | ReflectVmexit | InjectUndefinedInstruction
  | ActionVirtualUnsupported | QuarantineSession

datatype Vmcs12State = VmcsClear | VmcsActive | VmcsLaunched

record NestedCapabilities =
  nc_version :: u32
  nc_size :: u32
  nc_feature_bits :: u64
  nc_vmx_revision :: u32
  nc_max_physical_address_bits :: u32
  nc_linear_address_bits :: u32
  nc_eptp_list_entries :: u32
  nc_vpid_count :: u32
  nc_pin_allowed0 :: u32
  nc_pin_allowed1 :: u32
  nc_primary_allowed0 :: u32
  nc_primary_allowed1 :: u32
  nc_secondary_allowed0 :: u32
  nc_secondary_allowed1 :: u32
  nc_exit_allowed0 :: u32
  nc_exit_allowed1 :: u32
  nc_entry_allowed0 :: u32
  nc_entry_allowed1 :: u32
  nc_cr0_fixed0 :: u64
  nc_cr0_fixed1 :: u64
  nc_cr4_fixed0 :: u64
  nc_cr4_fixed1 :: u64

text \<open>The opcode is kept as the integer of the wire format, since any value may arrive.\<close>

record VmxInstruction =
  vi_version :: u32
  vi_size :: u32
  vi_opcode :: u32
  vi_instruction_length :: u32
  vi_flags :: u32
  vi_descriptor_type :: u32
  vi_reserved :: u32
  vi_encoding :: u32
  vi_reserved2 :: u32
  vi_linear_operand :: u64
  vi_destination :: u64
  vi_source :: u64
  vi_descriptor :: u64

record NestedResult =
  nr_status :: HvStatus
  nr_action :: NestedAction
  nr_instruction_error :: u32
  nr_instruction_length :: u32
  nr_rflags :: u64
  nr_value :: u64

record NestedVmcs12 =
  v12_region_gpa :: u64
  v12_revision :: u32
  v12_state :: Vmcs12State
  v12_allocated :: u8
  v12_fields :: "u64 list"
  v12_dirty_groups :: u64

record 's NestedVcpu =
  nv_version :: u32
  nv_size :: u32
  nv_capabilities :: NestedCapabilities
  nv_memory :: "'s NestedMemory"
  nv_vmxon_active :: u8
  nv_l2_running :: u8
  nv_vmxe_enabled :: u8
  nv_vmxon_gpa :: u64
  nv_current_vmcs_gpa :: u64
  nv_instruction_error :: u32
  nv_generation :: u32
  nv_vmcs_count :: u32
  nv_eptp_index :: u32
  nv_vmcs :: "NestedVmcs12 list"

record NestedExitRecord =
  xr_version :: u32
  xr_size :: u32
  xr_reason :: u32
  xr_instruction_length :: u32
  xr_qualification :: u64
  xr_guest_linear :: u64
  xr_guest_physical :: u64

section \<open>The field rules\<close>

datatype FieldControlKind = FieldControlNone | FieldControlPin | FieldControlPrimary
  | FieldControlSecondary | FieldControlExit | FieldControlEntry

record FieldRule =
  fr_encoding :: u32
  fr_width :: u8
  fr_writable :: u8
  fr_control_kind :: FieldControlKind
  fr_clean_group :: u8
  fr_reserved_zero_mask :: u64
  fr_reserved_one_mask :: u64

abbreviation field_rule ::
  "u32 \<Rightarrow> u8 \<Rightarrow> u8 \<Rightarrow> FieldControlKind \<Rightarrow> u8 \<Rightarrow> u64 \<Rightarrow> u64 \<Rightarrow> FieldRule" where
  "field_rule e w wr k g z o1 \<equiv> \<lparr>fr_encoding = e, fr_width = w, fr_writable = wr,
     fr_control_kind = k, fr_clean_group = g, fr_reserved_zero_mask = z, fr_reserved_one_mask = o1\<rparr>"

definition kFieldRules :: "FieldRule list" where
  "kFieldRules = [
   field_rule kVmcsFieldVpid 2 1 FieldControlNone 0 kMask16 0,
   field_rule kVmcsFieldEptpIndex 2 1 FieldControlNone 0 kMask16 0,
   field_rule kVmcsFieldIoBitmapA 8 1 FieldControlNone 1 0 0,
   field_rule kVmcsFieldIoBitmapB 8 1 FieldControlNone 1 0 0,
   field_rule kVmcsFieldMsrBitmap 8 1 FieldControlNone 1 0 0,
   field_rule kVmcsFieldEptPointer 8 1 FieldControlNone 1 0xFFF 0,
   field_rule kVmcsFieldVpidAddress 8 1 FieldControlNone 1 0xFFF 0,
   field_rule kVmcsFieldPinControls 4 1 FieldControlPin 0 kMask32 0,
   field_rule kVmcsFieldPrimaryControls 4 1 FieldControlPrimary 0 kMask32 0,
   field_rule kVmcsFieldExceptionBitmap 4 1 FieldControlNone 0 kMask32 0,
   field_rule kVmcsFieldExitControls 4 1 FieldControlExit 0 kMask32 0,
   field_rule kVmcsFieldEntryControls 4 1 FieldControlEntry 0 kMask32 0,
   field_rule kVmcsFieldSecondaryControls 4 1 FieldControlSecondary 0 kMask32 0,
   field_rule kVmcsFieldInstructionError 4 0 FieldControlNone 0 kMask32 0,
   field_rule kVmcsFieldExitReason 4 0 FieldControlNone 0 kMask32 0,
   field_rule kVmcsFieldExitQualification 8 0 FieldControlNone 0 0 0,
   field_rule kVmcsFieldGuestCr0 8 1 FieldControlNone 2 0 0,
   field_rule kVmcsFieldGuestCr3 8 1 FieldControlNone 2 0 0,
   field_rule kVmcsFieldGuestCr4 8 1 FieldControlNone 2 0 0,
   field_rule kVmcsFieldGuestRsp 8 1 FieldControlNone 2 0 0,
   field_rule kVmcsFieldGuestRip 8 1 FieldControlNone 2 0 0,
   field_rule kVmcsFieldGuestRflags 8 1 FieldControlNone 2 0 0,
   field_rule kVmcsFieldHostCr0 8 1 FieldControlNone 3 0 0,
   field_rule kVmcsFieldHostCr3 8 1 FieldControlNone 3 0 0,
   field_rule kVmcsFieldHostCr4 8 1 FieldControlNone 3 0 0,
   field_rule kVmcsFieldHostRsp 8 1 FieldControlNone 3 0 0,
   field_rule kVmcsFieldHostRip 8 1 FieldControlNone 3 0 0,
   field_rule 0x2800 8 1 FieldControlNone 1 0 0,
   field_rule 0x2802 8 1 FieldControlNone 1 0 0,
   field_rule 0x2804 8 1 FieldControlNone 1 0 0,
   field_rule 0x2806 8 1 FieldControlNone 1 0 0,
   field_rule 0x2808 8 1 FieldControlNone 1 0 0,
   field_rule 0x4006 4 1 FieldControlNone 0 kMask32 0,
   field_rule 0x4008 4 1 FieldControlNone 0 kMask32 0,
   field_rule 0x400A 4 1 FieldControlNone 0 kMask32 0,
   field_rule 0x4014 4 1 FieldControlNone 0 kMask32 0,
   field_rule 0x4016 4 1 FieldControlNone 0 kMask32 0,
   field_rule 0x4018 4 1 FieldControlNone 0 kMask32 0,
   field_rule 0x401A 4 1 FieldControlNone 0 kMask32 0,
   field_rule 0x401C 4 1 FieldControlNone 0 kMask32 0,
   field_rule 0x4404 4 0 FieldControlNone 0 kMask32 0,
   field_rule 0x4406 4 0 FieldControlNone 0 kMask32 0,
   field_rule 0x4408 4 0 FieldControlNone 0 kMask32 0,
   field_rule 0x440A 4 0 FieldControlNone 0 kMask32 0,
   field_rule 0x440C 4 0 FieldControlNone 0 kMask32 0,
   field_rule 0x440E 4 0 FieldControlNone 0 kMask32 0,
   field_rule 0x4800 4 1 FieldControlNone 0 kMask32 0,
   field_rule 0x4802 4 1 FieldControlNone 0 kMask32 0,
   field_rule 0x4804 4 1 FieldControlNone 0 kMask32 0,
   field_rule 0x4806 4 1 FieldControlNone 0 kMask32 0,
   field_rule 0x4808 4 1 FieldControlNone 0 kMask32 0,
   field_rule 0x480A 4 1 FieldControlNone 0 kMask32 0,
   field_rule 0x4824 4 1 FieldControlNone 0 kMask32 0,
   field_rule 0x4826 4 1 FieldControlNone 0 kMask32 0,
   field_rule 0x6806 8 1 FieldControlNone 2 0 0,
   field_rule 0x6808 8 1 FieldControlNone 2 0 0,
   field_rule 0x680A 8 1 FieldControlNone 2 0 0,
   field_rule 0x680C 8 1 FieldControlNone 2 0 0,
   field_rule 0x680E 8 1 FieldControlNone 2 0 0,
   field_rule 0x6810 8 1 FieldControlNone 2 0 0,
   field_rule 0x681A 8 1 FieldControlNone 2 0 0,
   field_rule 0x6822 8 1 FieldControlNone 2 0 0]"

fun find_rule_from :: "FieldRule list \<Rightarrow> nat \<Rightarrow> u32 \<Rightarrow> nat option" where
  "find_rule_from [] index encoding = None"
| "find_rule_from (rule # rules) index encoding =
     (if fr_encoding rule = encoding then Some index
      else find_rule_from rules (index + 1) encoding)"

definition FindFieldRule :: "u32 \<Rightarrow> nat option" where
  "FindFieldRule encoding = find_rule_from kFieldRules 0 encoding"

definition FieldIndex :: "nat option \<Rightarrow> nat" where
  "FieldIndex rule = (case rule of None \<Rightarrow> kNestedVmcsFields
     | Some index \<Rightarrow> if index < kNestedVmcsFields then index else kNestedVmcsFields)"

definition FieldMask :: "u8 \<Rightarrow> u64" where
  "FieldMask width = (if width = 2 then 0xFFFF else if width = 4 then 0xFFFFFFFF else NOT 0)"

definition ReadStoredField :: "NestedVmcs12 \<Rightarrow> nat \<Rightarrow> u64" where
  "ReadStoredField vmcs rule = v12_fields vmcs ! FieldIndex (Some rule)"

definition WriteStoredField :: "NestedVmcs12 \<Rightarrow> nat \<Rightarrow> u64 \<Rightarrow> NestedVmcs12" where
  "WriteStoredField vmcs rule value =
     vmcs\<lparr>v12_fields := (v12_fields vmcs)[FieldIndex (Some rule) :=
             value AND FieldMask (fr_width (kFieldRules ! rule))],
          v12_dirty_groups := v12_dirty_groups vmcs OR
             push_bit (unat (fr_clean_group (kFieldRules ! rule) AND 63)) 1\<rparr>"

definition IsFixedCrValid :: "u64 \<Rightarrow> u64 \<Rightarrow> u64 \<Rightarrow> bool" where
  "IsFixedCrValid value fixed0 fixed1 =
     (if value AND fixed0 \<noteq> fixed0 then False
      else if fixed1 \<noteq> 0 \<and> value AND NOT fixed1 \<noteq> 0 then False else True)"

section \<open>Addresses\<close>

definition IsCanonicalAddress :: "u64 \<Rightarrow> u32 \<Rightarrow> bool" where
  "IsCanonicalAddress value address_bits =
     (let bits = (if address_bits \<ge> 48 \<and> address_bits \<le> 63 then address_bits else 48);
          low_mask = push_bit (unat bits) 1 - 1;
          sign_bit = push_bit (unat (bits - 1)) 1;
          upper = value AND NOT low_mask
      in if value AND sign_bit = 0 then upper = 0 else upper = NOT low_mask)"

definition IsLinearRangeCanonical :: "'s NestedVcpu option \<Rightarrow> u64 \<Rightarrow> u32 \<Rightarrow> bool" where
  "IsLinearRangeCanonical vcpu linear length' = (case vcpu of None \<Rightarrow> False | Some v \<Rightarrow>
     if length' = 0 then False
     else let final = ucast (length' - 1)
          in if linear > NOT 0 - final then False
             else IsCanonicalAddress linear (nc_linear_address_bits (nv_capabilities v)) \<and>
                  IsCanonicalAddress (linear + final) (nc_linear_address_bits (nv_capabilities v)))"

definition NestedIsPhysicalAddress :: "u64 \<Rightarrow> u32 \<Rightarrow> bool" where
  "NestedIsPhysicalAddress value address_bits =
     (let bits = (if address_bits \<ge> 1 \<and> address_bits \<le> 52 then address_bits else 48)
      in drop_bit (unat bits) value = 0)"

definition IsAlignedPage :: "u64 \<Rightarrow> bool" where
  "IsAlignedPage value \<longleftrightarrow> value AND (ucast kNestedPageSize - 1) = 0"

section \<open>VMCS slots, results and failures\<close>

fun find_vmcs_from :: "NestedVmcs12 list \<Rightarrow> nat \<Rightarrow> u64 \<Rightarrow> nat option" where
  "find_vmcs_from [] index region_gpa = None"
| "find_vmcs_from (vmcs # rest) index region_gpa =
     (if v12_allocated vmcs \<noteq> 0 \<and> v12_region_gpa vmcs = region_gpa then Some index
      else find_vmcs_from rest (index + 1) region_gpa)"

definition FindVmcs :: "'s NestedVcpu option \<Rightarrow> u64 \<Rightarrow> nat option" where
  "FindVmcs vcpu region_gpa = (case vcpu of None \<Rightarrow> None
     | Some v \<Rightarrow> find_vmcs_from (nv_vmcs v) 0 region_gpa)"

definition CurrentVmcs :: "'s NestedVcpu option \<Rightarrow> nat option" where
  "CurrentVmcs vcpu = (case vcpu of None \<Rightarrow> None
     | Some v \<Rightarrow> if nv_current_vmcs_gpa v = NOT 0 then None
                 else FindVmcs (Some v) (nv_current_vmcs_gpa v))"

text \<open>An update of the VMCS in a slot.\<close>

definition update_vmcs :: "nat \<Rightarrow> (NestedVmcs12 \<Rightarrow> NestedVmcs12) \<Rightarrow> 's NestedVcpu \<Rightarrow> 's NestedVcpu" where
  "update_vmcs slot f v = v\<lparr>nv_vmcs := (nv_vmcs v)[slot := f (nv_vmcs v ! slot)]\<rparr>"

definition SetVmcsReadOnly :: "u32 \<Rightarrow> u64 \<Rightarrow> NestedVmcs12 \<Rightarrow> NestedVmcs12" where
  "SetVmcsReadOnly encoding value vmcs =
     (case FindFieldRule encoding of None \<Rightarrow> vmcs
      | Some rule \<Rightarrow> if FieldIndex (Some rule) \<ge> kNestedVmcsFields then vmcs
          else vmcs\<lparr>v12_fields := (v12_fields vmcs)[FieldIndex (Some rule) :=
                  value AND FieldMask (fr_width (kFieldRules ! rule))]\<rparr>)"

definition MakeResult :: "HvStatus \<Rightarrow> NestedAction \<Rightarrow> u32 \<Rightarrow> u32 \<Rightarrow> u64 \<Rightarrow> u64 \<Rightarrow> NestedResult" where
  "MakeResult status action instruction_error instruction_length rflags value =
     \<lparr>nr_status = status, nr_action = action, nr_instruction_error = instruction_error,
      nr_instruction_length = instruction_length, nr_rflags = rflags, nr_value = value\<rparr>"

definition MakeSuccess :: "NestedAction \<Rightarrow> u32 \<Rightarrow> u64 \<Rightarrow> NestedResult" where
  "MakeSuccess action instruction_length value =
     MakeResult Success action 0 instruction_length 0 value"

definition ClearVmInstructionError :: "'s NestedVcpu \<Rightarrow> 's NestedVcpu" where
  "ClearVmInstructionError v =
     (let v = v\<lparr>nv_instruction_error := 0\<rparr>
      in case CurrentVmcs (Some v) of None \<Rightarrow> v
         | Some slot \<Rightarrow> update_vmcs slot (SetVmcsReadOnly kVmcsFieldInstructionError 0) v)"

definition MakeVmfail :: "'s NestedVcpu \<Rightarrow> HvStatus \<Rightarrow> u32 \<Rightarrow> u32 \<Rightarrow> NestedResult \<times> 's NestedVcpu" where
  "MakeVmfail v status instruction_error instruction_length =
     (let valid = (status = VmfailValid);
          v = (if valid
               then let v = v\<lparr>nv_instruction_error := instruction_error\<rparr>
                    in case CurrentVmcs (Some v) of None \<Rightarrow> v
                       | Some slot \<Rightarrow> update_vmcs slot
                           (SetVmcsReadOnly kVmcsFieldInstructionError (ucast instruction_error)) v
               else v);
          rflags = (if valid then kRflagsZero else kRflagsCarry);
          visible_error = (if valid then instruction_error else 0)
      in (MakeResult status ResumeL1 visible_error instruction_length rflags 0, v))"

section \<open>Validation\<close>

definition control_allowed :: "NestedCapabilities \<Rightarrow> FieldControlKind \<Rightarrow> (u32 \<times> u32) option" where
  "control_allowed c kind = (case kind of
     FieldControlPin \<Rightarrow> Some (nc_pin_allowed0 c, nc_pin_allowed1 c)
   | FieldControlPrimary \<Rightarrow> Some (nc_primary_allowed0 c, nc_primary_allowed1 c)
   | FieldControlSecondary \<Rightarrow> Some (nc_secondary_allowed0 c, nc_secondary_allowed1 c)
   | FieldControlExit \<Rightarrow> Some (nc_exit_allowed0 c, nc_exit_allowed1 c)
   | FieldControlEntry \<Rightarrow> Some (nc_entry_allowed0 c, nc_entry_allowed1 c)
   | FieldControlNone \<Rightarrow> None)"

definition ValidateControlValue :: "'s NestedVcpu option \<Rightarrow> nat \<Rightarrow> u64 \<Rightarrow> bool" where
  "ValidateControlValue vcpu rule value = (case vcpu of None \<Rightarrow> False | Some v \<Rightarrow>
     let r = kFieldRules ! rule
     in if value AND fr_reserved_zero_mask r \<noteq> 0 \<or>
           value AND fr_reserved_one_mask r \<noteq> fr_reserved_one_mask r
        then False
        else let requested = ucast value :: u32
             in case control_allowed (nv_capabilities v) (fr_control_kind r) of
                  None \<Rightarrow> True
                | Some (allowed0, allowed1) \<Rightarrow>
                    let adjusted = (requested OR allowed0) AND allowed1 in adjusted = requested)"

definition ValidateEntryState :: "'s NestedVcpu option \<Rightarrow> NestedVmcs12 \<Rightarrow> bool" where
  "ValidateEntryState vcpu vmcs = (case vcpu of None \<Rightarrow> False | Some v \<Rightarrow>
    (case (FindFieldRule kVmcsFieldPinControls, FindFieldRule kVmcsFieldPrimaryControls,
           FindFieldRule kVmcsFieldSecondaryControls, FindFieldRule kVmcsFieldExitControls,
           FindFieldRule kVmcsFieldEntryControls, FindFieldRule kVmcsFieldGuestCr0,
           FindFieldRule kVmcsFieldGuestCr4, FindFieldRule kVmcsFieldHostCr0,
           FindFieldRule kVmcsFieldHostCr4, FindFieldRule kVmcsFieldGuestRip,
           FindFieldRule kVmcsFieldGuestRsp, FindFieldRule kVmcsFieldHostRip,
           FindFieldRule kVmcsFieldHostRsp, FindFieldRule kVmcsFieldGuestRflags,
           FindFieldRule kVmcsFieldEptPointer, FindFieldRule kVmcsFieldVpid) of
       (Some pin_rule, Some primary_rule, Some secondary_rule, Some exit_rule, Some entry_rule,
        Some guest_cr0_rule, Some guest_cr4_rule, Some host_cr0_rule, Some host_cr4_rule,
        Some guest_rip_rule, Some guest_rsp_rule, Some host_rip_rule, Some host_rsp_rule,
        Some guest_rflags_rule, Some ept_pointer_rule, Some vpid_rule) \<Rightarrow>
        (let caps = nv_capabilities v;
             primary = ReadStoredField vmcs primary_rule;
             secondary = ReadStoredField vmcs secondary_rule
         in if \<not> ValidateControlValue vcpu pin_rule (ReadStoredField vmcs pin_rule) \<or>
               \<not> ValidateControlValue vcpu primary_rule primary \<or>
               \<not> ValidateControlValue vcpu secondary_rule secondary \<or>
               \<not> ValidateControlValue vcpu exit_rule (ReadStoredField vmcs exit_rule) \<or>
               \<not> ValidateControlValue vcpu entry_rule (ReadStoredField vmcs entry_rule)
            then False
            else if secondary \<noteq> 0 \<and> primary AND ucast kPrimaryActivateSecondary = 0 then False
            else if \<not> IsFixedCrValid (ReadStoredField vmcs guest_cr0_rule) (nc_cr0_fixed0 caps) (nc_cr0_fixed1 caps) \<or>
                    \<not> IsFixedCrValid (ReadStoredField vmcs host_cr0_rule) (nc_cr0_fixed0 caps) (nc_cr0_fixed1 caps) \<or>
                    \<not> IsFixedCrValid (ReadStoredField vmcs guest_cr4_rule) (nc_cr4_fixed0 caps) (nc_cr4_fixed1 caps) \<or>
                    \<not> IsFixedCrValid (ReadStoredField vmcs host_cr4_rule) (nc_cr4_fixed0 caps) (nc_cr4_fixed1 caps)
            then False
            else if \<not> IsCanonicalAddress (ReadStoredField vmcs guest_rip_rule) (nc_linear_address_bits caps) \<or>
                    \<not> IsCanonicalAddress (ReadStoredField vmcs guest_rsp_rule) (nc_linear_address_bits caps) \<or>
                    \<not> IsCanonicalAddress (ReadStoredField vmcs host_rip_rule) (nc_linear_address_bits caps) \<or>
                    \<not> IsCanonicalAddress (ReadStoredField vmcs host_rsp_rule) (nc_linear_address_bits caps)
            then False
            else if ReadStoredField vmcs guest_rflags_rule AND 2 = 0 then False
            else if secondary AND ucast kNestedSecondaryEnableEpt \<noteq> 0 \<and>
                    (nc_feature_bits caps AND kCapEpt = 0 \<or>
                     (let eptp = ReadStoredField vmcs ept_pointer_rule
                      in \<not> IsAlignedPage eptp \<or>
                         \<not> NestedIsPhysicalAddress eptp (nc_max_physical_address_bits caps)))
            then False
            else if secondary AND ucast kNestedSecondaryEnableVpid \<noteq> 0 \<and>
                    (nc_feature_bits caps AND kCapVpid = 0 \<or>
                     (let vpid = ReadStoredField vmcs vpid_rule
                      in vpid = 0 \<or> vpid > ucast (nc_vpid_count caps)))
            then False
            else if secondary AND ucast kNestedSecondaryEnableVmfunc \<noteq> 0 \<and>
                    nc_feature_bits caps AND kCapVirtualTlbFlush = 0
            then False
            else True)
     | _ \<Rightarrow> False))"

text \<open>
  The scan of a VMX region: the offset grows by chunks of at most 64 bytes until the page is
  read.
\<close>

function region_scan :: "'s NestedMemory \<Rightarrow> u64 \<Rightarrow> u32 \<Rightarrow> bool \<times> 's NestedMemory" where
  "region_scan memory region offset =
     (if offset < kNestedPageSize
      then let remaining = kNestedPageSize - offset;
               chunk = (if remaining < 64 then remaining else 64)
           in case call_read memory (region + ucast offset) chunk of
                (None, memory) \<Rightarrow> (False, memory)
              | (Some _, memory) \<Rightarrow> region_scan memory region (offset + chunk)
      else (True, memory))"
  by pat_completeness auto
termination
proof (relation "measure (\<lambda>(memory, region, offset). 4096 - unat offset)", goal_cases)
  case (2 memory region offset remaining chunk r memory' bytes)
  then have o: "unat offset < 4096" by (simp add: word_less_nat_alt)
  have rem: "unat remaining = 4096 - unat offset"
    using 2(1,2) by (simp add: unat_sub word_le_nat_alt word_less_nat_alt)
  have c: "0 < unat chunk" "unat chunk \<le> 4096 - unat offset"
    using 2(3) rem o by (simp_all add: word_less_nat_alt)
  have "unat (offset + chunk) = unat offset + unat chunk"
    using c o by (subst unat_add_lem [symmetric]) simp
  then show ?case using c o by simp
qed simp

declare region_scan.simps [simp del]

definition ValidateVmxRegion :: "'s NestedVcpu \<Rightarrow> u64 \<Rightarrow> u64 option \<times> 's NestedVcpu" where
  "ValidateVmxRegion v operand_linear =
     (if \<not> IsLinearRangeCanonical (Some v) operand_linear 8 then (None, v)
      else case ReadLinear (nv_memory v) operand_linear (Some (replicate 8 0)) 8
                  (NestedMemoryAccess_u32 AccessRead) of
        (None, memory) \<Rightarrow> (None, v\<lparr>nv_memory := memory\<rparr>)
      | (Some bytes, memory) \<Rightarrow>
          (let v = v\<lparr>nv_memory := memory\<rparr>;
               bits = nc_max_physical_address_bits (nv_capabilities v);
               region = bytes_word bytes :: u64
           in if \<not> IsAlignedPage region \<or> \<not> NestedIsPhysicalAddress region bits \<or>
                 region > NOT 0 - (ucast kNestedPageSize - 1) \<or>
                 \<not> NestedIsPhysicalAddress (region + (ucast kNestedPageSize - 1)) bits \<or>
                 nm_read (nv_memory v) = None
              then (None, v)
              else case call_read (nv_memory v) region 4 of
                (None, memory) \<Rightarrow> (None, v\<lparr>nv_memory := memory\<rparr>)
              | (Some bytes, memory) \<Rightarrow>
                  (let revision = bytes_word bytes :: u32
                   in case region_scan memory region 4 of
                        (False, memory) \<Rightarrow> (None, v\<lparr>nv_memory := memory\<rparr>)
                      | (True, memory) \<Rightarrow>
                          (let v = v\<lparr>nv_memory := memory\<rparr>
                           in if revision AND NOT kNestedVmxRevisionMask \<noteq> 0 \<or>
                                 revision AND kNestedVmxRevisionMask \<noteq>
                                   nc_vmx_revision (nv_capabilities v) AND kNestedVmxRevisionMask
                              then (None, v)
                              else (Some region, v)))))"

section \<open>Field access\<close>

definition ReadNestedVmcsField :: "'s NestedVcpu option \<Rightarrow> u32 \<Rightarrow> u64 option" where
  "ReadNestedVmcsField vcpu encoding = (case (vcpu, CurrentVmcs vcpu, FindFieldRule encoding) of
     (Some v, Some slot, Some rule) \<Rightarrow>
       if FieldIndex (Some rule) \<ge> kNestedVmcsFields then None
       else Some (v12_fields (nv_vmcs v ! slot) ! FieldIndex (Some rule) AND
                  FieldMask (fr_width (kFieldRules ! rule)))
   | _ \<Rightarrow> None)"

definition WriteNestedVmcsField :: "'s NestedVcpu \<Rightarrow> u32 \<Rightarrow> u64 \<Rightarrow> bool \<times> 's NestedVcpu" where
  "WriteNestedVmcsField v encoding value = (case (CurrentVmcs (Some v), FindFieldRule encoding) of
     (Some slot, Some rule) \<Rightarrow>
       (let r = kFieldRules ! rule
        in if fr_writable r = 0 \<or> FieldIndex (Some rule) \<ge> kNestedVmcsFields \<or>
              value AND fr_reserved_zero_mask r \<noteq> 0 \<or>
              value AND fr_reserved_one_mask r \<noteq> fr_reserved_one_mask r \<or>
              \<not> ValidateControlValue (Some v) rule value
           then (False, v)
           else (True, update_vmcs slot (\<lambda>vmcs. WriteStoredField vmcs rule value) v))
   | _ \<Rightarrow> (False, v))"

section \<open>Initial state\<close>

definition zero_capabilities :: NestedCapabilities where
  "zero_capabilities = \<lparr>nc_version = 0, nc_size = 0, nc_feature_bits = 0, nc_vmx_revision = 0,
     nc_max_physical_address_bits = 0, nc_linear_address_bits = 0, nc_eptp_list_entries = 0,
     nc_vpid_count = 0, nc_pin_allowed0 = 0, nc_pin_allowed1 = 0, nc_primary_allowed0 = 0,
     nc_primary_allowed1 = 0, nc_secondary_allowed0 = 0, nc_secondary_allowed1 = 0,
     nc_exit_allowed0 = 0, nc_exit_allowed1 = 0, nc_entry_allowed0 = 0, nc_entry_allowed1 = 0,
     nc_cr0_fixed0 = 0, nc_cr0_fixed1 = 0, nc_cr4_fixed0 = 0, nc_cr4_fixed1 = 0\<rparr>"

definition InitializeCapabilitiesInternal :: NestedCapabilities where
  "InitializeCapabilitiesInternal = zero_capabilities
     \<lparr>nc_version := kNestedModelVersion, nc_size := 112,
      nc_feature_bits := kCapVmx OR kCapEpt OR kCapVpid OR kCapNestedVmx OR kCapVirtualTlbFlush,
      nc_vmx_revision := 1, nc_max_physical_address_bits := 48, nc_linear_address_bits := 48,
      nc_eptp_list_entries := 4, nc_vpid_count := 64, nc_pin_allowed1 := 0xE9,
      nc_primary_allowed1 := kPrimaryActivateSecondary OR 0x40000000,
      nc_secondary_allowed1 := kNestedSecondaryEnableEpt OR kNestedSecondaryEnableVpid OR
        kNestedSecondaryEnableVmfunc,
      nc_exit_allowed1 := 0x003F6DFF, nc_entry_allowed1 := 0x001811FF,
      nc_cr0_fixed1 := NOT 0, nc_cr4_fixed1 := NOT 0\<rparr>"

definition zero_vmcs :: NestedVmcs12 where
  "zero_vmcs = \<lparr>v12_region_gpa = 0, v12_revision = 0, v12_state = VmcsClear, v12_allocated = 0,
     v12_fields = replicate kNestedVmcsFields 0, v12_dirty_groups = 0\<rparr>"

text \<open>
  The zeroed memory record has null callbacks; what its context object is does not matter, so
  that it is a parameter.
\<close>

definition InitializeNestedVcpu ::
  "'s \<Rightarrow> NestedCapabilities option \<Rightarrow> 's NestedMemory option \<Rightarrow> 's NestedVcpu" where
  "InitializeNestedVcpu null_context capabilities memory =
     (let caps = (case capabilities of
                    Some c \<Rightarrow> if IsVersionedBufferValid (nc_version c) (nc_size c) 112 then c
                              else InitializeCapabilitiesInternal
                  | None \<Rightarrow> InitializeCapabilitiesInternal)
      in \<lparr>nv_version = kNestedModelVersion, nv_size = 12992, nv_capabilities = caps,
          nv_memory = (case memory of
              Some m \<Rightarrow> m
            | None \<Rightarrow> \<lparr>nm_context = null_context, nm_translate = None, nm_read = None, nm_write = None\<rparr>),
          nv_vmxon_active = 0, nv_l2_running = 0, nv_vmxe_enabled = 0, nv_vmxon_gpa = 0,
          nv_current_vmcs_gpa = NOT 0, nv_instruction_error = 0, nv_generation = 1,
          nv_vmcs_count = 0, nv_eptp_index = 0,
          nv_vmcs = replicate kNestedVmcsSlots
            (zero_vmcs\<lparr>v12_revision := nc_vmx_revision caps AND kNestedVmxRevisionMask\<rparr>)\<rparr>)"

section \<open>Lemmas on the rule table\<close>

lemma find_rule_from_Some:
  "find_rule_from rs k e = Some i \<Longrightarrow> k \<le> i \<and> i < k + length rs \<and> fr_encoding (rs ! (i - k)) = e"
  by (induction rs arbitrary: k) (fastforce simp: nth_Cons' split: if_splits)+

lemma length_kFieldRules [simp]: "length kFieldRules = 62"
  by (simp add: kFieldRules_def)

lemma FindFieldRule_SomeD:
  assumes "FindFieldRule e = Some i"
  shows "i < 62" "fr_encoding (kFieldRules ! i) = e" "FieldIndex (Some i) = i"
  using find_rule_from_Some [OF assms [unfolded FindFieldRule_def]] by (simp_all add: FieldIndex_def)

lemma FindFieldRule_inj: "FindFieldRule e = Some i \<Longrightarrow> FindFieldRule e' = Some i \<Longrightarrow> e = e'"
  using FindFieldRule_SomeD(2) by blast

lemma FieldIndex_Some [simp]: "i < 96 \<Longrightarrow> FieldIndex (Some i) = i"
  by (simp add: FieldIndex_def)

text \<open>Every rule reserves exactly the bits outside its width, or is as wide as the word.\<close>

lemma field_rule_shape:
  assumes "r \<in> set kFieldRules"
  shows "fr_width r = 2 \<and> fr_reserved_zero_mask r = kMask16 \<or>
         fr_width r = 4 \<and> fr_reserved_zero_mask r = kMask32 \<or> fr_width r = 8"
proof -
  have "list_all (\<lambda>r. fr_width r = 2 \<and> fr_reserved_zero_mask r = kMask16 \<or>
         fr_width r = 4 \<and> fr_reserved_zero_mask r = kMask32 \<or> fr_width r = 8) kFieldRules"
    by (simp add: kFieldRules_def)
  then show ?thesis using assms by (simp add: list_all_iff)
qed

lemma FieldMask_reserved:
  assumes "i < 62" and "x AND fr_reserved_zero_mask (kFieldRules ! i) = 0"
  shows "x AND FieldMask (fr_width (kFieldRules ! i)) = x"
proof -
  have "x AND m = x" if "x AND NOT m = 0" for m :: u64
    using that by (simp add: bit_eq_iff bit_simps) blast
  then show ?thesis
    using field_rule_shape [of "kFieldRules ! i"] assms by (auto simp: FieldMask_def)
qed

lemma field_indices:
  "FindFieldRule 0x0000 = Some 0" "FindFieldRule 0x201A = Some 5" "FindFieldRule 0x4000 = Some 7"
  "FindFieldRule 0x4002 = Some 8" "FindFieldRule 0x400C = Some 10" "FindFieldRule 0x4012 = Some 11"
  "FindFieldRule 0x401E = Some 12" "FindFieldRule 0x4400 = Some 13" "FindFieldRule 0x4402 = Some 14"
  "FindFieldRule 0x6400 = Some 15" "FindFieldRule 0x6800 = Some 16" "FindFieldRule 0x6804 = Some 18"
  "FindFieldRule 0x681C = Some 19" "FindFieldRule 0x681E = Some 20" "FindFieldRule 0x6820 = Some 21"
  "FindFieldRule 0x6C00 = Some 22" "FindFieldRule 0x6C04 = Some 24" "FindFieldRule 0x6C14 = Some 25"
  "FindFieldRule 0x6C16 = Some 26" "FindFieldRule 0x440C = Some 44"
  by (simp_all add: FindFieldRule_def kFieldRules_def)

section \<open>The slot table\<close>

abbreviation slot_used :: "NestedVmcs12 \<Rightarrow> bool" where "slot_used m \<equiv> v12_allocated m \<noteq> 0"

text \<open>Stored values fit the width of their rule.\<close>

definition fields_ok :: "NestedVmcs12 \<Rightarrow> bool" where
  "fields_ok m \<longleftrightarrow> length (v12_fields m) = kNestedVmcsFields \<and>
     (\<forall>i<62. v12_fields m ! i AND FieldMask (fr_width (kFieldRules ! i)) = v12_fields m ! i)"

definition slots_ok :: "NestedVmcs12 list \<Rightarrow> bool" where
  "slots_ok xs \<longleftrightarrow> length xs = kNestedVmcsSlots \<and> (\<forall>i<16. fields_ok (xs ! i)) \<and>
     (\<forall>i<16. slot_used (xs ! i) \<longrightarrow> IsAlignedPage (v12_region_gpa (xs ! i))) \<and>
     (\<forall>i<16. \<forall>j<16. slot_used (xs ! i) \<longrightarrow> slot_used (xs ! j) \<longrightarrow>
        v12_region_gpa (xs ! i) = v12_region_gpa (xs ! j) \<longrightarrow> i = j)"

definition slots_used :: "NestedVmcs12 list \<Rightarrow> nat" where
  "slots_used xs = card {i. i < length xs \<and> slot_used (xs ! i)}"

lemma find_vmcs_from_Some:
  "find_vmcs_from xs k r = Some i \<Longrightarrow>
     k \<le> i \<and> i < k + length xs \<and> slot_used (xs ! (i - k)) \<and> v12_region_gpa (xs ! (i - k)) = r"
  by (induction xs arbitrary: k) (fastforce simp: nth_Cons' split: if_splits)+

lemma find_vmcs_from_None:
  "find_vmcs_from xs k r = None \<longleftrightarrow> (\<forall>m\<in>set xs. slot_used m \<longrightarrow> v12_region_gpa m \<noteq> r)"
  by (induction xs arbitrary: k) auto

lemma find_vmcs_iff:
  assumes "slots_ok xs"
  shows "find_vmcs_from xs 0 r = Some i \<longleftrightarrow>
           i < 16 \<and> slot_used (xs ! i) \<and> v12_region_gpa (xs ! i) = r"
proof
  assume "find_vmcs_from xs 0 r = Some i"
  then show "i < 16 \<and> slot_used (xs ! i) \<and> v12_region_gpa (xs ! i) = r"
    using find_vmcs_from_Some [of xs 0 r i] assms by (simp add: slots_ok_def)
next
  assume i: "i < 16 \<and> slot_used (xs ! i) \<and> v12_region_gpa (xs ! i) = r"
  have len: "length xs = 16" using assms by (simp add: slots_ok_def)
  then have "find_vmcs_from xs 0 r \<noteq> None"
    using i nth_mem [of i xs] by (auto simp: find_vmcs_from_None)
  then obtain j where j: "find_vmcs_from xs 0 r = Some j" by blast
  then have "j = i"
    using find_vmcs_from_Some [of xs 0 r j] i assms len by (auto simp: slots_ok_def)
  then show "find_vmcs_from xs 0 r = Some i" using j by simp
qed

text \<open>A slot content that keeps what identifies the slot and the widths of its fields.\<close>

definition slot_like :: "NestedVmcs12 \<Rightarrow> NestedVmcs12 \<Rightarrow> bool" where
  "slot_like m y \<longleftrightarrow> slot_used y = slot_used m \<and> v12_region_gpa y = v12_region_gpa m \<and>
     (fields_ok m \<longrightarrow> fields_ok y)"

definition quiet :: "(NestedVmcs12 \<Rightarrow> NestedVmcs12) \<Rightarrow> bool" where
  "quiet f \<longleftrightarrow> (\<forall>m. slot_like m (f m))"

lemma quiet_comp: "quiet f \<Longrightarrow> quiet g \<Longrightarrow> quiet (\<lambda>m. f (g m))"
  by (simp add: quiet_def slot_like_def)

lemma quiet_like: "quiet f \<Longrightarrow> slot_like m (f m)"
  by (simp add: quiet_def)

lemma slot_like_nth:
  assumes "slot_like (xs ! s) y" and "i < length xs"
  shows "slot_used (xs[s := y] ! i) = slot_used (xs ! i)"
    "v12_region_gpa (xs[s := y] ! i) = v12_region_gpa (xs ! i)"
    "fields_ok (xs ! i) \<Longrightarrow> fields_ok (xs[s := y] ! i)"
  using assms by (cases "s = i"; auto simp: slot_like_def)+

lemma slots_ok_length: "slots_ok xs \<Longrightarrow> length xs = 16"
  by (simp add: slots_ok_def)

lemma slots_ok_like:
  assumes "slots_ok xs" and "slot_like (xs ! s) y"
  shows "slots_ok (xs[s := y])"
  using assms(1) slot_like_nth [OF assms(2)] by (simp add: slots_ok_def)

lemma slots_used_like:
  assumes "slot_like (xs ! s) y"
  shows "slots_used (xs[s := y]) = slots_used xs"
proof -
  have "(i < length (xs[s := y]) \<and> slot_used (xs[s := y] ! i)) = (i < length xs \<and> slot_used (xs ! i))" for i
    using slot_like_nth(1) [OF assms, of i] by (simp only: length_list_update) blast
  then show ?thesis unfolding slots_used_def by presburger
qed

lemma find_vmcs_like:
  assumes "slots_ok xs" and "slot_like (xs ! s) y"
  shows "find_vmcs_from (xs[s := y]) 0 r = find_vmcs_from xs 0 r"
proof -
  have "(find_vmcs_from (xs[s := y]) 0 r = Some i) = (find_vmcs_from xs 0 r = Some i)" for i
    unfolding find_vmcs_iff [OF slots_ok_like [OF assms]] find_vmcs_iff [OF assms(1)]
    using slot_like_nth [OF assms(2), of i] slots_ok_length [OF assms(1)] by auto
  then show ?thesis by (metis not_None_eq)
qed

lemma fields_ok_update:
  assumes "fields_ok m" and "i < 62"
  shows "fields_ok (m\<lparr>v12_fields := (v12_fields m)[i := x AND FieldMask (fr_width (kFieldRules ! i))],
                      v12_dirty_groups := d\<rparr>)"
  using assms by (auto simp: fields_ok_def nth_list_update word_bw_assocs)

lemma quiet_SetVmcsReadOnly: "quiet (SetVmcsReadOnly e x)"
proof (cases "FindFieldRule e")
  case (Some i)
  note F = FindFieldRule_SomeD [OF Some]
  have "fields_ok (SetVmcsReadOnly e x m)" if "fields_ok m" for m
    using fields_ok_update [OF that F(1), of "v12_dirty_groups m" x] F Some
    by (simp add: SetVmcsReadOnly_def)
  then show ?thesis using Some F by (simp add: quiet_def slot_like_def SetVmcsReadOnly_def)
qed (simp add: quiet_def slot_like_def SetVmcsReadOnly_def)

lemma quiet_WriteStoredField: "i < 62 \<Longrightarrow> quiet (\<lambda>m. WriteStoredField m i x)"
  using fields_ok_update by (simp add: quiet_def slot_like_def WriteStoredField_def)

lemma quiet_state: "quiet (\<lambda>m. m\<lparr>v12_state := st\<rparr>)"
  by (simp add: quiet_def slot_like_def fields_ok_def)

lemma v12_state_SetVmcsReadOnly [simp]: "v12_state (SetVmcsReadOnly e x m) = v12_state m"
  by (simp add: SetVmcsReadOnly_def split: option.split)

lemma v12_state_WriteStoredField [simp]: "v12_state (WriteStoredField m i x) = v12_state m"
  by (simp add: WriteStoredField_def)

section \<open>The invariant of a virtual CPU\<close>

definition nested_inv :: "'s NestedVcpu \<Rightarrow> bool" where
  "nested_inv v \<longleftrightarrow> slots_ok (nv_vmcs v) \<and> unat (nv_vmcs_count v) = slots_used (nv_vmcs v) \<and>
     (nv_current_vmcs_gpa v \<noteq> NOT 0 \<longrightarrow>
        (\<exists>slot. CurrentVmcs (Some v) = Some slot \<and> v12_state (nv_vmcs v ! slot) \<noteq> VmcsClear)) \<and>
     (nv_l2_running v \<noteq> 0 \<longrightarrow> nv_vmxon_active v \<noteq> 0 \<and> nv_current_vmcs_gpa v \<noteq> NOT 0) \<and>
     (nv_vmxon_active v = 0 \<longrightarrow> nv_current_vmcs_gpa v = NOT 0)"

lemma CurrentVmcs_alt:
  "CurrentVmcs (Some v) = (if nv_current_vmcs_gpa v = NOT 0 then None
     else find_vmcs_from (nv_vmcs v) 0 (nv_current_vmcs_gpa v))"
  by (simp add: CurrentVmcs_def FindVmcs_def)

lemma CurrentVmcs_SomeD:
  assumes "CurrentVmcs (Some v) = Some slot" and "slots_ok (nv_vmcs v)"
  shows "slot < 16" "slot < length (nv_vmcs v)" "slot_used (nv_vmcs v ! slot)"
    "v12_region_gpa (nv_vmcs v ! slot) = nv_current_vmcs_gpa v" "fields_ok (nv_vmcs v ! slot)"
  using assms find_vmcs_iff [OF assms(2)]
  by (simp_all add: CurrentVmcs_alt slots_ok_def split: if_splits)

lemma CurrentVmcs_update [simp]:
  "CurrentVmcs (Some (v\<lparr>nv_memory := m\<rparr>)) = CurrentVmcs (Some v)"
  "CurrentVmcs (Some (v\<lparr>nv_instruction_error := e\<rparr>)) = CurrentVmcs (Some v)"
  "CurrentVmcs (Some (v\<lparr>nv_l2_running := l\<rparr>)) = CurrentVmcs (Some v)"
  "CurrentVmcs (Some (v\<lparr>nv_generation := g\<rparr>)) = CurrentVmcs (Some v)"
  "CurrentVmcs (Some (v\<lparr>nv_eptp_index := x\<rparr>)) = CurrentVmcs (Some v)"
  by (simp_all add: CurrentVmcs_alt)

lemma update_vmcs_sel [simp]:
  "nv_current_vmcs_gpa (update_vmcs s f v) = nv_current_vmcs_gpa v"
  "nv_memory (update_vmcs s f v) = nv_memory v"
  "nv_capabilities (update_vmcs s f v) = nv_capabilities v"
  "nv_vmxon_active (update_vmcs s f v) = nv_vmxon_active v"
  "nv_l2_running (update_vmcs s f v) = nv_l2_running v"
  "nv_vmxe_enabled (update_vmcs s f v) = nv_vmxe_enabled v"
  "nv_vmxon_gpa (update_vmcs s f v) = nv_vmxon_gpa v"
  "nv_generation (update_vmcs s f v) = nv_generation v"
  "nv_vmcs_count (update_vmcs s f v) = nv_vmcs_count v"
  "nv_eptp_index (update_vmcs s f v) = nv_eptp_index v"
  "nv_instruction_error (update_vmcs s f v) = nv_instruction_error v"
  "nv_vmcs (update_vmcs s f v) = (nv_vmcs v)[s := f (nv_vmcs v ! s)]"
  by (simp_all add: update_vmcs_def)

lemma CurrentVmcs_like:
  "slots_ok (nv_vmcs v) \<Longrightarrow> slot_like (nv_vmcs v ! s) (f (nv_vmcs v ! s)) \<Longrightarrow>
     CurrentVmcs (Some (update_vmcs s f v)) = CurrentVmcs (Some v)"
  by (simp add: CurrentVmcs_alt find_vmcs_like)

lemma nested_inv_simps [simp]:
  "nested_inv (v\<lparr>nv_memory := m\<rparr>) = nested_inv v"
  "nested_inv (v\<lparr>nv_instruction_error := e\<rparr>) = nested_inv v"
  "nested_inv (v\<lparr>nv_generation := g\<rparr>) = nested_inv v"
  "nested_inv (v\<lparr>nv_eptp_index := x\<rparr>) = nested_inv v"
  "nested_inv (v\<lparr>nv_vmxe_enabled := b\<rparr>) = nested_inv v"
  by (simp_all add: nested_inv_def CurrentVmcs_alt)

lemma nested_inv_slots: "nested_inv v \<Longrightarrow> slots_ok (nv_vmcs v)"
  by (simp add: nested_inv_def)

text \<open>An update of one slot keeps the invariant unless it clears the current VMCS.\<close>

lemma nested_inv_like:
  assumes "nested_inv v" and like: "slot_like (nv_vmcs v ! s) (f (nv_vmcs v ! s))"
    and st: "CurrentVmcs (Some v) = Some s \<Longrightarrow> v12_state (nv_vmcs v ! s) \<noteq> VmcsClear \<Longrightarrow>
      v12_state (f (nv_vmcs v ! s)) \<noteq> VmcsClear"
  shows "nested_inv (update_vmcs s f v)"
proof -
  note ok = nested_inv_slots [OF assms(1)]
  have "v12_state ((nv_vmcs v)[s := f (nv_vmcs v ! s)] ! i) \<noteq> VmcsClear"
    if "v12_state (nv_vmcs v ! i) \<noteq> VmcsClear" "CurrentVmcs (Some v) = Some i" for i
    using that st CurrentVmcs_SomeD(2) [OF that(2) ok] by (cases "s = i") simp_all
  then show ?thesis
    using assms(1) slots_ok_like [OF ok like]
    unfolding nested_inv_def update_vmcs_sel slots_used_like [OF like]
      CurrentVmcs_like [where f = f, OF ok like] by blast
qed

lemma nested_inv_quiet:
  assumes "nested_inv v" and "quiet f"
    and "\<And>m. v12_state m \<noteq> VmcsClear \<Longrightarrow> v12_state (f m) \<noteq> VmcsClear"
  shows "nested_inv (update_vmcs s f v)"
  by (rule nested_inv_like [OF assms(1)]) (use assms(2,3) quiet_like in \<open>blast+\<close>)

end
