(* ===== verification/NestedInstr.thy ===== *)
theory NestedInstr
  imports NestedVmcs
begin

text \<open>
  The emulation of the VMX instructions of an L1 hypervisor and the reflection of L2 exits:
  \<^verbatim>\<open>src/src/nested/nested_instructions.cpp\<close>. Every handler takes the virtual CPU and returns
  the result with the virtual CPU afterwards, the guest memory behind the callbacks included.
\<close>

section \<open>Constants and helpers\<close>

abbreviation kErrorVmxonInVmxOperation :: u32 where "kErrorVmxonInVmxOperation \<equiv> 15"
abbreviation kErrorVmclearInvalidAddress :: u32 where "kErrorVmclearInvalidAddress \<equiv> 2"
abbreviation kErrorVmclearVmxonPointer :: u32 where "kErrorVmclearVmxonPointer \<equiv> 3"
abbreviation kErrorVmptrldInvalidAddress :: u32 where "kErrorVmptrldInvalidAddress \<equiv> 9"
abbreviation kErrorVmptrldVmxonPointer :: u32 where "kErrorVmptrldVmxonPointer \<equiv> 10"
abbreviation kErrorVmreadNoCurrent :: u32 where "kErrorVmreadNoCurrent \<equiv> 12"
abbreviation kErrorVmwriteNoCurrent :: u32 where "kErrorVmwriteNoCurrent \<equiv> 13"
abbreviation kErrorVmlaunchNonclear :: u32 where "kErrorVmlaunchNonclear \<equiv> 4"
abbreviation kErrorVmresumeNonlaunched :: u32 where "kErrorVmresumeNonlaunched \<equiv> 5"
abbreviation kErrorVmEntryInvalidControl :: u32 where "kErrorVmEntryInvalidControl \<equiv> 7"
abbreviation kErrorInvalidOperand :: u32 where "kErrorInvalidOperand \<equiv> 1"

type_synonym 's outcome = "NestedResult \<times> 's NestedVcpu"

definition InstructionLength :: "VmxInstruction \<Rightarrow> u32" where
  "InstructionLength instruction =
     (if vi_instruction_length instruction = 0 then 3 else vi_instruction_length instruction)"

definition InstructionIsValid :: "VmxInstruction \<Rightarrow> bool" where
  "InstructionIsValid instruction \<longleftrightarrow>
     vi_version instruction = kNestedModelVersion \<and>
     vi_size instruction \<ge> 72 \<and> vi_size instruction \<le> 72 + 64 \<and>
     vi_reserved instruction = 0 \<and> vi_reserved2 instruction = 0 \<and>
     vi_flags instruction AND NOT (kInstructionOperandIsRegister OR kDescriptorIsInline) = 0 \<and>
     InstructionLength instruction \<le> 15"

definition InvalidInstruction :: "VmxInstruction \<Rightarrow> NestedResult" where
  "InvalidInstruction instruction =
     MakeResult InvalidParameter ResumeL1 0 (InstructionLength instruction) 0 0"

definition UndefinedInstruction :: "VmxInstruction \<Rightarrow> NestedResult" where
  "UndefinedInstruction instruction =
     MakeResult VirtualUnsupported InjectUndefinedInstruction 0 (InstructionLength instruction) 0 0"

text \<open>
  \<^verbatim>\<open>ReadDescriptor\<close>: the bytes of an inline descriptor are those of the two operand words.
\<close>

definition ReadDescriptor ::
  "'s NestedVcpu \<Rightarrow> VmxInstruction \<Rightarrow> u32 \<Rightarrow> u8 list option \<times> 's NestedVcpu" where
  "ReadDescriptor v instruction length' =
     (if vi_flags instruction AND kDescriptorIsInline \<noteq> 0
      then if length' \<noteq> 16 \<and> length' \<noteq> 16 then (None, v)
           else (Some (take (unat length')
                  (word_bytes 8 (vi_descriptor instruction) @ word_bytes 8 (vi_destination instruction))), v)
      else if \<not> IsLinearRangeCanonical (Some v) (vi_linear_operand instruction) length' then (None, v)
      else case ReadLinear (nv_memory v) (vi_linear_operand instruction)
                  (Some (replicate (unat length') 0)) length' (NestedMemoryAccess_u32 AccessRead) of
             (bytes, memory) \<Rightarrow> (bytes, v\<lparr>nv_memory := memory\<rparr>))"

section \<open>VMXON and VMXOFF\<close>

definition EmulateVmxon :: "'s NestedVcpu \<Rightarrow> VmxInstruction \<Rightarrow> 's outcome" where
  "EmulateVmxon v instruction =
     (let len = InstructionLength instruction
      in if nv_vmxon_active v \<noteq> 0
         then MakeVmfail v VmfailValid kErrorVmxonInVmxOperation len
         else if nc_feature_bits (nv_capabilities v) AND kCapNestedVmx = 0 \<or> nv_vmxe_enabled v = 0
         then (MakeResult NestedUnavailable ResumeL1 0 len 0 0, v)
         else case ValidateVmxRegion v (vi_linear_operand instruction) of
           (None, v) \<Rightarrow> MakeVmfail v VmfailInvalid kErrorInvalidOperand len
         | (Some region_gpa, v) \<Rightarrow>
             (let v = v\<lparr>nv_vmxon_active := 1, nv_vmxon_gpa := region_gpa,
                        nv_current_vmcs_gpa := NOT 0, nv_l2_running := 0,
                        nv_generation := nv_generation v + 1\<rparr>
              in (MakeSuccess ResumeL1 len 0, ClearVmInstructionError v)))"

definition EmulateVmxoff :: "'s NestedVcpu \<Rightarrow> VmxInstruction \<Rightarrow> 's outcome" where
  "EmulateVmxoff v instruction =
     (let len = InstructionLength instruction
      in if nv_vmxon_active v = 0 then MakeVmfail v VmfailInvalid kErrorInvalidOperand len
         else if nv_l2_running v \<noteq> 0 then (MakeResult Busy ResumeL1 0 len 0 0, v)
         else (MakeSuccess ResumeL1 len 0,
               v\<lparr>nv_vmxon_active := 0, nv_l2_running := 0, nv_current_vmcs_gpa := NOT 0,
                 nv_generation := nv_generation v + 1\<rparr>))"

section \<open>VMCS pointers\<close>

text \<open>
  The scan of \<^verbatim>\<open>AllocateVmcs\<close>: an allocated slot of the region wins, else the first free
  slot. The result tells which.
\<close>

datatype slot_choice = Existing nat | Free nat | NoSlot

fun scan_slots :: "NestedVmcs12 list \<Rightarrow> nat \<Rightarrow> u64 \<Rightarrow> nat option \<Rightarrow> slot_choice" where
  "scan_slots [] index region_gpa free_vmcs =
     (case free_vmcs of None \<Rightarrow> NoSlot | Some slot \<Rightarrow> Free slot)"
| "scan_slots (vmcs # rest) index region_gpa free_vmcs =
     (if v12_allocated vmcs \<noteq> 0 \<and> v12_region_gpa vmcs = region_gpa then Existing index
      else scan_slots rest (index + 1) region_gpa
             (if free_vmcs = None \<and> v12_allocated vmcs = 0 then Some index else free_vmcs))"

definition AllocateVmcs :: "'s NestedVcpu \<Rightarrow> u64 \<Rightarrow> nat option \<times> 's NestedVcpu" where
  "AllocateVmcs v region_gpa = (case scan_slots (nv_vmcs v) 0 region_gpa None of
     Existing slot \<Rightarrow> (Some slot, v)
   | NoSlot \<Rightarrow> (None, v)
   | Free slot \<Rightarrow>
       (Some slot, (update_vmcs slot (\<lambda>_. zero_vmcs
           \<lparr>v12_allocated := 1, v12_region_gpa := region_gpa,
            v12_revision := nc_vmx_revision (nv_capabilities v) AND kNestedVmxRevisionMask,
            v12_state := VmcsClear\<rparr>) v)\<lparr>nv_vmcs_count := nv_vmcs_count v + 1\<rparr>))"

definition EmulateVmclear :: "'s NestedVcpu \<Rightarrow> VmxInstruction \<Rightarrow> 's outcome" where
  "EmulateVmclear v instruction =
     (let len = InstructionLength instruction
      in if nv_l2_running v \<noteq> 0 then (MakeResult Busy ResumeL1 0 len 0 0, v)
         else case ValidateVmxRegion v (vi_linear_operand instruction) of
           (None, v) \<Rightarrow> MakeVmfail v VmfailInvalid kErrorVmclearInvalidAddress len
         | (Some region_gpa, v) \<Rightarrow>
             if region_gpa = nv_vmxon_gpa v
             then MakeVmfail v VmfailValid kErrorVmclearVmxonPointer len
             else case AllocateVmcs v region_gpa of
               (None, v) \<Rightarrow> MakeVmfail v CapabilityMismatch kErrorInvalidOperand len
             | (Some slot, v) \<Rightarrow>
                 (let v = update_vmcs slot (\<lambda>vmcs. zero_vmcs
                            \<lparr>v12_allocated := 1, v12_region_gpa := v12_region_gpa vmcs,
                             v12_revision := v12_revision vmcs, v12_state := VmcsClear\<rparr>) v;
                      v = (if nv_current_vmcs_gpa v = region_gpa
                           then v\<lparr>nv_current_vmcs_gpa := NOT 0\<rparr> else v)
                  in (MakeSuccess ResumeL1 len 0, ClearVmInstructionError v)))"

definition EmulateVmptrld :: "'s NestedVcpu \<Rightarrow> VmxInstruction \<Rightarrow> 's outcome" where
  "EmulateVmptrld v instruction =
     (let len = InstructionLength instruction
      in case ValidateVmxRegion v (vi_linear_operand instruction) of
           (None, v) \<Rightarrow> MakeVmfail v VmfailInvalid kErrorVmptrldInvalidAddress len
         | (Some region_gpa, v) \<Rightarrow>
             if region_gpa = nv_vmxon_gpa v
             then MakeVmfail v VmfailValid kErrorVmptrldVmxonPointer len
             else case AllocateVmcs v region_gpa of
               (None, v) \<Rightarrow> MakeVmfail v CapabilityMismatch kErrorInvalidOperand len
             | (Some slot, v) \<Rightarrow>
                 if v12_state (nv_vmcs v ! slot) = VmcsActive \<and> nv_current_vmcs_gpa v \<noteq> region_gpa
                 then MakeVmfail v VmfailValid kErrorInvalidOperand len
                 else let v = (update_vmcs slot (\<lambda>vmcs. vmcs\<lparr>v12_state := VmcsActive\<rparr>) v)
                                \<lparr>nv_current_vmcs_gpa := region_gpa\<rparr>
                      in (MakeSuccess ResumeL1 len 0, ClearVmInstructionError v))"

text \<open>Storing a 64-bit value at a guest linear address, as VMPTRST and VMREAD do.\<close>

definition store_u64 :: "'s NestedVcpu \<Rightarrow> u64 \<Rightarrow> u64 \<Rightarrow> bool \<times> 's NestedVcpu" where
  "store_u64 v destination value =
     (if \<not> IsLinearRangeCanonical (Some v) destination 8 then (False, v)
      else case WriteLinear (nv_memory v) destination (Some (word_bytes 8 value)) 8 of
             (ok, memory) \<Rightarrow> (ok, v\<lparr>nv_memory := memory\<rparr>))"

definition EmulateVmptrst :: "'s NestedVcpu \<Rightarrow> VmxInstruction \<Rightarrow> 's outcome" where
  "EmulateVmptrst v instruction =
     (let len = InstructionLength instruction; current = nv_current_vmcs_gpa v
      in if vi_flags instruction AND kInstructionOperandIsRegister \<noteq> 0
         then (MakeSuccess ResumeL1 len current, v)
         else case store_u64 v (vi_destination instruction) current of
           (False, v) \<Rightarrow> MakeVmfail v VmfailInvalid kErrorInvalidOperand len
         | (True, v) \<Rightarrow> (MakeSuccess ResumeL1 len 0, ClearVmInstructionError v))"

section \<open>VMREAD and VMWRITE\<close>

definition EmulateVmread :: "'s NestedVcpu \<Rightarrow> VmxInstruction \<Rightarrow> 's outcome" where
  "EmulateVmread v instruction =
     (let len = InstructionLength instruction
      in if CurrentVmcs (Some v) = None then MakeVmfail v VmfailInvalid kErrorVmreadNoCurrent len
         else case ReadNestedVmcsField (Some v) (vi_encoding instruction) of
           None \<Rightarrow> MakeVmfail v VmfailInvalid kErrorVmreadNoCurrent len
         | Some value \<Rightarrow>
             if vi_flags instruction AND kInstructionOperandIsRegister \<noteq> 0
             then (MakeSuccess ResumeL1 len value, ClearVmInstructionError v)
             else case store_u64 v (vi_destination instruction) value of
               (False, v) \<Rightarrow> MakeVmfail v VmfailInvalid kErrorInvalidOperand len
             | (True, v) \<Rightarrow> (MakeSuccess ResumeL1 len 0, ClearVmInstructionError v))"

definition EmulateVmwrite :: "'s NestedVcpu \<Rightarrow> VmxInstruction \<Rightarrow> 's outcome" where
  "EmulateVmwrite v instruction =
     (let len = InstructionLength instruction
      in if CurrentVmcs (Some v) = None then MakeVmfail v VmfailInvalid kErrorVmwriteNoCurrent len
         else case FindFieldRule (vi_encoding instruction) of
           None \<Rightarrow> MakeVmfail v VmfailInvalid kErrorVmwriteNoCurrent len
         | Some rule \<Rightarrow>
             if fr_writable (kFieldRules ! rule) = 0
             then MakeVmfail v VmfailInvalid kErrorVmwriteNoCurrent len
             else case WriteNestedVmcsField v (vi_encoding instruction) (vi_source instruction) of
               (False, v) \<Rightarrow> MakeVmfail v VmfailValid kErrorVmEntryInvalidControl len
             | (True, v) \<Rightarrow> (MakeSuccess ResumeL1 len 0, ClearVmInstructionError v))"

section \<open>VM entry\<close>

definition EmulateVmEntry :: "'s NestedVcpu \<Rightarrow> VmxInstruction \<Rightarrow> bool \<Rightarrow> 's outcome" where
  "EmulateVmEntry v instruction launch =
     (let len = InstructionLength instruction
      in case CurrentVmcs (Some v) of
           None \<Rightarrow> MakeVmfail v VmfailInvalid
                     (if launch then kErrorVmlaunchNonclear else kErrorVmresumeNonlaunched) len
         | Some slot \<Rightarrow>
             (let vmcs = nv_vmcs v ! slot
              in if launch \<and> v12_state vmcs \<noteq> VmcsActive
                 then MakeVmfail v VmfailValid kErrorVmlaunchNonclear len
                 else if \<not> launch \<and> v12_state vmcs \<noteq> VmcsLaunched
                 then MakeVmfail v VmfailValid kErrorVmresumeNonlaunched len
                 else if nv_l2_running v \<noteq> 0 \<or> \<not> ValidateEntryState (Some v) vmcs
                 then MakeVmfail v VmfailValid kErrorVmEntryInvalidControl len
                 else let v = (update_vmcs slot (\<lambda>vmcs. vmcs\<lparr>v12_state := VmcsLaunched\<rparr>) v)
                                \<lparr>nv_l2_running := 1\<rparr>
                      in (MakeSuccess EnterL2 len 0, ClearVmInstructionError v)))"

section \<open>Invalidation and VMFUNC\<close>

definition EmulateInvept :: "'s NestedVcpu \<Rightarrow> VmxInstruction \<Rightarrow> 's outcome" where
  "EmulateInvept v instruction =
     (let len = InstructionLength instruction
      in if nc_feature_bits (nv_capabilities v) AND kCapEpt = 0
         then (MakeResult VirtualUnsupported ActionVirtualUnsupported 0 len 0 0, v)
         else case ReadDescriptor v instruction 16 of
           (None, v) \<Rightarrow> MakeVmfail v VmfailInvalid kErrorInvalidOperand len
         | (Some descriptor, v) \<Rightarrow>
             (let ept_pointer = bytes_word (take 8 descriptor) :: u64;
                  reserved = bytes_word (drop 8 descriptor) :: u64
              in if reserved \<noteq> 0 \<or>
                    (vi_descriptor_type instruction \<noteq> 1 \<and> vi_descriptor_type instruction \<noteq> 2) \<or>
                    (vi_descriptor_type instruction = 1 \<and>
                     (\<not> IsAlignedPage ept_pointer \<or>
                      \<not> NestedIsPhysicalAddress ept_pointer
                           (nc_max_physical_address_bits (nv_capabilities v))))
                 then MakeVmfail v VmfailInvalid kErrorInvalidOperand len
                 else (MakeSuccess ResumeL1 len 0, ClearVmInstructionError v)))"

definition EmulateInvvpid :: "'s NestedVcpu \<Rightarrow> VmxInstruction \<Rightarrow> 's outcome" where
  "EmulateInvvpid v instruction =
     (let len = InstructionLength instruction
      in if nc_feature_bits (nv_capabilities v) AND kCapVpid = 0
         then (MakeResult VirtualUnsupported ActionVirtualUnsupported 0 len 0 0, v)
         else case ReadDescriptor v instruction 16 of
           (None, v) \<Rightarrow> MakeVmfail v VmfailInvalid kErrorInvalidOperand len
         | (Some descriptor, v) \<Rightarrow>
             (let vpid = bytes_word (take 8 descriptor) :: u64;
                  linear_address = bytes_word (drop 8 descriptor) :: u64
              in if vpid = 0 \<or> vpid > ucast (nc_vpid_count (nv_capabilities v)) \<or>
                    vi_descriptor_type instruction > 3 \<or>
                    ((vi_descriptor_type instruction = 0 \<or> vi_descriptor_type instruction = 2) \<and>
                     \<not> IsCanonicalAddress linear_address (nc_linear_address_bits (nv_capabilities v)))
                 then MakeVmfail v VmfailInvalid kErrorInvalidOperand len
                 else (MakeSuccess ResumeL1 len 0, ClearVmInstructionError v)))"

definition EmulateVmfunc :: "'s NestedVcpu \<Rightarrow> VmxInstruction \<Rightarrow> 's outcome" where
  "EmulateVmfunc v instruction =
     (let len = InstructionLength instruction
      in case (CurrentVmcs (Some v), ReadNestedVmcsField (Some v) kVmcsFieldSecondaryControls) of
           (Some _, Some secondary) \<Rightarrow>
             if secondary AND ucast kNestedSecondaryEnableVmfunc = 0
             then (MakeResult VirtualUnsupported ActionVirtualUnsupported 0 len 0 0, v)
             else if vi_source instruction \<noteq> 0 \<or>
                     vi_descriptor_type instruction \<ge> nc_eptp_list_entries (nv_capabilities v)
             then MakeVmfail v VmfailValid kErrorInvalidOperand len
             else (MakeSuccess ResumeL1 len 0,
                   ClearVmInstructionError (v\<lparr>nv_eptp_index := vi_descriptor_type instruction\<rparr>))
         | _ \<Rightarrow> (MakeResult VirtualUnsupported ActionVirtualUnsupported 0 len 0 0, v))"

section \<open>Dispatch and exit reflection\<close>

definition DispatchNestedInstruction ::
  "'s NestedVcpu option \<Rightarrow> VmxInstruction option \<Rightarrow> NestedResult \<times> 's NestedVcpu option" where
  "DispatchNestedInstruction vcpu instruction = (case instruction of
     None \<Rightarrow> (MakeResult InvalidParameter ResumeL1 0 0 0 0, vcpu)
   | Some i \<Rightarrow> (case vcpu of None \<Rightarrow> (InvalidInstruction i, None)
   | Some v \<Rightarrow>
       if \<not> InstructionIsValid i then (InvalidInstruction i, vcpu)
       else map_prod id Some (
         let len = InstructionLength i; opcode = vi_opcode i
         in if opcode = VmxOpcode_u32 Vmxon then EmulateVmxon v i
            else if opcode = VmxOpcode_u32 Vmxoff
            then if nv_vmxon_active v = 0 then MakeVmfail v VmfailInvalid kErrorInvalidOperand len
                 else EmulateVmxoff v i
            else if nv_vmxon_active v = 0 then MakeVmfail v VmfailInvalid kErrorInvalidOperand len
            else if opcode = VmxOpcode_u32 Vmclear then EmulateVmclear v i
            else if opcode = VmxOpcode_u32 Vmptrld then EmulateVmptrld v i
            else if opcode = VmxOpcode_u32 Vmptrst then EmulateVmptrst v i
            else if opcode = VmxOpcode_u32 Vmread then EmulateVmread v i
            else if opcode = VmxOpcode_u32 Vmwrite then EmulateVmwrite v i
            else if opcode = VmxOpcode_u32 Vmlaunch then EmulateVmEntry v i True
            else if opcode = VmxOpcode_u32 Vmresume then EmulateVmEntry v i False
            else if opcode = VmxOpcode_u32 Invept then EmulateInvept v i
            else if opcode = VmxOpcode_u32 Invvpid then EmulateInvvpid v i
            else if opcode = VmxOpcode_u32 Vmfunc then EmulateVmfunc v i
            else if opcode = VmxOpcode_u32 Vmcall
            then (MakeSuccess ReflectVmexit len (vi_source i), ClearVmInstructionError v)
            else (UndefinedInstruction i, v))))"

definition ReflectNestedExit ::
  "'s NestedVcpu option \<Rightarrow> NestedExitRecord option \<Rightarrow> NestedResult \<times> 's NestedVcpu option" where
  "ReflectNestedExit vcpu exit_record = (case (vcpu, exit_record) of
     (Some v, Some x) \<Rightarrow>
       if xr_version x \<noteq> kNestedModelVersion \<or> xr_size x < 40 \<or> xr_size x > 40 + 64 \<or>
          xr_instruction_length x > 15 \<or> nv_l2_running v = 0
       then (MakeResult InvalidParameter QuarantineSession 0 0 0 0, vcpu)
       else (case CurrentVmcs (Some v) of
          None \<Rightarrow> (MakeResult RecoveryRequired QuarantineSession 0 (xr_instruction_length x) 0 0, vcpu)
        | Some slot \<Rightarrow>
            (let v = update_vmcs slot (\<lambda>vmcs.
                       SetVmcsReadOnly 0x440C (ucast (xr_instruction_length x))
                         (SetVmcsReadOnly kVmcsFieldExitQualification (xr_qualification x)
                           (SetVmcsReadOnly kVmcsFieldExitReason (ucast (xr_reason x)) vmcs))) v
             in (MakeSuccess ReflectVmexit (xr_instruction_length x) 0,
                 Some (v\<lparr>nv_l2_running := 0, nv_generation := nv_generation v + 1\<rparr>))))
   | _ \<Rightarrow> (MakeResult InvalidParameter QuarantineSession 0 0 0 0, vcpu))"

section \<open>Preservation of the invariant\<close>

lemma ClearVmInstructionError_inv: "nested_inv v \<Longrightarrow> nested_inv (ClearVmInstructionError v)"
  by (simp add: ClearVmInstructionError_def Let_def nested_inv_quiet quiet_SetVmcsReadOnly split: option.split)

lemma MakeVmfail_inv: "nested_inv v \<Longrightarrow> nested_inv (snd (MakeVmfail v status e len))"
  by (simp add: MakeVmfail_def Let_def nested_inv_quiet quiet_SetVmcsReadOnly split: option.split)

lemma aligned_not_ones: "IsAlignedPage r \<Longrightarrow> r \<noteq> NOT 0"
  by (auto simp: IsAlignedPage_def)

lemma same_memory [simp]: "\<exists>m. v = v\<lparr>nv_memory := m\<rparr>"
  by (rule exI [of _ "nv_memory v"]) simp

text \<open>The helpers that call guest memory change nothing but the memory.\<close>

lemma ValidateVmxRegion_frame:
  assumes "ValidateVmxRegion v l = (r, v')"
  shows "\<exists>m. v' = v\<lparr>nv_memory := m\<rparr>"
  using assms unfolding ValidateVmxRegion_def Let_def
  by (auto split: if_splits prod.splits option.splits bool.splits)

lemma ValidateVmxRegion_region:
  assumes "ValidateVmxRegion v l = (Some region, v')"
  shows "IsAlignedPage region"
    "NestedIsPhysicalAddress region (nc_max_physical_address_bits (nv_capabilities v))"
  using assms unfolding ValidateVmxRegion_def Let_def
  by (auto split: if_splits prod.splits option.splits bool.splits)

lemma store_u64_frame: "store_u64 v d x = (ok, v') \<Longrightarrow> \<exists>m. v' = v\<lparr>nv_memory := m\<rparr>"
  by (auto simp: store_u64_def split: if_splits prod.splits)

lemma ReadDescriptor_frame: "ReadDescriptor v i n = (r, v') \<Longrightarrow> \<exists>m. v' = v\<lparr>nv_memory := m\<rparr>"
  by (auto simp: ReadDescriptor_def split: if_splits prod.splits)

text \<open>The slot that \<^verbatim>\<open>AllocateVmcs\<close> chooses.\<close>

lemma scan_slots_Existing: "scan_slots xs k r fr = Existing i \<longleftrightarrow> find_vmcs_from xs k r = Some i"
  by (induction xs arbitrary: k fr) (auto split: option.split)

lemma scan_slots_Free:
  "scan_slots xs k r fr = Free i \<Longrightarrow> find_vmcs_from xs k r = None \<and>
     (fr = Some i \<or> k \<le> i \<and> i < k + length xs \<and> v12_allocated (xs ! (i - k)) = 0)"
  by (induction xs arbitrary: k fr) (fastforce simp: nth_Cons' split: if_splits option.splits)+

lemma scan_slots_NoSlot:
  "scan_slots xs k r fr = NoSlot \<Longrightarrow> fr = None \<and> (\<forall>m\<in>set xs. slot_used m)"
  by (induction xs arbitrary: k fr) (auto split: if_splits option.splits)

lemma fields_ok_zero:
  "fields_ok (zero_vmcs\<lparr>v12_allocated := a, v12_region_gpa := r, v12_revision := rv, v12_state := st\<rparr>)"
  by (simp add: fields_ok_def zero_vmcs_def)

text \<open>Taking a free slot for a region that has none.\<close>

lemma take_slot:
  assumes ok: "slots_ok xs" and s: "s < 16" "v12_allocated (xs ! s) = 0"
    and fresh: "find_vmcs_from xs 0 r = None" and al: "IsAlignedPage r"
    and m: "fields_ok m" "slot_used m" "v12_region_gpa m = r"
  shows "slots_ok (xs[s := m])" "slots_used (xs[s := m]) = slots_used xs + 1"
    "r' \<noteq> r \<Longrightarrow> find_vmcs_from (xs[s := m]) 0 r' = find_vmcs_from xs 0 r'"
    "find_vmcs_from (xs[s := m]) 0 r = Some s"
proof -
  have len: "length xs = 16" using ok by (rule slots_ok_length)
  have nr: "v12_region_gpa (xs ! i) \<noteq> r" if "i < 16" "slot_used (xs ! i)" for i
    using fresh that nth_mem [of i xs] len by (auto simp: find_vmcs_from_None)
  have nth: "xs[s := m] ! i = (if i = s then m else xs ! i)" for i
    using s len by (auto simp: nth_list_update)
  show ok': "slots_ok (xs[s := m])"
    using ok m al nr unfolding slots_ok_def nth by (simp add: len) metis
  have "{i. i < length (xs[s := m]) \<and> slot_used (xs[s := m] ! i)} =
        insert s {i. i < length xs \<and> slot_used (xs ! i)}"
    using s m(2) len by (auto simp: nth)
  moreover have "s \<notin> {i. i < length xs \<and> slot_used (xs ! i)}" using s by simp
  ultimately show "slots_used (xs[s := m]) = slots_used xs + 1"
    unfolding slots_used_def by simp
  show "find_vmcs_from (xs[s := m]) 0 r = Some s"
    unfolding find_vmcs_iff [OF ok'] using s m by (simp add: nth)
  show "find_vmcs_from (xs[s := m]) 0 r' = find_vmcs_from xs 0 r'" if "r' \<noteq> r"
  proof -
    have "(find_vmcs_from (xs[s := m]) 0 r' = Some i) = (find_vmcs_from xs 0 r' = Some i)" for i
      unfolding find_vmcs_iff [OF ok'] find_vmcs_iff [OF ok] using that s m by (auto simp: nth)
    then show ?thesis by (metis not_None_eq)
  qed
qed

lemma slots_used_le: "slots_ok xs \<Longrightarrow> slots_used xs \<le> 16"
proof -
  assume "slots_ok xs"
  then have "{i. i < length xs \<and> slot_used (xs ! i)} \<subseteq> {..<16}" by (auto simp: slots_ok_def)
  then show ?thesis unfolding slots_used_def using card_mono [of "{..<16 :: nat}"] by fastforce
qed

text \<open>
  What an allocation gives: the slot of the region, which was there before or is a fresh clear
  one, an invariant that still holds, and the current pointer where it was.
\<close>

lemma AllocateVmcs_spec:
  assumes "AllocateVmcs v r = (Some s, v')" and inv: "nested_inv v" and al: "IsAlignedPage r"
  shows "nested_inv v'" "find_vmcs_from (nv_vmcs v') 0 r = Some s"
    "nv_current_vmcs_gpa v' = nv_current_vmcs_gpa v" "nv_l2_running v' = nv_l2_running v"
    "nv_vmxon_active v' = nv_vmxon_active v" "nv_capabilities v' = nv_capabilities v"
    "v' = v \<or> find_vmcs_from (nv_vmcs v) 0 r = None \<and> v12_state (nv_vmcs v' ! s) = VmcsClear"
proof -
  note ok = nested_inv_slots [OF inv]
  have "nested_inv v' \<and> find_vmcs_from (nv_vmcs v') 0 r = Some s \<and>
    nv_current_vmcs_gpa v' = nv_current_vmcs_gpa v \<and> nv_l2_running v' = nv_l2_running v \<and>
    nv_vmxon_active v' = nv_vmxon_active v \<and> nv_capabilities v' = nv_capabilities v \<and>
    (v' = v \<or> find_vmcs_from (nv_vmcs v) 0 r = None \<and> v12_state (nv_vmcs v' ! s) = VmcsClear)"
  proof (cases "scan_slots (nv_vmcs v) 0 r None")
    case (Existing i)
    then show ?thesis
      using assms Existing [unfolded scan_slots_Existing] by (simp add: AllocateVmcs_def)
  next
    case (Free i)
    define m where "m = zero_vmcs\<lparr>v12_allocated := 1, v12_region_gpa := r,
      v12_revision := nc_vmx_revision (nv_capabilities v) AND kNestedVmxRevisionMask,
      v12_state := VmcsClear\<rparr>"
    have si: "i = s" and v': "v' = v\<lparr>nv_vmcs := (nv_vmcs v)[s := m], nv_vmcs_count := nv_vmcs_count v + 1\<rparr>"
      using assms(1) Free by (auto simp: AllocateVmcs_def update_vmcs_def m_def)
    have f: "find_vmcs_from (nv_vmcs v) 0 r = None" "s < 16" "v12_allocated (nv_vmcs v ! s) = 0"
      using scan_slots_Free [OF Free] slots_ok_length [OF ok] si by simp_all
    have m: "fields_ok m" "slot_used m" "v12_region_gpa m = r" "v12_state m = VmcsClear"
      using fields_ok_zero by (simp_all add: m_def)
    note t = take_slot [OF ok f(2,3,1) al m(1-3)]
    have "unat (nv_vmcs_count v) \<le> 16"
      using inv slots_used_le [OF ok] by (simp add: nested_inv_def)
    then have cnt: "unat (nv_vmcs_count v + 1) = unat (nv_vmcs_count v) + 1"
      using unat_add_lem [of "nv_vmcs_count v" 1] by simp
    have cur: "nv_current_vmcs_gpa v \<noteq> r" if "nv_current_vmcs_gpa v \<noteq> NOT 0"
      using that inv f(1) by (auto simp: nested_inv_def CurrentVmcs_alt)
    have curv: "CurrentVmcs (Some v') = CurrentVmcs (Some v)"
      using cur t(3) by (simp add: CurrentVmcs_alt v')
    have same: "v12_state (nv_vmcs v' ! i) = v12_state (nv_vmcs v ! i)" if "CurrentVmcs (Some v) = Some i" for i
      using CurrentVmcs_SomeD [OF that ok] f(3) by (cases "i = s") (simp_all add: v')
    have "nested_inv v'"
      using inv t(1,2) cnt curv same unfolding nested_inv_def v' by auto
    then show ?thesis using t(4) f m slots_ok_length [OF ok] by (simp add: v')
  next
    case NoSlot
    then show ?thesis using assms(1) by (simp add: AllocateVmcs_def)
  qed
  then show "nested_inv v'" "find_vmcs_from (nv_vmcs v') 0 r = Some s"
    "nv_current_vmcs_gpa v' = nv_current_vmcs_gpa v" "nv_l2_running v' = nv_l2_running v"
    "nv_vmxon_active v' = nv_vmxon_active v" "nv_capabilities v' = nv_capabilities v"
    "v' = v \<or> find_vmcs_from (nv_vmcs v) 0 r = None \<and> v12_state (nv_vmcs v' ! s) = VmcsClear"
    by simp_all
qed

lemma AllocateVmcs_None: "AllocateVmcs v r = (None, v') \<Longrightarrow> v' = v"
  by (auto simp: AllocateVmcs_def split: slot_choice.splits)


lemma nested_inv_memory: "\<exists>m. v' = v\<lparr>nv_memory := m\<rparr> \<Longrightarrow> nested_inv v \<Longrightarrow> nested_inv v'"
  by auto

lemma AllocateVmcs_None_inv: "AllocateVmcs v r = (None, v') \<Longrightarrow> nested_inv v \<Longrightarrow> nested_inv v'"
  using AllocateVmcs_None by blast

text \<open>Without a current VMCS and a running L2 only the slots matter.\<close>

lemma nested_inv_idle:
  assumes "nested_inv v" and "nv_vmcs w = nv_vmcs v" "nv_vmcs_count w = nv_vmcs_count v"
    and "nv_current_vmcs_gpa w = NOT 0" "nv_l2_running w = 0"
  shows "nested_inv w"
  using assms by (simp add: nested_inv_def)

lemma EmulateVmxon_inv:
  assumes "nested_inv v"
  shows "nested_inv (snd (EmulateVmxon v i))"
proof -
  obtain r w where r: "ValidateVmxRegion v (vi_linear_operand i) = (r, w)" by fastforce
  then have w: "nested_inv w" using ValidateVmxRegion_frame nested_inv_memory assms by blast
  have "nested_inv (w\<lparr>nv_vmxon_active := 1, nv_vmxon_gpa := g, nv_current_vmcs_gpa := NOT 0,
     nv_l2_running := 0, nv_generation := nv_generation w + 1\<rparr>)" for g
    by (rule nested_inv_idle [OF w]) simp_all
  then show ?thesis
    using assms w
    by (simp add: EmulateVmxon_def Let_def r MakeVmfail_inv ClearVmInstructionError_inv split: option.split)
qed

lemma EmulateVmxoff_inv:
  assumes "nested_inv v"
  shows "nested_inv (snd (EmulateVmxoff v i))"
proof -
  have "nested_inv (v\<lparr>nv_vmxon_active := 0, nv_l2_running := 0, nv_current_vmcs_gpa := NOT 0,
     nv_generation := nv_generation v + 1\<rparr>)"
    by (rule nested_inv_idle [OF assms]) simp_all
  then show ?thesis using assms by (simp add: EmulateVmxoff_def Let_def MakeVmfail_inv)
qed

lemma EmulateVmclear_inv:
  assumes "nested_inv v"
  shows "nested_inv (snd (EmulateVmclear v i))"
proof (cases "nv_l2_running v = 0")
  case True
  obtain r w where r: "ValidateVmxRegion v (vi_linear_operand i) = (r, w)" by fastforce
  then obtain m where m: "w = v\<lparr>nv_memory := m\<rparr>" using ValidateVmxRegion_frame by blast
  then have w: "nested_inv w" "nv_l2_running w = 0" using assms True by simp_all
  have "nested_inv (let x = update_vmcs s (\<lambda>vmcs. zero_vmcs
           \<lparr>v12_allocated := 1, v12_region_gpa := v12_region_gpa vmcs,
            v12_revision := v12_revision vmcs, v12_state := VmcsClear\<rparr>) x
        in if nv_current_vmcs_gpa x = region then x\<lparr>nv_current_vmcs_gpa := NOT 0\<rparr> else x)"
    if reg: "r = Some region" and alloc: "AllocateVmcs w region = (Some s, x)" for region s x
  proof -
    have al: "IsAlignedPage region" using ValidateVmxRegion_region(1) r reg by blast
    note A = AllocateVmcs_spec [OF alloc w(1) al]
    note ok = nested_inv_slots [OF A(1)]
    let ?f = "\<lambda>vmcs. zero_vmcs\<lparr>v12_allocated := 1, v12_region_gpa := v12_region_gpa vmcs,
            v12_revision := v12_revision vmcs, v12_state := VmcsClear\<rparr>"
    have like: "slot_like (nv_vmcs x ! s) (?f (nv_vmcs x ! s))"
      using A(2) fields_ok_zero by (auto simp: slot_like_def find_vmcs_iff [OF ok])
    show ?thesis
    proof (cases "nv_current_vmcs_gpa x = region")
      case True
      have "nested_inv ((update_vmcs s ?f x)\<lparr>nv_current_vmcs_gpa := NOT 0\<rparr>)"
        using A(1,4) w(2) slots_ok_like [OF ok like] slots_used_like [OF like]
        by (simp add: nested_inv_def)
      then show ?thesis using True by (simp add: Let_def)
    next
      case False
      have "CurrentVmcs (Some x) \<noteq> Some s"
        using False A(2) CurrentVmcs_SomeD(4) [OF _ ok] by (auto simp: find_vmcs_iff [OF ok])
      then show ?thesis using nested_inv_like [where f = ?f, OF A(1) like] False by (simp add: Let_def)
    qed
  qed
  then show ?thesis
    using True w AllocateVmcs_None_inv [OF _ w(1)]
    by (auto simp: EmulateVmclear_def Let_def r MakeVmfail_inv ClearVmInstructionError_inv
        split: option.split prod.split)
qed (simp add: EmulateVmclear_def assms)

lemma EmulateVmptrld_inv:
  assumes "nested_inv v" and "nv_vmxon_active v \<noteq> 0"
  shows "nested_inv (snd (EmulateVmptrld v i))"
proof -
  obtain r w where r: "ValidateVmxRegion v (vi_linear_operand i) = (r, w)" by fastforce
  then obtain m where m: "w = v\<lparr>nv_memory := m\<rparr>" using ValidateVmxRegion_frame by blast
  then have w: "nested_inv w" "nv_vmxon_active w \<noteq> 0" using assms by simp_all
  have "nested_inv ((update_vmcs s (\<lambda>vmcs. vmcs\<lparr>v12_state := VmcsActive\<rparr>) x)
           \<lparr>nv_current_vmcs_gpa := region\<rparr>) \<and> nested_inv x"
    if reg: "r = Some region" and alloc: "AllocateVmcs w region = (Some s, x)" for region s x
  proof -
    have al: "IsAlignedPage region" using ValidateVmxRegion_region(1) r reg by blast
    note A = AllocateVmcs_spec [OF alloc w(1) al]
    note ok = nested_inv_slots [OF A(1)]
    have i: "nested_inv (update_vmcs s (\<lambda>vmcs. vmcs\<lparr>v12_state := VmcsActive\<rparr>) x)" (is "nested_inv ?y")
      by (rule nested_inv_quiet [OF A(1) quiet_state]) simp
    have "find_vmcs_from (nv_vmcs ?y) 0 region = Some s"
      using A(2) find_vmcs_like [OF ok quiet_like [OF quiet_state]] by simp
    moreover have "s < length (nv_vmcs x)"
      using A(2) slots_ok_length [OF ok] by (simp add: find_vmcs_iff [OF ok])
    ultimately show ?thesis
      using i A(1,5) w(2) aligned_not_ones [OF al] by (simp add: nested_inv_def CurrentVmcs_alt)
  qed
  then show ?thesis
    using w AllocateVmcs_None_inv [OF _ w(1)]
    by (auto simp: EmulateVmptrld_def Let_def r MakeVmfail_inv ClearVmInstructionError_inv
        split: option.split prod.split)
qed

lemma store_u64_inv: "store_u64 v d x = (ok, v') \<Longrightarrow> nested_inv v \<Longrightarrow> nested_inv v'"
  using store_u64_frame nested_inv_memory by blast

lemma ReadDescriptor_inv: "ReadDescriptor v i n = (r, v') \<Longrightarrow> nested_inv v \<Longrightarrow> nested_inv v'"
  using ReadDescriptor_frame nested_inv_memory by blast

lemma WriteNestedVmcsField_inv:
  assumes "WriteNestedVmcsField v e x = (ok, v')" and "nested_inv v"
  shows "nested_inv v'"
proof (cases "FindFieldRule e")
  case (Some rule)
  have "nested_inv (update_vmcs slot (\<lambda>vmcs. WriteStoredField vmcs rule x) v)" for slot
    by (rule nested_inv_quiet [OF assms(2) quiet_WriteStoredField [OF FindFieldRule_SomeD(1) [OF Some]]]) simp
  then show ?thesis
    using assms Some by (auto simp: WriteNestedVmcsField_def Let_def split: option.splits if_splits)
qed (use assms in \<open>simp add: WriteNestedVmcsField_def split: option.splits\<close>)

lemmas outcome_inv = MakeVmfail_inv ClearVmInstructionError_inv

lemma EmulateVmptrst_inv: "nested_inv v \<Longrightarrow> nested_inv (snd (EmulateVmptrst v i))"
  by (auto simp: EmulateVmptrst_def Let_def outcome_inv store_u64_inv split: prod.split bool.split)

lemma EmulateVmread_inv: "nested_inv v \<Longrightarrow> nested_inv (snd (EmulateVmread v i))"
  by (auto simp: EmulateVmread_def Let_def outcome_inv store_u64_inv
      split: prod.split bool.split option.split)

lemma EmulateVmwrite_inv: "nested_inv v \<Longrightarrow> nested_inv (snd (EmulateVmwrite v i))"
  by (auto simp: EmulateVmwrite_def Let_def outcome_inv WriteNestedVmcsField_inv
      split: prod.split bool.split option.split)

lemma EmulateVmEntry_inv:
  assumes "nested_inv v" and "nv_vmxon_active v \<noteq> 0"
  shows "nested_inv (snd (EmulateVmEntry v i launch))"
proof (cases "CurrentVmcs (Some v)")
  case (Some slot)
  have "nested_inv (update_vmcs slot (\<lambda>vmcs. vmcs\<lparr>v12_state := VmcsLaunched\<rparr>) v)"
    by (rule nested_inv_quiet [OF assms(1) quiet_state]) simp
  moreover have "nv_current_vmcs_gpa v \<noteq> NOT 0" using Some by (auto simp: CurrentVmcs_alt)
  ultimately have "nested_inv ((update_vmcs slot (\<lambda>vmcs. vmcs\<lparr>v12_state := VmcsLaunched\<rparr>) v)
      \<lparr>nv_l2_running := 1\<rparr>)"
    using assms(2) by (simp add: nested_inv_def)
  then show ?thesis using assms Some by (simp add: EmulateVmEntry_def Let_def outcome_inv)
qed (simp add: EmulateVmEntry_def Let_def outcome_inv assms)

lemma EmulateInvept_inv: "nested_inv v \<Longrightarrow> nested_inv (snd (EmulateInvept v i))"
  by (auto simp: EmulateInvept_def Let_def outcome_inv ReadDescriptor_inv
      split: prod.split option.split)

lemma EmulateInvvpid_inv: "nested_inv v \<Longrightarrow> nested_inv (snd (EmulateInvvpid v i))"
  by (auto simp: EmulateInvvpid_def Let_def outcome_inv ReadDescriptor_inv
      split: prod.split option.split)

lemma EmulateVmfunc_inv: "nested_inv v \<Longrightarrow> nested_inv (snd (EmulateVmfunc v i))"
  by (auto simp: EmulateVmfunc_def Let_def outcome_inv split: option.split)

lemmas emulate_inv = EmulateVmxon_inv EmulateVmxoff_inv EmulateVmclear_inv EmulateVmptrld_inv
  EmulateVmptrst_inv EmulateVmread_inv EmulateVmwrite_inv EmulateVmEntry_inv EmulateInvept_inv
  EmulateInvvpid_inv EmulateVmfunc_inv outcome_inv

lemma DispatchNestedInstruction_inv:
  assumes "DispatchNestedInstruction (Some v) i = (r, Some v')" and "nested_inv v"
  shows "nested_inv v'"
proof -
  have "\<exists>out. DispatchNestedInstruction (Some v) i = map_prod id Some out \<and> nested_inv (snd out)"
  proof (cases i)
    case None
    then show ?thesis
      using assms(2) by (intro exI [of _ "(MakeResult InvalidParameter ResumeL1 0 0 0 0, v)"])
        (simp add: DispatchNestedInstruction_def)
  next
    case (Some j)
    show ?thesis
    proof (cases "InstructionIsValid j")
      case False
      then show ?thesis
        using assms(2) Some by (intro exI [of _ "(InvalidInstruction j, v)"])
          (simp add: DispatchNestedInstruction_def)
    next
      case True
      then show ?thesis
        unfolding DispatchNestedInstruction_def Some Let_def
        by (simp only: option.case not_True_eq_False if_False)
          (rule exI, rule conjI, rule refl, simp add: emulate_inv assms(2))
    qed
  qed
  then show ?thesis using assms(1) by auto
qed

lemma ReflectNestedExit_inv:
  assumes "ReflectNestedExit (Some v) x = (r, Some v')" and "nested_inv v"
  shows "nested_inv v'"
proof -
  have q: "nested_inv (update_vmcs slot (\<lambda>vmcs. SetVmcsReadOnly e1 a1
      (SetVmcsReadOnly e2 a2 (SetVmcsReadOnly e3 a3 vmcs))) v)" for slot e1 a1 e2 a2 e3 a3
    using quiet_comp [OF quiet_SetVmcsReadOnly quiet_comp [OF quiet_SetVmcsReadOnly quiet_SetVmcsReadOnly]]
    by (rule nested_inv_quiet [OF assms(2)]) simp
  have "nested_inv (w\<lparr>nv_l2_running := 0, nv_generation := g\<rparr>)" if "nested_inv w" for w :: "'a NestedVcpu" and g
    using that by (simp add: nested_inv_def)
  then show ?thesis
    using assms q unfolding ReflectNestedExit_def Let_def
    by (auto split: option.splits if_splits)
qed

lemma slots_ok_initial:
  "slots_ok (replicate 16 (zero_vmcs\<lparr>v12_revision := rv\<rparr>))"
  by (simp add: slots_ok_def fields_ok_def zero_vmcs_def)

lemma InitializeNestedVcpu_inv: "nested_inv (InitializeNestedVcpu c caps m)"
  unfolding InitializeNestedVcpu_def Let_def nested_inv_def
  using slots_ok_initial by (simp add: slots_used_def zero_vmcs_def)


section \<open>Runs of a virtual CPU\<close>

text \<open>
  What can happen to a virtual CPU: an instruction of L1, an exit of L2, and between them any
  change of guest memory and of the VMXE setting by the client.
\<close>

inductive nested_step :: "'s NestedVcpu \<Rightarrow> 's NestedVcpu \<Rightarrow> bool" where
  step_instruction: "DispatchNestedInstruction (Some v) i = (r, Some v') \<Longrightarrow> nested_step v v'"
| step_exit: "ReflectNestedExit (Some v) x = (r, Some v') \<Longrightarrow> nested_step v v'"
| step_client: "nested_step v (v\<lparr>nv_memory := m, nv_vmxe_enabled := b\<rparr>)"

lemma nested_step_inv: "nested_step v v' \<Longrightarrow> nested_inv v \<Longrightarrow> nested_inv v'"
  by (induction rule: nested_step.induct)
    (auto intro: DispatchNestedInstruction_inv ReflectNestedExit_inv)

interpretation nested: invariant_machine nested_step nested_inv
  by unfold_locales (rule nested_step_inv)

text \<open>
C8: In every state that a nested virtual CPU reaches from its initialisation by any VMX
instructions, exits and changes of guest memory, the VMCS slots are well formed (aligned,
distinct regions, field values within their width), the slot count is exact, a current VMCS is
allocated and not clear, and L2 runs only in VMX operation with a current VMCS.
\<close>

theorem nested_reachable_invariant:
  assumes "nested_step\<^sup>*\<^sup>* (InitializeNestedVcpu c caps m) v"
  shows "nested_inv v"
  using nested.star_inv [OF assms InitializeNestedVcpu_inv] .

section \<open>Field access\<close>

text \<open>The instruction error of the CPU and of its current VMCS, set together.\<close>

definition record_error :: "u32 \<Rightarrow> 's NestedVcpu \<Rightarrow> 's NestedVcpu" where
  "record_error e v = (let v = v\<lparr>nv_instruction_error := e\<rparr> in
     case CurrentVmcs (Some v) of None \<Rightarrow> v
     | Some slot \<Rightarrow> update_vmcs slot (SetVmcsReadOnly kVmcsFieldInstructionError (ucast e)) v)"

lemma ClearVmInstructionError_record: "ClearVmInstructionError v = record_error 0 v"
  by (simp add: ClearVmInstructionError_def record_error_def Let_def split: option.split)

lemma MakeVmfail_alt:
  "MakeVmfail v VmfailValid e len =
     (MakeResult VmfailValid ResumeL1 e len kRflagsZero 0, record_error e v)"
  "status \<noteq> VmfailValid \<Longrightarrow> MakeVmfail v status e len =
     (MakeResult status ResumeL1 0 len kRflagsCarry 0, v)"
  by (simp_all add: MakeVmfail_def record_error_def Let_def)

lemma CurrentVmcs_record_error:
  "slots_ok (nv_vmcs v) \<Longrightarrow> CurrentVmcs (Some (record_error e v)) = CurrentVmcs (Some v)"
  using CurrentVmcs_like [where f = "SetVmcsReadOnly kVmcsFieldInstructionError (ucast e)",
      of "v\<lparr>nv_instruction_error := e\<rparr>", OF _ quiet_like [OF quiet_SetVmcsReadOnly]]
  by (simp add: record_error_def Let_def split: option.split)

lemma ReadNestedVmcsField_alt:
  assumes "slots_ok (nv_vmcs v)"
  shows "ReadNestedVmcsField (Some v) e = (case (CurrentVmcs (Some v), FindFieldRule e) of
     (Some slot, Some rule) \<Rightarrow> Some (v12_fields (nv_vmcs v ! slot) ! rule) | _ \<Rightarrow> None)"
proof (cases "CurrentVmcs (Some v)"; cases "FindFieldRule e")
  fix slot rule assume s: "CurrentVmcs (Some v) = Some slot" and r: "FindFieldRule e = Some rule"
  show ?thesis
    using CurrentVmcs_SomeD(5) [OF s assms] FindFieldRule_SomeD [OF r]
    by (simp add: ReadNestedVmcsField_def s r fields_ok_def)
qed (simp_all add: ReadNestedVmcsField_def)

lemma ucast_low32: "ucast (c :: u32) AND (0xFFFFFFFF :: u64) = ucast c"
proof -
  have m: "(0xFFFFFFFF :: u64) = mask 32" by (simp add: mask_eq_exp_minus_1)
  show ?thesis unfolding m
    by (rule bit_word_eqI) (auto simp: bit_simps dest: bit_imp_le_length)
qed

text \<open>A read after a read-only field of the current VMCS was set.\<close>

lemma read_set_readonly:
  assumes ok: "slots_ok (nv_vmcs v)" and s: "CurrentVmcs (Some v) = Some slot"
    and r: "FindFieldRule e0 = Some rule"
  shows "ReadNestedVmcsField (Some (update_vmcs slot (SetVmcsReadOnly e0 x) v)) e =
    (if e = e0 then Some (x AND FieldMask (fr_width (kFieldRules ! rule)))
     else ReadNestedVmcsField (Some v) e)"
proof -
  note S = CurrentVmcs_SomeD [OF s ok] and R = FindFieldRule_SomeD [OF r]
  note like = quiet_like [OF quiet_SetVmcsReadOnly]
  have fld: "v12_fields (SetVmcsReadOnly e0 x m) =
      (v12_fields m)[rule := x AND FieldMask (fr_width (kFieldRules ! rule))]" for m
    using R by (simp add: SetVmcsReadOnly_def r)
  have ok': "slots_ok (nv_vmcs (update_vmcs slot (SetVmcsReadOnly e0 x) v))"
    using slots_ok_like [OF ok like] by simp
  note A = ReadNestedVmcsField_alt [OF ok'] ReadNestedVmcsField_alt [OF ok] fld s S(2)
    CurrentVmcs_like [where f = "SetVmcsReadOnly e0 x", OF ok like]
  show ?thesis
  proof (cases "FindFieldRule e")
    case (Some rule')
    show ?thesis
    proof (cases "rule' = rule")
      case True
      then have e: "e = e0" using FindFieldRule_inj [OF r] Some by blast
      show ?thesis unfolding e using S(5) R(1) by (simp add: A r fields_ok_def)
    next
      case False
      then have "e \<noteq> e0" using Some r by auto
      then show ?thesis using False by (simp add: A Some)
    qed
  next
    case None
    then have "e \<noteq> e0" using r by auto
    then show ?thesis by (simp add: A None)
  qed
qed

lemma read_record_error:
  assumes "slots_ok (nv_vmcs v)"
  shows "ReadNestedVmcsField (Some (record_error c v)) e =
    (if e = kVmcsFieldInstructionError \<and> CurrentVmcs (Some v) \<noteq> None then Some (ucast c)
     else ReadNestedVmcsField (Some v) e)"
proof (cases "CurrentVmcs (Some v)")
  case None
  then show ?thesis by (simp add: ReadNestedVmcsField_def CurrentVmcs_record_error assms)
next
  case (Some slot)
  have "ReadNestedVmcsField (Some (v\<lparr>nv_instruction_error := c\<rparr>)) e = ReadNestedVmcsField (Some v) e"
    by (simp add: ReadNestedVmcsField_def split: option.split)
  moreover have "fr_width (kFieldRules ! 13) = 4" by (simp add: kFieldRules_def)
  ultimately show ?thesis
    using read_set_readonly [of "v\<lparr>nv_instruction_error := c\<rparr>" slot "0x4400" 13 "ucast c" e] assms Some
    by (simp add: record_error_def field_indices FieldMask_def ucast_low32)
qed

lemma WriteNestedVmcsField_read:
  assumes "WriteNestedVmcsField v e x = (True, v')" and inv: "nested_inv v"
  shows "ReadNestedVmcsField (Some v') e = Some x"
    "e' \<noteq> e \<Longrightarrow> ReadNestedVmcsField (Some v') e' = ReadNestedVmcsField (Some v) e'"
    "CurrentVmcs (Some v') = CurrentVmcs (Some v)" "CurrentVmcs (Some v) \<noteq> None"
proof -
  note ok = nested_inv_slots [OF inv]
  obtain slot rule where s: "CurrentVmcs (Some v) = Some slot" and r: "FindFieldRule e = Some rule"
    and z: "x AND fr_reserved_zero_mask (kFieldRules ! rule) = 0"
    and v': "v' = update_vmcs slot (\<lambda>vmcs. WriteStoredField vmcs rule x) v"
    using assms(1) by (auto simp: WriteNestedVmcsField_def Let_def split: option.splits if_splits)
  note S = CurrentVmcs_SomeD [OF s ok] and R = FindFieldRule_SomeD [OF r]
  have c: "CurrentVmcs (Some v') = Some slot"
    unfolding v' using CurrentVmcs_like [where f = "\<lambda>vmcs. WriteStoredField vmcs rule x",
      OF ok quiet_like [OF quiet_WriteStoredField [OF R(1)]]] s by simp
  have ok': "slots_ok (nv_vmcs v')"
    using nested_inv_slots [OF WriteNestedVmcsField_inv [OF assms]] .
  have fld: "v12_fields (nv_vmcs v' ! slot) = (v12_fields (nv_vmcs v ! slot))[rule := x]"
    using S(2) R FieldMask_reserved [OF R(1) z] by (simp add: v' WriteStoredField_def)
  have len: "length (v12_fields (nv_vmcs v ! slot)) = 96" using S(5) by (simp add: fields_ok_def)
  show "ReadNestedVmcsField (Some v') e = Some x"
    using R(1) len by (simp add: ReadNestedVmcsField_alt [OF ok'] c r fld)
  show "ReadNestedVmcsField (Some v') e' = ReadNestedVmcsField (Some v) e'" if "e' \<noteq> e"
  proof (cases "FindFieldRule e'")
    case (Some rule')
    then have "rule' \<noteq> rule" using FindFieldRule_inj [OF r] that by blast
    then show ?thesis
      by (simp add: ReadNestedVmcsField_alt [OF ok'] ReadNestedVmcsField_alt [OF ok] c s fld Some)
  qed (simp add: ReadNestedVmcsField_def split: option.split)
  show "CurrentVmcs (Some v') = CurrentVmcs (Some v)" "CurrentVmcs (Some v) \<noteq> None"
    using c s by simp_all
qed

section \<open>Dispatch\<close>

lemma dispatch_active:
  assumes "InstructionIsValid i" and "nv_vmxon_active v \<noteq> 0"
  shows "vi_opcode i = VmxOpcode_u32 Vmread \<Longrightarrow>
      DispatchNestedInstruction (Some v) (Some i) = map_prod id Some (EmulateVmread v i)"
    "vi_opcode i = VmxOpcode_u32 Vmwrite \<Longrightarrow>
      DispatchNestedInstruction (Some v) (Some i) = map_prod id Some (EmulateVmwrite v i)"
    "vi_opcode i = VmxOpcode_u32 Vmptrld \<Longrightarrow>
      DispatchNestedInstruction (Some v) (Some i) = map_prod id Some (EmulateVmptrld v i)"
    "vi_opcode i = VmxOpcode_u32 Vmlaunch \<Longrightarrow>
      DispatchNestedInstruction (Some v) (Some i) = map_prod id Some (EmulateVmEntry v i True)"
    "vi_opcode i = VmxOpcode_u32 Vmresume \<Longrightarrow>
      DispatchNestedInstruction (Some v) (Some i) = map_prod id Some (EmulateVmEntry v i False)"
  using assms by (simp_all add: DispatchNestedInstruction_def Let_def)

lemma dispatch_inactive:
  assumes "InstructionIsValid i" and "nv_vmxon_active v = 0" and "vi_opcode i \<noteq> VmxOpcode_u32 Vmxon"
  shows "DispatchNestedInstruction (Some v) (Some i) =
    (MakeResult VmfailInvalid ResumeL1 0 (InstructionLength i) kRflagsCarry 0, Some v)"
  using assms by (simp add: DispatchNestedInstruction_def Let_def MakeVmfail_alt)

theorem vmx_off_inert:
  assumes "nv_vmxon_active v = 0" and "vi_opcode i \<noteq> VmxOpcode_u32 Vmxon"
  shows "snd (DispatchNestedInstruction (Some v) (Some i)) = Some v \<and>
    nr_status (fst (DispatchNestedInstruction (Some v) (Some i))) =
      (if InstructionIsValid i then VmfailInvalid else InvalidParameter)"
proof (cases "InstructionIsValid i")
  case True
  then show ?thesis using dispatch_inactive [OF True assms] by (simp add: MakeResult_def)
next
  case False
  then show ?thesis by (simp add: DispatchNestedInstruction_def InvalidInstruction_def MakeResult_def)
qed

section \<open>VMWRITE and VMREAD\<close>

lemma result_sel [simp]:
  "nr_status (MakeResult st a e l f x) = st" "nr_action (MakeResult st a e l f x) = a"
  "nr_instruction_error (MakeResult st a e l f x) = e" "nr_rflags (MakeResult st a e l f x) = f"
  "nr_instruction_length (MakeResult st a e l f x) = l" "nr_value (MakeResult st a e l f x) = x"
  "nr_status (MakeSuccess a l x) = Success" "nr_action (MakeSuccess a l x) = a"
  "nr_rflags (MakeSuccess a l x) = 0" "nr_value (MakeSuccess a l x) = x"
  by (simp_all add: MakeResult_def MakeSuccess_def)

lemma vmread_register:
  assumes "CurrentVmcs (Some v) \<noteq> None" and "vi_flags i AND kInstructionOperandIsRegister \<noteq> 0"
  shows "fst (EmulateVmread v i) = (case ReadNestedVmcsField (Some v) (vi_encoding i) of
     None \<Rightarrow> MakeResult VmfailInvalid ResumeL1 0 (InstructionLength i) kRflagsCarry 0
   | Some x \<Rightarrow> MakeSuccess ResumeL1 (InstructionLength i) x)"
  using assms by (auto simp: EmulateVmread_def Let_def MakeVmfail_alt split: option.split)

lemma vmwrite_SuccessE:
  assumes "EmulateVmwrite v i = (r, v')" and "nr_status r = Success"
  obtains u where "WriteNestedVmcsField v (vi_encoding i) (vi_source i) = (True, u)"
    "v' = record_error 0 u"
  using assms
  by (auto simp: EmulateVmwrite_def Let_def MakeVmfail_alt ClearVmInstructionError_record
      split: option.splits if_splits prod.splits bool.splits)

lemma nv_vmxon_active_record_error [simp]: "nv_vmxon_active (record_error e v) = nv_vmxon_active v"
  by (simp add: record_error_def Let_def split: option.split)

lemma WriteNestedVmcsField_vmxon:
  "WriteNestedVmcsField v e x = (ok, u) \<Longrightarrow> nv_vmxon_active u = nv_vmxon_active v"
  by (auto simp: WriteNestedVmcsField_def Let_def split: option.splits if_splits)

text \<open>
C11: After a successful VMWRITE, a VMREAD of that field into a register returns the value
written, VMREAD of the instruction error returns zero, and VMREAD of every other field returns
what it did before.
\<close>

theorem vmwrite_then_vmread:
  assumes inv: "nested_inv v"
    and w: "InstructionIsValid w" "vi_opcode w = VmxOpcode_u32 Vmwrite"
      "DispatchNestedInstruction (Some v) (Some w) = (r, Some v')" "nr_status r = Success"
    and rd: "InstructionIsValid rd" "vi_opcode rd = VmxOpcode_u32 Vmread"
      "vi_flags rd AND kInstructionOperandIsRegister \<noteq> 0"
  shows "fst (DispatchNestedInstruction (Some v') (Some rd)) =
    (if vi_encoding rd = vi_encoding w then MakeSuccess ResumeL1 (InstructionLength rd) (vi_source w)
     else if vi_encoding rd = kVmcsFieldInstructionError
     then MakeSuccess ResumeL1 (InstructionLength rd) 0
     else fst (DispatchNestedInstruction (Some v) (Some rd)))"
proof -
  have on: "nv_vmxon_active v \<noteq> 0"
    using dispatch_inactive [OF w(1), of v] w by auto
  then have "EmulateVmwrite v w = (r, v')"
    using dispatch_active(2) [OF w(1) on w(2)] w(3) by (cases "EmulateVmwrite v w") simp
  then obtain u where u: "WriteNestedVmcsField v (vi_encoding w) (vi_source w) = (True, u)"
    and v': "v' = record_error 0 u"
    using w(4) by (rule vmwrite_SuccessE)
  note R = WriteNestedVmcsField_read [OF u inv]
  note ok = nested_inv_slots [OF WriteNestedVmcsField_inv [OF u inv]]
  have on': "nv_vmxon_active v' \<noteq> 0" using on WriteNestedVmcsField_vmxon [OF u] by (simp add: v')
  have wr: "vi_encoding w \<noteq> kVmcsFieldInstructionError"
  proof
    assume "vi_encoding w = kVmcsFieldInstructionError"
    then have "fr_writable (kFieldRules ! 13) \<noteq> 0"
      using u by (auto simp: WriteNestedVmcsField_def Let_def field_indices split: option.splits if_splits)
    then show False by (simp add: kFieldRules_def)
  qed
  have cur: "CurrentVmcs (Some v') \<noteq> None" "CurrentVmcs (Some v) \<noteq> None"
    using R(3,4) CurrentVmcs_record_error [OF ok] by (simp_all add: v')
  have "fst (DispatchNestedInstruction (Some v') (Some rd)) =
     (case ReadNestedVmcsField (Some v') (vi_encoding rd) of
        None \<Rightarrow> MakeResult VmfailInvalid ResumeL1 0 (InstructionLength rd) kRflagsCarry 0
      | Some x \<Rightarrow> MakeSuccess ResumeL1 (InstructionLength rd) x)"
    using dispatch_active(1) [OF rd(1) on' rd(2)] vmread_register [OF cur(1) rd(3)] by simp
  moreover have "fst (DispatchNestedInstruction (Some v) (Some rd)) =
     (case ReadNestedVmcsField (Some v) (vi_encoding rd) of
        None \<Rightarrow> MakeResult VmfailInvalid ResumeL1 0 (InstructionLength rd) kRflagsCarry 0
      | Some x \<Rightarrow> MakeSuccess ResumeL1 (InstructionLength rd) x)"
    using dispatch_active(1) [OF rd(1) on rd(2)] vmread_register [OF cur(2) rd(3)] by simp
  moreover have "ReadNestedVmcsField (Some v') (vi_encoding rd) =
    (if vi_encoding rd = vi_encoding w then Some (vi_source w)
     else if vi_encoding rd = kVmcsFieldInstructionError then Some 0
     else ReadNestedVmcsField (Some v) (vi_encoding rd))"
    using R(1) R(2) [of "vi_encoding rd"] R(3,4) wr by (simp add: v' read_record_error [OF ok])
  ultimately show ?thesis by simp
qed

section \<open>Failing instructions\<close>

text \<open>
  What a failing instruction leaves: guest memory as the callbacks left it, and, after a
  VMfailValid, the recorded error.
\<close>

definition failed_state :: "'s NestedVcpu \<Rightarrow> NestedResult \<Rightarrow> 's NestedVcpu \<Rightarrow> bool" where
  "failed_state v r v' \<longleftrightarrow> nr_status r \<noteq> Success \<longrightarrow>
     nr_action r \<noteq> EnterL2 \<and> nr_action r \<noteq> ReflectVmexit \<and> nr_value r = 0 \<and>
     (\<exists>m. if nr_status r = VmfailValid
          then v' = record_error (nr_instruction_error r) (v\<lparr>nv_memory := m\<rparr>) \<and>
               nr_rflags r = kRflagsZero \<and> nr_action r = ResumeL1
          else v' = v\<lparr>nv_memory := m\<rparr> \<and> nr_instruction_error r = 0)"

lemma failed_vmfail:
  "st \<noteq> Success \<Longrightarrow> case_prod (failed_state v) (MakeVmfail (v\<lparr>nv_memory := m\<rparr>) st e len)"
  by (cases "st = VmfailValid") (auto simp: failed_state_def MakeVmfail_alt)

lemma failed_vmfail_same:
  "st \<noteq> Success \<Longrightarrow> case_prod (failed_state v) (MakeVmfail v st e len)"
  using failed_vmfail [of st v "nv_memory v"] by simp

lemma failed_success [simp]: "failed_state v (MakeSuccess a l x) v'"
  by (simp add: failed_state_def)

lemma failed_refused:
  "st \<noteq> VmfailValid \<Longrightarrow> a \<noteq> EnterL2 \<Longrightarrow> a \<noteq> ReflectVmexit \<Longrightarrow>
     failed_state v (MakeResult st a 0 l f 0) v"
  by (simp add: failed_state_def)

lemmas failed_intros = failed_vmfail [simplified case_prod_unfold]
  failed_vmfail_same [simplified case_prod_unfold] failed_refused

lemma EmulateVmxon_failed: "failed_state v (fst (EmulateVmxon v i)) (snd (EmulateVmxon v i))"
  by (auto simp: EmulateVmxon_def Let_def failed_intros dest!: ValidateVmxRegion_frame
      split: prod.split option.split)

lemma EmulateVmxoff_failed: "failed_state v (fst (EmulateVmxoff v i)) (snd (EmulateVmxoff v i))"
  by (simp add: EmulateVmxoff_def Let_def failed_intros)

lemma EmulateVmclear_failed: "failed_state v (fst (EmulateVmclear v i)) (snd (EmulateVmclear v i))"
  by (auto simp: EmulateVmclear_def Let_def failed_intros
      dest!: ValidateVmxRegion_frame AllocateVmcs_None split: prod.split option.split)

lemma EmulateVmptrld_failed:
  assumes "nested_inv v"
  shows "failed_state v (fst (EmulateVmptrld v i)) (snd (EmulateVmptrld v i))"
proof -
  obtain r w where r: "ValidateVmxRegion v (vi_linear_operand i) = (r, w)" by fastforce
  then obtain m where m: "w = v\<lparr>nv_memory := m\<rparr>" using ValidateVmxRegion_frame by blast
  then have w: "nested_inv w" using assms by simp
  have "failed_state v (fst (MakeVmfail x VmfailValid e len)) (snd (MakeVmfail x VmfailValid e len))"
    if "r = Some region" "AllocateVmcs w region = (Some s, x)"
      "v12_state (nv_vmcs x ! s) = VmcsActive" for region s x e len
  proof -
    have "x = w"
      using AllocateVmcs_spec(7) [OF that(2) w] ValidateVmxRegion_region(1) r that by fastforce
    then show ?thesis by (simp add: m failed_intros)
  qed
  then show ?thesis
    by (auto simp: EmulateVmptrld_def Let_def r failed_intros m
        dest!: AllocateVmcs_None split: prod.split option.split)
qed

lemma EmulateVmptrst_failed: "failed_state v (fst (EmulateVmptrst v i)) (snd (EmulateVmptrst v i))"
  by (auto simp: EmulateVmptrst_def Let_def failed_intros dest!: store_u64_frame
      split: prod.split bool.split)

lemma EmulateVmread_failed: "failed_state v (fst (EmulateVmread v i)) (snd (EmulateVmread v i))"
  by (auto simp: EmulateVmread_def Let_def failed_intros dest!: store_u64_frame
      split: prod.split bool.split option.split)

lemma WriteNestedVmcsField_False: "WriteNestedVmcsField v e x = (False, v') \<Longrightarrow> v' = v"
  by (auto simp: WriteNestedVmcsField_def Let_def split: option.splits if_splits)

lemma EmulateVmwrite_failed: "failed_state v (fst (EmulateVmwrite v i)) (snd (EmulateVmwrite v i))"
  by (auto simp: EmulateVmwrite_def Let_def failed_intros dest!: WriteNestedVmcsField_False
      split: prod.split bool.split option.split)

lemma EmulateVmEntry_failed: "failed_state v (fst (EmulateVmEntry v i l)) (snd (EmulateVmEntry v i l))"
  by (simp add: EmulateVmEntry_def Let_def failed_intros split: option.split)

lemma EmulateInvept_failed: "failed_state v (fst (EmulateInvept v i)) (snd (EmulateInvept v i))"
  by (auto simp: EmulateInvept_def Let_def failed_intros dest!: ReadDescriptor_frame
      split: prod.split option.split)

lemma EmulateInvvpid_failed: "failed_state v (fst (EmulateInvvpid v i)) (snd (EmulateInvvpid v i))"
  by (auto simp: EmulateInvvpid_def Let_def failed_intros dest!: ReadDescriptor_frame
      split: prod.split option.split)

lemma EmulateVmfunc_failed: "failed_state v (fst (EmulateVmfunc v i)) (snd (EmulateVmfunc v i))"
  by (auto simp: EmulateVmfunc_def Let_def failed_intros split: option.split)

lemmas emulate_failed = EmulateVmxon_failed EmulateVmxoff_failed EmulateVmclear_failed
  EmulateVmptrld_failed EmulateVmptrst_failed EmulateVmread_failed EmulateVmwrite_failed
  EmulateVmEntry_failed EmulateInvept_failed EmulateInvvpid_failed EmulateVmfunc_failed


text \<open>
C12: A VMX instruction that does not succeed neither enters L2 nor reflects an exit and returns
no value; a VMfailValid changes nothing of the virtual CPU but the recorded error number (and
guest memory), which the error field then shows, and any other failure changes nothing but guest
memory.
\<close>

theorem nested_failure_frame:
  assumes "nested_inv v" and "DispatchNestedInstruction (Some v) (Some i) = (r, Some v')"
    and "nr_status r \<noteq> Success"
  shows "nr_action r \<noteq> EnterL2 \<and> nr_action r \<noteq> ReflectVmexit \<and> nr_value r = 0 \<and>
    (\<exists>m. if nr_status r = VmfailValid
         then v' = record_error (nr_instruction_error r) (v\<lparr>nv_memory := m\<rparr>) \<and>
              nr_rflags r = kRflagsZero \<and>
              (CurrentVmcs (Some v) \<noteq> None \<longrightarrow>
                 ReadNestedVmcsField (Some v') kVmcsFieldInstructionError = Some (ucast (nr_instruction_error r)))
         else v' = v\<lparr>nv_memory := m\<rparr> \<and> nr_instruction_error r = 0)"
proof -
  have "failed_state v r v'"
  proof (cases "InstructionIsValid i")
    case True
    have "\<exists>out. DispatchNestedInstruction (Some v) (Some i) = map_prod id Some out \<and>
        failed_state v (fst out) (snd out)"
      unfolding DispatchNestedInstruction_def Let_def option.case
      by (simp only: True not_True_eq_False if_False)
        (rule exI, rule conjI, rule refl, simp add: emulate_failed assms(1) failed_intros UndefinedInstruction_def)
    then show ?thesis using assms(2) by auto
  next
    case False
    then have "r = InvalidInstruction i \<and> v' = v"
      using assms(2) by (auto simp: DispatchNestedInstruction_def)
    then show ?thesis by (simp add: InvalidInstruction_def failed_refused)
  qed
  moreover have "ReadNestedVmcsField (Some (record_error e (v\<lparr>nv_memory := m\<rparr>))) kVmcsFieldInstructionError =
      Some (ucast e)" if "CurrentVmcs (Some v) \<noteq> None" for e m
    using read_record_error [of "v\<lparr>nv_memory := m\<rparr>"] nested_inv_slots [OF assms(1)] that by simp
  ultimately show ?thesis using assms(3) unfolding failed_state_def by metis
qed

section \<open>VM entry and exit\<close>

lemma record_error_sel [simp]:
  "nv_l2_running (record_error e v) = nv_l2_running v"
  "nv_current_vmcs_gpa (record_error e v) = nv_current_vmcs_gpa v"
  "nv_capabilities (record_error e v) = nv_capabilities v"
  by (simp_all add: record_error_def Let_def split: option.split)

lemma record_error_state:
  assumes "slots_ok (nv_vmcs v)" and "CurrentVmcs (Some v) = Some slot"
  shows "v12_state (nv_vmcs (record_error e v) ! slot) = v12_state (nv_vmcs v ! slot)"
  using CurrentVmcs_SomeD(2) [OF assms(2,1)] assms by (simp add: record_error_def Let_def)

lemma vmfail_action [simp]: "nr_action (fst (MakeVmfail v st e len)) = ResumeL1"
  by (simp add: MakeVmfail_def Let_def)

text \<open>Only the two entry instructions enter L2.\<close>

lemma enter_only_by_entry:
  assumes "DispatchNestedInstruction (Some v) (Some i) = (r, Some v')" and "nr_action r = EnterL2"
  shows "InstructionIsValid i \<and> nv_vmxon_active v \<noteq> 0 \<and>
    (\<exists>launch. EmulateVmEntry v i launch = (r, v') \<and>
       vi_opcode i = (if launch then VmxOpcode_u32 Vmlaunch else VmxOpcode_u32 Vmresume))"
proof -
  have none: "nr_action (fst (EmulateVmxon v i)) \<noteq> EnterL2" "nr_action (fst (EmulateVmxoff v i)) \<noteq> EnterL2"
    "nr_action (fst (EmulateVmclear v i)) \<noteq> EnterL2" "nr_action (fst (EmulateVmptrld v i)) \<noteq> EnterL2"
    "nr_action (fst (EmulateVmptrst v i)) \<noteq> EnterL2" "nr_action (fst (EmulateVmread v i)) \<noteq> EnterL2"
    "nr_action (fst (EmulateVmwrite v i)) \<noteq> EnterL2" "nr_action (fst (EmulateInvept v i)) \<noteq> EnterL2"
    "nr_action (fst (EmulateInvvpid v i)) \<noteq> EnterL2" "nr_action (fst (EmulateVmfunc v i)) \<noteq> EnterL2"
    by (simp_all add: EmulateVmxon_def EmulateVmxoff_def EmulateVmclear_def EmulateVmptrld_def
        EmulateVmptrst_def EmulateVmread_def EmulateVmwrite_def EmulateInvept_def EmulateInvvpid_def
        EmulateVmfunc_def Let_def split: prod.split option.split bool.split)
  have valid: "InstructionIsValid i"
    using assms by (auto simp: DispatchNestedInstruction_def InvalidInstruction_def split: if_splits)
  have on: "nv_vmxon_active v \<noteq> 0"
  proof
    assume off: "nv_vmxon_active v = 0"
    have "vi_opcode i = VmxOpcode_u32 Vmxon"
      by (rule ccontr) (use dispatch_inactive [OF valid off] assms in simp)
    then have "r = fst (EmulateVmxon v i)"
      using assms(1) valid by (cases "EmulateVmxon v i") (simp add: DispatchNestedInstruction_def)
    then show False using none(1) assms(2) by simp
  qed
  have act: "nr_action (fst (DispatchNestedInstruction (Some v) (Some i))) = EnterL2"
    using assms by simp
  have "vi_opcode i = VmxOpcode_u32 Vmlaunch \<or> vi_opcode i = VmxOpcode_u32 Vmresume"
  proof (rule ccontr)
    assume n: "\<not> ?thesis"
    have "nr_action (fst (DispatchNestedInstruction (Some v) (Some i))) \<noteq> EnterL2"
      unfolding DispatchNestedInstruction_def Let_def option.case fst_map_prod
      using valid on n none by (simp add: UndefinedInstruction_def split del: if_split split: if_split)
    then show False using act by blast
  qed
  then show ?thesis
    using assms(1) valid on dispatch_active(4,5) [OF valid on] by (fastforce simp: map_prod_def split: prod.splits)
qed

text \<open>
C9: An instruction enters L2 only in VMX operation, while L2 is not running, with a current VMCS
whose state passed ValidateEntryState and whose launch state fits the instruction; afterwards L2
runs and that VMCS is launched.
\<close>

theorem vm_entry_validated:
  assumes "nested_inv v" and "DispatchNestedInstruction (Some v) (Some i) = (r, Some v')"
    and "nr_action r = EnterL2"
  shows "nv_vmxon_active v \<noteq> 0 \<and> nv_l2_running v = 0 \<and> nv_l2_running v' = 1 \<and>
    (\<exists>slot. CurrentVmcs (Some v) = Some slot \<and> CurrentVmcs (Some v') = Some slot \<and>
       ValidateEntryState (Some v) (nv_vmcs v ! slot) \<and>
       v12_state (nv_vmcs v ! slot) =
         (if vi_opcode i = VmxOpcode_u32 Vmlaunch then VmcsActive else VmcsLaunched) \<and>
       v12_state (nv_vmcs v' ! slot) = VmcsLaunched)"
proof -
  obtain launch where on: "nv_vmxon_active v \<noteq> 0" and e: "EmulateVmEntry v i launch = (r, v')"
    and op: "vi_opcode i = (if launch then VmxOpcode_u32 Vmlaunch else VmxOpcode_u32 Vmresume)"
    using enter_only_by_entry [OF assms(2,3)] by blast
  have fst: "nr_action (fst (EmulateVmEntry v i launch)) = EnterL2" using e assms(3) by simp
  obtain slot where s: "CurrentVmcs (Some v) = Some slot"
    using fst by (cases "CurrentVmcs (Some v)") (simp_all add: EmulateVmEntry_def Let_def)
  have st: "v12_state (nv_vmcs v ! slot) = (if launch then VmcsActive else VmcsLaunched)"
    and l2: "nv_l2_running v = 0" and ok: "ValidateEntryState (Some v) (nv_vmcs v ! slot)"
    using fst s by (auto simp: EmulateVmEntry_def Let_def split: if_splits)
  define w where "w = (update_vmcs slot (\<lambda>vmcs. vmcs\<lparr>v12_state := VmcsLaunched\<rparr>) v)\<lparr>nv_l2_running := 1\<rparr>"
  have v': "v' = record_error 0 w"
    using e s st l2 ok unfolding EmulateVmEntry_def Let_def ClearVmInstructionError_record w_def
    by (cases launch) simp_all
  note okv = nested_inv_slots [OF assms(1)]
  have okw: "slots_ok (nv_vmcs w)"
    using slots_ok_like [OF okv quiet_like [OF quiet_state]] by (simp add: w_def)
  have cw: "CurrentVmcs (Some w) = Some slot"
    using s CurrentVmcs_like [where f = "\<lambda>vmcs. vmcs\<lparr>v12_state := VmcsLaunched\<rparr>",
        OF okv quiet_like [OF quiet_state]] by (simp add: w_def)
  have "v12_state (nv_vmcs w ! slot) = VmcsLaunched"
    using CurrentVmcs_SomeD(2) [OF s okv] by (simp add: w_def)
  then show ?thesis
    using on l2 ok st s op cw CurrentVmcs_record_error [OF okw] record_error_state [OF okw cw]
    by (simp add: v') (simp add: w_def)
qed

lemma update_vmcs_twice:
  "slot < length (nv_vmcs v) \<Longrightarrow>
     update_vmcs slot f (update_vmcs slot g v) = update_vmcs slot (\<lambda>m. f (g m)) v"
  by (simp add: update_vmcs_def)

lemma slots_ok_update_quiet:
  "slots_ok (nv_vmcs v) \<Longrightarrow> quiet f \<Longrightarrow> slots_ok (nv_vmcs (update_vmcs s f v))"
  by (simp add: slots_ok_like quiet_like)

lemma field_widths:
  "fr_width (kFieldRules ! 14) = 4" "fr_width (kFieldRules ! 15) = 8" "fr_width (kFieldRules ! 44) = 4"
  by (simp_all add: kFieldRules_def)

lemma update_vmcs_read_frame:
  "ReadNestedVmcsField (Some (v\<lparr>nv_l2_running := l, nv_generation := g\<rparr>)) e = ReadNestedVmcsField (Some v) e"
  by (simp add: ReadNestedVmcsField_def CurrentVmcs_alt split: option.split)

theorem nested_exit_reflected:
  assumes inv: "nested_inv v" and l2: "nv_l2_running v \<noteq> 0"
    and x: "xr_version x = kNestedModelVersion" "40 \<le> xr_size x" "xr_size x \<le> 104"
      "xr_instruction_length x \<le> 15"
  shows "\<exists>v'. ReflectNestedExit (Some v) (Some x) =
      (MakeSuccess ReflectVmexit (xr_instruction_length x) 0, Some v') \<and>
    nv_l2_running v' = 0 \<and> CurrentVmcs (Some v') = CurrentVmcs (Some v) \<and>
    (\<forall>e. ReadNestedVmcsField (Some v') e =
       (if e = kVmcsFieldExitReason then Some (ucast (xr_reason x))
        else if e = kVmcsFieldExitQualification then Some (xr_qualification x)
        else if e = 0x440C then Some (ucast (xr_instruction_length x))
        else ReadNestedVmcsField (Some v) e))"
proof -
  note ok = nested_inv_slots [OF inv]
  obtain slot where s: "CurrentVmcs (Some v) = Some slot"
    using inv l2 by (auto simp: nested_inv_def)
  let ?f1 = "SetVmcsReadOnly kVmcsFieldExitReason (ucast (xr_reason x))"
  let ?f2 = "SetVmcsReadOnly kVmcsFieldExitQualification (xr_qualification x)"
  let ?f3 = "SetVmcsReadOnly 0x440C (ucast (xr_instruction_length x))"
  let ?v1 = "update_vmcs slot ?f1 v" and ?v2 = "update_vmcs slot ?f2 (update_vmcs slot ?f1 v)"
  let ?v3 = "update_vmcs slot ?f3 (update_vmcs slot ?f2 (update_vmcs slot ?f1 v))"
  note like = quiet_like [OF quiet_SetVmcsReadOnly]
  have ok1: "slots_ok (nv_vmcs ?v1)" by (rule slots_ok_update_quiet [OF ok quiet_SetVmcsReadOnly])
  have ok2: "slots_ok (nv_vmcs ?v2)" by (rule slots_ok_update_quiet [OF ok1 quiet_SetVmcsReadOnly])
  have c1: "CurrentVmcs (Some ?v1) = Some slot"
    using CurrentVmcs_like [where f = ?f1, OF ok like] s by simp
  have c2: "CurrentVmcs (Some ?v2) = Some slot"
    using CurrentVmcs_like [where f = ?f2, OF ok1 like] c1 by simp
  have c3: "CurrentVmcs (Some ?v3) = Some slot"
    using CurrentVmcs_like [where f = ?f3, OF ok2 like] c2 by simp
  have v3: "update_vmcs slot (\<lambda>vmcs. ?f3 (?f2 (?f1 vmcs))) v = ?v3"
    using CurrentVmcs_SomeD(2) [OF s ok] by (simp add: update_vmcs_twice)
  have rd: "ReadNestedVmcsField (Some ?v3) e =
       (if e = kVmcsFieldExitReason then Some (ucast (xr_reason x))
        else if e = kVmcsFieldExitQualification then Some (xr_qualification x)
        else if e = 0x440C then Some (ucast (xr_instruction_length x))
        else ReadNestedVmcsField (Some v) e)" for e
    by (simp add: read_set_readonly [OF ok2 c2 field_indices(20)]
        read_set_readonly [OF ok1 c1 field_indices(10)] read_set_readonly [OF ok s field_indices(9)]
        field_widths FieldMask_def ucast_low32)
  have "\<not> xr_size x < 40" "\<not> xr_size x > 104" "\<not> xr_instruction_length x > 15"
    using x by (simp_all add: not_less)
  then have "ReflectNestedExit (Some v) (Some x) =
     (MakeSuccess ReflectVmexit (xr_instruction_length x) 0,
      Some (?v3\<lparr>nv_l2_running := 0, nv_generation := nv_generation ?v3 + 1\<rparr>))"
    using l2 x(1) by (simp add: ReflectNestedExit_def s Let_def v3)
  then show ?thesis
    using rd c3 s by (auto simp: update_vmcs_read_frame)
qed

section \<open>What the entry checks mean\<close>

text \<open>A control word within its capability: no bit that is not allowed, every bit that is required.\<close>

definition control_within :: "u32 \<times> u32 \<Rightarrow> u64 \<Rightarrow> bool" where
  "control_within allowed x \<longleftrightarrow> (\<forall>k. bit x k \<longrightarrow> k < 32 \<and> bit (snd allowed) k) \<and>
     (\<forall>k<32. bit (fst allowed) k \<longrightarrow> bit (snd allowed) k \<longrightarrow> bit x k)"

definition fixed_bits_ok :: "u64 \<Rightarrow> u64 \<Rightarrow> u64 \<Rightarrow> bool" where
  "fixed_bits_ok fixed0 fixed1 x \<longleftrightarrow> (\<forall>k<64. bit fixed0 k \<longrightarrow> bit x k) \<and>
     (fixed1 \<noteq> 0 \<longrightarrow> (\<forall>k<64. bit x k \<longrightarrow> bit fixed1 k))"

definition address_width :: "u32 \<Rightarrow> nat" where
  "address_width bits = (if 48 \<le> bits \<and> bits \<le> 63 then unat bits else 48)"

definition sign_extended :: "nat \<Rightarrow> u64 \<Rightarrow> bool" where
  "sign_extended w x \<longleftrightarrow> (\<forall>k<64. w - 1 \<le> k \<longrightarrow> bit x k = bit x (w - 1))"

text \<open>The fields of a VMCS by encoding.\<close>

definition field_of :: "NestedVmcs12 \<Rightarrow> u32 \<Rightarrow> u64" where
  "field_of vmcs e = v12_fields vmcs ! FieldIndex (FindFieldRule e)"

lemma IsFixedCrValid_iff: "IsFixedCrValid x fixed0 fixed1 \<longleftrightarrow> fixed_bits_ok fixed0 fixed1 x"
proof -
  have "x AND fixed0 = fixed0 \<longleftrightarrow> (\<forall>k<64. bit fixed0 k \<longrightarrow> bit x k)"
    by (auto simp: bit_eq_iff bit_simps)
  moreover have "x AND NOT fixed1 = 0 \<longleftrightarrow> (\<forall>k<64. bit x k \<longrightarrow> bit fixed1 k)"
    by (auto simp: bit_eq_iff bit_simps)
  ultimately show ?thesis by (simp add: IsFixedCrValid_def fixed_bits_ok_def)
qed

lemma IsCanonicalAddress_iff:
  "IsCanonicalAddress x bits \<longleftrightarrow> sign_extended (address_width bits) x"
proof -
  define n where "n = address_width bits"
  have n: "48 \<le> n" "n \<le> 63"
    by (auto simp: n_def address_width_def word_le_nat_alt)
  let ?b = "if address_bits \<ge> 48 \<and> address_bits \<le> 63 then address_bits else (48 :: u32)"
  have b: "unat (if bits \<ge> 48 \<and> bits \<le> 63 then bits else 48) = n"
    by (simp add: n_def address_width_def)
  have b1: "unat ((if bits \<ge> 48 \<and> bits \<le> 63 then bits else 48) - 1) = n - 1"
    using b n by (subst unat_sub) (auto simp: word_le_nat_alt)
  have m: "push_bit n 1 - 1 = (mask n :: u64)" by (simp add: mask_eq_exp_minus_1)
  have sign: "x AND push_bit (n - 1) 1 = 0 \<longleftrightarrow> \<not> bit x (n - 1)"
    by (simp add: push_bit_eq_mult and_exp_eq_0_iff_not_bit)
  have up0: "x AND NOT (mask n) = 0 \<longleftrightarrow> (\<forall>k<64. n \<le> k \<longrightarrow> \<not> bit x k)"
    by (auto simp: bit_eq_iff bit_simps)
  have up1: "x AND NOT (mask n) = NOT (mask n) \<longleftrightarrow> (\<forall>k<64. n \<le> k \<longrightarrow> bit x k)"
    by (auto simp: bit_eq_iff bit_simps)
  have "IsCanonicalAddress x bits \<longleftrightarrow>
      (if bit x (n - 1) then \<forall>k<64. n \<le> k \<longrightarrow> bit x k else \<forall>k<64. n \<le> k \<longrightarrow> \<not> bit x k)"
    unfolding IsCanonicalAddress_def Let_def b b1 m sign up0 up1 by simp
  also have "\<dots> \<longleftrightarrow> (\<forall>k<64. n - 1 \<le> k \<longrightarrow> bit x k = bit x (n - 1))"
    using n by (auto simp: le_less Suc_le_eq)
  finally show ?thesis by (simp add: n_def sign_extended_def)
qed


definition physical_width :: "u32 \<Rightarrow> nat" where
  "physical_width bits = (if 1 \<le> bits \<and> bits \<le> 52 then unat bits else 48)"

lemma NestedIsPhysicalAddress_iff:
  "NestedIsPhysicalAddress x bits \<longleftrightarrow> unat x < 2 ^ physical_width bits"
  by (simp add: NestedIsPhysicalAddress_def Let_def physical_width_def drop_bit_eq_0_iff_unat if_distrib)

lemma IsAlignedPage_iff: "IsAlignedPage x \<longleftrightarrow> 4096 dvd unat x"
proof -
  have "x AND 4095 = take_bit 12 x" by (simp add: take_bit_eq_mask mask_eq_exp_minus_1)
  moreover have "take_bit 12 x = 0 \<longleftrightarrow> 4096 dvd unat x"
    by (simp add: word_unat_eq_iff unsigned_take_bit_eq take_bit_eq_mod dvd_eq_mod_eq_0 unat_mod)
  ultimately show ?thesis by (simp add: IsAlignedPage_def)
qed

lemma control_rules:
  "kFieldRules ! 7 = field_rule 0x4000 4 1 FieldControlPin 0 kMask32 0"
  "kFieldRules ! 8 = field_rule 0x4002 4 1 FieldControlPrimary 0 kMask32 0"
  "kFieldRules ! 10 = field_rule 0x400C 4 1 FieldControlExit 0 kMask32 0"
  "kFieldRules ! 11 = field_rule 0x4012 4 1 FieldControlEntry 0 kMask32 0"
  "kFieldRules ! 12 = field_rule 0x401E 4 1 FieldControlSecondary 0 kMask32 0"
  by (simp_all add: kFieldRules_def)

lemma control_word_iff:
  "x AND kMask32 = 0 \<and> (ucast x OR a0) AND a1 = (ucast x :: u32) \<longleftrightarrow> control_within (a0, a1) x"
proof -
  have m: "kMask32 = NOT (mask 32)" by (simp add: mask_eq_exp_minus_1)
  have hi: "x AND kMask32 = 0 \<longleftrightarrow> (\<forall>k. bit x k \<longrightarrow> k < 32)"
    unfolding m using bit_imp_le_length [of x] by (auto simp: bit_eq_iff bit_simps)
  have lo: "(ucast x OR a0) AND a1 = (ucast x :: u32) \<longleftrightarrow>
      (\<forall>k<32. (bit x k \<longrightarrow> bit a1 k) \<and> (bit a0 k \<longrightarrow> bit a1 k \<longrightarrow> bit x k))"
    by (auto simp: bit_eq_iff bit_simps)
  show ?thesis unfolding hi lo control_within_def by auto
qed

lemma ValidateControlValue_iff:
  "ValidateControlValue (Some v) 7 x \<longleftrightarrow>
     control_within (nc_pin_allowed0 (nv_capabilities v), nc_pin_allowed1 (nv_capabilities v)) x"
  "ValidateControlValue (Some v) 8 x \<longleftrightarrow>
     control_within (nc_primary_allowed0 (nv_capabilities v), nc_primary_allowed1 (nv_capabilities v)) x"
  "ValidateControlValue (Some v) 12 x \<longleftrightarrow>
     control_within (nc_secondary_allowed0 (nv_capabilities v), nc_secondary_allowed1 (nv_capabilities v)) x"
  "ValidateControlValue (Some v) 10 x \<longleftrightarrow>
     control_within (nc_exit_allowed0 (nv_capabilities v), nc_exit_allowed1 (nv_capabilities v)) x"
  "ValidateControlValue (Some v) 11 x \<longleftrightarrow>
     control_within (nc_entry_allowed0 (nv_capabilities v), nc_entry_allowed1 (nv_capabilities v)) x"
  by (simp_all add: ValidateControlValue_def Let_def control_rules control_allowed_def
      control_word_iff [symmetric] conj_commute)

text \<open>The state an L2 guest may be entered with, field by field.\<close>

definition entry_state_ok :: "NestedCapabilities \<Rightarrow> (u32 \<Rightarrow> u64) \<Rightarrow> bool" where
  "entry_state_ok c f \<longleftrightarrow>
     control_within (nc_pin_allowed0 c, nc_pin_allowed1 c) (f kVmcsFieldPinControls) \<and>
     control_within (nc_primary_allowed0 c, nc_primary_allowed1 c) (f kVmcsFieldPrimaryControls) \<and>
     control_within (nc_secondary_allowed0 c, nc_secondary_allowed1 c) (f kVmcsFieldSecondaryControls) \<and>
     control_within (nc_exit_allowed0 c, nc_exit_allowed1 c) (f kVmcsFieldExitControls) \<and>
     control_within (nc_entry_allowed0 c, nc_entry_allowed1 c) (f kVmcsFieldEntryControls) \<and>
     (f kVmcsFieldSecondaryControls \<noteq> 0 \<longrightarrow> bit (f kVmcsFieldPrimaryControls) 31) \<and>
     (\<forall>e\<in>{kVmcsFieldGuestCr0, kVmcsFieldHostCr0}. fixed_bits_ok (nc_cr0_fixed0 c) (nc_cr0_fixed1 c) (f e)) \<and>
     (\<forall>e\<in>{kVmcsFieldGuestCr4, kVmcsFieldHostCr4}. fixed_bits_ok (nc_cr4_fixed0 c) (nc_cr4_fixed1 c) (f e)) \<and>
     (\<forall>e\<in>{kVmcsFieldGuestRip, kVmcsFieldGuestRsp, kVmcsFieldHostRip, kVmcsFieldHostRsp}.
        sign_extended (address_width (nc_linear_address_bits c)) (f e)) \<and>
     bit (f kVmcsFieldGuestRflags) 1 \<and>
     (bit (f kVmcsFieldSecondaryControls) 1 \<longrightarrow> bit (nc_feature_bits c) 1 \<and>
        4096 dvd unat (f kVmcsFieldEptPointer) \<and>
        unat (f kVmcsFieldEptPointer) < 2 ^ physical_width (nc_max_physical_address_bits c)) \<and>
     (bit (f kVmcsFieldSecondaryControls) 5 \<longrightarrow> bit (nc_feature_bits c) 2 \<and>
        f kVmcsFieldVpid \<noteq> 0 \<and> unat (f kVmcsFieldVpid) \<le> unat (nc_vpid_count c)) \<and>
     (bit (f kVmcsFieldSecondaryControls) 13 \<longrightarrow> bit (nc_feature_bits c) 5)"

lemma flag_bit:
  "x AND 2 = 0 \<longleftrightarrow> \<not> bit x 1" "x AND 4 = 0 \<longleftrightarrow> \<not> bit x 2" "x AND 32 = 0 \<longleftrightarrow> \<not> bit x 5"
  "x AND 0x2000 = 0 \<longleftrightarrow> \<not> bit x 13" "x AND 0x80000000 = 0 \<longleftrightarrow> \<not> bit x 31" for x :: u64
  using and_exp_eq_0_iff_not_bit [of x 1] and_exp_eq_0_iff_not_bit [of x 2]
    and_exp_eq_0_iff_not_bit [of x 5] and_exp_eq_0_iff_not_bit [of x 13]
    and_exp_eq_0_iff_not_bit [of x 31] by simp_all

lemma ValidateEntryState_iff:
  "ValidateEntryState (Some v) vmcs \<longleftrightarrow> entry_state_ok (nv_capabilities v) (field_of vmcs)"
proof -
  have vp: "y > ucast c \<longleftrightarrow> \<not> unat y \<le> unat c" for y :: u64 and c :: u32
    by (simp add: word_less_nat_alt not_le ucast_u32_u64_unat)
  have refuse: "(if a then False else b) \<longleftrightarrow> \<not> a \<and> b" for a b by simp
  have masks: "ucast kPrimaryActivateSecondary = (0x80000000 :: u64)"
    "ucast kNestedSecondaryEnableEpt = (2 :: u64)" "ucast kNestedSecondaryEnableVpid = (32 :: u64)"
    "ucast kNestedSecondaryEnableVmfunc = (0x2000 :: u64)" by simp_all
  have e: "ValidateEntryState (Some v) vmcs \<longleftrightarrow> entry_state_ok (nv_capabilities v)
      (\<lambda>e. v12_fields vmcs ! FieldIndex (FindFieldRule e))"
    unfolding ValidateEntryState_def entry_state_ok_def ReadStoredField_def Let_def
      field_indices option.case prod.case ValidateControlValue_iff IsFixedCrValid_iff
      IsCanonicalAddress_iff NestedIsPhysicalAddress_iff IsAlignedPage_iff vp masks flag_bit refuse
      ball_simps
    by argo
  then show ?thesis unfolding field_of_def .
qed

text \<open>
C10: ValidateEntryState decides exactly the bitwise entry-state specification: control words
within their capabilities, CR0 and CR4 with their fixed bits, canonical RIP and RSP of guest and
host, the reserved RFLAGS bit, and EPT pointer, VPID and VMFUNC only as the capabilities allow.
\<close>

theorem entry_validation_exact:
  "ValidateEntryState (Some v) vmcs \<longleftrightarrow> entry_state_ok (nv_capabilities v) (field_of vmcs)"
  by (rule ValidateEntryState_iff)

section \<open>A virtual CPU about to enter L2\<close>

definition sample_slot :: NestedVmcs12 where
  "sample_slot = zero_vmcs\<lparr>v12_allocated := 1, v12_region_gpa := 0x2000, v12_revision := 1,
     v12_state := VmcsActive, v12_fields := (replicate kNestedVmcsFields 0)[21 := 2]\<rparr>"

definition sample_vcpu :: "unit NestedVcpu" where
  "sample_vcpu = (InitializeNestedVcpu () None None)
     \<lparr>nv_vmxon_active := 1, nv_current_vmcs_gpa := 0x2000, nv_vmcs_count := 1,
      nv_vmcs := sample_slot # replicate 15 (zero_vmcs\<lparr>v12_revision := 1\<rparr>)\<rparr>"

definition sample_instruction :: "VmxOpcode \<Rightarrow> u32 \<Rightarrow> u64 \<Rightarrow> VmxInstruction" where
  "sample_instruction opcode encoding source = \<lparr>vi_version = 1, vi_size = 72, vi_opcode = VmxOpcode_u32 opcode,
     vi_instruction_length = 4, vi_flags = kInstructionOperandIsRegister, vi_descriptor_type = 0, vi_reserved = 0,
     vi_encoding = encoding, vi_reserved2 = 0, vi_linear_operand = 0, vi_destination = 0, vi_source = source,
     vi_descriptor = 0\<rparr>"

definition sample_exit :: NestedExitRecord where
  "sample_exit = \<lparr>xr_version = 1, xr_size = 40, xr_reason = 12, xr_instruction_length = 2,
     xr_qualification = 5, xr_guest_linear = 0, xr_guest_physical = 0\<rparr>"

lemma sample_instruction_valid:
  "InstructionIsValid (sample_instruction opcode encoding source)"
  "InstructionLength (sample_instruction opcode encoding source) = 4"
  "vi_opcode (sample_instruction opcode encoding source) = VmxOpcode_u32 opcode"
  "vi_flags (sample_instruction opcode encoding source) = kInstructionOperandIsRegister"
  "vi_encoding (sample_instruction opcode encoding source) = encoding"
  "vi_source (sample_instruction opcode encoding source) = source"
  by (simp_all add: InstructionIsValid_def sample_instruction_def InstructionLength_def)

lemma sample_slot_fields: "fields_ok sample_slot"
proof -
  have "fr_width (kFieldRules ! 21) = 8" by (simp add: kFieldRules_def)
  then show ?thesis
    by (auto simp: fields_ok_def sample_slot_def zero_vmcs_def nth_list_update FieldMask_def)
qed

lemma sample_current: "CurrentVmcs (Some sample_vcpu) = Some 0"
  by (simp add: CurrentVmcs_alt sample_vcpu_def sample_slot_def)

lemma sample_slots: "nv_vmcs sample_vcpu ! i = (if i = 0 then sample_slot else zero_vmcs\<lparr>v12_revision := 1\<rparr>)"
  if "i < 16"
  using that by (simp add: sample_vcpu_def nth_Cons')

lemma sample_inv: "nested_inv sample_vcpu"
proof -
  have used: "{i. i < 16 \<and> slot_used (nv_vmcs sample_vcpu ! i)} = {0}"
    by (auto simp: sample_slots sample_slot_def zero_vmcs_def split: if_splits)
  have len: "length (nv_vmcs sample_vcpu) = 16" by (simp add: sample_vcpu_def)
  have zero_fields: "fields_ok (zero_vmcs\<lparr>v12_revision := 1\<rparr>)" by (simp add: fields_ok_def zero_vmcs_def)
  have "slots_ok (nv_vmcs sample_vcpu)"
    unfolding slots_ok_def
    using len sample_slot_fields zero_fields
    by (auto simp: sample_slots) (auto simp: zero_vmcs_def sample_slot_def IsAlignedPage_def split: if_splits)
  then show ?thesis
    using len used sample_current
    by (simp add: nested_inv_def slots_used_def sample_slots sample_slot_def) (simp add: sample_vcpu_def InitializeNestedVcpu_def)
qed

lemma sample_vcpu_sel:
  "nv_vmxon_active sample_vcpu = 1" "nv_l2_running sample_vcpu = 0" "nv_current_vmcs_gpa sample_vcpu = 0x2000"
  "nv_capabilities sample_vcpu = InitializeCapabilitiesInternal"
  by (simp_all add: sample_vcpu_def InitializeNestedVcpu_def Let_def)

lemma sample_entry: "ValidateEntryState (Some sample_vcpu) sample_slot"
  unfolding ValidateEntryState_iff
  by (simp add: entry_state_ok_def field_of_def field_indices sample_slot_def InitializeCapabilitiesInternal_def
      control_within_def fixed_bits_ok_def sign_extended_def address_width_def zero_capabilities_def sample_vcpu_sel)

definition sample_running :: "unit NestedVcpu" where
  "sample_running = record_error 0 ((update_vmcs 0 (\<lambda>vmcs. vmcs\<lparr>v12_state := VmcsLaunched\<rparr>) sample_vcpu)\<lparr>nv_l2_running := 1\<rparr>)"

lemma sample_launch:
  "DispatchNestedInstruction (Some sample_vcpu) (Some (sample_instruction Vmlaunch 0 0)) =
     (MakeSuccess EnterL2 4 0, Some sample_running)"
proof -
  have on: "nv_vmxon_active sample_vcpu \<noteq> 0" by (simp add: sample_vcpu_sel)
  have st: "v12_state sample_slot = VmcsActive" by (simp add: sample_slot_def)
  have "EmulateVmEntry sample_vcpu (sample_instruction Vmlaunch 0 0) True = (MakeSuccess EnterL2 4 0, sample_running)"
    unfolding EmulateVmEntry_def
    by (simp add: sample_current sample_slots st sample_entry sample_instruction_valid sample_vcpu_sel
        sample_running_def ClearVmInstructionError_record)
  then show ?thesis
    using dispatch_active(4) [OF sample_instruction_valid(1) on sample_instruction_valid(3)] by simp
qed

lemma sample_running_inv: "nested_inv sample_running"
  by (rule DispatchNestedInstruction_inv [OF sample_launch sample_inv])

lemma sample_running_l2: "nv_l2_running sample_running = 1"
  by (simp add: sample_running_def record_error_sel)

definition sample_boot :: "unit NestedVcpu" where
  "sample_boot = InitializeNestedVcpu () None None"

lemma sample_boot_run:
  "nested_step\<^sup>*\<^sup>* sample_boot (sample_boot\<lparr>nv_memory := nv_memory sample_boot, nv_vmxe_enabled := 1\<rparr>)"
  by (rule r_into_rtranclp, rule step_client)

theorem nested_reachable_invariant_witness: "nested_inv (sample_boot\<lparr>nv_vmxe_enabled := 1\<rparr>)"
  using nested_reachable_invariant [OF sample_boot_run [unfolded sample_boot_def]]
  by (simp add: sample_boot_def)

theorem vmx_off_inert_witness:
  "snd (DispatchNestedInstruction (Some sample_boot) (Some (sample_instruction Vmread 0 0))) = Some sample_boot"
  using vmx_off_inert [of sample_boot "sample_instruction Vmread 0 0"]
  by (simp add: sample_boot_def InitializeNestedVcpu_def Let_def sample_instruction_valid)

theorem vm_entry_validated_witness:
  "ValidateEntryState (Some sample_vcpu) (nv_vmcs sample_vcpu ! 0) \<and> nv_l2_running sample_running = 1"
  using vm_entry_validated [OF sample_inv sample_launch] sample_current by (auto simp: result_sel)

theorem nested_exit_reflected_witness:
  "\<exists>v'. ReflectNestedExit (Some sample_running) (Some sample_exit) = (MakeSuccess ReflectVmexit 2 0, Some v') \<and>
     ReadNestedVmcsField (Some v') kVmcsFieldExitReason = Some 12"
  using nested_exit_reflected [OF sample_running_inv, of sample_exit]
  by (auto simp: sample_running_l2 sample_exit_def)

lemma sample_write:
  "\<exists>v'. DispatchNestedInstruction (Some sample_vcpu) (Some (sample_instruction Vmwrite kVmcsFieldGuestRip 0x1000)) =
     (MakeSuccess ResumeL1 4 0, Some v')"
proof -
  have on: "nv_vmxon_active sample_vcpu \<noteq> 0" by (simp add: sample_vcpu_sel)
  have "\<exists>v'. EmulateVmwrite sample_vcpu (sample_instruction Vmwrite kVmcsFieldGuestRip 0x1000) =
     (MakeSuccess ResumeL1 4 0, v')"
    unfolding EmulateVmwrite_def WriteNestedVmcsField_def
    by (simp add: sample_current sample_instruction_valid sample_vcpu_sel field_indices kFieldRules_def
        ValidateControlValue_def control_allowed_def Let_def FieldMask_def)
  then show ?thesis
    using dispatch_active(2) [OF sample_instruction_valid(1) on sample_instruction_valid(3)] by auto
qed

theorem vmwrite_then_vmread_witness:
  "\<exists>v'. DispatchNestedInstruction (Some sample_vcpu)
       (Some (sample_instruction Vmwrite kVmcsFieldGuestRip 0x1000)) = (MakeSuccess ResumeL1 4 0, Some v') \<and>
     fst (DispatchNestedInstruction (Some v') (Some (sample_instruction Vmread kVmcsFieldGuestRip 0))) =
     MakeSuccess ResumeL1 4 0x1000"
proof -
  obtain v' where w: "DispatchNestedInstruction (Some sample_vcpu)
      (Some (sample_instruction Vmwrite kVmcsFieldGuestRip 0x1000)) = (MakeSuccess ResumeL1 4 0, Some v')"
    using sample_write by blast
  from vmwrite_then_vmread [OF sample_inv sample_instruction_valid(1) sample_instruction_valid(3) w,
      of "sample_instruction Vmread kVmcsFieldGuestRip 0"]
  show ?thesis using w by (auto simp: sample_instruction_valid result_sel)
qed

lemma sample_resume:
  "\<exists>v'. DispatchNestedInstruction (Some sample_vcpu) (Some (sample_instruction Vmresume 0 0)) =
     (MakeResult VmfailValid ResumeL1 5 4 kRflagsZero 0, Some v')"
proof -
  have on: "nv_vmxon_active sample_vcpu \<noteq> 0" by (simp add: sample_vcpu_sel)
  have "\<exists>v'. EmulateVmEntry sample_vcpu (sample_instruction Vmresume 0 0) False =
     (MakeResult VmfailValid ResumeL1 5 4 kRflagsZero 0, v')"
    unfolding EmulateVmEntry_def
    by (simp add: sample_current sample_slots sample_slot_def sample_instruction_valid MakeVmfail_alt)
  then show ?thesis
    using dispatch_active(5) [OF sample_instruction_valid(1) on sample_instruction_valid(3)] by auto
qed

theorem nested_failure_frame_witness:
  "\<exists>v'. DispatchNestedInstruction (Some sample_vcpu) (Some (sample_instruction Vmresume 0 0)) =
     (MakeResult VmfailValid ResumeL1 5 4 kRflagsZero 0, Some v') \<and>
     ReadNestedVmcsField (Some v') kVmcsFieldInstructionError = Some 5"
proof -
  obtain v' where w: "DispatchNestedInstruction (Some sample_vcpu) (Some (sample_instruction Vmresume 0 0)) =
     (MakeResult VmfailValid ResumeL1 5 4 kRflagsZero 0, Some v')"
    using sample_resume by blast
  from nested_failure_frame [OF sample_inv w] show ?thesis
    using w by (auto simp: result_sel sample_current)
qed

section \<open>VMPTRLD and the launch state\<close>

lemma vmptrld_success:
  assumes inv: "nested_inv v" and on: "nv_vmxon_active v \<noteq> 0"
    and e: "EmulateVmptrld v i = (r, v')" and ok: "nr_status r = Success"
  shows "nv_vmxon_active v' \<noteq> 0 \<and>
    (\<exists>slot. CurrentVmcs (Some v') = Some slot \<and> v12_state (nv_vmcs v' ! slot) = VmcsActive)"
proof -
  obtain reg w where r: "ValidateVmxRegion v (vi_linear_operand i) = (reg, w)" by fastforce
  then obtain m where m: "w = v\<lparr>nv_memory := m\<rparr>" using ValidateVmxRegion_frame by blast
  then have w: "nested_inv w" "nv_vmxon_active w \<noteq> 0" using inv on by simp_all
  obtain region where reg: "reg = Some region"
    using e ok by (cases reg) (auto simp: EmulateVmptrld_def r Let_def MakeVmfail_alt result_sel)
  obtain s x where al: "AllocateVmcs w region = (Some s, x)"
    and v': "v' = record_error 0 ((update_vmcs s (\<lambda>vmcs. vmcs\<lparr>v12_state := VmcsActive\<rparr>) x)\<lparr>nv_current_vmcs_gpa := region\<rparr>)"
    using e ok
    by (auto simp: EmulateVmptrld_def r reg Let_def MakeVmfail_alt result_sel ClearVmInstructionError_record
        split: option.splits prod.splits if_splits)
  have al': "IsAlignedPage region" using ValidateVmxRegion_region(1) r reg by blast
  note A = AllocateVmcs_spec [OF al w(1) al']
  note okx = nested_inv_slots [OF A(1)]
  let ?y = "(update_vmcs s (\<lambda>vmcs. vmcs\<lparr>v12_state := VmcsActive\<rparr>) x)\<lparr>nv_current_vmcs_gpa := region\<rparr>"
  have s: "s < length (nv_vmcs x)"
    using A(2) slots_ok_length [OF okx] by (simp add: find_vmcs_iff [OF okx])
  have sy: "slots_ok (nv_vmcs ?y)" using slots_ok_like [OF okx quiet_like [OF quiet_state]] by simp
  have cur: "CurrentVmcs (Some ?y) = Some s"
    using A(2) find_vmcs_like [OF okx quiet_like [OF quiet_state]] aligned_not_ones [OF al']
    by (simp add: CurrentVmcs_alt)
  have "CurrentVmcs (Some v') = Some s" unfolding v' using CurrentVmcs_record_error [OF sy] cur by simp
  moreover have "v12_state (nv_vmcs v' ! s) = VmcsActive"
    unfolding v' record_error_state [OF sy cur] using s by simp
  moreover have "nv_vmxon_active v' \<noteq> 0" unfolding v' using A(5) w(2) by (simp add: nv_vmxon_active_record_error)
  ultimately show ?thesis by blast
qed

theorem vmptrld_forgets_launch:
  assumes "nested_inv v"
    and ld: "InstructionIsValid ld" "vi_opcode ld = VmxOpcode_u32 Vmptrld"
      "DispatchNestedInstruction (Some v) (Some ld) = (r, Some v')" "nr_status r = Success"
    and rs: "InstructionIsValid rs" "vi_opcode rs = VmxOpcode_u32 Vmresume"
  shows "fst (DispatchNestedInstruction (Some v') (Some rs)) =
    MakeResult VmfailValid ResumeL1 kErrorVmresumeNonlaunched (InstructionLength rs) kRflagsZero 0"
proof -
  have on: "nv_vmxon_active v \<noteq> 0" using dispatch_inactive [OF ld(1), of v] ld by auto
  have e: "EmulateVmptrld v ld = (r, v')"
    using ld(3) unfolding dispatch_active(3) [OF ld(1) on ld(2)] by (cases "EmulateVmptrld v ld") simp
  obtain slot where on': "nv_vmxon_active v' \<noteq> 0" and s: "CurrentVmcs (Some v') = Some slot"
    "v12_state (nv_vmcs v' ! slot) = VmcsActive"
    using vmptrld_success [OF assms(1) on e ld(4)] by blast
  show ?thesis
    unfolding dispatch_active(5) [OF rs(1) on' rs(2)]
    using s by (simp add: EmulateVmEntry_def MakeVmfail_alt)
qed

end
