(* ===== verification/ProviderModel.thy ===== *)
theory ProviderModel
  imports KnhvAbi
begin

text \<open>
  Selection of a virtualization provider, versions 1 and 2 of the contract:
  \<^verbatim>\<open>src/src/provider/provider_selection.cpp\<close>, \<^verbatim>\<open>src/src/provider/provider_v2.cpp\<close> and the
  structures of \<^verbatim>\<open>src/src/include/knhv_abi.h\<close> they use. Modes, owner kinds and states that
  arrive in structures are kept as the integers of the wire format.
\<close>

section \<open>Constants and enumerations\<close>

abbreviation kFlagOuterL0Active :: u32 where "kFlagOuterL0Active \<equiv> 1"
abbreviation kFlagNativeVmxReady :: u32 where "kFlagNativeVmxReady \<equiv> 2"
abbreviation kFlagBootHandoffVerified :: u32 where "kFlagBootHandoffVerified \<equiv> 4"
abbreviation kFlagKnhvBootL0Active :: u32 where "kFlagKnhvBootL0Active \<equiv> 8"
abbreviation kFlagNestedVmx :: u32 where "kFlagNestedVmx \<equiv> 16"
abbreviation kFlagWhpPartition :: u32 where "kFlagWhpPartition \<equiv> 32"
abbreviation kFlagSyntheticSnapshot :: u32 where "kFlagSyntheticSnapshot \<equiv> 64"
abbreviation kKnownStatusFlagMask :: u32 where "kKnownStatusFlagMask \<equiv>
  kFlagOuterL0Active OR kFlagNativeVmxReady OR kFlagBootHandoffVerified OR kFlagKnhvBootL0Active OR
  kFlagNestedVmx OR kFlagWhpPartition OR kFlagSyntheticSnapshot"
abbreviation kPolicyExclusiveOwner :: u64 where "kPolicyExclusiveOwner \<equiv> 1"
abbreviation kPolicyWindowsHandoff :: u64 where "kPolicyWindowsHandoff \<equiv> 2"
abbreviation kPolicyNoPhysicalDma :: u64 where "kPolicyNoPhysicalDma \<equiv> 4"
abbreviation kPolicySyntheticOnly :: u64 where "kPolicySyntheticOnly \<equiv> 8"
abbreviation kKnownPolicyFeatureMask :: u64 where "kKnownPolicyFeatureMask \<equiv> 15"
abbreviation kRequestFlagRequireExclusive :: u32 where "kRequestFlagRequireExclusive \<equiv> 1"
abbreviation kRequestFlagReadOnly :: u32 where "kRequestFlagReadOnly \<equiv> 2"
abbreviation kKnownV2RequestFlagMask :: u32 where "kKnownV2RequestFlagMask \<equiv> 3"
abbreviation kLeaseFlagExclusive :: u32 where "kLeaseFlagExclusive \<equiv> 1"
abbreviation kLeaseFlagSynthetic :: u32 where "kLeaseFlagSynthetic \<equiv> 2"
abbreviation kLeaseFlagReadOnly :: u32 where "kLeaseFlagReadOnly \<equiv> 4"
abbreviation kKnownV2LeaseFlagMask :: u32 where "kKnownV2LeaseFlagMask \<equiv> 7"
abbreviation kV2HardwareFeatureMask :: u64 where "kV2HardwareFeatureMask \<equiv>
  kCapVmx OR kCapEpt OR kCapVpid OR kCapIommu OR kCapVirtualApic OR kCapTscContract"
abbreviation kV2ProviderFeatureMask :: u64 where "kV2ProviderFeatureMask \<equiv>
  kCapNestedVmx OR kCapEnlightenedVmcs OR kCapVirtualTlbFlush OR kCapWhpPartition OR kCapBootL0"

datatype HvProviderKind = ProviderNone | ProviderBootL0Interposer | ProviderCooperativeL1
  | ProviderKnownLegacyAdapter | ProviderLoadOnly | ProviderExternalL0Fallback | ProviderWhpClient
  | ProviderNativeExclusiveBaseline

fun HvProviderKind_u32 :: "HvProviderKind \<Rightarrow> u32" where
  "HvProviderKind_u32 ProviderNone = 0"
| "HvProviderKind_u32 ProviderBootL0Interposer = 1"
| "HvProviderKind_u32 ProviderCooperativeL1 = 2"
| "HvProviderKind_u32 ProviderKnownLegacyAdapter = 3"
| "HvProviderKind_u32 ProviderLoadOnly = 4"
| "HvProviderKind_u32 ProviderExternalL0Fallback = 5"
| "HvProviderKind_u32 ProviderWhpClient = 6"
| "HvProviderKind_u32 ProviderNativeExclusiveBaseline = 7"

datatype HvMode = ModeBootL0Interposer | ModeCooperativeL1 | ModeKnownLegacyCompat | ModeLoadOnly
  | ModeExternalL0Fallback | ModeNativeExclusiveBaseline | ModeWhpClient

fun HvMode_u32 :: "HvMode \<Rightarrow> u32" where
  "HvMode_u32 ModeBootL0Interposer = 1"
| "HvMode_u32 ModeCooperativeL1 = 2"
| "HvMode_u32 ModeKnownLegacyCompat = 3"
| "HvMode_u32 ModeLoadOnly = 4"
| "HvMode_u32 ModeExternalL0Fallback = 5"
| "HvMode_u32 ModeNativeExclusiveBaseline = 6"
| "HvMode_u32 ModeWhpClient = 7"

datatype HvOwnerKindV2 = OwnerUnknown | OwnerExternalL0 | OwnerKnhvBootL0 | OwnerWhpManaged
  | OwnerSyntheticLab

fun HvOwnerKindV2_u32 :: "HvOwnerKindV2 \<Rightarrow> u32" where
  "HvOwnerKindV2_u32 OwnerUnknown = 0"
| "HvOwnerKindV2_u32 OwnerExternalL0 = 1"
| "HvOwnerKindV2_u32 OwnerKnhvBootL0 = 2"
| "HvOwnerKindV2_u32 OwnerWhpManaged = 3"
| "HvOwnerKindV2_u32 OwnerSyntheticLab = 4"

datatype HvProviderStateV2 = StateUnknown | StateAvailable | StateActive | StateConflict
  | StateBlocked | StateQuarantined

fun HvProviderStateV2_u32 :: "HvProviderStateV2 \<Rightarrow> u32" where
  "HvProviderStateV2_u32 StateUnknown = 0"
| "HvProviderStateV2_u32 StateAvailable = 1"
| "HvProviderStateV2_u32 StateActive = 2"
| "HvProviderStateV2_u32 StateConflict = 3"
| "HvProviderStateV2_u32 StateBlocked = 4"
| "HvProviderStateV2_u32 StateQuarantined = 5"

datatype HvLeaseModeV2 = LeaseNone | LeaseHardwareL0 | LeaseWhpManaged | LeaseSyntheticLab

fun HvLeaseModeV2_u32 :: "HvLeaseModeV2 \<Rightarrow> u32" where
  "HvLeaseModeV2_u32 LeaseNone = 0"
| "HvLeaseModeV2_u32 LeaseHardwareL0 = 1"
| "HvLeaseModeV2_u32 LeaseWhpManaged = 2"
| "HvLeaseModeV2_u32 LeaseSyntheticLab = 3"

section \<open>Structures\<close>

record HvCapabilitySnapshot =
  cap_version :: u32
  cap_size :: u32
  cap_feature_bits :: u64
  cap_max_physical_address_bits :: u32
  cap_e_vmcs_version :: u32
  cap_whp_api_version :: u32
  cap_hypervisor_vendor_length :: u32
  cap_status_flags :: u32
  cap_boot_generation :: u32
  cap_owner_generation :: u32
  cap_feature_hash :: u64

record HvProviderRequest =
  pr_version :: u32
  pr_size :: u32
  pr_mode :: u32
  pr_identity_verified :: u32
  pr_legacy_manifest_match :: u32
  pr_reserved :: u32
  pr_requested_features :: u64

record HvCapabilitySnapshotV2 =
  c2_size :: u32
  c2_version :: u32
  c2_hardware_features :: u64
  c2_provider_features :: u64
  c2_policy_features :: u64
  c2_owner_kind :: u32
  c2_state :: u32
  c2_generation :: u64

record HvOwnerLeaseV2 =
  l2_size :: u32
  l2_version :: u32
  l2_owner_id :: u64
  l2_generation :: u64
  l2_mode :: u32
  l2_flags :: u32

record HvProviderRequestV2 =
  q2_size :: u32
  q2_version :: u32
  q2_request_id :: u64
  q2_session :: HvSessionKey
  q2_required_hardware_features :: u64
  q2_required_provider_features :: u64
  q2_required_policy_features :: u64
  q2_mode :: u32
  q2_flags :: u32

record HvProviderResponseV2 =
  r2_size :: u32
  r2_version :: u32
  r2_request_id :: u64
  r2_status :: HvStatus
  r2_provider :: HvProviderKind
  r2_capabilities :: HvCapabilitySnapshotV2
  r2_lease :: HvOwnerLeaseV2

section \<open>Version 1\<close>

definition RequestIsValid :: "HvProviderRequest option \<Rightarrow> bool" where
  "RequestIsValid request = (case request of None \<Rightarrow> False | Some r \<Rightarrow>
     if \<not> IsVersionedBufferValid (pr_version r) (pr_size r) 32 then False else pr_reserved r = 0)"

definition SnapshotIsValid :: "HvCapabilitySnapshot option \<Rightarrow> bool" where
  "SnapshotIsValid capabilities = (case capabilities of None \<Rightarrow> False | Some c \<Rightarrow>
     if \<not> IsVersionedBufferValid (cap_version c) (cap_size c) 56 then False
     else if cap_hypervisor_vendor_length c > 12 \<or>
             cap_feature_bits c AND NOT kKnownCapabilityMask \<noteq> 0 \<or>
             cap_status_flags c AND NOT kKnownStatusFlagMask \<noteq> 0 \<or>
             cap_max_physical_address_bits c = 0 \<or> cap_max_physical_address_bits c > 52 then False
     else let flags = cap_status_flags c; features = cap_feature_bits c
     in if flags AND kFlagOuterL0Active \<noteq> 0 \<and> flags AND kFlagKnhvBootL0Active \<noteq> 0 then False
        else if flags AND (kFlagBootHandoffVerified OR kFlagKnhvBootL0Active) \<noteq> 0 \<and>
                features AND kCapBootL0 = 0 then False
        else if flags AND (kFlagNestedVmx OR kFlagSyntheticSnapshot) \<noteq> 0 \<and>
                features AND kCapNestedVmx = 0 then False
        else if flags AND kFlagWhpPartition \<noteq> 0 \<and> features AND kCapWhpPartition = 0 then False
        else if flags AND kFlagNativeVmxReady \<noteq> 0 \<and> features AND kCapVmx = 0 then False
        else cap_e_vmcs_version c = 0 \<or> features AND kCapEnlightenedVmcs \<noteq> 0)"

definition HasFlag :: "HvCapabilitySnapshot \<Rightarrow> u32 \<Rightarrow> bool" where
  "HasFlag c flag \<longleftrightarrow> cap_status_flags c AND flag \<noteq> 0"

definition HasFeature :: "HvCapabilitySnapshot \<Rightarrow> u64 \<Rightarrow> bool" where
  "HasFeature c feature \<longleftrightarrow> cap_feature_bits c AND feature \<noteq> 0"

text \<open>
  The result is the status and what the selection pointer refers to afterwards; a null selection
  pointer is \<open>None\<close>.
\<close>

definition SelectProvider ::
  "HvProviderRequest option \<Rightarrow> HvCapabilitySnapshot option \<Rightarrow> HvProviderKind option \<Rightarrow>
   HvStatus \<times> HvProviderKind option" where
  "SelectProvider request capabilities selected = (case (request, capabilities, selected) of
     (Some r, Some c, Some _) \<Rightarrow>
       if \<not> RequestIsValid request \<or> \<not> SnapshotIsValid capabilities then (InvalidParameter, selected)
       else let none = Some ProviderNone;
                outer_l0 = HasFlag c kFlagOuterL0Active;
                native_ready = HasFlag c kFlagNativeVmxReady;
                boot_verified = HasFlag c kFlagBootHandoffVerified;
                knhv_l0 = HasFlag c kFlagKnhvBootL0Active;
                synthetic = HasFlag c kFlagSyntheticSnapshot;
                nested_vmx = (HasFlag c kFlagNestedVmx \<and> HasFeature c kCapNestedVmx);
                whp_partition = (HasFlag c kFlagWhpPartition \<and> HasFeature c kCapWhpPartition);
                missing = (pr_requested_features r AND NOT (cap_feature_bits c) \<noteq> 0)
       in if pr_mode r = HvMode_u32 ModeBootL0Interposer then
            (if outer_l0 then (HardwareOwnerConflict, none)
             else if \<not> native_ready then (HardwareUnsupported, none)
             else if \<not> boot_verified then (BootHandoffFailed, none)
             else if missing then (CapabilityMismatch, none)
             else (Success, Some ProviderBootL0Interposer))
          else if pr_mode r = HvMode_u32 ModeCooperativeL1 then
            (if (\<not> knhv_l0 \<and> \<not> synthetic) \<or> \<not> nested_vmx \<or> pr_identity_verified r = 0
             then (NestedUnavailable, none)
             else if missing then (CapabilityMismatch, none)
             else (Success, Some ProviderCooperativeL1))
          else if pr_mode r = HvMode_u32 ModeKnownLegacyCompat then
            (if \<not> knhv_l0 \<or> \<not> nested_vmx \<or> pr_legacy_manifest_match r = 0
             then (LoadOnly, Some ProviderLoadOnly)
             else (Success, Some ProviderKnownLegacyAdapter))
          else if pr_mode r = HvMode_u32 ModeLoadOnly then (LoadOnly, Some ProviderLoadOnly)
          else if pr_mode r = HvMode_u32 ModeExternalL0Fallback then
            (if \<not> outer_l0 \<or> \<not> whp_partition then (UnsupportedMode, none)
             else (Success, Some ProviderExternalL0Fallback))
          else if pr_mode r = HvMode_u32 ModeNativeExclusiveBaseline then
            (if outer_l0 \<or> \<not> native_ready then (HardwareOwnerConflict, none)
             else (Success, Some ProviderNativeExclusiveBaseline))
          else if pr_mode r = HvMode_u32 ModeWhpClient then
            (if \<not> whp_partition then (NestedUnavailable, none)
             else (Success, Some ProviderWhpClient))
          else (UnsupportedMode, none)
   | _ \<Rightarrow> (InvalidParameter, selected))"

definition MakeFallbackCapabilitySnapshot :: "bool \<Rightarrow> bool \<Rightarrow> HvCapabilitySnapshot" where
  "MakeFallbackCapabilitySnapshot outer_l0_active whp_available =
     \<lparr>cap_version = kAbiVersion, cap_size = 56,
      cap_feature_bits = (if whp_available then kCapVmx OR kCapWhpPartition else kCapVmx),
      cap_max_physical_address_bits = 48, cap_e_vmcs_version = 0,
      cap_whp_api_version = (if whp_available then 1 else 0), cap_hypervisor_vendor_length = 0,
      cap_status_flags = (if outer_l0_active then kFlagOuterL0Active else 0) OR
                         (if whp_available then kFlagWhpPartition else 0),
      cap_boot_generation = 0, cap_owner_generation = 0, cap_feature_hash = 0\<rparr>"

section \<open>Version 2\<close>

definition IsOwnerKindValid :: "u32 \<Rightarrow> bool" where
  "IsOwnerKindValid value \<longleftrightarrow> value \<in> set (map HvOwnerKindV2_u32
     [OwnerUnknown, OwnerExternalL0, OwnerKnhvBootL0, OwnerWhpManaged, OwnerSyntheticLab])"

definition IsProviderStateValid :: "u32 \<Rightarrow> bool" where
  "IsProviderStateValid value \<longleftrightarrow> value \<in> set (map HvProviderStateV2_u32
     [StateUnknown, StateAvailable, StateActive, StateConflict, StateBlocked, StateQuarantined])"

definition IsLeaseModeValid :: "u32 \<Rightarrow> bool" where
  "IsLeaseModeValid value \<longleftrightarrow> value \<in> set (map HvLeaseModeV2_u32
     [LeaseNone, LeaseHardwareL0, LeaseWhpManaged, LeaseSyntheticLab])"

definition IsRequestModeValid :: "u32 \<Rightarrow> bool" where
  "IsRequestModeValid value \<longleftrightarrow> IsLeaseModeValid value \<and> value \<noteq> HvLeaseModeV2_u32 LeaseNone"

definition RequiredFeaturesKnown :: "HvProviderRequestV2 option \<Rightarrow> bool" where
  "RequiredFeaturesKnown request = (case request of None \<Rightarrow> False | Some r \<Rightarrow>
     q2_required_hardware_features r AND NOT kV2HardwareFeatureMask = 0 \<and>
     q2_required_provider_features r AND NOT kV2ProviderFeatureMask = 0 \<and>
     q2_required_policy_features r AND NOT kKnownPolicyFeatureMask = 0)"

definition RequestV2Valid :: "HvProviderRequestV2 option \<Rightarrow> bool" where
  "RequestV2Valid request = (case request of None \<Rightarrow> False | Some r \<Rightarrow>
     IsAbiV2BufferValid (q2_version r) (q2_size r) 64 \<and>
     sk_reserved (q2_session r) = 0 \<and> q2_flags r AND NOT kKnownV2RequestFlagMask = 0 \<and>
     IsRequestModeValid (q2_mode r) \<and> RequiredFeaturesKnown request)"

definition CapabilityGeneration :: "HvCapabilitySnapshot option \<Rightarrow> u64" where
  "CapabilityGeneration capabilities = (case capabilities of None \<Rightarrow> 0 | Some c \<Rightarrow>
     if cap_owner_generation c \<noteq> 0 then ucast (cap_owner_generation c)
     else ucast (cap_boot_generation c))"

definition SetLease :: "u64 \<Rightarrow> u64 \<Rightarrow> u32 \<Rightarrow> u32 \<Rightarrow> HvOwnerLeaseV2" where
  "SetLease owner_id generation mode flags =
     \<lparr>l2_size = 32, l2_version = kAbiV2Version, l2_owner_id = owner_id, l2_generation = generation,
      l2_mode = mode, l2_flags = flags\<rparr>"

definition HasRequiredFeatures :: "HvProviderRequestV2 \<Rightarrow> HvCapabilitySnapshotV2 \<Rightarrow> bool" where
  "HasRequiredFeatures r c \<longleftrightarrow>
     q2_required_hardware_features r AND NOT (c2_hardware_features c) = 0 \<and>
     q2_required_provider_features r AND NOT (c2_provider_features c) = 0 \<and>
     q2_required_policy_features r AND NOT (c2_policy_features c) = 0"

definition zero_snapshot2 :: HvCapabilitySnapshotV2 where
  "zero_snapshot2 = \<lparr>c2_size = 0, c2_version = 0, c2_hardware_features = 0, c2_provider_features = 0,
     c2_policy_features = 0, c2_owner_kind = 0, c2_state = 0, c2_generation = 0\<rparr>"

definition zero_lease2 :: HvOwnerLeaseV2 where
  "zero_lease2 = \<lparr>l2_size = 0, l2_version = 0, l2_owner_id = 0, l2_generation = 0, l2_mode = 0,
     l2_flags = 0\<rparr>"

text \<open>Owner kind, state and policy of a snapshot, from its status flags.\<close>

definition owner_view :: "u32 \<Rightarrow> HvOwnerKindV2 \<times> HvProviderStateV2 \<times> u64" where
  "owner_view flags =
     (let owner_flags = (if flags AND kFlagSyntheticSnapshot \<noteq> 0 then 1 else 0) +
            (if flags AND kFlagKnhvBootL0Active \<noteq> 0 then 1 else 0) +
            (if flags AND kFlagOuterL0Active \<noteq> 0 then 1 else 0) +
            (if flags AND kFlagWhpPartition \<noteq> 0 then 1 else (0 :: u32))
      in if owner_flags > 1 then (OwnerUnknown, StateConflict, kPolicyNoPhysicalDma)
         else if flags AND kFlagSyntheticSnapshot \<noteq> 0
         then (OwnerSyntheticLab, StateAvailable, kPolicySyntheticOnly OR kPolicyNoPhysicalDma)
         else if flags AND kFlagKnhvBootL0Active \<noteq> 0
         then (OwnerKnhvBootL0,
               if flags AND kFlagBootHandoffVerified \<noteq> 0 then StateActive else StateBlocked,
               kPolicyExclusiveOwner OR kPolicyWindowsHandoff)
         else if flags AND kFlagOuterL0Active \<noteq> 0
         then (OwnerExternalL0, StateConflict, kPolicyNoPhysicalDma)
         else if flags AND kFlagWhpPartition \<noteq> 0
         then (OwnerWhpManaged, StateAvailable, kPolicyNoPhysicalDma)
         else (OwnerUnknown, StateBlocked, 0))"

definition MakeCapabilitySnapshotV2 :: "HvCapabilitySnapshot option \<Rightarrow> HvCapabilitySnapshotV2" where
  "MakeCapabilitySnapshotV2 capabilities =
     (let snapshot = zero_snapshot2\<lparr>c2_size := 48, c2_version := kAbiV2Version\<rparr>;
          blocked = snapshot\<lparr>c2_state := HvProviderStateV2_u32 StateBlocked\<rparr>
      in case capabilities of None \<Rightarrow> blocked
         | Some c \<Rightarrow>
             if \<not> IsVersionedBufferValid (cap_version c) (cap_size c) 56 then blocked
             else let (owner, state, policy) = owner_view (cap_status_flags c)
                  in snapshot\<lparr>c2_hardware_features := cap_feature_bits c AND kV2HardwareFeatureMask,
                       c2_provider_features := cap_feature_bits c AND kV2ProviderFeatureMask,
                       c2_generation := CapabilityGeneration capabilities,
                       c2_owner_kind := HvOwnerKindV2_u32 owner,
                       c2_state := HvProviderStateV2_u32 state, c2_policy_features := policy\<rparr>)"

definition IsCapabilitySnapshotV2Valid :: "HvCapabilitySnapshotV2 option \<Rightarrow> bool" where
  "IsCapabilitySnapshotV2Valid capabilities = (case capabilities of None \<Rightarrow> False | Some c \<Rightarrow>
     if \<not> IsAbiV2BufferValid (c2_version c) (c2_size c) 48 \<or>
        c2_hardware_features c AND NOT kV2HardwareFeatureMask \<noteq> 0 \<or>
        c2_provider_features c AND NOT kV2ProviderFeatureMask \<noteq> 0 \<or>
        c2_policy_features c AND NOT kKnownPolicyFeatureMask \<noteq> 0 \<or>
        \<not> IsOwnerKindValid (c2_owner_kind c) \<or> \<not> IsProviderStateValid (c2_state c) then False
     else let owner = c2_owner_kind c; state = c2_state c
     in if state = HvProviderStateV2_u32 StateActive \<and>
           (owner = HvOwnerKindV2_u32 OwnerUnknown \<or> c2_generation c = 0) then False
        else if owner = HvOwnerKindV2_u32 OwnerSyntheticLab \<and>
           (c2_policy_features c AND kPolicySyntheticOnly = 0 \<or>
            c2_provider_features c AND kCapNestedVmx = 0) then False
        else if owner = HvOwnerKindV2_u32 OwnerKnhvBootL0 \<and>
           (c2_policy_features c AND kPolicyExclusiveOwner = 0 \<or>
            c2_provider_features c AND kCapBootL0 = 0 \<or>
            c2_hardware_features c AND kCapVmx = 0) then False
        else if owner = HvOwnerKindV2_u32 OwnerWhpManaged \<and>
           c2_provider_features c AND kCapWhpPartition = 0 then False
        else True)"

definition IsOwnerLeaseV2Valid :: "HvOwnerLeaseV2 option \<Rightarrow> bool" where
  "IsOwnerLeaseV2Valid lease = (case lease of None \<Rightarrow> False | Some l \<Rightarrow>
     if \<not> IsAbiV2BufferValid (l2_version l) (l2_size l) 32 \<or>
        l2_flags l AND NOT kKnownV2LeaseFlagMask \<noteq> 0 \<or> \<not> IsLeaseModeValid (l2_mode l) then False
     else if l2_mode l = HvLeaseModeV2_u32 LeaseNone
     then l2_owner_id l = 0 \<and> l2_generation l = 0 \<and> l2_flags l = 0
     else if l2_owner_id l = 0 \<or> l2_generation l = 0 then False
     else if l2_mode l = HvLeaseModeV2_u32 LeaseHardwareL0 \<and> l2_flags l AND kLeaseFlagExclusive = 0 then False
     else if l2_mode l = HvLeaseModeV2_u32 LeaseSyntheticLab \<and> l2_flags l AND kLeaseFlagSynthetic = 0 then False
     else if l2_mode l \<noteq> HvLeaseModeV2_u32 LeaseSyntheticLab \<and> l2_flags l AND kLeaseFlagSynthetic \<noteq> 0 then False
     else if l2_mode l \<noteq> HvLeaseModeV2_u32 LeaseHardwareL0 \<and> l2_flags l AND kLeaseFlagExclusive \<noteq> 0 then False
     else True)"

definition LeaseMatchesCapabilityV2 :: "HvOwnerLeaseV2 option \<Rightarrow> HvCapabilitySnapshotV2 option \<Rightarrow> bool" where
  "LeaseMatchesCapabilityV2 lease capabilities = (case (lease, capabilities) of
     (Some l, Some c) \<Rightarrow>
       if \<not> IsOwnerLeaseV2Valid lease \<or> \<not> IsCapabilitySnapshotV2Valid capabilities \<or>
          l2_generation l \<noteq> c2_generation c then False
       else if l2_mode l = HvLeaseModeV2_u32 LeaseHardwareL0
       then c2_owner_kind c = HvOwnerKindV2_u32 OwnerKnhvBootL0 \<and>
            c2_state c = HvProviderStateV2_u32 StateActive \<and>
            c2_policy_features c AND kPolicyExclusiveOwner \<noteq> 0
       else if l2_mode l = HvLeaseModeV2_u32 LeaseWhpManaged
       then c2_owner_kind c = HvOwnerKindV2_u32 OwnerWhpManaged \<and>
            c2_state c \<noteq> HvProviderStateV2_u32 StateConflict \<and>
            c2_state c \<noteq> HvProviderStateV2_u32 StateBlocked
       else if l2_mode l = HvLeaseModeV2_u32 LeaseSyntheticLab
       then c2_owner_kind c = HvOwnerKindV2_u32 OwnerSyntheticLab \<and>
            c2_policy_features c AND kPolicySyntheticOnly \<noteq> 0
       else False
   | _ \<Rightarrow> False)"

definition SelectProviderV2 ::
  "HvProviderRequestV2 option \<Rightarrow> HvCapabilitySnapshotV2 option \<Rightarrow> HvProviderResponseV2 option \<Rightarrow>
   HvStatus \<times> HvProviderResponseV2 option" where
  "SelectProviderV2 request capabilities response = (case response of
     None \<Rightarrow> (InvalidParameter, None)
   | Some _ \<Rightarrow>
      (let base = \<lparr>r2_size = 112, r2_version = kAbiV2Version,
             r2_request_id = (case request of None \<Rightarrow> 0 | Some r \<Rightarrow> q2_request_id r),
             r2_status = Success, r2_provider = ProviderNone, r2_capabilities = zero_snapshot2,
             r2_lease = zero_lease2\<rparr>
       in case (request, capabilities) of
          (Some r, Some c) \<Rightarrow>
            if \<not> RequestV2Valid request \<or> \<not> IsCapabilitySnapshotV2Valid capabilities
            then (InvalidParameter, Some (base\<lparr>r2_status := InvalidParameter\<rparr>))
            else let base = base\<lparr>r2_capabilities := c\<rparr>;
                     refuse = (\<lambda>status. (status, Some (base\<lparr>r2_status := status\<rparr>)));
                     grant = (\<lambda>provider flags. (Success, Some (base
                       \<lparr>r2_provider := provider,
                        r2_lease := SetLease (sk_client_id (q2_session r)) (c2_generation c) (q2_mode r) flags,
                        r2_status := Success\<rparr>)));
                     owner = c2_owner_kind c; state = c2_state c;
                     read_only = (if q2_flags r AND kRequestFlagReadOnly \<noteq> 0 then kLeaseFlagReadOnly else 0)
            in if \<not> HasRequiredFeatures r c then refuse CapabilityMismatch
               else if sk_client_id (q2_session r) = 0 \<or> sk_generation (q2_session r) = 0
               then refuse InvalidParameter
               else if q2_mode r = HvLeaseModeV2_u32 LeaseHardwareL0 then
                 (if owner = HvOwnerKindV2_u32 OwnerExternalL0 \<or>
                     state = HvProviderStateV2_u32 StateConflict then refuse HardwareOwnerConflict
                  else if owner \<noteq> HvOwnerKindV2_u32 OwnerKnhvBootL0 \<or>
                     state \<noteq> HvProviderStateV2_u32 StateActive then refuse NestedUnavailable
                  else if c2_hardware_features c AND kCapVmx = 0 then refuse HardwareUnsupported
                  else if q2_flags r AND kRequestFlagRequireExclusive \<noteq> 0 \<and>
                     c2_policy_features c AND kPolicyExclusiveOwner = 0 then refuse HardwareOwnerConflict
                  else if c2_policy_features c AND kPolicyWindowsHandoff = 0 then refuse BootHandoffFailed
                  else grant ProviderBootL0Interposer (kLeaseFlagExclusive OR read_only))
               else if q2_mode r = HvLeaseModeV2_u32 LeaseWhpManaged then
                 (if c2_provider_features c AND kCapWhpPartition = 0 \<or>
                     owner \<noteq> HvOwnerKindV2_u32 OwnerWhpManaged \<or>
                     (state \<noteq> HvProviderStateV2_u32 StateAvailable \<and>
                      state \<noteq> HvProviderStateV2_u32 StateActive) then refuse NestedUnavailable
                  else grant ProviderWhpClient read_only)
               else if q2_mode r = HvLeaseModeV2_u32 LeaseSyntheticLab then
                 (if owner \<noteq> HvOwnerKindV2_u32 OwnerSyntheticLab \<or>
                     c2_provider_features c AND kCapNestedVmx = 0 \<or>
                     c2_policy_features c AND kPolicySyntheticOnly = 0 \<or>
                     (state \<noteq> HvProviderStateV2_u32 StateAvailable \<and>
                      state \<noteq> HvProviderStateV2_u32 StateActive) then refuse NestedUnavailable
                  else grant ProviderCooperativeL1 (kLeaseFlagSynthetic OR read_only))
               else refuse UnsupportedMode
        | _ \<Rightarrow> (InvalidParameter, Some (base\<lparr>r2_status := InvalidParameter\<rparr>))))"

section \<open>Who may own the hardware\<close>

lemma kind_codes [simp]:
  "HvMode_u32 m = HvMode_u32 m' \<longleftrightarrow> m = m'"
  by (cases m; cases m') simp_all

lemma select_success_cases:
  assumes "SelectProvider (Some r) (Some c) (Some q) = (Success, Some p)"
  shows "SnapshotIsValid (Some c)"
    "p = ProviderBootL0Interposer \<and> \<not> HasFlag c kFlagOuterL0Active \<and> HasFlag c kFlagNativeVmxReady \<and>
       HasFlag c kFlagBootHandoffVerified \<and> pr_requested_features r AND NOT (cap_feature_bits c) = 0 \<or>
     p = ProviderCooperativeL1 \<and> (HasFlag c kFlagKnhvBootL0Active \<or> HasFlag c kFlagSyntheticSnapshot) \<and>
       HasFlag c kFlagNestedVmx \<and> pr_identity_verified r \<noteq> 0 \<and>
       pr_requested_features r AND NOT (cap_feature_bits c) = 0 \<or>
     p = ProviderKnownLegacyAdapter \<and> HasFlag c kFlagKnhvBootL0Active \<and> HasFlag c kFlagNestedVmx \<and>
       pr_legacy_manifest_match r \<noteq> 0 \<or>
     p = ProviderExternalL0Fallback \<and> HasFlag c kFlagOuterL0Active \<and> HasFlag c kFlagWhpPartition \<or>
     p = ProviderNativeExclusiveBaseline \<and> \<not> HasFlag c kFlagOuterL0Active \<and> HasFlag c kFlagNativeVmxReady \<or>
     p = ProviderWhpClient \<and> HasFlag c kFlagWhpPartition"
  using assms unfolding SelectProvider_def
  by (auto simp: Let_def split: if_splits)

lemma snapshot_owner_exclusive:
  "SnapshotIsValid (Some c) \<Longrightarrow> HasFlag c kFlagOuterL0Active \<Longrightarrow> \<not> HasFlag c kFlagKnhvBootL0Active"
  by (auto simp: SnapshotIsValid_def HasFlag_def Let_def split: if_splits)

theorem select_provider_owner:
  assumes "SelectProvider (Some r) (Some c) (Some q) = (Success, Some p)"
  shows "p \<noteq> ProviderNone \<and> p \<noteq> ProviderLoadOnly \<and>
    (HasFlag c kFlagOuterL0Active \<longrightarrow>
       p \<noteq> ProviderBootL0Interposer \<and> p \<noteq> ProviderNativeExclusiveBaseline \<and> p \<noteq> ProviderKnownLegacyAdapter) \<and>
    (p = ProviderBootL0Interposer \<longrightarrow> HasFlag c kFlagNativeVmxReady \<and> HasFlag c kFlagBootHandoffVerified) \<and>
    (p = ProviderCooperativeL1 \<longrightarrow> pr_identity_verified r \<noteq> 0 \<and> HasFlag c kFlagNestedVmx) \<and>
    (p \<in> {ProviderBootL0Interposer, ProviderCooperativeL1} \<longrightarrow>
       pr_requested_features r AND NOT (cap_feature_bits c) = 0)"
  using select_success_cases(2) [OF assms]
    snapshot_owner_exclusive [OF select_success_cases(1) [OF assms]] by auto

text \<open>What a granted request of version 2 has passed, and the flags of its lease.\<close>

definition grant_conditions :: "HvProviderRequestV2 \<Rightarrow> HvCapabilitySnapshotV2 \<Rightarrow> u32 \<Rightarrow> bool" where
  "grant_conditions r c flags \<longleftrightarrow>
     q2_mode r = HvLeaseModeV2_u32 LeaseHardwareL0 \<and> flags \<in> {1, 5} \<and>
       c2_owner_kind c = HvOwnerKindV2_u32 OwnerKnhvBootL0 \<and> c2_state c = HvProviderStateV2_u32 StateActive \<and>
       c2_policy_features c AND kPolicyWindowsHandoff \<noteq> 0 \<or>
     q2_mode r = HvLeaseModeV2_u32 LeaseWhpManaged \<and> flags \<in> {0, 4} \<and>
       c2_owner_kind c = HvOwnerKindV2_u32 OwnerWhpManaged \<and>
       c2_state c \<in> {HvProviderStateV2_u32 StateAvailable, HvProviderStateV2_u32 StateActive} \<or>
     q2_mode r = HvLeaseModeV2_u32 LeaseSyntheticLab \<and> flags \<in> {2, 6} \<and>
       c2_owner_kind c = HvOwnerKindV2_u32 OwnerSyntheticLab \<and>
       c2_policy_features c AND kPolicySyntheticOnly \<noteq> 0 \<and>
       c2_state c \<in> {HvProviderStateV2_u32 StateAvailable, HvProviderStateV2_u32 StateActive}"

definition granted :: "HvProviderRequestV2 \<Rightarrow> HvCapabilitySnapshotV2 \<Rightarrow> HvProviderKind \<Rightarrow> u32 \<Rightarrow> HvProviderResponseV2" where
  "granted r c provider flags = \<lparr>r2_size = 112, r2_version = kAbiV2Version, r2_request_id = q2_request_id r,
     r2_status = Success, r2_provider = provider, r2_capabilities = c,
     r2_lease = SetLease (sk_client_id (q2_session r)) (c2_generation c) (q2_mode r) flags\<rparr>"

lemma select2_success:
  assumes "SelectProviderV2 (Some r) (Some c) (Some old) = (Success, Some resp)"
  shows "\<exists>provider flags. resp = granted r c provider flags \<and> grant_conditions r c flags"
    "IsCapabilitySnapshotV2Valid (Some c)" "HasRequiredFeatures r c" "sk_client_id (q2_session r) \<noteq> 0"
proof -
  show "\<exists>provider flags. resp = granted r c provider flags \<and> grant_conditions r c flags"
    using assms unfolding SelectProviderV2_def Let_def granted_def grant_conditions_def
    by (simp split: if_splits; blast)
  show "IsCapabilitySnapshotV2Valid (Some c)" "HasRequiredFeatures r c" "sk_client_id (q2_session r) \<noteq> 0"
    using assms unfolding SelectProviderV2_def Let_def by (simp_all split: if_splits)
qed

lemma lease_valid_iff:
  "IsOwnerLeaseV2Valid (Some (SetLease owner generation mode flags)) \<longleftrightarrow> generation \<noteq> 0"
  if "owner \<noteq> 0" "mode = 1 \<and> flags \<in> {1, 5} \<or> mode = 2 \<and> flags \<in> {0, 4} \<or> mode = 3 \<and> flags \<in> {2, 6}"
  using that
  by (auto simp: SetLease_def IsOwnerLeaseV2Valid_def IsAbiV2BufferValid_def IsLeaseModeValid_def)

lemma boot_owner_exclusive:
  assumes "IsCapabilitySnapshotV2Valid (Some c)" and "c2_owner_kind c = HvOwnerKindV2_u32 OwnerKnhvBootL0"
  shows "c2_policy_features c AND kPolicyExclusiveOwner \<noteq> 0" "c2_provider_features c AND kCapBootL0 \<noteq> 0"
    "c2_hardware_features c AND kCapVmx \<noteq> 0"
    "c2_state c = HvProviderStateV2_u32 StateActive \<Longrightarrow> c2_generation c \<noteq> 0"
  using assms by (simp_all add: IsCapabilitySnapshotV2Valid_def Let_def split: if_splits)

lemma granted_lease:
  assumes "SelectProviderV2 (Some r) (Some c) (Some old) = (Success, Some resp)"
  shows "r2_status resp = Success \<and> r2_request_id resp = q2_request_id r \<and> r2_capabilities resp = c \<and>
    l2_owner_id (r2_lease resp) = sk_client_id (q2_session r) \<and>
    l2_mode (r2_lease resp) = q2_mode r \<and> HasRequiredFeatures r c \<and>
    (IsOwnerLeaseV2Valid (Some (r2_lease resp)) \<longleftrightarrow> c2_generation c \<noteq> 0) \<and>
    (LeaseMatchesCapabilityV2 (Some (r2_lease resp)) (Some c) \<longleftrightarrow> c2_generation c \<noteq> 0)"
proof -
  obtain provider flags where resp: "resp = granted r c provider flags" and m: "grant_conditions r c flags"
    using select2_success(1) [OF assms] by blast
  note f = select2_success(3,4) [OF assms] and v = select2_success(2) [OF assms]
  let ?l = "r2_lease resp"
  have valid: "IsOwnerLeaseV2Valid (Some ?l) \<longleftrightarrow> c2_generation c \<noteq> 0"
    unfolding resp granted_def HvProviderResponseV2.simps
    by (rule lease_valid_iff) (use f m in \<open>auto simp: grant_conditions_def\<close>)
  have "LeaseMatchesCapabilityV2 (Some ?l) (Some c) \<longleftrightarrow> IsOwnerLeaseV2Valid (Some ?l)"
    using m v boot_owner_exclusive(1) [OF v] unfolding grant_conditions_def
    by (elim disjE conjE) (auto simp: LeaseMatchesCapabilityV2_def resp granted_def SetLease_def)
  then show ?thesis using valid f by (simp add: resp granted_def SetLease_def)
qed

theorem granted_lease_exact:
  assumes "SelectProviderV2 (Some r) (Some c) (Some old) = (Success, Some resp)"
  shows "r2_status resp = Success \<and> r2_request_id resp = q2_request_id r \<and> r2_capabilities resp = c \<and>
    l2_owner_id (r2_lease resp) = sk_client_id (q2_session r) \<and>
    l2_mode (r2_lease resp) = q2_mode r \<and> HasRequiredFeatures r c \<and>
    (IsOwnerLeaseV2Valid (Some (r2_lease resp)) \<longleftrightarrow> c2_generation c \<noteq> 0) \<and>
    (LeaseMatchesCapabilityV2 (Some (r2_lease resp)) (Some c) \<longleftrightarrow> c2_generation c \<noteq> 0)"
  by (rule granted_lease [OF assms])

lemma owner_view_cases:
  obtains
    "owner_view (cap_status_flags c) = (OwnerSyntheticLab, StateAvailable, kPolicySyntheticOnly OR kPolicyNoPhysicalDma)"
    "HasFlag c kFlagSyntheticSnapshot" "\<not> HasFlag c kFlagKnhvBootL0Active" "\<not> HasFlag c kFlagOuterL0Active"
    "\<not> HasFlag c kFlagWhpPartition"
  | "owner_view (cap_status_flags c) = (OwnerKnhvBootL0,
       if HasFlag c kFlagBootHandoffVerified then StateActive else StateBlocked, kPolicyExclusiveOwner OR kPolicyWindowsHandoff)"
    "HasFlag c kFlagKnhvBootL0Active" "\<not> HasFlag c kFlagSyntheticSnapshot" "\<not> HasFlag c kFlagOuterL0Active"
    "\<not> HasFlag c kFlagWhpPartition"
  | "owner_view (cap_status_flags c) = (OwnerWhpManaged, StateAvailable, kPolicyNoPhysicalDma)"
    "HasFlag c kFlagWhpPartition" "\<not> HasFlag c kFlagSyntheticSnapshot" "\<not> HasFlag c kFlagKnhvBootL0Active"
    "\<not> HasFlag c kFlagOuterL0Active"
  | owner state policy where "owner_view (cap_status_flags c) = (owner, state, policy)"
    "owner = OwnerUnknown \<or> owner = OwnerExternalL0" "state = StateConflict \<or> state = StateBlocked"
    "policy = 0 \<or> policy = kPolicyNoPhysicalDma"
proof -
  show thesis
    using that
    by (cases "HasFlag c kFlagSyntheticSnapshot"; cases "HasFlag c kFlagKnhvBootL0Active";
        cases "HasFlag c kFlagOuterL0Active"; cases "HasFlag c kFlagWhpPartition")
      (simp_all add: owner_view_def HasFlag_def)
qed

lemma snapshot2_fields:
  assumes "IsVersionedBufferValid (cap_version c) (cap_size c) 56"
    and "owner_view (cap_status_flags c) = (owner, state, policy)"
  shows "MakeCapabilitySnapshotV2 (Some c) = \<lparr>c2_size = 48, c2_version = kAbiV2Version,
     c2_hardware_features = cap_feature_bits c AND kV2HardwareFeatureMask,
     c2_provider_features = cap_feature_bits c AND kV2ProviderFeatureMask, c2_policy_features = policy,
     c2_owner_kind = HvOwnerKindV2_u32 owner, c2_state = HvProviderStateV2_u32 state,
     c2_generation = CapabilityGeneration (Some c)\<rparr>"
  using assms by (simp add: MakeCapabilitySnapshotV2_def zero_snapshot2_def)

lemma snapshot2_blocked:
  assumes "\<not> IsVersionedBufferValid (cap_version c) (cap_size c) 56"
  shows "c2_owner_kind (MakeCapabilitySnapshotV2 (Some c)) = HvOwnerKindV2_u32 OwnerUnknown"
  using assms by (simp add: MakeCapabilitySnapshotV2_def zero_snapshot2_def)

text \<open>The owner that a lease mode asks for, and whether a snapshot of version 1 shows it alone.\<close>

definition sole_owner :: "HvCapabilitySnapshot \<Rightarrow> u32 \<Rightarrow> bool" where
  "sole_owner c flag \<longleftrightarrow> HasFlag c flag \<and>
     (\<forall>other \<in> {kFlagSyntheticSnapshot, kFlagKnhvBootL0Active, kFlagOuterL0Active, kFlagWhpPartition}.
        other \<noteq> flag \<longrightarrow> \<not> HasFlag c other)"

lemma masked_feature:
  "(x AND kV2HardwareFeatureMask) AND kCapVmx \<noteq> 0 \<Longrightarrow> x AND kCapVmx \<noteq> (0 :: u64)"
  "(x AND kV2ProviderFeatureMask) AND kCapBootL0 \<noteq> 0 \<Longrightarrow> x AND kCapBootL0 \<noteq> (0 :: u64)"
  by (auto simp: and.assoc)

lemma lease_mode_owner:
  assumes "SelectProviderV2 (Some r) (Some (MakeCapabilitySnapshotV2 (Some c))) (Some old) = (Success, Some resp)"
  shows "(q2_mode r = HvLeaseModeV2_u32 LeaseHardwareL0 \<and> sole_owner c kFlagKnhvBootL0Active \<and>
       HasFlag c kFlagBootHandoffVerified \<and> HasFeature c kCapVmx \<and> HasFeature c kCapBootL0 \<and>
       CapabilityGeneration (Some c) \<noteq> 0) \<or>
     (q2_mode r = HvLeaseModeV2_u32 LeaseWhpManaged \<and> sole_owner c kFlagWhpPartition) \<or>
     (q2_mode r = HvLeaseModeV2_u32 LeaseSyntheticLab \<and> sole_owner c kFlagSyntheticSnapshot)"
proof -
  let ?s = "MakeCapabilitySnapshotV2 (Some c)"
  obtain flags where m: "grant_conditions r ?s flags" using select2_success(1) [OF assms] by blast
  note v = select2_success(2) [OF assms]
  have ver: "IsVersionedBufferValid (cap_version c) (cap_size c) 56"
    by (rule ccontr) (use m snapshot2_blocked [of c] in \<open>auto simp: grant_conditions_def\<close>)
  show ?thesis
  proof (cases c rule: owner_view_cases)
    case 1
    then show ?thesis using m snapshot2_fields [OF ver 1(1)]
      by (simp add: grant_conditions_def sole_owner_def)
  next
    case 2
    note s = snapshot2_fields [OF ver 2(1)]
    have k: "c2_owner_kind ?s = HvOwnerKindV2_u32 OwnerKnhvBootL0" by (simp add: s)
    have g: "q2_mode r = HvLeaseModeV2_u32 LeaseHardwareL0" "HasFlag c kFlagBootHandoffVerified"
      using m by (simp_all add: s grant_conditions_def split: if_splits)
    have f: "HasFeature c kCapVmx" "HasFeature c kCapBootL0"
      using boot_owner_exclusive(2,3) [OF v k] masked_feature [of "cap_feature_bits c"]
      by (simp_all add: s HasFeature_def)
    have "CapabilityGeneration (Some c) \<noteq> 0"
      using boot_owner_exclusive(4) [OF v k] g(2) by (simp add: s)
    then show ?thesis using g f 2 by (simp add: sole_owner_def)
  next
    case 3
    then show ?thesis using m snapshot2_fields [OF ver 3(1)]
      by (simp add: grant_conditions_def sole_owner_def)
  next
    case (4 owner state policy)
    have "c2_owner_kind ?s = HvOwnerKindV2_u32 owner" by (simp add: snapshot2_fields [OF ver 4(1)])
    then show ?thesis using m 4(2) unfolding grant_conditions_def by (elim disjE) simp_all
  qed
qed

text \<open>
C14: Over the snapshots derived from the first ABI version, a lease is granted only to the mode
of the sole owner that the status flags show; a hardware lease needs the boot hypervisor as sole
owner, a verified hand-over, VMX and boot features, and a generation.
\<close>

theorem lease_follows_sole_owner:
  assumes "SelectProviderV2 (Some r) (Some (MakeCapabilitySnapshotV2 (Some c))) (Some old) = (Success, Some resp)"
  shows "(q2_mode r = HvLeaseModeV2_u32 LeaseHardwareL0 \<and> sole_owner c kFlagKnhvBootL0Active \<and>
       HasFlag c kFlagBootHandoffVerified \<and> HasFeature c kCapVmx \<and> HasFeature c kCapBootL0 \<and>
       CapabilityGeneration (Some c) \<noteq> 0) \<or>
     (q2_mode r = HvLeaseModeV2_u32 LeaseWhpManaged \<and> sole_owner c kFlagWhpPartition) \<or>
     (q2_mode r = HvLeaseModeV2_u32 LeaseSyntheticLab \<and> sole_owner c kFlagSyntheticSnapshot)"
  by (rule lease_mode_owner [OF assms])

section \<open>Concrete requests\<close>

definition sample_boot_capabilities :: HvCapabilitySnapshot where
  "sample_boot_capabilities = (MakeFallbackCapabilitySnapshot False False)
     \<lparr>cap_feature_bits := kCapVmx OR kCapBootL0,
      cap_status_flags := kFlagNativeVmxReady OR kFlagBootHandoffVerified OR kFlagKnhvBootL0Active,
      cap_owner_generation := 7\<rparr>"

definition sample_boot_request :: HvProviderRequest where
  "sample_boot_request = \<lparr>pr_version = 1, pr_size = 32, pr_mode = HvMode_u32 ModeBootL0Interposer,
     pr_identity_verified = 0, pr_legacy_manifest_match = 0, pr_reserved = 0, pr_requested_features = kCapVmx\<rparr>"

definition sample_lease_request :: HvProviderRequestV2 where
  "sample_lease_request = \<lparr>q2_size = 64, q2_version = 2, q2_request_id = 5,
     q2_session = \<lparr>sk_client_id = 3, sk_generation = 1, sk_reserved = 0\<rparr>,
     q2_required_hardware_features = kCapVmx, q2_required_provider_features = 0,
     q2_required_policy_features = kPolicyExclusiveOwner, q2_mode = HvLeaseModeV2_u32 LeaseHardwareL0,
     q2_flags = kRequestFlagRequireExclusive\<rparr>"

definition sample_response :: HvProviderResponseV2 where
  "sample_response = granted sample_lease_request (MakeCapabilitySnapshotV2 (Some sample_boot_capabilities))
     ProviderBootL0Interposer kLeaseFlagExclusive"

lemma sample_select:
  "SelectProvider (Some sample_boot_request) (Some sample_boot_capabilities) (Some ProviderNone) =
     (Success, Some ProviderBootL0Interposer)"
  by (simp add: SelectProvider_def sample_boot_request_def sample_boot_capabilities_def
      MakeFallbackCapabilitySnapshot_def RequestIsValid_def SnapshotIsValid_def IsVersionedBufferValid_def
      HasFlag_def HasFeature_def Let_def)

lemma sample_snapshot2:
  "MakeCapabilitySnapshotV2 (Some sample_boot_capabilities) =
     \<lparr>c2_size = 48, c2_version = 2, c2_hardware_features = kCapVmx, c2_provider_features = kCapBootL0,
      c2_policy_features = 3, c2_owner_kind = HvOwnerKindV2_u32 OwnerKnhvBootL0,
      c2_state = HvProviderStateV2_u32 StateActive, c2_generation = 7\<rparr>"
  by (simp add: MakeCapabilitySnapshotV2_def sample_boot_capabilities_def owner_view_def zero_snapshot2_def
      CapabilityGeneration_def MakeFallbackCapabilitySnapshot_def IsVersionedBufferValid_def)

lemma sample_grant:
  "SelectProviderV2 (Some sample_lease_request) (Some (MakeCapabilitySnapshotV2 (Some sample_boot_capabilities)))
     (Some sample_response) = (Success, Some sample_response)"
  by (simp add: SelectProviderV2_def sample_lease_request_def sample_snapshot2 RequestV2Valid_def
      IsRequestModeValid_def IsLeaseModeValid_def RequiredFeaturesKnown_def IsAbiV2BufferValid_def
      IsCapabilitySnapshotV2Valid_def IsOwnerKindValid_def IsProviderStateValid_def HasRequiredFeatures_def
      sample_response_def granted_def zero_lease2_def)

theorem select_provider_owner_witness:
  "HasFlag sample_boot_capabilities kFlagNativeVmxReady \<and> HasFlag sample_boot_capabilities kFlagBootHandoffVerified"
  using select_provider_owner [OF sample_select] by simp

theorem granted_lease_exact_witness:
  "LeaseMatchesCapabilityV2 (Some (r2_lease sample_response))
     (Some (MakeCapabilitySnapshotV2 (Some sample_boot_capabilities)))"
  using granted_lease_exact [OF sample_grant] by (simp add: sample_snapshot2)

theorem lease_follows_sole_owner_witness:
  "sole_owner sample_boot_capabilities kFlagKnhvBootL0Active"
  using lease_follows_sole_owner [OF sample_grant] by (simp add: sample_lease_request_def)

end
