(* ===== verification/ControlDevice.thy ===== *)
theory ControlDevice
  imports NestedInstr ProviderModel
begin

text \<open>
  The control device of the driver, \<^verbatim>\<open>src/src/control/control_device.cpp\<close> with
  \<^verbatim>\<open>src/src/control/knhv_control_device.h\<close>: the table of client sessions, the guest memory of
  a nested session and its callbacks, and the handler of every device control request. Each
  handler runs under the state lock, so that a request is one step on the device extension.

  File objects are identified by numbers. The system buffer of a request is the input structure
  on entry and the output structure on return, as \<^verbatim>\<open>METHOD_BUFFERED\<close> has it; reserved output
  fields are zero and left out. The outcome of \<^verbatim>\<open>IoAcquireRemoveLock\<close> is an argument.
\<close>

section \<open>Constants and status codes\<close>

abbreviation kMaxClientSessions :: u32 where "kMaxClientSessions \<equiv> 4"
abbreviation kNestedGuestMemoryBytes :: u32 where "kNestedGuestMemoryBytes \<equiv> 65536"
abbreviation kMaxIoctlBytes :: u32 where "kMaxIoctlBytes \<equiv> 65536"
abbreviation kTestSecurityPolicyVersion :: u32 where "kTestSecurityPolicyVersion \<equiv> 1"
abbreviation kTestSecurityPolicyHash :: u64 where "kTestSecurityPolicyHash \<equiv> 0x4B4E485654455354"
abbreviation kSyntheticVmxonOperandLinear :: nat where "kSyntheticVmxonOperandLinear \<equiv> 0"
abbreviation kSyntheticVmcsOperandLinear :: nat where "kSyntheticVmcsOperandLinear \<equiv> 8"
abbreviation kSyntheticVmxonRegionGpa :: u64 where "kSyntheticVmxonRegionGpa \<equiv> 4096"
abbreviation kSyntheticVmcsRegionGpa :: u64 where "kSyntheticVmcsRegionGpa \<equiv> 8192"

definition kKnownTestProviderGuid :: "u8 list" where
  "kKnownTestProviderGuid = [0x4b, 0x4e, 0x48, 0x56, 0x2d, 0x4e, 0x54, 0x53, 0, 0, 0, 1, 0, 0, 0, 1]"

datatype NTSTATUS = STATUS_SUCCESS | STATUS_INVALID_PARAMETER | STATUS_BUFFER_TOO_SMALL
  | STATUS_INVALID_HANDLE | STATUS_NOT_SUPPORTED | STATUS_INVALID_DEVICE_STATE
  | STATUS_INVALID_DEVICE_REQUEST | STATUS_INVALID_BUFFER_SIZE | STATUS_DELETE_PENDING

section \<open>Structures\<close>

type_synonym file_id = nat

text \<open>The guest memory of a session, by index; only indices below its size are used.\<close>

type_synonym guest_bytes = "nat \<Rightarrow> u8"

record HvSessionStatusOut =
  so_version :: u32
  so_size :: u32
  so_client_id :: u64
  so_generation :: u32
  so_load_success :: u32
  so_registration_ready :: u32
  so_virtualization_ready :: u32
  so_status :: HvStatus
  so_provider :: HvProviderKind

record HvProviderRegistration =
  pg_version :: u32
  pg_size :: u32
  pg_provider_guid :: "u8 list"
  pg_min_abi_version :: u32
  pg_max_abi_version :: u32
  pg_kind :: u32
  pg_security_policy_version :: u32
  pg_advertised_features :: u64
  pg_max_vcpus :: u32
  pg_max_guest_pages :: u32
  pg_policy_hash :: u64
  pg_reserved :: "u64 list"

text \<open>
  A client session. Its guest memory is the object that the context of its memory callbacks
  leads to, and is kept there.
\<close>

record KnHvClientSession =
  ks_active :: u8
  ks_nested_ready :: u8
  ks_owner_file :: "file_id option"
  ks_status :: HvSessionStatusOut
  ks_lease :: HvOwnerLeaseV2
  ks_lease_active :: u8
  ks_nested_vcpu :: "guest_bytes NestedVcpu"

record KnHvDeviceExtension =
  ke_nested_test_driver :: u8
  ke_initialized :: u8
  ke_next_client :: u64
  ke_active_sessions :: u32
  ke_capabilities :: HvCapabilitySnapshot
  ke_sessions :: "KnHvClientSession list"

record request_header =
  rh_version :: u32
  rh_size :: u32
  rh_request_id :: u64

record HvQuerySessionIn = request_header +
  qs_session :: HvSessionKey

record HvRegisterClientIn = request_header +
  rc_registration :: HvProviderRegistration

record HvNestedInstructionIn = request_header +
  ni_session :: HvSessionKey
  ni_instruction :: VmxInstruction

record HvNestedExitIn = request_header +
  ne_session :: HvSessionKey
  ne_exit_record :: NestedExitRecord

record HvAcquireLeaseV2In =
  al_size :: u32
  al_version :: u32
  al_request :: HvProviderRequestV2

record HvReleaseLeaseV2In = request_header +
  rl_session :: HvSessionKey
  rl_lease :: HvOwnerLeaseV2

record HvQueryCapsOut =
  qo_version :: u32
  qo_size :: u32
  qo_request_id :: u64
  qo_status :: HvStatus
  qo_snapshot :: HvCapabilitySnapshot

record HvQueryCapsV2Out =
  q2o_size :: u32
  q2o_version :: u32
  q2o_request_id :: u64
  q2o_status :: HvStatus
  q2o_capabilities :: HvCapabilitySnapshotV2

record HvRegisterClientOut =
  ro_version :: u32
  ro_size :: u32
  ro_request_id :: u64
  ro_status :: HvStatus
  ro_provider :: HvProviderKind
  ro_load_success :: u32
  ro_registration_ready :: u32
  ro_virtualization_ready :: u32
  ro_client_id :: u64
  ro_generation :: u32

record HvAcquireLeaseV2Out =
  ao_size :: u32
  ao_version :: u32
  ao_response :: HvProviderResponseV2

record HvReleaseLeaseV2Out =
  rlo_size :: u32
  rlo_version :: u32
  rlo_request_id :: u64
  rlo_status :: HvStatus

record HvNestedOut =
  no_version :: u32
  no_size :: u32
  no_request_id :: u64
  no_session :: HvSessionKey
  no_result :: NestedResult

datatype ioctl_output = NoOutput | OutCaps HvQueryCapsOut | OutCapsV2 HvQueryCapsV2Out
  | OutRegister HvRegisterClientOut | OutSession HvSessionStatusOut | OutAcquire HvAcquireLeaseV2Out
  | OutReleaseLease HvReleaseLeaseV2Out | OutNested HvNestedOut

text \<open>Status, information and system buffer of a completed request, with the extension afterwards.\<close>

type_synonym completion = "(NTSTATUS \<times> u32 \<times> ioctl_output) \<times> KnHvDeviceExtension"

section \<open>Zeroed structures\<close>

definition zero_status :: HvSessionStatusOut where
  "zero_status = \<lparr>so_version = 0, so_size = 0, so_client_id = 0, so_generation = 0,
     so_load_success = 0, so_registration_ready = 0, so_virtualization_ready = 0,
     so_status = Success, so_provider = ProviderNone\<rparr>"

definition zero_vcpu :: "guest_bytes NestedVcpu" where
  "zero_vcpu = \<lparr>nv_version = 0, nv_size = 0, nv_capabilities = zero_capabilities,
     nv_memory = \<lparr>nm_context = (\<lambda>_. 0), nm_translate = None, nm_read = None, nm_write = None\<rparr>,
     nv_vmxon_active = 0, nv_l2_running = 0, nv_vmxe_enabled = 0, nv_vmxon_gpa = 0,
     nv_current_vmcs_gpa = 0, nv_instruction_error = 0, nv_generation = 0, nv_vmcs_count = 0,
     nv_eptp_index = 0, nv_vmcs = replicate kNestedVmcsSlots zero_vmcs\<rparr>"

definition zero_session :: KnHvClientSession where
  "zero_session = \<lparr>ks_active = 0, ks_nested_ready = 0, ks_owner_file = None, ks_status = zero_status,
     ks_lease = zero_lease2, ks_lease_active = 0, ks_nested_vcpu = zero_vcpu\<rparr>"

section \<open>Guest memory of a nested session\<close>

text \<open>The context is the session, never null here.\<close>

definition GuestTranslate :: "guest_bytes \<Rightarrow> u64 \<Rightarrow> u32 \<Rightarrow> u64 option \<times> guest_bytes" where
  "GuestTranslate context linear access =
     (if access = 0 \<or> linear \<ge> ucast kNestedGuestMemoryBytes then (None, context)
      else (Some linear, context))"

definition GuestRead :: "guest_bytes \<Rightarrow> u64 \<Rightarrow> u32 \<Rightarrow> (nat \<Rightarrow> u8) option \<times> guest_bytes" where
  "GuestRead context guest_physical length' =
     (if length' = 0 \<or> guest_physical \<ge> ucast kNestedGuestMemoryBytes \<or>
         length' > kNestedGuestMemoryBytes - ucast guest_physical then (None, context)
      else (Some (\<lambda>k. context (unat guest_physical + k)), context))"

text \<open>\<^verbatim>\<open>RtlCopyMemory\<close> into guest memory.\<close>

definition copy_bytes :: "guest_bytes \<Rightarrow> nat \<Rightarrow> u8 list \<Rightarrow> guest_bytes" where
  "copy_bytes memory destination bytes =
     (\<lambda>i. if destination \<le> i \<and> i < destination + length bytes then bytes ! (i - destination) else memory i)"

definition GuestWrite :: "guest_bytes \<Rightarrow> u64 \<Rightarrow> u8 list \<Rightarrow> u32 \<Rightarrow> bool \<times> guest_bytes" where
  "GuestWrite context guest_physical source length' =
     (if length' = 0 \<or> guest_physical \<ge> ucast kNestedGuestMemoryBytes \<or>
         length' > kNestedGuestMemoryBytes - ucast guest_physical then (False, context)
      else (True, copy_bytes context (unat guest_physical) (take (unat length') source)))"

definition InitializeNestedSession :: "KnHvClientSession \<Rightarrow> KnHvClientSession" where
  "InitializeNestedSession session =
     (let memory = \<lparr>nm_context = nm_context (nv_memory (ks_nested_vcpu session)),
            nm_translate = Some GuestTranslate, nm_read = Some GuestRead, nm_write = Some GuestWrite\<rparr>;
          capabilities = InitializeCapabilitiesInternal;
          vcpu = (InitializeNestedVcpu (\<lambda>_. 0) (Some capabilities) (Some memory))\<lparr>nv_vmxe_enabled := 1\<rparr>;
          revision = nc_vmx_revision capabilities;
          guest = nm_context (nv_memory vcpu);
          guest = copy_bytes guest kSyntheticVmxonOperandLinear (word_bytes 8 kSyntheticVmxonRegionGpa);
          guest = copy_bytes guest kSyntheticVmcsOperandLinear (word_bytes 8 kSyntheticVmcsRegionGpa);
          guest = copy_bytes guest (unat kSyntheticVmxonRegionGpa) (word_bytes 4 revision);
          guest = copy_bytes guest (unat kSyntheticVmcsRegionGpa) (word_bytes 4 revision)
      in session\<lparr>ks_nested_vcpu := vcpu\<lparr>nv_memory := (nv_memory vcpu)\<lparr>nm_context := guest\<rparr>\<rparr>,
                 ks_nested_ready := 1\<rparr>)"

section \<open>The session table\<close>

fun find_session_from :: "KnHvClientSession list \<Rightarrow> nat \<Rightarrow> HvSessionKey \<Rightarrow> file_id \<Rightarrow> nat option" where
  "find_session_from [] index key owner = None"
| "find_session_from (session # rest) index key owner =
     (if ks_active session \<noteq> 0 \<and> ks_owner_file session = Some owner \<and>
         so_client_id (ks_status session) = sk_client_id key \<and>
         so_generation (ks_status session) = sk_generation key
      then Some index else find_session_from rest (index + 1) key owner)"

definition FindSession :: "KnHvDeviceExtension \<Rightarrow> HvSessionKey \<Rightarrow> file_id option \<Rightarrow> nat option" where
  "FindSession extension key owner_file =
     (case owner_file of None \<Rightarrow> None | Some owner \<Rightarrow>
        if sk_client_id key = 0 \<or> sk_generation key = 0 \<or> sk_reserved key \<noteq> 0 then None
        else find_session_from (ke_sessions extension) 0 key owner)"

fun free_session_from :: "KnHvClientSession list \<Rightarrow> nat \<Rightarrow> nat option" where
  "free_session_from [] index = None"
| "free_session_from (session # rest) index =
     (if ks_active session = 0 then Some index else free_session_from rest (index + 1))"

definition AllocateSession :: "KnHvDeviceExtension \<Rightarrow> file_id option \<Rightarrow> nat option \<times> KnHvDeviceExtension" where
  "AllocateSession extension owner_file =
     (case owner_file of None \<Rightarrow> (None, extension) | Some owner \<Rightarrow>
        if ke_active_sessions extension \<ge> kMaxClientSessions then (None, extension)
        else case free_session_from (ke_sessions extension) 0 of
               None \<Rightarrow> (None, extension)
             | Some slot \<Rightarrow> (Some slot, extension
                 \<lparr>ke_sessions := (ke_sessions extension)[slot :=
                    zero_session\<lparr>ks_active := 1, ks_owner_file := Some owner\<rparr>],
                  ke_active_sessions := ke_active_sessions extension + 1\<rparr>))"

definition ReleaseAllSessions :: "KnHvDeviceExtension \<Rightarrow> KnHvDeviceExtension" where
  "ReleaseAllSessions extension =
     extension\<lparr>ke_sessions := map (\<lambda>_. zero_session) (ke_sessions extension), ke_active_sessions := 0\<rparr>"

text \<open>The loop of \<^verbatim>\<open>ReleaseSessionsForFile\<close>, with the count of active sessions.\<close>

fun release_for_file :: "KnHvClientSession list \<Rightarrow> file_id \<Rightarrow> u32 \<Rightarrow> KnHvClientSession list \<times> u32" where
  "release_for_file [] owner count = ([], count)"
| "release_for_file (session # rest) owner count =
     (if ks_active session \<noteq> 0 \<and> ks_owner_file session = Some owner
      then let (rest, count) = release_for_file rest owner (if count \<noteq> 0 then count - 1 else count)
           in (zero_session # rest, count)
      else let (rest, count) = release_for_file rest owner count in (session # rest, count))"

definition ReleaseSessionsForFile :: "KnHvDeviceExtension \<Rightarrow> file_id option \<Rightarrow> KnHvDeviceExtension" where
  "ReleaseSessionsForFile extension owner_file =
     (case owner_file of None \<Rightarrow> extension
      | Some owner \<Rightarrow> let (sessions, count) = release_for_file (ke_sessions extension) owner
                              (ke_active_sessions extension)
                      in extension\<lparr>ke_sessions := sessions, ke_active_sessions := count\<rparr>)"

section \<open>Registration\<close>

definition IsZeroWords :: "u64 list \<Rightarrow> bool" where
  "IsZeroWords words = list_all (\<lambda>w. w = 0) words"

definition VersionedInputFits :: "u32 \<Rightarrow> u32 \<Rightarrow> u32 \<Rightarrow> u32 \<Rightarrow> bool" where
  "VersionedInputFits version declared_size required_size supplied_length \<longleftrightarrow>
     supplied_length \<ge> required_size \<and> declared_size \<ge> required_size \<and>
     declared_size \<le> supplied_length \<and> IsVersionedBufferValid version declared_size required_size"

definition VersionedV2InputFits :: "u32 \<Rightarrow> u32 \<Rightarrow> u32 \<Rightarrow> u32 \<Rightarrow> bool" where
  "VersionedV2InputFits version declared_size required_size supplied_length \<longleftrightarrow>
     supplied_length \<ge> required_size \<and> declared_size \<ge> required_size \<and>
     declared_size \<le> supplied_length \<and> IsAbiV2BufferValid version declared_size required_size"

definition IsKnownTestProvider :: "HvProviderRegistration \<Rightarrow> bool" where
  "IsKnownTestProvider registration =
     (if pg_security_policy_version registration \<noteq> kTestSecurityPolicyVersion \<or>
         pg_policy_hash registration \<noteq> kTestSecurityPolicyHash \<or>
         pg_min_abi_version registration > kAbiVersion \<or>
         pg_max_abi_version registration < kAbiVersion then False
      else list_all (\<lambda>index. pg_provider_guid registration ! index = kKnownTestProviderGuid ! index) [0..<16])"

definition IsProviderKindValid :: "u32 \<Rightarrow> bool" where
  "IsProviderKindValid kind \<longleftrightarrow> kind \<in> set (map HvProviderKind_u32
     [ProviderBootL0Interposer, ProviderCooperativeL1, ProviderKnownLegacyAdapter, ProviderLoadOnly,
      ProviderExternalL0Fallback, ProviderWhpClient, ProviderNativeExclusiveBaseline])"

definition MakeProviderRequest :: "HvProviderRegistration \<Rightarrow> bool \<Rightarrow> HvProviderRequest" where
  "MakeProviderRequest registration identity_verified =
     (let kind = pg_kind registration;
          legacy = (if kind = HvProviderKind_u32 ProviderKnownLegacyAdapter then 1 else 0);
          (mode, legacy) =
            (if kind = HvProviderKind_u32 ProviderBootL0Interposer then (HvMode_u32 ModeBootL0Interposer, legacy)
             else if kind = HvProviderKind_u32 ProviderCooperativeL1 then (HvMode_u32 ModeCooperativeL1, legacy)
             else if kind = HvProviderKind_u32 ProviderKnownLegacyAdapter then (HvMode_u32 ModeKnownLegacyCompat, 0)
             else if kind = HvProviderKind_u32 ProviderLoadOnly then (HvMode_u32 ModeLoadOnly, legacy)
             else if kind = HvProviderKind_u32 ProviderExternalL0Fallback then (HvMode_u32 ModeExternalL0Fallback, legacy)
             else if kind = HvProviderKind_u32 ProviderWhpClient then (HvMode_u32 ModeWhpClient, legacy)
             else if kind = HvProviderKind_u32 ProviderNativeExclusiveBaseline then (HvMode_u32 ModeNativeExclusiveBaseline, legacy)
             else (0, legacy))
      in \<lparr>pr_version = kAbiVersion, pr_size = 32, pr_mode = mode,
          pr_identity_verified = (if identity_verified then 1 else 0),
          pr_legacy_manifest_match = legacy, pr_reserved = 0,
          pr_requested_features = pg_advertised_features registration\<rparr>)"

definition RegistrationShapeValid :: "HvProviderRegistration \<Rightarrow> bool" where
  "RegistrationShapeValid registration =
     (let version_range_valid = (pg_min_abi_version registration \<noteq> 0 \<and>
            pg_min_abi_version registration \<le> pg_max_abi_version registration \<and>
            pg_min_abi_version registration \<le> kAbiVersion \<and>
            pg_max_abi_version registration \<ge> kAbiMinVersion);
          resource_limits_valid = (pg_max_vcpus registration \<noteq> 0 \<and> pg_max_vcpus registration \<le> 256 \<and>
            pg_max_guest_pages registration \<noteq> 0 \<and> pg_max_guest_pages registration \<le> push_bit 20 1);
          feature_mask_valid = (pg_advertised_features registration AND NOT kKnownCapabilityMask = 0)
      in IsVersionedBufferValid (pg_version registration) (pg_size registration) 80 \<and>
         version_range_valid \<and> resource_limits_valid \<and> feature_mask_valid \<and>
         IsProviderKindValid (pg_kind registration) \<and> IsZeroWords (take 2 (pg_reserved registration)))"

definition FillSession ::
  "KnHvClientSession \<Rightarrow> u64 \<Rightarrow> u32 \<Rightarrow> HvStatus \<Rightarrow> HvProviderKind \<Rightarrow> bool \<Rightarrow> KnHvClientSession" where
  "FillSession session client_id generation status provider synthetic_model =
     session\<lparr>ks_status :=
       \<lparr>so_version = kAbiVersion, so_size = 48, so_client_id = client_id, so_generation = generation,
        so_load_success = 1,
        so_registration_ready = (if status = Success \<or> status = LoadOnly then 1 else 0),
        so_virtualization_ready =
          (if status = Success \<and> provider \<noteq> ProviderLoadOnly \<and> \<not> synthetic_model then 1 else 0),
        so_status = status, so_provider = provider\<rparr>\<rparr>"

section \<open>Request handlers\<close>

abbreviation completed :: "NTSTATUS \<Rightarrow> KnHvDeviceExtension \<Rightarrow> completion" where
  "completed status extension \<equiv> ((status, 0, NoOutput), extension)"

definition HandleQueryCaps :: "KnHvDeviceExtension \<Rightarrow> request_header \<Rightarrow> u32 \<Rightarrow> u32 \<Rightarrow> completion" where
  "HandleQueryCaps extension input input_length output_length =
     (if input_length < 16 \<or> output_length < 80 then completed STATUS_BUFFER_TOO_SMALL extension
      else if \<not> VersionedInputFits (rh_version input) (rh_size input) 16 input_length
      then completed STATUS_INVALID_PARAMETER extension
      else ((STATUS_SUCCESS, 80, OutCaps \<lparr>qo_version = kAbiVersion, qo_size = 80,
               qo_request_id = rh_request_id input, qo_status = Success,
               qo_snapshot = ke_capabilities extension\<rparr>), extension))"

definition HandleQueryCapsV2 :: "KnHvDeviceExtension \<Rightarrow> request_header \<Rightarrow> u32 \<Rightarrow> u32 \<Rightarrow> completion" where
  "HandleQueryCapsV2 extension input input_length output_length =
     (if input_length < 16 \<or> output_length < 72 then completed STATUS_BUFFER_TOO_SMALL extension
      else if \<not> VersionedV2InputFits (rh_version input) (rh_size input) 16 input_length
      then completed STATUS_INVALID_PARAMETER extension
      else ((STATUS_SUCCESS, 72, OutCapsV2 \<lparr>q2o_size = 72, q2o_version = kAbiV2Version,
               q2o_request_id = rh_request_id input, q2o_status = Success,
               q2o_capabilities = MakeCapabilitySnapshotV2 (Some (ke_capabilities extension))\<rparr>), extension))"

definition zero_response2 :: HvProviderResponseV2 where
  "zero_response2 = \<lparr>r2_size = 0, r2_version = 0, r2_request_id = 0, r2_status = Success,
     r2_provider = ProviderNone, r2_capabilities = zero_snapshot2, r2_lease = zero_lease2\<rparr>"

definition HandleAcquireLeaseV2 ::
  "KnHvDeviceExtension \<Rightarrow> file_id option \<Rightarrow> HvAcquireLeaseV2In \<Rightarrow> u32 \<Rightarrow> u32 \<Rightarrow> completion" where
  "HandleAcquireLeaseV2 extension owner_file input input_length output_length =
     (if input_length < 72 \<or> output_length < 120 then completed STATUS_BUFFER_TOO_SMALL extension
      else if \<not> VersionedV2InputFits (al_version input) (al_size input) 72 input_length \<or>
              al_size input < 8 + 64 \<or> q2_size (al_request input) > al_size input - 8 \<or>
              \<not> VersionedV2InputFits (q2_version (al_request input)) (q2_size (al_request input)) 64
                  (input_length - 8)
      then completed STATUS_INVALID_PARAMETER extension
      else let request = al_request input;
               response = zero_response2\<lparr>r2_size := 112, r2_version := kAbiV2Version,
                            r2_request_id := q2_request_id request\<rparr>;
               reply = (\<lambda>response. (STATUS_SUCCESS, 120 :: u32,
                          OutAcquire \<lparr>ao_size = 120, ao_version = kAbiV2Version, ao_response = response\<rparr>))
      in case FindSession extension (q2_session request) owner_file of
           None \<Rightarrow> completed STATUS_INVALID_HANDLE extension
         | Some slot \<Rightarrow>
             (let session = ke_sessions extension ! slot
              in if ks_lease_active session \<noteq> 0
                 then (reply (response\<lparr>r2_status := Busy\<rparr>), extension)
                 else let capabilities = MakeCapabilitySnapshotV2 (Some (ke_capabilities extension));
                          (status, selected) = SelectProviderV2 (Some request) (Some capabilities) (Some response);
                          response = (the selected)\<lparr>r2_status := status\<rparr>;
                          response = (if r2_status response = Success \<and>
                              q2_mode request = HvLeaseModeV2_u32 LeaseSyntheticLab \<and>
                              ks_nested_ready session = 0
                            then response\<lparr>r2_status := NestedUnavailable, r2_provider := ProviderNone,
                                          r2_lease := zero_lease2\<rparr>
                            else response)
                      in if r2_status response = Success
                         then (reply response, extension\<lparr>ke_sessions := (ke_sessions extension)[slot :=
                                 session\<lparr>ks_lease := r2_lease response, ks_lease_active := 1\<rparr>]\<rparr>)
                         else (reply (response\<lparr>r2_lease := zero_lease2\<rparr>), extension)))"

definition HandleReleaseLeaseV2 ::
  "KnHvDeviceExtension \<Rightarrow> file_id option \<Rightarrow> HvReleaseLeaseV2In \<Rightarrow> u32 \<Rightarrow> u32 \<Rightarrow> completion" where
  "HandleReleaseLeaseV2 extension owner_file request input_length output_length =
     (if input_length < 64 \<or> output_length < 24 then completed STATUS_BUFFER_TOO_SMALL extension
      else if \<not> VersionedV2InputFits (rh_version request) (rh_size request) 64 input_length \<or>
              \<not> IsOwnerLeaseV2Valid (Some (rl_lease request)) \<or>
              l2_mode (rl_lease request) = HvLeaseModeV2_u32 LeaseNone \<or>
              sk_reserved (rl_session request) \<noteq> 0
      then completed STATUS_INVALID_PARAMETER extension
      else case FindSession extension (rl_session request) owner_file of
        None \<Rightarrow> completed STATUS_INVALID_HANDLE extension
      | Some slot \<Rightarrow>
          (let session = ke_sessions extension ! slot
           in if ks_lease_active session = 0 \<or>
                 l2_owner_id (ks_lease session) \<noteq> l2_owner_id (rl_lease request) \<or>
                 l2_generation (ks_lease session) \<noteq> l2_generation (rl_lease request) \<or>
                 l2_mode (ks_lease session) \<noteq> l2_mode (rl_lease request) \<or>
                 l2_flags (ks_lease session) \<noteq> l2_flags (rl_lease request)
              then completed STATUS_INVALID_HANDLE extension
              else ((STATUS_SUCCESS, 24, OutReleaseLease \<lparr>rlo_size = 24, rlo_version = kAbiV2Version,
                       rlo_request_id = rh_request_id request, rlo_status = Success\<rparr>),
                    extension\<lparr>ke_sessions := (ke_sessions extension)[slot :=
                       session\<lparr>ks_lease := zero_lease2, ks_lease_active := 0\<rparr>]\<rparr>)))"

definition HandleRegisterClient ::
  "KnHvDeviceExtension \<Rightarrow> file_id option \<Rightarrow> HvRegisterClientIn \<Rightarrow> u32 \<Rightarrow> u32 \<Rightarrow> completion" where
  "HandleRegisterClient extension owner_file input input_length output_length =
     (if input_length < 96 \<or> output_length < 56 then completed STATUS_BUFFER_TOO_SMALL extension
      else if \<not> VersionedInputFits (rh_version input) (rh_size input) 96 input_length \<or>
              \<not> RegistrationShapeValid (rc_registration input)
      then completed STATUS_INVALID_PARAMETER extension
      else let registration = rc_registration input;
               identity_verified = (ke_nested_test_driver extension \<noteq> 0 \<and> IsKnownTestProvider registration);
               request = MakeProviderRequest registration identity_verified;
               (status, selected) = SelectProvider (Some request) (Some (ke_capabilities extension))
                                      (Some ProviderNone);
               provider = the selected;
               response = \<lparr>ro_version = kAbiVersion, ro_size = 56, ro_request_id = rh_request_id input,
                  ro_status = status, ro_provider = provider, ro_load_success = 1,
                  ro_registration_ready = 0, ro_virtualization_ready = 0, ro_client_id = 0,
                  ro_generation = 0\<rparr>;
               reply = (\<lambda>response. (STATUS_SUCCESS, 56 :: u32, OutRegister response))
      in if status = Success \<or> status = LoadOnly
         then case AllocateSession extension owner_file of
           (None, extension) \<Rightarrow>
             (reply (response\<lparr>ro_status := Busy, ro_provider := ProviderNone\<rparr>), extension)
         | (Some slot, extension) \<Rightarrow>
             (let client_id = ke_next_client extension + 1;
                  client_id = (if client_id = 0 then client_id + 1 else client_id);
                  generation = cap_owner_generation (ke_capabilities extension) XOR ucast client_id;
                  generation = (if generation = 0 then 1 else generation);
                  synthetic_model = (cap_status_flags (ke_capabilities extension) AND kFlagSyntheticSnapshot \<noteq> 0);
                  session = FillSession (ke_sessions extension ! slot) client_id generation status
                              provider synthetic_model;
                  session = (if ke_nested_test_driver extension \<noteq> 0 \<and> status = Success
                             then InitializeNestedSession session else session)
              in (reply (response\<lparr>ro_registration_ready := so_registration_ready (ks_status session),
                     ro_virtualization_ready := so_virtualization_ready (ks_status session),
                     ro_client_id := client_id, ro_generation := generation\<rparr>),
                  extension\<lparr>ke_next_client := client_id,
                            ke_sessions := (ke_sessions extension)[slot := session]\<rparr>))
         else (reply response, extension))"

definition HandleQuerySession ::
  "KnHvDeviceExtension \<Rightarrow> file_id option \<Rightarrow> HvQuerySessionIn \<Rightarrow> u32 \<Rightarrow> u32 \<Rightarrow> completion" where
  "HandleQuerySession extension owner_file input input_length output_length =
     (if input_length < 32 \<or> output_length < 48 then completed STATUS_BUFFER_TOO_SMALL extension
      else if \<not> VersionedInputFits (rh_version input) (rh_size input) 32 input_length \<or>
              sk_reserved (qs_session input) \<noteq> 0
      then completed STATUS_INVALID_PARAMETER extension
      else case FindSession extension (qs_session input) owner_file of
        None \<Rightarrow> completed STATUS_INVALID_HANDLE extension
      | Some slot \<Rightarrow>
          ((STATUS_SUCCESS, 48, OutSession (ks_status (ke_sessions extension ! slot))), extension))"

definition HandleReleaseSession ::
  "KnHvDeviceExtension \<Rightarrow> file_id option \<Rightarrow> HvQuerySessionIn \<Rightarrow> u32 \<Rightarrow> completion" where
  "HandleReleaseSession extension owner_file input input_length =
     (if input_length < 32 then completed STATUS_BUFFER_TOO_SMALL extension
      else if \<not> VersionedInputFits (rh_version input) (rh_size input) 32 input_length \<or>
              sk_reserved (qs_session input) \<noteq> 0
      then completed STATUS_INVALID_PARAMETER extension
      else case FindSession extension (qs_session input) owner_file of
        None \<Rightarrow> completed STATUS_INVALID_HANDLE extension
      | Some slot \<Rightarrow> completed STATUS_SUCCESS (extension
          \<lparr>ke_sessions := (ke_sessions extension)[slot := zero_session],
           ke_active_sessions := (if ke_active_sessions extension \<noteq> 0
             then ke_active_sessions extension - 1 else ke_active_sessions extension)\<rparr>))"

definition HandleNestedInstruction ::
  "KnHvDeviceExtension \<Rightarrow> file_id option \<Rightarrow> HvNestedInstructionIn \<Rightarrow> u32 \<Rightarrow> u32 \<Rightarrow> completion" where
  "HandleNestedInstruction extension owner_file input input_length output_length =
     (if ke_nested_test_driver extension = 0 \<or> input_length < 104 \<or> output_length < 72
      then completed STATUS_NOT_SUPPORTED extension
      else if \<not> VersionedInputFits (rh_version input) (rh_size input) 104 input_length \<or>
              sk_reserved (ni_session input) \<noteq> 0
      then completed STATUS_INVALID_PARAMETER extension
      else case FindSession extension (ni_session input) owner_file of
        None \<Rightarrow> completed STATUS_INVALID_HANDLE extension
      | Some slot \<Rightarrow>
          (let session = ke_sessions extension ! slot
           in if ks_nested_ready session = 0 then completed STATUS_INVALID_HANDLE extension
              else let (result, vcpu) = DispatchNestedInstruction (Some (ks_nested_vcpu session))
                                          (Some (ni_instruction input))
                   in ((STATUS_SUCCESS, 72, OutNested \<lparr>no_version = kAbiVersion, no_size = 72,
                          no_request_id = rh_request_id input, no_session = ni_session input,
                          no_result = result\<rparr>),
                       extension\<lparr>ke_sessions := (ke_sessions extension)[slot :=
                          session\<lparr>ks_nested_vcpu := the vcpu\<rparr>]\<rparr>)))"

definition HandleReflectExit ::
  "KnHvDeviceExtension \<Rightarrow> file_id option \<Rightarrow> HvNestedExitIn \<Rightarrow> u32 \<Rightarrow> u32 \<Rightarrow> completion" where
  "HandleReflectExit extension owner_file input input_length output_length =
     (if ke_nested_test_driver extension = 0 \<or> input_length < 72 \<or> output_length < 72
      then completed STATUS_NOT_SUPPORTED extension
      else if \<not> VersionedInputFits (rh_version input) (rh_size input) 72 input_length \<or>
              sk_reserved (ne_session input) \<noteq> 0
      then completed STATUS_INVALID_PARAMETER extension
      else case FindSession extension (ne_session input) owner_file of
        None \<Rightarrow> completed STATUS_INVALID_HANDLE extension
      | Some slot \<Rightarrow>
          (let session = ke_sessions extension ! slot
           in if ks_nested_ready session = 0 then completed STATUS_INVALID_HANDLE extension
              else let (result, vcpu) = ReflectNestedExit (Some (ks_nested_vcpu session))
                                          (Some (ne_exit_record input))
                   in ((STATUS_SUCCESS, 72, OutNested \<lparr>no_version = kAbiVersion, no_size = 72,
                          no_request_id = rh_request_id input, no_session = ne_session input,
                          no_result = result\<rparr>),
                       extension\<lparr>ke_sessions := (ke_sessions extension)[slot :=
                          session\<lparr>ks_nested_vcpu := the vcpu\<rparr>]\<rparr>)))"

section \<open>Dispatch\<close>

text \<open>A device control request: the control code with the input structure of its system buffer.\<close>

datatype ioctl = IOCTL_KNHV_QUERY_CAPS request_header
  | IOCTL_KNHV_QUERY_CAPS_V2 request_header
  | IOCTL_KNHV_REGISTER_CLIENT HvRegisterClientIn
  | IOCTL_KNHV_QUERY_SESSION HvQuerySessionIn
  | IOCTL_KNHV_RELEASE_SESSION HvQuerySessionIn
  | IOCTL_KNHV_ACQUIRE_LEASE_V2 HvAcquireLeaseV2In
  | IOCTL_KNHV_RELEASE_LEASE_V2 HvReleaseLeaseV2In
  | IOCTL_KNHV_NESTED_INSTRUCTION HvNestedInstructionIn
  | IOCTL_KNHV_REFLECT_EXIT HvNestedExitIn
  | OTHER_IOCTL

text \<open>
  What the dispatch routines share: the extension, and which file objects carry the context
  that \<^verbatim>\<open>KnHvDispatchCreate\<close> sets.
\<close>

record control_state =
  ct_extension :: KnHvDeviceExtension
  ct_open :: "file_id \<Rightarrow> bool"

text \<open>Device, request and stack location are not null; the file object may be.\<close>

definition KnHvDispatchCreate ::
  "control_state \<Rightarrow> file_id option \<Rightarrow> NTSTATUS \<Rightarrow> NTSTATUS \<times> control_state" where
  "KnHvDispatchCreate st file_object lock_status =
     (if ke_initialized (ct_extension st) = 0 then (STATUS_INVALID_DEVICE_STATE, st)
      else if lock_status \<noteq> STATUS_SUCCESS then (lock_status, st)
      else case file_object of None \<Rightarrow> (STATUS_INVALID_PARAMETER, st)
           | Some f \<Rightarrow> (STATUS_SUCCESS, st\<lparr>ct_open := (ct_open st)(f := True)\<rparr>))"

definition KnHvDispatchClose ::
  "control_state \<Rightarrow> file_id option \<Rightarrow> NTSTATUS \<Rightarrow> NTSTATUS \<times> control_state" where
  "KnHvDispatchClose st file_object lock_status =
     (if ke_initialized (ct_extension st) = 0 then (STATUS_INVALID_DEVICE_STATE, st)
      else if lock_status \<noteq> STATUS_SUCCESS then (lock_status, st)
      else case file_object of None \<Rightarrow> (STATUS_INVALID_PARAMETER, st)
           | Some f \<Rightarrow> (STATUS_SUCCESS,
               st\<lparr>ct_extension := ReleaseSessionsForFile (ct_extension st) (Some f),
                  ct_open := (ct_open st)(f := False)\<rparr>))"

definition KnHvDispatchUnsupported ::
  "control_state \<Rightarrow> NTSTATUS \<Rightarrow> NTSTATUS \<times> control_state" where
  "KnHvDispatchUnsupported st lock_status =
     (if ke_initialized (ct_extension st) = 0 then (STATUS_INVALID_DEVICE_STATE, st)
      else if lock_status \<noteq> STATUS_SUCCESS then (lock_status, st)
      else (STATUS_INVALID_DEVICE_REQUEST, st))"

text \<open>The switch of \<^verbatim>\<open>KnHvDispatchDeviceControl\<close> over the control codes.\<close>

definition handle_request ::
  "KnHvDeviceExtension \<Rightarrow> file_id option \<Rightarrow> ioctl \<Rightarrow> u32 \<Rightarrow> u32 \<Rightarrow> completion" where
  "handle_request e file_object code input_length output_length =
    (case code of
       IOCTL_KNHV_QUERY_CAPS x \<Rightarrow> HandleQueryCaps e x input_length output_length
     | IOCTL_KNHV_QUERY_CAPS_V2 x \<Rightarrow> HandleQueryCapsV2 e x input_length output_length
     | IOCTL_KNHV_REGISTER_CLIENT x \<Rightarrow> HandleRegisterClient e file_object x input_length output_length
     | IOCTL_KNHV_QUERY_SESSION x \<Rightarrow> HandleQuerySession e file_object x input_length output_length
     | IOCTL_KNHV_RELEASE_SESSION x \<Rightarrow> HandleReleaseSession e file_object x input_length
     | IOCTL_KNHV_ACQUIRE_LEASE_V2 x \<Rightarrow> HandleAcquireLeaseV2 e file_object x input_length output_length
     | IOCTL_KNHV_RELEASE_LEASE_V2 x \<Rightarrow> HandleReleaseLeaseV2 e file_object x input_length output_length
     | IOCTL_KNHV_NESTED_INSTRUCTION x \<Rightarrow> HandleNestedInstruction e file_object x input_length output_length
     | IOCTL_KNHV_REFLECT_EXIT x \<Rightarrow> HandleReflectExit e file_object x input_length output_length
     | OTHER_IOCTL \<Rightarrow> completed STATUS_INVALID_DEVICE_REQUEST e)"

definition KnHvDispatchDeviceControl ::
  "control_state \<Rightarrow> ioctl option \<Rightarrow> file_id option \<Rightarrow> NTSTATUS \<Rightarrow> u32 \<Rightarrow> u32 \<Rightarrow>
   (NTSTATUS \<times> u32 \<times> ioctl_output) \<times> control_state" where
  "KnHvDispatchDeviceControl st request file_object lock_status input_length output_length =
    (case request of None \<Rightarrow> ((STATUS_INVALID_PARAMETER, 0, NoOutput), st) | Some code \<Rightarrow>
     if ke_initialized (ct_extension st) = 0 then ((STATUS_INVALID_DEVICE_STATE, 0, NoOutput), st)
     else case file_object of None \<Rightarrow> ((STATUS_INVALID_PARAMETER, 0, NoOutput), st) | Some f \<Rightarrow>
     if \<not> ct_open st f then ((STATUS_INVALID_HANDLE, 0, NoOutput), st)
     else if lock_status \<noteq> STATUS_SUCCESS then ((lock_status, 0, NoOutput), st)
     else if input_length > kMaxIoctlBytes \<or> output_length > kMaxIoctlBytes
     then ((STATUS_INVALID_BUFFER_SIZE, 0, NoOutput), st)
     else let (outcome, e') = handle_request (ct_extension st) file_object code input_length output_length
          in (outcome, st\<lparr>ct_extension := e'\<rparr>))"

text \<open>
  The extension that \<^verbatim>\<open>KnHvInitializeControlDriver\<close> leaves; whether an outer hypervisor is
  present is what \<^verbatim>\<open>DetectOuterL0\<close> reads from the processor.
\<close>

definition KnHvInitializeControlDriver :: "bool \<Rightarrow> bool \<Rightarrow> KnHvDeviceExtension" where
  "KnHvInitializeControlDriver nested_test_driver outer_l0 =
     (let caps = (MakeFallbackCapabilitySnapshot outer_l0 False)
                   \<lparr>cap_owner_generation := 1, cap_boot_generation := 1\<rparr>;
          caps = (if nested_test_driver
                  then caps\<lparr>cap_feature_bits := cap_feature_bits caps OR
                              (kCapEpt OR kCapVpid OR kCapNestedVmx OR kCapVirtualTlbFlush),
                            cap_status_flags := cap_status_flags caps OR
                              (kFlagNestedVmx OR kFlagSyntheticSnapshot),
                            cap_e_vmcs_version := 0\<rparr>
                  else caps)
      in \<lparr>ke_nested_test_driver = (if nested_test_driver then 1 else 0), ke_initialized = 1,
          ke_next_client = 0, ke_active_sessions = 0, ke_capabilities = caps,
          ke_sessions = replicate (unat kMaxClientSessions) zero_session\<rparr>)"

definition KnHvUnloadControlDriver :: "KnHvDeviceExtension \<Rightarrow> KnHvDeviceExtension" where
  "KnHvUnloadControlDriver extension = ReleaseAllSessions (extension\<lparr>ke_initialized := 0\<rparr>)"

section \<open>The guest memory of a session implements the memory interface\<close>

definition session_physical :: "u64 \<Rightarrow> u64 option" where
  "session_physical l = (if unat l < 65536 then Some l else None)"

definition session_byte :: "guest_bytes \<Rightarrow> u64 \<Rightarrow> u8 option" where
  "session_byte m q = (if unat q < 65536 then Some (m (unat q)) else None)"

lemma guest_bound: "(p :: u64) \<ge> ucast kNestedGuestMemoryBytes \<longleftrightarrow> \<not> unat p < 65536"
  by (simp add: word_le_nat_alt not_less)

lemma guest_run:
  fixes p :: u64
  assumes "n \<noteq> 0"
  shows "\<not> (n = 0 \<or> p \<ge> ucast kNestedGuestMemoryBytes \<or> n > kNestedGuestMemoryBytes - ucast p) \<longleftrightarrow>
    unat p + unat n \<le> 65536"
proof (cases "unat p < 65536")
  case True
  then have u: "unat (ucast p :: u32) = unat p" by (simp add: unsigned_ucast_eq take_bit_nat_eq_self)
  then have "unat (65536 - ucast p :: u32) = 65536 - unat p"
    using True by (subst unat_sub) (simp_all add: word_le_nat_alt)
  then show ?thesis unfolding guest_bound using True assms by (auto simp: word_less_nat_alt)
next
  case False
  then show ?thesis unfolding guest_bound using unat_gt_0 [of n] assms by auto
qed

lemma word_offset_unat: "unat l + k < 2 ^ 64 \<Longrightarrow> unat (l + of_nat k :: u64) = unat l + k"
  using unat_add_small [of l "of_nat k"] by (simp add: unat_of_nat)

lemma run_bytes:
  assumes "0 < n" and "unat l + n \<le> 2 ^ 64"
  shows "(\<forall>k<n. session_byte m (l + of_nat k) \<noteq> None) \<longleftrightarrow> unat l + n \<le> 65536"
proof
  assume a: "\<forall>k<n. session_byte m (l + of_nat k) \<noteq> None"
  have "n - 1 < n" using assms(1) by simp
  then have "session_byte m (l + of_nat (n - 1)) \<noteq> None" using a by blast
  then have "unat (l + of_nat (n - 1)) < 65536" by (simp add: session_byte_def split: if_splits)
  moreover have "unat (l + of_nat (n - 1)) = unat l + (n - 1)" using assms by (intro word_offset_unat) simp
  ultimately show "unat l + n \<le> 65536" using assms(1) by linarith
next
  assume b: "unat l + n \<le> 65536"
  then have "unat (l + of_nat k) < 65536" if "k < n" for k using word_offset_unat [of l k] that by simp
  then show "\<forall>k<n. session_byte m (l + of_nat k) \<noteq> None" by (simp add: session_byte_def)
qed

lemma guest_run_bytes:
  fixes n :: u32
  assumes "n \<noteq> 0"
  shows "(\<forall>k<unat n. session_byte m (p + of_nat k) \<noteq> None) \<longleftrightarrow> unat p + unat n \<le> 65536"
proof -
  have n: "0 < unat n" using assms by (simp only: unat_gt_0 not_False_eq_True)
  show ?thesis
  proof (cases "unat p < 65536")
    case True
    have "unat n < 2 ^ 32" using unsigned_less [of n] by simp
    then have "unat p + unat n \<le> 2 ^ 64" using True by simp
    then show ?thesis by (rule run_bytes [OF n])
  next
    case False
    then show ?thesis using n by (auto simp: session_byte_def intro: exI [of _ 0])
  qed
qed

lemma guest_index:
  assumes "unat p + unat (n :: u32) \<le> 65536" and "k < unat n"
  shows "unat (p + of_nat k :: u64) = unat p + k"
  by (rule word_offset_unat) (use assms in simp)

interpretation session_memory: flat_memory GuestTranslate GuestRead GuestWrite session_physical session_byte
proof
  show "access \<noteq> 0 \<Longrightarrow> GuestTranslate s l access = (session_physical l, s)" for access s l
    unfolding GuestTranslate_def guest_bound session_physical_def by simp
  show "session_physical l' = Some (p + (l' - l))"
    if "session_physical l = Some p" "unat l div 4096 = unat l' div 4096" for l p l'
  proof -
    have "p = l" "unat l div 4096 < 16" using that(1) by (auto simp: session_physical_def split: if_splits)
    then show ?thesis using that(2) by (auto simp: session_physical_def)
  qed
  show "snd (GuestRead s p n) = s" for s p n by (simp add: GuestRead_def)
  show "(fst (GuestRead s p n) \<noteq> None) = (\<forall>k<unat n. session_byte s (p + of_nat k) \<noteq> None)"
    if "n \<noteq> 0" for s p n
    unfolding guest_run_bytes [OF that] guest_run [OF that, symmetric] GuestRead_def by simp
  show "session_byte s (p + of_nat k) = Some (f k)"
    if f: "fst (GuestRead s p n) = Some f" and k: "k < unat n" for s p n f k
  proof -
    have n: "n \<noteq> 0" using k by auto
    have r: "unat p + unat n \<le> 65536"
      using f unfolding guest_run [OF n, symmetric] GuestRead_def by (auto split: if_splits)
    have "f = (\<lambda>k. s (unat p + k))" using f by (simp add: GuestRead_def split: if_splits)
    then show ?thesis using guest_index [OF r k] r k by (simp add: session_byte_def)
  qed
  show "fst (GuestWrite s p bs n) = (\<forall>k<unat n. session_byte s (p + of_nat k) \<noteq> None)"
    if "n \<noteq> 0" for s p bs n
    unfolding guest_run_bytes [OF that] guest_run [OF that, symmetric] GuestWrite_def by simp
  show "\<not> fst (GuestWrite s p bs n) \<Longrightarrow> snd (GuestWrite s p bs n) = s" for s p bs n
    by (auto simp: GuestWrite_def split: if_splits)
  show "session_byte (snd (GuestWrite s p bs n)) q =
      (if unat (q - p) < unat n then Some (bs ! unat (q - p)) else session_byte s q)"
    if n: "n \<noteq> 0" and len: "length bs = unat n" and ok: "fst (GuestWrite s p bs n)" for s p bs n q
  proof -
    have r: "unat p + unat n \<le> 65536"
      using ok unfolding guest_run [OF n, symmetric] GuestWrite_def by (auto split: if_splits)
    have w: "snd (GuestWrite s p bs n) = copy_bytes s (unat p) bs"
      using ok len by (simp add: GuestWrite_def split: if_splits)
    have d: "unat (q - p) = (if unat p \<le> unat q then unat q - unat p else unat q + 2 ^ 64 - unat p)"
      by (simp add: unat_sub_if')
    show ?thesis unfolding w using r len u64_bound [of q]
      by (auto simp: session_byte_def copy_bytes_def d)
  qed
  show "session_physical l = Some p \<Longrightarrow> session_physical l' = Some p \<Longrightarrow> l = l'" for l p l'
    by (simp add: session_physical_def split: if_splits)
qed

lemma session_memory_of:
  "session_memory.memory_of m = \<lparr>nm_context = m, nm_translate = Some GuestTranslate,
     nm_read = Some GuestRead, nm_write = Some GuestWrite\<rparr>"
  by (simp add: session_memory.memory_of_def)

lemma session_linear_byte: "session_memory.linear_byte m l = session_byte m l"
  by (simp add: session_memory.linear_byte_def session_physical_def session_byte_def)

lemma session_linear_range:
  "session_memory.linear_range m l n \<longleftrightarrow> n = 0 \<or> unat l + n \<le> 65536"
  using u64_bound [of l] run_bytes [of n l m]
  by (cases "n = 0") (auto simp: session_memory.linear_range_def session_linear_byte)

abbreviation session_memory :: "guest_bytes \<Rightarrow> guest_bytes NestedMemory" where
  "session_memory m \<equiv> \<lparr>nm_context = m, nm_translate = Some GuestTranslate,
     nm_read = Some GuestRead, nm_write = Some GuestWrite\<rparr>"

lemma session_ReadLinear:
  assumes "access \<noteq> 0"
  shows "ReadLinear (session_memory m) l (Some b) n access =
    (if n \<noteq> 0 \<and> unat l + unat n \<le> 65536 then Some (map (\<lambda>k. m (unat l + k)) [0..<unat n]) else None,
     session_memory m)"
proof -
  have "session_memory.linear_bytes m l (unat n) = map (\<lambda>k. m (unat l + k)) [0..<unat n]"
    if "unat l + unat n \<le> 65536"
    using that word_offset_unat [of l]
    by (simp add: session_memory.linear_bytes_def session_linear_byte session_byte_def)
  then show ?thesis
    using session_memory.ReadLinear_exact [OF assms, of m l b n]
    by (auto simp: session_memory_of session_linear_range unat_eq_0)
qed

theorem session_read_linear:
  "ReadLinear (session_memory m) l (Some b) n access =
    (if n \<noteq> 0 \<and> access \<noteq> 0 \<and> unat l + unat n \<le> 65536
     then Some (map (\<lambda>k. m (unat l + k)) [0..<unat n]) else None, session_memory m)"
proof (cases "access = 0")
  case True
  then show ?thesis
    by (simp add: ReadLinear_def read_linear_loop.simps [of _ l n 0] TranslateLinear_def GuestTranslate_def)
qed (simp add: session_ReadLinear)

text \<open>
C13: Writing a non-empty linear range of a nested session succeeds exactly when the range lies
below 64 KiB; reading it back returns the bytes written and every other byte of guest memory is
unchanged, across page boundaries too.
\<close>

theorem session_write_then_read:
  assumes "length bs = unat n" and "n \<noteq> 0"
  shows "\<exists>m'. WriteLinear (session_memory m) l (Some bs) n = (unat l + unat n \<le> 65536, session_memory m') \<and>
    (unat l + unat n \<le> 65536 \<longrightarrow>
       fst (ReadLinear (session_memory m') l (Some b) n (NestedMemoryAccess_u32 AccessRead)) = Some bs \<and>
       (\<forall>i<65536. m' i = (if unat l \<le> i \<and> i < unat l + unat n then bs ! (i - unat l) else m i)))"
proof -
  have n: "0 < unat n" using assms(2) by (simp only: unat_gt_0 not_False_eq_True)
  obtain m' where w: "WriteLinear (session_memory m) l (Some bs) n = (unat l + unat n \<le> 65536, session_memory m')"
    and ok: "unat l + unat n \<le> 65536 \<Longrightarrow> session_memory.written m l bs m' \<and>
      session_memory.linear_range m' l (unat n) \<and> session_memory.linear_bytes m' l (unat n) = bs"
    using session_memory.WriteLinear_exact [OF assms, of m l] n
    unfolding session_memory_of session_linear_range by auto
  have "m' i = (if unat l \<le> i \<and> i < unat l + unat n then bs ! (i - unat l) else m i)"
    if le: "unat l + unat n \<le> 65536" and i: "i < 65536" for i
  proof -
    have u: "unat (of_nat i :: u64) = i" using i by (simp add: unat_of_nat)
    have d: "unat (of_nat i - l) = (if unat l \<le> i then i - unat l else i + 2 ^ 64 - unat l)"
      by (simp add: unat_sub_if' u)
    have "session_byte m' (of_nat i) =
        (if unat (of_nat i - l) < length bs then Some (bs ! unat (of_nat i - l)) else session_byte m (of_nat i))"
      using ok [OF le] by (simp only: session_memory.written_def session_linear_byte)
    then show ?thesis
      using i le assms(1) unfolding d session_byte_def u by (auto split: if_splits)
  qed
  moreover have "fst (ReadLinear (session_memory m') l (Some b) n (NestedMemoryAccess_u32 AccessRead)) = Some bs"
    if "unat l + unat n \<le> 65536"
    using session_memory.ReadLinear_exact [of "NestedMemoryAccess_u32 AccessRead" m' l b n] ok [OF that] assms(2)
    by (simp add: session_memory_of)
  ultimately show ?thesis using w by (intro exI [of _ m']) simp
qed

section \<open>Bringing a nested session up\<close>

lemma session_call_read:
  assumes "n \<noteq> 0"
  shows "call_read (session_memory m) p n =
    (if unat p + unat n \<le> 65536 then Some (map (\<lambda>k. m (unat p + k)) [0..<unat n]) else None, session_memory m)"
  using guest_run [OF assms, of p] by (auto simp: call_read_def GuestRead_def)

lemma session_region_scan:
  assumes "offset \<le> 4096" and "unat region + 4096 \<le> 65536"
  shows "region_scan (session_memory m) region offset = (True, session_memory m)"
  using assms
proof (induction "4096 - unat offset" arbitrary: offset rule: less_induct)
  case less
  show ?case
  proof (cases "offset < 4096")
    case True
    define chunk where "chunk = (if 4096 - offset < 64 then 4096 - offset else 64)"
    have o: "unat offset < 4096" using True by (simp add: word_less_nat_alt)
    have r: "unat (4096 - offset) = 4096 - unat offset"
      using o by (subst unat_sub) (simp_all add: word_le_nat_alt)
    have c: "0 < unat chunk" "unat chunk \<le> 4096 - unat offset"
      using r o by (auto simp: chunk_def word_less_nat_alt)
    have oc: "unat (offset + chunk) = unat offset + unat chunk"
      using unat_add_lem [of offset chunk] c o by auto
    have a: "unat (region + ucast offset) = unat region + unat offset"
      using unat_add_small [of region "ucast offset"] less.prems(2) o by (simp add: ucast_u32_u64_unat)
    have c0: "chunk \<noteq> 0" using c(1) by auto
    have "region_scan (session_memory m) region (offset + chunk) = (True, session_memory m)"
      using less.hyps [of "offset + chunk"] less.prems(2) c o oc by (simp add: word_le_nat_alt)
    then show ?thesis
      using True session_call_read [OF c0, of m "region + ucast offset"] a c less.prems(2)
      by (simp add: region_scan.simps [of _ _ offset] Let_def chunk_def [symmetric])
  qed (simp add: region_scan.simps [of _ _ offset])
qed

definition synthetic_guest :: "guest_bytes \<Rightarrow> guest_bytes" where
  "synthetic_guest m = copy_bytes (copy_bytes (copy_bytes (copy_bytes m
     0 (word_bytes 8 (4096 :: u64))) 8 (word_bytes 8 (8192 :: u64)))
     4096 (word_bytes 4 (1 :: u32))) 8192 (word_bytes 4 (1 :: u32))"

lemma word_bytes_samples:
  "word_bytes 8 (4096 :: u64) = [0, 16, 0, 0, 0, 0, 0, 0]"
  "word_bytes 8 (8192 :: u64) = [0, 32, 0, 0, 0, 0, 0, 0]"
  "word_bytes 4 (1 :: u32) = [1, 0, 0, 0]"
  by (simp_all add: word_bytes_def upt_rec drop_bit_eq_div)

lemma synthetic_guest_bytes:
  "map (\<lambda>k. synthetic_guest m (0 + k)) [0..<8] = [0, 16, 0, 0, 0, 0, 0, 0]"
  "map (\<lambda>k. synthetic_guest m (8 + k)) [0..<8] = [0, 32, 0, 0, 0, 0, 0, 0]"
  "map (\<lambda>k. synthetic_guest m (4096 + k)) [0..<4] = [1, 0, 0, 0]"
  "map (\<lambda>k. synthetic_guest m (8192 + k)) [0..<4] = [1, 0, 0, 0]"
  by (simp_all add: synthetic_guest_def copy_bytes_def word_bytes_samples upt_rec)

text \<open>The region that an operand of the synthetic guest memory leads to.\<close>

lemma synthetic_region:
  assumes caps: "nv_capabilities v = InitializeCapabilitiesInternal"
    and mem: "nv_memory v = session_memory (synthetic_guest m)"
    and op: "operand = 0 \<and> region = 4096 \<or> operand = 8 \<and> region = 8192"
  shows "ValidateVmxRegion v operand = (Some region, v)"
proof -
  have lin: "IsLinearRangeCanonical (Some v) operand 8"
    using op caps by (auto simp: IsLinearRangeCanonical_def IsCanonicalAddress_def
        InitializeCapabilitiesInternal_def Let_def push_bit_eq_mult)
  have rd: "ReadLinear (nv_memory v) operand (Some (replicate 8 0)) 8 1 =
      (Some (word_bytes 8 region), session_memory (synthetic_guest m))"
    using op synthetic_guest_bytes
    by (auto simp: mem session_ReadLinear word_bytes_samples)
  have reg: "bytes_word (word_bytes 8 region) = region"
    using op by (auto simp: word_bytes_samples push_bit_eq_mult)
  have rev: "call_read (session_memory (synthetic_guest m)) region 4 =
      (Some [1, 0, 0, 0], session_memory (synthetic_guest m))"
    using op synthetic_guest_bytes by (auto simp: session_call_read)
  have scan: "region_scan (session_memory (synthetic_guest m)) region 4 =
      (True, session_memory (synthetic_guest m))"
    using op by (intro session_region_scan) auto
  have v: "v\<lparr>nv_memory := session_memory (synthetic_guest m)\<rparr> = v" using mem by simp
  have al: "IsAlignedPage region" using op by (auto simp: IsAlignedPage_def)
  have ph: "NestedIsPhysicalAddress region 48" "NestedIsPhysicalAddress (region + 4095) 48"
    using op by (auto simp: NestedIsPhysicalAddress_def Let_def drop_bit_eq_div)
  have le: "\<not> region > NOT 0 - (ucast kNestedPageSize - 1)" using op by auto
  show ?thesis
    unfolding ValidateVmxRegion_def
    using lin rd reg rev scan v al ph le mem caps
    by (simp add: Let_def InitializeCapabilitiesInternal_def)
qed

lemma InitializeNestedSession_vcpu:
  "ks_nested_vcpu (InitializeNestedSession s) =
     (InitializeNestedVcpu (\<lambda>_. 0) (Some InitializeCapabilitiesInternal)
        (Some (session_memory (synthetic_guest (nm_context (nv_memory (ks_nested_vcpu s)))))))
     \<lparr>nv_vmxe_enabled := 1\<rparr>"
  by (simp add: InitializeNestedSession_def Let_def InitializeNestedVcpu_def synthetic_guest_def
      InitializeCapabilitiesInternal_def)

lemma initialized_capabilities:
  "nv_capabilities (InitializeNestedVcpu c (Some InitializeCapabilitiesInternal) m) = InitializeCapabilitiesInternal"
  by (simp add: InitializeNestedVcpu_def Let_def IsVersionedBufferValid_def InitializeCapabilitiesInternal_def)

lemma InitializeNestedSession_inv: "nested_inv (ks_nested_vcpu (InitializeNestedSession s))"
  unfolding InitializeNestedSession_vcpu using InitializeNestedVcpu_inv by simp

lemma session_bring_up:
  assumes on: "InstructionIsValid on" "vi_opcode on = VmxOpcode_u32 Vmxon"
      "vi_linear_operand on = of_nat kSyntheticVmxonOperandLinear"
    and ld: "InstructionIsValid ld" "vi_opcode ld = VmxOpcode_u32 Vmptrld"
      "vi_linear_operand ld = of_nat kSyntheticVmcsOperandLinear"
  shows "\<exists>v1 v2. DispatchNestedInstruction (Some (ks_nested_vcpu (InitializeNestedSession s))) (Some on) =
      (MakeSuccess ResumeL1 (InstructionLength on) 0, Some v1) \<and>
    DispatchNestedInstruction (Some v1) (Some ld) =
      (MakeSuccess ResumeL1 (InstructionLength ld) 0, Some v2) \<and>
    nv_vmxon_gpa v2 = kSyntheticVmxonRegionGpa \<and> nv_current_vmcs_gpa v2 = kSyntheticVmcsRegionGpa \<and>
    CurrentVmcs (Some v2) \<noteq> None \<and> nested_inv v2"
proof -
  define v where "v = ks_nested_vcpu (InitializeNestedSession s)"
  let ?m = "nm_context (nv_memory (ks_nested_vcpu s))"
  have caps: "nv_capabilities v = InitializeCapabilitiesInternal"
    and mem: "nv_memory v = session_memory (synthetic_guest ?m)"
    and st: "nv_vmxon_active v = 0" "nv_vmxe_enabled v = 1"
    by (simp_all add: v_def InitializeNestedSession_vcpu initialized_capabilities)
      (simp_all add: InitializeNestedVcpu_def Let_def)
  have inv: "nested_inv v" unfolding v_def by (rule InitializeNestedSession_inv)
  have slots: "nv_vmcs v = replicate 16 (zero_vmcs\<lparr>v12_revision := 1\<rparr>)"
    unfolding v_def InitializeNestedSession_vcpu
    by (simp add: InitializeNestedVcpu_def Let_def IsVersionedBufferValid_def InitializeCapabilitiesInternal_def)
  have r1: "ValidateVmxRegion v (vi_linear_operand on) = (Some 4096, v)"
    by (rule synthetic_region [OF caps mem]) (use on(3) in simp)
  define v1 where "v1 = ClearVmInstructionError (v\<lparr>nv_vmxon_active := 1, nv_vmxon_gpa := 4096,
     nv_current_vmcs_gpa := NOT 0, nv_l2_running := 0, nv_generation := nv_generation v + 1\<rparr>)"
  have d1: "DispatchNestedInstruction (Some v) (Some on) =
      (MakeSuccess ResumeL1 (InstructionLength on) 0, Some v1)"
    using on(1,2) st caps
    by (simp add: DispatchNestedInstruction_def EmulateVmxon_def r1 v1_def Let_def InitializeCapabilitiesInternal_def)
  have e1: "v1 = v\<lparr>nv_vmxon_active := 1, nv_vmxon_gpa := 4096, nv_current_vmcs_gpa := NOT 0,
     nv_l2_running := 0, nv_generation := nv_generation v + 1, nv_instruction_error := 0\<rparr>"
    by (simp add: v1_def ClearVmInstructionError_def CurrentVmcs_alt)
  have inv1: "nested_inv v1" using DispatchNestedInstruction_inv [OF d1 inv] .
  have r2: "ValidateVmxRegion v1 (vi_linear_operand ld) = (Some 8192, v1)"
    by (rule synthetic_region [where m = ?m]) (use caps mem ld(3) in \<open>simp_all add: e1\<close>)
  have scan: "scan_slots (nv_vmcs v1) 0 8192 None = Free 0"
    by (simp add: e1 slots numeral_eq_Suc zero_vmcs_def)
  obtain s2 v1' where al: "AllocateVmcs v1 8192 = (Some s2, v1')"
    and cl: "v12_state (nv_vmcs v1' ! s2) = VmcsClear" and g: "nv_vmxon_gpa v1' = 4096"
    using scan by (simp add: AllocateVmcs_def) (simp add: e1 slots update_vmcs_def)
  define v2 where "v2 = ClearVmInstructionError ((update_vmcs s2 (\<lambda>vmcs. vmcs\<lparr>v12_state := VmcsActive\<rparr>) v1')
     \<lparr>nv_current_vmcs_gpa := 8192\<rparr>)"
  have on1: "nv_vmxon_active v1 \<noteq> 0" and gpa1: "nv_vmxon_gpa v1 = 4096" by (simp_all add: e1)
  have d2: "DispatchNestedInstruction (Some v1) (Some ld) =
      (MakeSuccess ResumeL1 (InstructionLength ld) 0, Some v2)"
    unfolding dispatch_active(3) [OF ld(1) on1 ld(2)]
    using cl gpa1 by (simp add: EmulateVmptrld_def r2 al v2_def)
  have inv2: "nested_inv v2" using DispatchNestedInstruction_inv [OF d2 inv1] .
  have cur: "nv_current_vmcs_gpa v2 = 8192" "nv_vmxon_gpa v2 = 4096"
    using g by (simp_all add: v2_def ClearVmInstructionError_def Let_def split: option.split)
  then have "CurrentVmcs (Some v2) \<noteq> None" using inv2 by (auto simp: nested_inv_def)
  then show ?thesis using d1 d2 cur inv2 unfolding v_def by blast
qed

theorem nested_session_bring_up:
  assumes on: "InstructionIsValid on" "vi_opcode on = VmxOpcode_u32 Vmxon"
      "vi_linear_operand on = of_nat kSyntheticVmxonOperandLinear"
    and ld: "InstructionIsValid ld" "vi_opcode ld = VmxOpcode_u32 Vmptrld"
      "vi_linear_operand ld = of_nat kSyntheticVmcsOperandLinear"
  shows "\<exists>v1 v2. DispatchNestedInstruction (Some (ks_nested_vcpu (InitializeNestedSession s))) (Some on) =
      (MakeSuccess ResumeL1 (InstructionLength on) 0, Some v1) \<and>
    DispatchNestedInstruction (Some v1) (Some ld) =
      (MakeSuccess ResumeL1 (InstructionLength ld) 0, Some v2) \<and>
    nv_vmxon_gpa v2 = kSyntheticVmxonRegionGpa \<and> nv_current_vmcs_gpa v2 = kSyntheticVmcsRegionGpa \<and>
    CurrentVmcs (Some v2) \<noteq> None \<and> nested_inv v2"
  by (rule session_bring_up [OF assms])

end
