(* ===== verification/ControlRuns.thy ===== *)
theory ControlRuns
  imports ControlDevice
begin

text \<open>
  What the control device guarantees over any run of its dispatch routines: the abstract session
  machine that every request handler refines, the invariant of the session table, isolation
  between files, inert failures, and the life of sessions and leases.
\<close>

section \<open>What a request may do to the session table\<close>

text \<open>
  The abstract session machine of one file: registration into a free slot, release of an own
  session, grant and return of a lease, and a step of the nested virtual CPU.
\<close>

inductive session_change :: "file_id \<Rightarrow> KnHvDeviceExtension \<Rightarrow> KnHvDeviceExtension \<Rightarrow> bool" for f e where
  change_none: "session_change f e e"
| change_register: "AllocateSession e (Some f) = (Some slot, e1) \<Longrightarrow> client_id \<noteq> 0 \<Longrightarrow> generation \<noteq> 0 \<Longrightarrow>
    SelectProvider (Some q) (Some (ke_capabilities e)) (Some ProviderNone) = (status, Some provider) \<Longrightarrow>
    session = FillSession (ke_sessions e1 ! slot) client_id generation status provider
      (cap_status_flags (ke_capabilities e) AND kFlagSyntheticSnapshot \<noteq> 0) \<Longrightarrow>
    session' = session \<or> ke_nested_test_driver e \<noteq> 0 \<and> session' = InitializeNestedSession session \<Longrightarrow>
    session_change f e (e1\<lparr>ke_next_client := client_id, ke_sessions := (ke_sessions e1)[slot := session']\<rparr>)"
| change_release: "FindSession e key (Some f) = Some slot \<Longrightarrow>
    session_change f e (e\<lparr>ke_sessions := (ke_sessions e)[slot := zero_session],
      ke_active_sessions := (if ke_active_sessions e \<noteq> 0 then ke_active_sessions e - 1 else ke_active_sessions e)\<rparr>)"
| change_grant: "FindSession e (q2_session request) (Some f) = Some slot \<Longrightarrow> session = ke_sessions e ! slot \<Longrightarrow>
    ks_lease_active session = 0 \<Longrightarrow>
    SelectProviderV2 (Some request) (Some (MakeCapabilitySnapshotV2 (Some (ke_capabilities e)))) (Some old) =
      (Success, Some response) \<Longrightarrow>
    (q2_mode request = HvLeaseModeV2_u32 LeaseSyntheticLab \<Longrightarrow> ks_nested_ready session \<noteq> 0) \<Longrightarrow>
    session_change f e (e\<lparr>ke_sessions := (ke_sessions e)[slot :=
      session\<lparr>ks_lease := r2_lease response, ks_lease_active := 1\<rparr>]\<rparr>)"
| change_return: "FindSession e key (Some f) = Some slot \<Longrightarrow> ks_lease_active (ke_sessions e ! slot) \<noteq> 0 \<Longrightarrow>
    session_change f e (e\<lparr>ke_sessions := (ke_sessions e)[slot :=
      (ke_sessions e ! slot)\<lparr>ks_lease := zero_lease2, ks_lease_active := 0\<rparr>]\<rparr>)"
| change_nested: "FindSession e key (Some f) = Some slot \<Longrightarrow> ks_nested_ready (ke_sessions e ! slot) \<noteq> 0 \<Longrightarrow>
    nested_step (ks_nested_vcpu (ke_sessions e ! slot)) vcpu \<Longrightarrow>
    session_change f e (e\<lparr>ke_sessions := (ke_sessions e)[slot :=
      (ke_sessions e ! slot)\<lparr>ks_nested_vcpu := vcpu\<rparr>]\<rparr>)"

lemma select2_response:
  "\<exists>resp. SelectProviderV2 (Some r) (Some c) (Some old) = (r2_status resp, Some resp)"
proof -
  let ?x = "SelectProviderV2 (Some r) (Some c) (Some old)"
  have "snd ?x \<noteq> None \<and> r2_status (the (snd ?x)) = fst ?x"
    by (simp add: SelectProviderV2_def Let_def)
  then show ?thesis by (cases ?x) auto
qed

lemma Dispatch_step: "\<exists>r v'. DispatchNestedInstruction (Some v) i = (r, Some v') \<and> nested_step v v'"
proof -
  have "\<exists>v'. snd (DispatchNestedInstruction (Some v) i) = Some v'"
    by (simp add: DispatchNestedInstruction_def split: option.split)
  then show ?thesis by (metis prod.collapse step_instruction)
qed

lemma Reflect_step: "\<exists>r v'. ReflectNestedExit (Some v) x = (r, Some v') \<and> nested_step v v'"
proof -
  have "\<exists>v'. snd (ReflectNestedExit (Some v) x) = Some v'"
    by (simp add: ReflectNestedExit_def Let_def split: option.split)
  then show ?thesis by (metis prod.collapse step_exit)
qed

lemma acquire_change:
  assumes "HandleAcquireLeaseV2 e (Some f) input il ol = (x, e')"
  shows "session_change f e e'"
proof (cases "FindSession e (q2_session (al_request input)) (Some f)")
  case None
  then show ?thesis using assms change_none by (auto simp: HandleAcquireLeaseV2_def Let_def split: if_splits)
next
  case (Some slot)
  let ?c = "MakeCapabilitySnapshotV2 (Some (ke_capabilities e))"
  define old where "old = zero_response2\<lparr>r2_size := 112, r2_version := kAbiV2Version,
    r2_request_id := q2_request_id (al_request input)\<rparr>"
  obtain resp where sel: "SelectProviderV2 (Some (al_request input)) (Some ?c) (Some old) = (r2_status resp, Some resp)"
    using select2_response by blast
  have r: "resp\<lparr>r2_status := r2_status resp\<rparr> = resp" by simp
  show ?thesis
    using assms change_none change_grant [OF Some refl, of old resp] sel
    unfolding HandleAcquireLeaseV2_def
    by (simp add: Let_def Some old_def [symmetric] r split: if_splits)
qed

lemma release_lease_change:
  assumes "HandleReleaseLeaseV2 e (Some f) input il ol = (x, e')"
  shows "session_change f e e'"
  using assms change_none change_return [of e "rl_session input" f]
  by (auto simp: HandleReleaseLeaseV2_def Let_def split: if_splits option.splits)

lemma query_session_change:
  assumes "HandleQuerySession e (Some f) input il ol = (x, e')"
  shows "e' = e"
  using assms by (auto simp: HandleQuerySession_def split: if_splits option.splits)

lemma release_session_change:
  assumes "HandleReleaseSession e (Some f) input il = (x, e')"
  shows "session_change f e e'"
proof (cases "FindSession e (qs_session input) (Some f)")
  case None
  then show ?thesis using assms change_none by (simp add: HandleReleaseSession_def split: if_splits)
next
  case (Some slot)
  show ?thesis
  proof (cases "fst x = STATUS_SUCCESS")
    case True
    then show ?thesis
      using assms change_release [OF Some] by (auto simp: HandleReleaseSession_def Some split: if_split_asm)
  next
    case False
    then show ?thesis using assms change_none by (auto simp: HandleReleaseSession_def Some split: if_split_asm)
  qed
qed

lemma nested_instruction_change:
  assumes "HandleNestedInstruction e (Some f) input il ol = (x, e')"
  shows "session_change f e e'"
proof (cases "FindSession e (ni_session input) (Some f)")
  case None
  then show ?thesis using assms change_none by (simp add: HandleNestedInstruction_def split: if_splits)
next
  case (Some slot)
  obtain r v' where "DispatchNestedInstruction (Some (ks_nested_vcpu (ke_sessions e ! slot))) (Some (ni_instruction input)) =
      (r, Some v')" "nested_step (ks_nested_vcpu (ke_sessions e ! slot)) v'"
    using Dispatch_step by blast
  then show ?thesis
    using assms change_none change_nested [OF Some]
    by (auto simp: HandleNestedInstruction_def Some Let_def split: if_splits)
qed

lemma reflect_exit_change:
  assumes "HandleReflectExit e (Some f) input il ol = (x, e')"
  shows "session_change f e e'"
proof (cases "FindSession e (ne_session input) (Some f)")
  case None
  then show ?thesis using assms change_none by (simp add: HandleReflectExit_def split: if_splits)
next
  case (Some slot)
  obtain r v' where "ReflectNestedExit (Some (ks_nested_vcpu (ke_sessions e ! slot))) (Some (ne_exit_record input)) =
      (r, Some v')" "nested_step (ks_nested_vcpu (ke_sessions e ! slot)) v'"
    using Reflect_step by blast
  then show ?thesis
    using assms change_none change_nested [OF Some]
    by (auto simp: HandleReflectExit_def Some Let_def split: if_splits)
qed

text \<open>Registration, once the request has passed its checks.\<close>

definition registered_session :: "KnHvDeviceExtension \<Rightarrow> file_id \<Rightarrow> HvStatus \<Rightarrow> HvProviderKind \<Rightarrow> u64 \<times> u32 \<times> KnHvClientSession" where
  "registered_session e f status provider =
     (let client_id = ke_next_client e + 1;
          client_id = (if client_id = 0 then client_id + 1 else client_id);
          generation = cap_owner_generation (ke_capabilities e) XOR ucast client_id;
          generation = (if generation = 0 then 1 else generation);
          session = FillSession (zero_session\<lparr>ks_active := 1, ks_owner_file := Some f\<rparr>) client_id generation
                      status provider (cap_status_flags (ke_capabilities e) AND kFlagSyntheticSnapshot \<noteq> 0)
      in (client_id, generation,
          if ke_nested_test_driver e \<noteq> 0 \<and> status = Success then InitializeNestedSession session else session))"

lemma AllocateSession_cases:
  obtains "AllocateSession e (Some f) = (None, e)"
  | slot where "free_session_from (ke_sessions e) 0 = Some slot" "ke_active_sessions e < kMaxClientSessions"
    "AllocateSession e (Some f) = (Some slot, e\<lparr>ke_sessions := (ke_sessions e)[slot :=
       zero_session\<lparr>ks_active := 1, ks_owner_file := Some f\<rparr>],
       ke_active_sessions := ke_active_sessions e + 1\<rparr>)"
proof (cases "ke_active_sessions e \<ge> kMaxClientSessions \<or> free_session_from (ke_sessions e) 0 = None")
  case True
  then show thesis using that(1) by (auto simp: AllocateSession_def)
next
  case False
  then show thesis using that(2) by (auto simp: AllocateSession_def not_le)
qed

lemma free_session_bound:
  "free_session_from ss k = Some slot \<Longrightarrow> k \<le> slot \<and> slot < k + length ss \<and> ks_active (ss ! (slot - k)) = 0"
  by (induction ss k rule: free_session_from.induct) (auto split: if_splits simp: nth_Cons' Suc_diff_le)

lemma find_session_bound:
  "find_session_from ss k key owner = Some slot \<Longrightarrow> k \<le> slot \<and> slot < k + length ss \<and>
   ks_active (ss ! (slot - k)) \<noteq> 0 \<and> ks_owner_file (ss ! (slot - k)) = Some owner \<and>
   so_client_id (ks_status (ss ! (slot - k))) = sk_client_id key \<and>
   so_generation (ks_status (ss ! (slot - k))) = sk_generation key"
  by (induction ss k key owner rule: find_session_from.induct)
    (auto split: if_splits simp: nth_Cons' Suc_diff_le)

lemma FindSession_SomeD:
  assumes "FindSession e key (Some f) = Some slot"
  shows "slot < length (ke_sessions e)" "ks_active (ke_sessions e ! slot) \<noteq> 0"
    "ks_owner_file (ke_sessions e ! slot) = Some f"
    "so_client_id (ks_status (ke_sessions e ! slot)) = sk_client_id key"
    "so_generation (ks_status (ke_sessions e ! slot)) = sk_generation key"
    "sk_client_id key \<noteq> 0" "sk_generation key \<noteq> 0"
  using assms find_session_bound [of "ke_sessions e" 0 key f slot]
  by (auto simp: FindSession_def split: if_splits)

lemma register_cases:
  assumes "HandleRegisterClient e (Some f) input il ol = (x, e')"
  obtains "e' = e" "fst x \<noteq> STATUS_SUCCESS" "snd x = (0, NoOutput)"
  | r where "e' = e" "x = (STATUS_SUCCESS, 56, OutRegister r)" "ro_client_id r = 0" "ro_registration_ready r = 0"
  | slot status provider r q where "status = Success \<or> status = LoadOnly"
    "SelectProvider (Some q) (Some (ke_capabilities e)) (Some ProviderNone) = (status, Some provider)"
    "free_session_from (ke_sessions e) 0 = Some slot" "ke_active_sessions e < kMaxClientSessions"
    "x = (STATUS_SUCCESS, 56, OutRegister r)" "ro_status r = status" "ro_provider r = provider"
    "ro_client_id r = fst (registered_session e f status provider)"
    "ro_generation r = fst (snd (registered_session e f status provider))"
    "ro_registration_ready r = so_registration_ready (ks_status (snd (snd (registered_session e f status provider))))"
    "ro_virtualization_ready r = so_virtualization_ready (ks_status (snd (snd (registered_session e f status provider))))"
    "e' = e\<lparr>ke_active_sessions := ke_active_sessions e + 1,
       ke_next_client := fst (registered_session e f status provider),
       ke_sessions := (ke_sessions e)[slot := snd (snd (registered_session e f status provider))]\<rparr>"
proof -
  define q where "q = MakeProviderRequest (rc_registration input)
    (ke_nested_test_driver e \<noteq> 0 \<and> IsKnownTestProvider (rc_registration input))"
  obtain status selected where sel: "SelectProvider (Some q) (Some (ke_capabilities e)) (Some ProviderNone) = (status, selected)"
    by (cases "SelectProvider (Some q) (Some (ke_capabilities e)) (Some ProviderNone)")
  have some: "selected = Some (the selected)"
    using sel unfolding SelectProvider_def by (auto simp: Let_def split: if_splits)
  have sel': "SelectProvider (Some q) (Some (ke_capabilities e)) (Some ProviderNone) = (status, Some (the selected))"
    using sel some by simp
  have H: "HandleRegisterClient e (Some f) input il ol = (x, e')" by (rule assms)
  show thesis
  proof (cases "il < 96 \<or> ol < 56 \<or> \<not> VersionedInputFits (rh_version input) (rh_size input) 96 il \<or>
      \<not> RegistrationShapeValid (rc_registration input)")
    case True
    then show thesis using H that(1) by (auto simp: HandleRegisterClient_def split: if_splits)
  next
    case False
    show thesis
    proof (cases "status = Success \<or> status = LoadOnly")
      case st: False
      show thesis
        using H False st that(2) by (auto simp: HandleRegisterClient_def Let_def q_def [symmetric] sel)
    next
      case st: True
      show thesis
      proof (rule AllocateSession_cases [of e f])
        assume "AllocateSession e (Some f) = (None, e)"
        then show thesis
          using H False st that(2) by (auto simp: HandleRegisterClient_def Let_def q_def [symmetric] sel)
      next
        fix slot
        assume free: "free_session_from (ke_sessions e) 0 = Some slot" "ke_active_sessions e < kMaxClientSessions"
          and al: "AllocateSession e (Some f) = (Some slot, e\<lparr>ke_sessions := (ke_sessions e)[slot :=
             zero_session\<lparr>ks_active := 1, ks_owner_file := Some f\<rparr>],
             ke_active_sessions := ke_active_sessions e + 1\<rparr>)"
        have "slot < length (ke_sessions e)" using free_session_bound [OF free(1)] by simp
        then show thesis
          using H False st al
          by (intro that(3) [OF st sel' free, of "case snd (snd x) of OutRegister r \<Rightarrow> r"])
            (auto simp: HandleRegisterClient_def Let_def q_def [symmetric] sel registered_session_def
              cong del: if_weak_cong)
      qed
    qed
  qed
qed

lemma registered_session_shape:
  obtains client_id generation session where
    "client_id \<noteq> 0" "generation \<noteq> 0"
    "session = FillSession (zero_session\<lparr>ks_active := 1, ks_owner_file := Some f\<rparr>) client_id generation
       status provider (cap_status_flags (ke_capabilities e) AND kFlagSyntheticSnapshot \<noteq> 0)"
    "registered_session e f status provider = (client_id, generation,
       if ke_nested_test_driver e \<noteq> 0 \<and> status = Success then InitializeNestedSession session else session)"
  by (rule that [OF _ _ refl]) (auto simp: registered_session_def Let_def)

lemma register_change:
  assumes "HandleRegisterClient e (Some f) input il ol = (x, e')"
  shows "session_change f e e'"
proof (rule register_cases [OF assms])
  fix slot status provider q
  assume sel: "SelectProvider (Some q) (Some (ke_capabilities e)) (Some ProviderNone) = (status, Some provider)"
    and free: "free_session_from (ke_sessions e) 0 = Some slot" "ke_active_sessions e < kMaxClientSessions"
    and e': "e' = e\<lparr>ke_active_sessions := ke_active_sessions e + 1,
       ke_next_client := fst (registered_session e f status provider),
       ke_sessions := (ke_sessions e)[slot := snd (snd (registered_session e f status provider))]\<rparr>"
  have slot: "slot < length (ke_sessions e)" using free_session_bound [OF free(1)] by simp
  have al: "AllocateSession e (Some f) = (Some slot, e\<lparr>ke_sessions := (ke_sessions e)[slot :=
       zero_session\<lparr>ks_active := 1, ks_owner_file := Some f\<rparr>],
       ke_active_sessions := ke_active_sessions e + 1\<rparr>)"
    using free by (simp add: AllocateSession_def)
  obtain client_id generation session where
    sh: "client_id \<noteq> 0" "generation \<noteq> 0"
    "session = FillSession (zero_session\<lparr>ks_active := 1, ks_owner_file := Some f\<rparr>) client_id generation
       status provider (cap_status_flags (ke_capabilities e) AND kFlagSyntheticSnapshot \<noteq> 0)"
    "registered_session e f status provider = (client_id, generation,
       if ke_nested_test_driver e \<noteq> 0 \<and> status = Success then InitializeNestedSession session else session)"
    by (rule registered_session_shape)
  show ?thesis
    using change_register [OF al sh(1,2) sel, of session "snd (snd (registered_session e f status provider))"]
      slot sh(3,4) unfolding e' by simp
qed (simp_all add: change_none)

lemma query_caps_same:
  "HandleQueryCaps e x il ol = (y, e') \<Longrightarrow> e' = e" "HandleQueryCapsV2 e x il ol = (y, e') \<Longrightarrow> e' = e"
  by (auto simp: HandleQueryCaps_def HandleQueryCapsV2_def split: if_splits)

lemma handle_request_change:
  assumes "handle_request e (Some f) code il ol = (x, e')"
  shows "session_change f e e'"
proof (cases code)
  case (IOCTL_KNHV_QUERY_CAPS a)
  then have "e' = e" using assms query_caps_same(1) [of e a il ol x e'] by (simp add: handle_request_def)
  then show ?thesis by (simp add: change_none)
next
  case (IOCTL_KNHV_QUERY_CAPS_V2 a)
  then have "e' = e" using assms query_caps_same(2) [of e a il ol x e'] by (simp add: handle_request_def)
  then show ?thesis by (simp add: change_none)
next
  case (IOCTL_KNHV_QUERY_SESSION a)
  then have "e' = e" using assms query_session_change [of e f a il ol x e'] by (simp add: handle_request_def)
  then show ?thesis by (simp add: change_none)
qed (use assms in \<open>simp_all add: handle_request_def change_none register_change release_session_change
    acquire_change release_lease_change nested_instruction_change reflect_exit_change\<close>)

lemma device_control_cases:
  assumes "KnHvDispatchDeviceControl st request file_object lock il ol = (x, st')"
  obtains "st' = st" "fst x \<noteq> STATUS_SUCCESS" "snd x = (0, NoOutput)"
  | code f e' where "request = Some code" "file_object = Some f" "ct_open st f"
    "ke_initialized (ct_extension st) \<noteq> 0"
    "handle_request (ct_extension st) (Some f) code il ol = (x, e')" "st' = st\<lparr>ct_extension := e'\<rparr>"
proof (cases "\<exists>code f. request = Some code \<and> file_object = Some f \<and> ct_open st f \<and>
    ke_initialized (ct_extension st) \<noteq> 0 \<and> lock = STATUS_SUCCESS \<and> il \<le> kMaxIoctlBytes \<and> ol \<le> kMaxIoctlBytes")
  case True
  then obtain code f where c: "request = Some code" "file_object = Some f" "ct_open st f"
    "ke_initialized (ct_extension st) \<noteq> 0" "lock = STATUS_SUCCESS" "\<not> (il > kMaxIoctlBytes \<or> ol > kMaxIoctlBytes)"
    by (auto simp: not_less)
  obtain y e' where h: "handle_request (ct_extension st) (Some f) code il ol = (y, e')"
    by (cases "handle_request (ct_extension st) (Some f) code il ol")
  have "x = y" "st' = st\<lparr>ct_extension := e'\<rparr>"
    using assms c h by (simp_all add: KnHvDispatchDeviceControl_def)
  then show thesis using that(2) c h by blast
next
  case False
  then show thesis
    using assms that(1) unfolding KnHvDispatchDeviceControl_def not_less [symmetric]
    by (auto split: option.split_asm if_split_asm)
qed

section \<open>The invariant of the session table\<close>

abbreviation session_active :: "KnHvClientSession \<Rightarrow> bool" where "session_active s \<equiv> ks_active s \<noteq> 0"

definition session_ok :: "bool \<Rightarrow> KnHvClientSession \<Rightarrow> bool" where
  "session_ok test_driver s \<longleftrightarrow>
     (\<not> session_active s \<longrightarrow> s = zero_session) \<and>
     so_virtualization_ready (ks_status s) = 0 \<and>
     (session_active s \<longrightarrow> ks_owner_file s \<noteq> None \<and> so_client_id (ks_status s) \<noteq> 0 \<and>
        so_generation (ks_status s) \<noteq> 0) \<and>
     (ks_nested_ready s \<noteq> 0 \<longrightarrow> test_driver \<and> nested_inv (ks_nested_vcpu s)) \<and>
     (ks_lease_active s = 0 \<longrightarrow> ks_lease s = zero_lease2) \<and>
     (ks_lease_active s \<noteq> 0 \<longrightarrow> ks_nested_ready s \<noteq> 0 \<and> IsOwnerLeaseV2Valid (Some (ks_lease s)) \<and>
        l2_mode (ks_lease s) = HvLeaseModeV2_u32 LeaseSyntheticLab \<and>
        l2_owner_id (ks_lease s) = so_client_id (ks_status s))"

definition sessions_active :: "KnHvClientSession list \<Rightarrow> nat" where
  "sessions_active ss = length (filter session_active ss)"

definition table_ok :: "bool \<Rightarrow> bool \<Rightarrow> KnHvDeviceExtension \<Rightarrow> bool" where
  "table_ok test_driver outer_l0 e \<longleftrightarrow>
     ke_capabilities e = ke_capabilities (KnHvInitializeControlDriver test_driver outer_l0) \<and>
     (ke_nested_test_driver e \<noteq> 0 \<longleftrightarrow> test_driver) \<and>
     length (ke_sessions e) = 4 \<and> unat (ke_active_sessions e) = sessions_active (ke_sessions e) \<and>
     list_all (session_ok test_driver) (ke_sessions e)"

lemma sessions_active_update:
  assumes "slot < length ss"
  shows "sessions_active (ss[slot := s]) + (if session_active (ss ! slot) then 1 else 0) =
    sessions_active ss + (if session_active s then 1 else 0)"
proof -
  have "ss = take slot ss @ ss ! slot # drop (Suc slot) ss" using assms by (simp add: id_take_nth_drop)
  then have "sessions_active ss = sessions_active (take slot ss @ ss ! slot # drop (Suc slot) ss)" by simp
  then show ?thesis using assms by (simp add: sessions_active_def upd_conv_take_nth_drop)
qed

lemma list_all_update: "list_all P xs \<Longrightarrow> P y \<Longrightarrow> list_all P (xs[i := y])"
  by (metis list_all_iff set_update_subsetI subset_code(1) insert_iff set_update_subset_insert)

text \<open>An update of one slot that keeps it in use.\<close>

lemma table_ok_update:
  assumes "table_ok b o' e" and "slot < length (ke_sessions e)" and "session_ok b s"
    and "session_active s \<longleftrightarrow> session_active (ke_sessions e ! slot)"
  shows "table_ok b o' (e\<lparr>ke_sessions := (ke_sessions e)[slot := s]\<rparr>)"
  using assms sessions_active_update [OF assms(2), of s] list_all_update [of "session_ok b" "ke_sessions e" s slot]
  by (simp add: table_ok_def)

lemma table_ok_nth:
  "table_ok b o' e \<Longrightarrow> slot < length (ke_sessions e) \<Longrightarrow> session_ok b (ke_sessions e ! slot)"
  by (auto simp: table_ok_def list_all_length)

lemma zero_session_ok: "session_ok b zero_session"
  by (simp add: session_ok_def zero_session_def zero_status_def)

lemma zero_session_inactive: "ks_active zero_session = 0" "ks_owner_file zero_session = None"
  by (simp_all add: zero_session_def)

lemma InitializeNestedSession_sel [simp]:
  "ks_active (InitializeNestedSession s) = ks_active s" "ks_owner_file (InitializeNestedSession s) = ks_owner_file s"
  "ks_status (InitializeNestedSession s) = ks_status s" "ks_lease (InitializeNestedSession s) = ks_lease s"
  "ks_lease_active (InitializeNestedSession s) = ks_lease_active s"
  by (simp_all add: InitializeNestedSession_def Let_def)

lemma registered_shape:
  assumes "s = FillSession (zero_session\<lparr>ks_active := 1, ks_owner_file := Some f\<rparr>) client_id generation
              status provider synthetic"
    and "s' = s \<or> b \<and> s' = InitializeNestedSession s"
  shows "session_active s'" "ks_owner_file s' = Some f"
  using assms by (auto simp: FillSession_def)

lemma registered_ok:
  assumes "client_id \<noteq> 0" "generation \<noteq> 0"
    and "s = FillSession (zero_session\<lparr>ks_active := 1, ks_owner_file := Some f\<rparr>) client_id generation
              status provider synthetic"
    and "status = Success \<Longrightarrow> synthetic"
    and "s' = s \<or> b \<and> s' = InitializeNestedSession s"
  shows "session_ok b s'"
  using assms InitializeNestedSession_inv [of s]
  by (auto simp: session_ok_def FillSession_def zero_session_def)

text \<open>Only the synthetic test driver grants a provider.\<close>

lemma control_select:
  assumes "SelectProvider (Some q) (Some c) (Some p) = (Success, Some p')"
    and "c = ke_capabilities (KnHvInitializeControlDriver b o')"
  shows "cap_status_flags c AND kFlagSyntheticSnapshot \<noteq> 0"
  using select_success_cases(2) [OF assms(1)] unfolding assms(2)
  by (cases b; cases o') (simp_all add: HasFlag_def KnHvInitializeControlDriver_def MakeFallbackCapabilitySnapshot_def)

lemma control_capabilities:
  "sole_owner (ke_capabilities (KnHvInitializeControlDriver b o')) kFlagKnhvBootL0Active = False"
  "sole_owner (ke_capabilities (KnHvInitializeControlDriver b o')) kFlagWhpPartition = False"
  "CapabilityGeneration (Some (ke_capabilities (KnHvInitializeControlDriver b o'))) = 1"
  "IsVersionedBufferValid (cap_version (ke_capabilities (KnHvInitializeControlDriver b o')))
     (cap_size (ke_capabilities (KnHvInitializeControlDriver b o'))) 56"
  by (cases b; cases o'; simp add: sole_owner_def HasFlag_def KnHvInitializeControlDriver_def
      MakeFallbackCapabilitySnapshot_def CapabilityGeneration_def IsVersionedBufferValid_def)+

lemma snapshot2_generation:
  "IsVersionedBufferValid (cap_version c) (cap_size c) 56 \<Longrightarrow>
   c2_generation (MakeCapabilitySnapshotV2 (Some c)) = CapabilityGeneration (Some c)"
  by (simp add: MakeCapabilitySnapshotV2_def split: prod.split)

text \<open>The control device grants synthetic leases only.\<close>

lemma control_grant:
  assumes "SelectProviderV2 (Some r) (Some (MakeCapabilitySnapshotV2 (Some c))) (Some old) = (Success, Some resp)"
    and "c = ke_capabilities (KnHvInitializeControlDriver b o')"
  shows "q2_mode r = HvLeaseModeV2_u32 LeaseSyntheticLab" "IsOwnerLeaseV2Valid (Some (r2_lease resp))"
    "l2_mode (r2_lease resp) = q2_mode r" "l2_owner_id (r2_lease resp) = sk_client_id (q2_session r)"
proof -
  have "\<not> sole_owner c kFlagKnhvBootL0Active" "\<not> sole_owner c kFlagWhpPartition"
    unfolding assms(2) control_capabilities by simp_all
  then show "q2_mode r = HvLeaseModeV2_u32 LeaseSyntheticLab" using lease_mode_owner [OF assms(1)] by blast
  have "c2_generation (MakeCapabilitySnapshotV2 (Some c)) \<noteq> 0"
    using snapshot2_generation [of c] control_capabilities(3,4) [of b o'] unfolding assms(2) by simp
  then show "IsOwnerLeaseV2Valid (Some (r2_lease resp))" using granted_lease [OF assms(1)] by blast
  show "l2_mode (r2_lease resp) = q2_mode r" "l2_owner_id (r2_lease resp) = sk_client_id (q2_session r)"
    using granted_lease [OF assms(1)] by blast+
qed

lemma session_ok_updates:
  assumes "session_ok b s" and "session_active s"
  shows "session_ok b (s\<lparr>ks_lease := zero_lease2, ks_lease_active := 0\<rparr>)"
    "ks_nested_ready s \<noteq> 0 \<Longrightarrow> nested_inv v \<Longrightarrow> session_ok b (s\<lparr>ks_nested_vcpu := v\<rparr>)"
    "ks_nested_ready s \<noteq> 0 \<Longrightarrow> IsOwnerLeaseV2Valid (Some l) \<Longrightarrow> l2_mode l = HvLeaseModeV2_u32 LeaseSyntheticLab \<Longrightarrow>
     l2_owner_id l = so_client_id (ks_status s) \<Longrightarrow> session_ok b (s\<lparr>ks_lease := l, ks_lease_active := 1\<rparr>)"
  using assms unfolding session_ok_def by simp_all

lemma register_ok:
  assumes al: "AllocateSession e (Some f) = (Some slot, e1)" and nz: "client_id \<noteq> 0" "generation \<noteq> 0"
    and sel: "SelectProvider (Some q) (Some (ke_capabilities e)) (Some ProviderNone) = (status, Some provider)"
    and s: "session = FillSession (ke_sessions e1 ! slot) client_id generation status provider
      (cap_status_flags (ke_capabilities e) AND kFlagSyntheticSnapshot \<noteq> 0)"
    and s': "session' = session \<or> ke_nested_test_driver e \<noteq> 0 \<and> session' = InitializeNestedSession session"
    and ok: "table_ok b o' e"
  shows "table_ok b o' (e1\<lparr>ke_next_client := client_id, ke_sessions := (ke_sessions e1)[slot := session']\<rparr>)"
proof -
  have free: "free_session_from (ke_sessions e) 0 = Some slot" "ke_active_sessions e < 4"
    and e1: "e1 = e\<lparr>ke_sessions := (ke_sessions e)[slot := zero_session\<lparr>ks_active := 1, ks_owner_file := Some f\<rparr>],
      ke_active_sessions := ke_active_sessions e + 1\<rparr>"
    by (rule AllocateSession_cases [of e f]; use al in simp)+
  have slot: "slot < length (ke_sessions e)" "\<not> session_active (ke_sessions e ! slot)"
    using free_session_bound [OF free(1)] by auto
  have fill: "session = FillSession (zero_session\<lparr>ks_active := 1, ks_owner_file := Some f\<rparr>) client_id generation
      status provider (cap_status_flags (ke_capabilities e) AND kFlagSyntheticSnapshot \<noteq> 0)"
    using s slot by (simp add: e1)
  have syn: "cap_status_flags (ke_capabilities e) AND kFlagSyntheticSnapshot \<noteq> 0" if "status = Success"
    using control_select [of q "ke_capabilities e" ProviderNone provider b o'] sel that ok by (simp add: table_ok_def)
  have init: "session' = session \<or> b \<and> session' = InitializeNestedSession session"
    using s' ok by (auto simp: table_ok_def)
  note s2 = registered_ok [OF nz fill syn init] registered_shape(1) [OF fill init]
  have c: "unat (ke_active_sessions e + 1) = unat (ke_active_sessions e) + 1"
    using free(2) unat_add_lem [of "ke_active_sessions e" 1] by (simp add: word_less_nat_alt)
  have "sessions_active ((ke_sessions e)[slot := session']) = Suc (sessions_active (ke_sessions e))"
    using sessions_active_update [OF slot(1), of session'] slot(2) s2(2) by simp
  then show ?thesis
    using ok c list_all_update [of "session_ok b" "ke_sessions e" session' slot] s2(1)
    by (simp add: table_ok_def e1)
qed

lemma release_ok:
  assumes "FindSession e key (Some f) = Some slot" and ok: "table_ok b o' e"
  shows "table_ok b o' (e\<lparr>ke_sessions := (ke_sessions e)[slot := zero_session],
      ke_active_sessions := (if ke_active_sessions e \<noteq> 0 then ke_active_sessions e - 1 else ke_active_sessions e)\<rparr>)"
proof -
  note find = FindSession_SomeD [OF assms(1)]
  have n: "sessions_active (ke_sessions e) = Suc (sessions_active ((ke_sessions e)[slot := zero_session]))"
    using sessions_active_update [OF find(1), of zero_session] find(2) by (simp add: zero_session_inactive)
  then have nz: "ke_active_sessions e \<noteq> 0" using ok by (auto simp: table_ok_def)
  then have "unat (ke_active_sessions e - 1) = unat (ke_active_sessions e) - 1"
    by (rule unat_minus_one)
  then show ?thesis
    using ok n nz list_all_update [of "session_ok b" "ke_sessions e" zero_session slot] zero_session_ok [of b]
    by (simp add: table_ok_def)
qed

lemma session_change_ok:
  assumes "session_change f e e'" and ok: "table_ok b o' e"
  shows "table_ok b o' e'"
  using assms(1)
proof cases
  case (change_register slot e1 client_id generation q status provider session session')
  show ?thesis unfolding change_register(1) by (rule register_ok [OF change_register(2-7) ok])
next
  case (change_release key slot)
  show ?thesis unfolding change_release(1) by (rule release_ok [OF change_release(2) ok])
next
  case (change_grant request slot session old response)
  note find = FindSession_SomeD [OF change_grant(2)] and ss = table_ok_nth [OF ok FindSession_SomeD(1) [OF change_grant(2)]]
  have cap: "ke_capabilities e = ke_capabilities (KnHvInitializeControlDriver b o')" using ok by (simp add: table_ok_def)
  note g = control_grant [OF change_grant(5) cap]
  have "session_ok b ((ke_sessions e ! slot)\<lparr>ks_lease := r2_lease response, ks_lease_active := 1\<rparr>)"
    using session_ok_updates(3) [OF ss find(2), of "r2_lease response"] change_grant(3,6) g find(4) by simp
  then show ?thesis
    unfolding change_grant(1,3) by (rule table_ok_update [OF ok find(1)]) simp
next
  case (change_return key slot)
  note find = FindSession_SomeD [OF change_return(2)]
  show ?thesis
    unfolding change_return(1)
    by (rule table_ok_update [OF ok find(1) session_ok_updates(1) [OF table_ok_nth [OF ok find(1)] find(2)]]) simp
next
  case (change_nested key slot vcpu)
  note find = FindSession_SomeD [OF change_nested(2)] and ss = table_ok_nth [OF ok FindSession_SomeD(1) [OF change_nested(2)]]
  have "nested_inv vcpu"
    using nested_step_inv [OF change_nested(4)] ss change_nested(3) by (simp add: session_ok_def)
  then show ?thesis
    unfolding change_nested(1)
    by (intro table_ok_update [OF ok find(1) session_ok_updates(2) [OF ss find(2) change_nested(3)]]) simp_all
qed (use ok in simp)

section \<open>Runs of the control device\<close>

inductive control_step :: "control_state \<Rightarrow> control_state \<Rightarrow> bool" where
  step_create: "KnHvDispatchCreate st file_object lock = (r, st') \<Longrightarrow> control_step st st'"
| step_close: "KnHvDispatchClose st file_object lock = (r, st') \<Longrightarrow> control_step st st'"
| step_control: "KnHvDispatchDeviceControl st request file_object lock il ol = (x, st') \<Longrightarrow> control_step st st'"
| step_unsupported: "KnHvDispatchUnsupported st lock = (r, st') \<Longrightarrow> control_step st st'"
| step_unload: "control_step st (st\<lparr>ct_extension := KnHvUnloadControlDriver (ct_extension st)\<rparr>)"

definition control_inv :: "bool \<Rightarrow> bool \<Rightarrow> control_state \<Rightarrow> bool" where
  "control_inv test_driver outer_l0 st \<longleftrightarrow> table_ok test_driver outer_l0 (ct_extension st) \<and>
     list_all (\<lambda>s. session_active s \<longrightarrow> ct_open st (the (ks_owner_file s))) (ke_sessions (ct_extension st))"

text \<open>The slots that a change can touch belong to the file, before and after.\<close>

definition slots_of :: "file_id \<Rightarrow> KnHvClientSession list \<Rightarrow> KnHvClientSession list \<Rightarrow> bool" where
  "slots_of f ss ss' \<longleftrightarrow> length ss' = length ss \<and>
     (\<forall>k < length ss. ss' ! k = ss ! k \<or>
        (\<not> session_active (ss ! k) \<or> ks_owner_file (ss ! k) = Some f) \<and>
        (\<not> session_active (ss' ! k) \<or> ks_owner_file (ss' ! k) = Some f))"

lemma slots_of_update:
  assumes "\<not> session_active (ss ! slot) \<or> ks_owner_file (ss ! slot) = Some f"
    and "\<not> session_active s \<or> ks_owner_file s = Some f"
  shows "slots_of f ss (ss[slot := s])"
  unfolding slots_of_def
proof (intro conjI allI impI)
  fix k
  assume k: "k < length ss"
  show "ss[slot := s] ! k = ss ! k \<or> (\<not> session_active (ss ! k) \<or> ks_owner_file (ss ! k) = Some f) \<and>
     (\<not> session_active (ss[slot := s] ! k) \<or> ks_owner_file (ss[slot := s] ! k) = Some f)"
    using assms k by (cases "slot = k") simp_all
qed simp

lemma session_change_slots:
  assumes "session_change f e e'"
  shows "slots_of f (ke_sessions e) (ke_sessions e')"
  using assms
proof cases
  case (change_register slot e1 client_id generation q status provider session session')
  have free: "free_session_from (ke_sessions e) 0 = Some slot"
    and e1: "e1 = e\<lparr>ke_sessions := (ke_sessions e)[slot := zero_session\<lparr>ks_active := 1, ks_owner_file := Some f\<rparr>],
      ke_active_sessions := ke_active_sessions e + 1\<rparr>"
    by (rule AllocateSession_cases [of e f]; use change_register(2) in simp)+
  note slot = free_session_bound [OF free]
  have fill: "session = FillSession (zero_session\<lparr>ks_active := 1, ks_owner_file := Some f\<rparr>) client_id generation
      status provider (cap_status_flags (ke_capabilities e) AND kFlagSyntheticSnapshot \<noteq> 0)"
    using change_register(6) slot by (simp add: e1)
  have init: "session' = session \<or> True \<and> session' = InitializeNestedSession session"
    using change_register(7) by blast
  show ?thesis
    using slots_of_update [of "ke_sessions e" slot f session'] slot
      registered_shape(2) [OF fill init]
    by (simp add: change_register(1) e1)
next
  case (change_release key slot)
  show ?thesis unfolding change_release(1)
    using slots_of_update [of "ke_sessions e" slot f zero_session] FindSession_SomeD [OF change_release(2)]
    by (simp add: zero_session_inactive)
next
  case (change_grant request slot session old response)
  show ?thesis unfolding change_grant(1)
    by (simp, rule slots_of_update) (use FindSession_SomeD [OF change_grant(2)] in \<open>simp_all add: change_grant(3)\<close>)
next
  case (change_return key slot)
  show ?thesis unfolding change_return(1)
    by (simp, rule slots_of_update) (use FindSession_SomeD [OF change_return(2)] in simp_all)
next
  case (change_nested key slot vcpu)
  show ?thesis unfolding change_nested(1)
    by (simp, rule slots_of_update) (use FindSession_SomeD [OF change_nested(2)] in simp_all)
qed (simp add: slots_of_def)

lemma slots_of_owner:
  assumes "slots_of f ss ss'" and "list_all (\<lambda>s. session_active s \<longrightarrow> P (the (ks_owner_file s))) ss" and "P f"
  shows "list_all (\<lambda>s. session_active s \<longrightarrow> P (the (ks_owner_file s))) ss'"
  unfolding list_all_length
proof (intro allI impI)
  fix k
  assume k: "k < length ss'" "session_active (ss' ! k)"
  then have "ss' ! k = ss ! k \<or> ks_owner_file (ss' ! k) = Some f" using assms(1) by (auto simp: slots_of_def)
  then show "P (the (ks_owner_file (ss' ! k)))"
    using assms(1,2,3) k by (auto simp: slots_of_def list_all_length)
qed

text \<open>
C16: A device control request of one file leaves every session of another file exactly as it is,
and makes no session of another file.
\<close>

theorem control_isolation:
  assumes "KnHvDispatchDeviceControl st request (Some f) lock il ol = (x, st')"
    and "session_active s" and "ks_owner_file s = Some g" and "g \<noteq> f"
    and "k < length (ke_sessions (ct_extension st))"
  shows "ke_sessions (ct_extension st) ! k = s \<longleftrightarrow> ke_sessions (ct_extension st') ! k = s"
proof (rule device_control_cases [OF assms(1)])
  fix code f' e'
  assume h: "Some f = Some f'" "handle_request (ct_extension st) (Some f') code il ol = (x, e')"
    "st' = st\<lparr>ct_extension := e'\<rparr>"
  then have "slots_of f (ke_sessions (ct_extension st)) (ke_sessions (ct_extension st'))"
    using session_change_slots [OF handle_request_change] by simp
  then show ?thesis using assms(2-5) by (auto simp: slots_of_def)
qed simp

section \<open>Closing a file\<close>

lemma release_for_file_fst_snd:
  "fst (release_for_file (s # rest) f n) =
     (if session_active s \<and> ks_owner_file s = Some f
      then zero_session # fst (release_for_file rest f (if n \<noteq> 0 then n - 1 else n))
      else s # fst (release_for_file rest f n))"
  "snd (release_for_file (s # rest) f n) =
     snd (release_for_file rest f
       (if session_active s \<and> ks_owner_file s = Some f then if n \<noteq> 0 then n - 1 else n else n))"
  by (simp_all add: case_prod_unfold Let_def)

lemma release_for_file_sessions:
  "fst (release_for_file ss f n) = map (\<lambda>s. if session_active s \<and> ks_owner_file s = Some f then zero_session else s) ss"
proof (induction ss arbitrary: n)
  case (Cons s rest)
  show ?case unfolding release_for_file_fst_snd by (simp only: Cons.IH list.map split: if_split) simp
qed simp

lemma release_for_file_count:
  assumes "sessions_active ss \<le> unat n"
  shows "unat (snd (release_for_file ss f n)) + sessions_active ss =
    unat n + sessions_active (fst (release_for_file ss f n))"
  using assms
proof (induction ss arbitrary: n)
  case (Cons s rest)
  have cons: "sessions_active (t # ts) = (if session_active t then 1 else 0) + sessions_active ts" for t ts
    by (simp add: sessions_active_def)
  show ?case
  proof (cases "session_active s \<and> ks_owner_file s = Some f")
    case True
    then have n: "0 < unat n" using Cons.prems by (simp add: cons)
    then have n0: "n \<noteq> 0" by auto
    have "unat (n - 1) = unat n - 1" using n0 by (rule unat_minus_one)
    then show ?thesis
      using Cons.IH [of "n - 1"] Cons.prems True n n0
      by (simp add: cons release_for_file_fst_snd zero_session_inactive del: release_for_file.simps)
  next
    case False
    then show ?thesis
      using Cons.IH [of n] Cons.prems
      by (auto simp: cons release_for_file_fst_snd simp del: release_for_file.simps split: if_splits)
  qed
qed (simp add: sessions_active_def)

lemma close_extension:
  assumes "ke_initialized (ct_extension st) \<noteq> 0"
  shows "KnHvDispatchClose st (Some f) STATUS_SUCCESS = (STATUS_SUCCESS,
    st\<lparr>ct_extension := ReleaseSessionsForFile (ct_extension st) (Some f), ct_open := (ct_open st)(f := False)\<rparr>)"
  using assms by (simp add: KnHvDispatchClose_def)

lemma ReleaseSessionsForFile_sessions:
  "ke_sessions (ReleaseSessionsForFile e (Some f)) =
     map (\<lambda>s. if session_active s \<and> ks_owner_file s = Some f then zero_session else s) (ke_sessions e)"
  using release_for_file_sessions [of "ke_sessions e" f "ke_active_sessions e"]
  by (simp add: ReleaseSessionsForFile_def case_prod_unfold Let_def)

lemma ReleaseSessionsForFile_frame:
  "ke_capabilities (ReleaseSessionsForFile e (Some f)) = ke_capabilities e"
  "ke_nested_test_driver (ReleaseSessionsForFile e (Some f)) = ke_nested_test_driver e"
  by (simp_all add: ReleaseSessionsForFile_def case_prod_unfold Let_def)

lemma ReleaseSessionsForFile_ok:
  assumes "table_ok b o' e"
  shows "table_ok b o' (ReleaseSessionsForFile e (Some f))"
proof -
  have "unat (ke_active_sessions (ReleaseSessionsForFile e (Some f))) =
      sessions_active (ke_sessions (ReleaseSessionsForFile e (Some f)))"
    using release_for_file_count [of "ke_sessions e" "ke_active_sessions e" f] assms
    by (simp add: ReleaseSessionsForFile_def case_prod_unfold table_ok_def Let_def)
  then show ?thesis
    using assms zero_session_ok
    by (auto simp: table_ok_def ReleaseSessionsForFile_frame ReleaseSessionsForFile_sessions list_all_iff)
qed

lemma ReleaseAllSessions_ok: "table_ok b o' e \<Longrightarrow> table_ok b o' (ReleaseAllSessions e)"
  by (auto simp: table_ok_def ReleaseAllSessions_def zero_session_ok list_all_iff sessions_active_def zero_session_inactive)

theorem close_releases_sessions:
  assumes "control_inv b o' st" and "ke_initialized (ct_extension st) \<noteq> 0"
    and "KnHvDispatchClose st (Some f) STATUS_SUCCESS = (r, st')"
  shows "r = STATUS_SUCCESS \<and> \<not> ct_open st' f \<and>
    length (ke_sessions (ct_extension st')) = 4 \<and>
    (\<forall>k < 4. let s = ke_sessions (ct_extension st) ! k; s' = ke_sessions (ct_extension st') ! k
       in if ks_owner_file s = Some f then s' = zero_session else s' = s) \<and>
    unat (ke_active_sessions (ct_extension st')) = sessions_active (ke_sessions (ct_extension st')) \<and>
    (\<forall>key. FindSession (ct_extension st') key (Some f) = None)"
proof -
  let ?e = "ct_extension st" and ?e' = "ReleaseSessionsForFile (ct_extension st) (Some f)"
  have ok: "table_ok b o' ?e" using assms(1) by (simp add: control_inv_def)
  have len: "length (ke_sessions ?e) = 4" using ok by (simp add: table_ok_def)
  have st': "r = STATUS_SUCCESS" "ct_extension st' = ?e'" "\<not> ct_open st' f"
    using assms(3) unfolding close_extension [OF assms(2)] by auto
  have act: "session_active (ke_sessions ?e ! k)" if "k < 4" "ks_owner_file (ke_sessions ?e ! k) = Some f" for k
    using table_ok_nth [OF ok, of k] that len by (auto simp: session_ok_def zero_session_inactive)
  have "FindSession ?e' key (Some f) = None" for key
  proof (cases "FindSession ?e' key (Some f)")
    case (Some slot)
    then show ?thesis
      using FindSession_SomeD(1-3) [OF Some] len
      by (auto simp: ReleaseSessionsForFile_sessions zero_session_inactive split: if_splits)
  qed
  then show ?thesis
    using st' len act ReleaseSessionsForFile_ok [OF ok, of f]
    by (auto simp: ReleaseSessionsForFile_sessions table_ok_def)
qed

lemma table_ok_initial: "table_ok b o' (KnHvInitializeControlDriver b o')"
  by (simp add: table_ok_def KnHvInitializeControlDriver_def Let_def list_all_iff zero_session_ok
      sessions_active_def zero_session_inactive)

lemma control_inv_open:
  assumes "control_inv b o' st" and "\<And>g. ct_open st g \<Longrightarrow> ct_open st' g" and "ct_extension st' = ct_extension st"
  shows "control_inv b o' st'"
  using assms by (auto simp: control_inv_def list_all_iff)

lemma control_step_inv: "control_step st st' \<Longrightarrow> control_inv b o' st \<Longrightarrow> control_inv b o' st'"
proof (induction rule: control_step.induct)
  case (step_create st file_object lock r st')
  then show ?case
    by (intro control_inv_open [OF step_create(2)])
      (auto simp: KnHvDispatchCreate_def split: if_splits option.splits)
next
  case (step_close st file_object lock r st')
  show ?case
  proof (cases "st' = st")
    case False
    then obtain f where f: "file_object = Some f"
      "st' = st\<lparr>ct_extension := ReleaseSessionsForFile (ct_extension st) (Some f), ct_open := (ct_open st)(f := False)\<rparr>"
      using step_close(1) by (auto simp: KnHvDispatchClose_def split: if_splits option.splits)
    have ok: "table_ok b o' (ct_extension st)" using step_close(2) by (simp add: control_inv_def)
    have "the (ks_owner_file s) \<noteq> f" if "s \<in> set (ke_sessions (ct_extension st))" "session_active s" "ks_owner_file s \<noteq> Some f" for s
      using ok that by (auto simp: table_ok_def list_all_iff session_ok_def)
    then show ?thesis
      using step_close(2) ReleaseSessionsForFile_ok [OF ok, of f]
      by (auto simp: control_inv_def f list_all_iff ReleaseSessionsForFile_sessions zero_session_inactive)
  qed (use step_close in simp)
next
  case (step_control st request file_object lock il ol x st')
  show ?case
  proof (rule device_control_cases [OF step_control(1)])
    fix code f e'
    assume c: "ct_open st f" "handle_request (ct_extension st) (Some f) code il ol = (x, e')"
      "st' = st\<lparr>ct_extension := e'\<rparr>"
    note ch = handle_request_change [OF c(2)]
    show ?thesis
      using step_control(2) session_change_ok [OF ch] c(1)
        slots_of_owner [OF session_change_slots [OF ch], of "ct_open st"]
      by (simp add: control_inv_def c(3))
  qed (use step_control(2) in simp)
next
  case (step_unsupported st lock r st')
  then show ?case by (auto simp: KnHvDispatchUnsupported_def split: if_splits)
next
  case (step_unload st)
  then show ?case
    using ReleaseAllSessions_ok [of b o' "(ct_extension st)\<lparr>ke_initialized := 0\<rparr>"]
    by (auto simp: control_inv_def KnHvUnloadControlDriver_def table_ok_def ReleaseAllSessions_def list_all_iff
        zero_session_inactive)
qed

interpretation control: invariant_machine control_step "control_inv b o'" for b o'
  by unfold_locales (rule control_step_inv)

definition initial_control :: "bool \<Rightarrow> bool \<Rightarrow> control_state" where
  "initial_control test_driver outer_l0 =
     \<lparr>ct_extension = KnHvInitializeControlDriver test_driver outer_l0, ct_open = (\<lambda>_. False)\<rparr>"

lemma initial_control_inv: "control_inv b o' (initial_control b o')"
proof -
  have "ke_sessions (KnHvInitializeControlDriver b o') = replicate 4 zero_session"
    by (simp add: KnHvInitializeControlDriver_def Let_def)
  then show ?thesis
    using table_ok_initial [of b o'] by (simp add: control_inv_def initial_control_def list_all_iff zero_session_inactive)
qed

text \<open>
C15: In every state the control device reaches by any sequence of create, close, device control,
unsupported and unload requests, the session table has four slots and an exact count, free slots
are zeroed, sessions in use have an open owner file and non-zero keys, nested CPUs satisfy their
invariant, and active leases are valid synthetic leases of their session.
\<close>

theorem control_reachable_invariant:
  assumes "control_step\<^sup>*\<^sup>* (initial_control b o') st"
  shows "control_inv b o' st"
  using control.star_inv [OF assms initial_control_inv] .

text \<open>
C17: In every reachable state of the control device no session claims to be ready for
virtualization, every active lease is a valid synthetic lease owned by its client, and without
the test driver there is no lease and no nested CPU at all.
\<close>

theorem control_claims_no_hardware:
  assumes "control_step\<^sup>*\<^sup>* (initial_control b o') st" and "s \<in> set (ke_sessions (ct_extension st))"
  shows "so_virtualization_ready (ks_status s) = 0 \<and>
    (\<not> b \<longrightarrow> ks_nested_ready s = 0 \<and> ks_lease_active s = 0) \<and>
    (ks_lease_active s \<noteq> 0 \<longrightarrow> l2_mode (ks_lease s) = HvLeaseModeV2_u32 LeaseSyntheticLab \<and>
       l2_owner_id (ks_lease s) = so_client_id (ks_status s) \<and> IsOwnerLeaseV2Valid (Some (ks_lease s)))"
proof -
  have "session_ok b s"
    using control.star_inv [OF assms(1) initial_control_inv] assms(2)
    by (simp add: control_inv_def table_ok_def list_all_iff)
  then show ?thesis by (auto simp: session_ok_def)
qed

section \<open>Refused requests\<close>

lemma handler_inert:
  "HandleQueryCaps e a il ol = (x, e') \<Longrightarrow> fst x = STATUS_SUCCESS \<or> e' = e \<and> snd x = (0, NoOutput)"
  "HandleQueryCapsV2 e a il ol = (x, e') \<Longrightarrow> fst x = STATUS_SUCCESS \<or> e' = e \<and> snd x = (0, NoOutput)"
  "HandleQuerySession e (Some f) q il ol = (x, e') \<Longrightarrow> fst x = STATUS_SUCCESS \<or> e' = e \<and> snd x = (0, NoOutput)"
  "HandleReleaseSession e (Some f) q il = (x, e') \<Longrightarrow> fst x = STATUS_SUCCESS \<or> e' = e \<and> snd x = (0, NoOutput)"
  "HandleReleaseLeaseV2 e (Some f) rl il ol = (x, e') \<Longrightarrow> fst x = STATUS_SUCCESS \<or> e' = e \<and> snd x = (0, NoOutput)"
  "HandleAcquireLeaseV2 e (Some f) al il ol = (x, e') \<Longrightarrow> fst x = STATUS_SUCCESS \<or> e' = e \<and> snd x = (0, NoOutput)"
  "HandleNestedInstruction e (Some f) ni il ol = (x, e') \<Longrightarrow> fst x = STATUS_SUCCESS \<or> e' = e \<and> snd x = (0, NoOutput)"
  "HandleReflectExit e (Some f) nx il ol = (x, e') \<Longrightarrow> fst x = STATUS_SUCCESS \<or> e' = e \<and> snd x = (0, NoOutput)"
  unfolding HandleQueryCaps_def HandleQueryCapsV2_def HandleQuerySession_def HandleReleaseSession_def
    HandleReleaseLeaseV2_def HandleAcquireLeaseV2_def HandleNestedInstruction_def HandleReflectExit_def
    Let_def case_prod_unfold
  by (auto split: if_split_asm option.split_asm)

lemma register_inert:
  "HandleRegisterClient e (Some f) a il ol = (x, e') \<Longrightarrow> fst x = STATUS_SUCCESS \<or> e' = e \<and> snd x = (0, NoOutput)"
  by (erule register_cases) simp_all

text \<open>
C18: A device control request that completes with an error status changes nothing and returns no
output.
\<close>

theorem control_failure_inert:
  assumes "KnHvDispatchDeviceControl st request file_object lock il ol = (x, st')" and "fst x \<noteq> STATUS_SUCCESS"
  shows "st' = st \<and> snd x = (0, NoOutput)"
proof (rule device_control_cases [OF assms(1)])
  fix code f e'
  assume h: "handle_request (ct_extension st) (Some f) code il ol = (x, e')" "st' = st\<lparr>ct_extension := e'\<rparr>"
  have "fst x = STATUS_SUCCESS \<or> e' = ct_extension st \<and> snd x = (0, NoOutput)"
    using h(1) by (cases code) (simp_all add: handle_request_def handler_inert register_inert, auto)
  then show ?thesis using assms(2) h(2) by simp
qed simp

section \<open>Sessions and leases come and go\<close>

lemma find_session_same:
  assumes "list_all2 (\<lambda>s s'. ks_active s' = ks_active s \<and> ks_owner_file s' = ks_owner_file s \<and> ks_status s' = ks_status s) ss ss'"
  shows "find_session_from ss' k key f = find_session_from ss k key f"
  using assms by (induction arbitrary: k rule: list_all2_induct) simp_all

lemma FindSession_lease:
  "slot < length (ke_sessions e) \<Longrightarrow>
   FindSession (e\<lparr>ke_sessions := (ke_sessions e)[slot := (ke_sessions e ! slot)\<lparr>ks_lease := l, ks_lease_active := a\<rparr>]\<rparr>) key file_object =
   FindSession e key file_object"
  unfolding FindSession_def
  by (auto simp: list_all2_conv_all_nth nth_list_update intro!: find_session_same split: option.split)

lemma device_control_success:
  assumes "KnHvDispatchDeviceControl st (Some code) (Some f) lock il ol = (x, st')" and "fst x = STATUS_SUCCESS"
  obtains e' where "handle_request (ct_extension st) (Some f) code il ol = (x, e')" "st' = st\<lparr>ct_extension := e'\<rparr>"
    "ct_open st f" "ke_initialized (ct_extension st) \<noteq> 0"
  by (rule device_control_cases [OF assms(1)]) (use assms(2) that in auto)

lemma acquire_success:
  assumes "HandleAcquireLeaseV2 e (Some f) a il ol = ((STATUS_SUCCESS, n, OutAcquire out), e')"
    and "r2_status (ao_response out) = Success"
  obtains slot old where "FindSession e (q2_session (al_request a)) (Some f) = Some slot"
    "ks_lease_active (ke_sessions e ! slot) = 0"
    "SelectProviderV2 (Some (al_request a)) (Some (MakeCapabilitySnapshotV2 (Some (ke_capabilities e)))) (Some old) =
       (Success, Some (ao_response out))"
    "e' = e\<lparr>ke_sessions := (ke_sessions e)[slot :=
       (ke_sessions e ! slot)\<lparr>ks_lease := r2_lease (ao_response out), ks_lease_active := 1\<rparr>]\<rparr>"
proof (cases "FindSession e (q2_session (al_request a)) (Some f)")
  case None
  then show thesis using assms(1) by (auto simp: HandleAcquireLeaseV2_def Let_def split: if_splits)
next
  case (Some slot)
  let ?c = "MakeCapabilitySnapshotV2 (Some (ke_capabilities e))"
  define old where "old = zero_response2\<lparr>r2_size := 112, r2_version := kAbiV2Version,
    r2_request_id := q2_request_id (al_request a)\<rparr>"
  obtain resp where sel: "SelectProviderV2 (Some (al_request a)) (Some ?c) (Some old) = (r2_status resp, Some resp)"
    using select2_response by blast
  have r: "resp\<lparr>r2_status := r2_status resp\<rparr> = resp" by simp
  have "ks_lease_active (ke_sessions e ! slot) = 0 \<and> ao_response out = resp \<and>
      e' = e\<lparr>ke_sessions := (ke_sessions e)[slot :=
       (ke_sessions e ! slot)\<lparr>ks_lease := r2_lease resp, ks_lease_active := 1\<rparr>]\<rparr>"
    using assms sel unfolding HandleAcquireLeaseV2_def
    by (auto simp: Let_def Some old_def [symmetric] r split: if_splits)
  then show thesis using that Some sel assms(2) by simp
qed

theorem lease_round_trip:
  assumes inv: "control_inv b o' st"
    and acq: "KnHvDispatchDeviceControl st (Some (IOCTL_KNHV_ACQUIRE_LEASE_V2 a)) (Some f) STATUS_SUCCESS il ol =
      ((STATUS_SUCCESS, n, OutAcquire out), st1)" "r2_status (ao_response out) = Success"
    and rel: "rl_session rq = q2_session (al_request a)" "rl_lease rq = r2_lease (ao_response out)"
      "sk_reserved (rl_session rq) = 0"
      "VersionedV2InputFits (rh_version rq) (rh_size rq) 64 il'" "il' \<le> kMaxIoctlBytes" "24 \<le> ol'" "ol' \<le> kMaxIoctlBytes"
  shows "KnHvDispatchDeviceControl st1 (Some (IOCTL_KNHV_RELEASE_LEASE_V2 rq)) (Some f) STATUS_SUCCESS il' ol' =
    ((STATUS_SUCCESS, 24, OutReleaseLease \<lparr>rlo_size = 24, rlo_version = kAbiV2Version,
       rlo_request_id = rh_request_id rq, rlo_status = Success\<rparr>), st)"
proof -
  let ?e = "ct_extension st" and ?l = "r2_lease (ao_response out)"
  have ok: "table_ok b o' ?e" using inv by (simp add: control_inv_def)
  have cap: "ke_capabilities ?e = ke_capabilities (KnHvInitializeControlDriver b o')" using ok by (simp add: table_ok_def)
  obtain e' where h: "HandleAcquireLeaseV2 ?e (Some f) a il ol = ((STATUS_SUCCESS, n, OutAcquire out), e')"
    and st1: "st1 = st\<lparr>ct_extension := e'\<rparr>" and op: "ct_open st f" "ke_initialized ?e \<noteq> 0"
    by (rule device_control_success [OF acq(1)]) (simp_all add: handle_request_def)
  obtain slot old where find: "FindSession ?e (q2_session (al_request a)) (Some f) = Some slot"
    and free: "ks_lease_active (ke_sessions ?e ! slot) = 0"
    and sel: "SelectProviderV2 (Some (al_request a)) (Some (MakeCapabilitySnapshotV2 (Some (ke_capabilities ?e)))) (Some old) =
       (Success, Some (ao_response out))"
    and e': "e' = ?e\<lparr>ke_sessions := (ke_sessions ?e)[slot := (ke_sessions ?e ! slot)\<lparr>ks_lease := ?l, ks_lease_active := 1\<rparr>]\<rparr>"
    by (rule acquire_success [OF h acq(2)])
  note g = control_grant [OF sel cap]
  have slot: "slot < length (ke_sessions ?e)" by (rule FindSession_SomeD(1) [OF find])
  have zero: "ks_lease (ke_sessions ?e ! slot) = zero_lease2"
    using table_ok_nth [OF ok slot] free by (simp add: session_ok_def)
  have restored: "(ke_sessions ?e ! slot)\<lparr>ks_lease := zero_lease2, ks_lease_active := 0\<rparr> = ke_sessions ?e ! slot"
    using zero free by simp
  have find': "FindSession e' (rl_session rq) (Some f) = Some slot"
    unfolding e' rel(1) FindSession_lease [OF slot] by (rule find)
  have il: "\<not> il' < 64" using rel(4) by (simp add: VersionedV2InputFits_def not_less)
  have "HandleReleaseLeaseV2 e' (Some f) rq il' ol' =
    ((STATUS_SUCCESS, 24, OutReleaseLease \<lparr>rlo_size = 24, rlo_version = kAbiV2Version,
       rlo_request_id = rh_request_id rq, rlo_status = Success\<rparr>),
     e'\<lparr>ke_sessions := (ke_sessions e')[slot := (ke_sessions e' ! slot)\<lparr>ks_lease := zero_lease2, ks_lease_active := 0\<rparr>]\<rparr>)"
    using il rel g(1-3) find' slot
    by (simp add: HandleReleaseLeaseV2_def Let_def e' not_less)
  moreover have "e'\<lparr>ke_sessions := (ke_sessions e')[slot := (ke_sessions e' ! slot)\<lparr>ks_lease := zero_lease2, ks_lease_active := 0\<rparr>]\<rparr> = ?e"
    using slot restored by (simp add: e')
  ultimately show ?thesis
    using rel(5-7) op by (simp add: KnHvDispatchDeviceControl_def handle_request_def st1 e' not_less)
qed

lemma find_session_fresh:
  assumes "k < length ss" and "\<forall>s \<in> set ss. session_active s \<longrightarrow> so_client_id (ks_status s) \<noteq> sk_client_id key"
    and "session_active t" and "so_client_id (ks_status t) = sk_client_id key"
    and "so_generation (ks_status t) = sk_generation key"
  shows "find_session_from (ss[k := t]) j key f = (if ks_owner_file t = Some f then Some (j + k) else None)"
  using assms
proof (induction ss arbitrary: k j)
  case (Cons s ss)
  have none: "find_session_from xs i key f = None"
    if "\<forall>s \<in> set xs. session_active s \<longrightarrow> so_client_id (ks_status s) \<noteq> sk_client_id key" for xs i
    using that by (induction xs arbitrary: i) auto
  show ?case
  proof (cases k)
    case 0
    then show ?thesis using Cons.prems none [of ss "j + 1"] by auto
  next
    case (Suc m)
    then show ?thesis using Cons.IH [of m "j + 1"] Cons.prems by auto
  qed
qed simp

lemma registered_session_status:
  "so_client_id (ks_status (snd (snd (registered_session e f status provider)))) = fst (registered_session e f status provider)"
  "so_generation (ks_status (snd (snd (registered_session e f status provider)))) = fst (snd (registered_session e f status provider))"
  "so_status (ks_status (snd (snd (registered_session e f status provider)))) = status"
  "so_provider (ks_status (snd (snd (registered_session e f status provider)))) = provider"
  "session_active (snd (snd (registered_session e f status provider)))"
  "ks_owner_file (snd (snd (registered_session e f status provider))) = Some f"
  "fst (registered_session e f status provider) \<noteq> 0" "fst (snd (registered_session e f status provider)) \<noteq> 0"
  by (simp_all add: registered_session_def Let_def FillSession_def)

lemma query_session_found:
  assumes "ct_open st g" and "ke_initialized (ct_extension st) \<noteq> 0"
    and "VersionedInputFits (rh_version q) (rh_size q) 32 il" and "sk_reserved (qs_session q) = 0"
    and "il \<le> kMaxIoctlBytes" and "48 \<le> ol" and "ol \<le> kMaxIoctlBytes"
  shows "KnHvDispatchDeviceControl st (Some (IOCTL_KNHV_QUERY_SESSION q)) (Some g) STATUS_SUCCESS il ol =
    (case FindSession (ct_extension st) (qs_session q) (Some g) of
       None \<Rightarrow> ((STATUS_INVALID_HANDLE, 0, NoOutput), st)
     | Some slot \<Rightarrow> ((STATUS_SUCCESS, 48, OutSession (ks_status (ke_sessions (ct_extension st) ! slot))), st))"
proof -
  have "\<not> il < 32" using assms(3) by (simp add: VersionedInputFits_def not_less)
  then show ?thesis
    using assms by (simp add: KnHvDispatchDeviceControl_def handle_request_def HandleQuerySession_def not_less split: option.split)
qed

theorem register_then_query:
  assumes reg: "KnHvDispatchDeviceControl st (Some (IOCTL_KNHV_REGISTER_CLIENT a)) (Some f) STATUS_SUCCESS il ol =
      ((STATUS_SUCCESS, n, OutRegister r), st1)" "ro_client_id r \<noteq> 0"
    and fresh: "\<forall>s \<in> set (ke_sessions (ct_extension st)). session_active s \<longrightarrow> so_client_id (ks_status s) \<noteq> ro_client_id r"
    and q: "qs_session q = \<lparr>sk_client_id = ro_client_id r, sk_generation = ro_generation r, sk_reserved = 0\<rparr>"
      "VersionedInputFits (rh_version q) (rh_size q) 32 il'" "il' \<le> kMaxIoctlBytes" "48 \<le> ol'" "ol' \<le> kMaxIoctlBytes"
    and g: "ct_open st g"
  shows "if g = f
    then \<exists>s. KnHvDispatchDeviceControl st1 (Some (IOCTL_KNHV_QUERY_SESSION q)) (Some g) STATUS_SUCCESS il' ol' =
        ((STATUS_SUCCESS, 48, OutSession s), st1) \<and>
      so_client_id s = ro_client_id r \<and> so_generation s = ro_generation r \<and> so_status s = ro_status r \<and>
      so_provider s = ro_provider r \<and> so_registration_ready s = ro_registration_ready r \<and>
      so_virtualization_ready s = ro_virtualization_ready r
    else KnHvDispatchDeviceControl st1 (Some (IOCTL_KNHV_QUERY_SESSION q)) (Some g) STATUS_SUCCESS il' ol' =
        ((STATUS_INVALID_HANDLE, 0, NoOutput), st1)"
proof -
  obtain e' where h: "HandleRegisterClient (ct_extension st) (Some f) a il ol = ((STATUS_SUCCESS, n, OutRegister r), e')"
    and st1: "st1 = st\<lparr>ct_extension := e'\<rparr>" and init: "ke_initialized (ct_extension st) \<noteq> 0"
    by (rule device_control_success [OF reg(1)]) (simp_all add: handle_request_def)
  show ?thesis
  proof (rule register_cases [OF h])
    fix slot status provider r'
    let ?s = "registered_session (ct_extension st) f status provider"
    assume free: "free_session_from (ke_sessions (ct_extension st)) 0 = Some slot"
      and x: "(STATUS_SUCCESS, n, OutRegister r) = (STATUS_SUCCESS, 56, OutRegister r')"
      and r': "ro_status r' = status" "ro_provider r' = provider" "ro_client_id r' = fst ?s"
        "ro_generation r' = fst (snd ?s)"
        "ro_registration_ready r' = so_registration_ready (ks_status (snd (snd ?s)))"
        "ro_virtualization_ready r' = so_virtualization_ready (ks_status (snd (snd ?s)))"
      and e': "e' = (ct_extension st)\<lparr>ke_active_sessions := ke_active_sessions (ct_extension st) + 1,
         ke_next_client := fst ?s, ke_sessions := (ke_sessions (ct_extension st))[slot := snd (snd ?s)]\<rparr>"
    note st = registered_session_status [of "ct_extension st" f status provider]
    have slot: "slot < length (ke_sessions (ct_extension st))" using free_session_bound [OF free] by simp
    have found: "FindSession e' (qs_session q) (Some g) = (if g = f then Some slot else None)"
      using find_session_fresh [OF slot, of "qs_session q" "snd (snd ?s)" 0 g] fresh st x r' q(1)
      by (simp add: FindSession_def e')
    have "ke_sessions e' ! slot = snd (snd ?s)" "ke_initialized e' \<noteq> 0" using slot init by (simp_all add: e')
    then have "KnHvDispatchDeviceControl st1 (Some (IOCTL_KNHV_QUERY_SESSION q)) (Some g) STATUS_SUCCESS il' ol' =
      (if g = f then ((STATUS_SUCCESS, 48, OutSession (ks_status (snd (snd ?s)))), st1)
       else ((STATUS_INVALID_HANDLE, 0, NoOutput), st1))"
      using query_session_found [of st1 g q il' ol'] g q found by (simp add: st1)
    then show ?thesis using x r' st by (cases "g = f") simp_all
  qed (use reg(2) in simp_all)
qed

section \<open>A client of the test driver\<close>

definition sample_file :: file_id where "sample_file = 1"

definition sample_registration :: HvRegisterClientIn where
  "sample_registration = \<lparr>rh_version = 1, rh_size = 96, rh_request_id = 9, rc_registration =
     \<lparr>pg_version = 1, pg_size = 80, pg_provider_guid = kKnownTestProviderGuid, pg_min_abi_version = 1,
      pg_max_abi_version = 1, pg_kind = HvProviderKind_u32 ProviderCooperativeL1, pg_security_policy_version = 1,
      pg_advertised_features = kCapNestedVmx, pg_max_vcpus = 1, pg_max_guest_pages = 16,
      pg_policy_hash = kTestSecurityPolicyHash, pg_reserved = [0, 0]\<rparr>\<rparr>"

definition sample_opened :: control_state where
  "sample_opened = (initial_control True False)\<lparr>ct_open := (\<lambda>_. False)(sample_file := True, 2 := True)\<rparr>"

abbreviation sample_capabilities :: HvCapabilitySnapshot where
  "sample_capabilities \<equiv> ke_capabilities (KnHvInitializeControlDriver True False)"

lemma sample_capabilities_alt:
  "sample_capabilities = \<lparr>cap_version = 1, cap_size = 56, cap_feature_bits = 47, cap_max_physical_address_bits = 48,
     cap_e_vmcs_version = 0, cap_whp_api_version = 0, cap_hypervisor_vendor_length = 0, cap_status_flags = 80,
     cap_boot_generation = 1, cap_owner_generation = 1, cap_feature_hash = 0\<rparr>"
  by (simp add: KnHvInitializeControlDriver_def MakeFallbackCapabilitySnapshot_def Let_def)

definition sample_session :: KnHvClientSession where
  "sample_session = snd (snd (registered_session (KnHvInitializeControlDriver True False) sample_file
     Success ProviderCooperativeL1))"

definition sample_registered :: control_state where
  "sample_registered = sample_opened\<lparr>ct_extension := (KnHvInitializeControlDriver True False)
     \<lparr>ke_active_sessions := 1, ke_next_client := 1, ke_sessions := sample_session # replicate 3 zero_session\<rparr>\<rparr>"

definition sample_reply :: HvRegisterClientOut where
  "sample_reply = \<lparr>ro_version = 1, ro_size = 56, ro_request_id = 9, ro_status = Success,
     ro_provider = ProviderCooperativeL1, ro_load_success = 1, ro_registration_ready = 1,
     ro_virtualization_ready = 0, ro_client_id = 1, ro_generation = 1\<rparr>"

lemma sample_shape:
  "RegistrationShapeValid (rc_registration sample_registration)" "IsKnownTestProvider (rc_registration sample_registration)"
  by (simp_all add: RegistrationShapeValid_def IsKnownTestProvider_def sample_registration_def IsVersionedBufferValid_def
      IsProviderKindValid_def IsZeroWords_def Let_def kKnownTestProviderGuid_def push_bit_eq_mult list_all_iff)

lemma sample_select_l1:
  "SelectProvider (Some (MakeProviderRequest (rc_registration sample_registration) True)) (Some sample_capabilities)
     (Some ProviderNone) = (Success, Some ProviderCooperativeL1)"
  unfolding sample_capabilities_alt
  by (simp add: SelectProvider_def MakeProviderRequest_def sample_registration_def RequestIsValid_def
      SnapshotIsValid_def IsVersionedBufferValid_def HasFlag_def HasFeature_def Let_def)

lemma sample_extension:
  "ke_nested_test_driver (KnHvInitializeControlDriver True False) = 1"
  "ke_initialized (KnHvInitializeControlDriver True False) = 1"
  "ke_next_client (KnHvInitializeControlDriver True False) = 0"
  "ke_active_sessions (KnHvInitializeControlDriver True False) = 0"
  "ke_sessions (KnHvInitializeControlDriver True False) = [zero_session, zero_session, zero_session, zero_session]"
proof -
  have four: "replicate 4 x = [x, x, x, x]" for x :: KnHvClientSession by (simp add: numeral_eq_Suc)
  show "ke_sessions (KnHvInitializeControlDriver True False) = [zero_session, zero_session, zero_session, zero_session]"
    by (simp add: KnHvInitializeControlDriver_def Let_def four)
qed (simp_all add: KnHvInitializeControlDriver_def Let_def)

lemma sample_capability_sel:
  "cap_owner_generation sample_capabilities = 1" "cap_status_flags sample_capabilities = 80"
  by (simp_all only: sample_capabilities_alt HvCapabilitySnapshot.simps)

lemma sample_session_status:
  "ks_status sample_session = \<lparr>so_version = 1, so_size = 48, so_client_id = 1, so_generation = 1,
     so_load_success = 1, so_registration_ready = 1, so_virtualization_ready = 0, so_status = Success,
     so_provider = ProviderCooperativeL1\<rparr>"
  "ks_owner_file sample_session = Some sample_file" "ks_active sample_session = 1"
  "ks_nested_ready sample_session = 1" "ks_lease_active sample_session = 0"
  by (simp_all add: sample_session_def registered_session_def sample_extension sample_capability_sel)
    (simp_all add: FillSession_def zero_session_def InitializeNestedSession_def Let_def)

lemma sample_register:
  "KnHvDispatchDeviceControl sample_opened (Some (IOCTL_KNHV_REGISTER_CLIENT sample_registration)) (Some sample_file)
     STATUS_SUCCESS 96 56 = ((STATUS_SUCCESS, 56, OutRegister sample_reply), sample_registered)"
proof -
  let ?e = "KnHvInitializeControlDriver True False"
  have fits: "VersionedInputFits (rh_version sample_registration) (rh_size sample_registration) 96 96"
    by (simp add: VersionedInputFits_def IsVersionedBufferValid_def sample_registration_def)
  have new: "InitializeNestedSession (FillSession (zero_session\<lparr>ks_active := 1, ks_owner_file := Some sample_file\<rparr>)
      1 1 Success ProviderCooperativeL1 True) = sample_session"
    by (simp add: sample_session_def registered_session_def sample_extension sample_capability_sel)
  have fill: "so_registration_ready (ks_status (FillSession s 1 1 Success ProviderCooperativeL1 True)) = 1"
    "so_virtualization_ready (ks_status (FillSession s 1 1 Success ProviderCooperativeL1 True)) = 0" for s
    by (simp_all add: FillSession_def)
  have three: "replicate 3 x = [x, x, x]" for x :: KnHvClientSession by (simp add: numeral_eq_Suc)
  have id: "rh_request_id sample_registration = 9" by (simp add: sample_registration_def)
  have "HandleRegisterClient ?e (Some sample_file) sample_registration 96 56 =
    ((STATUS_SUCCESS, 56, OutRegister sample_reply), ct_extension sample_registered)"
    using fill
    by (simp add: HandleRegisterClient_def fits sample_shape sample_select_l1 sample_extension Let_def
        AllocateSession_def sample_reply_def sample_registered_def sample_capability_sel new three id zero_session_inactive)
  then show ?thesis
    by (simp add: KnHvDispatchDeviceControl_def handle_request_def sample_opened_def initial_control_def
        sample_extension sample_registered_def)
qed

lemma sample_control_run: "control_step\<^sup>*\<^sup>* (initial_control True False) sample_registered"
proof -
  let ?s0 = "initial_control True False"
  let ?s1 = "?s0\<lparr>ct_open := (\<lambda>_. False)(sample_file := True)\<rparr>"
  have "KnHvDispatchCreate ?s0 (Some sample_file) STATUS_SUCCESS = (STATUS_SUCCESS, ?s1)"
    by (simp add: KnHvDispatchCreate_def initial_control_def sample_extension)
  then have a: "control_step ?s0 ?s1" by (rule step_create)
  have "KnHvDispatchCreate ?s1 (Some 2) STATUS_SUCCESS = (STATUS_SUCCESS, sample_opened)"
    by (simp add: KnHvDispatchCreate_def initial_control_def sample_extension sample_opened_def)
  then have b: "control_step ?s1 sample_opened" by (rule step_create)
  from sample_register have c: "control_step sample_opened sample_registered" by (rule step_control)
  show ?thesis using a b c by (meson converse_rtranclp_into_rtranclp r_into_rtranclp)
qed

lemma sample_registered_inv: "control_inv True False sample_registered"
  using control.star_inv [OF sample_control_run initial_control_inv] .

lemma sample_registered_sel:
  "ke_sessions (ct_extension sample_registered) = [sample_session, zero_session, zero_session, zero_session]"
  "ke_initialized (ct_extension sample_registered) = 1" "ct_open sample_registered sample_file" "ct_open sample_registered 2"
  "ke_capabilities (ct_extension sample_registered) = sample_capabilities"
  "ke_active_sessions (ct_extension sample_registered) = 1"
  by (simp_all add: sample_registered_def sample_opened_def sample_extension numeral_eq_Suc)

theorem control_reachable_invariant_witness: "control_inv True False sample_registered"
  using control_reachable_invariant [OF sample_control_run] .

theorem control_claims_no_hardware_witness: "so_virtualization_ready (ks_status sample_session) = 0"
  using control_claims_no_hardware [OF sample_control_run, of sample_session] by (simp add: sample_registered_sel)

definition sample_query :: HvQuerySessionIn where
  "sample_query = \<lparr>rh_version = 1, rh_size = 32, rh_request_id = 4,
     qs_session = \<lparr>sk_client_id = 1, sk_generation = 1, sk_reserved = 0\<rparr>\<rparr>"

lemma sample_foreign_release:
  "KnHvDispatchDeviceControl sample_registered (Some (IOCTL_KNHV_RELEASE_SESSION sample_query)) (Some 2)
     STATUS_SUCCESS 32 0 = ((STATUS_INVALID_HANDLE, 0, NoOutput), sample_registered)"
  by (simp add: KnHvDispatchDeviceControl_def handle_request_def HandleReleaseSession_def sample_registered_sel
      VersionedInputFits_def IsVersionedBufferValid_def sample_query_def FindSession_def sample_session_status
      sample_file_def zero_session_inactive)

theorem control_isolation_witness:
  "ke_sessions (ct_extension sample_registered) ! 0 = sample_session \<longleftrightarrow>
   ke_sessions (ct_extension (snd (KnHvDispatchDeviceControl sample_registered
     (Some (IOCTL_KNHV_RELEASE_SESSION sample_query)) (Some 2) STATUS_SUCCESS 32 0))) ! 0 = sample_session"
  using control_isolation [OF sample_foreign_release, of sample_session sample_file 0]
  by (simp add: sample_foreign_release sample_session_status sample_file_def sample_registered_sel)

theorem control_failure_inert_witness:
  "KnHvDispatchDeviceControl sample_registered (Some (IOCTL_KNHV_RELEASE_SESSION sample_query)) (Some 2)
     STATUS_SUCCESS 32 0 = ((STATUS_INVALID_HANDLE, 0, NoOutput), sample_registered)"
  using control_failure_inert [OF sample_foreign_release] sample_foreign_release by simp

theorem close_releases_sessions_witness:
  "\<exists>st'. KnHvDispatchClose sample_registered (Some sample_file) STATUS_SUCCESS = (STATUS_SUCCESS, st') \<and>
     ke_sessions (ct_extension st') ! 0 = zero_session"
proof -
  have init: "ke_initialized (ct_extension sample_registered) \<noteq> 0" by (simp add: sample_registered_sel)
  from close_releases_sessions [OF sample_registered_inv init close_extension [OF init, of sample_file]]
  show ?thesis unfolding close_extension [OF init]
    by (auto simp: sample_registered_sel sample_session_status Let_def)
qed

lemma sample_query_fits: "VersionedInputFits (rh_version sample_query) (rh_size sample_query) 32 32"
  by (simp add: VersionedInputFits_def IsVersionedBufferValid_def sample_query_def)

theorem register_then_query_witness:
  "\<exists>s. KnHvDispatchDeviceControl sample_registered (Some (IOCTL_KNHV_QUERY_SESSION sample_query)) (Some sample_file)
     STATUS_SUCCESS 32 48 = ((STATUS_SUCCESS, 48, OutSession s), sample_registered) \<and> so_client_id s = 1"
proof -
  have "\<forall>s \<in> set (ke_sessions (ct_extension sample_opened)).
      session_active s \<longrightarrow> so_client_id (ks_status s) \<noteq> ro_client_id sample_reply"
    by (simp add: sample_opened_def initial_control_def sample_extension zero_session_inactive)
  moreover have "ct_open sample_opened sample_file" by (simp add: sample_opened_def)
  moreover have "ro_client_id sample_reply \<noteq> 0" "qs_session sample_query =
      \<lparr>sk_client_id = ro_client_id sample_reply, sk_generation = ro_generation sample_reply, sk_reserved = 0\<rparr>"
    by (simp_all add: sample_reply_def sample_query_def)
  moreover have "ro_client_id sample_reply = 1" by (simp add: sample_reply_def)
  ultimately show ?thesis
    using register_then_query [OF sample_register _ _ _ sample_query_fits, of 48 sample_file] by auto
qed

definition sample_acquire :: HvAcquireLeaseV2In where
  "sample_acquire = \<lparr>al_size = 72, al_version = 2, al_request =
     \<lparr>q2_size = 64, q2_version = 2, q2_request_id = 5,
      q2_session = \<lparr>sk_client_id = 1, sk_generation = 1, sk_reserved = 0\<rparr>,
      q2_required_hardware_features = 0, q2_required_provider_features = kCapNestedVmx,
      q2_required_policy_features = kPolicySyntheticOnly, q2_mode = HvLeaseModeV2_u32 LeaseSyntheticLab,
      q2_flags = 0\<rparr>\<rparr>"

definition sample_granted :: HvProviderResponseV2 where
  "sample_granted = granted (al_request sample_acquire) (MakeCapabilitySnapshotV2 (Some sample_capabilities))
     ProviderCooperativeL1 kLeaseFlagSynthetic"

lemma sample_snapshot_lab:
  "MakeCapabilitySnapshotV2 (Some sample_capabilities) =
     \<lparr>c2_size = 48, c2_version = 2, c2_hardware_features = 7, c2_provider_features = 40,
      c2_policy_features = 12, c2_owner_kind = HvOwnerKindV2_u32 OwnerSyntheticLab,
      c2_state = HvProviderStateV2_u32 StateAvailable, c2_generation = 1\<rparr>"
  unfolding sample_capabilities_alt
  by (simp add: MakeCapabilitySnapshotV2_def owner_view_def zero_snapshot2_def
      CapabilityGeneration_def IsVersionedBufferValid_def)

lemma sample_lab_grant:
  "SelectProviderV2 (Some (al_request sample_acquire)) (Some (MakeCapabilitySnapshotV2 (Some sample_capabilities)))
     (Some old) = (Success, Some sample_granted)"
  by (simp add: SelectProviderV2_def sample_acquire_def sample_snapshot_lab RequestV2Valid_def
      IsRequestModeValid_def IsLeaseModeValid_def RequiredFeaturesKnown_def IsAbiV2BufferValid_def
      IsCapabilitySnapshotV2Valid_def IsOwnerKindValid_def IsProviderStateValid_def HasRequiredFeatures_def
      sample_granted_def granted_def zero_lease2_def)

lemma sample_find:
  "FindSession (ct_extension sample_registered) \<lparr>sk_client_id = 1, sk_generation = 1, sk_reserved = 0\<rparr> (Some sample_file) = Some 0"
  by (simp add: FindSession_def sample_registered_sel sample_session_status)

lemma sample_acquired:
  "\<exists>st1. KnHvDispatchDeviceControl sample_registered (Some (IOCTL_KNHV_ACQUIRE_LEASE_V2 sample_acquire)) (Some sample_file)
     STATUS_SUCCESS 72 120 = ((STATUS_SUCCESS, 120, OutAcquire \<lparr>ao_size = 120, ao_version = 2,
       ao_response = sample_granted\<rparr>), st1)"
proof -
  have ses: "q2_session (al_request sample_acquire) = \<lparr>sk_client_id = 1, sk_generation = 1, sk_reserved = 0\<rparr>"
    "al_version sample_acquire = 2" "al_size sample_acquire = 72" "q2_size (al_request sample_acquire) = 64"
    "q2_version (al_request sample_acquire) = 2"
    by (simp_all add: sample_acquire_def)
  have st: "r2_status sample_granted = Success" "sample_granted\<lparr>r2_status := Success\<rparr> = sample_granted"
    by (simp_all add: sample_granted_def granted_def)
  show ?thesis
    by (simp add: KnHvDispatchDeviceControl_def handle_request_def sample_registered_sel(2-) HandleAcquireLeaseV2_def
        VersionedV2InputFits_def IsAbiV2BufferValid_def ses sample_find sample_lab_grant Let_def st)
      (simp add: sample_registered_sel sample_session_status)
qed

theorem lease_round_trip_witness:
  "\<exists>st1 rq. KnHvDispatchDeviceControl st1 (Some (IOCTL_KNHV_RELEASE_LEASE_V2 rq)) (Some sample_file) STATUS_SUCCESS 64 24 =
    ((STATUS_SUCCESS, 24, OutReleaseLease \<lparr>rlo_size = 24, rlo_version = 2, rlo_request_id = 8, rlo_status = Success\<rparr>),
     sample_registered)"
proof -
  obtain st1 where acq: "KnHvDispatchDeviceControl sample_registered (Some (IOCTL_KNHV_ACQUIRE_LEASE_V2 sample_acquire))
      (Some sample_file) STATUS_SUCCESS 72 120 = ((STATUS_SUCCESS, 120, OutAcquire \<lparr>ao_size = 120, ao_version = 2,
       ao_response = sample_granted\<rparr>), st1)"
    using sample_acquired by blast
  define rq where "rq = \<lparr>rh_version = 2, rh_size = 64, rh_request_id = 8,
    rl_session = q2_session (al_request sample_acquire), rl_lease = r2_lease sample_granted\<rparr>"
  have "VersionedV2InputFits (rh_version rq) (rh_size rq) 64 64"
    by (simp add: rq_def VersionedV2InputFits_def IsAbiV2BufferValid_def)
  from lease_round_trip [OF sample_registered_inv acq _ _ _ _ this, of 24]
  show ?thesis by (intro exI [of _ st1] exI [of _ rq]) (simp add: rq_def sample_granted_def granted_def sample_acquire_def)
qed

section \<open>A session of the test driver\<close>

theorem session_write_then_read_witness:
  "\<exists>m'. WriteLinear (session_memory (\<lambda>_. 0)) 4094 (Some [1, 2, 3]) 3 = (True, session_memory m') \<and>
     fst (ReadLinear (session_memory m') 4094 (Some []) 3 1) = Some [1, 2, 3]"
  using session_write_then_read [of "[1, 2, 3]" 3 "\<lambda>_. 0" 4094 "[]"] by auto

definition sample_vmxon :: VmxInstruction where
  "sample_vmxon = sample_instruction Vmxon 0 0"

definition sample_vmptrld :: VmxInstruction where
  "sample_vmptrld = (sample_instruction Vmptrld 0 0)\<lparr>vi_linear_operand := 8\<rparr>"

lemma sample_bring_up_ok:
  "InstructionIsValid sample_vmxon" "vi_opcode sample_vmxon = VmxOpcode_u32 Vmxon"
  "vi_linear_operand sample_vmxon = of_nat kSyntheticVmxonOperandLinear"
  "InstructionIsValid sample_vmptrld" "vi_opcode sample_vmptrld = VmxOpcode_u32 Vmptrld"
  "vi_linear_operand sample_vmptrld = of_nat kSyntheticVmcsOperandLinear"
  by (simp_all add: sample_vmxon_def sample_vmptrld_def InstructionIsValid_def sample_instruction_def InstructionLength_def)

theorem nested_session_bring_up_witness:
  "\<exists>v. nested_inv (v :: guest_bytes NestedVcpu) \<and> nv_current_vmcs_gpa v = 8192 \<and> CurrentVmcs (Some v) \<noteq> None"
  using nested_session_bring_up [OF sample_bring_up_ok, of zero_session] by blast

theorem vmptrld_forgets_launch_witness:
  "\<exists>v. fst (DispatchNestedInstruction (Some (v :: guest_bytes NestedVcpu)) (Some (sample_instruction Vmresume 0 0))) =
     MakeResult VmfailValid ResumeL1 5 4 kRflagsZero 0"
proof -
  obtain v1 v2 where d: "DispatchNestedInstruction (Some (ks_nested_vcpu (InitializeNestedSession zero_session))) (Some sample_vmxon) =
      (MakeSuccess ResumeL1 (InstructionLength sample_vmxon) 0, Some v1)"
    "DispatchNestedInstruction (Some v1) (Some sample_vmptrld) =
      (MakeSuccess ResumeL1 (InstructionLength sample_vmptrld) 0, Some v2)"
    using session_bring_up [OF sample_bring_up_ok, of zero_session] by blast
  have "nested_inv v1" using DispatchNestedInstruction_inv [OF d(1) InitializeNestedSession_inv] .
  from vmptrld_forgets_launch [OF this sample_bring_up_ok(4,5) d(2), of "sample_instruction Vmresume 0 0"]
  show ?thesis by (auto simp: sample_instruction_valid result_sel)
qed

end
