(* ===== verification/VpidModel.thy ===== *)
theory VpidModel
  imports KnhvPrelude
begin

text \<open>
  The VPID pool and the TLB shootdown contract of \<^verbatim>\<open>src/src/vmx/vpid_model.cpp\<close> and
  \<^verbatim>\<open>src/src/include/knhv_vpid.h\<close>: allocation of the smallest free VPID, retirement,
  quarantine and reclaim of a lease, and the life cycle of one shootdown. An array argument with
  its count is the optional list of its elements and the count; the loops read the first
  \<open>count\<close> elements.
\<close>

section \<open>Constants and enumerations\<close>

abbreviation kVpidContractVersion :: u32 where "kVpidContractVersion \<equiv> 1"
abbreviation kVpidMaxStructSize :: u32 where "kVpidMaxStructSize \<equiv> 4096"
abbreviation kVpidMinimum :: u32 where "kVpidMinimum \<equiv> 1"
abbreviation kVpidMaximum :: u32 where "kVpidMaximum \<equiv> 0xFFFF"
abbreviation kVpidMaxLeases :: u32 where "kVpidMaxLeases \<equiv> 128"
abbreviation kVpidMaxCpus :: u32 where "kVpidMaxCpus \<equiv> 64"
abbreviation kVpidKnownLeaseFlagMask :: u32 where "kVpidKnownLeaseFlagMask \<equiv> 0"
abbreviation kShootdownAllowAllContext :: u32 where "kShootdownAllowAllContext \<equiv> 1"
abbreviation kShootdownRetainGlobals :: u32 where "kShootdownRetainGlobals \<equiv> 2"
abbreviation kShootdownKnownFlagMask :: u32 where "kShootdownKnownFlagMask \<equiv> 3"

datatype VpidKind = VpidRoot | VpidL1 | VpidL2

fun VpidKind_u32 :: "VpidKind \<Rightarrow> u32" where
  "VpidKind_u32 VpidRoot = 1"
| "VpidKind_u32 VpidL1 = 2"
| "VpidKind_u32 VpidL2 = 3"

datatype VpidLeaseState = LeaseFree | LeaseActive | LeaseRetiring | LeaseQuarantined

fun VpidLeaseState_u32 :: "VpidLeaseState \<Rightarrow> u32" where
  "VpidLeaseState_u32 LeaseFree = 0"
| "VpidLeaseState_u32 LeaseActive = 1"
| "VpidLeaseState_u32 LeaseRetiring = 2"
| "VpidLeaseState_u32 LeaseQuarantined = 3"

datatype VpidStatus = VpidSuccess | VpidInvalidParameter | VpidExhausted | VpidGenerationMismatch
  | VpidConflict | VpidStateConflict | VpidShootdownIncomplete | VpidTimeout | VpidQuarantined

datatype ShootdownType = SingleAddress | SingleContext | AllContext | SingleContextRetainGlobals

fun ShootdownType_u32 :: "ShootdownType \<Rightarrow> u32" where
  "ShootdownType_u32 SingleAddress = 0"
| "ShootdownType_u32 SingleContext = 1"
| "ShootdownType_u32 AllContext = 2"
| "ShootdownType_u32 SingleContextRetainGlobals = 3"

datatype ShootdownStateKind = SdIdle | SdPending | SdCompleted | SdTimedOut | SdQuarantined

fun ShootdownStateKind_u32 :: "ShootdownStateKind \<Rightarrow> u32" where
  "ShootdownStateKind_u32 SdIdle = 0"
| "ShootdownStateKind_u32 SdPending = 1"
| "ShootdownStateKind_u32 SdCompleted = 2"
| "ShootdownStateKind_u32 SdTimedOut = 3"
| "ShootdownStateKind_u32 SdQuarantined = 4"

section \<open>Structures\<close>

record VpidRequest =
  vr_size :: u32
  vr_version :: u32
  vr_owner_id :: u64
  vr_generation :: u64
  vr_kind :: u32
  vr_max_vpid :: u32
  vr_reserved :: u32
  vr_reserved2 :: u32

record VpidLease =
  vl_size :: u32
  vl_version :: u32
  vl_vpid :: u32
  vl_kind :: u32
  vl_state :: u32
  vl_flags :: u32
  vl_owner_id :: u64
  vl_generation :: u64
  vl_allocation_sequence :: u64

record ShootdownRequest =
  sr_size :: u32
  sr_version :: u32
  sr_type :: u32
  sr_flags :: u32
  sr_request_id :: u64
  sr_generation :: u64
  sr_source_cpu :: u32
  sr_vpid :: u32
  sr_target_cpu_mask :: u64
  sr_address :: u64
  sr_deadline_tsc :: u64

record ShootdownState =
  ss_size :: u32
  ss_version :: u32
  ss_type :: u32
  ss_state :: u32
  ss_request_id :: u64
  ss_generation :: u64
  ss_target_cpu_mask :: u64
  ss_acknowledged_cpu_mask :: u64
  ss_deadline_tsc :: u64
  ss_vpid :: u32
  ss_reserved :: u32

abbreviation vpid_versioned :: "u32 \<Rightarrow> u32 \<Rightarrow> u32 \<Rightarrow> bool" where
  "vpid_versioned \<equiv> IsVersionedSizeValid kVpidContractVersion kVpidMaxStructSize"

section \<open>Helpers\<close>

definition IsVpidValueValid :: "u32 \<Rightarrow> bool" where
  "IsVpidValueValid v \<longleftrightarrow> v \<ge> kVpidMinimum \<and> v \<le> kVpidMaximum"

definition IsVpidKindValid :: "u32 \<Rightarrow> bool" where
  "IsVpidKindValid v \<longleftrightarrow> v \<ge> VpidKind_u32 VpidRoot \<and> v \<le> VpidKind_u32 VpidL2"

definition IsVpidLeaseStateValid :: "u32 \<Rightarrow> bool" where
  "IsVpidLeaseStateValid v \<longleftrightarrow> v \<le> VpidLeaseState_u32 LeaseQuarantined"

definition IsShootdownTypeValid :: "u32 \<Rightarrow> bool" where
  "IsShootdownTypeValid v \<longleftrightarrow> v \<le> ShootdownType_u32 SingleContextRetainGlobals"

definition IsShootdownStateValidValue :: "u32 \<Rightarrow> bool" where
  "IsShootdownStateValidValue v \<longleftrightarrow> v \<le> ShootdownStateKind_u32 SdQuarantined"

definition IsContextShootdown :: "u32 \<Rightarrow> bool" where
  "IsContextShootdown ty \<longleftrightarrow> ty = ShootdownType_u32 SingleContext \<or>
     ty = ShootdownType_u32 SingleContextRetainGlobals"

definition InitializeFreeLease :: VpidLease where
  "InitializeFreeLease = \<lparr>vl_size = 48, vl_version = kVpidContractVersion, vl_vpid = 0, vl_kind = 0,
     vl_state = VpidLeaseState_u32 LeaseFree, vl_flags = 0, vl_owner_id = 0, vl_generation = 0,
     vl_allocation_sequence = 0\<rparr>"

definition InitializeShootdownState :: ShootdownState where
  "InitializeShootdownState = \<lparr>ss_size = 64, ss_version = kVpidContractVersion, ss_type = 0,
     ss_state = ShootdownStateKind_u32 SdIdle, ss_request_id = 0, ss_generation = 0,
     ss_target_cpu_mask = 0, ss_acknowledged_cpu_mask = 0, ss_deadline_tsc = 0, ss_vpid = 0,
     ss_reserved = 0\<rparr>"

definition IsShootdownPayloadValid :: "u32 \<Rightarrow> u32 \<Rightarrow> bool" where
  "IsShootdownPayloadValid ty vpid =
     (if \<not> IsShootdownTypeValid ty then False
      else if ty = ShootdownType_u32 SingleAddress \<or> ty = ShootdownType_u32 SingleContext \<or>
              ty = ShootdownType_u32 SingleContextRetainGlobals then IsVpidValueValid vpid
      else if ty = ShootdownType_u32 AllContext then vpid = 0
      else False)"

definition ShootdownCoversVpid :: "ShootdownState \<Rightarrow> u32 \<Rightarrow> bool" where
  "ShootdownCoversVpid state vpid =
     (if ss_state state \<noteq> ShootdownStateKind_u32 SdCompleted then False
      else if ss_type state = ShootdownType_u32 AllContext then True
      else IsContextShootdown (ss_type state) \<and> ss_vpid state = vpid)"

definition IsVpidUsed :: "VpidLease list \<Rightarrow> u32 \<Rightarrow> bool" where
  "IsVpidUsed existing vpid \<longleftrightarrow>
     list_ex (\<lambda>e. vl_state e \<noteq> VpidLeaseState_u32 LeaseFree \<and> vl_vpid e = vpid) existing"

section \<open>Leases\<close>

definition IsVpidRequestValid :: "VpidRequest option \<Rightarrow> bool" where
  "IsVpidRequestValid request = (case request of None \<Rightarrow> False | Some r \<Rightarrow>
     vpid_versioned (vr_version r) (vr_size r) 40 \<and>
     vr_owner_id r \<noteq> 0 \<and> vr_generation r \<noteq> 0 \<and> IsVpidKindValid (vr_kind r) \<and>
     vr_max_vpid r \<ge> kVpidMinimum \<and> vr_max_vpid r \<le> kVpidMaximum \<and>
     vr_reserved r = 0 \<and> vr_reserved2 r = 0)"

definition IsVpidLeaseValid :: "VpidLease option \<Rightarrow> bool" where
  "IsVpidLeaseValid lease = (case lease of None \<Rightarrow> False | Some l \<Rightarrow>
     if \<not> vpid_versioned (vl_version l) (vl_size l) 48 \<or>
        vl_flags l AND NOT kVpidKnownLeaseFlagMask \<noteq> 0 \<or>
        \<not> IsVpidLeaseStateValid (vl_state l) then False
     else if vl_state l = VpidLeaseState_u32 LeaseFree
     then vl_vpid l = 0 \<and> vl_kind l = 0 \<and> vl_owner_id l = 0 \<and> vl_generation l = 0 \<and>
          vl_allocation_sequence l = 0
     else IsVpidValueValid (vl_vpid l) \<and> IsVpidKindValid (vl_kind l) \<and>
          vl_owner_id l \<noteq> 0 \<and> vl_generation l \<noteq> 0 \<and> vl_allocation_sequence l \<noteq> 0)"

text \<open>
  The first loop of \<^verbatim>\<open>AllocateVpid\<close>, with the elements already visited: \<open>Some\<close> status where it
  returns, \<open>None\<close> where it runs to its end.
\<close>

fun check_existing :: "VpidLease list \<Rightarrow> VpidLease list \<Rightarrow> VpidStatus option" where
  "check_existing prior [] = None"
| "check_existing prior (e # es) =
     (if \<not> IsVpidLeaseValid (Some e) then Some VpidInvalidParameter
      else if vl_state e = VpidLeaseState_u32 LeaseFree then check_existing (prior @ [e]) es
      else if list_ex (\<lambda>p. vl_state p \<noteq> VpidLeaseState_u32 LeaseFree \<and> vl_vpid p = vl_vpid e) prior
      then Some VpidConflict
      else check_existing (prior @ [e]) es)"

text \<open>
  The candidate loop. The counter is a natural number here: the request check bounds
  \<open>max_vpid\<close> by 0xFFFF, so the 32-bit counter does not wrap.
\<close>

function first_unused :: "VpidLease list \<Rightarrow> nat \<Rightarrow> nat \<Rightarrow> u32 option" where
  "first_unused existing candidate max_vpid =
     (if candidate \<le> max_vpid
      then if IsVpidUsed existing (word_of_nat candidate)
           then first_unused existing (candidate + 1) max_vpid
           else Some (word_of_nat candidate)
      else None)"
  by pat_completeness auto

termination first_unused
  by (relation "measure (\<lambda>(_, c, m). Suc m - c)") auto

declare first_unused.simps [simp del]

definition AllocateVpid ::
    "VpidRequest option \<Rightarrow> VpidLease list option \<Rightarrow> u32 \<Rightarrow> VpidLease option \<Rightarrow> VpidStatus \<times> VpidLease option" where
  "AllocateVpid request existing existing_count lease =
     (case lease of None \<Rightarrow> (VpidInvalidParameter, None)
      | Some _ \<Rightarrow> let free = InitializeFreeLease in
          if \<not> IsVpidRequestValid request \<or> existing_count > kVpidMaxLeases \<or>
             existing_count \<noteq> 0 \<and> existing = None
          then (VpidInvalidParameter, Some free)
          else let r = the request;
                   leases = take (unat existing_count) (case existing of None \<Rightarrow> [] | Some xs \<Rightarrow> xs)
               in case check_existing [] leases of
                    Some status \<Rightarrow> (status, Some free)
                  | None \<Rightarrow>
                     (case first_unused leases (unat kVpidMinimum) (unat (vr_max_vpid r)) of
                        None \<Rightarrow> (VpidExhausted, Some free)
                      | Some candidate \<Rightarrow> (VpidSuccess, Some (free
                          \<lparr>vl_vpid := candidate, vl_kind := vr_kind r,
                           vl_state := VpidLeaseState_u32 LeaseActive,
                           vl_owner_id := vr_owner_id r, vl_generation := vr_generation r,
                           vl_allocation_sequence := ucast candidate\<rparr>))))"

definition BeginVpidRetire :: "VpidLease option \<Rightarrow> u64 \<Rightarrow> bool \<times> VpidLease option" where
  "BeginVpidRetire lease generation = (case lease of None \<Rightarrow> (False, None) | Some l \<Rightarrow>
     if \<not> IsVpidLeaseValid (Some l) \<or> generation = 0 \<or> vl_generation l \<noteq> generation \<or>
        vl_state l \<noteq> VpidLeaseState_u32 LeaseActive then (False, Some l)
     else (True, Some (l\<lparr>vl_state := VpidLeaseState_u32 LeaseRetiring\<rparr>)))"

definition QuarantineVpid :: "VpidLease option \<Rightarrow> u64 \<Rightarrow> bool \<times> VpidLease option" where
  "QuarantineVpid lease generation = (case lease of None \<Rightarrow> (False, None) | Some l \<Rightarrow>
     if \<not> IsVpidLeaseValid (Some l) \<or> generation = 0 \<or> vl_generation l \<noteq> generation \<or>
        vl_state l \<noteq> VpidLeaseState_u32 LeaseActive \<and> vl_state l \<noteq> VpidLeaseState_u32 LeaseRetiring
     then (False, Some l)
     else (True, Some (l\<lparr>vl_state := VpidLeaseState_u32 LeaseQuarantined\<rparr>)))"

section \<open>Shootdowns\<close>

definition IsShootdownRequestValid :: "ShootdownRequest option \<Rightarrow> bool" where
  "IsShootdownRequestValid request = (case request of None \<Rightarrow> False | Some r \<Rightarrow>
     if \<not> vpid_versioned (sr_version r) (sr_size r) 64 \<or>
        sr_flags r AND NOT kShootdownKnownFlagMask \<noteq> 0 \<or>
        sr_request_id r = 0 \<or> sr_generation r = 0 \<or>
        sr_source_cpu r \<ge> kVpidMaxCpus \<or> sr_target_cpu_mask r = 0 \<or>
        sr_deadline_tsc r = 0 \<or> \<not> IsShootdownPayloadValid (sr_type r) (sr_vpid r) then False
     else if sr_type r = ShootdownType_u32 SingleAddress then sr_flags r = 0
     else if sr_type r = ShootdownType_u32 SingleContext then sr_flags r = 0 \<and> sr_address r = 0
     else if sr_type r = ShootdownType_u32 AllContext
     then sr_flags r AND kShootdownAllowAllContext \<noteq> 0 \<and>
          sr_flags r AND kShootdownRetainGlobals = 0 \<and> sr_address r = 0
     else sr_flags r AND kShootdownRetainGlobals \<noteq> 0 \<and>
          sr_flags r AND kShootdownAllowAllContext = 0 \<and> sr_address r = 0)"

definition IsShootdownStateValid :: "ShootdownState option \<Rightarrow> bool" where
  "IsShootdownStateValid state = (case state of None \<Rightarrow> False | Some s \<Rightarrow>
     if \<not> vpid_versioned (ss_version s) (ss_size s) 64 \<or> ss_reserved s \<noteq> 0 \<or>
        \<not> IsShootdownStateValidValue (ss_state s) then False
     else if ss_state s = ShootdownStateKind_u32 SdIdle
     then ss_type s = 0 \<and> ss_request_id s = 0 \<and> ss_generation s = 0 \<and>
          ss_target_cpu_mask s = 0 \<and> ss_acknowledged_cpu_mask s = 0 \<and>
          ss_deadline_tsc s = 0 \<and> ss_vpid s = 0
     else if ss_request_id s = 0 \<or> ss_generation s = 0 \<or> ss_target_cpu_mask s = 0 \<or>
             ss_deadline_tsc s = 0 \<or> \<not> IsShootdownPayloadValid (ss_type s) (ss_vpid s) \<or>
             ss_acknowledged_cpu_mask s AND NOT (ss_target_cpu_mask s) \<noteq> 0 then False
     else if ss_state s = ShootdownStateKind_u32 SdCompleted
     then ss_acknowledged_cpu_mask s = ss_target_cpu_mask s
     else if ss_state s = ShootdownStateKind_u32 SdTimedOut
     then ss_acknowledged_cpu_mask s \<noteq> ss_target_cpu_mask s
     else True)"

definition ReclaimVpid ::
    "VpidLease option \<Rightarrow> u64 \<Rightarrow> ShootdownState option \<Rightarrow> bool \<times> VpidLease option" where
  "ReclaimVpid lease generation shootdown = (case lease of None \<Rightarrow> (False, None) | Some l \<Rightarrow>
     (case shootdown of None \<Rightarrow> (False, Some l) | Some s \<Rightarrow>
        if \<not> IsVpidLeaseValid (Some l) \<or> generation = 0 \<or>
           vl_state l \<noteq> VpidLeaseState_u32 LeaseRetiring \<or> vl_generation l \<noteq> generation \<or>
           \<not> IsShootdownStateValid (Some s) \<or> ss_generation s \<noteq> generation \<or>
           ss_acknowledged_cpu_mask s \<noteq> ss_target_cpu_mask s \<or>
           \<not> ShootdownCoversVpid s (vl_vpid l) then (False, Some l)
        else (True, Some InitializeFreeLease)))"

definition BeginShootdown ::
    "ShootdownRequest option \<Rightarrow> ShootdownState option \<Rightarrow> bool \<times> ShootdownState option" where
  "BeginShootdown request state = (case state of None \<Rightarrow> (False, None)
     | Some _ \<Rightarrow> let s = InitializeShootdownState in
         if \<not> IsShootdownRequestValid request then (False, Some s)
         else let r = the request in (True, Some (s
           \<lparr>ss_type := sr_type r, ss_request_id := sr_request_id r, ss_generation := sr_generation r,
            ss_target_cpu_mask := sr_target_cpu_mask r, ss_deadline_tsc := sr_deadline_tsc r,
            ss_vpid := sr_vpid r, ss_state := ShootdownStateKind_u32 SdPending\<rparr>)))"

definition AcknowledgeShootdown :: "ShootdownState option \<Rightarrow> u32 \<Rightarrow> bool \<times> ShootdownState option" where
  "AcknowledgeShootdown state cpu_index = (case state of None \<Rightarrow> (False, None) | Some s \<Rightarrow>
     if \<not> IsShootdownStateValid (Some s) \<or> ss_state s \<noteq> ShootdownStateKind_u32 SdPending \<or>
        cpu_index \<ge> kVpidMaxCpus then (False, Some s)
     else let cpu_bit = push_bit (unat cpu_index) 1
          in if ss_target_cpu_mask s AND cpu_bit = 0 then (False, Some s)
             else (True, Some (s\<lparr>ss_acknowledged_cpu_mask := ss_acknowledged_cpu_mask s OR cpu_bit\<rparr>)))"

definition CompleteShootdown :: "ShootdownState option \<Rightarrow> u64 \<Rightarrow> bool \<times> ShootdownState option" where
  "CompleteShootdown state now_tsc = (case state of None \<Rightarrow> (False, None) | Some s \<Rightarrow>
     if \<not> IsShootdownStateValid (Some s) \<or> ss_state s \<noteq> ShootdownStateKind_u32 SdPending
     then (False, Some s)
     else if now_tsc > ss_deadline_tsc s
     then (False, Some (s\<lparr>ss_state := ShootdownStateKind_u32 SdTimedOut\<rparr>))
     else if ss_acknowledged_cpu_mask s \<noteq> ss_target_cpu_mask s then (False, Some s)
     else (True, Some (s\<lparr>ss_state := ShootdownStateKind_u32 SdCompleted\<rparr>)))"

definition QuarantineShootdown :: "ShootdownState option \<Rightarrow> bool \<times> ShootdownState option" where
  "QuarantineShootdown state = (case state of None \<Rightarrow> (False, None) | Some s \<Rightarrow>
     if \<not> IsShootdownStateValid (Some s) \<or>
        ss_state s \<noteq> ShootdownStateKind_u32 SdPending \<and> ss_state s \<noteq> ShootdownStateKind_u32 SdTimedOut
     then (False, Some s)
     else (True, Some (s\<lparr>ss_state := ShootdownStateKind_u32 SdQuarantined\<rparr>)))"

section \<open>Allocation\<close>

text \<open>The VPIDs a table of leases holds, and the tables that allocation accepts.\<close>

definition live_vpids :: "VpidLease list \<Rightarrow> u32 set" where
  "live_vpids leases = vl_vpid ` {l \<in> set leases. vl_state l \<noteq> VpidLeaseState_u32 LeaseFree}"

definition live :: "VpidLease list \<Rightarrow> VpidLease list" where
  "live leases = filter (\<lambda>l. vl_state l \<noteq> VpidLeaseState_u32 LeaseFree) leases"

definition pool_ok :: "VpidLease list \<Rightarrow> bool" where
  "pool_ok leases \<longleftrightarrow> (\<forall>l \<in> set leases. IsVpidLeaseValid (Some l)) \<and> distinct (map vl_vpid (live leases))"

lemma IsVpidUsed_iff: "IsVpidUsed leases v \<longleftrightarrow> v \<in> live_vpids leases"
  by (auto simp: IsVpidUsed_def live_vpids_def list_ex_iff)

lemma live_vpids_live: "live_vpids leases = vl_vpid ` set (live leases)"
  by (auto simp: live_vpids_def live_def)

lemma live_simps [simp]:
  "live [] = []" "live (l # ls) = (if vl_state l \<noteq> 0 then l # live ls else live ls)"
  "live (ks @ ls) = live ks @ live ls"
  by (simp_all add: live_def)

lemma check_existing_None_iff:
  "check_existing prior ls = None \<longleftrightarrow>
     (\<forall>l \<in> set ls. IsVpidLeaseValid (Some l)) \<and> distinct (map vl_vpid (live ls)) \<and>
     live_vpids prior \<inter> live_vpids ls = {}"
proof (induction prior ls rule: check_existing.induct)
  case (1 prior)
  then show ?case by (simp add: live_vpids_def)
next
  case (2 prior e es)
  have used: "list_ex (\<lambda>p. vl_state p \<noteq> VpidLeaseState_u32 LeaseFree \<and> vl_vpid p = vl_vpid e) prior
      \<longleftrightarrow> vl_vpid e \<in> live_vpids prior"
    by (auto simp: live_vpids_def list_ex_iff image_iff)
  show ?case
    using 2 unfolding check_existing.simps used
    by (auto simp: live_vpids_live split: if_splits)
qed

lemma check_existing_pool: "check_existing [] ls = None \<longleftrightarrow> pool_ok ls"
  by (simp add: check_existing_None_iff pool_ok_def live_vpids_def)

lemma first_unused_SomeD:
  "first_unused ls c m = Some v \<Longrightarrow> m < 2 ^ 32 \<Longrightarrow>
     c \<le> unat v \<and> unat v \<le> m \<and> v \<notin> live_vpids ls \<and>
     (\<forall>k. c \<le> k \<and> k < unat v \<longrightarrow> word_of_nat k \<in> live_vpids ls)"
proof (induction ls c m rule: first_unused.induct)
  case (1 ls c m)
  show ?case
  proof (cases "c \<le> m \<and> IsVpidUsed ls (word_of_nat c)")
    case True
    then have "first_unused ls (c + 1) m = Some v"
      using 1(2) by (subst (asm) first_unused.simps) simp
    then show ?thesis
      using 1(1) [OF conjunct1 [OF True] conjunct2 [OF True] _ 1(3)] True
      by (metis IsVpidUsed_iff Suc_eq_plus1 Suc_leI Suc_leD le_eq_less_or_eq)
  next
    case False
    then have "v = word_of_nat c" "c \<le> m" "\<not> IsVpidUsed ls (word_of_nat c)"
      using 1(2) by (subst (asm) first_unused.simps; simp split: if_splits)+
    moreover have "unat (word_of_nat c :: u32) = c"
      using \<open>c \<le> m\<close> 1(3) by (simp add: unat_of_nat_u32)
    ultimately show ?thesis by (auto simp: IsVpidUsed_iff)
  qed
qed

lemma first_unused_NoneD:
  "first_unused ls c m = None \<Longrightarrow> c \<le> k \<Longrightarrow> k \<le> m \<Longrightarrow> word_of_nat k \<in> live_vpids ls"
proof (induction ls c m rule: first_unused.induct)
  case (1 ls c m)
  have "c \<le> m" using 1(3,4) by simp
  then have used: "IsVpidUsed ls (word_of_nat c)" and rest: "first_unused ls (c + 1) m = None"
    using 1(2) by (simp_all add: first_unused.simps [of ls c m] split: if_splits)
  show ?case
    using 1(1) [OF \<open>c \<le> m\<close> used rest _ 1(4)] 1(3) used
    by (cases "k = c") (simp_all add: IsVpidUsed_iff)
qed

text \<open>The allocation on a table of at most 128 leases, in one equation.\<close>

lemma unat_of_count: "length ls \<le> 128 \<Longrightarrow> unat (word_of_nat (length ls) :: u32) = length ls"
  by (simp add: unat_of_nat_u32)

lemma AllocateVpid_eq:
  assumes "IsVpidRequestValid (Some r)" and "length ls \<le> 128"
  shows "AllocateVpid (Some r) (Some ls) (word_of_nat (length ls)) (Some l) =
    (case check_existing [] ls of Some status \<Rightarrow> (status, Some InitializeFreeLease)
     | None \<Rightarrow> (case first_unused ls 1 (unat (vr_max_vpid r)) of
          None \<Rightarrow> (VpidExhausted, Some InitializeFreeLease)
        | Some v \<Rightarrow> (VpidSuccess, Some
           \<lparr>vl_size = 48, vl_version = 1, vl_vpid = v, vl_kind = vr_kind r, vl_state = 1, vl_flags = 0,
            vl_owner_id = vr_owner_id r, vl_generation = vr_generation r,
            vl_allocation_sequence = ucast v\<rparr>)))"
proof -
  have "\<not> (word_of_nat (length ls) :: u32) > 128"
    using assms(2) by (simp add: word_less_nat_alt unat_of_count)
  then show ?thesis
    using assms by (simp add: AllocateVpid_def Let_def unat_of_count InitializeFreeLease_def
        split: option.splits)
qed

lemma request_max:
  assumes "IsVpidRequestValid (Some r)"
  shows "1 \<le> unat (vr_max_vpid r)" "unat (vr_max_vpid r) \<le> 65535"
  using assms by (simp_all add: IsVpidRequestValid_def word_le_nat_alt)

lemma allocated_valid:
  assumes "IsVpidRequestValid (Some r)" and "1 \<le> unat v" and "unat v \<le> unat (vr_max_vpid r)"
  shows "IsVpidLeaseValid (Some \<lparr>vl_size = 48, vl_version = 1, vl_vpid = v, vl_kind = vr_kind r,
    vl_state = 1, vl_flags = 0, vl_owner_id = vr_owner_id r, vl_generation = vr_generation r,
    vl_allocation_sequence = ucast v\<rparr>)"
proof -
  have "unat (ucast v :: u64) \<noteq> 0" using assms(2) by (simp add: ucast_u32_u64_unat)
  then have "(ucast v :: u64) \<noteq> 0" by (metis unat_0)
  then show ?thesis
    using assms request_max [OF assms(1)]
    by (auto simp: IsVpidRequestValid_def IsVpidLeaseValid_def IsVersionedSizeValid_def
        IsVpidLeaseStateValid_def IsVpidValueValid_def word_le_nat_alt)
qed

lemma pigeonhole_vpids:
  assumes "\<forall>k. 1 \<le> k \<and> k \<le> m \<longrightarrow> word_of_nat k \<in> live_vpids ls" and "m < 2 ^ 32"
  shows "m \<le> length (live ls)"
proof -
  have inj: "inj_on (word_of_nat :: nat \<Rightarrow> u32) {1..m}"
    by (rule inj_on_inverseI [where g = unat]) (use assms(2) in \<open>simp add: unat_of_nat_u32\<close>)
  have "m = card ((word_of_nat :: nat \<Rightarrow> u32) ` {1..m})"
    using card_image [OF inj] by simp
  also have "\<dots> \<le> card (vl_vpid ` set (live ls))"
    using assms(1) by (intro card_mono) (auto simp: live_vpids_live)
  also have "\<dots> \<le> length (live ls)"
    by (rule order.trans [OF card_image_le card_length]) simp
  finally show ?thesis .
qed

text \<open>
  On a well-formed table a valid request gets the smallest VPID that no lease holds, in a valid
  active lease of the requester; it is refused only when every VPID up to its maximum is held,
  which takes at least as many live leases as the maximum.
\<close>

lemma allocate_vpid_cases:
  assumes "IsVpidRequestValid (Some r)" and "pool_ok ls" and "length ls \<le> 128"
  shows "(\<exists>n. AllocateVpid (Some r) (Some ls) (word_of_nat (length ls)) (Some l) = (VpidSuccess, Some n) \<and>
            IsVpidLeaseValid (Some n) \<and> vl_state n = VpidLeaseState_u32 LeaseActive \<and>
            vl_owner_id n = vr_owner_id r \<and> vl_generation n = vr_generation r \<and> vl_kind n = vr_kind r \<and>
            vl_vpid n \<notin> live_vpids ls \<and> 1 \<le> vl_vpid n \<and> vl_vpid n \<le> vr_max_vpid r \<and>
            (\<forall>v. 1 \<le> v \<and> v < vl_vpid n \<longrightarrow> v \<in> live_vpids ls))
       \<or> (AllocateVpid (Some r) (Some ls) (word_of_nat (length ls)) (Some l) = (VpidExhausted, Some InitializeFreeLease) \<and>
            (\<forall>v. 1 \<le> v \<and> v \<le> vr_max_vpid r \<longrightarrow> v \<in> live_vpids ls) \<and>
            unat (vr_max_vpid r) \<le> length (live ls))"
proof -
  note eq = AllocateVpid_eq [OF assms(1,3), of l]
  have pool: "check_existing [] ls = None" using assms(2) by (simp add: check_existing_pool)
  have m: "unat (vr_max_vpid r) < 2 ^ 32" using request_max [OF assms(1)] by simp
  show ?thesis
  proof (cases "first_unused ls 1 (unat (vr_max_vpid r))")
    case None
    have all: "word_of_nat k \<in> live_vpids ls" if "1 \<le> k" "k \<le> unat (vr_max_vpid r)" for k
      using first_unused_NoneD [OF None that] .
    have "v \<in> live_vpids ls" if "1 \<le> v" "v \<le> vr_max_vpid r" for v
      using all [of "unat v"] that by (simp add: word_le_nat_alt)
    then show ?thesis
      using pigeonhole_vpids [OF _ m] all eq pool None by (intro disjI2) simp
  next
    case (Some v)
    note v = first_unused_SomeD [OF Some m]
    have least: "w \<in> live_vpids ls" if "1 \<le> w" "w < v" for w
      using v that by (auto simp: word_le_nat_alt word_less_nat_alt dest: spec [of _ "unat w"])
    show ?thesis
      using v allocated_valid [OF assms(1), of v] least eq pool Some
      by (intro disjI1) (simp add: word_le_nat_alt)
  qed
qed

section \<open>The shootdown protocol\<close>

text \<open>Acknowledgements that arrive in any order, from any CPUs, repeated or foreign ones included.\<close>

definition acknowledge_all :: "u32 list \<Rightarrow> ShootdownState \<Rightarrow> ShootdownState" where
  "acknowledge_all cpus s = fold (\<lambda>c t. the (snd (AcknowledgeShootdown (Some t) c))) cpus s"

definition targets_acknowledged :: "u64 \<Rightarrow> u32 list \<Rightarrow> bool" where
  "targets_acknowledged target cpus \<longleftrightarrow> (\<forall>i < 64. bit target i \<longrightarrow> word_of_nat i \<in> set cpus)"

lemma cpu_flag_iff:
  assumes "(c :: u32) < 64"
  shows "(target :: u64) AND push_bit (unat c) 1 = 0 \<longleftrightarrow> \<not> bit target (unat c)"
  by (metis and_exp_eq_0_iff_not_bit push_bit_of_1)

lemma ack_subset_iff: "(a :: u64) AND NOT t = 0 \<longleftrightarrow> (\<forall>i. bit a i \<longrightarrow> bit t i)"
  using bit_imp_le_length [of a] by (auto simp: bit_eq_iff bit_simps)

definition pending :: "ShootdownState \<Rightarrow> bool" where
  "pending s \<longleftrightarrow> IsShootdownStateValid (Some s) \<and> ss_state s = ShootdownStateKind_u32 SdPending"

lemma Acknowledge_pending:
  assumes "pending s"
  shows "AcknowledgeShootdown (Some s) c =
    (if c < 64 \<and> bit (ss_target_cpu_mask s) (unat c)
     then (True, Some (s\<lparr>ss_acknowledged_cpu_mask := ss_acknowledged_cpu_mask s OR push_bit (unat c) 1\<rparr>))
     else (False, Some s))"
  using assms cpu_flag_iff [of c "ss_target_cpu_mask s"]
  by (auto simp: AcknowledgeShootdown_def pending_def Let_def not_le)

lemma pending_ack:
  assumes "pending s" and "bit (ss_target_cpu_mask s) (unat (c :: u32))"
  shows "pending (s\<lparr>ss_acknowledged_cpu_mask := ss_acknowledged_cpu_mask s OR push_bit (unat c) 1\<rparr>)"
  using assms by (auto simp: pending_def IsShootdownStateValid_def ack_subset_iff bit_simps split: if_splits)

lemma acknowledge_all_pending:
  "pending s \<Longrightarrow> \<exists>a. acknowledge_all cpus s = s\<lparr>ss_acknowledged_cpu_mask := a\<rparr> \<and>
     pending (s\<lparr>ss_acknowledged_cpu_mask := a\<rparr>) \<and>
     (\<forall>i. bit a i \<longleftrightarrow> bit (ss_acknowledged_cpu_mask s) i \<or>
        i < 64 \<and> bit (ss_target_cpu_mask s) i \<and> word_of_nat i \<in> set cpus)"
proof (induction cpus arbitrary: s)
  case Nil
  have "s\<lparr>ss_acknowledged_cpu_mask := ss_acknowledged_cpu_mask s\<rparr> = s" by simp
  then show ?case using Nil by (intro exI [of _ "ss_acknowledged_cpu_mask s"]) (simp add: acknowledge_all_def)
next
  case (Cons c cpus)
  have idx: "i < 64 \<Longrightarrow> word_of_nat i = c \<longleftrightarrow> i = unat c" for i
    using unat_of_nat_u32 [of i] by auto
  show ?case
  proof (cases "c < 64 \<and> bit (ss_target_cpu_mask s) (unat c)")
    case True
    let ?t = "s\<lparr>ss_acknowledged_cpu_mask := ss_acknowledged_cpu_mask s OR push_bit (unat c) 1\<rparr>"
    have c: "unat c < 64" using True by (simp add: word_less_nat_alt)
    then have b: "bit (ss_acknowledged_cpu_mask ?t) i \<longleftrightarrow> bit (ss_acknowledged_cpu_mask s) i \<or> i = unat c" for i
      by (auto simp: bit_simps)
    obtain a where a: "acknowledge_all cpus ?t = ?t\<lparr>ss_acknowledged_cpu_mask := a\<rparr>"
      "pending (?t\<lparr>ss_acknowledged_cpu_mask := a\<rparr>)"
      "\<And>i. bit a i \<longleftrightarrow> bit (ss_acknowledged_cpu_mask ?t) i \<or>
        i < 64 \<and> bit (ss_target_cpu_mask s) i \<and> word_of_nat i \<in> set cpus"
      using Cons.IH [OF pending_ack [OF Cons.prems conjunct2 [OF True]]] by auto
    have "acknowledge_all (c # cpus) s = s\<lparr>ss_acknowledged_cpu_mask := a\<rparr>"
      using a(1) True by (simp add: acknowledge_all_def Acknowledge_pending [OF Cons.prems])
    moreover have "bit a i \<longleftrightarrow> bit (ss_acknowledged_cpu_mask s) i \<or>
        i < 64 \<and> bit (ss_target_cpu_mask s) i \<and> word_of_nat i \<in> set (c # cpus)" for i
      unfolding a(3) b using idx [of i] True c by auto
    ultimately show ?thesis using a(2) by (intro exI [of _ a]) simp
  next
    case False
    then have "acknowledge_all (c # cpus) s = acknowledge_all cpus s"
      by (auto simp: acknowledge_all_def Acknowledge_pending [OF Cons.prems])
    moreover have "\<not> (i < 64 \<and> bit (ss_target_cpu_mask s) i \<and> word_of_nat i = c)" for i
      using False idx [of i] by (auto simp: word_less_nat_alt)
    ultimately show ?thesis using Cons.IH [OF Cons.prems] by auto
  qed
qed

lemma Begin_pending:
  assumes "IsShootdownRequestValid (Some r)"
  shows "\<exists>s. BeginShootdown (Some r) (Some s0) = (True, Some s) \<and> pending s \<and>
    ss_target_cpu_mask s = sr_target_cpu_mask r \<and> ss_acknowledged_cpu_mask s = 0 \<and>
    ss_deadline_tsc s = sr_deadline_tsc r \<and> ss_generation s = sr_generation r \<and>
    ss_type s = sr_type r \<and> ss_vpid s = sr_vpid r \<and> ss_request_id s = sr_request_id r"
  using assms
  by (auto simp: BeginShootdown_def Let_def InitializeShootdownState_def pending_def
      IsShootdownStateValid_def IsShootdownRequestValid_def IsVersionedSizeValid_def
      IsShootdownStateValidValue_def split: if_splits)

lemma all_acked_iff:
  assumes "\<And>i. bit a i \<longleftrightarrow> i < 64 \<and> bit (t :: u64) i \<and> word_of_nat i \<in> set cpus"
  shows "a = t \<longleftrightarrow> targets_acknowledged t cpus"
  using assms by (auto simp: targets_acknowledged_def bit_eq_iff dest: bit_imp_le_length)

text \<open>The state after a shootdown is begun and acknowledged.\<close>

definition shootdown_after :: "ShootdownRequest \<Rightarrow> u32 list \<Rightarrow> ShootdownState" where
  "shootdown_after r cpus = acknowledge_all cpus (the (snd (BeginShootdown (Some r) (Some InitializeShootdownState))))"

lemma shootdown_after_pending:
  assumes "IsShootdownRequestValid (Some r)"
  shows "pending (shootdown_after r cpus) \<and> ss_target_cpu_mask (shootdown_after r cpus) = sr_target_cpu_mask r \<and>
    ss_deadline_tsc (shootdown_after r cpus) = sr_deadline_tsc r \<and>
    ss_generation (shootdown_after r cpus) = sr_generation r \<and>
    ss_type (shootdown_after r cpus) = sr_type r \<and> ss_vpid (shootdown_after r cpus) = sr_vpid r \<and>
    (ss_acknowledged_cpu_mask (shootdown_after r cpus) = sr_target_cpu_mask r \<longleftrightarrow>
       targets_acknowledged (sr_target_cpu_mask r) cpus)"
proof -
  obtain s where b: "BeginShootdown (Some r) (Some InitializeShootdownState) = (True, Some s)" "pending s"
    and s: "ss_target_cpu_mask s = sr_target_cpu_mask r" "ss_acknowledged_cpu_mask s = 0"
    "ss_deadline_tsc s = sr_deadline_tsc r" "ss_generation s = sr_generation r"
    "ss_type s = sr_type r" "ss_vpid s = sr_vpid r"
    using Begin_pending [OF assms] by blast
  obtain a where a: "acknowledge_all cpus s = s\<lparr>ss_acknowledged_cpu_mask := a\<rparr>"
    "pending (s\<lparr>ss_acknowledged_cpu_mask := a\<rparr>)"
    "\<And>i. bit a i \<longleftrightarrow> i < 64 \<and> bit (ss_target_cpu_mask s) i \<and> word_of_nat i \<in> set cpus"
    using acknowledge_all_pending [OF b(2), of cpus] s(2) by auto
  show ?thesis
    using a(1,2) s b(1) all_acked_iff [OF a(3)] by (simp add: shootdown_after_def)
qed

lemma Complete_pending:
  assumes "pending s"
  shows "CompleteShootdown (Some s) now =
    (if now > ss_deadline_tsc s then (False, Some (s\<lparr>ss_state := ShootdownStateKind_u32 SdTimedOut\<rparr>))
     else if ss_acknowledged_cpu_mask s \<noteq> ss_target_cpu_mask s then (False, Some s)
     else (True, Some (s\<lparr>ss_state := ShootdownStateKind_u32 SdCompleted\<rparr>)))"
  using assms by (simp add: CompleteShootdown_def pending_def)

lemma completed_valid:
  assumes "pending s" and "ss_acknowledged_cpu_mask s = ss_target_cpu_mask s"
  shows "IsShootdownStateValid (Some (s\<lparr>ss_state := ShootdownStateKind_u32 SdCompleted\<rparr>))"
  using assms by (auto simp: pending_def IsShootdownStateValid_def IsShootdownStateValidValue_def split: if_splits)

text \<open>
C20: The whole reclaim protocol run on a valid retiring lease with a valid shootdown request
frees the VPID exactly when the caller and the shootdown name the generation of the lease, the
shootdown is for all contexts or for the VPID of the lease, every target CPU has acknowledged it
and it is completed by its deadline; in every other case the lease is kept as it was.
\<close>

theorem vpid_reclaim_protocol:
  assumes "IsVpidLeaseValid (Some l)" and "vl_state l = VpidLeaseState_u32 LeaseRetiring"
    and "IsShootdownRequestValid (Some r)"
  shows "ReclaimVpid (Some l) g (snd (CompleteShootdown (Some (shootdown_after r cpus)) now)) =
    (if g = vl_generation l \<and> sr_generation r = vl_generation l \<and> now \<le> sr_deadline_tsc r \<and> targets_acknowledged (sr_target_cpu_mask r) cpus \<and>
        (sr_type r = ShootdownType_u32 AllContext \<or> IsContextShootdown (sr_type r) \<and> sr_vpid r = vl_vpid l)
     then (True, Some InitializeFreeLease) else (False, Some l))"
proof -
  let ?s = "shootdown_after r cpus"
  note after = shootdown_after_pending [OF assms(3), of cpus]
  have gen: "vl_generation l \<noteq> 0" using assms(1,2) by (simp add: IsVpidLeaseValid_def split: if_splits)
  show ?thesis
  proof (cases "now \<le> sr_deadline_tsc r \<and> ss_acknowledged_cpu_mask ?s = ss_target_cpu_mask ?s")
    case True
    then have "CompleteShootdown (Some ?s) now = (True, Some (?s\<lparr>ss_state := ShootdownStateKind_u32 SdCompleted\<rparr>))"
      using after by (simp add: Complete_pending not_less)
    moreover have "IsShootdownStateValid (Some (?s\<lparr>ss_state := ShootdownStateKind_u32 SdCompleted\<rparr>))"
      using completed_valid after True by blast
    ultimately show ?thesis
      using after True assms gen by (auto simp: ReclaimVpid_def ShootdownCoversVpid_def)
  next
    case False
    then have "\<exists>t. snd (CompleteShootdown (Some ?s) now) = Some t \<and> ss_state t \<noteq> ShootdownStateKind_u32 SdCompleted"
      using after by (auto simp: Complete_pending not_less pending_def)
    then show ?thesis
      using after False by (auto simp: ReclaimVpid_def ShootdownCoversVpid_def)
  qed
qed

text \<open>
  A shootdown that every CPU has acknowledged but that is completed after its deadline is left in
  a state that the model's own validity test refuses: it can be neither quarantined nor completed.
\<close>

text \<open>
C21: A fully acknowledged shootdown that is completed after its deadline ends in the timed-out
state with a full acknowledgement mask, which the validity test rejects, so that it can be
neither completed, acknowledged nor quarantined any more.
\<close>

theorem late_shootdown_stuck:
  assumes "pending s" and "ss_acknowledged_cpu_mask s = ss_target_cpu_mask s" and "now > ss_deadline_tsc s"
  shows "\<exists>t. CompleteShootdown (Some s) now = (False, Some t) \<and>
    ss_state t = ShootdownStateKind_u32 SdTimedOut \<and> \<not> IsShootdownStateValid (Some t) \<and>
    QuarantineShootdown (Some t) = (False, Some t) \<and>
    (\<forall>later. CompleteShootdown (Some t) later = (False, Some t)) \<and>
    (\<forall>c. AcknowledgeShootdown (Some t) c = (False, Some t))"
proof -
  let ?t = "s\<lparr>ss_state := ShootdownStateKind_u32 SdTimedOut\<rparr>"
  have "\<not> IsShootdownStateValid (Some ?t)"
    using assms(2) by (simp add: IsShootdownStateValid_def)
  then have "QuarantineShootdown (Some ?t) = (False, Some ?t)" "CompleteShootdown (Some ?t) later = (False, Some ?t)"
    "AcknowledgeShootdown (Some ?t) c = (False, Some ?t)" "\<not> IsShootdownStateValid (Some ?t)" for later c
    by (simp_all add: QuarantineShootdown_def CompleteShootdown_def AcknowledgeShootdown_def)
  then show ?thesis
    using assms(3) Complete_pending [OF assms(1), of now] by (intro exI [of _ ?t]) simp
qed

section \<open>The pool under all operations\<close>

text \<open>
  A table of leases and one shootdown, driven by any sequence of operations with any arguments.
  An allocated lease goes into a free slot of the table.
\<close>

record vpid_system =
  vs_leases :: "VpidLease list"
  vs_shootdown :: ShootdownState

inductive vpid_step :: "vpid_system \<Rightarrow> vpid_system \<Rightarrow> bool" where
  vpid_allocate: "i < length (vs_leases s) \<Longrightarrow> vl_state (vs_leases s ! i) = VpidLeaseState_u32 LeaseFree \<Longrightarrow>
    AllocateVpid r (Some (vs_leases s)) (word_of_nat (length (vs_leases s))) (Some (vs_leases s ! i)) = (st, Some l) \<Longrightarrow>
    vpid_step s (s\<lparr>vs_leases := (vs_leases s)[i := l]\<rparr>)"
| vpid_retire: "i < length (vs_leases s) \<Longrightarrow> BeginVpidRetire (Some (vs_leases s ! i)) g = (b, Some l) \<Longrightarrow>
    vpid_step s (s\<lparr>vs_leases := (vs_leases s)[i := l]\<rparr>)"
| vpid_reclaim: "i < length (vs_leases s) \<Longrightarrow>
    ReclaimVpid (Some (vs_leases s ! i)) g (Some (vs_shootdown s)) = (b, Some l) \<Longrightarrow>
    vpid_step s (s\<lparr>vs_leases := (vs_leases s)[i := l]\<rparr>)"
| vpid_quarantine: "i < length (vs_leases s) \<Longrightarrow> QuarantineVpid (Some (vs_leases s ! i)) g = (b, Some l) \<Longrightarrow>
    vpid_step s (s\<lparr>vs_leases := (vs_leases s)[i := l]\<rparr>)"
| shootdown_begin: "BeginShootdown q (Some (vs_shootdown s)) = (b, Some t) \<Longrightarrow> vpid_step s (s\<lparr>vs_shootdown := t\<rparr>)"
| shootdown_ack: "AcknowledgeShootdown (Some (vs_shootdown s)) c = (b, Some t) \<Longrightarrow> vpid_step s (s\<lparr>vs_shootdown := t\<rparr>)"
| shootdown_complete: "CompleteShootdown (Some (vs_shootdown s)) now = (b, Some t) \<Longrightarrow> vpid_step s (s\<lparr>vs_shootdown := t\<rparr>)"
| shootdown_quarantine: "QuarantineShootdown (Some (vs_shootdown s)) = (b, Some t) \<Longrightarrow> vpid_step s (s\<lparr>vs_shootdown := t\<rparr>)"

text \<open>What an operation may do to one slot.\<close>

inductive slot_change :: "VpidLease list \<Rightarrow> VpidLease \<Rightarrow> VpidLease \<Rightarrow> bool" for ls where
  slot_same: "slot_change ls l l"
| slot_new: "vl_state l = VpidLeaseState_u32 LeaseFree \<Longrightarrow> IsVpidLeaseValid (Some n) \<Longrightarrow>
    vl_vpid n \<notin> live_vpids ls \<Longrightarrow> slot_change ls l n"
| slot_free: "vl_state l = VpidLeaseState_u32 LeaseFree \<or> vl_state l = VpidLeaseState_u32 LeaseRetiring \<Longrightarrow> slot_change ls l InitializeFreeLease"
| slot_state: "vl_state l = VpidLeaseState_u32 LeaseActive \<or> vl_state l = VpidLeaseState_u32 LeaseRetiring \<Longrightarrow>
    st = VpidLeaseState_u32 LeaseRetiring \<or> st = VpidLeaseState_u32 LeaseQuarantined \<Longrightarrow>
    slot_change ls l (l\<lparr>vl_state := st\<rparr>)"

lemma free_lease_valid: "IsVpidLeaseValid (Some InitializeFreeLease)"
  by (simp add: IsVpidLeaseValid_def InitializeFreeLease_def IsVersionedSizeValid_def IsVpidLeaseStateValid_def)

lemma live_state_valid:
  assumes "vl_state l = VpidLeaseState_u32 LeaseActive \<or> vl_state l = VpidLeaseState_u32 LeaseRetiring"
    and "st = VpidLeaseState_u32 LeaseRetiring \<or> st = VpidLeaseState_u32 LeaseQuarantined"
    and "IsVpidLeaseValid (Some l)"
  shows "IsVpidLeaseValid (Some (l\<lparr>vl_state := st\<rparr>))"
  using assms by (auto simp: IsVpidLeaseValid_def IsVpidLeaseStateValid_def split: if_splits)

lemma slot_change_valid: "slot_change ls l n \<Longrightarrow> IsVpidLeaseValid (Some l) \<Longrightarrow> IsVpidLeaseValid (Some n)"
  by (induction rule: slot_change.induct) (simp_all add: free_lease_valid live_state_valid)

lemma slot_change_pool:
  assumes "slot_change ls (ls ! i) n" and "i < length ls" and "pool_ok ls"
  shows "pool_ok (ls[i := n])"
proof -
  define xs ys l where d: "xs = take i ls" "ys = drop (Suc i) ls" "l = ls ! i"
  have ls: "ls = xs @ l # ys" and up: "ls[i := n] = xs @ n # ys"
    using assms(2) by (simp_all add: d id_take_nth_drop [symmetric] upd_conv_take_nth_drop)
  have valid: "IsVpidLeaseValid (Some n)"
    using slot_change_valid [OF assms(1)] assms(2,3) by (auto simp: pool_ok_def)
  have "distinct (map vl_vpid (live (xs @ n # ys)))"
    using assms(1,3) unfolding d(3) [symmetric]
    by (cases rule: slot_change.cases)
      (auto simp: pool_ok_def ls live_vpids_live InitializeFreeLease_def split: if_splits)
  then show ?thesis
    using assms(3) valid unfolding up by (auto simp: pool_ok_def ls)
qed

lemma allocate_slot:
  assumes "AllocateVpid r (Some ls) (word_of_nat (length ls)) (Some l) = (st, Some n)"
    and "pool_ok ls" and "length ls \<le> 128" and "vl_state l = VpidLeaseState_u32 LeaseFree"
  shows "slot_change ls l n"
proof (cases "IsVpidRequestValid r")
  case True
  then obtain q where r: "r = Some q" by (cases r) (auto simp: IsVpidRequestValid_def)
  show ?thesis
    using allocate_vpid_cases [OF True [unfolded r] assms(2,3), of l] assms(1,4) unfolding r
    by (auto intro: slot_new slot_free)
next
  case False
  then have "n = InitializeFreeLease" using assms(1) by (auto simp: AllocateVpid_def Let_def)
  then show ?thesis using assms(4) by (auto intro: slot_free)
qed

definition vpid_inv :: "nat \<Rightarrow> vpid_system \<Rightarrow> bool" where
  "vpid_inv n s \<longleftrightarrow> n \<le> 128 \<and> length (vs_leases s) = n \<and> pool_ok (vs_leases s)"

lemma vpid_step_cases:
  assumes "vpid_step s t" and "vpid_inv n s"
  obtains (slot) i m where "i < length (vs_leases s)" "slot_change (vs_leases s) (vs_leases s ! i) m"
      "t = s\<lparr>vs_leases := (vs_leases s)[i := m]\<rparr>"
      "vl_state (vs_leases s ! i) = VpidLeaseState_u32 LeaseRetiring \<Longrightarrow> vl_state m = VpidLeaseState_u32 LeaseFree \<Longrightarrow>
         IsShootdownStateValid (Some (vs_shootdown s)) \<and>
         ss_generation (vs_shootdown s) = vl_generation (vs_leases s ! i) \<and>
         ShootdownCoversVpid (vs_shootdown s) (vl_vpid (vs_leases s ! i))"
  | (shootdown) u where "t = s\<lparr>vs_shootdown := u\<rparr>"
  using assms(1)
proof cases
  case (vpid_allocate i r st l)
  then show ?thesis using allocate_slot assms(2) by (intro slot [of i l]) (auto simp: vpid_inv_def)
next
  case (vpid_retire i g b l)
  then have "slot_change (vs_leases s) (vs_leases s ! i) l"
    by (auto simp: BeginVpidRetire_def intro: slot_same slot_state split: if_splits)
  moreover have "l = vs_leases s ! i \<or> vl_state l = VpidLeaseState_u32 LeaseRetiring"
    using vpid_retire(3) by (auto simp: BeginVpidRetire_def split: if_splits)
  ultimately show ?thesis
    using vpid_retire by (intro slot [of i l]) auto
next
  case (vpid_reclaim i g b l)
  then have "slot_change (vs_leases s) (vs_leases s ! i) l"
    by (auto simp: ReclaimVpid_def intro: slot_same slot_free split: if_splits)
  moreover have "l = vs_leases s ! i \<or> IsShootdownStateValid (Some (vs_shootdown s)) \<and>
         ss_generation (vs_shootdown s) = vl_generation (vs_leases s ! i) \<and>
         ShootdownCoversVpid (vs_shootdown s) (vl_vpid (vs_leases s ! i))"
    using vpid_reclaim(3) by (auto simp: ReclaimVpid_def split: if_splits)
  ultimately show ?thesis
    using vpid_reclaim by (intro slot [of i l]) auto
next
  case (vpid_quarantine i g b l)
  then have "slot_change (vs_leases s) (vs_leases s ! i) l"
    by (auto simp: QuarantineVpid_def intro: slot_same slot_state split: if_splits)
  moreover have "l = vs_leases s ! i \<or> vl_state l = VpidLeaseState_u32 LeaseQuarantined"
    using vpid_quarantine(3) by (auto simp: QuarantineVpid_def split: if_splits)
  ultimately show ?thesis
    using vpid_quarantine by (intro slot [of i l]) auto
qed (use shootdown in auto)

interpretation vpid: invariant_machine vpid_step "vpid_inv n" for n
proof
  fix s t assume st: "vpid_step s t" and inv: "vpid_inv n s"
  show "vpid_inv n t"
    using inv by (cases rule: vpid_step_cases [OF st inv]) (auto simp: vpid_inv_def slot_change_pool)
qed

lemma quarantine_stays:
  assumes "vpid_step s t" and "vpid_inv n s" and "i < n"
    and "vl_state (vs_leases s ! i) = VpidLeaseState_u32 LeaseQuarantined"
  shows "vs_leases t ! i = vs_leases s ! i"
  using assms(1,2)
proof (cases rule: vpid_step_cases)
  case (slot j m)
  then show ?thesis
    using assms(4) by (cases "j = i") (auto elim!: slot_change.cases)
qed (use assms in \<open>auto simp: vpid_inv_def\<close>)

lemma quarantine_stays_run:
  assumes "vpid_step\<^sup>*\<^sup>* s t" and "vpid_inv n s" and "i < n"
    and "vl_state (vs_leases s ! i) = VpidLeaseState_u32 LeaseQuarantined"
  shows "vs_leases t ! i = vs_leases s ! i"
  using assms(1)
proof (induction rule: rtranclp_induct)
  case (step u v)
  then show ?case
    using quarantine_stays [OF step.hyps(2) vpid.star_inv [OF step.hyps(1) assms(2)] assms(3)] assms(4) by simp
qed simp

lemma live_vpids_nth: "v \<in> live_vpids ls \<longleftrightarrow> (\<exists>j < length ls. vl_state (ls ! j) \<noteq> 0 \<and> vl_vpid (ls ! j) = v)"
  by (auto simp: live_vpids_def in_set_conv_nth)

lemma live_vpids_update:
  assumes "i < length ls" and "v \<in> live_vpids ls" and "v \<notin> live_vpids (ls[i := m])"
  shows "v = vl_vpid (ls ! i) \<and> vl_state (ls ! i) \<noteq> 0 \<and> \<not> (vl_state m \<noteq> 0 \<and> vl_vpid m = v)"
proof -
  obtain j where j: "j < length ls" "vl_state (ls ! j) \<noteq> 0" "vl_vpid (ls ! j) = v"
    using assms(2) by (auto simp: live_vpids_nth)
  have no: "\<not> (vl_state (ls[i := m] ! k) \<noteq> 0 \<and> vl_vpid (ls[i := m] ! k) = v)" if "k < length ls" for k
    using assms(3) that by (auto simp: live_vpids_nth)
  then have "j = i" using no [OF j(1)] j by (cases "j = i") auto
  then show ?thesis using j no [OF assms(1)] assms(1) by auto
qed

lemma vpid_released_only_by_reclaim:
  assumes "vpid_step s t" and "vpid_inv n s" and "v \<in> live_vpids (vs_leases s)" and "v \<notin> live_vpids (vs_leases t)"
  shows "IsShootdownStateValid (Some (vs_shootdown s)) \<and> ShootdownCoversVpid (vs_shootdown s) v"
  using assms(1,2)
proof (cases rule: vpid_step_cases)
  case (slot i m)
  have v: "v = vl_vpid (vs_leases s ! i)" "vl_state (vs_leases s ! i) \<noteq> 0"
    and m: "\<not> (vl_state m \<noteq> 0 \<and> vl_vpid m = v)"
    using live_vpids_update [OF slot(1) assms(3), of m] assms(4) slot(3) by auto
  have "vl_state (vs_leases s ! i) = VpidLeaseState_u32 LeaseRetiring \<and> vl_state m = VpidLeaseState_u32 LeaseFree"
    using slot(2)
  proof cases
    case slot_same
    then show ?thesis using v m by simp
  next
    case slot_new
    then show ?thesis using v(2) by simp
  next
    case slot_free
    then show ?thesis using v(2) by (simp add: InitializeFreeLease_def)
  next
    case (slot_state st)
    then show ?thesis using v m by auto
  qed
  then show ?thesis using slot(4) v(1) by simp
qed (use assms in \<open>auto simp: vpid_inv_def\<close>)

text \<open>
C19: In every state that a lease table reaches from the all-free one, the leases are valid and
live VPIDs are pairwise distinct; a VPID leaves the table only under a shootdown that covers it
and that every target CPU has acknowledged; and a quarantined lease never changes again.
\<close>

theorem vpid_pool_safe:
  assumes "n \<le> 128" and "vpid_step\<^sup>*\<^sup>* \<lparr>vs_leases = replicate n InitializeFreeLease, vs_shootdown = d\<rparr> s"
  shows "length (vs_leases s) = n \<and> (\<forall>l \<in> set (vs_leases s). IsVpidLeaseValid (Some l)) \<and>
    distinct (map vl_vpid (live (vs_leases s))) \<and>
    (\<forall>t v. vpid_step s t \<and> v \<in> live_vpids (vs_leases s) \<and> v \<notin> live_vpids (vs_leases t) \<longrightarrow>
       ShootdownCoversVpid (vs_shootdown s) v \<and>
       ss_acknowledged_cpu_mask (vs_shootdown s) = ss_target_cpu_mask (vs_shootdown s)) \<and>
    (\<forall>t i. vpid_step\<^sup>*\<^sup>* s t \<and> i < n \<and>
       vl_state (vs_leases s ! i) = VpidLeaseState_u32 LeaseQuarantined \<longrightarrow> vs_leases t ! i = vs_leases s ! i)"
proof -
  have "live (replicate n InitializeFreeLease) = []"
    by (simp add: live_def InitializeFreeLease_def)
  then have "vpid_inv n \<lparr>vs_leases = replicate n InitializeFreeLease, vs_shootdown = d\<rparr>"
    using assms(1) by (simp add: vpid_inv_def pool_ok_def free_lease_valid)
  then have inv: "vpid_inv n s" using vpid.star_inv assms(2) by blast
  have "ss_acknowledged_cpu_mask u = ss_target_cpu_mask u"
    if "IsShootdownStateValid (Some u)" "ShootdownCoversVpid u v" for u v
    using that by (auto simp: IsShootdownStateValid_def ShootdownCoversVpid_def split: if_splits)
  then show ?thesis
    using inv vpid_released_only_by_reclaim [OF _ inv] quarantine_stays_run [OF _ inv]
    unfolding vpid_inv_def pool_ok_def by blast
qed

section \<open>Sample inputs and the properties\<close>

definition sample_vpid_request :: VpidRequest where
  "sample_vpid_request = \<lparr>vr_size = 40, vr_version = 1, vr_owner_id = 9, vr_generation = 5, vr_kind = 3,
     vr_max_vpid = 8, vr_reserved = 0, vr_reserved2 = 0\<rparr>"

definition sample_lease :: "u32 \<Rightarrow> VpidLeaseState \<Rightarrow> VpidLease" where
  "sample_lease v st = \<lparr>vl_size = 48, vl_version = 1, vl_vpid = v, vl_kind = 3,
     vl_state = VpidLeaseState_u32 st, vl_flags = 0, vl_owner_id = 9, vl_generation = 5,
     vl_allocation_sequence = ucast v\<rparr>"

definition sample_shootdown :: ShootdownRequest where
  "sample_shootdown = \<lparr>sr_size = 64, sr_version = 1, sr_type = 1, sr_flags = 0, sr_request_id = 7,
     sr_generation = 5, sr_source_cpu = 0, sr_vpid = 1, sr_target_cpu_mask = 6, sr_address = 0,
     sr_deadline_tsc = 1000\<rparr>"

lemma sample_vpid_request_valid: "IsVpidRequestValid (Some sample_vpid_request)"
  by code_simp

lemma sample_lease_valid:
  "IsVpidLeaseValid (Some (sample_lease 1 LeaseActive))" "IsVpidLeaseValid (Some (sample_lease 2 LeaseActive))"
  "IsVpidLeaseValid (Some (sample_lease 1 LeaseRetiring))"
  by code_simp+

lemma sample_shootdown_valid: "IsShootdownRequestValid (Some sample_shootdown)"
  by code_simp

lemma sample_allocation:
  "AllocateVpid (Some sample_vpid_request) (Some [InitializeFreeLease, InitializeFreeLease]) 2 (Some InitializeFreeLease) =
     (VpidSuccess, Some (sample_lease 1 LeaseActive))"
  by code_simp


theorem allocate_vpid_smallest:
  assumes "IsVpidRequestValid (Some r)" and "pool_ok ls" and "length ls \<le> 128"
  shows "(\<exists>n. AllocateVpid (Some r) (Some ls) (word_of_nat (length ls)) (Some l) = (VpidSuccess, Some n) \<and>
            IsVpidLeaseValid (Some n) \<and> vl_state n = VpidLeaseState_u32 LeaseActive \<and>
            vl_owner_id n = vr_owner_id r \<and> vl_generation n = vr_generation r \<and> vl_kind n = vr_kind r \<and>
            vl_vpid n \<notin> live_vpids ls \<and> 1 \<le> vl_vpid n \<and> vl_vpid n \<le> vr_max_vpid r \<and>
            (\<forall>v. 1 \<le> v \<and> v < vl_vpid n \<longrightarrow> v \<in> live_vpids ls))
       \<or> (AllocateVpid (Some r) (Some ls) (word_of_nat (length ls)) (Some l) = (VpidExhausted, Some InitializeFreeLease) \<and>
            (\<forall>v. 1 \<le> v \<and> v \<le> vr_max_vpid r \<longrightarrow> v \<in> live_vpids ls) \<and>
            unat (vr_max_vpid r) \<le> length (live ls))"
  by (rule allocate_vpid_cases [OF assms])

lemma sample_pool: "pool_ok [sample_lease 1 LeaseActive, InitializeFreeLease, sample_lease 2 LeaseActive]"
  by (simp add: pool_ok_def sample_lease_valid free_lease_valid)
    (simp add: sample_lease_def InitializeFreeLease_def)

theorem allocate_vpid_smallest_witness:
  "\<exists>n. AllocateVpid (Some sample_vpid_request)
       (Some [sample_lease 1 LeaseActive, InitializeFreeLease, sample_lease 2 LeaseActive]) 3
       (Some InitializeFreeLease) = (VpidSuccess, Some n) \<and>
     vl_vpid n \<notin> {1, 2} \<and> IsVpidLeaseValid (Some n)"
proof -
  let ?ls = "[sample_lease 1 LeaseActive, InitializeFreeLease, sample_lease 2 LeaseActive]"
  have "\<not> unat (vr_max_vpid sample_vpid_request) \<le> length (live ?ls)"
    by (simp add: sample_vpid_request_def sample_lease_def InitializeFreeLease_def)
  moreover have "live_vpids ?ls = {1, 2}"
    by (simp add: live_vpids_live) (auto simp: sample_lease_def InitializeFreeLease_def)
  ultimately show ?thesis
    using allocate_vpid_smallest [OF sample_vpid_request_valid sample_pool, of InitializeFreeLease] by auto
qed

lemma mask_six: "bit (6 :: u64) i \<longleftrightarrow> i = 1 \<or> i = 2"
proof -
  have "i = 0 \<or> i = 1 \<or> i = 2 \<or> (\<exists>n. i = n + 3)" by presburger
  then show ?thesis by (elim disjE exE) (simp_all add: numeral_3_eq_3)
qed

theorem vpid_reclaim_protocol_witness:
  "ReclaimVpid (Some (sample_lease 1 LeaseRetiring)) 5
     (snd (CompleteShootdown (Some (shootdown_after sample_shootdown [2, 40, 1])) 900)) = (True, Some InitializeFreeLease) \<and>
   ReclaimVpid (Some (sample_lease 1 LeaseRetiring)) 5
     (snd (CompleteShootdown (Some (shootdown_after sample_shootdown [2, 40])) 900)) =
     (False, Some (sample_lease 1 LeaseRetiring))"
proof -
  have s: "vl_state (sample_lease 1 LeaseRetiring) = VpidLeaseState_u32 LeaseRetiring"
    "sr_generation sample_shootdown = 5"
    "vl_generation (sample_lease 1 LeaseRetiring) = 5"
    by (simp_all add: sample_lease_def sample_shootdown_def)
  have f: "sr_deadline_tsc sample_shootdown = 1000" "sr_target_cpu_mask sample_shootdown = 6"
    "sr_type sample_shootdown = 1" "sr_vpid sample_shootdown = 1" "vl_vpid (sample_lease 1 LeaseRetiring) = 1"
    by (simp_all add: sample_lease_def sample_shootdown_def)
  have t: "targets_acknowledged 6 [2, 40, 1]" "\<not> targets_acknowledged 6 [2, 40]"
    unfolding targets_acknowledged_def mask_six by (auto intro!: exI [of _ 1])
  show ?thesis
    using vpid_reclaim_protocol [OF sample_lease_valid(3) s(1) sample_shootdown_valid, of 5 "[2, 40, 1]" 900]
      vpid_reclaim_protocol [OF sample_lease_valid(3) s(1) sample_shootdown_valid, of 5 "[2, 40]" 900]
      t s(2,3) f by (simp add: IsContextShootdown_def)
qed

theorem vpid_pool_safe_witness:
  "\<exists>s. vpid_step\<^sup>*\<^sup>* \<lparr>vs_leases = replicate 2 InitializeFreeLease, vs_shootdown = InitializeShootdownState\<rparr> s \<and>
     vs_leases s = [sample_lease 1 LeaseActive, InitializeFreeLease] \<and> length (vs_leases s) = 2 \<and>
     distinct (map vl_vpid (live (vs_leases s)))"
proof -
  let ?s = "\<lparr>vs_leases = replicate 2 InitializeFreeLease, vs_shootdown = InitializeShootdownState\<rparr>"
  let ?t = "?s\<lparr>vs_leases := (vs_leases ?s)[0 := sample_lease 1 LeaseActive]\<rparr>"
  have e: "replicate 2 InitializeFreeLease = [InitializeFreeLease, InitializeFreeLease]"
    by (simp add: numeral_2_eq_2)
  have "vpid_step ?s ?t"
    by (rule vpid_allocate [where r = "Some sample_vpid_request" and st = VpidSuccess])
      (simp_all add: e sample_allocation, simp add: InitializeFreeLease_def)
  then have run: "vpid_step\<^sup>*\<^sup>* ?s ?t" by (rule r_into_rtranclp)
  have "vs_leases ?t = [sample_lease 1 LeaseActive, InitializeFreeLease]" by (simp add: e)
  then show ?thesis
    using run vpid_pool_safe [OF _ run] by (intro exI [of _ ?t]) simp
qed

theorem late_shootdown_stuck_witness:
  "\<exists>t. CompleteShootdown (Some (shootdown_after sample_shootdown [1, 2])) 1001 = (False, Some t) \<and>
     \<not> IsShootdownStateValid (Some t) \<and> QuarantineShootdown (Some t) = (False, Some t)"
proof -
  have "pending (shootdown_after sample_shootdown [1, 2])"
    "ss_acknowledged_cpu_mask (shootdown_after sample_shootdown [1, 2]) = ss_target_cpu_mask (shootdown_after sample_shootdown [1, 2])"
    "1001 > ss_deadline_tsc (shootdown_after sample_shootdown [1, 2])"
    by code_simp+
  then show ?thesis using late_shootdown_stuck by blast
qed

end
