(* ===== verification/InterruptModel.thy ===== *)
theory InterruptModel
  imports KnhvPrelude
begin

text \<open>
  The virtual interrupt queue of \<^verbatim>\<open>src/src/interrupt/interrupt_model.cpp\<close> and
  \<^verbatim>\<open>src/src/include/knhv_interrupt.h\<close>: validation, enqueue, selection by priority, commit of an
  injection, and the posted-interrupt descriptor with its drain into the queue. The array
  \<^verbatim>\<open>pending[32]\<close> is a list of 32 events and \<^verbatim>\<open>pir[8]\<close> a list of 8 words; that these lists have
  those lengths is what the C++ types give.
\<close>

section \<open>Constants and enumerations\<close>

abbreviation kInterruptContractVersion :: u32 where "kInterruptContractVersion \<equiv> 1"
abbreviation kInterruptMaxStructSize :: u32 where "kInterruptMaxStructSize \<equiv> 4096"
abbreviation kInterruptQueueDepth :: u32 where "kInterruptQueueDepth \<equiv> 32"
abbreviation kInterruptVectorCount :: u32 where "kInterruptVectorCount \<equiv> 256"
abbreviation kInterruptVectorFirstExternal :: u32 where "kInterruptVectorFirstExternal \<equiv> 32"
abbreviation kInterruptBlockBySti :: u32 where "kInterruptBlockBySti \<equiv> 1"
abbreviation kInterruptBlockByMovSs :: u32 where "kInterruptBlockByMovSs \<equiv> 2"
abbreviation kInterruptBlockNmi :: u32 where "kInterruptBlockNmi \<equiv> 4"
abbreviation kInterruptKnownBlockMask :: u32 where "kInterruptKnownBlockMask \<equiv> 7"
abbreviation kInterruptEventDeliverError :: u32 where "kInterruptEventDeliverError \<equiv> 1"
abbreviation kInterruptEventPosted :: u32 where "kInterruptEventPosted \<equiv> 2"
abbreviation kInterruptEventFromDevice :: u32 where "kInterruptEventFromDevice \<equiv> 4"
abbreviation kInterruptKnownEventMask :: u32 where "kInterruptKnownEventMask \<equiv> 7"

datatype InterruptKind = HardwareException | External | Nmi | Virtual | Init | Sipi | Smi

fun InterruptKind_u32 :: "InterruptKind \<Rightarrow> u32" where
  "InterruptKind_u32 HardwareException = 0"
| "InterruptKind_u32 External = 1"
| "InterruptKind_u32 Nmi = 2"
| "InterruptKind_u32 Virtual = 3"
| "InterruptKind_u32 Init = 4"
| "InterruptKind_u32 Sipi = 5"
| "InterruptKind_u32 Smi = 6"

datatype InterruptStatus = IntReady | IntNoPending | IntBlocked | IntInvalid | IntGenerationMismatch
  | IntQueueFull | IntConflict

fun InterruptStatus_u32 :: "InterruptStatus \<Rightarrow> u32" where
  "InterruptStatus_u32 IntReady = 0"
| "InterruptStatus_u32 IntNoPending = 1"
| "InterruptStatus_u32 IntBlocked = 2"
| "InterruptStatus_u32 IntInvalid = 3"
| "InterruptStatus_u32 IntGenerationMismatch = 4"
| "InterruptStatus_u32 IntQueueFull = 5"
| "InterruptStatus_u32 IntConflict = 6"

datatype InterruptAction = IntInject | IntWaitWindow | IntQuarantine

fun InterruptAction_u32 :: "InterruptAction \<Rightarrow> u32" where
  "InterruptAction_u32 IntInject = 0"
| "InterruptAction_u32 IntWaitWindow = 1"
| "InterruptAction_u32 IntQuarantine = 2"

section \<open>Structures\<close>

record InterruptEvent =
  ev_size :: u32
  ev_version :: u32
  ev_kind :: u32
  ev_vector :: u32
  ev_error_code :: u32
  ev_flags :: u32
  ev_reserved :: u32
  ev_reserved2 :: u32
  ev_source_id :: u64
  ev_generation :: u64
  ev_sequence :: u64

record InterruptState =
  is_size :: u32
  is_version :: u32
  is_generation :: u64
  is_next_sequence :: u64
  is_pending_count :: u32
  is_interruptibility :: u32
  is_virtual_apic_tpr :: u32
  is_reserved :: u32
  is_pending :: "InterruptEvent list"

record InterruptDecision =
  dn_size :: u32
  dn_version :: u32
  dn_status :: u32
  dn_action :: u32
  dn_kind :: u32
  dn_vector :: u32
  dn_error_code :: u32
  dn_flags :: u32
  dn_reserved :: u32
  dn_reserved2 :: u32
  dn_sequence :: u64
  dn_generation :: u64

record PostedInterruptDescriptor =
  pd_size :: u32
  pd_version :: u32
  pd_notification_vector :: u32
  pd_suppress_notification :: u32
  pd_reserved :: u32
  pd_reserved2 :: u32
  pd_pir :: "u32 list"
  pd_generation :: u64

definition zero_event :: InterruptEvent where
  "zero_event = \<lparr>ev_size = 0, ev_version = 0, ev_kind = 0, ev_vector = 0, ev_error_code = 0,
     ev_flags = 0, ev_reserved = 0, ev_reserved2 = 0, ev_source_id = 0, ev_generation = 0,
     ev_sequence = 0\<rparr>"

abbreviation interrupt_versioned :: "u32 \<Rightarrow> u32 \<Rightarrow> u32 \<Rightarrow> bool" where
  "interrupt_versioned \<equiv> IsVersionedSizeValid kInterruptContractVersion kInterruptMaxStructSize"

section \<open>Helpers\<close>

definition IsInterruptKindValid :: "u32 \<Rightarrow> bool" where
  "IsInterruptKindValid kind \<longleftrightarrow> kind \<le> InterruptKind_u32 Smi"

definition IsVectorValid :: "u32 \<Rightarrow> u32 \<Rightarrow> bool" where
  "IsVectorValid kind vector =
     (if kind = InterruptKind_u32 HardwareException then vector < kInterruptVectorFirstExternal
      else if kind = InterruptKind_u32 External \<or> kind = InterruptKind_u32 Virtual
      then vector \<ge> kInterruptVectorFirstExternal \<and> vector < kInterruptVectorCount
      else if kind = InterruptKind_u32 Nmi then vector = 2
      else if kind = InterruptKind_u32 Init \<or> kind = InterruptKind_u32 Smi then vector = 0
      else if kind = InterruptKind_u32 Sipi then vector < kInterruptVectorCount
      else False)"

definition Priority :: "InterruptEvent \<Rightarrow> u32" where
  "Priority event =
     (let kind = ev_kind event in
      if kind = InterruptKind_u32 Nmi then 4
      else if kind = InterruptKind_u32 HardwareException then 3
      else if kind = InterruptKind_u32 Init \<or> kind = InterruptKind_u32 Sipi \<or>
              kind = InterruptKind_u32 Smi then 2
      else if kind = InterruptKind_u32 External \<or> kind = InterruptKind_u32 Virtual then 1
      else 0)"

definition IsBlocked :: "InterruptState \<Rightarrow> InterruptEvent \<Rightarrow> bool" where
  "IsBlocked state event =
     (let kind = ev_kind event in
      if kind = InterruptKind_u32 Nmi then is_interruptibility state AND kInterruptBlockNmi \<noteq> 0
      else if kind = InterruptKind_u32 External \<or> kind = InterruptKind_u32 Virtual
      then if is_interruptibility state AND (kInterruptBlockBySti OR kInterruptBlockByMovSs) \<noteq> 0 then True
           else drop_bit 4 (ev_vector event) \<le> drop_bit 4 (is_virtual_apic_tpr state)
      else False)"

definition IsSameEvent :: "InterruptEvent \<Rightarrow> InterruptDecision \<Rightarrow> bool" where
  "IsSameEvent left right \<longleftrightarrow> ev_kind left = dn_kind right \<and> ev_vector left = dn_vector right \<and>
     ev_error_code left = dn_error_code right \<and> ev_flags left = dn_flags right \<and>
     ev_sequence left = dn_sequence right \<and> ev_generation left = dn_generation right"

definition InitializeDecision :: "u64 \<Rightarrow> InterruptDecision" where
  "InitializeDecision generation = \<lparr>dn_size = 56, dn_version = kInterruptContractVersion,
     dn_status = 0, dn_action = 0, dn_kind = 0, dn_vector = 0, dn_error_code = 0, dn_flags = 0,
     dn_reserved = 0, dn_reserved2 = 0, dn_sequence = 0, dn_generation = generation\<rparr>"

section \<open>Validation\<close>

definition IsInterruptEventValid :: "InterruptEvent option \<Rightarrow> bool" where
  "IsInterruptEventValid event = (case event of None \<Rightarrow> False | Some e \<Rightarrow>
     if \<not> interrupt_versioned (ev_version e) (ev_size e) 56 \<or>
        \<not> IsInterruptKindValid (ev_kind e) \<or> \<not> IsVectorValid (ev_kind e) (ev_vector e) \<or>
        ev_flags e AND NOT kInterruptKnownEventMask \<noteq> 0 \<or>
        ev_reserved e \<noteq> 0 \<or> ev_reserved2 e \<noteq> 0 \<or> ev_generation e = 0 \<or> ev_sequence e = 0 then False
     else if ev_flags e AND kInterruptEventDeliverError \<noteq> 0 \<and>
             ev_kind e \<noteq> InterruptKind_u32 HardwareException then False
     else if ev_flags e AND kInterruptEventDeliverError = 0 \<and> ev_error_code e \<noteq> 0 then False
     else True)"

text \<open>The first loop of \<^verbatim>\<open>IsInterruptStateValid\<close>, with the events already visited.\<close>

fun pending_valid :: "u64 \<Rightarrow> InterruptEvent list \<Rightarrow> InterruptEvent list \<Rightarrow> bool" where
  "pending_valid generation prior [] = True"
| "pending_valid generation prior (e # es) =
     (if \<not> IsInterruptEventValid (Some e) \<or> ev_generation e \<noteq> generation then False
      else if list_ex (\<lambda>p. ev_sequence p = ev_sequence e) prior then False
      else pending_valid generation (prior @ [e]) es)"

definition IsInterruptStateValid :: "InterruptState option \<Rightarrow> bool" where
  "IsInterruptStateValid state = (case state of None \<Rightarrow> False | Some s \<Rightarrow>
     if \<not> interrupt_versioned (is_version s) (is_size s) 1832 \<or>
        is_generation s = 0 \<or> is_next_sequence s = 0 \<or>
        is_pending_count s > kInterruptQueueDepth \<or>
        is_interruptibility s AND NOT kInterruptKnownBlockMask \<noteq> 0 \<or>
        is_virtual_apic_tpr s > 0xFF \<or> is_reserved s \<noteq> 0 then False
     else if \<not> pending_valid (is_generation s) [] (take (unat (is_pending_count s)) (is_pending s)) then False
     else list_all (\<lambda>e. e = zero_event)
            (drop (unat (is_pending_count s)) (take (unat kInterruptQueueDepth) (is_pending s))))"

section \<open>The queue\<close>

definition EnqueueInterrupt ::
    "InterruptState option \<Rightarrow> InterruptEvent option \<Rightarrow> InterruptStatus \<times> InterruptState option" where
  "EnqueueInterrupt state event = (case state of None \<Rightarrow> (IntInvalid, None) | Some s \<Rightarrow>
     if \<not> IsInterruptStateValid (Some s) \<or> \<not> IsInterruptEventValid event then (IntInvalid, Some s)
     else let e = the event in
       if ev_generation e \<noteq> is_generation s then (IntGenerationMismatch, Some s)
       else if is_pending_count s \<ge> kInterruptQueueDepth then (IntQueueFull, Some s)
       else if list_ex (\<lambda>p. ev_sequence p = ev_sequence e) (take (unat (is_pending_count s)) (is_pending s))
       then (IntConflict, Some s)
       else if ev_sequence e = NOT 0 then (IntConflict, Some s)
       else let s1 = s\<lparr>is_pending := (is_pending s)[unat (is_pending_count s) := e],
                       is_pending_count := is_pending_count s + 1\<rparr>
            in (IntReady, Some (if ev_sequence e \<ge> is_next_sequence s1
                                then s1\<lparr>is_next_sequence := ev_sequence e + 1\<rparr> else s1)))"

text \<open>The selection loop: the event selected so far, as a pointer that may be null.\<close>

fun select_event :: "InterruptState \<Rightarrow> InterruptEvent option \<Rightarrow> InterruptEvent list \<Rightarrow> InterruptEvent option" where
  "select_event state selected [] = selected"
| "select_event state selected (candidate # es) =
     (if IsBlocked state candidate then select_event state selected es
      else if (case selected of None \<Rightarrow> True
               | Some s \<Rightarrow> Priority candidate > Priority s \<or>
                   Priority candidate = Priority s \<and> ev_sequence candidate < ev_sequence s)
      then select_event state (Some candidate) es
      else select_event state selected es)"

definition SelectInterrupt ::
    "InterruptState option \<Rightarrow> u64 \<Rightarrow> InterruptDecision option \<Rightarrow> InterruptStatus \<times> InterruptDecision option" where
  "SelectInterrupt state generation decision = (case decision of None \<Rightarrow> (IntInvalid, None)
     | Some _ \<Rightarrow> let d = InitializeDecision generation in
         if \<not> IsInterruptStateValid state
         then (IntInvalid, Some (d\<lparr>dn_action := InterruptAction_u32 IntQuarantine\<rparr>))
         else let s = the state in
           if is_generation s \<noteq> generation
           then (IntGenerationMismatch, Some (d\<lparr>dn_action := InterruptAction_u32 IntQuarantine\<rparr>))
           else if is_pending_count s = 0
           then (IntNoPending, Some (d\<lparr>dn_status := InterruptStatus_u32 IntNoPending,
                                       dn_action := InterruptAction_u32 IntWaitWindow\<rparr>))
           else (case select_event s None (take (unat (is_pending_count s)) (is_pending s)) of
                   None \<Rightarrow> (IntBlocked, Some (d\<lparr>dn_status := InterruptStatus_u32 IntBlocked,
                                                dn_action := InterruptAction_u32 IntWaitWindow\<rparr>))
                 | Some e \<Rightarrow> (IntReady, Some (d\<lparr>dn_status := InterruptStatus_u32 IntReady,
                     dn_action := InterruptAction_u32 IntInject, dn_kind := ev_kind e,
                     dn_vector := ev_vector e, dn_error_code := ev_error_code e,
                     dn_flags := ev_flags e, dn_sequence := ev_sequence e\<rparr>))))"

text \<open>The inner loop of \<^verbatim>\<open>CommitInterruptInjection\<close>, which closes the gap at \<open>index\<close>.\<close>

definition move_down :: "nat \<Rightarrow> nat \<Rightarrow> InterruptEvent list \<Rightarrow> InterruptEvent list" where
  "move_down index count pending = fold (\<lambda>m p. p[m - 1 := p ! m]) [index + 1..<count] pending"

definition CommitInterruptInjection ::
    "InterruptState option \<Rightarrow> InterruptDecision option \<Rightarrow> bool \<times> InterruptState option" where
  "CommitInterruptInjection state decision = (case state of None \<Rightarrow> (False, None) | Some s \<Rightarrow>
     (case decision of None \<Rightarrow> (False, Some s) | Some d \<Rightarrow>
        if \<not> IsInterruptStateValid (Some s) \<or>
           \<not> interrupt_versioned (dn_version d) (dn_size d) 56 \<or>
           dn_status d \<noteq> InterruptStatus_u32 IntReady \<or>
           dn_action d \<noteq> InterruptAction_u32 IntInject \<or>
           dn_generation d \<noteq> is_generation s \<or> dn_sequence d = 0 \<or>
           dn_reserved d \<noteq> 0 \<or> dn_reserved2 d \<noteq> 0 \<or>
           dn_flags d AND NOT kInterruptKnownEventMask \<noteq> 0 then (False, Some s)
        else (case find (\<lambda>i. IsSameEvent (is_pending s ! i) d) [0..<unat (is_pending_count s)] of
                None \<Rightarrow> (False, Some s)
              | Some index \<Rightarrow>
                  let moved = move_down index (unat (is_pending_count s)) (is_pending s);
                      count = is_pending_count s - 1;
                      s1 = s\<lparr>is_pending_count := count, is_pending := moved[unat count := zero_event]\<rparr>
                  in (True, Some (if dn_kind d = InterruptKind_u32 Nmi
                                  then s1\<lparr>is_interruptibility := is_interruptibility s1 OR kInterruptBlockNmi\<rparr>
                                  else s1)))))"

section \<open>Posted interrupts\<close>

definition IsPostedInterruptValid :: "PostedInterruptDescriptor option \<Rightarrow> bool" where
  "IsPostedInterruptValid descriptor = (case descriptor of None \<Rightarrow> False | Some d \<Rightarrow>
     interrupt_versioned (pd_version d) (pd_size d) 64 \<and>
     pd_notification_vector d \<ge> kInterruptVectorFirstExternal \<and>
     pd_notification_vector d < kInterruptVectorCount \<and>
     pd_suppress_notification d \<le> 1 \<and> pd_reserved d = 0 \<and> pd_reserved2 d = 0 \<and>
     pd_generation d \<noteq> 0)"

definition PostInterrupt ::
    "PostedInterruptDescriptor option \<Rightarrow> u32 \<Rightarrow> u64 \<Rightarrow> bool \<times> PostedInterruptDescriptor option" where
  "PostInterrupt descriptor vector generation = (case descriptor of None \<Rightarrow> (False, None) | Some d \<Rightarrow>
     if \<not> IsPostedInterruptValid (Some d) \<or> vector < kInterruptVectorFirstExternal \<or>
        vector \<ge> kInterruptVectorCount \<or> pd_generation d \<noteq> generation then (False, Some d)
     else let w = unat (drop_bit 5 vector); b = unat (vector AND 31)
          in (True, Some (d\<lparr>pd_pir := (pd_pir d)[w := pd_pir d ! w OR push_bit b 1]\<rparr>)))"

definition posted_event :: "u64 \<Rightarrow> u64 \<Rightarrow> nat \<Rightarrow> nat \<Rightarrow> u64 \<Rightarrow> InterruptEvent" where
  "posted_event generation source_id w b sequence =
     \<lparr>ev_size = 56, ev_version = kInterruptContractVersion, ev_kind = InterruptKind_u32 Virtual,
      ev_vector = push_bit 5 (word_of_nat w) + word_of_nat b, ev_error_code = 0,
      ev_flags = kInterruptEventPosted OR kInterruptEventFromDevice, ev_reserved = 0, ev_reserved2 = 0,
      ev_source_id = source_id, ev_generation = generation, ev_sequence = sequence\<rparr>"

text \<open>
  The two loops of \<^verbatim>\<open>DrainPostedInterrupt\<close>: the first component of the result is the status
  of an early return.
\<close>

fun drain_bits :: "u64 \<Rightarrow> u64 \<Rightarrow> nat \<Rightarrow> u32 \<Rightarrow> nat list \<Rightarrow> PostedInterruptDescriptor \<Rightarrow> InterruptState \<Rightarrow> bool \<Rightarrow>
    InterruptStatus option \<times> PostedInterruptDescriptor \<times> InterruptState \<times> bool" where
  "drain_bits generation source_id w bits [] d s drained = (None, d, s, drained)"
| "drain_bits generation source_id w bits (b # bs) d s drained =
     (if bits AND push_bit b 1 = 0 then drain_bits generation source_id w bits bs d s drained
      else if is_next_sequence s = NOT 0 then (Some IntConflict, d, s, drained)
      else case EnqueueInterrupt (Some s)
                  (Some (posted_event generation source_id w b (is_next_sequence s))) of
             (status, s') \<Rightarrow>
               if status \<noteq> IntReady then (Some status, d, the s', drained)
               else drain_bits generation source_id w bits bs
                      (d\<lparr>pd_pir := (pd_pir d)[w := pd_pir d ! w AND NOT (push_bit b 1)]\<rparr>) (the s') True)"

fun drain_words :: "u64 \<Rightarrow> u64 \<Rightarrow> nat list \<Rightarrow> PostedInterruptDescriptor \<Rightarrow> InterruptState \<Rightarrow> bool \<Rightarrow>
    InterruptStatus option \<times> PostedInterruptDescriptor \<times> InterruptState \<times> bool" where
  "drain_words generation source_id [] d s drained = (None, d, s, drained)"
| "drain_words generation source_id (w # ws) d s drained =
     (case drain_bits generation source_id w (pd_pir d ! w) [0..<32] d s drained of
        (Some status, d', s', drained') \<Rightarrow> (Some status, d', s', drained')
      | (None, d', s', drained') \<Rightarrow> drain_words generation source_id ws d' s' drained')"

definition DrainPostedInterrupt ::
    "PostedInterruptDescriptor option \<Rightarrow> InterruptState option \<Rightarrow> u64 \<Rightarrow> u64 \<Rightarrow>
     InterruptStatus \<times> PostedInterruptDescriptor option \<times> InterruptState option" where
  "DrainPostedInterrupt descriptor state generation source_id =
     (if \<not> IsPostedInterruptValid descriptor \<or> \<not> IsInterruptStateValid state
      then (IntInvalid, descriptor, state)
      else let d = the descriptor; s = the state in
        if pd_generation d \<noteq> generation \<or> is_generation s \<noteq> generation
        then (IntGenerationMismatch, descriptor, state)
        else case drain_words generation source_id [0..<8] d s False of
          (Some status, d', s', _) \<Rightarrow> (status, Some d', Some s')
        | (None, d', s', drained) \<Rightarrow>
            (if drained then IntReady else IntNoPending, Some d', Some s'))"

section \<open>The queue as a list\<close>

text \<open>
  The abstract queue of a state: the first \<open>pending_count\<close> slots. A well-formed state is one that
  the code accepts and whose array has its 32 slots; then the array is the queue followed by
  zeroed slots.
\<close>

definition queue :: "InterruptState \<Rightarrow> InterruptEvent list" where
  "queue s = take (unat (is_pending_count s)) (is_pending s)"

definition interrupt_ok :: "InterruptState \<Rightarrow> bool" where
  "interrupt_ok s \<longleftrightarrow> length (is_pending s) = 32 \<and> IsInterruptStateValid (Some s)"

definition queue_ok :: "u64 \<Rightarrow> InterruptEvent list \<Rightarrow> bool" where
  "queue_ok generation q \<longleftrightarrow> length q \<le> 32 \<and> distinct (map ev_sequence q) \<and>
     (\<forall>e \<in> set q. IsInterruptEventValid (Some e) \<and> ev_generation e = generation)"

definition header_ok :: "InterruptState \<Rightarrow> bool" where
  "header_ok s \<longleftrightarrow> interrupt_versioned (is_version s) (is_size s) 1832 \<and> is_generation s \<noteq> 0 \<and>
     is_next_sequence s \<noteq> 0 \<and> is_interruptibility s AND NOT kInterruptKnownBlockMask = 0 \<and>
     is_virtual_apic_tpr s \<le> 0xFF \<and> is_reserved s = 0"

lemma pending_valid_iff:
  "pending_valid g prior es \<longleftrightarrow> (\<forall>e \<in> set es. IsInterruptEventValid (Some e) \<and> ev_generation e = g) \<and>
     distinct (map ev_sequence es) \<and> ev_sequence ` set prior \<inter> ev_sequence ` set es = {}"
proof (induction g prior es rule: pending_valid.induct)
  case (2 g prior e es)
  have "list_ex (\<lambda>p. ev_sequence p = ev_sequence e) prior \<longleftrightarrow> ev_sequence e \<in> ev_sequence ` set prior"
    by (metis (mono_tags, lifting) Bex_set image_iff)
  then show ?case using 2 by auto
qed simp

lemma interrupt_ok_iff:
  "interrupt_ok s \<longleftrightarrow> header_ok s \<and> queue_ok (is_generation s) (queue s) \<and>
     is_pending_count s = word_of_nat (length (queue s)) \<and>
     is_pending s = queue s @ replicate (32 - length (queue s)) zero_event" (is "?l \<longleftrightarrow> ?r")
proof
  assume ok: ?l
  then have "unat (is_pending_count s) \<le> 32" and len: "length (is_pending s) = 32"
    by (auto simp: interrupt_ok_def IsInterruptStateValid_def word_le_nat_alt not_less split: if_splits)
  then have lq: "length (queue s) = unat (is_pending_count s)" by (simp add: queue_def)
  have "is_pending s = queue s @ drop (unat (is_pending_count s)) (is_pending s)"
    by (simp add: queue_def)
  moreover have "list_all (\<lambda>e. e = zero_event) (drop (unat (is_pending_count s)) (is_pending s))"
    using ok len by (simp add: interrupt_ok_def IsInterruptStateValid_def split: if_splits)
  then have "drop (unat (is_pending_count s)) (is_pending s) = replicate (32 - length (queue s)) zero_event"
    using len lq by (auto simp: list_all_iff intro!: replicate_eqI)
  ultimately show ?r
    using ok lq \<open>unat (is_pending_count s) \<le> 32\<close>
    by (auto simp: interrupt_ok_def IsInterruptStateValid_def header_ok_def queue_ok_def
        pending_valid_iff queue_def not_less split: if_splits)
next
  assume r: ?r
  then have le: "length (queue s) \<le> 32" by (simp add: queue_ok_def)
  then have u: "unat (is_pending_count s) = length (queue s)"
    using r by (simp add: unat_of_nat)
  have "length (is_pending s) = 32" "drop (length (queue s)) (is_pending s) = replicate (32 - length (queue s)) zero_event"
    using r le by (metis length_append length_replicate le_add_diff_inverse, metis append_eq_conv_conj)
  then show ?l
    using r u le unfolding interrupt_ok_def IsInterruptStateValid_def header_ok_def queue_ok_def
    by (simp add: pending_valid_iff queue_def [symmetric] list_all_iff not_less word_le_nat_alt)
qed

lemma interrupt_ok_build:
  assumes "header_ok s" and "queue_ok (is_generation s) q" and "is_pending_count s = word_of_nat (length q)"
    and "is_pending s = q @ replicate (32 - length q) zero_event"
  shows "interrupt_ok s \<and> queue s = q"
proof -
  have "unat (is_pending_count s) = length q"
    using assms(2,3) by (simp add: queue_ok_def unat_of_nat)
  then have "queue s = q" using assms(4) by (simp add: queue_def)
  then show ?thesis using assms by (simp add: interrupt_ok_iff)
qed

lemma interrupt_okD:
  assumes "interrupt_ok s"
  shows "header_ok s" "queue_ok (is_generation s) (queue s)" "unat (is_pending_count s) = length (queue s)"
    "is_pending s = queue s @ replicate (32 - length (queue s)) zero_event" "length (queue s) \<le> 32"
    "IsInterruptStateValid (Some s)"
proof -
  note ok = assms [unfolded interrupt_ok_iff]
  then show "header_ok s" "queue_ok (is_generation s) (queue s)"
    "is_pending s = queue s @ replicate (32 - length (queue s)) zero_event" by blast+
  show le: "length (queue s) \<le> 32" using ok by (simp add: queue_ok_def)
  show "unat (is_pending_count s) = length (queue s)"
    using ok le by (simp add: unat_of_nat_u32)
  show "IsInterruptStateValid (Some s)" using assms by (simp add: interrupt_ok_def)
qed

lemma Enqueue_ok:
  assumes "interrupt_ok s"
  shows "EnqueueInterrupt (Some s) (Some e) =
    (if \<not> IsInterruptEventValid (Some e) then (IntInvalid, Some s)
     else if ev_generation e \<noteq> is_generation s then (IntGenerationMismatch, Some s)
     else if 32 \<le> length (queue s) then (IntQueueFull, Some s)
     else if ev_sequence e \<in> ev_sequence ` set (queue s) \<or> ev_sequence e = NOT 0 then (IntConflict, Some s)
     else (IntReady, Some (s\<lparr>is_pending := (is_pending s)[length (queue s) := e],
            is_pending_count := is_pending_count s + 1,
            is_next_sequence := if ev_sequence e \<ge> is_next_sequence s then ev_sequence e + 1
                                else is_next_sequence s\<rparr>)))"
proof -
  note ok = interrupt_okD [OF assms]
  have used: "list_ex (\<lambda>p. ev_sequence p = ev_sequence e) (take (unat (is_pending_count s)) (is_pending s)) \<longleftrightarrow>
      ev_sequence e \<in> ev_sequence ` set (queue s)"
    unfolding queue_def by (metis (mono_tags, lifting) Bex_set image_iff)
  have full: "is_pending_count s \<ge> 32 \<longleftrightarrow> 32 \<le> length (queue s)"
    using ok(3) by (simp add: word_le_nat_alt)
  show ?thesis
    unfolding EnqueueInterrupt_def option.case option.sel Let_def used full using ok(3,6) by simp
qed

lemma ready_branch:
  assumes "(if \<not> V then (IntInvalid, Some s)
     else if G \<noteq> G' then (IntGenerationMismatch, Some s)
     else if (32 :: nat) \<le> n then (IntQueueFull, Some s)
     else if C then (IntConflict, Some s)
     else (IntReady, Some u)) = (IntReady, Some t)"
  shows "V" "G = G'" "n < 32" "\<not> C" "t = u"
  using assms by (simp_all split: if_splits)

lemma Enqueue_ready:
  assumes "interrupt_ok s" and "EnqueueInterrupt (Some s) (Some e) = (IntReady, Some t)"
  shows "interrupt_ok t \<and> queue t = queue s @ [e] \<and> is_generation t = is_generation s \<and>
    is_interruptibility t = is_interruptibility s \<and> is_virtual_apic_tpr t = is_virtual_apic_tpr s \<and>
    is_next_sequence t = (if ev_sequence e \<ge> is_next_sequence s then ev_sequence e + 1 else is_next_sequence s)"
proof -
  note ok = interrupt_okD [OF assms(1)]
  note e = ready_branch [OF assms(2) [unfolded Enqueue_ok [OF assms(1)]]]
  note t = e(5)
  have fresh: "ev_sequence e \<notin> ev_sequence ` set (queue s)" and top: "ev_sequence e \<noteq> NOT 0"
    using e(4) by blast+
  have rep: "replicate (32 - length (queue s)) zero_event = zero_event # replicate (31 - length (queue s)) zero_event"
  proof -
    have "32 - length (queue s) = Suc (31 - length (queue s))" using e(3) by simp
    then show ?thesis by (simp only: replicate_Suc)
  qed
  have p: "is_pending t = (queue s @ [e]) @ replicate (32 - length (queue s @ [e])) zero_event"
    using ok(4) by (simp add: t rep list_update_append)
  have "ev_sequence e + 1 \<noteq> 0"
    unfolding eq_neg_iff_add_eq_0 [symmetric] using top by simp
  then have h: "header_ok t" using ok(1) by (simp add: header_ok_def t)
  have q: "queue_ok (is_generation t) (queue s @ [e])"
    using ok(2) e(1,2,3) fresh by (simp add: queue_ok_def t)
  have c: "is_pending_count t = word_of_nat (length (queue s @ [e]))"
    using assms(1) by (simp add: t interrupt_ok_iff)
  show ?thesis
    using interrupt_ok_build [OF h q c p] by (simp add: t)
qed

lemma Enqueue_not_ready:
  assumes "interrupt_ok s" and "EnqueueInterrupt (Some s) e = (st, t)" and "st \<noteq> IntReady"
  shows "t = Some s"
  using assms(2,3) unfolding EnqueueInterrupt_def by (auto simp: Let_def split: if_splits)

text \<open>Removal at an index closes the gap.\<close>

lemma move_down_nth:
  assumes "i < n" and "n \<le> length xs"
  shows "length (move_down i n xs) = length xs \<and>
    (\<forall>k < length xs. move_down i n xs ! k = (if i \<le> k \<and> k < n - 1 then xs ! Suc k else xs ! k))"
  using assms
proof (induction n)
  case (Suc n)
  show ?case
  proof (cases "i = n")
    case True
    then show ?thesis by (auto simp: move_down_def)
  next
    case False
    then have "i < n" using Suc.prems by simp
    then have IH: "length (move_down i n xs) = length xs"
      "\<And>k. k < length xs \<Longrightarrow> move_down i n xs ! k = (if i \<le> k \<and> k < n - 1 then xs ! Suc k else xs ! k)"
      using Suc by simp_all
    have "move_down i (Suc n) xs = (move_down i n xs)[n - 1 := move_down i n xs ! n]"
      using \<open>i < n\<close> by (simp add: move_down_def)
    then show ?thesis
      using IH Suc.prems \<open>i < n\<close> by (auto simp: nth_list_update)
  qed
qed simp

lemma commit_array:
  assumes "i < length q" and "length q \<le> 32"
  shows "(move_down i (length q) (q @ replicate (32 - length q) z))[length q - 1 := z] =
    (take i q @ drop (Suc i) q) @ replicate (32 - length (take i q @ drop (Suc i) q)) z" (is "?l = ?r")
proof (rule nth_equalityI)
  let ?xs = "q @ replicate (32 - length q) z"
  have len: "length ?xs = 32" using assms by simp
  note md = move_down_nth [of i "length q" ?xs]
  show "length ?l = length ?r" using md assms by simp
  fix k assume "k < length ?l"
  then have k: "k < 32" using md assms by simp
  show "?l ! k = ?r ! k"
    using md assms k by (auto simp: nth_list_update nth_append min_def)
qed

lemma remove1_nth:
  assumes "distinct q" and "i < length q"
  shows "remove1 (q ! i) q = take i q @ drop (Suc i) q"
proof -
  have q: "q = take i q @ q ! i # drop (Suc i) q" using assms(2) by (rule id_take_nth_drop)
  then have "q ! i \<notin> set (take i q)"
    using assms(1) by (metis distinct_append distinct.simps(2) disjoint_insert(1) list.set(2))
  then show ?thesis
    by (subst (2) q) (simp add: remove1_append)
qed

lemma queue_distinct: "queue_ok g q \<Longrightarrow> distinct q"
  by (auto simp: queue_ok_def dest: distinct_map [THEN iffD1])

lemma remove_ok:
  assumes "interrupt_ok s" and "i < length (queue s)"
  shows "let t = s\<lparr>is_pending_count := is_pending_count s - 1,
             is_pending := (move_down i (unat (is_pending_count s)) (is_pending s))
               [unat (is_pending_count s - 1) := zero_event]\<rparr>
         in interrupt_ok t \<and> queue t = remove1 (queue s ! i) (queue s)"
proof -
  note ok = interrupt_okD [OF assms(1)]
  let ?q = "take i (queue s) @ drop (Suc i) (queue s)"
  let ?t = "s\<lparr>is_pending_count := is_pending_count s - 1,
             is_pending := (move_down i (unat (is_pending_count s)) (is_pending s))
               [unat (is_pending_count s - 1) := zero_event]\<rparr>"
  have nz: "is_pending_count s \<noteq> 0" using ok(3) assms(2) by (metis unat_0 not_less_zero)
  then have u: "unat (is_pending_count s - 1) = length (queue s) - 1"
    using ok(3) by (simp add: unat_minus_one)
  have len: "length ?q = length (queue s) - 1" using assms(2) by simp
  have r: "remove1 (queue s ! i) (queue s) = ?q"
    by (rule remove1_nth [OF queue_distinct [OF ok(2)] assms(2)])
  have qok: "queue_ok (is_generation s) ?q"
  proof -
    have "distinct (map ev_sequence (queue s))" using ok(2) by (simp add: queue_ok_def)
    then have "distinct (take i (map ev_sequence (queue s)) @ drop (Suc i) (map ev_sequence (queue s)))"
      by (simp add: set_take_disj_set_drop_if_distinct)
    then have "distinct (map ev_sequence ?q)" by (simp add: take_map drop_map)
    then show ?thesis
      using ok(2) by (auto simp: queue_ok_def dest: in_set_takeD in_set_dropD)
  qed
  have "interrupt_ok ?t \<and> queue ?t = ?q"
  proof (rule interrupt_ok_build)
    show "header_ok ?t" using ok(1) by (simp add: header_ok_def)
    show "queue_ok (is_generation ?t) ?q" using qok by simp
    have "is_pending_count s - 1 = word_of_nat (unat (is_pending_count s - 1))" by simp
    then show "is_pending_count ?t = word_of_nat (length ?q)" using u len by simp
    show "is_pending ?t = ?q @ replicate (32 - length ?q) zero_event"
      using commit_array [OF assms(2) ok(5), of zero_event] u
      by (simp add: ok(3) flip: ok(4))
  qed
  then show ?thesis by (simp add: r)
qed

definition commit_guard :: "InterruptState \<Rightarrow> InterruptDecision \<Rightarrow> bool" where
  "commit_guard s d \<longleftrightarrow> interrupt_versioned (dn_version d) (dn_size d) 56 \<and>
     dn_status d = InterruptStatus_u32 IntReady \<and> dn_action d = InterruptAction_u32 IntInject \<and>
     dn_generation d = is_generation s \<and> dn_sequence d \<noteq> 0 \<and> dn_reserved d = 0 \<and> dn_reserved2 d = 0 \<and>
     dn_flags d AND NOT kInterruptKnownEventMask = 0"

text \<open>A committed injection removes exactly the event with the decision's identity.\<close>

lemma Commit_some:
  assumes "interrupt_ok s" and "CommitInterruptInjection (Some s) (Some d) = (b, Some t)"
  shows "(b \<and> commit_guard s d \<and> (\<exists>e \<in> set (queue s). IsSameEvent e d \<and> queue t = remove1 e (queue s) \<and> interrupt_ok t \<and>
       is_generation t = is_generation s \<and> is_next_sequence t = is_next_sequence s \<and>
       is_virtual_apic_tpr t = is_virtual_apic_tpr s \<and>
       is_interruptibility t = (if ev_kind e = InterruptKind_u32 Nmi
         then is_interruptibility s OR kInterruptBlockNmi else is_interruptibility s)))
     \<or> (\<not> b \<and> t = s \<and> (\<not> commit_guard s d \<or> (\<forall>e \<in> set (queue s). \<not> IsSameEvent e d)))"
proof -
  note ok = interrupt_okD [OF assms(1)]
  let ?find = "find (\<lambda>i. IsSameEvent (is_pending s ! i) d) [0..<unat (is_pending_count s)]"
  have nth: "is_pending s ! i = queue s ! i" if "i < length (queue s)" for i
    using that unfolding ok(4) by (simp add: nth_append)
  show ?thesis
  proof (cases "commit_guard s d \<and> ?find \<noteq> None")
    case True
    then obtain i where i: "?find = Some i" by auto
    then have il: "i < length (queue s)" "IsSameEvent (queue s ! i) d"
      using nth ok(3) by (auto simp: find_Some_iff)
    define u where "u = s\<lparr>is_pending_count := is_pending_count s - 1,
             is_pending := (move_down i (unat (is_pending_count s)) (is_pending s))
               [unat (is_pending_count s - 1) := zero_event]\<rparr>"
    have u: "interrupt_ok u" "queue u = remove1 (queue s ! i) (queue s)"
      using remove_ok [OF assms(1) il(1)] by (simp_all add: u_def Let_def)
    have k: "dn_kind d = ev_kind (queue s ! i)" using il(2) by (simp add: IsSameEvent_def)
    have "(b, Some t) = (True, Some (if ev_kind (queue s ! i) = InterruptKind_u32 Nmi
        then u\<lparr>is_interruptibility := is_interruptibility u OR kInterruptBlockNmi\<rparr> else u))"
      unfolding assms(2) [symmetric] using i conjunct1 [OF True] ok(6)
      by (simp add: CommitInterruptInjection_def commit_guard_def Let_def k u_def cong del: if_weak_cong)
    then have res: "b" "t = (if ev_kind (queue s ! i) = InterruptKind_u32 Nmi
        then u\<lparr>is_interruptibility := is_interruptibility u OR kInterruptBlockNmi\<rparr> else u)"
      by simp_all
    have nmi: "interrupt_ok (u\<lparr>is_interruptibility := is_interruptibility u OR kInterruptBlockNmi\<rparr>)"
      using u(1) by (simp add: interrupt_ok_iff header_ok_def queue_def known_mask_iff bit.conj_disj_distrib2)
    have "interrupt_ok t" "queue t = remove1 (queue s ! i) (queue s)"
      unfolding res(2) using nmi u by (simp_all add: queue_def)
    then show ?thesis
      using True res il by (intro disjI1) (auto simp: u_def intro!: bexI [of _ "queue s ! i"])
  next
    case False
    then have "\<not> b \<and> t = s"
      using assms(2) unfolding CommitInterruptInjection_def commit_guard_def by (auto split: if_splits)
    moreover have "\<not> commit_guard s d \<or> (\<forall>e \<in> set (queue s). \<not> IsSameEvent e d)"
      using False nth ok(3) by (auto simp: find_None_iff in_set_conv_nth)
    ultimately show ?thesis by blast
  qed
qed

section \<open>Selection\<close>

text \<open>The order of selection: higher priority first, then the smaller sequence number.\<close>

definition before :: "InterruptEvent \<Rightarrow> InterruptEvent \<Rightarrow> bool" where
  "before e c \<longleftrightarrow> Priority c < Priority e \<or> Priority c = Priority e \<and> ev_sequence e \<le> ev_sequence c"

lemma before_refl [simp]: "before e e"
  by (simp add: before_def)

lemma before_trans: "before a b \<Longrightarrow> before b c \<Longrightarrow> before a c"
  by (auto simp: before_def)

lemma before_total: "before a b \<or> before b a"
  by (auto simp: before_def)

lemma select_event_None_iff: "select_event s sel es = None \<longleftrightarrow> sel = None \<and> (\<forall>e \<in> set es. IsBlocked s e)"
  by (induction s sel es rule: select_event.induct) (auto split: option.splits)

lemma select_event_Some:
  "select_event s sel es = Some e \<Longrightarrow>
     (sel = Some e \<or> e \<in> set es \<and> \<not> IsBlocked s e) \<and>
     (\<forall>c \<in> set_option sel \<union> {c \<in> set es. \<not> IsBlocked s c}. before e c)"
proof (induction s sel es rule: select_event.induct)
  case (2 s sel c es)
  let ?better = "case sel of None \<Rightarrow> True | Some x \<Rightarrow> Priority c > Priority x \<or>
      Priority c = Priority x \<and> ev_sequence c < ev_sequence x"
  show ?case
  proof (cases "IsBlocked s c")
    case True
    then show ?thesis using 2(1) 2(4) by auto
  next
    case nb: False
    show ?thesis
    proof (cases ?better)
      case True
      have "before c x" if "x \<in> set_option sel" for x
        using True that by (auto simp: before_def)
      then show ?thesis
        using 2(2) [OF nb True] 2(4) nb True by (auto intro: before_trans)
    next
      case False
      then obtain x where x: "sel = Some x" by (cases sel) auto
      then have "before x c"
        using False by (cases "Priority c" "Priority x" rule: linorder_cases) (auto simp: before_def)
      then show ?thesis
        using 2(3) [OF nb False] 2(4) nb False x by (auto intro: before_trans)
    qed
  qed
qed simp

definition best :: "InterruptState \<Rightarrow> InterruptEvent \<Rightarrow> bool" where
  "best s e \<longleftrightarrow> e \<in> set (queue s) \<and> \<not> IsBlocked s e \<and>
     (\<forall>c \<in> set (queue s). \<not> IsBlocked s c \<longrightarrow> before e c)"

definition decision_of :: "InterruptEvent \<Rightarrow> InterruptDecision" where
  "decision_of e = \<lparr>dn_size = 56, dn_version = 1, dn_status = InterruptStatus_u32 IntReady,
     dn_action = InterruptAction_u32 IntInject, dn_kind = ev_kind e, dn_vector = ev_vector e,
     dn_error_code = ev_error_code e, dn_flags = ev_flags e, dn_reserved = 0, dn_reserved2 = 0,
     dn_sequence = ev_sequence e, dn_generation = ev_generation e\<rparr>"

lemma Select_ok:
  assumes "interrupt_ok s" and "is_generation s = g"
  shows "(queue s = [] \<and> fst (SelectInterrupt (Some s) g (Some d)) = IntNoPending) \<or>
    (queue s \<noteq> [] \<and> (\<forall>e \<in> set (queue s). IsBlocked s e) \<and> fst (SelectInterrupt (Some s) g (Some d)) = IntBlocked) \<or>
    (\<exists>e. best s e \<and> SelectInterrupt (Some s) g (Some d) = (IntReady, Some (decision_of e)))"
proof -
  note ok = interrupt_okD [OF assms(1)]
  have zero: "is_pending_count s = 0 \<longleftrightarrow> queue s = []"
    using ok(3) by (metis length_0_conv unat_0 unat_eq_zero)
  have gen: "ev_generation e = g" if "e \<in> set (queue s)" for e
    using ok(2) that assms(2) by (simp add: queue_ok_def)
  show ?thesis
  proof (cases "select_event s None (queue s)")
    case None
    then have "\<forall>e \<in> set (queue s). IsBlocked s e" unfolding select_event_None_iff by blast
    then show ?thesis
      using ok(6) assms(2) zero None
      by (cases "queue s = []") (simp_all add: SelectInterrupt_def Let_def flip: queue_def)
  next
    case (Some e)
    then have "best s e" using select_event_Some [OF Some] by (auto simp: best_def)
    moreover have "queue s \<noteq> []" using Some by auto
    moreover have "ev_generation e = g" using \<open>best s e\<close> gen by (simp add: best_def)
    ultimately show ?thesis
      using ok(6) assms(2) zero Some
      by (intro disjI2 exI [of _ e]) (simp add: SelectInterrupt_def Let_def InitializeDecision_def decision_of_def flip: queue_def)
  qed
qed

lemma Commit_total: "\<exists>b t. CommitInterruptInjection (Some s) (Some d) = (b, Some t)"
  by (auto simp: CommitInterruptInjection_def Let_def split: option.splits)

lemma commit_decision:
  assumes "interrupt_ok s" and "e \<in> set (queue s)"
  shows "\<exists>t. CommitInterruptInjection (Some s) (Some (decision_of e)) = (True, Some t) \<and>
    queue t = remove1 e (queue s) \<and> interrupt_ok t \<and>
    is_interruptibility t = (if ev_kind e = InterruptKind_u32 Nmi
       then is_interruptibility s OR kInterruptBlockNmi else is_interruptibility s)"
proof -
  note ok = interrupt_okD [OF assms(1)]
  have v: "IsInterruptEventValid (Some e)" "ev_generation e = is_generation s"
    using ok(2) assms(2) by (simp_all add: queue_ok_def)
  then have g: "commit_guard s (decision_of e)"
    by (simp add: commit_guard_def decision_of_def IsVersionedSizeValid_def IsInterruptEventValid_def split: if_splits)
  have same: "IsSameEvent c (decision_of e) \<longleftrightarrow> c = e" if "c \<in> set (queue s)" for c
    using ok(2) that assms(2) by (auto simp: IsSameEvent_def decision_of_def queue_ok_def distinct_map inj_on_def)
  obtain b t where c: "CommitInterruptInjection (Some s) (Some (decision_of e)) = (b, Some t)"
    using Commit_total by blast
  show ?thesis
    using Commit_some [OF assms(1) c] g same same [OF assms(2)] assms(2) c
    by (elim disjE conjE bexE) auto
qed

section \<open>Draining posted interrupts\<close>

text \<open>
  The invariant of a queue that only the operations of the component build: the next sequence
  number is above every number in the queue.
\<close>

definition interrupt_inv :: "InterruptState \<Rightarrow> bool" where
  "interrupt_inv s \<longleftrightarrow> interrupt_ok s \<and> (\<forall>e \<in> set (queue s). ev_sequence e < is_next_sequence s)"

definition is_posted :: "PostedInterruptDescriptor \<Rightarrow> nat \<Rightarrow> bool" where
  "is_posted d v \<longleftrightarrow> bit (pd_pir d ! (v div 32)) (v mod 32)"

fun posted_run :: "u64 \<Rightarrow> u64 \<Rightarrow> u64 \<Rightarrow> nat list \<Rightarrow> InterruptEvent list" where
  "posted_run g src n [] = []"
| "posted_run g src n (v # vs) = posted_event g src (v div 32) (v mod 32) n # posted_run g src (n + 1) vs"

text \<open>Why a drain stops before vector \<open>v\<close>.\<close>

definition stop_reason :: "InterruptStatus \<Rightarrow> InterruptState \<Rightarrow> nat \<Rightarrow> bool" where
  "stop_reason st s v \<longleftrightarrow> st = IntConflict \<and> is_next_sequence s = NOT 0 \<or>
     st = IntInvalid \<and> v < 32 \<or> st = IntQueueFull \<and> length (queue s) = 32"

lemma posted_run_append:
  "posted_run g src n (us @ vs) = posted_run g src n us @ posted_run g src (n + word_of_nat (length us)) vs"
  by (induction us arbitrary: n) (simp_all add: ac_simps)

lemma vector_word: "push_bit 5 (word_of_nat w) + word_of_nat b = (word_of_nat (32 * w + b) :: u32)"
  by (simp add: push_bit_eq_mult mult.commute)

lemma posted_event_valid_iff:
  assumes "w < 8" and "b < 32" and "g \<noteq> 0" and "n \<noteq> 0"
  shows "IsInterruptEventValid (Some (posted_event g src w b n)) \<longleftrightarrow> 32 \<le> 32 * w + b"
proof -
  have "32 * w + b < 256" using assms by simp
  then have u: "unat (word_of_nat (32 * w + b) :: u32) = 32 * w + b" by (intro unat_of_nat_u32) simp
  have "(word_of_nat (32 * w + b) :: u32) < 256" "(32 :: u32) \<le> word_of_nat (32 * w + b) \<longleftrightarrow> 32 \<le> 32 * w + b"
    using \<open>32 * w + b < 256\<close> unfolding word_less_nat_alt word_le_nat_alt u by simp_all
  then show ?thesis
    unfolding IsInterruptEventValid_def posted_event_def vector_word
    using assms(3,4) by (simp add: IsVersionedSizeValid_def IsInterruptKindValid_def IsVectorValid_def)
qed

lemma enqueue_posted:
  assumes "interrupt_inv s" and "w < 8" and "b < 32" and "is_next_sequence s \<noteq> NOT 0"
    and "EnqueueInterrupt (Some s) (Some (posted_event (is_generation s) src w b (is_next_sequence s))) = (st, t)"
  shows "(st = IntReady \<and> (\<exists>u. t = Some u \<and> interrupt_inv u \<and> is_generation u = is_generation s \<and>
            queue u = queue s @ [posted_event (is_generation s) src w b (is_next_sequence s)] \<and>
            is_next_sequence u = is_next_sequence s + 1)) \<or>
         (st \<noteq> IntReady \<and> t = Some s \<and> stop_reason st s (32 * w + b))"
proof -
  let ?e = "posted_event (is_generation s) src w b (is_next_sequence s)"
  have ok: "interrupt_ok s" and below: "\<And>e. e \<in> set (queue s) \<Longrightarrow> ev_sequence e < is_next_sequence s"
    using assms(1) by (auto simp: interrupt_inv_def)
  note okD = interrupt_okD [OF ok]
  have "is_generation s \<noteq> 0" "is_next_sequence s \<noteq> 0" using okD(1) by (auto simp: header_ok_def)
  note valid = posted_event_valid_iff [OF assms(2,3) this, of src]
  have ev: "ev_generation ?e = is_generation s" "ev_sequence ?e = is_next_sequence s"
    by (simp_all add: posted_event_def)
  have fresh: "is_next_sequence s \<notin> ev_sequence ` set (queue s)"
    using below by force
  note eq = Enqueue_ok [OF ok, of ?e, unfolded ev assms(5)]
  show ?thesis
  proof (cases "st = IntReady")
    case False
    then have "t = Some s" using Enqueue_not_ready [OF ok assms(5)] by simp
    moreover have "stop_reason st s (32 * w + b)"
      using eq False fresh assms(4) okD(5) valid by (simp add: stop_reason_def split: if_splits)
    ultimately show ?thesis using False by blast
  next
    case True
    then obtain u where u: "t = Some u"
      using eq fresh assms(4) by (simp split: if_splits)
    have r: "interrupt_ok u" "queue u = queue s @ [?e]" "is_generation u = is_generation s"
      "is_next_sequence u = is_next_sequence s + 1"
      using Enqueue_ready [OF ok assms(5) [unfolded True u]] by (simp_all add: ev)
    have "is_next_sequence s < is_next_sequence s + 1"
      using assms(4) inc_less_eq_self_iff_eq [of "is_next_sequence s"] by (simp add: not_le)
    then have "interrupt_inv u"
      using r below by (auto simp: interrupt_inv_def ev intro: less_trans)
    then show ?thesis using True u r by blast
  qed
qed


definition drained :: "u64 \<Rightarrow> nat list \<Rightarrow> PostedInterruptDescriptor \<Rightarrow> InterruptState \<Rightarrow>
    InterruptStatus option \<Rightarrow> PostedInterruptDescriptor \<Rightarrow> InterruptState \<Rightarrow> nat list \<Rightarrow> bool" where
  "drained src vs d s r d' s' out \<longleftrightarrow> (\<exists>rest. vs = out @ rest \<and> interrupt_inv s' \<and>
     is_generation s' = is_generation s \<and>
     queue s' = queue s @ posted_run (is_generation s) src (is_next_sequence s) out \<and>
     is_next_sequence s' = is_next_sequence s + word_of_nat (length out) \<and>
     length (pd_pir d') = 8 \<and> (\<exists>pir. d' = d\<lparr>pd_pir := pir\<rparr>) \<and>
     (\<forall>v < 256. is_posted d' v \<longleftrightarrow> is_posted d v \<and> v \<notin> set out) \<and>
     (case r of None \<Rightarrow> rest = [] | Some st \<Rightarrow> rest \<noteq> [] \<and> stop_reason st s' (hd rest)))"

lemma drained_refl:
  assumes "interrupt_inv s" and "length (pd_pir d) = 8"
  shows "drained src [] d s None d s []"
proof -
  have "\<exists>pir. d = d\<lparr>pd_pir := pir\<rparr>" by (rule exI [of _ "pd_pir d"]) simp
  then show ?thesis using assms by (simp add: drained_def)
qed

lemma drained_stop:
  assumes "interrupt_inv s" and "length (pd_pir d) = 8" and "stop_reason st s v"
  shows "drained src (v # vs) d s (Some st) d s []"
proof -
  have "\<exists>pir. d = d\<lparr>pd_pir := pir\<rparr>" by (rule exI [of _ "pd_pir d"]) simp
  then show ?thesis using assms by (simp add: drained_def)
qed

lemma drained_append:
  assumes "drained src us d s None d1 s1 us" and "drained src vs d1 s1 r d2 s2 out"
  shows "drained src (us @ vs) d s r d2 s2 (us @ out)"
  using assms unfolding drained_def
  by (elim exE conjE) (auto simp: posted_run_append add.assoc)

lemma clear_posted:
  assumes "length (pd_pir d) = 8" and "w < 8" and "b < 32"
  shows "\<forall>v < 256. is_posted (d\<lparr>pd_pir := (pd_pir d)[w := pd_pir d ! w AND NOT (push_bit b 1)]\<rparr>) v \<longleftrightarrow>
    is_posted d v \<and> v \<noteq> 32 * w + b"
proof (intro allI impI)
  fix v :: nat assume "v < 256"
  then have "v div 32 < 8" "v mod 32 < 32" by simp_all
  moreover have "v = 32 * w + b \<longleftrightarrow> v div 32 = w \<and> v mod 32 = b" using assms(3) by auto
  ultimately show "is_posted (d\<lparr>pd_pir := (pd_pir d)[w := pd_pir d ! w AND NOT (push_bit b 1)]\<rparr>) v \<longleftrightarrow>
    is_posted d v \<and> v \<noteq> 32 * w + b"
    using assms by (auto simp: is_posted_def nth_list_update bit_simps)
qed

lemma flag_bit_u32: "b < 32 \<Longrightarrow> (bits :: u32) AND push_bit b 1 = 0 \<longleftrightarrow> \<not> bit bits b"
  by (metis and_exp_eq_0_iff_not_bit push_bit_of_1)

lemma drain_bits_drained:
  assumes "interrupt_inv s" and "length (pd_pir d) = 8" and "w < 8" and "set bs \<subseteq> {..<32}"
    and "drain_bits (is_generation s) src w bits bs d s dr = (r, d', s', dr')"
  shows "\<exists>out. drained src (map (\<lambda>b. 32 * w + b) (filter (bit bits) bs)) d s r d' s' out \<and> dr' = (dr \<or> out \<noteq> [])"
  using assms
proof (induction bs arbitrary: d s dr)
  case Nil
  then show ?case using drained_refl by auto
next
  case (Cons b bs)
  have b: "b < 32" and bs: "set bs \<subseteq> {..<32}" using Cons.prems(4) by auto
  show ?case
  proof (cases "bit bits b")
    case False
    then show ?thesis using Cons b flag_bit_u32 [OF b, of bits] by simp
  next
    case set: True
    let ?v = "32 * w + b"
    show ?thesis
    proof (cases "is_next_sequence s = NOT 0")
      case True
      then have "r = Some IntConflict" "d' = d" "s' = s" "dr' = dr"
        using Cons.prems(5) set flag_bit_u32 [OF b, of bits] by simp_all
      moreover have "stop_reason IntConflict s ?v" using True by (simp add: stop_reason_def)
      ultimately show ?thesis
        using set drained_stop [OF Cons.prems(1,2), of IntConflict ?v] by (intro exI [of _ "[]"]) simp
    next
      case False
      obtain st t where e: "EnqueueInterrupt (Some s) (Some (posted_event (is_generation s) src w b (is_next_sequence s))) = (st, t)"
        by fastforce
      show ?thesis
        using enqueue_posted [OF Cons.prems(1,3) b False e]
      proof (elim disjE conjE exE)
        assume st: "st \<noteq> IntReady" "t = Some s" "stop_reason st s (32 * w + b)"
        then have "r = Some st" "d' = d" "s' = s" "dr' = dr"
          using Cons.prems(5) set False flag_bit_u32 [OF b, of bits] e by simp_all
        then show ?thesis
          using set drained_stop [OF Cons.prems(1,2) st(3)] by (intro exI [of _ "[]"]) simp
      next
        fix u assume st: "st = IntReady" "t = Some u" "interrupt_inv u" "is_generation u = is_generation s"
          "queue u = queue s @ [posted_event (is_generation s) src w b (is_next_sequence s)]"
          "is_next_sequence u = is_next_sequence s + 1"
        define d1 where "d1 = d\<lparr>pd_pir := (pd_pir d)[w := pd_pir d ! w AND NOT (push_bit b 1)]\<rparr>"
        have "drain_bits (is_generation u) src w bits bs d1 u True = (r, d', s', dr')"
          using Cons.prems(5) set False flag_bit_u32 [OF b, of bits] e st by (simp add: d1_def)
        from Cons.IH [OF st(3) _ Cons.prems(3) bs this]
        obtain out where o: "drained src (map (\<lambda>b. 32 * w + b) (filter (bit bits) bs)) d1 u r d' s' out" "dr'"
          using Cons.prems(2) by (auto simp: d1_def)
        have "drained src [?v] d s None d1 u [?v]"
          using st Cons.prems(2) b clear_posted [OF Cons.prems(2,3) b]
          by (auto simp: drained_def d1_def)
        from drained_append [OF this o(1)] show ?thesis
          using set o(2) by auto
      qed
    qed
  qed
qed

lemma drain_words_drained:
  assumes "interrupt_inv s" and "length (pd_pir d) = 8" and "distinct ws" and "set ws \<subseteq> {..<8}"
    and "drain_words (is_generation s) src ws d s dr = (r, d', s', dr')"
  shows "\<exists>out. drained src (concat (map (\<lambda>w. map (\<lambda>b. 32 * w + b) (filter (bit (pd_pir d ! w)) [0..<32])) ws)) d s r d' s' out \<and>
    dr' = (dr \<or> out \<noteq> [])"
  using assms
proof (induction ws arbitrary: d s dr)
  case Nil
  then show ?case using drained_refl by auto
next
  case (Cons w ws)
  obtain r1 d1 s1 dr1 where b: "drain_bits (is_generation s) src w (pd_pir d ! w) [0..<32] d s dr = (r1, d1, s1, dr1)"
    by (metis prod_cases4)
  let ?vs = "map (\<lambda>b. 32 * w + b) (filter (bit (pd_pir d ! w)) [0..<32])"
  obtain out1 where o1: "drained src ?vs d s r1 d1 s1 out1" "dr1 = (dr \<or> out1 \<noteq> [])"
    using drain_bits_drained [OF Cons.prems(1,2) _ _ b] Cons.prems(4) by (auto simp: atLeast0LessThan)
  show ?case
  proof (cases r1)
    case None
    then have out1: "out1 = ?vs" using o1(1) by (simp add: drained_def)
    have s1: "interrupt_inv s1" "is_generation s1 = is_generation s" "length (pd_pir d1) = 8"
      using o1(1) by (auto simp: drained_def)
    have "pd_pir d1 ! w' = pd_pir d ! w'" if "w' \<in> set ws" for w'
    proof (rule bit_word_eqI)
      fix n assume n: "n < LENGTH(32)"
      have w': "w' < 8" "w' \<noteq> w" using that Cons.prems(3,4) by auto
      then have "32 * w' + n \<notin> set out1" using n by (auto simp: out1)
      moreover have "32 * w' + n < 256" using w' n by simp
      ultimately have "is_posted d1 (32 * w' + n) \<longleftrightarrow> is_posted d (32 * w' + n)"
        using o1(1) by (auto simp: drained_def)
      then show "bit (pd_pir d1 ! w') n \<longleftrightarrow> bit (pd_pir d ! w') n"
        using n by (simp add: is_posted_def)
    qed
    then have same: "map (\<lambda>w. map (\<lambda>b. 32 * w + b) (filter (bit (pd_pir d1 ! w)) [0..<32])) ws =
        map (\<lambda>w. map (\<lambda>b. 32 * w + b) (filter (bit (pd_pir d ! w)) [0..<32])) ws"
      by simp
    have "drain_words (is_generation s1) src ws d1 s1 dr1 = (r, d', s', dr')"
      using Cons.prems(5) b None s1(2) by simp
    then obtain out where o: "drained src (concat (map (\<lambda>w. map (\<lambda>b. 32 * w + b) (filter (bit (pd_pir d ! w)) [0..<32])) ws)) d1 s1 r d' s' out"
      "dr' = (dr1 \<or> out \<noteq> [])"
      using Cons.IH [OF s1(1,3), of dr1] Cons.prems(3,4) unfolding same by auto
    from drained_append [OF o1(1) [unfolded None out1] o(1)] show ?thesis
      using o(2) o1(2) out1 by auto
  next
    case (Some st)
    then have "r = Some st" "d' = d1" "s' = s1" "dr' = dr1" using Cons.prems(5) b by simp_all
    then show ?thesis
      using o1 Some by (intro exI [of _ out1]) (auto simp: drained_def)
  qed
qed

lemma upt_256: "[0..<256] = concat (map (\<lambda>w. map (\<lambda>b. 32 * w + b) [0..<32]) [0..<8])"
  by code_simp

lemma posted_vectors:
  "concat (map (\<lambda>w. map (\<lambda>b. 32 * w + b) (filter (bit (pd_pir d ! w)) [0..<32])) [0..<8]) =
     filter (is_posted d) [0..<256]"
proof -
  have "filter (is_posted d) (map (\<lambda>b. 32 * w + b) [0..<32]) =
      map (\<lambda>b. 32 * w + b) (filter (bit (pd_pir d ! w)) [0..<32])" for w
    by (simp add: filter_map o_def is_posted_def) (rule filter_cong; simp)
  then show ?thesis
    unfolding upt_256 filter_concat map_map o_def by simp
qed

lemma drain_cases:
  assumes "interrupt_inv s" and "length (pd_pir d) = 8" and "IsPostedInterruptValid (Some d)"
    and "is_generation s = g" and "pd_generation d = g"
  shows "\<exists>st d' s' out rest. DrainPostedInterrupt (Some d) (Some s) g src = (st, Some d', Some s') \<and>
    filter (is_posted d) [0..<256] = out @ rest \<and>
    queue s' = queue s @ posted_run g src (is_next_sequence s) out \<and>
    is_next_sequence s' = is_next_sequence s + word_of_nat (length out) \<and>
    (\<forall>v < 256. is_posted d' v \<longleftrightarrow> v \<in> set rest) \<and>
    interrupt_inv s' \<and> is_generation s' = g \<and> length (pd_pir d') = 8 \<and> (\<exists>pir. d' = d\<lparr>pd_pir := pir\<rparr>) \<and>
    (if rest = [] then st = (if out = [] then IntNoPending else IntReady) else stop_reason st s' (hd rest))"
proof -
  obtain r d' s' dr where w: "drain_words (is_generation s) src [0..<8] d s False = (r, d', s', dr)"
    by (metis prod_cases4)
  obtain out where "drained src (filter (is_posted d) [0..<256]) d s r d' s' out" and dr: "dr = (out \<noteq> [])"
    using drain_words_drained [OF assms(1,2) _ _ w] unfolding posted_vectors by (auto simp: atLeast0LessThan)
  then obtain rest where o: "filter (is_posted d) [0..<256] = out @ rest" "interrupt_inv s'"
     "is_generation s' = is_generation s"
     "queue s' = queue s @ posted_run (is_generation s) src (is_next_sequence s) out"
     "is_next_sequence s' = is_next_sequence s + word_of_nat (length out)"
     "length (pd_pir d') = 8" "\<exists>pir. d' = d\<lparr>pd_pir := pir\<rparr>"
     "\<forall>v < 256. is_posted d' v \<longleftrightarrow> is_posted d v \<and> v \<notin> set out"
     "case r of None \<Rightarrow> rest = [] | Some st \<Rightarrow> rest \<noteq> [] \<and> stop_reason st s' (hd rest)"
    unfolding drained_def by blast
  have "distinct (out @ rest)" "set (out @ rest) = {v. v < 256 \<and> is_posted d v}"
    unfolding o(1) [symmetric] by (auto simp: atLeast0LessThan)
  then have rest: "\<forall>v < 256. is_posted d' v \<longleftrightarrow> v \<in> set rest"
    using o(8) by auto
  have "IsInterruptStateValid (Some s)" using assms(1) by (simp add: interrupt_inv_def interrupt_ok_def)
  then have "DrainPostedInterrupt (Some d) (Some s) g src =
      (case r of Some st \<Rightarrow> st | None \<Rightarrow> if dr then IntReady else IntNoPending, Some d', Some s')"
    using assms(3,4,5) w by (simp add: DrainPostedInterrupt_def split: option.splits)
  moreover have "if rest = [] then (case r of Some st \<Rightarrow> st | None \<Rightarrow> if dr then IntReady else IntNoPending) =
      (if out = [] then IntNoPending else IntReady)
    else stop_reason (case r of Some st \<Rightarrow> st | None \<Rightarrow> if dr then IntReady else IntNoPending) s' (hd rest)"
    using o(9) dr by (cases r) simp_all
  ultimately show ?thesis
    using o(1-7) rest assms(4)
    by (intro exI [of _ "case r of Some st \<Rightarrow> st | None \<Rightarrow> if dr then IntReady else IntNoPending"]
        exI [of _ d'] exI [of _ s'] exI [of _ out] exI [of _ rest] conjI) simp_all
qed

section \<open>All operations together\<close>

record interrupt_system =
  sys_state :: InterruptState
  sys_posted :: PostedInterruptDescriptor

inductive interrupt_step :: "interrupt_system \<Rightarrow> interrupt_system \<Rightarrow> bool" where
  step_enqueue: "EnqueueInterrupt (Some (sys_state x)) e = (st, Some s) \<Longrightarrow>
    interrupt_step x (x\<lparr>sys_state := s\<rparr>)"
| step_commit: "CommitInterruptInjection (Some (sys_state x)) d = (b, Some s) \<Longrightarrow>
    interrupt_step x (x\<lparr>sys_state := s\<rparr>)"
| step_post: "PostInterrupt (Some (sys_posted x)) v g = (b, Some p) \<Longrightarrow>
    interrupt_step x (x\<lparr>sys_posted := p\<rparr>)"
| step_drain: "DrainPostedInterrupt (Some (sys_posted x)) (Some (sys_state x)) g src = (st, Some p, Some s) \<Longrightarrow>
    interrupt_step x \<lparr>sys_state = s, sys_posted = p\<rparr>"

definition system_inv :: "u64 \<Rightarrow> interrupt_system \<Rightarrow> bool" where
  "system_inv g x \<longleftrightarrow> interrupt_inv (sys_state x) \<and> is_generation (sys_state x) = g \<and>
     IsPostedInterruptValid (Some (sys_posted x)) \<and> length (pd_pir (sys_posted x)) = 8 \<and>
     (\<forall>v < 32. \<not> is_posted (sys_posted x) v)"

lemma enqueue_inv:
  assumes "interrupt_inv s" and "EnqueueInterrupt (Some s) e = (st, Some t)"
  shows "interrupt_inv t \<and> is_generation t = is_generation s"
proof (cases "st = IntReady")
  case True
  then obtain x where x: "e = Some x"
    using assms(2) by (cases e) (auto simp: EnqueueInterrupt_def IsInterruptEventValid_def split: if_splits)
  have ok: "interrupt_ok s" using assms(1) by (simp add: interrupt_inv_def)
  note r = Enqueue_ready [OF ok assms(2) [unfolded True x]]
  have "ev_sequence x \<noteq> NOT 0"
    using ready_branch(4) [OF assms(2) [unfolded True x Enqueue_ok [OF ok]]] by blast
  then have "ev_sequence x < ev_sequence x + 1"
    using inc_less_eq_self_iff_eq [of "ev_sequence x"] by (simp add: not_le)
  then show ?thesis
    using r assms(1) by (auto simp: interrupt_inv_def intro: less_trans less_le_trans)
next
  case False
  then show ?thesis
    using Enqueue_not_ready [OF _ assms(2) False] assms(1) by (simp add: interrupt_inv_def)
qed

lemma commit_inv:
  assumes "interrupt_inv s" and "CommitInterruptInjection (Some s) d = (b, Some t)"
  shows "interrupt_inv t \<and> is_generation t = is_generation s"
proof (cases d)
  case None
  then show ?thesis using assms by (simp add: CommitInterruptInjection_def)
next
  case (Some x)
  have "interrupt_ok s" using assms(1) by (simp add: interrupt_inv_def)
  then show ?thesis
    using Commit_some [of s x b t] assms Some
    by (auto simp: interrupt_inv_def dest: notin_set_remove1 set_mp [OF set_remove1_subset])
qed

lemma post_posted:
  assumes "length (pd_pir d) = 8" and "PostInterrupt (Some d) v g = (True, Some p)"
  shows "32 \<le> unat v \<and> unat v < 256 \<and> p = d\<lparr>pd_pir := pd_pir p\<rparr> \<and> length (pd_pir p) = 8 \<and>
    (\<forall>k < 256. is_posted p k \<longleftrightarrow> is_posted d k \<or> k = unat v)"
proof -
  let ?w = "unat (drop_bit 5 v)" and ?b = "unat (v AND 31)"
  have v: "32 \<le> unat v" "unat v < 256"
    and p: "p = d\<lparr>pd_pir := (pd_pir d)[?w := pd_pir d ! ?w OR push_bit ?b 1]\<rparr>"
    using assms(2) by (auto simp: PostInterrupt_def Let_def word_le_nat_alt word_less_nat_alt split: if_splits)
  have w: "?w = unat v div 32" using unat_drop_bit_eq [of 5 v] by (simp add: drop_bit_eq_div)
  have "v AND 31 = take_bit 5 v" by (simp add: take_bit_eq_mask mask_eq_exp_minus_1)
  then have b: "?b = unat v mod 32" by (simp add: unsigned_take_bit_eq take_bit_eq_mod unat_mod)
  have "is_posted p k \<longleftrightarrow> is_posted d k \<or> k = unat v" if k: "k < 256" for k
  proof -
    have "k = unat v \<longleftrightarrow> k div 32 = unat v div 32 \<and> k mod 32 = unat v mod 32"
      by (metis div_mult_mod_eq)
    moreover have "k div 32 < 8" "unat v div 32 < 8" using k v by simp_all
    ultimately show ?thesis
      using assms(1) by (auto simp: p is_posted_def w b nth_list_update bit_simps)
  qed
  then show ?thesis using v assms(1) by (simp add: p)
qed

lemma post_step:
  assumes "PostInterrupt (Some d) v g = (b, Some p)" and "length (pd_pir d) = 8"
    and "IsPostedInterruptValid (Some d)" and "\<forall>k < 32. \<not> is_posted d k"
  shows "IsPostedInterruptValid (Some p) \<and> length (pd_pir p) = 8 \<and> (\<forall>k < 32. \<not> is_posted p k)"
proof (cases b)
  case True
  note p = post_posted [OF assms(2) assms(1) [unfolded eqTrueI [OF True]]]
  obtain pir where "p = d\<lparr>pd_pir := pir\<rparr>" using p by blast
  then have "IsPostedInterruptValid (Some p)"
    using assms(3) by (simp add: IsPostedInterruptValid_def)
  then show ?thesis using p assms(4) by auto
next
  case False
  then have "p = d" using assms(1) by (auto simp: PostInterrupt_def Let_def split: if_splits)
  then show ?thesis using assms by simp
qed

lemma filter_split:
  assumes "filter P xs = out @ rest" and "x \<in> set rest"
  shows "P x"
proof -
  have "x \<in> set (filter P xs)" unfolding assms(1) using assms(2) by simp
  then show ?thesis by (simp only: set_filter mem_Collect_eq)
qed

lemma drain_step:
  assumes "DrainPostedInterrupt (Some d) (Some s) g' src = (st, Some p, Some t)" and "length (pd_pir d) = 8"
    and "IsPostedInterruptValid (Some d)" and "\<forall>k < 32. \<not> is_posted d k" and "interrupt_inv s"
  shows "interrupt_inv t \<and> is_generation t = is_generation s \<and> IsPostedInterruptValid (Some p) \<and>
    length (pd_pir p) = 8 \<and> (\<forall>k < 32. \<not> is_posted p k)"
proof (cases "is_generation s = g' \<and> pd_generation d = g'")
  case True
  obtain out rest pir where o: "filter (is_posted d) [0..<256] = out @ rest" "interrupt_inv t" "is_generation t = g'"
    "length (pd_pir p) = 8" "p = d\<lparr>pd_pir := pir\<rparr>" "\<forall>v < 256. is_posted p v \<longleftrightarrow> v \<in> set rest"
    using drain_cases [OF assms(5,2,3) conjunct1 [OF True] conjunct2 [OF True], of src] assms(1) by auto
  have "set rest \<subseteq> {v. is_posted d v}"
    using filter_split [OF o(1)] by blast
  then have "\<forall>k < 32. \<not> is_posted p k" using o(6) assms(4) by auto
  moreover have "IsPostedInterruptValid (Some p)"
    using o(5) assms(3) by (simp add: IsPostedInterruptValid_def)
  ultimately show ?thesis using o(2-4) True by simp
next
  case False
  then have "p = d \<and> t = s"
    using assms(1) by (auto simp: DrainPostedInterrupt_def Let_def split: if_splits)
  then show ?thesis using assms by simp
qed

interpretation interrupts: invariant_machine interrupt_step "system_inv g" for g
proof
  fix x y assume "interrupt_step x y" and inv: "system_inv g x"
  then show "system_inv g y"
  proof cases
    case (step_enqueue e st s)
    then show ?thesis using enqueue_inv inv by (auto simp: system_inv_def)
  next
    case (step_commit d b s)
    then show ?thesis using commit_inv inv by (auto simp: system_inv_def)
  next
    case (step_post v g' b p)
    then show ?thesis using post_step [OF step_post(2)] inv by (simp add: system_inv_def)
  next
    case (step_drain g' src st p s)
    then show ?thesis using drain_step [OF step_drain(2)] inv by (simp add: system_inv_def)
  qed
qed

text \<open>
C22: From an empty queue and an empty descriptor, every run of enqueue, injection, posting and
draining keeps the interrupt state well formed: 32 slots, the queue in front and zeroed slots
behind it, only valid events of the right generation with pairwise distinct sequence numbers
below the next one, and a valid descriptor with no exception vector posted.
\<close>

theorem interrupt_queue_typed:
  assumes "IsInterruptStateValid (Some s)" and "length (is_pending s) = 32" and "is_pending_count s = 0"
    and "IsPostedInterruptValid (Some p)" and "pd_pir p = replicate 8 0"
    and "interrupt_step\<^sup>*\<^sup>* \<lparr>sys_state = s, sys_posted = p\<rparr> x"
  shows "IsInterruptStateValid (Some (sys_state x)) \<and> length (is_pending (sys_state x)) = 32 \<and>
    is_generation (sys_state x) = is_generation s \<and>
    (\<forall>e \<in> set (queue (sys_state x)). IsInterruptEventValid (Some e) \<and> ev_generation e = is_generation s \<and>
       ev_sequence e < is_next_sequence (sys_state x)) \<and>
    distinct (map ev_sequence (queue (sys_state x))) \<and>
    is_pending (sys_state x) = queue (sys_state x) @ replicate (32 - length (queue (sys_state x))) zero_event \<and>
    IsPostedInterruptValid (Some (sys_posted x)) \<and> length (pd_pir (sys_posted x)) = 8 \<and> pd_pir (sys_posted x) ! 0 = 0"
proof -
  have "queue s = []" using assms(3) by (simp add: queue_def)
  moreover have "\<not> is_posted p v" if "v < 32" for v using that by (simp add: is_posted_def assms(5))
  ultimately have "system_inv (is_generation s) \<lparr>sys_state = s, sys_posted = p\<rparr>"
    using assms by (simp add: system_inv_def interrupt_inv_def interrupt_ok_def)
  then have inv: "system_inv (is_generation s) x" using interrupts.star_inv [OF assms(6)] by blast
  then have ok: "interrupt_ok (sys_state x)" by (simp add: system_inv_def interrupt_inv_def)
  have "pd_pir (sys_posted x) ! 0 = 0"
    using inv by (intro bit_word_eqI) (simp add: system_inv_def is_posted_def)
  then show ?thesis
    using inv interrupt_okD [OF ok] ok
    by (auto simp: system_inv_def interrupt_inv_def queue_ok_def interrupt_ok_def)
qed

text \<open>
C23: SelectInterrupt picks exactly the oldest of the unblocked events of the highest priority
and reports an empty or wholly blocked queue as such; committing the decision removes just that
event, keeps the order of the others and the state valid, and blocks NMIs after an NMI.
\<close>

theorem interrupt_selection_exact:
  assumes "IsInterruptStateValid (Some s)" and "length (is_pending s) = 32" and "is_generation s = g"
  shows "(queue s = [] \<and> fst (SelectInterrupt (Some s) g (Some d)) = IntNoPending) \<or>
    (queue s \<noteq> [] \<and> (\<forall>e \<in> set (queue s). IsBlocked s e) \<and> fst (SelectInterrupt (Some s) g (Some d)) = IntBlocked) \<or>
    (\<exists>e n t. e \<in> set (queue s) \<and> \<not> IsBlocked s e \<and>
       (\<forall>c \<in> set (queue s). \<not> IsBlocked s c \<longrightarrow>
          Priority c < Priority e \<or> Priority c = Priority e \<and> ev_sequence e \<le> ev_sequence c) \<and>
       SelectInterrupt (Some s) g (Some d) = (IntReady, Some n) \<and> IsSameEvent e n \<and>
       CommitInterruptInjection (Some s) (Some n) = (True, Some t) \<and>
       queue t = remove1 e (queue s) \<and> IsInterruptStateValid (Some t) \<and>
       is_interruptibility t = (if ev_kind e = InterruptKind_u32 Nmi
          then is_interruptibility s OR kInterruptBlockNmi else is_interruptibility s))"
proof -
  have ok: "interrupt_ok s" using assms by (simp add: interrupt_ok_def)
  show ?thesis
    using Select_ok [OF ok assms(3), of d]
  proof (elim disjE exE conjE)
    fix e assume e: "best s e" "SelectInterrupt (Some s) g (Some d) = (IntReady, Some (decision_of e))"
    then have q: "e \<in> set (queue s)" by (simp add: best_def)
    have "IsSameEvent e (decision_of e)" by (simp add: IsSameEvent_def decision_of_def)
    then show ?thesis
      using commit_decision [OF ok q] e by (auto simp: best_def before_def interrupt_ok_def)
  qed simp_all
qed

text \<open>
C24: From a queue that satisfies the invariant of the reachable states (well formed, all
sequence numbers below the next one) and for a valid descriptor, draining with the generation of
both moves a prefix of the posted vectors, in ascending order, to the end of the queue and
leaves exactly the rest posted: no vector is lost or delivered twice, and it stops early only
when the queue is full, the sequence numbers are used up or the next posted vector is below 32,
which no event may carry; with another generation it changes nothing.
\<close>

theorem drain_no_loss:
  assumes "interrupt_inv s" and "length (pd_pir d) = 8" and "IsPostedInterruptValid (Some d)"
  shows "\<exists>st d' s' out rest. DrainPostedInterrupt (Some d) (Some s) g src = (st, Some d', Some s') \<and>
    (if is_generation s = g \<and> pd_generation d = g
     then filter (is_posted d) [0..<256] = out @ rest \<and>
       queue s' = queue s @ posted_run g src (is_next_sequence s) out \<and>
       (\<forall>v < 256. is_posted d' v \<longleftrightarrow> v \<in> set rest) \<and> IsInterruptStateValid (Some s') \<and>
       (rest = [] \<and> st = (if out = [] then IntNoPending else IntReady) \<or>
        rest \<noteq> [] \<and> st = IntQueueFull \<and> length (queue s') = 32 \<or>
        rest \<noteq> [] \<and> st = IntConflict \<and> is_next_sequence s' = NOT 0 \<or>
        rest \<noteq> [] \<and> st = IntInvalid \<and> hd rest < 32)
     else st = IntGenerationMismatch \<and> d' = d \<and> s' = s)"
proof (cases "is_generation s = g \<and> pd_generation d = g")
  case True
  then have g: "is_generation s = g" "pd_generation d = g" by simp_all
  obtain st d' s' out rest where o: "DrainPostedInterrupt (Some d) (Some s) g src = (st, Some d', Some s')"
    "filter (is_posted d) [0..<256] = out @ rest" "queue s' = queue s @ posted_run g src (is_next_sequence s) out"
    "\<forall>v < 256. is_posted d' v \<longleftrightarrow> v \<in> set rest" "interrupt_inv s'"
    "if rest = [] then st = (if out = [] then IntNoPending else IntReady) else stop_reason st s' (hd rest)"
    using drain_cases [OF assms g, of src] by (elim exE conjE) (rule that)
  have "rest = [] \<and> st = (if out = [] then IntNoPending else IntReady) \<or>
     rest \<noteq> [] \<and> st = IntQueueFull \<and> length (queue s') = 32 \<or>
     rest \<noteq> [] \<and> st = IntConflict \<and> is_next_sequence s' = NOT 0 \<or>
     rest \<noteq> [] \<and> st = IntInvalid \<and> hd rest < 32"
    using o(6) by (cases "rest = []") (simp_all add: stop_reason_def, blast)
  moreover have "IsInterruptStateValid (Some s')" using o(5) by (simp add: interrupt_inv_def interrupt_ok_def)
  ultimately show ?thesis
    unfolding if_P [OF True]
    using o(1-4) by (intro exI [of _ st] exI [of _ d'] exI [of _ s'] exI [of _ out] exI [of _ rest] conjI)
next
  case False
  have "IsInterruptStateValid (Some s)" using assms(1) by (simp add: interrupt_inv_def interrupt_ok_def)
  then have "DrainPostedInterrupt (Some d) (Some s) g src = (IntGenerationMismatch, Some d, Some s)"
    using False assms(3) by (auto simp: DrainPostedInterrupt_def)
  then show ?thesis unfolding if_not_P [OF False] by blast
qed

section \<open>Sample inputs\<close>

definition sample_event :: "InterruptKind \<Rightarrow> u32 \<Rightarrow> u64 \<Rightarrow> InterruptEvent" where
  "sample_event k v n = \<lparr>ev_size = 56, ev_version = 1, ev_kind = InterruptKind_u32 k, ev_vector = v,
     ev_error_code = 0, ev_flags = 0, ev_reserved = 0, ev_reserved2 = 0, ev_source_id = 4,
     ev_generation = 6, ev_sequence = n\<rparr>"

definition sample_queue :: "InterruptEvent list \<Rightarrow> u64 \<Rightarrow> InterruptState" where
  "sample_queue q n = \<lparr>is_size = 1832, is_version = 1, is_generation = 6, is_next_sequence = n,
     is_pending_count = word_of_nat (length q), is_interruptibility = 0, is_virtual_apic_tpr = 0x20,
     is_reserved = 0, is_pending = q @ replicate (32 - length q) zero_event\<rparr>"

definition sample_posted :: "u32 \<Rightarrow> PostedInterruptDescriptor" where
  "sample_posted w = \<lparr>pd_size = 64, pd_version = 1, pd_notification_vector = 0xF2, pd_suppress_notification = 0,
     pd_reserved = 0, pd_reserved2 = 0, pd_pir = [0, w, 0, 0, 0, 0, 0, 0], pd_generation = 6\<rparr>"

definition sample_two :: InterruptState where
  "sample_two = sample_queue [sample_event External 0x40 1, sample_event Nmi 2 2] 3"

lemma sample_queue_valid:
  "IsInterruptStateValid (Some (sample_queue [] 1))" "IsInterruptStateValid (Some sample_two)"
  "length (is_pending (sample_queue [] 1)) = 32" "length (is_pending sample_two) = 32"
  "is_pending_count (sample_queue [] 1) = 0" "is_generation sample_two = 6"
  "queue sample_two = [sample_event External 0x40 1, sample_event Nmi 2 2]"
  by code_simp+

lemma sample_posted_valid: "IsPostedInterruptValid (Some (sample_posted w))"
  by (simp add: IsPostedInterruptValid_def sample_posted_def IsVersionedSizeValid_def)

theorem interrupt_queue_typed_witness:
  "\<exists>x. interrupt_step\<^sup>*\<^sup>* \<lparr>sys_state = sample_queue [] 1, sys_posted = sample_posted 0\<rparr> x \<and>
     queue (sys_state x) = [sample_event Nmi 2 1] \<and> IsInterruptStateValid (Some (sys_state x)) \<and>
     length (is_pending (sys_state x)) = 32"
proof -
  let ?x = "\<lparr>sys_state = sample_queue [] 1, sys_posted = sample_posted 0\<rparr>"
  let ?s = "sample_queue [sample_event Nmi 2 1] 2"
  have "EnqueueInterrupt (Some (sample_queue [] 1)) (Some (sample_event Nmi 2 1)) = (IntReady, Some ?s)"
    by code_simp
  then have "interrupt_step ?x (?x\<lparr>sys_state := ?s\<rparr>)" by (intro step_enqueue) simp
  then have run: "interrupt_step\<^sup>*\<^sup>* ?x (?x\<lparr>sys_state := ?s\<rparr>)" by (rule r_into_rtranclp)
  have "pd_pir (sample_posted 0) = replicate 8 0" by (simp add: sample_posted_def numeral_eq_Suc)
  moreover have "queue ?s = [sample_event Nmi 2 1]" by code_simp
  ultimately show ?thesis
    using interrupt_queue_typed [OF sample_queue_valid(1,3,5) sample_posted_valid _ run] run
    by (intro exI [of _ "?x\<lparr>sys_state := ?s\<rparr>"]) simp
qed

theorem interrupt_selection_exact_witness:
  "\<exists>e n t. e \<in> set (queue sample_two) \<and> \<not> IsBlocked sample_two e \<and>
     SelectInterrupt (Some sample_two) 6 (Some n) = (IntReady, Some n) \<and> ev_vector e = 2 \<and>
     CommitInterruptInjection (Some sample_two) (Some n) = (True, Some t) \<and> queue t = [sample_event External 0x40 1]"
proof -
  let ?n = "decision_of (sample_event Nmi 2 2)"
  have s: "SelectInterrupt (Some sample_two) 6 (Some ?n) = (IntReady, Some ?n)" by code_simp
  then have "fst (SelectInterrupt (Some sample_two) 6 (Some ?n)) = IntReady" by simp
  then obtain e n t where e: "e \<in> set (queue sample_two)" "\<not> IsBlocked sample_two e"
    "SelectInterrupt (Some sample_two) 6 (Some ?n) = (IntReady, Some n)" "IsSameEvent e n"
    "CommitInterruptInjection (Some sample_two) (Some n) = (True, Some t)" "queue t = remove1 e (queue sample_two)"
    using interrupt_selection_exact [OF sample_queue_valid(2,4,6), of ?n] by (elim disjE exE conjE) simp_all
  have n: "n = ?n" using e(3) s by simp
  have "e = sample_event Nmi 2 2"
    using e(1,4) by (auto simp: n sample_queue_valid(7) IsSameEvent_def sample_event_def decision_of_def)
  then have "ev_vector e = 2" "queue t = [sample_event External 0x40 1]"
    using e(6) by (simp_all add: sample_queue_valid(7) sample_event_def)
  then show ?thesis using e s n by blast
qed

theorem drain_no_loss_witness:
  "\<exists>d' s'. DrainPostedInterrupt (Some (sample_posted 0x102)) (Some (sample_queue [] 1)) 6 4 = (IntReady, Some d', Some s') \<and>
     map ev_vector (queue s') = [33, 40] \<and> (\<forall>v < 256. \<not> is_posted d' v)"
proof -
  let ?d = "sample_posted 0x102" and ?s = "sample_queue [] 1"
  have i: "interrupt_inv ?s" "length (pd_pir ?d) = 8" "is_generation ?s = 6" "pd_generation ?d = 6"
    by code_simp+
  have f: "fst (DrainPostedInterrupt (Some ?d) (Some ?s) 6 4) = IntReady" by code_simp
  have p: "filter (is_posted ?d) [0..<256] = [33, 40]" by code_simp
  have q: "queue ?s = []" "is_next_sequence ?s = 1" by (simp_all add: sample_queue_def queue_def)
  show ?thesis
    using drain_no_loss [OF i(1,2) sample_posted_valid, of 6 4] f
    unfolding p q if_P [OF conjI [OF i(3,4)]]
    by (elim exE conjE disjE) (auto simp: posted_event_def split: if_splits)
qed

end
