(* ===== verification/TimeModel.thy ===== *)
theory TimeModel
  imports KnhvPrelude
begin

text \<open>
  The virtual time contract of \<^verbatim>\<open>src/src/time/time_contract.cpp\<close> and
  \<^verbatim>\<open>src/src/include/knhv_time.h\<close>: a fixed-point transform from the source TSC to a virtual TSC,
  its composition, observation of the drift against a reference clock, calibration from two
  samples and rebasing. A signed 64-bit value is the word of its bits and is read with \<open>sint\<close>.
  The compiler intrinsics \<^verbatim>\<open>_umul128\<close> and \<^verbatim>\<open>_udiv128\<close> are the 128-bit product and quotient.
\<close>

section \<open>Constants, enumerations and structures\<close>

type_synonym i64 = "64 word"

abbreviation kTimeContractVersion :: u32 where "kTimeContractVersion \<equiv> 1"
abbreviation kTimeMaxStructSize :: u32 where "kTimeMaxStructSize \<equiv> 4096"
abbreviation kTimeFlagInvariantTsc :: u32 where "kTimeFlagInvariantTsc \<equiv> 1"
abbreviation kTimeFlagMonotonicClamp :: u32 where "kTimeFlagMonotonicClamp \<equiv> 2"
abbreviation kTimeFlagPaused :: u32 where "kTimeFlagPaused \<equiv> 4"
abbreviation kTimeKnownFlagMask :: u32 where "kTimeKnownFlagMask \<equiv> 7"
abbreviation kI64Maximum :: i64 where "kI64Maximum \<equiv> 0x7FFFFFFFFFFFFFFF"
abbreviation kI64Minimum :: i64 where "kI64Minimum \<equiv> 0x8000000000000000"

datatype TimeResultCode = TimeSuccess | TimeInvalid | TimeOverflow | TimeNonMonotonic
  | TimeDriftExceeded | TimeGenerationMismatch | TimePaused

fun TimeResultCode_u32 :: "TimeResultCode \<Rightarrow> u32" where
  "TimeResultCode_u32 TimeSuccess = 0"
| "TimeResultCode_u32 TimeInvalid = 1"
| "TimeResultCode_u32 TimeOverflow = 2"
| "TimeResultCode_u32 TimeNonMonotonic = 3"
| "TimeResultCode_u32 TimeDriftExceeded = 4"
| "TimeResultCode_u32 TimeGenerationMismatch = 5"
| "TimeResultCode_u32 TimePaused = 6"

record TscTransform =
  tt_size :: u32
  tt_version :: u32
  tt_base_tsc :: u64
  tt_base_virtual_tsc :: u64
  tt_scale_q32_32 :: u64
  tt_offset_ticks :: i64
  tt_generation :: u64
  tt_last_virtual_tsc :: u64
  tt_max_drift_ticks :: u64
  tt_flags :: u32
  tt_reserved :: u32

record TscQpcSample =
  tq_source_tsc :: u64
  tq_reference_ticks :: u64

record TimeObservation =
  to_size :: u32
  to_version :: u32
  to_virtual_tsc :: u64
  to_reference_ticks :: u64
  to_drift_ticks :: i64
  to_generation :: u64
  to_status :: u32
  to_reserved :: u32

section \<open>Arithmetic\<close>

definition umul128 :: "u64 \<Rightarrow> u64 \<Rightarrow> u64 \<times> u64" where
  "umul128 left right = (let p = unat left * unat right
     in (word_of_nat (p div 2 ^ 64), word_of_nat (p mod 2 ^ 64)))"

definition udiv128 :: "u64 \<Rightarrow> u64 \<Rightarrow> u64 \<Rightarrow> u64" where
  "udiv128 high low divisor = word_of_nat ((unat high * 2 ^ 64 + unat low) div unat divisor)"

definition AddUnsigned :: "u64 \<Rightarrow> u64 \<Rightarrow> u64 option" where
  "AddUnsigned left right = (if left > NOT 0 - right then None else Some (left + right))"

definition AddSigned :: "u64 \<Rightarrow> i64 \<Rightarrow> u64 option" where
  "AddSigned v offset =
     (if 0 \<le> sint offset then AddUnsigned v offset
      else let magnitude = - (offset + 1) + 1
           in if v < magnitude then None else Some (v - magnitude))"

definition MultiplyShift32 :: "u64 \<Rightarrow> u64 \<Rightarrow> u64 option" where
  "MultiplyShift32 left right =
     (case umul128 left right of (high, low) \<Rightarrow>
        if high > 0xFFFFFFFF then None else Some (push_bit 32 high OR drop_bit 32 low))"

definition DifferenceToSigned :: "u64 \<Rightarrow> u64 \<Rightarrow> i64 option" where
  "DifferenceToSigned v reference =
     (if v \<ge> reference
      then let difference = v - reference
           in if difference > kI64Maximum then None else Some difference
      else let difference = reference - v; negative_limit = kI64Maximum + 1
           in if difference > negative_limit then None
              else if difference = negative_limit then Some kI64Minimum
              else Some (- difference))"

section \<open>Transforms\<close>

definition ProjectTscTransform :: "TscTransform \<Rightarrow> u64 \<Rightarrow> TimeResultCode + u64" where
  "ProjectTscTransform t source_tsc =
     (if source_tsc < tt_base_tsc t then Inl TimeNonMonotonic
      else case MultiplyShift32 (source_tsc - tt_base_tsc t) (tt_scale_q32_32 t) of
             None \<Rightarrow> Inl TimeOverflow
           | Some scaled \<Rightarrow>
               (case AddUnsigned (tt_base_virtual_tsc t) scaled of
                  None \<Rightarrow> Inl TimeOverflow
                | Some candidate \<Rightarrow>
                    (case AddSigned candidate (tt_offset_ticks t) of
                       None \<Rightarrow> Inl TimeOverflow
                     | Some shifted \<Rightarrow> Inr shifted)))"

definition IsTscTransformValid :: "TscTransform option \<Rightarrow> bool" where
  "IsTscTransformValid transform = (case transform of None \<Rightarrow> False | Some t \<Rightarrow>
     IsVersionedSizeValid kTimeContractVersion kTimeMaxStructSize (tt_version t) (tt_size t) 72 \<and>
     tt_scale_q32_32 t \<noteq> 0 \<and> tt_generation t \<noteq> 0 \<and>
     tt_flags t AND NOT kTimeKnownFlagMask = 0 \<and> tt_reserved t = 0)"

text \<open>The result of a call with a non-null output: the code, and the value written on success.\<close>

definition ApplyTscTransform ::
    "TscTransform option \<Rightarrow> u64 \<Rightarrow> u64 option \<Rightarrow> TimeResultCode \<times> u64 option" where
  "ApplyTscTransform transform source_tsc virtual_tsc =
     (if virtual_tsc = None \<or> \<not> IsTscTransformValid transform then (TimeInvalid, virtual_tsc)
      else let t = the transform in
        if tt_flags t AND kTimeFlagPaused \<noteq> 0 then (TimePaused, virtual_tsc)
        else case ProjectTscTransform t source_tsc of
               Inl status \<Rightarrow> (status, virtual_tsc)
             | Inr candidate \<Rightarrow>
                 if tt_last_virtual_tsc t \<noteq> 0 \<and> candidate < tt_last_virtual_tsc t
                 then if tt_flags t AND kTimeFlagMonotonicClamp = 0 then (TimeNonMonotonic, virtual_tsc)
                      else (TimeSuccess, Some (tt_last_virtual_tsc t))
                 else (TimeSuccess, Some candidate))"

definition ComposeTscTransforms ::
    "TscTransform option \<Rightarrow> TscTransform option \<Rightarrow> u64 \<Rightarrow> u64 option \<Rightarrow> TimeResultCode \<times> u64 option" where
  "ComposeTscTransforms outer inner source_tsc virtual_tsc =
     (case (outer, inner) of
        (Some out, Some inn) \<Rightarrow>
          if tt_generation out \<noteq> tt_generation inn then (TimeGenerationMismatch, virtual_tsc)
          else (case ApplyTscTransform outer source_tsc (Some 0) of
                  (outer_status, intermediate) \<Rightarrow>
                    if outer_status \<noteq> TimeSuccess then (outer_status, virtual_tsc)
                    else ApplyTscTransform inner (the intermediate) virtual_tsc)
      | _ \<Rightarrow> (TimeGenerationMismatch, virtual_tsc))"

definition zero_observation :: TimeObservation where
  "zero_observation = \<lparr>to_size = 48, to_version = kTimeContractVersion, to_virtual_tsc = 0,
     to_reference_ticks = 0, to_drift_ticks = 0, to_generation = 0, to_status = 0, to_reserved = 0\<rparr>"

definition ObserveTimeSample ::
    "TscTransform option \<Rightarrow> u64 \<Rightarrow> u64 \<Rightarrow> TimeObservation option \<Rightarrow> TimeResultCode \<times> TimeObservation option" where
  "ObserveTimeSample transform source_tsc reference_ticks observation =
     (case observation of None \<Rightarrow> (TimeInvalid, None)
      | Some _ \<Rightarrow>
          if \<not> IsTscTransformValid transform
          then (TimeInvalid, Some (zero_observation\<lparr>to_status := TimeResultCode_u32 TimeInvalid\<rparr>))
          else let t = the transform in
            (case ApplyTscTransform transform source_tsc (Some 0) of (status, v) \<Rightarrow>
               let o1 = zero_observation\<lparr>to_generation := tt_generation t, to_virtual_tsc := the v,
                          to_reference_ticks := reference_ticks, to_status := TimeResultCode_u32 status\<rparr>
               in if status \<noteq> TimeSuccess then (status, Some o1)
                  else case DifferenceToSigned (the v) reference_ticks of
                    None \<Rightarrow> (TimeOverflow, Some (o1\<lparr>to_status := TimeResultCode_u32 TimeOverflow\<rparr>))
                  | Some drift \<Rightarrow>
                      let o2 = o1\<lparr>to_drift_ticks := drift\<rparr>;
                          absolute_drift = (if sint drift < 0 then - (drift + 1) + 1 else drift)
                      in if absolute_drift > tt_max_drift_ticks t
                         then (TimeDriftExceeded, Some (o2\<lparr>to_status := TimeResultCode_u32 TimeDriftExceeded\<rparr>))
                         else (TimeSuccess, Some o2)))"

definition CalibrateTscTransform ::
    "TscQpcSample option \<Rightarrow> TscQpcSample option \<Rightarrow> u64 \<Rightarrow> u64 \<Rightarrow> TscTransform option \<Rightarrow> bool \<times> TscTransform option" where
  "CalibrateTscTransform first second generation max_drift_ticks transform =
     (case (first, second, transform) of
        (Some a, Some b, Some _) \<Rightarrow>
          if generation = 0 \<or> tq_source_tsc b \<le> tq_source_tsc a \<or>
             tq_reference_ticks b \<le> tq_reference_ticks a then (False, transform)
          else let source_delta = tq_source_tsc b - tq_source_tsc a;
                   reference_delta = tq_reference_ticks b - tq_reference_ticks a;
                   high = drop_bit 32 reference_delta;
                   low = push_bit 32 reference_delta
               in if high \<ge> source_delta then (False, transform)
                  else let scale = udiv128 high low source_delta
                       in if scale = 0 then (False, transform)
                          else (True, Some \<lparr>tt_size = 72, tt_version = kTimeContractVersion,
                            tt_base_tsc = tq_source_tsc a, tt_base_virtual_tsc = tq_reference_ticks a,
                            tt_scale_q32_32 = scale, tt_offset_ticks = 0, tt_generation = generation,
                            tt_last_virtual_tsc = tq_reference_ticks a, tt_max_drift_ticks = max_drift_ticks,
                            tt_flags = kTimeFlagMonotonicClamp, tt_reserved = 0\<rparr>)
      | _ \<Rightarrow> (False, transform))"

definition RebaseTscTransform :: "TscTransform option \<Rightarrow> u64 \<Rightarrow> u64 \<Rightarrow> bool \<times> TscTransform option" where
  "RebaseTscTransform transform source_tsc minimum_virtual_tsc =
     (if \<not> IsTscTransformValid transform then (False, transform)
      else let t = the transform in
        if tt_flags t AND kTimeFlagPaused \<noteq> 0 then (False, transform)
        else case ProjectTscTransform t source_tsc of
               Inl _ \<Rightarrow> (False, transform)
             | Inr projected \<Rightarrow>
                 let target = (if minimum_virtual_tsc < tt_last_virtual_tsc t then tt_last_virtual_tsc t
                               else minimum_virtual_tsc)
                 in if projected < target
                    then let delta = target - projected
                         in if delta > kI64Maximum then (False, transform)
                            else if sint (tt_offset_ticks t) > sint kI64Maximum - sint delta then (False, transform)
                            else (True, Some (t\<lparr>tt_offset_ticks := tt_offset_ticks t + delta,
                                                tt_last_virtual_tsc := target\<rparr>))
                    else (True, Some (t\<lparr>tt_last_virtual_tsc := target\<rparr>)))"

definition NextTimeGeneration :: "u64 \<Rightarrow> u64 option \<Rightarrow> bool \<times> u64 option" where
  "NextTimeGeneration current_generation next_generation =
     (if next_generation = None \<or> current_generation = NOT 0 then (False, next_generation)
      else (True, Some (if current_generation = 0 then 1 else current_generation + 1)))"

section \<open>The arithmetic is exact\<close>

lemma unat_lt64: "unat (x :: u64) < 2 ^ 64"
  using unsigned_less [where w = x and 'a = nat] by simp

lemma unat_of_nat_u64: "n < 2 ^ 64 \<Longrightarrow> unat (word_of_nat n :: u64) = n"
  by (simp add: unat_of_nat)

lemma or_halves:
  assumes "unat (h :: u64) < 2 ^ 32"
  shows "unat (push_bit 32 h OR drop_bit 32 l) = unat h * 2 ^ 32 + unat l div 2 ^ 32"
proof -
  have "push_bit 32 h AND drop_bit 32 l = 0"
  proof (rule bit_word_eqI)
    fix n assume "n < LENGTH(64)"
    show "bit (push_bit 32 h AND drop_bit 32 l) n = bit (0 :: u64) n"
      using bit_imp_le_length [of l "32 + n"] by (auto simp: bit_simps)
  qed
  then have s: "push_bit 32 h OR drop_bit 32 l = push_bit 32 h + drop_bit 32 l"
    by (simp add: disjunctive_add_eq_or)
  have d: "unat (drop_bit 32 l) = unat l div 2 ^ 32"
    using unat_drop_bit_eq [of 32 l] by (simp add: drop_bit_eq_div)
  have "unat (push_bit 32 h) = unat h * 2 ^ 32"
    using assms unat_mult_small [of h "2 ^ 32"] by (simp add: push_bit_eq_mult)
  moreover have "unat h * 2 ^ 32 + unat l div 2 ^ 32 < 2 ^ 64"
    using assms unat_lt64 [of l] by simp
  ultimately show ?thesis unfolding s using unat_add_small [of "push_bit 32 h" "drop_bit 32 l"] d by simp
qed

lemma MultiplyShift32_iff:
  "MultiplyShift32 l r = Some w \<longleftrightarrow> unat w = unat l * unat r div 2 ^ 32"
proof -
  define p where "p = unat l * unat r"
  have "p < 2 ^ 64 * 2 ^ 64"
    unfolding p_def using unat_lt64 by (intro mult_strict_mono) simp_all
  then have hd: "p div 2 ^ 64 < 2 ^ 64" by (simp add: less_mult_imp_div_less)
  have hi: "unat (word_of_nat (p div 2 ^ 64) :: u64) = p div 2 ^ 64"
    by (rule unat_of_nat_u64 [OF hd])
  have lo: "unat (word_of_nat (p mod 2 ^ 64) :: u64) = p mod 2 ^ 64"
    by (rule unat_of_nat_u64) simp
  have split: "p div 2 ^ 32 = p div 2 ^ 64 * 2 ^ 32 + p mod 2 ^ 64 div 2 ^ 32"
  proof -
    have "p = p mod 2 ^ 64 + (p div 2 ^ 64 * 2 ^ 32) * 2 ^ 32"
      using mod_div_mult_eq [of p "2 ^ 64"] by (simp add: mult.assoc)
    then have "p div 2 ^ 32 = (p mod 2 ^ 64 + (p div 2 ^ 64 * 2 ^ 32) * 2 ^ 32) div 2 ^ 32" by (rule arg_cong)
    also have "\<dots> = p div 2 ^ 64 * 2 ^ 32 + p mod 2 ^ 64 div 2 ^ 32"
      by (rule div_mult_self1) simp
    finally show ?thesis .
  qed
  show ?thesis
  proof (cases "p div 2 ^ 64 < 2 ^ 32")
    case True
    then have "MultiplyShift32 l r = Some (push_bit 32 (word_of_nat (p div 2 ^ 64)) OR drop_bit 32 (word_of_nat (p mod 2 ^ 64)))"
      using hi by (simp add: MultiplyShift32_def umul128_def Let_def p_def [symmetric] word_less_nat_alt)
    moreover have "unat (push_bit 32 (word_of_nat (p div 2 ^ 64) :: u64) OR drop_bit 32 (word_of_nat (p mod 2 ^ 64))) = p div 2 ^ 32"
      using or_halves [of "word_of_nat (p div 2 ^ 64)" "word_of_nat (p mod 2 ^ 64)"] True hi lo split by simp
    ultimately show ?thesis unfolding p_def [symmetric] by (auto simp: word_unat_eq_iff)
  next
    case False
    then have "MultiplyShift32 l r = None"
      using hi by (simp add: MultiplyShift32_def umul128_def Let_def p_def [symmetric] word_less_nat_alt)
    moreover have "2 ^ 64 \<le> p div 2 ^ 32" using False split by simp
    then have "unat w \<noteq> p div 2 ^ 32" using unat_lt64 [of w] by linarith
    ultimately show ?thesis unfolding p_def [symmetric] by simp
  qed
qed

lemma AddUnsigned_AddOverflow: "AddUnsigned l r = AddOverflow l r"
  by (simp add: AddUnsigned_def AddOverflow_def)

lemma sint_cases: "sint (x :: i64) = (if uint x < 2 ^ 63 then uint x else uint x - 2 ^ 64)"
proof -
  have u: "0 \<le> uint x" "uint x < 2 ^ 64" using uint_bounded [of x] by simp_all
  have s: "sint x = (uint x + 2 ^ 63) mod 2 ^ 64 - 2 ^ 63"
    by (simp add: sint_uint signed_take_bit_eq_take_bit_shift take_bit_eq_mod)
  show ?thesis
  proof (cases "uint x < 2 ^ 63")
    case True
    then have "(uint x + 2 ^ 63) mod 2 ^ 64 = uint x + 2 ^ 63" using u by (intro mod_pos_pos_trivial) simp_all
    then show ?thesis using s True by simp
  next
    case False
    have "(uint x + 2 ^ 63) mod 2 ^ 64 = (uint x - 2 ^ 63 + 2 ^ 64) mod 2 ^ 64" by (simp add: add.commute)
    also have "\<dots> = (uint x - 2 ^ 63) mod 2 ^ 64" by (rule mod_add_self2)
    also have "\<dots> = uint x - 2 ^ 63" using u False by (intro mod_pos_pos_trivial) simp_all
    finally show ?thesis using s False by simp
  qed
qed

lemma AddSigned_iff:
  "AddSigned v off = Some w \<longleftrightarrow> uint w = uint v + sint off"
proof -
  have b: "0 \<le> uint w" "uint w < 2 ^ 64" "0 \<le> uint v" "uint v < 2 ^ 64" "0 \<le> uint off" "uint off < 2 ^ 64"
    using uint_bounded [of w] uint_bounded [of v] uint_bounded [of off] by simp_all
  show ?thesis
  proof (cases "uint off < 2 ^ 63")
    case True
    then have s: "sint off = uint off" by (simp add: sint_cases)
    have "AddSigned v off = Some w \<longleftrightarrow> unat v + unat off < 2 ^ 64 \<and> w = v + off"
      using b(5) by (simp add: AddSigned_def s AddUnsigned_AddOverflow AddOverflow_Some_iff)
    also have "\<dots> \<longleftrightarrow> unat w = unat v + unat off"
      using unat_add_small [of v off] unat_lt64 [of w] by (auto simp: word_unat_eq_iff)
    also have "\<dots> \<longleftrightarrow> uint w = uint v + uint off"
      by (simp only: uint_nat of_nat_add [symmetric] of_nat_eq_iff)
    finally show ?thesis by (simp add: s)
  next
    case False
    then have s: "sint off = uint off - 2 ^ 64" by (simp add: sint_cases)
    have m: "- (off + 1) + 1 = - off" by simp
    have u: "uint (- off) = 2 ^ 64 - uint off"
    proof -
      have "uint (- off) = (- uint off) mod 2 ^ 64" using uint_word_ariths(4) [of off] by simp
      also have "\<dots> = (- uint off + 2 ^ 64) mod 2 ^ 64" by (rule mod_add_self2 [symmetric])
      also have "\<dots> = - uint off + 2 ^ 64" using b(6) False by (intro mod_pos_pos_trivial) simp_all
      finally show ?thesis by simp
    qed
    have lt: "v < - off \<longleftrightarrow> uint v < 2 ^ 64 - uint off" by (simp add: word_less_def u)
    have sub: "uint (v - - off) = uint v - (2 ^ 64 - uint off)" if "\<not> v < - off"
      using that uint_minus_simple_alt [of "- off" v] u by (simp add: not_less)
    have eq: "AddSigned v off = (if v < - off then None else Some (v - - off))"
      using s b(6) by (simp add: AddSigned_def Let_def m)
    show ?thesis
    proof (cases "v < - off")
      case True
      then have "uint v + sint off < 0" using lt s by simp
      then have "uint w \<noteq> uint v + sint off" using b(1) by linarith
      then show ?thesis using eq True by simp
    next
      case False
      then have "AddSigned v off = Some w \<longleftrightarrow> uint w = uint (v - - off)"
        using eq by (auto simp only: if_False option.inject word_uint_eq_iff)
      moreover have "uint (v - - off) = uint v + sint off" using sub [OF False] s by linarith
      ultimately show ?thesis by simp
    qed
  qed
qed

section \<open>Projection\<close>

definition scaled_ticks :: "TscTransform \<Rightarrow> u64 \<Rightarrow> nat" where
  "scaled_ticks t s = (unat s - unat (tt_base_tsc t)) * unat (tt_scale_q32_32 t) div 2 ^ 32"

text \<open>The projection computes the fixed-point line over the integers, without any wrap-around.\<close>

lemma Project_iff:
  "ProjectTscTransform t s = Inr v \<longleftrightarrow> tt_base_tsc t \<le> s \<and>
     unat (tt_base_virtual_tsc t) + scaled_ticks t s < 2 ^ 64 \<and>
     uint v = int (unat (tt_base_virtual_tsc t) + scaled_ticks t s) + sint (tt_offset_ticks t)"
proof (cases "tt_base_tsc t \<le> s")
  case True
  have d: "unat (s - tt_base_tsc t) = unat s - unat (tt_base_tsc t)" using True by (rule unat_sub)
  have m: "MultiplyShift32 (s - tt_base_tsc t) (tt_scale_q32_32 t) = Some w \<longleftrightarrow> unat w = scaled_ticks t s" for w
    by (simp add: MultiplyShift32_iff d scaled_ticks_def)
  show ?thesis
  proof (cases "MultiplyShift32 (s - tt_base_tsc t) (tt_scale_q32_32 t)")
    case None
    then have "\<not> scaled_ticks t s < 2 ^ 64"
      using m [of "word_of_nat (scaled_ticks t s)"] unat_of_nat_u64 [of "scaled_ticks t s"] by auto
    then show ?thesis using None True by (simp add: ProjectTscTransform_def)
  next
    case (Some w)
    then have w: "unat w = scaled_ticks t s" using m by simp
    have a: "AddUnsigned (tt_base_virtual_tsc t) w = Some c \<longleftrightarrow>
        unat (tt_base_virtual_tsc t) + scaled_ticks t s < 2 ^ 64 \<and> c = tt_base_virtual_tsc t + w" for c
      by (simp add: AddUnsigned_AddOverflow AddOverflow_Some_iff w)
    show ?thesis
    proof (cases "unat (tt_base_virtual_tsc t) + scaled_ticks t s < 2 ^ 64")
      case lt: True
      let ?c = "tt_base_virtual_tsc t + w"
      have c: "AddUnsigned (tt_base_virtual_tsc t) w = Some ?c" using lt a by simp
      have "uint ?c = int (unat (tt_base_virtual_tsc t) + scaled_ticks t s)"
        using lt w unat_add_small [of "tt_base_virtual_tsc t" w] by (simp only: uint_nat)
      then have "AddSigned ?c (tt_offset_ticks t) = Some v \<longleftrightarrow>
          uint v = int (unat (tt_base_virtual_tsc t) + scaled_ticks t s) + sint (tt_offset_ticks t)"
        by (simp only: AddSigned_iff)
      moreover have "ProjectTscTransform t s = Inr v \<longleftrightarrow> AddSigned ?c (tt_offset_ticks t) = Some v"
        using Some True c by (auto simp: ProjectTscTransform_def split: option.splits)
      ultimately show ?thesis using True lt by simp
    next
      case False
      then have "AddUnsigned (tt_base_virtual_tsc t) w = None"
        using a by (cases "AddUnsigned (tt_base_virtual_tsc t) w") auto
      then show ?thesis using Some True False by (simp add: ProjectTscTransform_def)
    qed
  qed
next
  case False
  then show ?thesis by (simp add: ProjectTscTransform_def not_le)
qed

lemma scaled_mono: "s \<le> s' \<Longrightarrow> scaled_ticks t s \<le> scaled_ticks t s'"
  unfolding scaled_ticks_def by (intro div_le_mono mult_le_mono1 diff_le_mono) (simp add: word_le_nat_alt)

lemma Project_mono:
  assumes "ProjectTscTransform t s = Inr v" and "ProjectTscTransform t s' = Inr v'" and "s \<le> s'"
  shows "v \<le> v'"
proof -
  have "int (scaled_ticks t s) \<le> int (scaled_ticks t s')" using scaled_mono [OF assms(3)] by simp
  then show ?thesis using assms(1,2) unfolding Project_iff word_le_def by simp
qed

lemma Apply_success_iff:
  "ApplyTscTransform (Some t) s (Some x) = (TimeSuccess, Some v) \<longleftrightarrow>
     IsTscTransformValid (Some t) \<and> tt_flags t AND kTimeFlagPaused = 0 \<and>
     (\<exists>p. ProjectTscTransform t s = Inr p \<and> v = max p (tt_last_virtual_tsc t) \<and>
        (tt_last_virtual_tsc t \<le> p \<or> tt_flags t AND kTimeFlagMonotonicClamp \<noteq> 0))"
proof (cases "ProjectTscTransform t s")
  case (Inl c)
  have "c \<noteq> TimeSuccess"
    using Inl by (auto simp: ProjectTscTransform_def split: if_splits option.splits)
  then show ?thesis using Inl by (simp add: ApplyTscTransform_def)
next
  case (Inr p)
  have z: "p < tt_last_virtual_tsc t \<Longrightarrow> tt_last_virtual_tsc t \<noteq> 0" by auto
  show ?thesis
  proof (cases "p < tt_last_virtual_tsc t")
    case True
    then show ?thesis using Inr z by (auto simp: ApplyTscTransform_def Let_def max_def)
  next
    case False
    then show ?thesis using Inr by (auto simp: ApplyTscTransform_def Let_def max_def not_less)
  qed
qed

lemma max_word_mono: "(a :: u64) \<le> b \<Longrightarrow> c \<le> d \<Longrightarrow> max a c \<le> max b d"
  by (rule max.mono)

text \<open>Rebasing lifts the projection at the rebase point to the target, and no further.\<close>

lemma Rebase_project:
  assumes "RebaseTscTransform (Some t) s m = (True, Some t')" and "ProjectTscTransform t s = Inr p"
  shows "ProjectTscTransform t' s = Inr (max p (max m (tt_last_virtual_tsc t))) \<and>
    tt_last_virtual_tsc t' = max m (tt_last_virtual_tsc t) \<and> tt_flags t' = tt_flags t \<and>
    tt_base_tsc t' = tt_base_tsc t \<and> tt_scale_q32_32 t' = tt_scale_q32_32 t \<and>
    tt_base_virtual_tsc t' = tt_base_virtual_tsc t \<and> sint (tt_offset_ticks t) \<le> sint (tt_offset_ticks t') \<and>
    IsTscTransformValid (Some t') \<and> tt_generation t' = tt_generation t"
proof -
  let ?target = "max m (tt_last_virtual_tsc t)"
  have tg: "(if m < tt_last_virtual_tsc t then tt_last_virtual_tsc t else m) = ?target" by (auto simp: max_def)
  have valid: "IsTscTransformValid (Some t)" "tt_flags t AND kTimeFlagPaused = 0"
    using assms(1) by (auto simp: RebaseTscTransform_def Let_def split: if_splits)
  show ?thesis
  proof (cases "p < ?target")
    case False
    then have t': "t' = t\<lparr>tt_last_virtual_tsc := ?target\<rparr>"
      using assms valid unfolding RebaseTscTransform_def by (simp add: tg)
    have "ProjectTscTransform t' s = Inr p"
      using assms(2) unfolding Project_iff by (simp add: t' scaled_ticks_def)
    moreover have "max p ?target = p" using False by (metis max_absorb1 not_less)
    ultimately show ?thesis using valid by (simp add: t' IsTscTransformValid_def)
  next
    case True
    let ?d = "?target - p"
    have le: "\<not> ?d > kI64Maximum" and no: "\<not> sint (tt_offset_ticks t) > sint kI64Maximum - sint ?d"
      and t': "t' = t\<lparr>tt_offset_ticks := tt_offset_ticks t + ?d, tt_last_virtual_tsc := ?target\<rparr>"
      using assms valid True unfolding RebaseTscTransform_def
      by (simp_all add: tg Let_def split: if_splits)
    have ud: "uint ?d = uint ?target - uint p"
      using True by (intro uint_minus_simple_alt [THEN iffD1]) simp
    have sd: "sint ?d = uint ?target - uint p"
      using le ud by (simp add: sint_cases word_less_def not_less)
    have "sint (tt_offset_ticks t + ?d) = sint (tt_offset_ticks t) + sint ?d"
    proof -
      have lo: "- (2 ^ 63) \<le> sint (tt_offset_ticks t)" "sint (tt_offset_ticks t) < 2 ^ 63"
        using sint_ge [of "tt_offset_ticks t"] sint_lt [of "tt_offset_ticks t"] by simp_all
      have hi: "sint (tt_offset_ticks t) + sint ?d \<le> 2 ^ 63 - 1" using no by simp
      have pos: "0 \<le> sint ?d" using sd True by (simp add: word_less_def)
      show ?thesis
        unfolding sint_word_add using lo hi pos
        by (simp add: signed_take_bit_int_eq_self)
    qed
    then have "ProjectTscTransform t' s = Inr ?target"
      using assms(2) sd unfolding Project_iff by (simp add: t' scaled_ticks_def)
    moreover have "max p ?target = ?target" using True by (metis max_absorb2 less_imp_le)
    moreover have "0 \<le> sint ?d" using sd True by (simp add: word_less_def)
    ultimately show ?thesis
      using valid \<open>sint (tt_offset_ticks t + ?d) = _\<close> by (simp add: t' IsTscTransformValid_def)
  qed
qed

section \<open>Virtual time does not run back\<close>

text \<open>Readings and rebases at given source times; what a sequence of them returns to the guest.\<close>

datatype time_event = Read u64 | Rebase u64 u64

fun event_time :: "time_event \<Rightarrow> u64" where
  "event_time (Read s) = s"
| "event_time (Rebase s m) = s"

definition reading :: "TscTransform \<Rightarrow> u64 \<Rightarrow> u64 option" where
  "reading t s = (case ApplyTscTransform (Some t) s (Some 0) of
     (code, v) \<Rightarrow> if code = TimeSuccess then v else None)"

fun readings :: "TscTransform \<Rightarrow> time_event list \<Rightarrow> u64 list" where
  "readings t [] = []"
| "readings t (Read s # es) = (case reading t s of Some v \<Rightarrow> v # readings t es | None \<Rightarrow> readings t es)"
| "readings t (Rebase s m # es) = readings (the (snd (RebaseTscTransform (Some t) s m))) es"

lemma reading_iff: "reading t s = Some v \<longleftrightarrow> ApplyTscTransform (Some t) s (Some 0) = (TimeSuccess, Some v)"
  by (auto simp: reading_def split: prod.splits)

definition floor_from :: "TscTransform \<Rightarrow> u64 \<Rightarrow> u64 \<Rightarrow> bool" where
  "floor_from t s v \<longleftrightarrow> (\<forall>s' \<ge> s. \<forall>p. ProjectTscTransform t s' = Inr p \<longrightarrow> v \<le> max p (tt_last_virtual_tsc t))"

lemma floor_apply:
  assumes "ApplyTscTransform (Some t) s (Some x) = (TimeSuccess, Some v)"
  shows "floor_from t s v"
  using assms Project_mono unfolding Apply_success_iff floor_from_def
  by (metis max_word_mono order_refl)

lemma floor_later: "floor_from t s v \<Longrightarrow> s \<le> s' \<Longrightarrow> floor_from t s' v"
  by (auto simp: floor_from_def dest: order_trans)

lemma floor_rebase:
  assumes "floor_from t s v" and "RebaseTscTransform (Some t) s m = (True, Some t')"
  shows "floor_from t' s v"
proof -
  obtain p where p: "ProjectTscTransform t s = Inr p"
    using assms(2) by (auto simp: RebaseTscTransform_def Let_def split: sum.splits if_splits)
  note r = Rebase_project [OF assms(2) p]
  have "v \<le> max p (tt_last_virtual_tsc t)" by (rule assms(1) [unfolded floor_from_def, rule_format, OF order_refl p])
  then have le: "v \<le> max p (max m (tt_last_virtual_tsc t))"
    by (metis max.assoc max.commute max.coboundedI1)
  show ?thesis
    unfolding floor_from_def
  proof (intro allI impI)
    fix s' p' assume "s \<le> s'" and "ProjectTscTransform t' s' = Inr p'"
    then have "max p (max m (tt_last_virtual_tsc t)) \<le> p'" using r Project_mono by blast
    then show "v \<le> max p' (tt_last_virtual_tsc t')" using le by (metis max.coboundedI1 order_trans)
  qed
qed

lemma Rebase_cases:
  "(\<exists>t'. RebaseTscTransform (Some t) s m = (True, Some t')) \<or> RebaseTscTransform (Some t) s m = (False, Some t)"
  by (simp add: RebaseTscTransform_def Let_def split: sum.split)

lemma readings_floor:
  "floor_from t s v \<Longrightarrow> sorted (map event_time es) \<Longrightarrow> \<forall>e \<in> set es. s \<le> event_time e \<Longrightarrow>
     \<forall>w \<in> set (readings t es). v \<le> w"
proof (induction es arbitrary: t s)
  case (Cons e es)
  have es: "sorted (map event_time es)" "\<forall>x \<in> set es. event_time e \<le> event_time x"
    using Cons.prems(2) by auto
  have later: "floor_from t (event_time e) v" using Cons.prems(1,3) floor_later by simp
  note IH = Cons.IH [OF _ es]
  show ?case
  proof (cases e)
    case (Read u)
    have "v \<le> w" if "reading t u = Some w" for w
      using that later Read unfolding reading_iff Apply_success_iff floor_from_def by auto
    then show ?thesis using IH [OF later] Read by (auto split: option.splits)
  next
    case (Rebase u m)
    show ?thesis
      using Rebase_cases [of t u m] IH [OF later] IH [OF floor_rebase [OF later]] Rebase by auto
  qed
qed simp

lemma readings_sorted: "sorted (map event_time es) \<Longrightarrow> sorted (readings t es)"
proof (induction es arbitrary: t)
  case (Cons e es)
  show ?case
  proof (cases e)
    case (Read u)
    have "\<forall>w \<in> set (readings t es). v \<le> w" if "reading t u = Some v" for v
      using readings_floor [OF floor_apply [OF that [unfolded reading_iff]], of es] Cons.prems Read by simp
    then show ?thesis using Cons Read by (auto split: option.splits)
  qed (use Cons in auto)
qed simp

section \<open>Calibration\<close>

lemma calibration_dividend: "unat (drop_bit 32 (r :: u64)) * 2 ^ 64 + unat (push_bit 32 r) = unat r * 2 ^ 32"
proof -
  have d: "unat (drop_bit 32 r) = unat r div 2 ^ 32"
    using unat_drop_bit_eq [of 32 r] by (simp add: drop_bit_eq_div)
  have "unat (push_bit 32 r) = unat r * 2 ^ 32 mod 2 ^ 64"
    using unat_word_ariths(2) [of r "2 ^ 32"] by (simp add: push_bit_eq_mult)
  also have "\<dots> = (unat r mod 2 ^ 32) * 2 ^ 32"
    using mod_mult_mult2 [of "unat r" "2 ^ 32" "2 ^ 32"] by simp
  finally have p: "unat (push_bit 32 r) = (unat r mod 2 ^ 32) * 2 ^ 32" .
  have "unat r = unat r div 2 ^ 32 * 2 ^ 32 + unat r mod 2 ^ 32" by simp
  then show ?thesis unfolding d p by (metis add_mult_distrib mult.assoc power_add numeral_Bit0)
qed

lemma calibration_scale:
  assumes "drop_bit 32 r < sd"
  shows "unat (udiv128 (drop_bit 32 r) (push_bit 32 r) sd) = unat r * 2 ^ 32 div unat sd"
proof -
  have "unat r div 2 ^ 32 < unat sd"
    using assms unat_drop_bit_eq [of 32 r] by (simp add: word_less_nat_alt drop_bit_eq_div)
  then have "unat r < unat sd * 2 ^ 32" by (simp add: div_less_iff_less_mult)
  then have "unat r * 2 ^ 32 < 2 ^ 64 * unat sd" by simp
  then have "unat r * 2 ^ 32 div unat sd < 2 ^ 64"
    by (simp add: less_mult_imp_div_less)
  then show ?thesis
    unfolding udiv128_def calibration_dividend by (rule unat_of_nat_u64)
qed

lemma fixed_point_bounds:
  fixes d r s :: nat
  assumes "0 < s" and "k = r * 2 ^ 32 div s" and "x = d * k div 2 ^ 32"
  shows "x * s \<le> d * r" and "(d * r - x * s) * 2 ^ 32 < s * (d + 2 ^ 32)"
proof -
  have k1: "k * s \<le> r * 2 ^ 32" and k2: "r * 2 ^ 32 < k * s + s"
    using dividend_less_div_times [OF assms(1), of "r * 2 ^ 32"] unfolding assms(2) by simp_all
  have x1: "x * 2 ^ 32 \<le> d * k" and x2: "d * k < x * 2 ^ 32 + 2 ^ 32"
    using dividend_less_div_times [of "2 ^ 32" "d * k"] unfolding assms(3) by simp_all
  have "x * s * 2 ^ 32 \<le> d * k * s" using mult_le_mono1 [OF x1, of s] by (simp add: ac_simps)
  also have "\<dots> \<le> d * r * 2 ^ 32" using mult_le_mono2 [OF k1, of d] by (simp add: ac_simps)
  finally show le: "x * s \<le> d * r" by simp
  have "d * r * 2 ^ 32 \<le> d * (k * s) + d * s"
    using mult_le_mono2 [OF less_imp_le [OF k2], of d] by (simp add: algebra_simps)
  also have "\<dots> < (x * 2 ^ 32 + 2 ^ 32) * s + d * s"
    using mult_strict_right_mono [OF x2 assms(1)] by (simp add: algebra_simps)
  finally have "d * r * 2 ^ 32 < x * s * 2 ^ 32 + s * (d + 2 ^ 32)" by (simp add: algebra_simps)
  then show "(d * r - x * s) * 2 ^ 32 < s * (d + 2 ^ 32)"
    using mult_le_mono1 [OF le, of "2 ^ 32"] by (simp add: diff_mult_distrib less_diff_conv2 add.commute)
qed


lemma Calibrate_success:
  assumes "CalibrateTscTransform (Some a) (Some b) g dr (Some t0) = (True, Some t)"
  shows "tq_source_tsc a < tq_source_tsc b \<and> tq_reference_ticks a < tq_reference_ticks b \<and>
    IsTscTransformValid (Some t) \<and> tt_flags t = kTimeFlagMonotonicClamp \<and> tt_offset_ticks t = 0 \<and>
    tt_base_tsc t = tq_source_tsc a \<and> tt_base_virtual_tsc t = tq_reference_ticks a \<and>
    tt_last_virtual_tsc t = tq_reference_ticks a \<and> tt_generation t = g \<and>
    unat (tt_scale_q32_32 t) = (unat (tq_reference_ticks b) - unat (tq_reference_ticks a)) * 2 ^ 32 div
       (unat (tq_source_tsc b) - unat (tq_source_tsc a))"
proof -
  let ?r = "tq_reference_ticks b - tq_reference_ticks a" and ?s = "tq_source_tsc b - tq_source_tsc a"
  have lt: "tq_source_tsc a < tq_source_tsc b" "tq_reference_ticks a < tq_reference_ticks b" and g: "g \<noteq> 0"
    and high: "drop_bit 32 ?r < ?s" and nz: "udiv128 (drop_bit 32 ?r) (push_bit 32 ?r) ?s \<noteq> 0"
    and t: "t = \<lparr>tt_size = 72, tt_version = kTimeContractVersion,
              tt_base_tsc = tq_source_tsc a, tt_base_virtual_tsc = tq_reference_ticks a,
              tt_scale_q32_32 = udiv128 (drop_bit 32 ?r) (push_bit 32 ?r) ?s, tt_offset_ticks = 0, tt_generation = g,
              tt_last_virtual_tsc = tq_reference_ticks a, tt_max_drift_ticks = dr,
              tt_flags = kTimeFlagMonotonicClamp, tt_reserved = 0\<rparr>"
    using assms by (simp_all add: CalibrateTscTransform_def Let_def not_le split: if_splits)
  have "unat ?r = unat (tq_reference_ticks b) - unat (tq_reference_ticks a)"
    "unat ?s = unat (tq_source_tsc b) - unat (tq_source_tsc a)"
    using lt by (simp_all add: unat_sub less_imp_le)
  then show ?thesis
    using lt g nz calibration_scale [OF high] by (simp add: t IsTscTransformValid_def IsVersionedSizeValid_def)
qed

text \<open>
C25: Between the two samples it was calibrated on, a transform never overflows or fails, stays
between the two reference readings and never runs ahead of the exact linear interpolation,
behind which it falls by less than one tick plus the elapsed source ticks over 2^32.
\<close>

theorem calibrated_time_accurate:
  assumes "CalibrateTscTransform (Some a) (Some b) g dr (Some t0) = (True, Some t)"
    and "tq_source_tsc a \<le> s" and "s \<le> tq_source_tsc b"
    and "d = unat s - unat (tq_source_tsc a)"
    and "sd = unat (tq_source_tsc b) - unat (tq_source_tsc a)"
    and "rd = unat (tq_reference_ticks b) - unat (tq_reference_ticks a)"
  shows "\<exists>v. ApplyTscTransform (Some t) s (Some x) = (TimeSuccess, Some v) \<and>
    tq_reference_ticks a \<le> v \<and> v \<le> tq_reference_ticks b \<and>
    (unat v - unat (tq_reference_ticks a)) * sd \<le> d * rd \<and>
    (d * rd - (unat v - unat (tq_reference_ticks a)) * sd) * 2 ^ 32 < sd * (d + 2 ^ 32)"
proof -
  note c = Calibrate_success [OF assms(1)]
  have sd: "0 < sd" using c assms(5) by (simp add: word_less_nat_alt)
  have sc: "scaled_ticks t s = d * (rd * 2 ^ 32 div sd) div 2 ^ 32"
    using c by (simp add: scaled_ticks_def assms(4,5,6))
  note fp = fixed_point_bounds [OF sd refl sc]
  have dle: "d \<le> sd" using assms(2-5) by (simp add: word_le_nat_alt diff_le_mono)
  have "scaled_ticks t s * sd \<le> sd * rd" using fp(1) mult_le_mono1 [OF dle, of rd] by (rule order_trans)
  then have le: "scaled_ticks t s \<le> rd" using sd by (simp add: mult.commute)
  have r: "unat (tq_reference_ticks a) + rd = unat (tq_reference_ticks b)"
    using c assms(6) by (simp add: word_less_nat_alt)
  define v :: u64 where "v = word_of_nat (unat (tq_reference_ticks a) + scaled_ticks t s)"
  have lt: "unat (tq_reference_ticks a) + scaled_ticks t s < 2 ^ 64"
    using le r unat_lt64 [of "tq_reference_ticks b"] by linarith
  then have v: "unat v = unat (tq_reference_ticks a) + scaled_ticks t s"
    unfolding v_def by (rule unat_of_nat_u64)
  have "ProjectTscTransform t s = Inr v"
    using c lt v assms(2) by (simp add: Project_iff uint_nat [of v])
  moreover have av: "tq_reference_ticks a \<le> v" "v \<le> tq_reference_ticks b"
    using v le r by (simp_all add: word_le_nat_alt)
  ultimately have "ApplyTscTransform (Some t) s (Some x) = (TimeSuccess, Some v)"
    using c by (auto simp: Apply_success_iff max_absorb1)
  then show ?thesis using av fp v by auto
qed

theorem virtual_time_monotone:
  assumes "sorted (map event_time es)"
  shows "sorted (readings t es)"
  by (rule readings_sorted [OF assms])

section \<open>Drift\<close>

lemma DifferenceToSigned_sint:
  assumes "DifferenceToSigned v r = Some d"
  shows "sint d = uint v - uint r"
proof (cases "v \<ge> r")
  case True
  then have d: "d = v - r" "\<not> v - r > kI64Maximum"
    using assms by (simp_all add: DifferenceToSigned_def Let_def split: if_splits)
  have "uint (v - r) = uint v - uint r" using True by (intro uint_minus_simple_alt [THEN iffD1])
  then show ?thesis using d by (simp add: sint_cases word_less_def)
next
  case False
  have u: "uint (r - v) = uint r - uint v" using False by (intro uint_minus_simple_alt [THEN iffD1]) simp
  have lt: "uint v < uint r" using False by (simp add: word_less_def not_le)
  consider "r - v = 0x8000000000000000" "d = kI64Minimum" | "r - v < 0x8000000000000000" "d = - (r - v)"
    using assms False by (auto simp: DifferenceToSigned_def Let_def not_le not_less split: if_splits)
  then show ?thesis
  proof cases
    case 1
    then have "uint r - uint v = 2 ^ 63" using u by simp
    then show ?thesis using 1(2) by (simp add: sint_cases)
  next
    case 2
    have b: "uint r - uint v < 2 ^ 63" using 2(1) u by (simp add: word_less_def)
    have "sint (r - v) = uint r - uint v" using b u by (simp add: sint_cases)
    then have "sint d = signed_take_bit 63 (uint v - uint r)"
      using sint_word_minus [of "r - v"] 2(2) by simp
    then show ?thesis using b lt by (simp add: signed_take_bit_int_eq_self)
  qed
qed

lemma absolute_drift:
  "uint (if sint (d :: i64) < 0 then - (d + 1) + 1 else d) = \<bar>sint d\<bar>"
proof (cases "sint d < 0")
  case True
  then have s: "sint d = uint d - 2 ^ 64" "\<not> uint d < 2 ^ 63" using uint_bounded [of d] by (simp_all add: sint_cases split: if_splits)
  have "uint (- d) = (- uint d) mod 2 ^ 64" using uint_word_ariths(4) [of d] by simp
  also have "\<dots> = (- uint d + 2 ^ 64) mod 2 ^ 64" by (rule mod_add_self2 [symmetric])
  also have "\<dots> = - uint d + 2 ^ 64" using s uint_bounded [of d] by (intro mod_pos_pos_trivial) simp_all
  finally show ?thesis using True s by simp
next
  case False
  then have "uint d < 2 ^ 63" using uint_bounded [of d] by (simp add: sint_cases split: if_splits)
  then show ?thesis using False by (simp add: sint_cases)
qed

theorem observed_drift_exact:
  assumes "ObserveTimeSample (Some t) s r (Some o0) = (code, Some o1)"
    and "code = TimeSuccess \<or> code = TimeDriftExceeded"
  shows "\<exists>v. ApplyTscTransform (Some t) s (Some 0) = (TimeSuccess, Some v) \<and> to_virtual_tsc o1 = v \<and>
    to_generation o1 = tt_generation t \<and> to_status o1 = TimeResultCode_u32 code \<and>
    sint (to_drift_ticks o1) = uint v - uint r \<and>
    (code = TimeSuccess \<longleftrightarrow> \<bar>uint v - uint r\<bar> \<le> uint (tt_max_drift_ticks t))"
proof -
  obtain c v where a: "ApplyTscTransform (Some t) s (Some 0) = (c, v)" by (metis surj_pair)
  have valid: "IsTscTransformValid (Some t)"
    by (rule ccontr) (use assms in \<open>auto simp: ObserveTimeSample_def\<close>)
  have c: "c = TimeSuccess"
  proof (rule ccontr)
    assume n: "c \<noteq> TimeSuccess"
    then have "code = c" using assms(1) a valid by (simp add: ObserveTimeSample_def Let_def)
    moreover have "c \<noteq> TimeDriftExceeded"
      using a by (auto simp: ApplyTscTransform_def ProjectTscTransform_def Let_def split: if_splits sum.splits option.splits)
    ultimately show False using assms(2) n by simp
  qed
  obtain w where w: "v = Some w"
    using a c by (auto simp: ApplyTscTransform_def Let_def split: if_splits sum.splits)
  obtain d where d: "DifferenceToSigned w r = Some d"
    using assms a c w valid by (cases "DifferenceToSigned w r") (auto simp: ObserveTimeSample_def Let_def)
  let ?abs = "if sint d < 0 then - (d + 1) + 1 else d"
  have le: "?abs > tt_max_drift_ticks t \<longleftrightarrow> \<bar>uint w - uint r\<bar> > uint (tt_max_drift_ticks t)"
    using absolute_drift [of d] DifferenceToSigned_sint [OF d] by (simp only: word_less_def)
  have "code = (if ?abs > tt_max_drift_ticks t then TimeDriftExceeded else TimeSuccess) \<and>
      to_virtual_tsc o1 = w \<and> to_generation o1 = tt_generation t \<and> to_drift_ticks o1 = d \<and>
      to_status o1 = TimeResultCode_u32 code"
    using assms(1) a c w d valid unfolding ObserveTimeSample_def
    by (auto simp: Let_def split: if_splits)
  then show ?thesis using a c w le DifferenceToSigned_sint [OF d] by (auto simp: not_less)
qed

section \<open>Sample inputs\<close>

definition sample_first :: TscQpcSample where
  "sample_first = \<lparr>tq_source_tsc = 1000, tq_reference_ticks = 50\<rparr>"

definition sample_second :: TscQpcSample where
  "sample_second = \<lparr>tq_source_tsc = 31000, tq_reference_ticks = 10050\<rparr>"

definition sample_transform :: TscTransform where
  "sample_transform = \<lparr>tt_size = 72, tt_version = 1, tt_base_tsc = 1000, tt_base_virtual_tsc = 50,
     tt_scale_q32_32 = 1431655765, tt_offset_ticks = 0, tt_generation = 3, tt_last_virtual_tsc = 50,
     tt_max_drift_ticks = 10, tt_flags = 2, tt_reserved = 0\<rparr>"

lemma sample_calibration:
  "CalibrateTscTransform (Some sample_first) (Some sample_second) 3 10 (Some sample_transform) = (True, Some sample_transform)"
  by (simp add: CalibrateTscTransform_def sample_first_def sample_second_def udiv128_def sample_transform_def)

lemma sample_valid: "IsTscTransformValid (Some sample_transform)"
  by (simp add: IsTscTransformValid_def sample_transform_def IsVersionedSizeValid_def)

lemma sample_reading: "ApplyTscTransform (Some sample_transform) 4000 (Some 0) = (TimeSuccess, Some 1049)"
  unfolding Apply_success_iff
  by (simp add: sample_valid Project_iff scaled_ticks_def, simp add: sample_transform_def,
      rule exI [of _ 1049], simp add: max_def)

theorem calibrated_time_accurate_witness:
  "\<exists>v. ApplyTscTransform (Some sample_transform) 16000 (Some 0) = (TimeSuccess, Some v) \<and>
     50 \<le> v \<and> v \<le> 10050 \<and> (unat v - 50) * 30000 \<le> 15000 * 10000 \<and>
     (15000 * 10000 - (unat v - 50) * 30000) * 2 ^ 32 < 30000 * (15000 + 2 ^ 32)"
  using calibrated_time_accurate [OF sample_calibration, of 16000 15000 30000 10000 0]
  by (simp add: sample_first_def sample_second_def)

theorem virtual_time_monotone_witness:
  "reading sample_transform 4000 = Some 1049 \<and>
   sorted (readings sample_transform [Read 4000, Rebase 7000 9000, Read 7000, Read 31000])"
proof
  show "reading sample_transform 4000 = Some 1049" by (simp add: reading_iff sample_reading)
  show "sorted (readings sample_transform [Read 4000, Rebase 7000 9000, Read 7000, Read 31000])"
    by (rule virtual_time_monotone) simp
qed

theorem observed_drift_exact_witness:
  "\<exists>o1. ObserveTimeSample (Some sample_transform) 4000 1045 (Some zero_observation) = (TimeSuccess, Some o1) \<and>
     sint (to_drift_ticks o1) = 4"
proof -
  obtain o1 where e: "ObserveTimeSample (Some sample_transform) 4000 1045 (Some zero_observation) = (TimeSuccess, Some o1)"
    by (simp add: ObserveTimeSample_def sample_valid sample_reading Let_def DifferenceToSigned_def)
      (simp add: sample_transform_def)
  then show ?thesis using observed_drift_exact [OF e] sample_reading by (intro exI [of _ o1]) simp
qed

end
