(* ===== verification/BootModel.thy ===== *)
theory BootModel
  imports KnhvAbi
begin

text \<open>
  The boot contract of \<^verbatim>\<open>src/src/boot/boot_contract.cpp\<close> and
  \<^verbatim>\<open>src/src/include/knhv_boot_contract.h\<close>: who owns the hardware from the start of the boot
  hypervisor to the hand-over to Windows, and the evidence that is published about it.
  \<^verbatim>\<open>sizeof\<close> follows the layout of the structures: 32 bytes for the context and the evidence, 72
  for the contract.
\<close>

datatype BootL0State = PreL0 | RootActive | WindowsHandoff | BootReady | BootRecovery

record BootContext =
  bc_version :: u32
  bc_size :: u32
  bc_logical_processors :: u32
  bc_manifest_valid :: u32
  bc_physical_vmx_ready :: u32
  bc_external_owner :: u32
  bc_windows_handoff_ready :: u32
  bc_reserved :: u32

record BootOwnerToken =
  bo_nonce :: u64
  bo_generation :: u32
  bo_owner_count :: u32
  bo_active_processors :: u32
  bo_reserved :: u32

record BootEvidence =
  be_version :: u32
  be_size :: u32
  be_state :: BootL0State
  be_boot_generation :: u32
  be_owner_generation :: u32
  be_owner_count :: u32
  be_active_processors :: u32
  be_last_status :: HvStatus

record BootL0Contract =
  bl_version :: u32
  bl_size :: u32
  bl_state :: BootL0State
  bl_generation :: u32
  bl_owner :: BootOwnerToken
  bl_evidence :: BootEvidence

definition ValidContext :: "BootContext option \<Rightarrow> bool" where
  "ValidContext context = (case context of None \<Rightarrow> False | Some c \<Rightarrow>
     IsVersionedBufferValid (bc_version c) (bc_size c) 32 \<and> bc_reserved c = 0 \<and>
     bc_logical_processors c \<noteq> 0 \<and> bc_logical_processors c \<le> 4096)"

definition ValidContract :: "BootL0Contract option \<Rightarrow> bool" where
  "ValidContract contract = (case contract of None \<Rightarrow> False | Some b \<Rightarrow>
     IsVersionedBufferValid (bl_version b) (bl_size b) 72)"

definition PublishEvidence :: "BootL0Contract \<Rightarrow> HvStatus \<Rightarrow> BootL0Contract" where
  "PublishEvidence b status = b\<lparr>bl_evidence :=
     \<lparr>be_version = kAbiVersion, be_size = 32, be_state = bl_state b,
      be_boot_generation = bl_generation b, be_owner_generation = bo_generation (bl_owner b),
      be_owner_count = bo_owner_count (bl_owner b),
      be_active_processors = bo_active_processors (bl_owner b), be_last_status = status\<rparr>\<rparr>"

definition InvalidateOwner :: "BootL0Contract \<Rightarrow> BootL0Contract" where
  "InvalidateOwner b = b\<lparr>bl_owner := \<lparr>bo_nonce = 0, bo_generation = 0, bo_owner_count = 0,
     bo_active_processors = 0, bo_reserved = 0\<rparr>\<rparr>"

definition InitializeBootL0Contract :: "BootL0Contract option \<Rightarrow> BootL0Contract option" where
  "InitializeBootL0Contract contract = (case contract of None \<Rightarrow> None
     | Some _ \<Rightarrow> Some (PublishEvidence (InvalidateOwner
         \<lparr>bl_version = kAbiVersion, bl_size = 72, bl_state = PreL0, bl_generation = 1,
          bl_owner = \<lparr>bo_nonce = 0, bo_generation = 0, bo_owner_count = 0,
                      bo_active_processors = 0, bo_reserved = 0\<rparr>,
          bl_evidence = \<lparr>be_version = 0, be_size = 0, be_state = PreL0, be_boot_generation = 0,
                         be_owner_generation = 0, be_owner_count = 0, be_active_processors = 0,
                         be_last_status = Success\<rparr>\<rparr>) Success))"

definition StartBootL0 ::
    "BootL0Contract option \<Rightarrow> BootContext option \<Rightarrow> HvStatus \<times> BootL0Contract option" where
  "StartBootL0 contract context =
     (if \<not> ValidContract contract \<or> \<not> ValidContext context then (InvalidParameter, contract)
      else let b = the contract; c = the context in
        if bl_state b = RootActive \<or> bl_state b = WindowsHandoff \<or> bl_state b = BootReady
        then (Busy, Some (PublishEvidence b Busy))
        else if bc_external_owner c \<noteq> 0
        then (HardwareOwnerConflict,
              Some (PublishEvidence (InvalidateOwner (b\<lparr>bl_state := BootRecovery\<rparr>)) HardwareOwnerConflict))
        else if bc_manifest_valid c = 0 \<or> bc_physical_vmx_ready c = 0
        then let status = (if bc_manifest_valid c = 0 then BootHandoffFailed else HardwareUnsupported)
             in (status, Some (PublishEvidence (InvalidateOwner (b\<lparr>bl_state := BootRecovery\<rparr>)) status))
        else let g = bl_generation b + 1; g' = (if g = 0 then 1 else g)
             in (Success, Some (PublishEvidence (b\<lparr>bl_generation := g', bl_state := RootActive,
                  bl_owner := \<lparr>bo_nonce = push_bit 32 (ucast g') OR ucast (bc_logical_processors c),
                    bo_generation = g', bo_owner_count = 1,
                    bo_active_processors = bc_logical_processors c, bo_reserved = 0\<rparr>\<rparr>) Success)))"

definition HandoffWindows ::
    "BootL0Contract option \<Rightarrow> BootContext option \<Rightarrow> HvStatus \<times> BootL0Contract option" where
  "HandoffWindows contract context =
     (if \<not> ValidContract contract \<or> \<not> ValidContext context then (InvalidParameter, contract)
      else let b = the contract; c = the context in
        if bl_state b \<noteq> RootActive \<or> bo_owner_count (bl_owner b) \<noteq> 1 \<or>
           bo_active_processors (bl_owner b) \<noteq> bc_logical_processors c
        then (RecoveryRequired, Some (PublishEvidence b RecoveryRequired))
        else if bc_windows_handoff_ready c = 0
        then (BootHandoffFailed,
              Some (PublishEvidence (InvalidateOwner (b\<lparr>bl_state := BootRecovery\<rparr>)) BootHandoffFailed))
        else let handed = PublishEvidence (b\<lparr>bl_state := WindowsHandoff\<rparr>) Success
             in (Success, Some (PublishEvidence (handed\<lparr>bl_state := BootReady\<rparr>) Success)))"

definition RecoverBootL0 :: "BootL0Contract option \<Rightarrow> HvStatus \<Rightarrow> HvStatus \<times> BootL0Contract option" where
  "RecoverBootL0 contract reason =
     (if \<not> ValidContract contract then (InvalidParameter, contract)
      else let b = the contract;
               b' = PublishEvidence (InvalidateOwner (b\<lparr>bl_state := BootRecovery\<rparr>))
                      (if reason = Success then RecoveryRequired else reason)
           in (be_last_status (bl_evidence b'), Some b'))"

definition StopBootL0 :: "BootL0Contract option \<Rightarrow> HvStatus \<times> BootL0Contract option" where
  "StopBootL0 contract =
     (if \<not> ValidContract contract then (InvalidParameter, contract)
      else let b = the contract in
        if bl_state b \<noteq> BootReady \<and> bl_state b \<noteq> RootActive \<and> bl_state b \<noteq> WindowsHandoff
        then (if bl_state b = PreL0 then Success else RecoveryRequired, contract)
        else (Success, Some (PublishEvidence ((InvalidateOwner b)\<lparr>bl_state := PreL0\<rparr>) Success)))"

section \<open>The boot contract under all operations\<close>

inductive boot_step :: "BootL0Contract \<Rightarrow> HvStatus \<Rightarrow> BootL0Contract \<Rightarrow> bool" where
  boot_start: "StartBootL0 (Some b) c = (st, Some b') \<Longrightarrow> boot_step b st b'"
| boot_handoff: "HandoffWindows (Some b) c = (st, Some b') \<Longrightarrow> boot_step b st b'"
| boot_recover: "RecoverBootL0 (Some b) reason = (st, Some b') \<Longrightarrow> boot_step b st b'"
| boot_stop: "StopBootL0 (Some b) = (st, Some b') \<Longrightarrow> boot_step b st b'"

definition owner_active :: "BootL0Contract \<Rightarrow> bool" where
  "owner_active b \<longleftrightarrow> bo_owner_count (bl_owner b) = 1 \<and> bo_generation (bl_owner b) = bl_generation b \<and>
     bo_active_processors (bl_owner b) \<noteq> 0 \<and> bo_active_processors (bl_owner b) \<le> 4096 \<and>
     bo_nonce (bl_owner b) =
       push_bit 32 (ucast (bl_generation b)) OR ucast (bo_active_processors (bl_owner b))"

definition owner_absent :: "BootL0Contract \<Rightarrow> bool" where
  "owner_absent b \<longleftrightarrow> bl_owner b = \<lparr>bo_nonce = 0, bo_generation = 0, bo_owner_count = 0,
     bo_active_processors = 0, bo_reserved = 0\<rparr>"

definition evidence_true :: "BootL0Contract \<Rightarrow> bool" where
  "evidence_true b \<longleftrightarrow> be_state (bl_evidence b) = bl_state b \<and>
     be_boot_generation (bl_evidence b) = bl_generation b \<and>
     be_owner_generation (bl_evidence b) = bo_generation (bl_owner b) \<and>
     be_owner_count (bl_evidence b) = bo_owner_count (bl_owner b) \<and>
     be_active_processors (bl_evidence b) = bo_active_processors (bl_owner b)"

definition boot_inv :: "BootL0Contract \<Rightarrow> bool" where
  "boot_inv b \<longleftrightarrow> ValidContract (Some b) \<and> bl_generation b \<noteq> 0 \<and> evidence_true b \<and>
     bl_state b \<noteq> WindowsHandoff \<and>
     (if bl_state b = RootActive \<or> bl_state b = BootReady then owner_active b else owner_absent b)"

lemma publish_frame [simp]:
  "owner_active (PublishEvidence b st) = owner_active b" "owner_absent (PublishEvidence b st) = owner_absent b"
  "bl_state (PublishEvidence b st) = bl_state b" "bl_generation (PublishEvidence b st) = bl_generation b"
  "evidence_true (PublishEvidence b st)" "ValidContract (Some (PublishEvidence b st)) = ValidContract (Some b)"
  by (simp_all add: PublishEvidence_def owner_active_def owner_absent_def evidence_true_def ValidContract_def)

lemma publish_inv:
  assumes "ValidContract (Some b)" and "bl_generation b \<noteq> 0" and "bl_state b \<noteq> WindowsHandoff"
    and "if bl_state b = RootActive \<or> bl_state b = BootReady then owner_active b else owner_absent b"
  shows "boot_inv (PublishEvidence b st)"
  using assms by (simp add: boot_inv_def)

lemma invalidate_inv:
  assumes "boot_inv b" and "s = PreL0 \<or> s = BootRecovery"
  shows "boot_inv (PublishEvidence (InvalidateOwner (b\<lparr>bl_state := s\<rparr>)) st)"
  by (rule publish_inv)
    (use assms in \<open>auto simp: boot_inv_def InvalidateOwner_def ValidContract_def owner_absent_def\<close>)

lemma invalidate_state: "(InvalidateOwner b)\<lparr>bl_state := s\<rparr> = InvalidateOwner (b\<lparr>bl_state := s\<rparr>)"
  by (simp add: InvalidateOwner_def)

lemma publish_same_inv: "boot_inv b \<Longrightarrow> boot_inv (PublishEvidence b st)"
  by (rule publish_inv) (auto simp: boot_inv_def)

lemma start_inv:
  assumes "StartBootL0 (Some b) c = (st, Some b')" and "boot_inv b"
  shows "boot_inv b'"
proof (cases "st = Success \<and> ValidContext c")
  case True
  define g where "g = (if bl_generation b + 1 = 0 then 1 else bl_generation b + 1)"
  have g0: "g \<noteq> 0" by (simp add: g_def)
  have b': "b' = PublishEvidence (b\<lparr>bl_generation := g, bl_state := RootActive,
                  bl_owner := \<lparr>bo_nonce = push_bit 32 (ucast g) OR ucast (bc_logical_processors (the c)),
                    bo_generation = g, bo_owner_count = 1,
                    bo_active_processors = bc_logical_processors (the c), bo_reserved = 0\<rparr>\<rparr>) Success"
    using assms True by (simp add: StartBootL0_def boot_inv_def Let_def g_def split: if_splits)
  show ?thesis
    unfolding b' by (rule publish_inv)
      (use assms(2) True g0 in \<open>auto simp: boot_inv_def ValidContract_def owner_active_def ValidContext_def split: option.splits\<close>)
next
  case False
  then have "b' = b \<or> b' = PublishEvidence b Busy \<or>
      (\<exists>s. b' = PublishEvidence (InvalidateOwner (b\<lparr>bl_state := BootRecovery\<rparr>)) s)"
    using assms by (auto simp: StartBootL0_def Let_def split: if_splits)
  then show ?thesis
    using assms(2) publish_same_inv invalidate_inv by auto
qed

lemma handoff_inv:
  assumes "HandoffWindows (Some b) c = (st, Some b')" and "boot_inv b"
  shows "boot_inv b'"
proof (cases "st = Success")
  case True
  have rest: "bl_state b = RootActive"
    and b': "b' = PublishEvidence ((PublishEvidence (b\<lparr>bl_state := WindowsHandoff\<rparr>) Success)\<lparr>bl_state := BootReady\<rparr>) Success"
    using assms(1) True by (simp_all add: HandoffWindows_def Let_def split: if_splits)
  show ?thesis
    unfolding b' by (rule publish_inv)
      (use assms(2) rest in \<open>simp_all add: boot_inv_def PublishEvidence_def ValidContract_def owner_active_def\<close>)
next
  case False
  then have "b' = b \<or> (\<exists>s. b' = PublishEvidence b s) \<or>
      (\<exists>s. b' = PublishEvidence (InvalidateOwner (b\<lparr>bl_state := BootRecovery\<rparr>)) s)"
    using assms(1) by (auto simp: HandoffWindows_def Let_def split: if_splits)
  then show ?thesis
    using assms(2) publish_same_inv invalidate_inv by auto
qed

interpretation boot: invariant_machine "\<lambda>b b'. \<exists>st. boot_step b st b'" boot_inv
proof
  fix b b' assume "\<exists>st. boot_step b st b'" and inv: "boot_inv b"
  then obtain st where "boot_step b st b'" by blast
  then show "boot_inv b'"
  proof cases
    case (boot_start c)
    then show ?thesis using start_inv inv by blast
  next
    case (boot_handoff c)
    then show ?thesis using handoff_inv inv by blast
  next
    case (boot_recover reason)
    then show ?thesis
      using inv invalidate_inv [OF inv] by (auto simp: RecoverBootL0_def Let_def split: if_splits)
  next
    case boot_stop
    then show ?thesis
      using inv invalidate_inv [OF inv] by (auto simp: StopBootL0_def Let_def invalidate_state split: if_splits)
  qed
qed

lemma initial_boot_inv: "boot_inv (the (InitializeBootL0Contract (Some b)))"
  by (simp add: InitializeBootL0Contract_def, rule publish_inv)
    (simp_all add: ValidContract_def IsVersionedBufferValid_def owner_absent_def InvalidateOwner_def)

lemma start_success_iff:
  assumes "boot_inv b"
  shows "fst (StartBootL0 (Some b) (Some c)) = Success \<longleftrightarrow>
    ValidContext (Some c) \<and> (bl_state b = PreL0 \<or> bl_state b = BootRecovery) \<and> bc_external_owner c = 0 \<and>
    bc_manifest_valid c \<noteq> 0 \<and> bc_physical_vmx_ready c \<noteq> 0"
  using assms by (cases "bl_state b") (auto simp: StartBootL0_def boot_inv_def Let_def)

text \<open>
C26: In every state the boot contract reaches, an owner token is active exactly in the root-
active and boot-ready states, the published evidence agrees with the state, the generation is
never zero, and a start succeeds exactly for a valid context without an external owner, with a
valid manifest and ready hardware, from the initial or the recovery state.
\<close>

theorem boot_single_owner:
  assumes "InitializeBootL0Contract (Some b0) = Some b1" and "(\<lambda>b b'. \<exists>st. boot_step b st b')\<^sup>*\<^sup>* b1 b"
  shows "bl_generation b \<noteq> 0 \<and> bl_state b \<noteq> WindowsHandoff \<and>
    (if bl_state b = RootActive \<or> bl_state b = BootReady then owner_active b else owner_absent b) \<and>
    evidence_true b \<and>
    (\<forall>c. fst (StartBootL0 (Some b) (Some c)) = Success \<longleftrightarrow>
       ValidContext (Some c) \<and> (bl_state b = PreL0 \<or> bl_state b = BootRecovery) \<and>
       bc_external_owner c = 0 \<and> bc_manifest_valid c \<noteq> 0 \<and> bc_physical_vmx_ready c \<noteq> 0)"
proof -
  have "boot_inv b1" using initial_boot_inv [of b0] assms(1) by simp
  then have "boot_inv b" using boot.star_inv [OF assms(2)] by blast
  then show ?thesis using start_success_iff by (simp add: boot_inv_def)
qed

definition sample_boot_context :: BootContext where
  "sample_boot_context = \<lparr>bc_version = 1, bc_size = 32, bc_logical_processors = 8, bc_manifest_valid = 1,
     bc_physical_vmx_ready = 1, bc_external_owner = 0, bc_windows_handoff_ready = 1, bc_reserved = 0\<rparr>"

definition sample_boot_contract :: BootL0Contract where
  "sample_boot_contract = the (InitializeBootL0Contract (Some \<lparr>bl_version = 0, bl_size = 0, bl_state = PreL0, bl_generation = 0,
     bl_owner = \<lparr>bo_nonce = 0, bo_generation = 0, bo_owner_count = 0, bo_active_processors = 0, bo_reserved = 0\<rparr>,
     bl_evidence = \<lparr>be_version = 0, be_size = 0, be_state = PreL0, be_boot_generation = 0, be_owner_generation = 0,
       be_owner_count = 0, be_active_processors = 0, be_last_status = Success\<rparr>\<rparr>))"

theorem boot_single_owner_witness:
  "\<exists>b. (\<lambda>b b'. \<exists>st. boot_step b st b')\<^sup>*\<^sup>* sample_boot_contract b \<and> bl_state b = BootReady \<and> owner_active b \<and> evidence_true b"
proof -
  define b1 where "b1 = the (snd (StartBootL0 (Some sample_boot_contract) (Some sample_boot_context)))"
  define b2 where "b2 = the (snd (HandoffWindows (Some b1) (Some sample_boot_context)))"
  have s: "StartBootL0 (Some sample_boot_contract) (Some sample_boot_context) = (Success, Some b1)"
    "HandoffWindows (Some b1) (Some sample_boot_context) = (Success, Some b2)" "bl_state b2 = BootReady"
    unfolding b1_def b2_def by code_simp+
  have run: "(\<lambda>b b'. \<exists>st. boot_step b st b')\<^sup>*\<^sup>* sample_boot_contract b2"
    using boot_start [OF s(1)] boot_handoff [OF s(2)]
    by (intro rtranclp.rtrancl_into_rtrancl [OF r_into_rtranclp]) blast+
  have i: "InitializeBootL0Contract (Some sample_boot_contract) = Some sample_boot_contract" by code_simp
  show ?thesis
    using boot_single_owner [OF i run] run s(3) by (intro exI [of _ b2]) simp
qed

end
