(* ===== verification/ExitModel.thy ===== *)
theory ExitModel
  imports KnhvPrelude
begin

text \<open>
  The exit policy of \<^verbatim>\<open>src/src/exit/exit_model.cpp\<close> and \<^verbatim>\<open>src/src/include/knhv_exit.h\<close>: the class
  of a VM exit reason, validation of records and policies, and the decision what to do with an
  exit: resume the guest, reflect it to L1, inject an undefined-instruction fault, quarantine the
  virtual CPU or stop the host.
\<close>

section \<open>Constants and enumerations\<close>

abbreviation kExitContractVersion :: u32 where "kExitContractVersion \<equiv> 1"
abbreviation kExitMaxStructSize :: u32 where "kExitMaxStructSize \<equiv> 4096"
abbreviation kExitMaxInstructionLength :: u32 where "kExitMaxInstructionLength \<equiv> 15"
abbreviation kExitPolicyVirtualizeCpuid :: u32 where "kExitPolicyVirtualizeCpuid \<equiv> 1"
abbreviation kExitPolicyVirtualizeTsc :: u32 where "kExitPolicyVirtualizeTsc \<equiv> 2"
abbreviation kExitPolicyVirtualizeMsr :: u32 where "kExitPolicyVirtualizeMsr \<equiv> 4"
abbreviation kExitPolicyReflectVmx :: u32 where "kExitPolicyReflectVmx \<equiv> 8"
abbreviation kExitPolicyReflectEpt :: u32 where "kExitPolicyReflectEpt \<equiv> 16"
abbreviation kExitPolicyAllowIo :: u32 where "kExitPolicyAllowIo \<equiv> 32"
abbreviation kExitKnownPolicyMask :: u32 where "kExitKnownPolicyMask \<equiv> 63"
abbreviation kExitRecordHostOwned :: u32 where "kExitRecordHostOwned \<equiv> 1"
abbreviation kExitRecordEntryFailure :: u32 where "kExitRecordEntryFailure \<equiv> 2"
abbreviation kExitKnownRecordMask :: u32 where "kExitKnownRecordMask \<equiv> 3"
abbreviation kExitClassInterrupt :: u32 where "kExitClassInterrupt \<equiv> 1"
abbreviation kExitClassNestedVmx :: u32 where "kExitClassNestedVmx \<equiv> 2"
abbreviation kExitClassCpuControl :: u32 where "kExitClassCpuControl \<equiv> 4"
abbreviation kExitClassTime :: u32 where "kExitClassTime \<equiv> 8"
abbreviation kExitClassMsr :: u32 where "kExitClassMsr \<equiv> 16"
abbreviation kExitClassIo :: u32 where "kExitClassIo \<equiv> 32"
abbreviation kExitClassMemory :: u32 where "kExitClassMemory \<equiv> 64"
abbreviation kExitClassGuestState :: u32 where "kExitClassGuestState \<equiv> 128"
abbreviation kExitClassFatal :: u32 where "kExitClassFatal \<equiv> 256"
abbreviation kExitKnownClassMask :: u32 where "kExitKnownClassMask \<equiv> 511"

datatype ExitReason = RExceptionOrNmi | RExternalInterrupt | RTripleFault | RInterruptWindow | RNmiWindow | RCpuid
    | RHlt | RInvlpg | RRdpmc | RRdtsc | RVmcall | RVmclear | RVmlaunch | RVmptrld | RVmptrst
    | RVmread | RVmresume | RVmwrite | RVmxoff | RVmxon | RCrAccess | RIoInstruction | RRdmsr
    | RWrmsr | RInvalidGuestState | RMsrLoading | RMwait | RMonitorTrap | RMonitor | RPause
    | RMachineCheck | REptViolation | REptMisconfiguration | RInvept | RRdtscp | RInvvpid
    | RXsetbv | RApicWrite | RInvpcid | RVmfunc | RXsaves | RXrstors

fun ExitReason_u32 :: "ExitReason \<Rightarrow> u32" where
  "ExitReason_u32 RExceptionOrNmi = 0"
| "ExitReason_u32 RExternalInterrupt = 1"
| "ExitReason_u32 RTripleFault = 2"
| "ExitReason_u32 RInterruptWindow = 7"
| "ExitReason_u32 RNmiWindow = 8"
| "ExitReason_u32 RCpuid = 10"
| "ExitReason_u32 RHlt = 12"
| "ExitReason_u32 RInvlpg = 14"
| "ExitReason_u32 RRdpmc = 15"
| "ExitReason_u32 RRdtsc = 16"
| "ExitReason_u32 RVmcall = 18"
| "ExitReason_u32 RVmclear = 19"
| "ExitReason_u32 RVmlaunch = 20"
| "ExitReason_u32 RVmptrld = 21"
| "ExitReason_u32 RVmptrst = 22"
| "ExitReason_u32 RVmread = 23"
| "ExitReason_u32 RVmresume = 24"
| "ExitReason_u32 RVmwrite = 25"
| "ExitReason_u32 RVmxoff = 26"
| "ExitReason_u32 RVmxon = 27"
| "ExitReason_u32 RCrAccess = 28"
| "ExitReason_u32 RIoInstruction = 30"
| "ExitReason_u32 RRdmsr = 31"
| "ExitReason_u32 RWrmsr = 32"
| "ExitReason_u32 RInvalidGuestState = 33"
| "ExitReason_u32 RMsrLoading = 34"
| "ExitReason_u32 RMwait = 36"
| "ExitReason_u32 RMonitorTrap = 37"
| "ExitReason_u32 RMonitor = 39"
| "ExitReason_u32 RPause = 40"
| "ExitReason_u32 RMachineCheck = 41"
| "ExitReason_u32 REptViolation = 48"
| "ExitReason_u32 REptMisconfiguration = 49"
| "ExitReason_u32 RInvept = 50"
| "ExitReason_u32 RRdtscp = 51"
| "ExitReason_u32 RInvvpid = 53"
| "ExitReason_u32 RXsetbv = 55"
| "ExitReason_u32 RApicWrite = 56"
| "ExitReason_u32 RInvpcid = 58"
| "ExitReason_u32 RVmfunc = 59"
| "ExitReason_u32 RXsaves = 63"
| "ExitReason_u32 RXrstors = 64"

datatype ExitClass = ClassUnknown | ClassInterrupt | ClassNestedVmx | ClassCpuControl | ClassTime
  | ClassMsr | ClassIo | ClassMemory | ClassGuestState | ClassFatal

datatype ExitAction = ResumeGuest | ReflectToL1 | InjectUndefinedInstruction
  | InjectGeneralProtection | QuarantineVcpu | FatalHost

fun ExitAction_u32 :: "ExitAction \<Rightarrow> u32" where
  "ExitAction_u32 ResumeGuest = 0"
| "ExitAction_u32 ReflectToL1 = 1"
| "ExitAction_u32 InjectUndefinedInstruction = 2"
| "ExitAction_u32 InjectGeneralProtection = 3"
| "ExitAction_u32 QuarantineVcpu = 4"
| "ExitAction_u32 FatalHost = 5"

datatype ExitDecisionStatus = ExitSuccess | ExitInvalidParameter | ExitGenerationMismatch
  | ExitUnsupportedReason | ExitQuarantineRequired

fun ExitDecisionStatus_u32 :: "ExitDecisionStatus \<Rightarrow> u32" where
  "ExitDecisionStatus_u32 ExitSuccess = 0"
| "ExitDecisionStatus_u32 ExitInvalidParameter = 1"
| "ExitDecisionStatus_u32 ExitGenerationMismatch = 2"
| "ExitDecisionStatus_u32 ExitUnsupportedReason = 3"
| "ExitDecisionStatus_u32 ExitQuarantineRequired = 4"

section \<open>Structures\<close>

record ExitPolicy =
  xp_size :: u32
  xp_version :: u32
  xp_level :: u32
  xp_flags :: u32
  xp_allowed_classes :: u32
  xp_max_instruction_length :: u32
  xp_generation :: u64
  xp_reserved :: u64

record ExitRecord =
  xr_size :: u32
  xr_version :: u32
  xr_reason :: u32
  xr_instruction_length :: u32
  xr_flags :: u32
  xr_reserved :: u32
  xr_qualification :: u64
  xr_guest_linear :: u64
  xr_guest_physical :: u64
  xr_guest_rip :: u64
  xr_generation :: u64

record ExitDecision =
  xd_size :: u32
  xd_version :: u32
  xd_status :: u32
  xd_action :: u32
  xd_reason :: u32
  xd_exception_vector :: u32
  xd_instruction_length :: u32
  xd_reserved :: u32
  xd_generation :: u64

abbreviation exit_versioned :: "u32 \<Rightarrow> u32 \<Rightarrow> u32 \<Rightarrow> bool" where
  "exit_versioned \<equiv> IsVersionedSizeValid kExitContractVersion kExitMaxStructSize"

section \<open>Validation\<close>

definition IsLinearBitsValid :: "u32 \<Rightarrow> bool" where
  "IsLinearBitsValid bits \<longleftrightarrow> bits \<ge> 48 \<and> bits \<le> 63"

definition IsPhysicalBitsValid :: "u32 \<Rightarrow> bool" where
  "IsPhysicalBitsValid bits \<longleftrightarrow> bits \<ge> 12 \<and> bits \<le> 52"

definition ExitIsCanonical :: "u64 \<Rightarrow> u32 \<Rightarrow> bool" where
  "ExitIsCanonical v bits =
     (if \<not> IsLinearBitsValid bits then False
      else let low_mask = push_bit (unat bits) 1 - 1;
               sign_bit = push_bit (unat (bits - 1)) 1;
               upper = v AND NOT low_mask
           in if v AND sign_bit = 0 then upper = 0 else upper = NOT low_mask)"

fun ClassBit :: "ExitClass \<Rightarrow> u32" where
  "ClassBit ClassInterrupt = kExitClassInterrupt"
| "ClassBit ClassNestedVmx = kExitClassNestedVmx"
| "ClassBit ClassCpuControl = kExitClassCpuControl"
| "ClassBit ClassTime = kExitClassTime"
| "ClassBit ClassMsr = kExitClassMsr"
| "ClassBit ClassIo = kExitClassIo"
| "ClassBit ClassMemory = kExitClassMemory"
| "ClassBit ClassGuestState = kExitClassGuestState"
| "ClassBit ClassFatal = kExitClassFatal"
| "ClassBit ClassUnknown = 0"

definition IsVmInstructionReason :: "u32 \<Rightarrow> bool" where
  "IsVmInstructionReason reason \<longleftrightarrow>
     reason \<ge> ExitReason_u32 RVmcall \<and> reason \<le> ExitReason_u32 RVmxon"

definition PolicyHandlesClass :: "ExitPolicy \<Rightarrow> ExitClass \<Rightarrow> bool" where
  "PolicyHandlesClass policy exit_class \<longleftrightarrow> xp_allowed_classes policy AND ClassBit exit_class \<noteq> 0"

definition ExitInitializeDecision :: "ExitRecord option \<Rightarrow> ExitDecision" where
  "ExitInitializeDecision record =
     \<lparr>xd_size = 40, xd_version = kExitContractVersion, xd_status = 0, xd_action = 0,
      xd_reason = (case record of None \<Rightarrow> 0 | Some r \<Rightarrow> xr_reason r), xd_exception_vector = 0,
      xd_instruction_length = (case record of None \<Rightarrow> 0 | Some r \<Rightarrow> xr_instruction_length r),
      xd_reserved = 0, xd_generation = (case record of None \<Rightarrow> 0 | Some r \<Rightarrow> xr_generation r)\<rparr>"

definition SetDecision :: "ExitDecision \<Rightarrow> ExitDecisionStatus \<Rightarrow> ExitAction \<Rightarrow> u32 \<Rightarrow> ExitDecision" where
  "SetDecision d status action exception_vector =
     d\<lparr>xd_status := ExitDecisionStatus_u32 status, xd_action := ExitAction_u32 action,
       xd_exception_vector := exception_vector\<rparr>"

definition reason_in :: "u32 \<Rightarrow> ExitReason list \<Rightarrow> bool" where
  "reason_in reason rs \<longleftrightarrow> reason \<in> set (map ExitReason_u32 rs)"

definition ClassifyExitReason :: "u32 \<Rightarrow> ExitClass" where
  "ClassifyExitReason reason =
     (if reason_in reason [RExceptionOrNmi, RExternalInterrupt, RInterruptWindow, RNmiWindow]
      then ClassInterrupt
      else if reason_in reason [RVmcall, RVmclear, RVmlaunch, RVmptrld, RVmptrst, RVmread, RVmresume,
                RVmwrite, RVmxoff, RVmxon, RInvept, RInvvpid, RVmfunc] then ClassNestedVmx
      else if reason_in reason [RHlt, RCpuid, RInvlpg, RRdpmc, RCrAccess, RMwait, RMonitorTrap, RMonitor,
                RPause, RApicWrite, RInvpcid, RXsetbv] then ClassCpuControl
      else if reason_in reason [RRdtsc, RRdtscp] then ClassTime
      else if reason_in reason [RRdmsr, RWrmsr, RXsaves, RXrstors] then ClassMsr
      else if reason_in reason [RIoInstruction] then ClassIo
      else if reason_in reason [REptViolation, REptMisconfiguration] then ClassMemory
      else if reason_in reason [RInvalidGuestState, RMsrLoading] then ClassGuestState
      else if reason_in reason [RTripleFault, RMachineCheck] then ClassFatal
      else ClassUnknown)"

definition IsExitPolicyValid :: "ExitPolicy option \<Rightarrow> u32 \<Rightarrow> bool" where
  "IsExitPolicyValid policy linear_address_bits = (case policy of None \<Rightarrow> False | Some p \<Rightarrow>
     if \<not> exit_versioned (xp_version p) (xp_size p) 40 \<or>
        xp_level p \<noteq> 1 \<and> xp_level p \<noteq> 2 \<or>
        xp_flags p AND NOT kExitKnownPolicyMask \<noteq> 0 \<or>
        xp_allowed_classes p AND NOT kExitKnownClassMask \<noteq> 0 \<or>
        xp_max_instruction_length p = 0 \<or>
        xp_max_instruction_length p > kExitMaxInstructionLength \<or>
        xp_generation p = 0 \<or> xp_reserved p \<noteq> 0 \<or> \<not> IsLinearBitsValid linear_address_bits then False
     else if xp_flags p AND kExitPolicyVirtualizeTsc \<noteq> 0 \<and> xp_allowed_classes p AND kExitClassTime = 0 then False
     else if xp_flags p AND kExitPolicyVirtualizeCpuid \<noteq> 0 \<and> xp_allowed_classes p AND kExitClassCpuControl = 0 then False
     else if xp_flags p AND kExitPolicyVirtualizeMsr \<noteq> 0 \<and> xp_allowed_classes p AND kExitClassMsr = 0 then False
     else if xp_flags p AND kExitPolicyAllowIo \<noteq> 0 \<and> xp_allowed_classes p AND kExitClassIo = 0 then False
     else if xp_flags p AND kExitPolicyReflectVmx \<noteq> 0 \<and> xp_allowed_classes p AND kExitClassNestedVmx = 0 then False
     else if xp_flags p AND kExitPolicyReflectEpt \<noteq> 0 \<and> xp_allowed_classes p AND kExitClassMemory = 0 then False
     else True)"

definition IsExitRecordValid :: "ExitRecord option \<Rightarrow> u32 \<Rightarrow> u32 \<Rightarrow> bool" where
  "IsExitRecordValid record physical_address_bits linear_address_bits = (case record of None \<Rightarrow> False | Some r \<Rightarrow>
     exit_versioned (xr_version r) (xr_size r) 64 \<and> xr_reason r \<le> 0xFFFF \<and>
     xr_instruction_length r \<le> kExitMaxInstructionLength \<and>
     xr_flags r AND NOT kExitKnownRecordMask = 0 \<and> xr_reserved r = 0 \<and> xr_generation r \<noteq> 0 \<and>
     IsPhysicalBitsValid physical_address_bits \<and> IsLinearBitsValid linear_address_bits \<and>
     drop_bit (unat physical_address_bits) (xr_guest_physical r) = 0 \<and>
     ExitIsCanonical (xr_guest_linear r) linear_address_bits \<and>
     ExitIsCanonical (xr_guest_rip r) linear_address_bits)"

section \<open>The decision\<close>

definition locally_handled :: "ExitPolicy \<Rightarrow> u32 \<Rightarrow> ExitClass \<Rightarrow> bool" where
  "locally_handled p reason exit_class =
     (if reason = ExitReason_u32 RCpuid then xp_flags p AND kExitPolicyVirtualizeCpuid \<noteq> 0
      else if exit_class = ClassTime then xp_flags p AND kExitPolicyVirtualizeTsc \<noteq> 0
      else if exit_class = ClassMsr then xp_flags p AND kExitPolicyVirtualizeMsr \<noteq> 0
      else if exit_class = ClassIo then xp_flags p AND kExitPolicyAllowIo \<noteq> 0
      else if exit_class = ClassMemory then xp_flags p AND kExitPolicyReflectEpt \<noteq> 0
      else if exit_class = ClassCpuControl then True
      else False)"

definition EvaluateExit ::
    "ExitRecord option \<Rightarrow> ExitPolicy option \<Rightarrow> u32 \<Rightarrow> u32 \<Rightarrow> ExitDecision option \<Rightarrow> bool \<times> ExitDecision option" where
  "EvaluateExit record policy physical_address_bits linear_address_bits decision =
     (case decision of None \<Rightarrow> (False, None) | Some _ \<Rightarrow>
        let d = ExitInitializeDecision record in
        if \<not> IsExitRecordValid record physical_address_bits linear_address_bits \<or>
           \<not> IsExitPolicyValid policy linear_address_bits
        then (False, Some (SetDecision d ExitInvalidParameter QuarantineVcpu 0))
        else let r = the record; p = the policy in
          if xr_generation r \<noteq> xp_generation p
          then (True, Some (SetDecision d ExitGenerationMismatch QuarantineVcpu 0))
          else if xr_instruction_length r > xp_max_instruction_length p
          then (True, Some (SetDecision d ExitQuarantineRequired QuarantineVcpu 0))
          else let exit_class = ClassifyExitReason (xr_reason r) in
            if exit_class = ClassUnknown
            then (True, Some (SetDecision d ExitQuarantineRequired QuarantineVcpu 0))
            else if xr_flags r AND kExitRecordEntryFailure \<noteq> 0 \<and> exit_class \<noteq> ClassGuestState
            then (True, Some (SetDecision d ExitQuarantineRequired QuarantineVcpu 0))
            else if exit_class = ClassMemory \<and> xr_flags r AND kExitRecordHostOwned \<noteq> 0
            then (True, Some (SetDecision d ExitQuarantineRequired QuarantineVcpu 0))
            else if xr_reason r = ExitReason_u32 REptMisconfiguration \<or>
                    xr_reason r = ExitReason_u32 RMachineCheck
            then (True, Some (SetDecision d ExitQuarantineRequired FatalHost 0))
            else if exit_class = ClassNestedVmx
            then (True, Some (if xp_flags p AND kExitPolicyReflectVmx \<noteq> 0 \<and> PolicyHandlesClass p exit_class
                              then SetDecision d ExitSuccess ReflectToL1 0
                              else SetDecision d ExitUnsupportedReason InjectUndefinedInstruction 6))
            else if exit_class = ClassInterrupt
            then (True, Some (SetDecision d ExitSuccess ResumeGuest 0))
            else if exit_class = ClassFatal
            then (True, Some (if xr_reason r = ExitReason_u32 RTripleFault \<and> PolicyHandlesClass p exit_class
                              then SetDecision d ExitSuccess ReflectToL1 0
                              else SetDecision d ExitQuarantineRequired QuarantineVcpu 0))
            else if locally_handled p (xr_reason r) exit_class \<and> PolicyHandlesClass p exit_class
            then (True, Some (SetDecision d ExitSuccess
                                (if exit_class = ClassMemory then ReflectToL1 else ResumeGuest) 0))
            else if PolicyHandlesClass p exit_class
            then (True, Some (SetDecision d ExitSuccess ReflectToL1 0))
            else if IsVmInstructionReason (xr_reason r)
            then (True, Some (SetDecision d ExitUnsupportedReason InjectUndefinedInstruction 6))
            else (True, Some (SetDecision d ExitQuarantineRequired QuarantineVcpu 0)))"

section \<open>The decision as a table\<close>

text \<open>Classification is exact: the reasons of each class are those of the processor manual's names.\<close>

lemma classify_misconfiguration: "ClassifyExitReason (ExitReason_u32 REptMisconfiguration) = ClassMemory"
  "ClassifyExitReason (ExitReason_u32 RMachineCheck) = ClassFatal"
  "ClassifyExitReason (ExitReason_u32 RTripleFault) = ClassFatal"
  "ClassifyExitReason (ExitReason_u32 RCpuid) = ClassCpuControl"
  by (simp_all add: ClassifyExitReason_def reason_in_def)

lemma classify_fatal: "ClassifyExitReason r = ClassFatal \<Longrightarrow> r = ExitReason_u32 RTripleFault \<or> r = ExitReason_u32 RMachineCheck"
  by (auto simp: ClassifyExitReason_def reason_in_def split: if_splits)

lemma classify_vm_instruction: "IsVmInstructionReason r \<Longrightarrow> ClassifyExitReason r = ClassNestedVmx"
proof -
  assume "IsVmInstructionReason r"
  then have "18 \<le> unat r" "unat r \<le> 27" by (simp_all add: IsVmInstructionReason_def word_le_nat_alt)
  then have "unat r \<in> {18, 19, 20, 21, 22, 23, 24, 25, 26, 27}" by (simp only: insert_iff empty_iff) arith
  then have "r \<in> {18, 19, 20, 21, 22, 23, 24, 25, 26, 27}" by (auto simp: word_unat_eq_iff)
  then show ?thesis by (auto simp: ClassifyExitReason_def reason_in_def)
qed

text \<open>
  The decision table: exits of another generation, \<open>exit_suspect\<close> and \<open>exit_fatal\<close> ones are never
  handled; of the others the \<open>exit_allowed\<close> ones are. What is handled is resumed when it is an
  interrupt or the policy virtualises it, and reflected to L1 otherwise.
\<close>

definition exit_suspect :: "ExitRecord \<Rightarrow> ExitPolicy \<Rightarrow> bool" where
  "exit_suspect r p \<longleftrightarrow> xr_instruction_length r > xp_max_instruction_length p \<or>
     ClassifyExitReason (xr_reason r) = ClassUnknown \<or>
     bit (xr_flags r) 1 \<and> ClassifyExitReason (xr_reason r) \<noteq> ClassGuestState \<or>
     bit (xr_flags r) 0 \<and> ClassifyExitReason (xr_reason r) = ClassMemory"

definition exit_fatal :: "ExitRecord \<Rightarrow> bool" where
  "exit_fatal r \<longleftrightarrow> xr_reason r = ExitReason_u32 REptMisconfiguration \<or> xr_reason r = ExitReason_u32 RMachineCheck"

definition exit_allowed :: "ExitRecord \<Rightarrow> ExitPolicy \<Rightarrow> bool" where
  "exit_allowed r p = (let c = ClassifyExitReason (xr_reason r) in
     c = ClassInterrupt \<or> PolicyHandlesClass p c \<and> (c = ClassNestedVmx \<longrightarrow> bit (xp_flags p) 3))"

definition exit_resumed :: "ExitRecord \<Rightarrow> ExitPolicy \<Rightarrow> bool" where
  "exit_resumed r p = (case ClassifyExitReason (xr_reason r) of
       ClassInterrupt \<Rightarrow> True
     | ClassCpuControl \<Rightarrow> xr_reason r = ExitReason_u32 RCpuid \<longrightarrow> bit (xp_flags p) 0
     | ClassTime \<Rightarrow> bit (xp_flags p) 1
     | ClassMsr \<Rightarrow> bit (xp_flags p) 2
     | ClassIo \<Rightarrow> bit (xp_flags p) 5
     | _ \<Rightarrow> False)"

lemma flag_bits:
  fixes x :: u32
  shows "x AND 1 \<noteq> 0 \<longleftrightarrow> bit x 0" "x AND 2 \<noteq> 0 \<longleftrightarrow> bit x 1" "x AND 4 \<noteq> 0 \<longleftrightarrow> bit x 2"
    "x AND 8 \<noteq> 0 \<longleftrightarrow> bit x 3" "x AND 32 \<noteq> 0 \<longleftrightarrow> bit x 5"
  using and_exp_eq_0_iff_not_bit [of x 0] and_exp_eq_0_iff_not_bit [of x 1] and_exp_eq_0_iff_not_bit [of x 2]
    and_exp_eq_0_iff_not_bit [of x 3] and_exp_eq_0_iff_not_bit [of x 5] by simp_all

definition decided :: "ExitRecord \<Rightarrow> ExitDecisionStatus \<Rightarrow> ExitAction \<Rightarrow> ExitDecision \<Rightarrow> bool" where
  "decided r st a d \<longleftrightarrow> d = \<lparr>xd_size = 40, xd_version = 1, xd_status = ExitDecisionStatus_u32 st,
     xd_action = ExitAction_u32 a, xd_reason = xr_reason r,
     xd_exception_vector = (if a = InjectUndefinedInstruction then 6 else 0),
     xd_instruction_length = xr_instruction_length r, xd_reserved = 0, xd_generation = xr_generation r\<rparr>"

lemma decided_set:
  "decided r st a (SetDecision (ExitInitializeDecision (Some r)) st a v) \<longleftrightarrow> v = (if a = InjectUndefinedInstruction then 6 else 0)"
  by (auto simp: decided_def SetDecision_def ExitInitializeDecision_def)

lemma Evaluate_valid:
  assumes "IsExitRecordValid (Some r) pb lb" and "IsExitPolicyValid (Some p) lb"
  shows "EvaluateExit (Some r) (Some p) pb lb (Some d0) =
    (let c = ClassifyExitReason (xr_reason r);
         set = (\<lambda>st a v. (True, Some (SetDecision (ExitInitializeDecision (Some r)) st a v)))
     in if xr_generation r \<noteq> xp_generation p then set ExitGenerationMismatch QuarantineVcpu 0
        else if xr_instruction_length r > xp_max_instruction_length p \<or> c = ClassUnknown \<or>
                bit (xr_flags r) 1 \<and> c \<noteq> ClassGuestState \<or> c = ClassMemory \<and> bit (xr_flags r) 0
        then set ExitQuarantineRequired QuarantineVcpu 0
        else if xr_reason r = ExitReason_u32 REptMisconfiguration \<or> xr_reason r = ExitReason_u32 RMachineCheck
        then set ExitQuarantineRequired FatalHost 0
        else if exit_allowed r p
        then set ExitSuccess (if exit_resumed r p then ResumeGuest else ReflectToL1) 0
        else if c = ClassNestedVmx then set ExitUnsupportedReason InjectUndefinedInstruction 6
        else set ExitQuarantineRequired QuarantineVcpu 0)"
proof -
  define c where "c = ClassifyExitReason (xr_reason r)"
  have vm: "c \<noteq> ClassNestedVmx \<Longrightarrow> \<not> IsVmInstructionReason (xr_reason r)"
    using classify_vm_instruction c_def by blast
  have cpuid: "c \<noteq> ClassCpuControl \<Longrightarrow> xr_reason r \<noteq> ExitReason_u32 RCpuid"
    using classify_misconfiguration(4) c_def by auto
  have fatal: "c = ClassFatal \<Longrightarrow> xr_reason r \<noteq> ExitReason_u32 RMachineCheck \<Longrightarrow> xr_reason r = ExitReason_u32 RTripleFault"
    unfolding c_def using classify_fatal [of "xr_reason r"] by blast
  show ?thesis
    unfolding EvaluateExit_def option.case Let_def option.sel exit_allowed_def exit_resumed_def
      c_def [symmetric] flag_bits locally_handled_def
    using assms vm cpuid fatal
    by (cases c) (simp_all del: ExitReason_u32.simps)
qed

text \<open>
C27: EvaluateExit decides every valid exit record under a valid policy as the decision table
says, in this order: a record of another generation quarantines the CPU as a mismatch; an
overlong instruction, an unclassified reason, an entry failure outside the guest-state class and
a memory exit on a host-owned page quarantine it; EPT misconfiguration and machine check are
fatal to the host; an interrupt exit is resumed whatever the policy allows; an exit of another
class that the policy allows is resumed where the policy virtualises it (CPU control other than
CPUID always; CPUID, time, MSR and I/O exits by their flag) and reflected to L1 otherwise,
nested VMX exits only with the reflect flag; of what is left the nested VMX exits inject an
undefined-opcode exception and the rest quarantine the CPU. The decision copies the identity of
the record.
\<close>

theorem exit_decision_exact:
  assumes "IsExitRecordValid (Some r) pb lb" and "IsExitPolicyValid (Some p) lb"
  shows "\<exists>d. EvaluateExit (Some r) (Some p) pb lb (Some d0) = (True, Some d) \<and>
    (if xr_generation r \<noteq> xp_generation p then decided r ExitGenerationMismatch QuarantineVcpu d
     else if exit_suspect r p then decided r ExitQuarantineRequired QuarantineVcpu d
     else if exit_fatal r then decided r ExitQuarantineRequired FatalHost d
     else if exit_allowed r p
     then decided r ExitSuccess (if exit_resumed r p then ResumeGuest else ReflectToL1) d
     else if ClassifyExitReason (xr_reason r) = ClassNestedVmx
     then decided r ExitUnsupportedReason InjectUndefinedInstruction d
     else decided r ExitQuarantineRequired QuarantineVcpu d)"
proof -
  define c where "c = ClassifyExitReason (xr_reason r)"
  have suspect: "exit_suspect r p \<longleftrightarrow> xr_instruction_length r > xp_max_instruction_length p \<or> c = ClassUnknown \<or>
      bit (xr_flags r) 1 \<and> c \<noteq> ClassGuestState \<or> c = ClassMemory \<and> bit (xr_flags r) 0"
    by (auto simp: exit_suspect_def c_def)
  note eq = Evaluate_valid [OF assms, of d0, unfolded Let_def c_def [symmetric], folded suspect exit_fatal_def]
  show ?thesis
    unfolding eq c_def [symmetric] by (simp add: decided_set)
qed

definition sample_policy :: ExitPolicy where
  "sample_policy = \<lparr>xp_size = 40, xp_version = 1, xp_level = 2, xp_flags = 11, xp_allowed_classes = 14,
     xp_max_instruction_length = 15, xp_generation = 7, xp_reserved = 0\<rparr>"

definition sample_record :: "ExitReason \<Rightarrow> ExitRecord" where
  "sample_record reason = \<lparr>xr_size = 64, xr_version = 1, xr_reason = ExitReason_u32 reason,
     xr_instruction_length = 3, xr_flags = 0, xr_reserved = 0, xr_qualification = 0, xr_guest_linear = 0,
     xr_guest_physical = 4096, xr_guest_rip = 0xFFFFF80000001000, xr_generation = 7\<rparr>"

theorem exit_decision_exact_witness:
  "(\<exists>d. EvaluateExit (Some (sample_record RRdtsc)) (Some sample_policy) 39 48 (Some (ExitInitializeDecision None)) = (True, Some d) \<and>
      decided (sample_record RRdtsc) ExitSuccess ResumeGuest d) \<and>
   (\<exists>d. EvaluateExit (Some (sample_record RIoInstruction)) (Some sample_policy) 39 48 (Some (ExitInitializeDecision None)) = (True, Some d) \<and>
      decided (sample_record RIoInstruction) ExitQuarantineRequired QuarantineVcpu d)"
proof -
  have v: "IsExitRecordValid (Some (sample_record RRdtsc)) 39 48" "IsExitPolicyValid (Some sample_policy) 48"
    "IsExitRecordValid (Some (sample_record RIoInstruction)) 39 48"
    by code_simp+
  have t: "\<not> exit_suspect (sample_record RRdtsc) sample_policy" "\<not> exit_fatal (sample_record RRdtsc)"
    "xr_generation (sample_record RRdtsc) = xp_generation sample_policy"
    "xr_generation (sample_record RIoInstruction) = xp_generation sample_policy"
    "\<not> exit_fatal (sample_record RIoInstruction)" "exit_allowed (sample_record RRdtsc) sample_policy"
    "exit_resumed (sample_record RRdtsc) sample_policy"
    "\<not> exit_suspect (sample_record RIoInstruction) sample_policy" "\<not> exit_allowed (sample_record RIoInstruction) sample_policy"
    "ClassifyExitReason (xr_reason (sample_record RIoInstruction)) \<noteq> ClassNestedVmx"
    by code_simp+
  show ?thesis
    using exit_decision_exact [OF v(1,2), of "ExitInitializeDecision None"]
      exit_decision_exact [OF v(3,2), of "ExitInitializeDecision None"] t by simp
qed

end
