(* ===== verification/Vmcs02Model.thy ===== *)
theory Vmcs02Model
  imports NestedInstr EptModel
begin

text \<open>
  The merge of the guest hypervisor's VMCS with the host policy, \<^verbatim>\<open>src/src/nested/vmcs02_model.cpp\<close>
  and \<^verbatim>\<open>src/src/include/knhv_vmcs02.h\<close>: reading a model of the current VMCS out of a nested
  virtual CPU, its validation, the construction of the image that would run L2 and the validation
  of that image.
\<close>

section \<open>Constants, enumerations and structures\<close>

abbreviation kVmcs02ModelVersion :: u32 where "kVmcs02ModelVersion \<equiv> 1"
abbreviation kVmcs02MaxStructSize :: u32 where "kVmcs02MaxStructSize \<equiv> 4096"
abbreviation kVmcs02PrimaryActivateSecondary :: u32 where "kVmcs02PrimaryActivateSecondary \<equiv> 0x80000000"
abbreviation kKnownVmcs12StateMask :: u32 where "kKnownVmcs12StateMask \<equiv> 3"

datatype Vmcs02BuildStatus = BuildSuccess | BuildInvalidParameter | BuildVmcs12Invalid | BuildControlConflict
  | BuildCapabilityMismatch | BuildAddressInvalid | BuildGenerationMismatch

fun Vmcs02BuildStatus_u32 :: "Vmcs02BuildStatus \<Rightarrow> u32" where
  "Vmcs02BuildStatus_u32 BuildSuccess = 0"
| "Vmcs02BuildStatus_u32 BuildInvalidParameter = 1"
| "Vmcs02BuildStatus_u32 BuildVmcs12Invalid = 2"
| "Vmcs02BuildStatus_u32 BuildControlConflict = 3"
| "Vmcs02BuildStatus_u32 BuildCapabilityMismatch = 4"
| "Vmcs02BuildStatus_u32 BuildAddressInvalid = 5"
| "Vmcs02BuildStatus_u32 BuildGenerationMismatch = 6"

fun Vmcs12State_u32 :: "Vmcs12State \<Rightarrow> u32" where
  "Vmcs12State_u32 VmcsClear = 0"
| "Vmcs12State_u32 VmcsActive = 1"
| "Vmcs12State_u32 VmcsLaunched = 2"

record Vmcs12Model =
  m12_size :: u32
  m12_version :: u32
  m12_revision :: u32
  m12_state :: u32
  m12_pin_controls :: u32
  m12_primary_controls :: u32
  m12_secondary_controls :: u32
  m12_exit_controls :: u32
  m12_entry_controls :: u32
  m12_exception_bitmap :: u32
  m12_reserved :: u32
  m12_guest_cr0 :: u64
  m12_guest_cr3 :: u64
  m12_guest_cr4 :: u64
  m12_guest_rip :: u64
  m12_guest_rsp :: u64
  m12_guest_rflags :: u64
  m12_ept_pointer :: u64
  m12_vpid :: u64

record Vmcs02Policy =
  p02_size :: u32
  p02_version :: u32
  p02_required_pin_controls :: u32
  p02_required_primary_controls :: u32
  p02_required_secondary_controls :: u32
  p02_required_exit_controls :: u32
  p02_required_entry_controls :: u32
  p02_forbidden_pin_controls :: u32
  p02_forbidden_primary_controls :: u32
  p02_forbidden_secondary_controls :: u32
  p02_forbidden_exit_controls :: u32
  p02_forbidden_entry_controls :: u32
  p02_reserved :: u32
  p02_host_cr0 :: u64
  p02_host_cr3 :: u64
  p02_host_cr4 :: u64
  p02_host_rsp :: u64
  p02_host_rip :: u64
  p02_ept_pointer :: u64
  p02_io_bitmap_a :: u64
  p02_io_bitmap_b :: u64
  p02_msr_bitmap :: u64
  p02_generation :: u64

record Vmcs02Image =
  i02_size :: u32
  i02_version :: u32
  i02_status :: u32
  i02_reserved :: u32
  i02_pin_controls :: u32
  i02_primary_controls :: u32
  i02_secondary_controls :: u32
  i02_exit_controls :: u32
  i02_entry_controls :: u32
  i02_exception_bitmap :: u32
  i02_reserved2 :: u32
  i02_guest_cr0 :: u64
  i02_guest_cr3 :: u64
  i02_guest_cr4 :: u64
  i02_guest_rip :: u64
  i02_guest_rsp :: u64
  i02_guest_rflags :: u64
  i02_host_cr0 :: u64
  i02_host_cr3 :: u64
  i02_host_cr4 :: u64
  i02_host_rsp :: u64
  i02_host_rip :: u64
  i02_ept_pointer :: u64
  i02_io_bitmap_a :: u64
  i02_io_bitmap_b :: u64
  i02_msr_bitmap :: u64
  i02_generation :: u64

text \<open>
  A pointer to a VMCS: null, into a slot of the virtual CPU's own array, or to an object outside
  of it.
\<close>

datatype vmcs_pointer = NullVmcs | SlotVmcs nat | OtherVmcs NestedVmcs12

definition deref :: "'s NestedVcpu \<Rightarrow> vmcs_pointer \<Rightarrow> NestedVmcs12 option" where
  "deref vcpu vmcs = (case vmcs of NullVmcs \<Rightarrow> None | SlotVmcs i \<Rightarrow> Some (nv_vmcs vcpu ! i)
     | OtherVmcs m \<Rightarrow> Some m)"

section \<open>Helpers\<close>

abbreviation vmcs02_versioned :: "u32 \<Rightarrow> u32 \<Rightarrow> u32 \<Rightarrow> bool" where
  "vmcs02_versioned \<equiv> IsVersionedSizeValid kVmcs02ModelVersion kVmcs02MaxStructSize"

definition Vmcs02IsCanonical :: "u64 \<Rightarrow> u32 \<Rightarrow> bool" where
  "Vmcs02IsCanonical v address_bits =
     (let bits = (if address_bits \<ge> 48 \<and> address_bits \<le> 63 then address_bits else 48);
          low_mask = push_bit (unat bits) 1 - 1;
          upper = v AND NOT low_mask
      in if v AND push_bit (unat (bits - 1)) 1 = 0 then upper = 0 else upper = NOT low_mask)"

definition IsPhysical :: "u64 \<Rightarrow> u32 \<Rightarrow> bool" where
  "IsPhysical v address_bits \<longleftrightarrow>
     address_bits \<ge> 1 \<and> address_bits \<le> 52 \<and> drop_bit (unat address_bits) v = 0"

definition Vmcs02IsFixedCrValid :: "u64 \<Rightarrow> u64 \<Rightarrow> u64 \<Rightarrow> bool" where
  "Vmcs02IsFixedCrValid v fixed0 fixed1 \<longleftrightarrow>
     v AND fixed0 = fixed0 \<and> (fixed1 = 0 \<or> v AND NOT fixed1 = 0)"

definition AdjustControl :: "u32 \<Rightarrow> u32 \<Rightarrow> u32 \<Rightarrow> u32 \<Rightarrow> u32 \<Rightarrow> u32 option" where
  "AdjustControl requested required forbidden allowed0 allowed1 =
     (if requested AND NOT allowed1 \<noteq> 0 \<or> required AND NOT allowed1 \<noteq> 0 \<or> required AND forbidden \<noteq> 0
      then None
      else let v = (requested OR required OR allowed0) AND allowed1
           in if v AND forbidden \<noteq> 0 then None else Some v)"

definition ReadField :: "'s NestedVcpu \<Rightarrow> vmcs_pointer \<Rightarrow> u32 \<Rightarrow> u64 option" where
  "ReadField vcpu vmcs encoding = (case deref vcpu vmcs of None \<Rightarrow> None | Some m \<Rightarrow>
     if nv_current_vmcs_gpa vcpu = v12_region_gpa m then ReadNestedVmcsField (Some vcpu) encoding else None)"

definition IsVmcsPointerOwned :: "'s NestedVcpu \<Rightarrow> vmcs_pointer \<Rightarrow> bool" where
  "IsVmcsPointerOwned vcpu vmcs = (case vmcs of SlotVmcs i \<Rightarrow> i < kNestedVmcsSlots | _ \<Rightarrow> False)"

definition IsVmcs12StateValue :: "u32 \<Rightarrow> bool" where
  "IsVmcs12StateValue state \<longleftrightarrow> state AND NOT kKnownVmcs12StateMask = 0 \<and>
     (state = Vmcs12State_u32 VmcsClear \<or> state = Vmcs12State_u32 VmcsActive \<or>
      state = Vmcs12State_u32 VmcsLaunched)"

definition IsAlignedPhysical :: "u64 \<Rightarrow> u32 \<Rightarrow> bool" where
  "IsAlignedPhysical v bits \<longleftrightarrow> v AND (ucast kNestedPageSize - 1) = 0 \<and> IsPhysical v bits"

definition IsAddressSetValid :: "u64 \<Rightarrow> u32 \<Rightarrow> bool" where
  "IsAddressSetValid v bits \<longleftrightarrow> v = 0 \<or> IsAlignedPhysical v bits"

definition IsCapabilitiesContractValid :: "NestedCapabilities \<Rightarrow> bool" where
  "IsCapabilitiesContractValid c \<longleftrightarrow>
     vmcs02_versioned (nc_version c) (nc_size c) 112 \<and>
     nc_max_physical_address_bits c \<ge> 1 \<and> nc_max_physical_address_bits c \<le> 52 \<and>
     nc_linear_address_bits c \<ge> 48 \<and> nc_linear_address_bits c \<le> 63"

definition IsPolicyContractValid :: "Vmcs02Policy \<Rightarrow> bool" where
  "IsPolicyContractValid p =
     (if \<not> vmcs02_versioned (p02_version p) (p02_size p) 136 \<or> p02_reserved p \<noteq> 0 \<or> p02_generation p = 0
      then False
      else p02_required_pin_controls p AND p02_forbidden_pin_controls p = 0 \<and>
           p02_required_primary_controls p AND p02_forbidden_primary_controls p = 0 \<and>
           p02_required_secondary_controls p AND p02_forbidden_secondary_controls p = 0 \<and>
           p02_required_exit_controls p AND p02_forbidden_exit_controls p = 0 \<and>
           p02_required_entry_controls p AND p02_forbidden_entry_controls p = 0)"

definition ControlMatches :: "u32 \<Rightarrow> u32 \<Rightarrow> u32 \<Rightarrow> u32 \<Rightarrow> u32 \<Rightarrow> bool" where
  "ControlMatches v required forbidden allowed0 allowed1 =
     (case AdjustControl v required forbidden allowed0 allowed1 of None \<Rightarrow> False
      | Some adjusted \<Rightarrow> adjusted = v)"

definition ValidateEptPointer :: "u64 \<Rightarrow> u32 \<Rightarrow> bool" where
  "ValidateEptPointer raw bits = (case DecodeEptPointer raw of None \<Rightarrow> False
     | Some config \<Rightarrow> IsEptpConfigValid (Some (config\<lparr>ec_generation := 1\<rparr>)) bits)"

section \<open>The model of the guest's VMCS\<close>

definition zero_model :: Vmcs12Model where
  "zero_model = \<lparr>m12_size = 112, m12_version = kVmcs02ModelVersion, m12_revision = 0, m12_state = 0,
     m12_pin_controls = 0, m12_primary_controls = 0, m12_secondary_controls = 0, m12_exit_controls = 0,
     m12_entry_controls = 0, m12_exception_bitmap = 0, m12_reserved = 0, m12_guest_cr0 = 0,
     m12_guest_cr3 = 0, m12_guest_cr4 = 0, m12_guest_rip = 0, m12_guest_rsp = 0, m12_guest_rflags = 0,
     m12_ept_pointer = 0, m12_vpid = 0\<rparr>"

text \<open>The fields in the order they are read, each with the assignment of its value.\<close>

definition model_fields :: "(u32 \<times> (u64 \<Rightarrow> Vmcs12Model \<Rightarrow> Vmcs12Model)) list" where
  "model_fields =
    [(kVmcsFieldPinControls, \<lambda>v m. m\<lparr>m12_pin_controls := ucast v\<rparr>),
     (kVmcsFieldPrimaryControls, \<lambda>v m. m\<lparr>m12_primary_controls := ucast v\<rparr>),
     (kVmcsFieldSecondaryControls, \<lambda>v m. m\<lparr>m12_secondary_controls := ucast v\<rparr>),
     (kVmcsFieldExitControls, \<lambda>v m. m\<lparr>m12_exit_controls := ucast v\<rparr>),
     (kVmcsFieldEntryControls, \<lambda>v m. m\<lparr>m12_entry_controls := ucast v\<rparr>),
     (kVmcsFieldExceptionBitmap, \<lambda>v m. m\<lparr>m12_exception_bitmap := ucast v\<rparr>),
     (kVmcsFieldGuestCr0, \<lambda>v m. m\<lparr>m12_guest_cr0 := v\<rparr>),
     (kVmcsFieldGuestCr3, \<lambda>v m. m\<lparr>m12_guest_cr3 := v\<rparr>),
     (kVmcsFieldGuestCr4, \<lambda>v m. m\<lparr>m12_guest_cr4 := v\<rparr>),
     (kVmcsFieldGuestRip, \<lambda>v m. m\<lparr>m12_guest_rip := v\<rparr>),
     (kVmcsFieldGuestRsp, \<lambda>v m. m\<lparr>m12_guest_rsp := v\<rparr>),
     (kVmcsFieldGuestRflags, \<lambda>v m. m\<lparr>m12_guest_rflags := v\<rparr>),
     (kVmcsFieldEptPointer, \<lambda>v m. m\<lparr>m12_ept_pointer := v\<rparr>),
     (kVmcsFieldVpid, \<lambda>v m. m\<lparr>m12_vpid := v\<rparr>)]"

fun read_fields :: "(u32 \<Rightarrow> u64 option) \<Rightarrow> (u32 \<times> (u64 \<Rightarrow> Vmcs12Model \<Rightarrow> Vmcs12Model)) list \<Rightarrow> Vmcs12Model \<Rightarrow>
    bool \<times> Vmcs12Model" where
  "read_fields read [] m = (True, m)"
| "read_fields read ((encoding, assign) # fs) m =
     (case read encoding of None \<Rightarrow> (False, m) | Some v \<Rightarrow> read_fields read fs (assign v m))"

definition ReadVmcs12Model ::
    "'s NestedVcpu option \<Rightarrow> vmcs_pointer \<Rightarrow> Vmcs12Model option \<Rightarrow> bool \<times> Vmcs12Model option" where
  "ReadVmcs12Model vcpu vmcs model =
     (case (model, vcpu) of
        (Some m0, Some v) \<Rightarrow>
          (case deref v vmcs of None \<Rightarrow> (False, model) | Some s \<Rightarrow>
             if nv_version v \<noteq> kNestedModelVersion \<or> nv_size v < 12992 \<or> v12_allocated s = 0 \<or>
                \<not> IsVmcsPointerOwned v vmcs \<or>
                v12_revision s \<noteq> nc_vmx_revision (nv_capabilities v) AND kNestedVmxRevisionMask \<or>
                nv_current_vmcs_gpa v \<noteq> v12_region_gpa s then (False, model)
             else case read_fields (ReadField v vmcs) model_fields
                         (zero_model\<lparr>m12_revision := v12_revision s, m12_state := Vmcs12State_u32 (v12_state s)\<rparr>) of
                    (ok, m) \<Rightarrow> (ok, Some m))
      | _ \<Rightarrow> (False, model))"

definition IsVmcs12ModelValid :: "Vmcs12Model option \<Rightarrow> NestedCapabilities option \<Rightarrow> bool" where
  "IsVmcs12ModelValid model capabilities =
     (case (model, capabilities) of
        (Some m, Some c) \<Rightarrow>
          if \<not> vmcs02_versioned (m12_version m) (m12_size m) 112 \<or> \<not> IsCapabilitiesContractValid c \<or>
             \<not> IsVmcs12StateValue (m12_state m) \<or> m12_state m = Vmcs12State_u32 VmcsClear \<or>
             m12_revision m \<noteq> nc_vmx_revision c AND kNestedVmxRevisionMask \<or> m12_reserved m \<noteq> 0 \<or>
             \<not> Vmcs02IsFixedCrValid (m12_guest_cr0 m) (nc_cr0_fixed0 c) (nc_cr0_fixed1 c) \<or>
             \<not> Vmcs02IsFixedCrValid (m12_guest_cr4 m) (nc_cr4_fixed0 c) (nc_cr4_fixed1 c) \<or>
             \<not> Vmcs02IsCanonical (m12_guest_rip m) (nc_linear_address_bits c) \<or>
             \<not> Vmcs02IsCanonical (m12_guest_rsp m) (nc_linear_address_bits c) \<or>
             m12_guest_rflags m AND 2 = 0 \<or>
             \<not> IsPhysical (m12_guest_cr3 m) (nc_max_physical_address_bits c) then False
          else if m12_secondary_controls m AND kNestedSecondaryEnableEpt \<noteq> 0 \<and>
             (nc_feature_bits c AND kCapEpt = 0 \<or>
              \<not> ValidateEptPointer (m12_ept_pointer m) (nc_max_physical_address_bits c)) then False
          else if m12_secondary_controls m AND kNestedSecondaryEnableVpid \<noteq> 0 \<and>
             (nc_feature_bits c AND kCapVpid = 0 \<or> m12_vpid m = 0 \<or> m12_vpid m > ucast (nc_vpid_count c)) then False
          else if m12_secondary_controls m AND kNestedSecondaryEnableVmfunc \<noteq> 0 \<and>
             nc_feature_bits c AND kCapVirtualTlbFlush = 0 then False
          else True
      | _ \<Rightarrow> False)"

section \<open>The image\<close>

definition zero_image :: Vmcs02Image where
  "zero_image = \<lparr>i02_size = 176, i02_version = kVmcs02ModelVersion, i02_status = 0, i02_reserved = 0,
     i02_pin_controls = 0, i02_primary_controls = 0, i02_secondary_controls = 0, i02_exit_controls = 0,
     i02_entry_controls = 0, i02_exception_bitmap = 0, i02_reserved2 = 0, i02_guest_cr0 = 0,
     i02_guest_cr3 = 0, i02_guest_cr4 = 0, i02_guest_rip = 0, i02_guest_rsp = 0, i02_guest_rflags = 0,
     i02_host_cr0 = 0, i02_host_cr3 = 0, i02_host_cr4 = 0, i02_host_rsp = 0, i02_host_rip = 0,
     i02_ept_pointer = 0, i02_io_bitmap_a = 0, i02_io_bitmap_b = 0, i02_msr_bitmap = 0, i02_generation = 0\<rparr>"

definition build_failed :: "Vmcs02BuildStatus \<Rightarrow> Vmcs02Image \<Rightarrow> Vmcs02BuildStatus \<times> Vmcs02Image option" where
  "build_failed status img = (status, Some (img\<lparr>i02_status := Vmcs02BuildStatus_u32 status\<rparr>))"

text \<open>The five control words, in order; a failure keeps the words adjusted before it.\<close>

fun adjust_all :: "(u32 option \<times> (u32 \<Rightarrow> Vmcs02Image \<Rightarrow> Vmcs02Image)) list \<Rightarrow> Vmcs02Image \<Rightarrow> bool \<times> Vmcs02Image" where
  "adjust_all [] img = (True, img)"
| "adjust_all ((adjusted, assign) # cs) img =
     (case adjusted of None \<Rightarrow> (False, img) | Some v \<Rightarrow> adjust_all cs (assign v img))"

definition adjust_controls ::
    "Vmcs12Model \<Rightarrow> NestedCapabilities \<Rightarrow> Vmcs02Policy \<Rightarrow> Vmcs02Image \<Rightarrow> bool \<times> Vmcs02Image" where
  "adjust_controls m c p img = adjust_all
    [(AdjustControl (m12_pin_controls m) (p02_required_pin_controls p) (p02_forbidden_pin_controls p)
        (nc_pin_allowed0 c) (nc_pin_allowed1 c), \<lambda>v i. i\<lparr>i02_pin_controls := v\<rparr>),
     (AdjustControl (m12_primary_controls m) (p02_required_primary_controls p) (p02_forbidden_primary_controls p)
        (nc_primary_allowed0 c) (nc_primary_allowed1 c), \<lambda>v i. i\<lparr>i02_primary_controls := v\<rparr>),
     (AdjustControl (m12_secondary_controls m) (p02_required_secondary_controls p) (p02_forbidden_secondary_controls p)
        (nc_secondary_allowed0 c) (nc_secondary_allowed1 c), \<lambda>v i. i\<lparr>i02_secondary_controls := v\<rparr>),
     (AdjustControl (m12_exit_controls m) (p02_required_exit_controls p) (p02_forbidden_exit_controls p)
        (nc_exit_allowed0 c) (nc_exit_allowed1 c), \<lambda>v i. i\<lparr>i02_exit_controls := v\<rparr>),
     (AdjustControl (m12_entry_controls m) (p02_required_entry_controls p) (p02_forbidden_entry_controls p)
        (nc_entry_allowed0 c) (nc_entry_allowed1 c), \<lambda>v i. i\<lparr>i02_entry_controls := v\<rparr>)] img"

text \<open>The activation of the secondary controls: \<open>None\<close> where the build stops with a capability mismatch.\<close>

definition activate_secondary :: "NestedCapabilities \<Rightarrow> Vmcs02Policy \<Rightarrow> Vmcs02Image \<Rightarrow> Vmcs02Image option" where
  "activate_secondary c p img =
     (if i02_secondary_controls img \<noteq> 0 \<and> i02_primary_controls img AND kVmcs02PrimaryActivateSecondary = 0
      then if nc_primary_allowed1 c AND kVmcs02PrimaryActivateSecondary = 0 \<or>
              p02_forbidden_primary_controls p AND kVmcs02PrimaryActivateSecondary \<noteq> 0 then None
           else Some (img\<lparr>i02_primary_controls :=
                  i02_primary_controls img OR kVmcs02PrimaryActivateSecondary\<rparr>)
      else Some img)"

text \<open>The EPT pointer: the status of a failure, or the image with the pointer.\<close>

definition select_eptp ::
    "Vmcs12Model \<Rightarrow> NestedCapabilities \<Rightarrow> Vmcs02Policy \<Rightarrow> Vmcs02Image \<Rightarrow> Vmcs02BuildStatus + Vmcs02Image" where
  "select_eptp m c p img =
     (if i02_secondary_controls img AND kNestedSecondaryEnableEpt \<noteq> 0
      then let raw_eptp = (if p02_ept_pointer p = 0 then m12_ept_pointer m else p02_ept_pointer p)
           in if \<not> ValidateEptPointer raw_eptp (nc_max_physical_address_bits c) then Inl BuildAddressInvalid
              else Inr (img\<lparr>i02_ept_pointer := raw_eptp\<rparr>)
      else if p02_ept_pointer p \<noteq> 0 then Inl BuildControlConflict
      else Inr img)"

definition host_state_ok :: "NestedCapabilities \<Rightarrow> Vmcs02Policy \<Rightarrow> bool" where
  "host_state_ok c p \<longleftrightarrow>
     \<not> (\<not> IsPhysical (p02_host_cr3 p) (nc_max_physical_address_bits c) \<or>
        \<not> Vmcs02IsCanonical (p02_host_rip p) (nc_linear_address_bits c) \<or>
        \<not> Vmcs02IsCanonical (p02_host_rsp p) (nc_linear_address_bits c) \<or>
        \<not> Vmcs02IsFixedCrValid (p02_host_cr0 p) (nc_cr0_fixed0 c) (nc_cr0_fixed1 c) \<or>
        \<not> Vmcs02IsFixedCrValid (p02_host_cr4 p) (nc_cr4_fixed0 c) (nc_cr4_fixed1 c) \<or>
        \<not> IsAddressSetValid (p02_io_bitmap_a p) (nc_max_physical_address_bits c) \<or>
        \<not> IsAddressSetValid (p02_io_bitmap_b p) (nc_max_physical_address_bits c) \<or>
        \<not> IsAddressSetValid (p02_msr_bitmap p) (nc_max_physical_address_bits c))"

definition fill_image :: "Vmcs12Model \<Rightarrow> Vmcs02Policy \<Rightarrow> Vmcs02Image \<Rightarrow> Vmcs02Image" where
  "fill_image m p img = img
     \<lparr>i02_exception_bitmap := m12_exception_bitmap m, i02_guest_cr0 := m12_guest_cr0 m,
      i02_guest_cr3 := m12_guest_cr3 m, i02_guest_cr4 := m12_guest_cr4 m,
      i02_guest_rip := m12_guest_rip m, i02_guest_rsp := m12_guest_rsp m,
      i02_guest_rflags := m12_guest_rflags m, i02_host_cr0 := p02_host_cr0 p,
      i02_host_cr3 := p02_host_cr3 p, i02_host_cr4 := p02_host_cr4 p,
      i02_host_rsp := p02_host_rsp p, i02_host_rip := p02_host_rip p,
      i02_io_bitmap_a := p02_io_bitmap_a p, i02_io_bitmap_b := p02_io_bitmap_b p,
      i02_msr_bitmap := p02_msr_bitmap p, i02_generation := p02_generation p,
      i02_status := Vmcs02BuildStatus_u32 BuildSuccess\<rparr>"

definition BuildVmcs02Model ::
    "Vmcs12Model option \<Rightarrow> NestedCapabilities option \<Rightarrow> Vmcs02Policy option \<Rightarrow> Vmcs02Image option \<Rightarrow>
     Vmcs02BuildStatus \<times> Vmcs02Image option" where
  "BuildVmcs02Model vmcs12 capabilities policy img =
     (case img of None \<Rightarrow> (BuildInvalidParameter, None) | Some _ \<Rightarrow>
        (case (vmcs12, capabilities, policy) of
           (Some m, Some c, Some p) \<Rightarrow>
             if \<not> IsCapabilitiesContractValid c \<or> \<not> IsPolicyContractValid p
             then build_failed BuildInvalidParameter zero_image
             else if \<not> IsVmcs12ModelValid (Some m) (Some c)
             then build_failed BuildVmcs12Invalid zero_image
             else (case adjust_controls m c p zero_image of
                 (False, i1) \<Rightarrow> build_failed BuildControlConflict i1
               | (True, i1) \<Rightarrow> (case activate_secondary c p i1 of
                     None \<Rightarrow> build_failed BuildCapabilityMismatch i1
                   | Some i2 \<Rightarrow> (case select_eptp m c p i2 of
                         Inl status \<Rightarrow> build_failed status i2
                       | Inr i3 \<Rightarrow> if \<not> host_state_ok c p then build_failed BuildAddressInvalid i3
                                   else (BuildSuccess, Some (fill_image m p i3)))))
         | _ \<Rightarrow> build_failed BuildInvalidParameter zero_image))"

definition IsVmcs02ImageValid ::
    "Vmcs02Image option \<Rightarrow> NestedCapabilities option \<Rightarrow> Vmcs02Policy option \<Rightarrow> bool" where
  "IsVmcs02ImageValid img capabilities policy =
     (case (img, capabilities, policy) of
        (Some i, Some c, Some p) \<Rightarrow>
          if \<not> IsCapabilitiesContractValid c \<or> \<not> IsPolicyContractValid p \<or>
             \<not> vmcs02_versioned (i02_version i) (i02_size i) 176 \<or>
             i02_status i \<noteq> Vmcs02BuildStatus_u32 BuildSuccess \<or>
             i02_reserved i \<noteq> 0 \<or> i02_reserved2 i \<noteq> 0 \<or> i02_generation i \<noteq> p02_generation p \<or>
             \<not> Vmcs02IsFixedCrValid (i02_guest_cr0 i) (nc_cr0_fixed0 c) (nc_cr0_fixed1 c) \<or>
             \<not> Vmcs02IsFixedCrValid (i02_guest_cr4 i) (nc_cr4_fixed0 c) (nc_cr4_fixed1 c) \<or>
             \<not> Vmcs02IsFixedCrValid (i02_host_cr0 i) (nc_cr0_fixed0 c) (nc_cr0_fixed1 c) \<or>
             \<not> Vmcs02IsFixedCrValid (i02_host_cr4 i) (nc_cr4_fixed0 c) (nc_cr4_fixed1 c) \<or>
             \<not> Vmcs02IsCanonical (i02_guest_rip i) (nc_linear_address_bits c) \<or>
             \<not> Vmcs02IsCanonical (i02_guest_rsp i) (nc_linear_address_bits c) \<or>
             \<not> Vmcs02IsCanonical (i02_host_rip i) (nc_linear_address_bits c) \<or>
             \<not> Vmcs02IsCanonical (i02_host_rsp i) (nc_linear_address_bits c) \<or>
             \<not> IsPhysical (i02_guest_cr3 i) (nc_max_physical_address_bits c) \<or>
             \<not> IsPhysical (i02_host_cr3 i) (nc_max_physical_address_bits c) \<or>
             \<not> ControlMatches (i02_pin_controls i) (p02_required_pin_controls p)
                 (p02_forbidden_pin_controls p) (nc_pin_allowed0 c) (nc_pin_allowed1 c) \<or>
             \<not> ControlMatches (i02_primary_controls i) (p02_required_primary_controls p)
                 (p02_forbidden_primary_controls p) (nc_primary_allowed0 c) (nc_primary_allowed1 c) \<or>
             \<not> ControlMatches (i02_secondary_controls i) (p02_required_secondary_controls p)
                 (p02_forbidden_secondary_controls p) (nc_secondary_allowed0 c) (nc_secondary_allowed1 c) \<or>
             \<not> ControlMatches (i02_exit_controls i) (p02_required_exit_controls p)
                 (p02_forbidden_exit_controls p) (nc_exit_allowed0 c) (nc_exit_allowed1 c) \<or>
             \<not> ControlMatches (i02_entry_controls i) (p02_required_entry_controls p)
                 (p02_forbidden_entry_controls p) (nc_entry_allowed0 c) (nc_entry_allowed1 c) \<or>
             i02_secondary_controls i \<noteq> 0 \<and> i02_primary_controls i AND kVmcs02PrimaryActivateSecondary = 0
          then False
          else if i02_secondary_controls i AND kNestedSecondaryEnableEpt \<noteq> 0 \<and>
             \<not> ValidateEptPointer (i02_ept_pointer i) (nc_max_physical_address_bits c) then False
          else True
      | _ \<Rightarrow> False)"

section \<open>Control words\<close>

text \<open>An adjusted control word keeps what was requested, has every required and no forbidden bit,
  and stays within the capability.\<close>

definition control_merged :: "u32 \<Rightarrow> u32 \<Rightarrow> u32 \<Rightarrow> u32 \<Rightarrow> u32 \<Rightarrow> u32 \<Rightarrow> bool" where
  "control_merged requested required forbidden allowed0 allowed1 v \<longleftrightarrow>
     (\<forall>k < 32. (bit requested k \<or> bit required k \<longrightarrow> bit v k) \<and> (bit forbidden k \<longrightarrow> \<not> bit v k) \<and>
        (bit v k \<longrightarrow> bit allowed1 k) \<and> (bit allowed0 k \<and> bit allowed1 k \<longrightarrow> bit v k))"

lemma subset_u32: "(a :: u32) AND NOT b = 0 \<longleftrightarrow> (\<forall>k < 32. bit a k \<longrightarrow> bit b k)"
  by (auto simp: bit_eq_iff bit_simps)

lemma disjoint_u32: "(a :: u32) AND b = 0 \<longleftrightarrow> (\<forall>k < 32. bit a k \<longrightarrow> \<not> bit b k)"
  by (auto simp: bit_eq_iff bit_simps)

lemma AdjustControl_merged:
  assumes "AdjustControl requested required forbidden a0 a1 = Some v"
  shows "control_merged requested required forbidden a0 a1 v"
proof -
  have "requested AND NOT a1 = 0" "required AND NOT a1 = 0" and v: "v = (requested OR required OR a0) AND a1"
    and "v AND forbidden = 0"
    using assms by (simp_all add: AdjustControl_def Let_def split: if_splits)
  then have r: "\<forall>k < 32. bit requested k \<longrightarrow> bit a1 k" "\<forall>k < 32. bit required k \<longrightarrow> bit a1 k"
    and f: "\<forall>k < 32. bit v k \<longrightarrow> \<not> bit forbidden k"
    using subset_u32 disjoint_u32 by blast+
  show ?thesis
    using r f by (auto simp: control_merged_def v bit_simps)
qed

lemma merged_matches:
  assumes "control_merged requested required forbidden a0 a1 v"
  shows "ControlMatches v required forbidden a0 a1"
proof -
  have m: "(v OR required OR a0) AND a1 = v"
    using assms by (auto simp: control_merged_def bit_eq_iff bit_simps)
  have "v AND NOT a1 = 0" "required AND NOT a1 = 0" "required AND forbidden = 0" "v AND forbidden = 0"
    using assms unfolding subset_u32 disjoint_u32 [of required forbidden] disjoint_u32 [of v forbidden]
    by (auto simp: control_merged_def)
  then show ?thesis by (simp add: ControlMatches_def AdjustControl_def m)
qed

lemma merged_set_bit:
  assumes "control_merged requested required forbidden a0 a1 v" and "bit a1 31" and "\<not> bit forbidden 31"
  shows "control_merged requested required forbidden a0 a1 (v OR 0x80000000)"
proof -
  have p: "(0x80000000 :: u32) = push_bit 31 1" by simp
  have "bit (v OR 0x80000000) k \<longleftrightarrow> bit v k \<or> k = 31" if "k < 32" for k
    unfolding p bit_or_iff bit_push_bit_iff bit_1_iff using that by auto
  then show ?thesis using assms by (auto simp: control_merged_def)
qed

lemma top_bit_u32: "(x :: u32) AND 0x80000000 = 0 \<longleftrightarrow> \<not> bit x 31"
  using and_exp_eq_0_iff_not_bit [of x 31] by simp

section \<open>The image of a successful build\<close>

definition merged_with :: "Vmcs12Model \<Rightarrow> NestedCapabilities \<Rightarrow> Vmcs02Policy \<Rightarrow> Vmcs02Image \<Rightarrow> bool" where
  "merged_with m c p i \<longleftrightarrow>
     control_merged (m12_pin_controls m) (p02_required_pin_controls p) (p02_forbidden_pin_controls p)
       (nc_pin_allowed0 c) (nc_pin_allowed1 c) (i02_pin_controls i) \<and>
     control_merged (m12_primary_controls m) (p02_required_primary_controls p) (p02_forbidden_primary_controls p)
       (nc_primary_allowed0 c) (nc_primary_allowed1 c) (i02_primary_controls i) \<and>
     control_merged (m12_secondary_controls m) (p02_required_secondary_controls p) (p02_forbidden_secondary_controls p)
       (nc_secondary_allowed0 c) (nc_secondary_allowed1 c) (i02_secondary_controls i) \<and>
     control_merged (m12_exit_controls m) (p02_required_exit_controls p) (p02_forbidden_exit_controls p)
       (nc_exit_allowed0 c) (nc_exit_allowed1 c) (i02_exit_controls i) \<and>
     control_merged (m12_entry_controls m) (p02_required_entry_controls p) (p02_forbidden_entry_controls p)
       (nc_entry_allowed0 c) (nc_entry_allowed1 c) (i02_entry_controls i)"

lemma adjust_controls_success:
  assumes "adjust_controls m c p zero_image = (True, i)"
  shows "merged_with m c p i \<and> (\<exists>a b d e f. i = zero_image\<lparr>i02_pin_controls := a, i02_primary_controls := b,
    i02_secondary_controls := d, i02_exit_controls := e, i02_entry_controls := f\<rparr>)"
  using assms unfolding adjust_controls_def merged_with_def
  by (auto split: option.splits intro!: AdjustControl_merged exI refl)

lemma activate_success:
  assumes "activate_secondary c p i = Some j" and "merged_with m c p i"
  shows "merged_with m c p j \<and> (i02_secondary_controls j \<noteq> 0 \<longrightarrow> bit (i02_primary_controls j) 31) \<and>
    (\<exists>b. j = i\<lparr>i02_primary_controls := b\<rparr>)"
proof (cases "i02_secondary_controls i \<noteq> 0 \<and> i02_primary_controls i AND kVmcs02PrimaryActivateSecondary = 0")
  case True
  then have a: "bit (nc_primary_allowed1 c) 31" "\<not> bit (p02_forbidden_primary_controls p) 31"
    and j: "j = i\<lparr>i02_primary_controls := i02_primary_controls i OR 0x80000000\<rparr>"
    using assms(1) by (simp_all add: activate_secondary_def top_bit_u32 split: if_splits)
  have "bit (i02_primary_controls i OR 0x80000000) 31"
    using top_bit_u32 [of "i02_primary_controls i OR 0x80000000"] by (simp add: word_ao_dist)
  then show ?thesis
    using assms(2) merged_set_bit [OF _ a] by (auto simp: merged_with_def j)
next
  case False
  then have j: "j = i" using assms(1) unfolding activate_secondary_def by (auto split: if_splits)
  have "i = i\<lparr>i02_primary_controls := i02_primary_controls i\<rparr>" by simp
  then show ?thesis using assms(2) False j top_bit_u32 by blast
qed

lemma select_success:
  assumes "select_eptp m c p i = Inr j"
  shows "(i02_secondary_controls i AND kNestedSecondaryEnableEpt \<noteq> 0 \<longrightarrow>
      ValidateEptPointer (i02_ept_pointer j) (nc_max_physical_address_bits c) \<and>
      i02_ept_pointer j = (if p02_ept_pointer p = 0 then m12_ept_pointer m else p02_ept_pointer p)) \<and>
    (\<exists>e. j = i\<lparr>i02_ept_pointer := e\<rparr>)"
proof -
  have "\<exists>e. i = i\<lparr>i02_ept_pointer := e\<rparr>" by (rule exI [of _ "i02_ept_pointer i"]) simp
  moreover have "j = i \<or> (\<exists>e. j = i\<lparr>i02_ept_pointer := e\<rparr>)"
    using assms unfolding select_eptp_def Let_def by (auto split: if_splits)
  ultimately have ex: "\<exists>e. j = i\<lparr>i02_ept_pointer := e\<rparr>" by blast
  have "i02_secondary_controls i AND kNestedSecondaryEnableEpt \<noteq> 0 \<longrightarrow>
      ValidateEptPointer (i02_ept_pointer j) (nc_max_physical_address_bits c) \<and>
      i02_ept_pointer j = (if p02_ept_pointer p = 0 then m12_ept_pointer m else p02_ept_pointer p)"
    using assms unfolding select_eptp_def Let_def by (auto split: if_splits)
  with ex show ?thesis by blast
qed

lemma Build_success_obtain:
  assumes "BuildVmcs02Model (Some m) (Some c) (Some p) (Some i0) = (BuildSuccess, Some i)"
  obtains i1 i2 i3 where "IsCapabilitiesContractValid c" "IsPolicyContractValid p"
    "IsVmcs12ModelValid (Some m) (Some c)" "adjust_controls m c p zero_image = (True, i1)"
    "activate_secondary c p i1 = Some i2" "select_eptp m c p i2 = Inr i3" "host_state_ok c p"
    "i = fill_image m p i3"
proof -
  have "select_eptp m c p x \<noteq> Inl BuildSuccess" for x by (simp add: select_eptp_def Let_def)
  then show ?thesis
    using assms that unfolding BuildVmcs02Model_def build_failed_def
    by (auto split: if_splits prod.splits bool.splits option.splits sum.splits)
qed

lemma merged_with_matches:
  assumes "merged_with m c p i"
  shows "ControlMatches (i02_pin_controls i) (p02_required_pin_controls p) (p02_forbidden_pin_controls p)
      (nc_pin_allowed0 c) (nc_pin_allowed1 c)"
    "ControlMatches (i02_primary_controls i) (p02_required_primary_controls p) (p02_forbidden_primary_controls p)
      (nc_primary_allowed0 c) (nc_primary_allowed1 c)"
    "ControlMatches (i02_secondary_controls i) (p02_required_secondary_controls p) (p02_forbidden_secondary_controls p)
      (nc_secondary_allowed0 c) (nc_secondary_allowed1 c)"
    "ControlMatches (i02_exit_controls i) (p02_required_exit_controls p) (p02_forbidden_exit_controls p)
      (nc_exit_allowed0 c) (nc_exit_allowed1 c)"
    "ControlMatches (i02_entry_controls i) (p02_required_entry_controls p) (p02_forbidden_entry_controls p)
      (nc_entry_allowed0 c) (nc_entry_allowed1 c)"
  using assms unfolding merged_with_def by (blast intro: merged_matches)+

lemma model_valid_guest:
  assumes "IsVmcs12ModelValid (Some m) (Some c)"
  shows "Vmcs02IsFixedCrValid (m12_guest_cr0 m) (nc_cr0_fixed0 c) (nc_cr0_fixed1 c)"
    "Vmcs02IsFixedCrValid (m12_guest_cr4 m) (nc_cr4_fixed0 c) (nc_cr4_fixed1 c)"
    "Vmcs02IsCanonical (m12_guest_rip m) (nc_linear_address_bits c)"
    "Vmcs02IsCanonical (m12_guest_rsp m) (nc_linear_address_bits c)"
    "IsPhysical (m12_guest_cr3 m) (nc_max_physical_address_bits c)"
  using assms by (simp_all add: IsVmcs12ModelValid_def split: if_splits)

text \<open>
C28: A VMCS02 image that BuildVmcs02Model returns passes IsVmcs02ImageValid, has the guest state
of the VMCS12 and the host state of the policy, every control word between the fixed settings of
the capabilities and containing what VMCS12 and policy require, and, when it enables EPT, the
EPT pointer of the policy, or of the VMCS12 when the policy names none.
\<close>

theorem vmcs02_build_sound:
  assumes "BuildVmcs02Model (Some m) (Some c) (Some p) (Some i0) = (BuildSuccess, Some i)"
  shows "IsVmcs02ImageValid (Some i) (Some c) (Some p) \<and> merged_with m c p i \<and>
    i02_guest_rip i = m12_guest_rip m \<and> i02_guest_rsp i = m12_guest_rsp m \<and>
    i02_guest_rflags i = m12_guest_rflags m \<and> i02_guest_cr0 i = m12_guest_cr0 m \<and>
    i02_guest_cr3 i = m12_guest_cr3 m \<and> i02_guest_cr4 i = m12_guest_cr4 m \<and>
    i02_host_rip i = p02_host_rip p \<and> i02_host_rsp i = p02_host_rsp p \<and> i02_host_cr0 i = p02_host_cr0 p \<and>
    i02_host_cr3 i = p02_host_cr3 p \<and> i02_host_cr4 i = p02_host_cr4 p \<and>
    (i02_secondary_controls i AND kNestedSecondaryEnableEpt \<noteq> 0 \<longrightarrow>
      i02_ept_pointer i = (if p02_ept_pointer p = 0 then m12_ept_pointer m else p02_ept_pointer p))"
  using assms
proof (rule Build_success_obtain)
  fix i1 i2 i3
  assume s: "IsCapabilitiesContractValid c" "IsPolicyContractValid p"
    "IsVmcs12ModelValid (Some m) (Some c)" "adjust_controls m c p zero_image = (True, i1)"
    "activate_secondary c p i1 = Some i2" "select_eptp m c p i2 = Inr i3" "host_state_ok c p"
    "i = fill_image m p i3"
  obtain a b d e f where i1: "merged_with m c p i1" "i1 = zero_image\<lparr>i02_pin_controls := a, i02_primary_controls := b,
      i02_secondary_controls := d, i02_exit_controls := e, i02_entry_controls := f\<rparr>"
    using adjust_controls_success [OF s(4)] by blast
  obtain b' where i2: "merged_with m c p i2" "i02_secondary_controls i2 \<noteq> 0 \<longrightarrow> bit (i02_primary_controls i2) 31"
    "i2 = i1\<lparr>i02_primary_controls := b'\<rparr>"
    using activate_success [OF s(5) i1(1)] by blast
  obtain ep where i3: "i02_secondary_controls i2 AND kNestedSecondaryEnableEpt \<noteq> 0 \<longrightarrow>
      ValidateEptPointer (i02_ept_pointer i3) (nc_max_physical_address_bits c) \<and>
      i02_ept_pointer i3 = (if p02_ept_pointer p = 0 then m12_ept_pointer m else p02_ept_pointer p)"
    "i3 = i2\<lparr>i02_ept_pointer := ep\<rparr>"
    using select_success [OF s(6)] by blast
  have sel: "i02_pin_controls i = i02_pin_controls i2" "i02_primary_controls i = i02_primary_controls i2"
    "i02_secondary_controls i = i02_secondary_controls i2" "i02_exit_controls i = i02_exit_controls i2"
    "i02_entry_controls i = i02_entry_controls i2" "i02_ept_pointer i = i02_ept_pointer i3"
    "i02_size i = 176" "i02_version i = 1" "i02_status i = 0" "i02_reserved i = 0" "i02_reserved2 i = 0"
    by (simp_all add: s(8) fill_image_def i3(2) i2(3) i1(2) zero_image_def)
  have gs: "i02_guest_rip i = m12_guest_rip m" "i02_guest_rsp i = m12_guest_rsp m"
    "i02_guest_rflags i = m12_guest_rflags m" "i02_guest_cr0 i = m12_guest_cr0 m"
    "i02_guest_cr3 i = m12_guest_cr3 m" "i02_guest_cr4 i = m12_guest_cr4 m"
    "i02_host_rip i = p02_host_rip p" "i02_host_rsp i = p02_host_rsp p" "i02_host_cr0 i = p02_host_cr0 p"
    "i02_host_cr3 i = p02_host_cr3 p" "i02_host_cr4 i = p02_host_cr4 p" "i02_generation i = p02_generation p"
    by (simp_all add: s(8) fill_image_def)
  have mi: "merged_with m c p i" using i2(1) by (simp add: merged_with_def sel)
  have ept: "i02_secondary_controls i2 AND kNestedSecondaryEnableEpt \<noteq> 0 \<longrightarrow>
      ValidateEptPointer (i02_ept_pointer i3) (nc_max_physical_address_bits c)"
    using i3(1) by blast
  have "IsVmcs02ImageValid (Some i) (Some c) (Some p)"
    using s(1,2,7) model_valid_guest [OF s(3)] i2(2) ept merged_with_matches [OF mi]
    by (simp add: IsVmcs02ImageValid_def sel gs IsVersionedSizeValid_def host_state_ok_def top_bit_u32) blast
  then show ?thesis using mi gs i3(1) by (simp add: sel)
qed

section \<open>The model of a VMCS that may be entered\<close>

lemma canonical_same: "Vmcs02IsCanonical v bits = IsCanonicalAddress v bits"
  by (simp add: Vmcs02IsCanonical_def IsCanonicalAddress_def)

lemma fixed_same: "Vmcs02IsFixedCrValid v a b = IsFixedCrValid v a b"
  by (auto simp: Vmcs02IsFixedCrValid_def IsFixedCrValid_def)

lemma more_field_indices: "FindFieldRule 0x4004 = Some 9" "FindFieldRule 0x6802 = Some 17"
  by (simp_all add: FindFieldRule_def kFieldRules_def)

lemma read_current:
  assumes "nested_inv v" and "CurrentVmcs (Some v) = Some slot" and "FindFieldRule e = Some r"
  shows "ReadNestedVmcsField (Some v) e = Some (field_of (nv_vmcs v ! slot) e)"
proof -
  have ok: "fields_ok (nv_vmcs v ! slot)"
    using CurrentVmcs_SomeD(5) [OF assms(2)] assms(1) by (simp add: nested_inv_def)
  have r: "r < 62" "FieldIndex (Some r) = r" using FindFieldRule_SomeD [OF assms(3)] by simp_all
  then show ?thesis
    using ok assms(2,3) by (simp add: ReadNestedVmcsField_def field_of_def fields_ok_def)
qed

lemma read_fields_all:
  assumes "\<forall>x \<in> set fs. read (fst x) = Some (g (fst x))"
  shows "read_fields read fs m = (True, fold (\<lambda>(e, f). f (g e)) fs m)"
  using assms by (induction fs arbitrary: m) (auto split: prod.splits)

definition model_of :: "NestedVmcs12 \<Rightarrow> Vmcs12Model" where
  "model_of s = zero_model\<lparr>m12_revision := v12_revision s, m12_state := Vmcs12State_u32 (v12_state s),
     m12_pin_controls := ucast (field_of s kVmcsFieldPinControls),
     m12_primary_controls := ucast (field_of s kVmcsFieldPrimaryControls),
     m12_secondary_controls := ucast (field_of s kVmcsFieldSecondaryControls),
     m12_exit_controls := ucast (field_of s kVmcsFieldExitControls),
     m12_entry_controls := ucast (field_of s kVmcsFieldEntryControls),
     m12_exception_bitmap := ucast (field_of s kVmcsFieldExceptionBitmap),
     m12_guest_cr0 := field_of s kVmcsFieldGuestCr0, m12_guest_cr3 := field_of s kVmcsFieldGuestCr3,
     m12_guest_cr4 := field_of s kVmcsFieldGuestCr4, m12_guest_rip := field_of s kVmcsFieldGuestRip,
     m12_guest_rsp := field_of s kVmcsFieldGuestRsp, m12_guest_rflags := field_of s kVmcsFieldGuestRflags,
     m12_ept_pointer := field_of s kVmcsFieldEptPointer, m12_vpid := field_of s kVmcsFieldVpid\<rparr>"

lemma ReadVmcs12Model_current:
  assumes "nested_inv v" and "CurrentVmcs (Some v) = Some slot" and "nv_version v = kNestedModelVersion"
    and "nv_size v \<ge> 12992"
    and "v12_revision (nv_vmcs v ! slot) = nc_vmx_revision (nv_capabilities v) AND kNestedVmxRevisionMask"
  shows "ReadVmcs12Model (Some v) (SlotVmcs slot) (Some m0) = (True, Some (model_of (nv_vmcs v ! slot)))"
proof -
  note c = CurrentVmcs_SomeD [OF assms(2)]
  have so: "slots_ok (nv_vmcs v)" using assms(1) by (simp add: nested_inv_def)
  have d: "deref v (SlotVmcs slot) = Some (nv_vmcs v ! slot)" by (simp add: deref_def)
  have rd: "ReadField v (SlotVmcs slot) e = ReadNestedVmcsField (Some v) e" for e
    using c(4) [OF so] by (simp add: ReadField_def d)
  have f: "read_fields (ReadField v (SlotVmcs slot)) model_fields m =
      (True, fold (\<lambda>(e, f). f (field_of (nv_vmcs v ! slot) e)) model_fields m)" for m
    by (rule read_fields_all)
      (auto simp: rd model_fields_def read_current [OF assms(1,2)] field_indices more_field_indices)
  have m: "fold (\<lambda>(e, f). f (field_of (nv_vmcs v ! slot) e)) model_fields
      (zero_model\<lparr>m12_revision := v12_revision (nv_vmcs v ! slot), m12_state := Vmcs12State_u32 (v12_state (nv_vmcs v ! slot))\<rparr>)
      = model_of (nv_vmcs v ! slot)"
    by (simp add: model_fields_def model_of_def)
  show ?thesis
    using assms(3-5) c(1,3,4) [OF so] f m
    by (simp add: ReadVmcs12Model_def d IsVmcsPointerOwned_def not_less)
qed

text \<open>An EPT pointer aligned to 4096 has a page walk of length one, which is no EPT pointer.\<close>

lemma aligned_not_eptp:
  assumes "4096 dvd unat (raw :: u64)"
  shows "DecodeEptPointer raw = None"
proof -
  have "IsAlignedPage raw" using assms by (simp add: IsAlignedPage_iff)
  then have z: "raw AND 4095 = 0" by (simp add: IsAlignedPage_def)
  have "raw AND 0x38 = 0" by (rule low_bits_clear [OF z]) simp
  then show ?thesis by (simp add: DecodeEptPointer_def Let_def)
qed

lemma ucast_bit: "k < 32 \<Longrightarrow> bit (ucast (x :: u64) :: u32) k \<longleftrightarrow> bit x k"
  by (simp add: bit_simps)

lemma secondary_flags:
  "(ucast (x :: u64) :: u32) AND 2 \<noteq> 0 \<longleftrightarrow> bit x 1" "(ucast x :: u32) AND 32 \<noteq> 0 \<longleftrightarrow> bit x 5"
  "(ucast x :: u32) AND 0x2000 \<noteq> 0 \<longleftrightarrow> bit x 13"
  using and_exp_eq_0_iff_not_bit [of "ucast x :: u32" 1] and_exp_eq_0_iff_not_bit [of "ucast x :: u32" 5]
    and_exp_eq_0_iff_not_bit [of "ucast x :: u32" 13] by (simp_all add: ucast_bit)

lemma entry_model_valid_iff:
  assumes "entry_state_ok c (field_of s)" and "IsCapabilitiesContractValid c" and "v12_state s \<noteq> VmcsClear"
    and "v12_revision s = nc_vmx_revision c AND kNestedVmxRevisionMask"
  shows "IsVmcs12ModelValid (Some (model_of s)) (Some c) \<longleftrightarrow>
    IsPhysical (field_of s kVmcsFieldGuestCr3) (nc_max_physical_address_bits c) \<and>
    \<not> bit (field_of s kVmcsFieldSecondaryControls) 1"
proof -
  note e = assms(1) [unfolded entry_state_ok_def]
  have st: "IsVmcs12StateValue (Vmcs12State_u32 (v12_state s))" "Vmcs12State_u32 (v12_state s) \<noteq> 0"
    using assms(3) by (cases "v12_state s"; simp add: IsVmcs12StateValue_def)+
  have cr: "Vmcs02IsFixedCrValid (field_of s kVmcsFieldGuestCr0) (nc_cr0_fixed0 c) (nc_cr0_fixed1 c)"
    "Vmcs02IsFixedCrValid (field_of s kVmcsFieldGuestCr4) (nc_cr4_fixed0 c) (nc_cr4_fixed1 c)"
    unfolding fixed_same IsFixedCrValid_iff using e by blast+
  have can: "Vmcs02IsCanonical (field_of s kVmcsFieldGuestRip) (nc_linear_address_bits c)"
    "Vmcs02IsCanonical (field_of s kVmcsFieldGuestRsp) (nc_linear_address_bits c)"
    unfolding canonical_same IsCanonicalAddress_iff using e by blast+
  have fl: "field_of s kVmcsFieldGuestRflags AND 2 \<noteq> 0"
    using e unfolding flag_bit by blast
  have ept: "bit (field_of s kVmcsFieldSecondaryControls) 1 \<Longrightarrow>
      \<not> ValidateEptPointer (field_of s kVmcsFieldEptPointer) (nc_max_physical_address_bits c)"
    using e aligned_not_eptp by (simp add: ValidateEptPointer_def)
  have vp: "bit (field_of s kVmcsFieldSecondaryControls) 5 \<Longrightarrow> nc_feature_bits c AND 4 \<noteq> 0 \<and>
      field_of s kVmcsFieldVpid \<noteq> 0 \<and> \<not> field_of s kVmcsFieldVpid > ucast (nc_vpid_count c)"
    using e unfolding flag_bit by (simp add: word_less_nat_alt ucast_u32_u64_unat)
  have vf: "bit (field_of s kVmcsFieldSecondaryControls) 13 \<Longrightarrow> nc_feature_bits c AND 32 \<noteq> 0"
    using e unfolding flag_bit by blast
  have sel: "m12_version (model_of s) = 1" "m12_size (model_of s) = 112" "m12_reserved (model_of s) = 0"
    "m12_state (model_of s) = Vmcs12State_u32 (v12_state s)" "m12_revision (model_of s) = v12_revision s"
    "m12_guest_cr0 (model_of s) = field_of s kVmcsFieldGuestCr0" "m12_guest_cr3 (model_of s) = field_of s kVmcsFieldGuestCr3"
    "m12_guest_cr4 (model_of s) = field_of s kVmcsFieldGuestCr4" "m12_guest_rip (model_of s) = field_of s kVmcsFieldGuestRip"
    "m12_guest_rsp (model_of s) = field_of s kVmcsFieldGuestRsp" "m12_guest_rflags (model_of s) = field_of s kVmcsFieldGuestRflags"
    "m12_ept_pointer (model_of s) = field_of s kVmcsFieldEptPointer" "m12_vpid (model_of s) = field_of s kVmcsFieldVpid"
    "m12_secondary_controls (model_of s) = ucast (field_of s kVmcsFieldSecondaryControls)"
    by (simp_all add: model_of_def zero_model_def)
  have vers: "vmcs02_versioned 1 112 112" by (simp add: IsVersionedSizeValid_def)
  show ?thesis
    unfolding IsVmcs12ModelValid_def option.case prod.case sel secondary_flags
    using assms(2,4) st cr can fl ept vp vf vers by (simp; blast)
qed

text \<open>
C29: A VMCS with which VM entry was validated can be read into a VMCS12 model, and that model is
valid exactly when its guest CR3 is a physical address and EPT is off; with EPT on no VMCS02
image can be built from it under any policy.
\<close>

theorem entered_vmcs_model:
  assumes "nested_inv v" and "CurrentVmcs (Some v) = Some slot"
    and "ValidateEntryState (Some v) (nv_vmcs v ! slot)" and "IsCapabilitiesContractValid (nv_capabilities v)"
    and "nv_version v = kNestedModelVersion" and "nv_size v \<ge> 12992"
    and "v12_revision (nv_vmcs v ! slot) = nc_vmx_revision (nv_capabilities v) AND kNestedVmxRevisionMask"
  shows "\<exists>m. ReadVmcs12Model (Some v) (SlotVmcs slot) (Some m0) = (True, Some m) \<and>
    (IsVmcs12ModelValid (Some m) (Some (nv_capabilities v)) \<longleftrightarrow>
       IsPhysical (field_of (nv_vmcs v ! slot) kVmcsFieldGuestCr3) (nc_max_physical_address_bits (nv_capabilities v)) \<and>
       \<not> bit (field_of (nv_vmcs v ! slot) kVmcsFieldSecondaryControls) 1) \<and>
    (bit (field_of (nv_vmcs v ! slot) kVmcsFieldSecondaryControls) 1 \<longrightarrow>
       (\<forall>p i. fst (BuildVmcs02Model (Some m) (Some (nv_capabilities v)) (Some p) (Some i)) \<noteq> BuildSuccess))"
proof -
  let ?s = "nv_vmcs v ! slot"
  have cur: "nv_current_vmcs_gpa v \<noteq> NOT 0" using assms(2) by (auto simp: CurrentVmcs_alt)
  then have "v12_state ?s \<noteq> VmcsClear" using assms(1,2) by (auto simp: nested_inv_def)
  note valid = entry_model_valid_iff [OF assms(3) [unfolded ValidateEntryState_iff] assms(4) this assms(7)]
  have "fst (BuildVmcs02Model (Some (model_of ?s)) (Some (nv_capabilities v)) (Some p) (Some i)) \<noteq> BuildSuccess"
    if "bit (field_of ?s kVmcsFieldSecondaryControls) 1" for p i
    using that valid by (simp add: BuildVmcs02Model_def build_failed_def)
  then show ?thesis
    using ReadVmcs12Model_current [OF assms(1,2,5,6,7)] valid by blast
qed

section \<open>Sample inputs\<close>

definition sample_policy02 :: Vmcs02Policy where
  "sample_policy02 = \<lparr>p02_size = 136, p02_version = 1, p02_required_pin_controls = 1,
     p02_required_primary_controls = 0, p02_required_secondary_controls = 0, p02_required_exit_controls = 0,
     p02_required_entry_controls = 0, p02_forbidden_pin_controls = 0, p02_forbidden_primary_controls = 0,
     p02_forbidden_secondary_controls = 0, p02_forbidden_exit_controls = 0, p02_forbidden_entry_controls = 0,
     p02_reserved = 0, p02_host_cr0 = 0, p02_host_cr3 = 0x1000, p02_host_cr4 = 0, p02_host_rsp = 0x7000,
     p02_host_rip = 0x8000, p02_ept_pointer = 0, p02_io_bitmap_a = 0, p02_io_bitmap_b = 0,
     p02_msr_bitmap = 0x3000, p02_generation = 4\<rparr>"

lemma sample_caps: "IsCapabilitiesContractValid (nv_capabilities sample_vcpu)"
  "nv_version sample_vcpu = 1" "nv_size sample_vcpu \<ge> 12992"
  "v12_revision (nv_vmcs sample_vcpu ! 0) = nc_vmx_revision (nv_capabilities sample_vcpu) AND kNestedVmxRevisionMask"
  by code_simp+

theorem entered_vmcs_model_witness:
  "\<exists>m. ReadVmcs12Model (Some sample_vcpu) (SlotVmcs 0) (Some zero_model) = (True, Some m) \<and>
     IsVmcs12ModelValid (Some m) (Some (nv_capabilities sample_vcpu))"
proof -
  have f: "IsPhysical (field_of (nv_vmcs sample_vcpu ! 0) kVmcsFieldGuestCr3)
      (nc_max_physical_address_bits (nv_capabilities sample_vcpu))"
    "\<not> bit (field_of (nv_vmcs sample_vcpu ! 0) kVmcsFieldSecondaryControls) 1"
    by code_simp+
  have s: "ValidateEntryState (Some sample_vcpu) (nv_vmcs sample_vcpu ! 0)"
    using sample_entry by (simp add: sample_slots)
  show ?thesis
    using entered_vmcs_model [OF sample_inv sample_current s sample_caps, of zero_model] f by blast
qed

theorem vmcs02_build_sound_witness:
  "\<exists>i. BuildVmcs02Model (Some (model_of sample_slot)) (Some (nv_capabilities sample_vcpu)) (Some sample_policy02)
     (Some zero_image) = (BuildSuccess, Some i) \<and>
     IsVmcs02ImageValid (Some i) (Some (nv_capabilities sample_vcpu)) (Some sample_policy02)"
proof -
  let ?b = "BuildVmcs02Model (Some (model_of sample_slot)) (Some (nv_capabilities sample_vcpu)) (Some sample_policy02) (Some zero_image)"
  have "fst ?b = BuildSuccess" "snd ?b \<noteq> None" by code_simp+
  then obtain i where i: "?b = (BuildSuccess, Some i)" by (metis option.exhaust prod.collapse)
  then show ?thesis using vmcs02_build_sound [OF i] by blast
qed

end
