(* ===== verification/VmcsShadowModel.thy ===== *)
theory VmcsShadowModel
  imports NestedInstr
begin

text \<open>
  VMCS shadowing: the constants and structures of \<^verbatim>\<open>src/src/include/knhv_vmcs_shadow.h\<close> and the
  functions of \<^verbatim>\<open>src/src/nested/vmcs_shadow_model.cpp\<close>. A shadow image holds the fields that
  L1 may read and write without an exit; the read and write bitmaps of the configuration say which
  fields those are. The rule table is the one of the nested VMCS store.
\<close>

section \<open>Constants\<close>

abbreviation kVmcsShadowContractVersion :: u32 where "kVmcsShadowContractVersion \<equiv> 1"
abbreviation kVmcsShadowMaxStructSize :: u32 where "kVmcsShadowMaxStructSize \<equiv> 4096"
abbreviation kVmcsShadowMaxFields :: nat where "kVmcsShadowMaxFields \<equiv> 128"
abbreviation kVmcsShadowBitmapBytes :: nat where "kVmcsShadowBitmapBytes \<equiv> 16"
abbreviation kVmcsShadowPageSize :: u64 where "kVmcsShadowPageSize \<equiv> 4096"
abbreviation kVmcsShadowMaxPhysicalAddressBits :: u32 where "kVmcsShadowMaxPhysicalAddressBits \<equiv> 52"
abbreviation kVmcsShadowNoLinkPointer :: u64 where "kVmcsShadowNoLinkPointer \<equiv> NOT 0"
abbreviation kVmcsShadowCapSupported :: u64 where "kVmcsShadowCapSupported \<equiv> 1"
abbreviation kVmcsShadowCapLinkPointer :: u64 where "kVmcsShadowCapLinkPointer \<equiv> 2"
abbreviation kVmcsShadowCapReadBitmap :: u64 where "kVmcsShadowCapReadBitmap \<equiv> 4"
abbreviation kVmcsShadowCapWriteBitmap :: u64 where "kVmcsShadowCapWriteBitmap \<equiv> 8"
abbreviation kVmcsShadowKnownCapabilityMask :: u64 where
  "kVmcsShadowKnownCapabilityMask \<equiv> kVmcsShadowCapSupported OR kVmcsShadowCapLinkPointer OR
     kVmcsShadowCapReadBitmap OR kVmcsShadowCapWriteBitmap"
abbreviation kVmcsShadowEnableLinkPointer :: u32 where "kVmcsShadowEnableLinkPointer \<equiv> 1"
abbreviation kVmcsShadowEnableReadBitmap :: u32 where "kVmcsShadowEnableReadBitmap \<equiv> 2"
abbreviation kVmcsShadowEnableWriteBitmap :: u32 where "kVmcsShadowEnableWriteBitmap \<equiv> 4"
abbreviation kVmcsShadowKnownConfigFlagMask :: u32 where
  "kVmcsShadowKnownConfigFlagMask \<equiv> kVmcsShadowEnableLinkPointer OR kVmcsShadowEnableReadBitmap OR
     kVmcsShadowEnableWriteBitmap"

section \<open>Data model\<close>

datatype VmcsShadowState = ShadowEmpty | ShadowActive | ShadowCleared | ShadowQuarantined

fun VmcsShadowState_u32 :: "VmcsShadowState \<Rightarrow> u32" where
  "VmcsShadowState_u32 ShadowEmpty = 0"
| "VmcsShadowState_u32 ShadowActive = 1"
| "VmcsShadowState_u32 ShadowCleared = 2"
| "VmcsShadowState_u32 ShadowQuarantined = 3"

datatype VmcsShadowAccessOperation = ShadowRead | ShadowWrite

fun VmcsShadowAccessOperation_u32 :: "VmcsShadowAccessOperation \<Rightarrow> u32" where
  "VmcsShadowAccessOperation_u32 ShadowRead = 1"
| "VmcsShadowAccessOperation_u32 ShadowWrite = 2"

datatype VmcsShadowAccessResult = ResultShadow | ResultReflectExit | ResultInvalid | ResultStale
  | ResultQuarantined

fun VmcsShadowAccessResult_u32 :: "VmcsShadowAccessResult \<Rightarrow> u32" where
  "VmcsShadowAccessResult_u32 ResultShadow = 0"
| "VmcsShadowAccessResult_u32 ResultReflectExit = 1"
| "VmcsShadowAccessResult_u32 ResultInvalid = 2"
| "VmcsShadowAccessResult_u32 ResultStale = 3"
| "VmcsShadowAccessResult_u32 ResultQuarantined = 4"

record VmcsShadowCapabilities =
  sc_size :: u32
  sc_version :: u32
  sc_feature_flags :: u64
  sc_max_fields :: u32
  sc_physical_address_bits :: u32
  sc_generation :: u64
  sc_reserved :: u64

record VmcsShadowConfig =
  sg_size :: u32
  sg_version :: u32
  sg_link_pointer :: u64
  sg_read_bitmap_physical :: u64
  sg_write_bitmap_physical :: u64
  sg_flags :: u32
  sg_reserved :: u32
  sg_generation :: u64
  sg_read_bitmap :: "u8 list"
  sg_write_bitmap :: "u8 list"

record VmcsShadowImage =
  si_size :: u32
  si_version :: u32
  si_generation :: u64
  si_state :: u32
  si_field_count :: u32
  si_fields :: "u64 list"
  si_dirty_bitmap :: "u64 list"
  si_reserved :: "u64 list"

record VmcsShadowAccess =
  sa_size :: u32
  sa_version :: u32
  sa_field_index :: u32
  sa_encoding :: u32
  sa_operation :: u32
  sa_reserved :: u32
  sa_value :: u64
  sa_generation :: u64

record VmcsShadowDecision =
  sd_size :: u32
  sd_version :: u32
  sd_result :: u32
  sd_field_index :: u32
  sd_reserved :: u32
  sd_value :: u64
  sd_generation :: u64

definition zero_shadow_image :: VmcsShadowImage where
  "zero_shadow_image = \<lparr>si_size = 0, si_version = 0, si_generation = 0, si_state = 0,
     si_field_count = 0, si_fields = replicate kVmcsShadowMaxFields 0,
     si_dirty_bitmap = replicate 2 0, si_reserved = replicate 2 0\<rparr>"

section \<open>Helpers\<close>

abbreviation shadow_versioned :: "u32 \<Rightarrow> u32 \<Rightarrow> u32 \<Rightarrow> bool" where
  "shadow_versioned \<equiv> IsVersionedSizeValid kVmcsShadowContractVersion kVmcsShadowMaxStructSize"

definition IsPhysicalPage :: "u64 \<Rightarrow> u32 \<Rightarrow> bool" where
  "IsPhysicalPage address bits \<longleftrightarrow>
     address \<noteq> 0 \<and> address \<noteq> kVmcsShadowNoLinkPointer \<and> address AND (kVmcsShadowPageSize - 1) = 0 \<and>
     bits \<ge> 12 \<and> bits \<le> kVmcsShadowMaxPhysicalAddressBits \<and> drop_bit (unat bits) address = 0"

definition IsShadowStateValid :: "u32 \<Rightarrow> bool" where
  "IsShadowStateValid state \<longleftrightarrow> state \<le> VmcsShadowState_u32 ShadowQuarantined"

definition IsOperationValid :: "u32 \<Rightarrow> bool" where
  "IsOperationValid operation \<longleftrightarrow>
     operation = VmcsShadowAccessOperation_u32 ShadowRead \<or>
     operation = VmcsShadowAccessOperation_u32 ShadowWrite"

definition IsBitSet :: "u8 list \<Rightarrow> nat \<Rightarrow> bool" where
  "IsBitSet bitmap field_index =
     (if field_index \<ge> kVmcsShadowMaxFields then False
      else bitmap ! (field_index div 8) AND push_bit (field_index mod 8) 1 \<noteq> 0)"

definition BitmapTailIsClear :: "u8 list \<Rightarrow> u32 \<Rightarrow> bool" where
  "BitmapTailIsClear bitmap field_count =
     (if unat field_count > kVmcsShadowMaxFields then False
      else list_all (\<lambda>index. \<not> IsBitSet bitmap index) [unat field_count..<kVmcsShadowMaxFields])"

definition BitmapIsZero :: "u8 list \<Rightarrow> bool" where
  "BitmapIsZero bitmap = list_all (\<lambda>index. bitmap ! index = 0) [0..<kVmcsShadowBitmapBytes]"

text \<open>The byte view of the two words of a dirty bitmap, on the little-endian target.\<close>

definition bitmap_bytes :: "u64 list \<Rightarrow> u8 list" where
  "bitmap_bytes words = concat (map (\<lambda>w. map (\<lambda>k. ucast (drop_bit (8 * k) w)) [0..<8]) words)"

definition ConfigMatchesCapabilities ::
  "VmcsShadowCapabilities option \<Rightarrow> VmcsShadowConfig option \<Rightarrow> bool" where
  "ConfigMatchesCapabilities capabilities config = (case (capabilities, config) of
     (Some c, Some g) \<Rightarrow>
       (if sg_generation g \<noteq> sc_generation c then False
        else if sg_flags g AND kVmcsShadowEnableLinkPointer \<noteq> 0 \<and>
                sc_feature_flags c AND kVmcsShadowCapLinkPointer = 0 then False
        else if sg_flags g AND kVmcsShadowEnableReadBitmap \<noteq> 0 \<and>
                sc_feature_flags c AND kVmcsShadowCapReadBitmap = 0 then False
        else if sg_flags g AND kVmcsShadowEnableWriteBitmap \<noteq> 0 \<and>
                sc_feature_flags c AND kVmcsShadowCapWriteBitmap = 0 then False
        else sc_feature_flags c AND kVmcsShadowCapSupported \<noteq> 0)
   | _ \<Rightarrow> False)"

definition ResolveField :: "VmcsShadowAccess option \<Rightarrow> nat option" where
  "ResolveField access = (case access of None \<Rightarrow> None
     | Some a \<Rightarrow> (case FindFieldRule (sa_encoding a) of None \<Rightarrow> None
         | Some rule \<Rightarrow> if FieldIndex (Some rule) \<noteq> unat (sa_field_index a) then None
                        else Some rule))"

definition ShadowFieldMask :: "FieldRule \<Rightarrow> u64" where
  "ShadowFieldMask rule =
     (if fr_width rule = 2 then 0xFFFF else if fr_width rule = 4 then 0xFFFFFFFF
      else if fr_width rule = 8 then NOT 0 else 0)"

definition ShadowInitializeDecision :: "VmcsShadowAccess option \<Rightarrow> u64 \<Rightarrow> VmcsShadowDecision" where
  "ShadowInitializeDecision access generation =
     \<lparr>sd_size = 40, sd_version = kVmcsShadowContractVersion,
      sd_result = VmcsShadowAccessResult_u32 ResultInvalid,
      sd_field_index = (case access of None \<Rightarrow> 0 | Some a \<Rightarrow> sa_field_index a),
      sd_reserved = 0, sd_value = 0, sd_generation = generation\<rparr>"

definition ShadowSetDecision ::
  "VmcsShadowDecision \<Rightarrow> VmcsShadowAccessResult \<Rightarrow> u64 \<Rightarrow> VmcsShadowDecision" where
  "ShadowSetDecision decision result value =
     decision\<lparr>sd_result := VmcsShadowAccessResult_u32 result, sd_value := value\<rparr>"

section \<open>Validation\<close>

definition IsVmcsShadowCapabilitiesValid :: "VmcsShadowCapabilities option \<Rightarrow> bool" where
  "IsVmcsShadowCapabilitiesValid capabilities = (case capabilities of None \<Rightarrow> False | Some c \<Rightarrow>
     shadow_versioned (sc_version c) (sc_size c) 40 \<and>
     sc_feature_flags c AND NOT kVmcsShadowKnownCapabilityMask = 0 \<and>
     sc_feature_flags c AND kVmcsShadowCapSupported \<noteq> 0 \<and>
     sc_max_fields c \<noteq> 0 \<and> sc_max_fields c \<le> of_nat kVmcsShadowMaxFields \<and>
     sc_physical_address_bits c \<ge> 12 \<and>
     sc_physical_address_bits c \<le> kVmcsShadowMaxPhysicalAddressBits \<and>
     sc_generation c \<noteq> 0 \<and> sc_reserved c = 0)"

definition IsVmcsShadowConfigValid :: "VmcsShadowConfig option \<Rightarrow> u32 \<Rightarrow> u32 \<Rightarrow> bool" where
  "IsVmcsShadowConfigValid config max_physical_address_bits max_fields =
   (case config of None \<Rightarrow> False | Some g \<Rightarrow>
     if \<not> shadow_versioned (sg_version g) (sg_size g) 80 \<or>
        max_physical_address_bits < 12 \<or>
        max_physical_address_bits > kVmcsShadowMaxPhysicalAddressBits \<or>
        max_fields = 0 \<or> max_fields > of_nat kVmcsShadowMaxFields \<or>
        sg_flags g AND NOT kVmcsShadowKnownConfigFlagMask \<noteq> 0 \<or>
        sg_reserved g \<noteq> 0 \<or> sg_generation g = 0 \<or>
        \<not> BitmapTailIsClear (sg_read_bitmap g) max_fields \<or>
        \<not> BitmapTailIsClear (sg_write_bitmap g) max_fields
     then False
     else let link_enabled = sg_flags g AND kVmcsShadowEnableLinkPointer \<noteq> 0;
              read_enabled = sg_flags g AND kVmcsShadowEnableReadBitmap \<noteq> 0;
              write_enabled = sg_flags g AND kVmcsShadowEnableWriteBitmap \<noteq> 0
          in if (if link_enabled then \<not> IsPhysicalPage (sg_link_pointer g) max_physical_address_bits
                 else sg_link_pointer g \<noteq> kVmcsShadowNoLinkPointer) then False
             else if (if read_enabled
                      then \<not> IsPhysicalPage (sg_read_bitmap_physical g) max_physical_address_bits
                      else sg_read_bitmap_physical g \<noteq> kVmcsShadowNoLinkPointer) then False
             else if (if write_enabled
                      then \<not> IsPhysicalPage (sg_write_bitmap_physical g) max_physical_address_bits
                      else sg_write_bitmap_physical g \<noteq> kVmcsShadowNoLinkPointer) then False
             else if \<not> read_enabled \<and> \<not> BitmapIsZero (sg_read_bitmap g) then False
             else if \<not> write_enabled \<and> \<not> BitmapIsZero (sg_write_bitmap g) then False
             else True)"

definition IsVmcsShadowImageValid :: "VmcsShadowImage option \<Rightarrow> bool" where
  "IsVmcsShadowImageValid image_ptr = (case image_ptr of None \<Rightarrow> False | Some i \<Rightarrow>
     if \<not> shadow_versioned (si_version i) (si_size i) 1080 \<or>
        \<not> IsShadowStateValid (si_state i) \<or> si_reserved i ! 0 \<noteq> 0 \<or> si_reserved i ! 1 \<noteq> 0
     then False
     else if si_state i = VmcsShadowState_u32 ShadowEmpty
     then si_generation i = 0 \<and> si_field_count i = 0
     else if si_generation i = 0 \<or> si_field_count i = 0 \<or>
             si_field_count i > of_nat kVmcsShadowMaxFields \<or>
             \<not> BitmapTailIsClear (bitmap_bytes (si_dirty_bitmap i)) (si_field_count i)
     then False
     else True)"

definition IsVmcsShadowAccessValid :: "VmcsShadowAccess option \<Rightarrow> bool" where
  "IsVmcsShadowAccessValid access = (case access of None \<Rightarrow> False | Some a \<Rightarrow>
     shadow_versioned (sa_version a) (sa_size a) 40 \<and>
     sa_field_index a < of_nat kVmcsShadowMaxFields \<and>
     IsOperationValid (sa_operation a) \<and> sa_reserved a = 0 \<and>
     sa_generation a \<noteq> 0 \<and> ResolveField (Some a) \<noteq> None)"

section \<open>Life cycle of a shadow image\<close>

definition BeginVmcsShadow ::
  "VmcsShadowCapabilities option \<Rightarrow> VmcsShadowConfig option \<Rightarrow> VmcsShadowImage option \<Rightarrow>
   bool \<times> VmcsShadowImage option" where
  "BeginVmcsShadow capabilities config image_ptr =
   (case image_ptr of None \<Rightarrow> (False, None) | Some _ \<Rightarrow>
     (case (capabilities, config) of
        (Some c, Some g) \<Rightarrow>
          (if \<not> IsVmcsShadowCapabilitiesValid (Some c) \<or>
              \<not> IsVmcsShadowConfigValid (Some g) (sc_physical_address_bits c) (sc_max_fields c) \<or>
              \<not> ConfigMatchesCapabilities (Some c) (Some g)
           then (False, Some zero_shadow_image)
           else let i = zero_shadow_image\<lparr>si_size := 1080, si_version := kVmcsShadowContractVersion,
                          si_generation := sg_generation g,
                          si_state := VmcsShadowState_u32 ShadowActive,
                          si_field_count := sc_max_fields c\<rparr>
                in (IsVmcsShadowImageValid (Some i), Some i))
      | _ \<Rightarrow> (False, Some zero_shadow_image)))"

definition ClearVmcsShadow :: "VmcsShadowImage option \<Rightarrow> u64 \<Rightarrow> bool \<times> VmcsShadowImage option" where
  "ClearVmcsShadow image_ptr generation = (case image_ptr of None \<Rightarrow> (False, None) | Some i \<Rightarrow>
     if \<not> IsVmcsShadowImageValid (Some i) \<or> si_state i \<noteq> VmcsShadowState_u32 ShadowActive \<or>
        generation = 0 \<or> si_generation i \<noteq> generation
     then (False, Some i)
     else (True, Some (i\<lparr>si_state := VmcsShadowState_u32 ShadowCleared\<rparr>)))"

definition RebindVmcsShadow ::
  "VmcsShadowCapabilities option \<Rightarrow> VmcsShadowConfig option \<Rightarrow> u64 \<Rightarrow> VmcsShadowImage option \<Rightarrow>
   bool \<times> VmcsShadowImage option" where
  "RebindVmcsShadow capabilities config expected_generation image_ptr =
   (case image_ptr of None \<Rightarrow> (False, None) | Some i \<Rightarrow>
     (case (capabilities, config) of
        (Some c, Some g) \<Rightarrow>
          (if \<not> IsVmcsShadowImageValid (Some i) \<or> si_state i \<noteq> VmcsShadowState_u32 ShadowCleared \<or>
              expected_generation = 0 \<or> expected_generation \<le> si_generation i \<or>
              \<not> IsVmcsShadowCapabilitiesValid (Some c) \<or>
              \<not> IsVmcsShadowConfigValid (Some g) (sc_physical_address_bits c) (sc_max_fields c) \<or>
              sg_generation g \<noteq> expected_generation \<or>
              \<not> ConfigMatchesCapabilities (Some c) (Some g)
           then (False, Some i)
           else BeginVmcsShadow (Some c) (Some g) (Some i))
      | _ \<Rightarrow> (False, Some i)))"

definition QuarantineVmcsShadow :: "VmcsShadowImage option \<Rightarrow> u64 \<Rightarrow> bool \<times> VmcsShadowImage option" where
  "QuarantineVmcsShadow image_ptr generation = (case image_ptr of None \<Rightarrow> (False, None) | Some i \<Rightarrow>
     if \<not> IsVmcsShadowImageValid (Some i) \<or> generation = 0 \<or> si_generation i \<noteq> generation \<or>
        si_state i \<noteq> VmcsShadowState_u32 ShadowActive \<and> si_state i \<noteq> VmcsShadowState_u32 ShadowCleared
     then (False, Some i)
     else (True, Some (i\<lparr>si_state := VmcsShadowState_u32 ShadowQuarantined\<rparr>)))"

section \<open>Accesses\<close>

definition ClassifyVmcsShadowAccess ::
  "VmcsShadowCapabilities option \<Rightarrow> VmcsShadowConfig option \<Rightarrow> VmcsShadowImage option \<Rightarrow>
   VmcsShadowAccess option \<Rightarrow> u64 \<Rightarrow> VmcsShadowDecision option \<Rightarrow>
   VmcsShadowAccessResult \<times> VmcsShadowDecision option" where
  "ClassifyVmcsShadowAccess capabilities config image_ptr access generation decision =
   (case decision of None \<Rightarrow> (ResultInvalid, None) | Some _ \<Rightarrow>
     (let d = ShadowInitializeDecision access generation;
          decide = (\<lambda>r. (r, Some (ShadowSetDecision d r 0)))
      in case (capabilities, config, image_ptr, access) of
        (Some c, Some g, Some i, Some a) \<Rightarrow>
          (if \<not> IsVmcsShadowCapabilitiesValid (Some c) \<or>
              \<not> IsVmcsShadowConfigValid (Some g) (sc_physical_address_bits c) (sc_max_fields c) \<or>
              \<not> ConfigMatchesCapabilities (Some c) (Some g) \<or>
              \<not> IsVmcsShadowImageValid (Some i) \<or> \<not> IsVmcsShadowAccessValid (Some a)
           then (ResultInvalid, Some d)
           else if generation = 0 \<or> generation \<noteq> sg_generation g \<or>
                   generation \<noteq> si_generation i \<or> generation \<noteq> sa_generation a
           then decide ResultStale
           else if si_state i = VmcsShadowState_u32 ShadowQuarantined then decide ResultQuarantined
           else if si_state i \<noteq> VmcsShadowState_u32 ShadowActive \<or>
                   sa_field_index a \<ge> si_field_count i
           then (ResultInvalid, Some d)
           else case ResolveField (Some a) of None \<Rightarrow> (ResultInvalid, Some d)
            | Some rule \<Rightarrow>
                let write = (sa_operation a = VmcsShadowAccessOperation_u32 ShadowWrite)
                in if write \<and> fr_writable (kFieldRules ! rule) = 0 then decide ResultReflectExit
                   else let bitmap_enabled =
                              (if write then sg_flags g AND kVmcsShadowEnableWriteBitmap \<noteq> 0
                               else sg_flags g AND kVmcsShadowEnableReadBitmap \<noteq> 0);
                            bitmap = (if write then sg_write_bitmap g else sg_read_bitmap g)
                        in if \<not> bitmap_enabled \<or> IsBitSet bitmap (unat (sa_field_index a))
                           then decide ResultReflectExit
                           else decide ResultShadow)
      | _ \<Rightarrow> (ResultInvalid, Some d)))"

definition ApplyVmcsShadowAccess ::
  "VmcsShadowCapabilities option \<Rightarrow> VmcsShadowConfig option \<Rightarrow> VmcsShadowImage option \<Rightarrow>
   VmcsShadowAccess option \<Rightarrow> u64 \<Rightarrow> VmcsShadowDecision option \<Rightarrow>
   VmcsShadowAccessResult \<times> VmcsShadowImage option \<times> VmcsShadowDecision option" where
  "ApplyVmcsShadowAccess capabilities config image_ptr access generation decision =
   (case ClassifyVmcsShadowAccess capabilities config image_ptr access generation decision of
      (result, decision) \<Rightarrow>
        (if result \<noteq> ResultShadow then (result, image_ptr, decision)
         else case (ResolveField access, image_ptr, access, decision) of
           (Some rule, Some i, Some a, Some d) \<Rightarrow>
             (let field_mask = ShadowFieldMask (kFieldRules ! rule);
                  index = unat (sa_field_index a)
              in if field_mask = 0 \<or> sa_field_index a \<ge> si_field_count i
                 then (ResultInvalid, Some i,
                       Some (d\<lparr>sd_result := VmcsShadowAccessResult_u32 ResultInvalid\<rparr>))
                 else if sa_operation a = VmcsShadowAccessOperation_u32 ShadowWrite
                 then (result,
                       Some (i\<lparr>si_fields := (si_fields i)[index := sa_value a AND field_mask],
                               si_dirty_bitmap := (si_dirty_bitmap i)[index div 64 :=
                                 si_dirty_bitmap i ! (index div 64) OR push_bit (index mod 64) 1]\<rparr>),
                       Some (d\<lparr>sd_value := sa_value a AND field_mask\<rparr>))
                 else (result, Some i, Some (d\<lparr>sd_value := si_fields i ! index AND field_mask\<rparr>)))
         | _ \<Rightarrow> (ResultInvalid, image_ptr, decision)))"

section \<open>Bitmaps and fields\<close>

lemma nth_bitmap_bytes:
  assumes "length ws = 2" and "k < 16"
  shows "bitmap_bytes ws ! k = ucast (drop_bit (8 * (k mod 8)) (ws ! (k div 8)))"
proof -
  obtain x y where ws: "ws = [x, y]"
    using assms(1) by (auto simp: length_Suc_conv numeral_2_eq_2)
  show ?thesis
  proof (cases "k < 8")
    case True
    then show ?thesis by (simp add: ws bitmap_bytes_def nth_append del: upt_rec_numeral upt_Suc)
  next
    case False
    then have "k div 8 = 1" "k mod 8 = k - 8" using assms(2) by (auto simp: div_nat_eqI mod_if)
    moreover have "[0..<8] ! (k - 8) = k - 8" using assms(2) by (subst nth_upt) simp_all
    ultimately show ?thesis
      using False assms(2) by (simp add: ws bitmap_bytes_def nth_append del: upt_rec_numeral upt_Suc)
  qed
qed

lemma IsBitSet_bitmap_bytes:
  assumes "length ws = 2" and "j < 128"
  shows "IsBitSet (bitmap_bytes ws) j \<longleftrightarrow> bit (ws ! (j div 64)) (j mod 64)"
proof -
  have e: "8 * (j div 8 mod 8) + j mod 8 = j mod 64" "j div 8 div 8 = j div 64"
    using mod_mult2_eq [of j 8 8] by (simp_all add: div_mult2_eq)
  have "IsBitSet (bitmap_bytes ws) j \<longleftrightarrow> bit (ucast (drop_bit (8 * (j div 8 mod 8)) (ws ! (j div 64))) :: u8) (j mod 8)"
    using assms nth_bitmap_bytes [OF assms(1), of "j div 8"]
    by (simp add: IsBitSet_def e(2) push_bit_of_1 and_exp_eq_0_iff_not_bit)
  also have "\<dots> \<longleftrightarrow> bit (ws ! (j div 64)) (8 * (j div 8 mod 8) + j mod 8)"
  proof -
    define m where "m = j mod 8"
    have "m < 8" by (simp add: m_def)
    then show ?thesis unfolding m_def [symmetric] by (auto simp: bit_simps add.commute)
  qed
  finally show ?thesis unfolding e .
qed

lemma ResolveField_SomeD:
  assumes "ResolveField (Some a) = Some rule"
  shows "rule = unat (sa_field_index a)" and "rule < 62" and "FindFieldRule (sa_encoding a) = Some rule"
proof -
  have f: "FindFieldRule (sa_encoding a) = Some rule" "FieldIndex (Some rule) = unat (sa_field_index a)"
    using assms unfolding ResolveField_def
    by (cases "FindFieldRule (sa_encoding a)"; simp split: if_splits)+
  then show "rule = unat (sa_field_index a)" "rule < 62" "FindFieldRule (sa_encoding a) = Some rule"
    using FindFieldRule_SomeD [OF f(1)] by simp_all
qed

lemma ShadowFieldMask_rule:
  assumes "r < 62"
  shows "ShadowFieldMask (kFieldRules ! r) = FieldMask (fr_width (kFieldRules ! r))"
    and "ShadowFieldMask (kFieldRules ! r) \<noteq> 0"
  using field_rule_shape [of "kFieldRules ! r"] nth_mem [of r kFieldRules] assms by (auto simp: ShadowFieldMask_def FieldMask_def)

section \<open>When an access is shadowed\<close>

text \<open>
  The reference description: the field lies within the shadowed ones, the bitmap of the operation
  is enabled and does not select the field, and a written field is writable.
\<close>

definition shadow_ready :: "VmcsShadowCapabilities \<Rightarrow> VmcsShadowConfig \<Rightarrow> bool" where
  "shadow_ready c g \<longleftrightarrow> IsVmcsShadowCapabilitiesValid (Some c) \<and>
     IsVmcsShadowConfigValid (Some g) (sc_physical_address_bits c) (sc_max_fields c) \<and>
     ConfigMatchesCapabilities (Some c) (Some g)"

definition is_write :: "VmcsShadowAccess \<Rightarrow> bool" where
  "is_write a \<longleftrightarrow> sa_operation a = VmcsShadowAccessOperation_u32 ShadowWrite"

definition shadow_permits :: "VmcsShadowCapabilities \<Rightarrow> VmcsShadowConfig \<Rightarrow> VmcsShadowAccess \<Rightarrow> bool" where
  "shadow_permits c g a \<longleftrightarrow> IsVmcsShadowAccessValid (Some a) \<and>
     sa_generation a = sg_generation g \<and> sa_field_index a < sc_max_fields c \<and>
     (if is_write a
      then fr_writable (kFieldRules ! unat (sa_field_index a)) \<noteq> 0 \<and>
           sg_flags g AND kVmcsShadowEnableWriteBitmap \<noteq> 0 \<and>
           \<not> IsBitSet (sg_write_bitmap g) (unat (sa_field_index a))
      else sg_flags g AND kVmcsShadowEnableReadBitmap \<noteq> 0 \<and>
           \<not> IsBitSet (sg_read_bitmap g) (unat (sa_field_index a)))"

text \<open>An active image that is bound to a configuration.\<close>

definition shadow_bound :: "VmcsShadowCapabilities \<Rightarrow> VmcsShadowConfig \<Rightarrow> VmcsShadowImage \<Rightarrow> bool" where
  "shadow_bound c g i \<longleftrightarrow> IsVmcsShadowImageValid (Some i) \<and>
     length (si_fields i) = 128 \<and> length (si_dirty_bitmap i) = 2 \<and>
     si_state i = VmcsShadowState_u32 ShadowActive \<and> si_generation i = sg_generation g \<and>
     si_field_count i = sc_max_fields c"

lemma access_resolved:
  assumes "IsVmcsShadowAccessValid (Some a)"
  shows "ResolveField (Some a) = Some (unat (sa_field_index a))" and "unat (sa_field_index a) < 62"
    and "FindFieldRule (sa_encoding a) = Some (unat (sa_field_index a))"
    and "sa_generation a \<noteq> 0"
proof -
  obtain r where r: "ResolveField (Some a) = Some r"
    using assms by (auto simp: IsVmcsShadowAccessValid_def)
  show "ResolveField (Some a) = Some (unat (sa_field_index a))" "unat (sa_field_index a) < 62"
    "FindFieldRule (sa_encoding a) = Some (unat (sa_field_index a))"
    using r ResolveField_SomeD [OF r] by simp_all
  show "sa_generation a \<noteq> 0" using assms by (simp add: IsVmcsShadowAccessValid_def)
qed

lemma classify_shadowed:
  assumes "shadow_ready c g" and "shadow_bound c g i"
  shows "fst (ClassifyVmcsShadowAccess (Some c) (Some g) (Some i) (Some a) (sg_generation g) (Some d)) = ResultShadow
     \<longleftrightarrow> shadow_permits c g a"
proof (cases "IsVmcsShadowAccessValid (Some a)")
  case True
  then show ?thesis
    using assms access_resolved [OF True]
    by (auto simp: ClassifyVmcsShadowAccess_def shadow_ready_def shadow_bound_def shadow_permits_def
        is_write_def Let_def not_le)
next
  case False
  then show ?thesis by (simp add: ClassifyVmcsShadowAccess_def shadow_permits_def Let_def)
qed

lemma classify_shadow_decision:
  assumes "ClassifyVmcsShadowAccess c g i (Some a) gen d = (ResultShadow, d')"
  shows "d' = Some (ShadowSetDecision (ShadowInitializeDecision (Some a) gen) ResultShadow 0)"
  using assms by (simp add: ClassifyVmcsShadowAccess_def Let_def split: option.splits if_splits)

section \<open>One access\<close>

text \<open>What a shadowed write and a shadowed read do, and that nothing else touches the image.\<close>

definition shadow_store :: "VmcsShadowAccess \<Rightarrow> VmcsShadowImage \<Rightarrow> VmcsShadowImage" where
  "shadow_store a i =
     (let j = unat (sa_field_index a)
      in i\<lparr>si_fields := (si_fields i)[j := sa_value a AND ShadowFieldMask (kFieldRules ! j)],
           si_dirty_bitmap := (si_dirty_bitmap i)[j div 64 :=
             si_dirty_bitmap i ! (j div 64) OR push_bit (j mod 64) 1]\<rparr>)"

lemma apply_not_shadowed:
  assumes "fst (ClassifyVmcsShadowAccess c g i a gen d) \<noteq> ResultShadow"
  shows "ApplyVmcsShadowAccess c g i a gen d =
    (fst (ClassifyVmcsShadowAccess c g i a gen d), i, snd (ClassifyVmcsShadowAccess c g i a gen d))"
  using assms by (simp add: ApplyVmcsShadowAccess_def split_beta)

lemma apply_shadowed:
  assumes "shadow_ready c g" and "shadow_bound c g i" and "shadow_permits c g a"
  shows "ApplyVmcsShadowAccess (Some c) (Some g) (Some i) (Some a) (sg_generation g) (Some d) =
    (let v = (if is_write a then sa_value a else si_fields i ! unat (sa_field_index a)) AND
               ShadowFieldMask (kFieldRules ! unat (sa_field_index a))
     in (ResultShadow, Some (if is_write a then shadow_store a i else i),
         Some (ShadowSetDecision (ShadowInitializeDecision (Some a) (sg_generation g)) ResultShadow v)))"
proof -
  obtain d' where d': "ClassifyVmcsShadowAccess (Some c) (Some g) (Some i) (Some a) (sg_generation g) (Some d) = (ResultShadow, d')"
    using classify_shadowed [OF assms(1,2), of a d] assms(3) by (metis prod.collapse)
  have v: "IsVmcsShadowAccessValid (Some a)" and lt: "sa_field_index a < si_field_count i"
    using assms(2,3) by (auto simp: shadow_permits_def shadow_bound_def)
  show ?thesis
    using access_resolved [OF v] ShadowFieldMask_rule(2) [of "unat (sa_field_index a)"] lt
    unfolding ApplyVmcsShadowAccess_def d'
    by (simp add: classify_shadow_decision [OF d'] is_write_def shadow_store_def Let_def
        ShadowSetDecision_def not_le)
qed

lemma apply_image:
  assumes "shadow_ready c g" and "shadow_bound c g i"
  shows "fst (snd (ApplyVmcsShadowAccess (Some c) (Some g) (Some i) (Some a) (sg_generation g) (Some d))) =
    Some (if shadow_permits c g a \<and> is_write a then shadow_store a i else i)"
proof (cases "shadow_permits c g a")
  case True
  then show ?thesis by (simp add: apply_shadowed [OF assms] Let_def)
next
  case False
  then show ?thesis
    using classify_shadowed [OF assms, of a d] by (simp add: apply_not_shadowed)
qed

lemma dirty_store:
  assumes "length (si_dirty_bitmap i) = 2" and "j < 128" and "unat (sa_field_index a) < 128"
  shows "bit (si_dirty_bitmap (shadow_store a i) ! (j div 64)) (j mod 64) \<longleftrightarrow>
    bit (si_dirty_bitmap i ! (j div 64)) (j mod 64) \<or> j = unat (sa_field_index a)"
proof -
  let ?k = "unat (sa_field_index a)"
  have eq: "j = ?k \<longleftrightarrow> j div 64 = ?k div 64 \<and> j mod 64 = ?k mod 64"
    by (metis div_mult_mod_eq)
  have "?k div 64 < 2" using assms(3) by simp
  then show ?thesis
    using assms(1) unfolding eq shadow_store_def Let_def
    by (cases "j div 64 = ?k div 64") (auto simp: bit_simps)
qed

lemma BitmapTailIsClear_iff:
  assumes "length ws = 2"
  shows "BitmapTailIsClear (bitmap_bytes ws) n \<longleftrightarrow>
    unat n \<le> 128 \<and> (\<forall>j. unat n \<le> j \<and> j < 128 \<longrightarrow> \<not> bit (ws ! (j div 64)) (j mod 64))"
proof -
  have "BitmapTailIsClear (bitmap_bytes ws) n \<longleftrightarrow>
    unat n \<le> 128 \<and> (\<forall>j. unat n \<le> j \<and> j < 128 \<longrightarrow> \<not> IsBitSet (bitmap_bytes ws) j)"
    by (auto simp: BitmapTailIsClear_def list_all_iff not_le not_less)
  then show ?thesis using IsBitSet_bitmap_bytes [OF assms] by blast
qed

lemma shadow_store_image:
  assumes "IsVmcsShadowImageValid (Some i)" and "length (si_dirty_bitmap i) = 2"
    and "si_state i \<noteq> VmcsShadowState_u32 ShadowEmpty" and "sa_field_index a < si_field_count i"
  shows "IsVmcsShadowImageValid (Some (shadow_store a i))"
proof -
  have n: "unat (si_field_count i) \<le> 128"
    and tail: "BitmapTailIsClear (bitmap_bytes (si_dirty_bitmap i)) (si_field_count i)"
    using assms(1,3) by (auto simp: IsVmcsShadowImageValid_def word_le_nat_alt not_less split: if_splits)
  have k: "unat (sa_field_index a) < unat (si_field_count i)"
    using assms(4) by (simp add: word_less_nat_alt)
  have l: "length (si_dirty_bitmap (shadow_store a i)) = 2"
    using assms(2) by (simp add: shadow_store_def Let_def)
  have "BitmapTailIsClear (bitmap_bytes (si_dirty_bitmap (shadow_store a i))) (si_field_count i)"
    using tail n k dirty_store [OF assms(2), of _ a] unfolding BitmapTailIsClear_iff [OF l] BitmapTailIsClear_iff [OF assms(2)]
    by auto
  then show ?thesis
    using assms(1,3) by (auto simp: IsVmcsShadowImageValid_def shadow_store_def Let_def split: if_splits)
qed

lemma shadow_store_bound:
  assumes "shadow_bound c g i" and "shadow_permits c g a"
  shows "shadow_bound c g (shadow_store a i)"
  using shadow_store_image [of i a] assms
  by (simp add: shadow_bound_def shadow_permits_def) (simp add: shadow_store_def Let_def)

section \<open>Runs of accesses\<close>

definition shadow_access :: "VmcsShadowCapabilities \<Rightarrow> VmcsShadowConfig \<Rightarrow> VmcsShadowAccess \<Rightarrow>
  VmcsShadowImage \<Rightarrow> VmcsShadowImage" where
  "shadow_access c g a i =
     (case fst (snd (ApplyVmcsShadowAccess (Some c) (Some g) (Some i) (Some a) (sg_generation g)
             (Some (ShadowInitializeDecision None 0)))) of Some i' \<Rightarrow> i' | None \<Rightarrow> i)"

definition shadow_run where
  "shadow_run c g as i = fold (shadow_access c g) as i"

text \<open>The shadowed writes to a field, and the value the last of them leaves.\<close>

definition field_writes where
  "field_writes c g as j = filter (\<lambda>a. shadow_permits c g a \<and> is_write a \<and> unat (sa_field_index a) = j) as"

definition field_value where
  "field_value c g as j = (if field_writes c g as j = [] then 0
     else sa_value (last (field_writes c g as j)) AND ShadowFieldMask (kFieldRules ! j))"

lemma shadow_access_image:
  assumes "shadow_ready c g" and "shadow_bound c g i"
  shows "shadow_access c g a i = (if shadow_permits c g a \<and> is_write a then shadow_store a i else i)"
  by (simp add: shadow_access_def apply_image [OF assms])

lemma classify_decides: "snd (ClassifyVmcsShadowAccess c g i a gen (Some d)) \<noteq> None"
  by (simp add: ClassifyVmcsShadowAccess_def Let_def split: option.split)

lemma shadow_run_snoc: "shadow_run c g (as @ [a]) i = shadow_access c g a (shadow_run c g as i)"
  by (simp add: shadow_run_def)

lemma shadow_run_bound:
  assumes "shadow_ready c g" and "shadow_bound c g i"
  shows "shadow_bound c g (shadow_run c g as i)"
proof (induction as rule: rev_induct)
  case Nil
  then show ?case using assms(2) by (simp add: shadow_run_def)
next
  case (snoc a as)
  then show ?case
    using shadow_store_bound [OF snoc] by (simp add: shadow_run_snoc shadow_access_image [OF assms(1) snoc])
qed

lemma begin_bound:
  assumes "BeginVmcsShadow (Some c) (Some g) (Some i0) = (True, Some i)"
  shows "shadow_ready c g" and "shadow_bound c g i" and "si_fields i = replicate 128 0"
    and "si_dirty_bitmap i = replicate 2 0" and "si_generation i \<noteq> 0"
proof -
  have r: "shadow_ready c g" and v: "IsVmcsShadowImageValid (Some i)"
    and i: "i = zero_shadow_image\<lparr>si_size := 1080, si_version := 1, si_generation := sg_generation g,
       si_state := 1, si_field_count := sc_max_fields c\<rparr>"
    using assms by (auto simp: BeginVmcsShadow_def shadow_ready_def Let_def split: if_splits)
  show "shadow_ready c g" by (rule r)
  show "shadow_bound c g i" using v unfolding shadow_bound_def by (simp add: i zero_shadow_image_def)
  show "si_fields i = replicate 128 0" "si_dirty_bitmap i = replicate 2 0"
    by (simp_all add: i zero_shadow_image_def)
  show "si_generation i \<noteq> 0" using v by (auto simp: IsVmcsShadowImageValid_def i split: if_splits)
qed

lemma field_value_snoc:
  "field_value c g (as @ [a]) j = (if shadow_permits c g a \<and> is_write a \<and> unat (sa_field_index a) = j
     then sa_value a AND ShadowFieldMask (kFieldRules ! j) else field_value c g as j)"
  by (auto simp: field_value_def field_writes_def)

lemma shadow_run_exact:
  assumes "BeginVmcsShadow (Some c) (Some g) (Some i0) = (True, Some i)" and "j < 128"
  shows "si_fields (shadow_run c g as i) ! j = field_value c g as j"
    and "bit (si_dirty_bitmap (shadow_run c g as i) ! (j div 64)) (j mod 64) \<longleftrightarrow> field_writes c g as j \<noteq> []"
proof (induction as rule: rev_induct)
  case Nil
  note b = begin_bound [OF assms(1)]
  { case 1 show ?case using b(3) assms(2) by (simp add: shadow_run_def field_value_def field_writes_def) }
  { case 2
    have "j div 64 < 2" using assms(2) by simp
    then show ?case using b(4) by (simp add: shadow_run_def field_writes_def) }
next
  case (snoc a as)
  note b = begin_bound [OF assms(1)]
  let ?i = "shadow_run c g as i"
  have bd: "shadow_bound c g ?i" by (rule shadow_run_bound [OF b(1,2)])
  then have len: "length (si_fields ?i) = 128" "length (si_dirty_bitmap ?i) = 2"
    by (simp_all add: shadow_bound_def)
  have lt: "shadow_permits c g a \<Longrightarrow> unat (sa_field_index a) < 128"
    using access_resolved(2) [of a] by (auto simp: shadow_permits_def)
  note step = shadow_run_snoc shadow_access_image [OF b(1) bd]
  { case 1
    show ?case using snoc(1) len lt assms(2)
      by (simp add: step field_value_snoc) (auto simp: shadow_store_def Let_def nth_list_update) }
  { case 2
    show ?case using snoc(2) dirty_store [OF len(2) assms(2), of a] lt
      by (auto simp: step field_writes_def) }
qed

lemma field_value_masked:
  "field_value c g as j AND ShadowFieldMask (kFieldRules ! j) = field_value c g as j"
  by (simp add: field_value_def and.assoc)

text \<open>
C30: After any sequence of accesses, a shadow image bound by BeginVmcsShadow holds in each field
exactly the value of the last shadowed write, cut to the width of the field, and zero where
there was none; its dirty bits are exactly the written fields; and the next access is shadowed
exactly when the configuration permits it and then returns that value.
\<close>

theorem shadow_image_exact:
  assumes "BeginVmcsShadow (Some c) (Some g) (Some i0) = (True, Some i)"
    and "i' = shadow_run c g as i"
  shows "IsVmcsShadowImageValid (Some i') \<and>
    (\<forall>j < 128. si_fields i' ! j = field_value c g as j \<and>
       (bit (si_dirty_bitmap i' ! (j div 64)) (j mod 64) \<longleftrightarrow> field_writes c g as j \<noteq> [])) \<and>
    (\<exists>r d'. ApplyVmcsShadowAccess (Some c) (Some g) (Some i') (Some a) (sg_generation g) (Some d) =
         (r, Some (shadow_run c g (as @ [a]) i), Some d') \<and>
       (r = ResultShadow \<longleftrightarrow> shadow_permits c g a) \<and>
       (r = ResultShadow \<longrightarrow> sd_value d' = field_value c g (as @ [a]) (unat (sa_field_index a))))"
proof -
  note b = begin_bound [OF assms(1)]
  have bd: "shadow_bound c g i'" unfolding assms(2) by (rule shadow_run_bound [OF b(1,2)])
  let ?A = "ApplyVmcsShadowAccess (Some c) (Some g) (Some i') (Some a) (sg_generation g) (Some d)"
  have img: "fst (snd ?A) = Some (shadow_run c g (as @ [a]) i)"
    unfolding shadow_run_snoc assms(2) [symmetric] apply_image [OF b(1) bd] shadow_access_image [OF b(1) bd] ..
  have "\<exists>r d'. ?A = (r, Some (shadow_run c g (as @ [a]) i), Some d') \<and>
       (r = ResultShadow \<longleftrightarrow> shadow_permits c g a) \<and>
       (r = ResultShadow \<longrightarrow> sd_value d' = field_value c g (as @ [a]) (unat (sa_field_index a)))"
  proof (cases "shadow_permits c g a")
    case True
    then have j: "unat (sa_field_index a) < 128"
      using access_resolved(2) [of a] by (auto simp: shadow_permits_def)
    show ?thesis
      using True img shadow_run_exact(1) [OF assms(1) j, of as]
      by (simp add: apply_shadowed [OF b(1) bd] Let_def ShadowSetDecision_def field_value_snoc
          assms(2) [symmetric] field_value_masked)
  next
    case False
    then have n: "fst (ClassifyVmcsShadowAccess (Some c) (Some g) (Some i') (Some a) (sg_generation g) (Some d)) \<noteq> ResultShadow"
      using classify_shadowed [OF b(1) bd] by simp
    obtain d' where "snd (ClassifyVmcsShadowAccess (Some c) (Some g) (Some i') (Some a) (sg_generation g) (Some d)) = Some d'"
      using classify_decides by blast
    then show ?thesis
      using False n img unfolding apply_not_shadowed [OF n] by auto
  qed
  moreover have "IsVmcsShadowImageValid (Some i')" using bd by (simp add: shadow_bound_def)
  ultimately show ?thesis using shadow_run_exact [OF assms(1)] assms(2) by simp
qed

section \<open>The life cycle of an image\<close>

inductive shadow_step :: "VmcsShadowImage \<Rightarrow> VmcsShadowImage \<Rightarrow> bool" where
  step_clear: "ClearVmcsShadow (Some i) gen = (True, Some j) \<Longrightarrow> shadow_step i j"
| step_rebind: "RebindVmcsShadow c g gen (Some i) = (True, Some j) \<Longrightarrow> shadow_step i j"
| step_quarantine: "QuarantineVmcsShadow (Some i) gen = (True, Some j) \<Longrightarrow> shadow_step i j"
| step_access: "ApplyVmcsShadowAccess c g (Some i) a gen d = (r, Some j, d') \<Longrightarrow> shadow_step i j"

definition field_fits :: "VmcsShadowImage \<Rightarrow> nat \<Rightarrow> bool" where
  "field_fits i j \<longleftrightarrow> (if j < 62 then si_fields i ! j AND ShadowFieldMask (kFieldRules ! j) = si_fields i ! j
     else si_fields i ! j = 0)"

definition image_inv :: "VmcsShadowImage \<Rightarrow> bool" where
  "image_inv i \<longleftrightarrow> IsVmcsShadowImageValid (Some i) \<and> si_state i \<noteq> VmcsShadowState_u32 ShadowEmpty \<and>
     length (si_fields i) = 128 \<and> length (si_dirty_bitmap i) = 2 \<and> (\<forall>j < 128. field_fits i j)"

lemma classify_shadowD:
  assumes "ClassifyVmcsShadowAccess c g i a gen d = (ResultShadow, d')"
  shows "\<exists>cc gg ii aa. c = Some cc \<and> g = Some gg \<and> i = Some ii \<and> a = Some aa \<and> shadow_ready cc gg \<and>
    IsVmcsShadowImageValid (Some ii) \<and> IsVmcsShadowAccessValid (Some aa) \<and> gen = si_generation ii \<and>
    si_state ii = VmcsShadowState_u32 ShadowActive \<and> sa_field_index aa < si_field_count ii"
  using assms unfolding ClassifyVmcsShadowAccess_def shadow_ready_def Let_def
  by (simp split: option.splits if_splits)

lemma apply_cases:
  assumes "ApplyVmcsShadowAccess c g (Some i) a gen d = (r, Some j, d')"
  shows "j = i \<or> (\<exists>aa. a = Some aa \<and> IsVmcsShadowAccessValid (Some aa) \<and> gen = si_generation i \<and>
    si_state i = VmcsShadowState_u32 ShadowActive \<and> sa_field_index aa < si_field_count i \<and> j = shadow_store aa i)"
proof (cases "fst (ClassifyVmcsShadowAccess c g (Some i) a gen d) = ResultShadow")
  case True
  then obtain d1 where d1: "ClassifyVmcsShadowAccess c g (Some i) a gen d = (ResultShadow, d1)"
    by (metis prod.collapse)
  obtain aa where aa: "a = Some aa" "IsVmcsShadowAccessValid (Some aa)" "gen = si_generation i"
    "si_state i = VmcsShadowState_u32 ShadowActive" "sa_field_index aa < si_field_count i"
    using classify_shadowD [OF d1] by auto
  show ?thesis
    using assms aa access_resolved(1) [OF aa(2)] unfolding ApplyVmcsShadowAccess_def d1
    by (auto simp: shadow_store_def Let_def split: if_splits option.splits)
next
  case False
  then show ?thesis using assms by (simp add: apply_not_shadowed)
qed

lemma store_inv:
  assumes "image_inv i" and "IsVmcsShadowAccessValid (Some a)" and "sa_field_index a < si_field_count i"
  shows "image_inv (shadow_store a i)"
proof -
  have k: "unat (sa_field_index a) < 62" by (rule access_resolved(2) [OF assms(2)])
  have "IsVmcsShadowImageValid (Some (shadow_store a i))"
    using assms by (intro shadow_store_image) (auto simp: image_inv_def)
  moreover have "field_fits (shadow_store a i) j" if "j < 128" for j
    using assms(1) that k
    by (cases "j = unat (sa_field_index a)")
       (auto simp: image_inv_def field_fits_def shadow_store_def Let_def and.assoc)
  ultimately show ?thesis using assms(1) by (auto simp: image_inv_def shadow_store_def Let_def)
qed

lemma begin_inv:
  assumes "BeginVmcsShadow (Some c) (Some g) (Some i0) = (True, Some i)"
  shows "image_inv i"
  using begin_bound [OF assms] by (auto simp: image_inv_def shadow_bound_def field_fits_def)

lemma rebind_begin:
  assumes "RebindVmcsShadow c g gen (Some i) = (True, Some j)"
  shows "\<exists>cc gg. c = Some cc \<and> g = Some gg \<and> BeginVmcsShadow (Some cc) (Some gg) (Some i) = (True, Some j) \<and>
    si_state i = VmcsShadowState_u32 ShadowCleared \<and> gen = sg_generation gg \<and> si_generation i < gen"
  using assms by (auto simp: RebindVmcsShadow_def not_le split: option.splits if_splits)

lemma shadow_step_inv:
  assumes "shadow_step i j" and "image_inv i"
  shows "image_inv j \<and> si_generation i \<le> si_generation j \<and>
    (si_state i = VmcsShadowState_u32 ShadowQuarantined \<longrightarrow> j = i)"
  using assms
proof (cases rule: shadow_step.cases)
  case (step_clear gen)
  then show ?thesis using assms(2)
    by (auto simp: ClearVmcsShadow_def image_inv_def field_fits_def IsVmcsShadowImageValid_def
        IsShadowStateValid_def split: if_splits)
next
  case (step_rebind c g gen)
  obtain cc gg where b: "BeginVmcsShadow (Some cc) (Some gg) (Some i) = (True, Some j)"
    "si_state i = VmcsShadowState_u32 ShadowCleared" "si_generation i < sg_generation gg"
    using rebind_begin [OF step_rebind] by auto
  show ?thesis using begin_inv [OF b(1)] begin_bound(2) [OF b(1)] b(2,3) by (simp add: shadow_bound_def)
next
  case (step_quarantine gen)
  then show ?thesis using assms(2)
    by (auto simp: QuarantineVmcsShadow_def image_inv_def field_fits_def IsVmcsShadowImageValid_def
        IsShadowStateValid_def split: if_splits)
next
  case (step_access c g a gen d r d')
  show ?thesis using apply_cases [OF step_access] assms(2) store_inv [OF assms(2)]
    by (auto simp: shadow_store_def Let_def)
qed

interpretation shadow: invariant_machine shadow_step image_inv
  using shadow_step_inv by unfold_locales blast

lemma shadow_generation_mono:
  assumes "shadow_step\<^sup>*\<^sup>* i j" and "image_inv i"
  shows "si_generation i \<le> si_generation j"
  using assms(1)
proof (induction rule: rtranclp_induct)
  case (step k l)
  then show ?case using shadow_step_inv shadow.star_inv [OF step(1) assms(2)] order_trans by blast
qed simp

lemma shadow_quarantine_final:
  assumes "shadow_step\<^sup>*\<^sup>* j k" and "image_inv j" and "si_state j = VmcsShadowState_u32 ShadowQuarantined"
  shows "k = j"
  using assms(1)
proof (induction rule: rtranclp_induct)
  case (step k l)
  then show ?case using shadow_step_inv [OF step(2)] assms(2,3) by simp
qed simp

theorem shadow_lifecycle_safe:
  assumes "BeginVmcsShadow (Some c) (Some g) (Some i0) = (True, Some i)" and "shadow_step\<^sup>*\<^sup>* i j"
  shows "IsVmcsShadowImageValid (Some j) \<and> si_generation i \<le> si_generation j \<and>
    (\<forall>k < 62. si_fields j ! k AND ShadowFieldMask (kFieldRules ! k) = si_fields j ! k) \<and>
    (\<forall>c' g' gen j'. RebindVmcsShadow c' g' gen (Some j) = (True, Some j') \<longrightarrow>
       si_generation j < si_generation j' \<and> si_fields j' = replicate 128 0 \<and> si_dirty_bitmap j' = replicate 2 0) \<and>
    (\<forall>c' g' a gen d. gen \<noteq> si_generation j \<or> si_state j \<noteq> VmcsShadowState_u32 ShadowActive \<longrightarrow>
       fst (ApplyVmcsShadowAccess c' g' (Some j) a gen d) \<noteq> ResultShadow \<and>
       fst (snd (ApplyVmcsShadowAccess c' g' (Some j) a gen d)) = Some j) \<and>
    (si_state j = VmcsShadowState_u32 ShadowQuarantined \<longrightarrow> (\<forall>k. shadow_step\<^sup>*\<^sup>* j k \<longrightarrow> k = j))"
proof (intro conjI allI impI)
  have inv_i: "image_inv i" by (rule begin_inv [OF assms(1)])
  have inv: "image_inv j" by (rule shadow.star_inv [OF assms(2) inv_i])
  then show "IsVmcsShadowImageValid (Some j)" by (simp add: image_inv_def)
  show "si_generation i \<le> si_generation j" by (rule shadow_generation_mono [OF assms(2) inv_i])
  show "si_fields j ! k AND ShadowFieldMask (kFieldRules ! k) = si_fields j ! k" if "k < 62" for k
    using inv that by (auto simp: image_inv_def field_fits_def)
  show "k = j" if "si_state j = VmcsShadowState_u32 ShadowQuarantined" "shadow_step\<^sup>*\<^sup>* j k" for k
    by (rule shadow_quarantine_final [OF that(2) inv that(1)])
next
  fix c' g' gen j' assume r: "RebindVmcsShadow c' g' gen (Some j) = (True, Some j')"
  obtain cc gg where b: "BeginVmcsShadow (Some cc) (Some gg) (Some j) = (True, Some j')"
    "si_generation j < sg_generation gg" using rebind_begin [OF r] by auto
  show "si_generation j < si_generation j'" "si_fields j' = replicate 128 0" "si_dirty_bitmap j' = replicate 2 0"
    using begin_bound [OF b(1)] b(2) by (simp_all add: shadow_bound_def)
next
  fix c' g' a gen d
  assume st: "gen \<noteq> si_generation j \<or> si_state j \<noteq> VmcsShadowState_u32 ShadowActive"
  have n: "fst (ClassifyVmcsShadowAccess c' g' (Some j) a gen d) \<noteq> ResultShadow"
    using classify_shadowD [of c' g' "Some j" a gen d] st by (metis option.inject prod.collapse)
  show "fst (ApplyVmcsShadowAccess c' g' (Some j) a gen d) \<noteq> ResultShadow"
    "fst (snd (ApplyVmcsShadowAccess c' g' (Some j) a gen d)) = Some j"
    using n by (simp_all add: apply_not_shadowed [OF n])
qed

section \<open>Agreement with the nested VMCS store\<close>

text \<open>An image mirrors the current VMCS when the fields of the rule table have the same values.\<close>

definition mirrors :: "VmcsShadowImage \<Rightarrow> 's NestedVcpu \<Rightarrow> bool" where
  "mirrors i v \<longleftrightarrow> (case CurrentVmcs (Some v) of None \<Rightarrow> False
     | Some slot \<Rightarrow> \<forall>k < 62. si_fields i ! k = v12_fields (nv_vmcs v ! slot) ! k)"

lemma read_mirrored:
  assumes "mirrors i v" and "FindFieldRule e = Some k"
  shows "ReadNestedVmcsField (Some v) e = Some (si_fields i ! k AND ShadowFieldMask (kFieldRules ! k))"
proof -
  obtain slot where s: "CurrentVmcs (Some v) = Some slot"
    "\<forall>k < 62. si_fields i ! k = v12_fields (nv_vmcs v ! slot) ! k"
    using assms(1) by (auto simp: mirrors_def split: option.splits)
  have "k < 62" by (rule FindFieldRule_SomeD(1) [OF assms(2)])
  then show ?thesis using s assms(2) by (simp add: ReadNestedVmcsField_def ShadowFieldMask_rule(1))
qed

lemma write_mirrored:
  assumes "mirrors i v" and "nested_inv v" and "length (si_fields i) = 128"
    and "FindFieldRule (sa_encoding a) = Some (unat (sa_field_index a))"
    and "WriteNestedVmcsField v (sa_encoding a) (sa_value a) = (True, w)"
  shows "mirrors (shadow_store a i) w"
proof -
  let ?k = "unat (sa_field_index a)"
  obtain slot where s: "CurrentVmcs (Some v) = Some slot"
    "\<forall>k < 62. si_fields i ! k = v12_fields (nv_vmcs v ! slot) ! k"
    using assms(1) by (auto simp: mirrors_def split: option.splits)
  have k: "?k < 62" by (rule FindFieldRule_SomeD(1) [OF assms(4)])
  have w: "w = update_vmcs slot (\<lambda>m. WriteStoredField m ?k (sa_value a)) v"
    using assms(4,5) s(1) by (auto simp: WriteNestedVmcsField_def Let_def split: if_splits)
  have q: "quiet (\<lambda>m. WriteStoredField m ?k (sa_value a))" by (rule quiet_WriteStoredField [OF k])
  have ok: "slots_ok (nv_vmcs v)" by (rule nested_inv_slots [OF assms(2)])
  note cur = CurrentVmcs_SomeD [OF s(1) ok]
  have "CurrentVmcs (Some w) = Some slot"
    unfolding w using CurrentVmcs_like [where f = "\<lambda>m. WriteStoredField m ?k (sa_value a)", OF ok quiet_like [OF q]] s(1)
    by simp
  moreover have "length (v12_fields (nv_vmcs v ! slot)) = 96"
    using cur(5) by (simp add: fields_ok_def)
  ultimately show ?thesis
    using s(2) k cur(2) assms(3)
    by (auto simp: mirrors_def w update_vmcs_def WriteStoredField_def shadow_store_def Let_def
        ShadowFieldMask_rule(1) nth_list_update)
qed

lemma write_refused:
  assumes "mirrors i v" and "FindFieldRule e = Some k" and "fr_writable (kFieldRules ! k) \<noteq> 0"
    and "WriteNestedVmcsField v e x = (False, w)"
  shows "w = v \<and> \<not> ValidateControlValue (Some v) k x"
proof -
  obtain slot where s: "CurrentVmcs (Some v) = Some slot"
    using assms(1) by (auto simp: mirrors_def split: option.splits)
  show ?thesis
    using assms(2-4) s FindFieldRule_SomeD [OF assms(2)]
    by (auto simp: WriteNestedVmcsField_def ValidateControlValue_def Let_def split: if_splits)
qed

text \<open>
C31: As long as the shadow image mirrors the current VMCS12, a shadowed read returns what VMREAD
through the nested store returns, and a shadowed write keeps the mirror whenever the nested
store accepts the value; the store refuses only values that fail the control validation.
\<close>

theorem shadow_agrees_with_vmcs12:
  assumes "nested_inv v" and "mirrors i v" and "shadow_ready c g" and "shadow_bound c g i"
    and "shadow_permits c g a"
  shows "\<exists>i' d'. ApplyVmcsShadowAccess (Some c) (Some g) (Some i) (Some a) (sg_generation g) (Some d) =
      (ResultShadow, Some i', Some d') \<and>
    (if is_write a
     then case WriteNestedVmcsField v (sa_encoding a) (sa_value a) of
            (True, w) \<Rightarrow> mirrors i' w \<and> ReadNestedVmcsField (Some w) (sa_encoding a) = Some (sd_value d')
          | (False, w) \<Rightarrow> w = v \<and> \<not> ValidateControlValue (Some v) (unat (sa_field_index a)) (sa_value a)
     else i' = i \<and> ReadNestedVmcsField (Some v) (sa_encoding a) = Some (sd_value d'))"
proof -
  let ?k = "unat (sa_field_index a)"
  have v: "IsVmcsShadowAccessValid (Some a)" using assms(5) by (simp add: shadow_permits_def)
  note r = access_resolved [OF v]
  have len: "length (si_fields i) = 128" using assms(4) by (simp add: shadow_bound_def)
  note ap = apply_shadowed [OF assms(3-5), of d]
  show ?thesis
  proof (cases "is_write a")
    case True
    have wr: "fr_writable (kFieldRules ! ?k) \<noteq> 0" using assms(5) True by (simp add: shadow_permits_def)
    have st: "si_fields (shadow_store a i) ! ?k = sa_value a AND ShadowFieldMask (kFieldRules ! ?k)"
      using r(2) len by (simp add: shadow_store_def Let_def)
    obtain b w where bw: "WriteNestedVmcsField v (sa_encoding a) (sa_value a) = (b, w)" by fastforce
    show ?thesis
    proof (cases b)
      case True
      have m: "mirrors (shadow_store a i) w"
        using bw True by (intro write_mirrored [OF assms(2,1) len r(3)]) simp
      show ?thesis
        using \<open>is_write a\<close> True m read_mirrored [OF m r(3)] unfolding bw ap st
        by (simp add: Let_def ShadowSetDecision_def and.assoc)
    next
      case False
      show ?thesis
        using \<open>is_write a\<close> False write_refused [OF assms(2) r(3) wr, of "sa_value a" w] bw unfolding ap
        by (simp add: Let_def)
    qed
  next
    case False
    then show ?thesis
      using read_mirrored [OF assms(2) r(3)] unfolding ap by (simp add: Let_def ShadowSetDecision_def)
  qed
qed

section \<open>Examples\<close>

definition sample_shadow_caps :: VmcsShadowCapabilities where
  "sample_shadow_caps = \<lparr>sc_size = 40, sc_version = 1, sc_feature_flags = 15, sc_max_fields = 62,
     sc_physical_address_bits = 48, sc_generation = 7, sc_reserved = 0\<rparr>"

definition sample_shadow_config :: VmcsShadowConfig where
  "sample_shadow_config = \<lparr>sg_size = 80, sg_version = 1, sg_link_pointer = NOT 0,
     sg_read_bitmap_physical = 0x1000, sg_write_bitmap_physical = 0x2000, sg_flags = 6, sg_reserved = 0,
     sg_generation = 7, sg_read_bitmap = replicate 16 0, sg_write_bitmap = replicate 16 0\<rparr>"

definition sample_shadow_access :: "VmcsShadowAccessOperation \<Rightarrow> u64 \<Rightarrow> VmcsShadowAccess" where
  "sample_shadow_access operation value = \<lparr>sa_size = 40, sa_version = 1, sa_field_index = 20, sa_encoding = 0x681E,
     sa_operation = VmcsShadowAccessOperation_u32 operation, sa_reserved = 0, sa_value = value, sa_generation = 7\<rparr>"

definition sample_shadow_image :: VmcsShadowImage where
  "sample_shadow_image = zero_shadow_image\<lparr>si_size := 1080, si_version := 1, si_generation := 7,
     si_state := 1, si_field_count := 62\<rparr>"

lemma zero_bitmap_clear: "BitmapTailIsClear (replicate 16 0) 62"
  by (auto simp: BitmapTailIsClear_def list_all_iff IsBitSet_def)

lemma sample_shadow_begin:
  "BeginVmcsShadow (Some sample_shadow_caps) (Some sample_shadow_config) (Some zero_shadow_image) =
     (True, Some sample_shadow_image)"
proof -
  have t: "BitmapTailIsClear (bitmap_bytes (replicate 2 0)) 62"
    by (subst BitmapTailIsClear_iff) auto
  show ?thesis
    using t zero_bitmap_clear
    by (simp add: BeginVmcsShadow_def IsVmcsShadowCapabilitiesValid_def IsVmcsShadowConfigValid_def
        ConfigMatchesCapabilities_def IsVersionedSizeValid_def IsPhysicalPage_def sample_shadow_caps_def
        sample_shadow_config_def sample_shadow_image_def zero_shadow_image_def IsVmcsShadowImageValid_def
        IsShadowStateValid_def Let_def BitmapIsZero_def)
qed


definition sample_mirror :: VmcsShadowImage where
  "sample_mirror = sample_shadow_image\<lparr>si_fields := v12_fields sample_slot @ replicate 32 0\<rparr>"

lemma sample_shadow_permits: "shadow_permits sample_shadow_caps sample_shadow_config (sample_shadow_access operation x)"
  by (cases operation) (simp_all add: shadow_permits_def IsVmcsShadowAccessValid_def IsVersionedSizeValid_def IsOperationValid_def
      ResolveField_def sample_shadow_access_def sample_shadow_caps_def sample_shadow_config_def is_write_def
      field_indices kFieldRules_def IsBitSet_def)

lemma sample_mirrors: "mirrors sample_mirror sample_vcpu"
proof -
  have "length (v12_fields sample_slot) = 96" using sample_slot_fields by (simp add: fields_ok_def)
  then show ?thesis by (simp add: mirrors_def sample_current sample_slots sample_mirror_def nth_append)
qed

lemma sample_mirror_bound: "shadow_bound sample_shadow_caps sample_shadow_config sample_mirror"
proof -
  have "length (v12_fields sample_slot) = 96" using sample_slot_fields by (simp add: fields_ok_def)
  moreover have "IsVmcsShadowImageValid (Some (i\<lparr>si_fields := f\<rparr>)) = IsVmcsShadowImageValid (Some i)" for i f
    by (simp add: IsVmcsShadowImageValid_def)
  ultimately show ?thesis
    using begin_bound(2) [OF sample_shadow_begin] by (simp add: shadow_bound_def sample_mirror_def)
qed

theorem shadow_agrees_with_vmcs12_witness:
  "\<exists>i' d'. ApplyVmcsShadowAccess (Some sample_shadow_caps) (Some sample_shadow_config) (Some sample_mirror)
      (Some (sample_shadow_access ShadowRead 0)) 7 (Some (ShadowInitializeDecision None 0)) = (ResultShadow, Some i', Some d') \<and>
     ReadNestedVmcsField (Some sample_vcpu) kVmcsFieldGuestRip = Some (sd_value d')"
proof -
  have g: "sg_generation sample_shadow_config = 7" "sa_encoding (sample_shadow_access ShadowRead 0) = kVmcsFieldGuestRip"
    "\<not> is_write (sample_shadow_access ShadowRead 0)"
    by (simp_all add: sample_shadow_config_def sample_shadow_access_def is_write_def)
  show ?thesis
    using shadow_agrees_with_vmcs12 [OF sample_inv sample_mirrors begin_bound(1) [OF sample_shadow_begin] sample_mirror_bound
        sample_shadow_permits, of ShadowRead 0 "ShadowInitializeDecision None 0"] g(3) unfolding g(1,2) by auto
qed

lemma sample_writes:
  "field_writes sample_shadow_caps sample_shadow_config [sample_shadow_access ShadowWrite 5, sample_shadow_access ShadowWrite 9] 20 =
     [sample_shadow_access ShadowWrite 5, sample_shadow_access ShadowWrite 9]"
  by (simp add: field_writes_def sample_shadow_permits) (simp add: sample_shadow_access_def is_write_def)

theorem shadow_image_exact_witness:
  "si_fields (shadow_run sample_shadow_caps sample_shadow_config
     [sample_shadow_access ShadowWrite 5, sample_shadow_access ShadowWrite 9] sample_shadow_image) ! 20 = 9"
proof -
  have "field_value sample_shadow_caps sample_shadow_config
      [sample_shadow_access ShadowWrite 5, sample_shadow_access ShadowWrite 9] 20 = 9"
    by (simp add: field_value_def sample_writes) (simp add: sample_shadow_access_def ShadowFieldMask_def kFieldRules_def)
  then show ?thesis using shadow_image_exact [OF sample_shadow_begin refl] by simp
qed

theorem shadow_lifecycle_safe_witness:
  "\<exists>j. shadow_step\<^sup>*\<^sup>* sample_shadow_image j \<and> si_state j = VmcsShadowState_u32 ShadowQuarantined \<and>
     (\<forall>k. shadow_step\<^sup>*\<^sup>* j k \<longrightarrow> k = j)"
proof -
  let ?j = "sample_shadow_image\<lparr>si_state := VmcsShadowState_u32 ShadowQuarantined\<rparr>"
  have "IsVmcsShadowImageValid (Some sample_shadow_image)"
    using begin_bound(2) [OF sample_shadow_begin] by (simp add: shadow_bound_def)
  then have "QuarantineVmcsShadow (Some sample_shadow_image) 7 = (True, Some ?j)"
    unfolding QuarantineVmcsShadow_def by (simp add: sample_shadow_image_def)
  then have s: "shadow_step\<^sup>*\<^sup>* sample_shadow_image ?j" by (blast intro: step_quarantine)
  show ?thesis using shadow_lifecycle_safe [OF sample_shadow_begin s] s by auto
qed

end
