(* ===== verification/VmxCapabilityModel.thy ===== *)
theory VmxCapabilityModel
  imports KnhvPrelude
begin

text \<open>
  VMX capabilities of the processors: the constants and structures of
  \<^verbatim>\<open>src/src/include/knhv_vmx_capability.h\<close> and the functions of
  \<^verbatim>\<open>src/src/vmx/vmx_capability_model.cpp\<close>: the allowed settings of a control, the sample taken
  on one processor, the normalisation of a requested control set, and the matrix that sums up the
  samples of all processors. A failed call leaves the zeroed output of the code.
\<close>

section \<open>Constants\<close>

abbreviation kVmxCapabilityContractVersion :: u32 where "kVmxCapabilityContractVersion \<equiv> 1"
abbreviation kVmxCapabilityMaxStructSize :: u32 where "kVmxCapabilityMaxStructSize \<equiv> 4096"
abbreviation kVmxCapabilityMaxProcessors :: u32 where "kVmxCapabilityMaxProcessors \<equiv> 4096"
abbreviation kVmxCapabilitySampleCollected :: u32 where "kVmxCapabilitySampleCollected \<equiv> 1"
abbreviation kVmxCapabilitySampleMsrReadFailed :: u32 where "kVmxCapabilitySampleMsrReadFailed \<equiv> 2"
abbreviation kVmxCapabilitySampleOwnerConflict :: u32 where "kVmxCapabilitySampleOwnerConflict \<equiv> 4"
abbreviation kVmxCapabilitySampleFeatureControlBlocked :: u32 where
  "kVmxCapabilitySampleFeatureControlBlocked \<equiv> 8"
abbreviation kVmxCapabilityKnownSampleStatusMask :: u32 where
  "kVmxCapabilityKnownSampleStatusMask \<equiv> kVmxCapabilitySampleCollected OR
     kVmxCapabilitySampleMsrReadFailed OR kVmxCapabilitySampleOwnerConflict OR
     kVmxCapabilitySampleFeatureControlBlocked"
abbreviation kVmxFeatureVmx :: u64 where "kVmxFeatureVmx \<equiv> 1"
abbreviation kVmxFeatureTrueControls :: u64 where "kVmxFeatureTrueControls \<equiv> 2"
abbreviation kVmxFeatureSecondaryControls :: u64 where "kVmxFeatureSecondaryControls \<equiv> 4"
abbreviation kVmxFeatureTertiaryControls :: u64 where "kVmxFeatureTertiaryControls \<equiv> 8"
abbreviation kVmxFeatureEpt :: u64 where "kVmxFeatureEpt \<equiv> 16"
abbreviation kVmxFeatureVpid :: u64 where "kVmxFeatureVpid \<equiv> 32"
abbreviation kVmxFeatureInvept :: u64 where "kVmxFeatureInvept \<equiv> 64"
abbreviation kVmxFeatureInvvpid :: u64 where "kVmxFeatureInvvpid \<equiv> 128"
abbreviation kVmxFeatureTscScaling :: u64 where "kVmxFeatureTscScaling \<equiv> 256"
abbreviation kVmxFeatureControlReady :: u64 where "kVmxFeatureControlReady \<equiv> 512"
abbreviation kVmxCapabilityKnownFeatureMask :: u64 where "kVmxCapabilityKnownFeatureMask \<equiv> 1023"
abbreviation kVmxMatrixAllVmx :: u32 where "kVmxMatrixAllVmx \<equiv> 1"
abbreviation kVmxMatrixIdentityUniform :: u32 where "kVmxMatrixIdentityUniform \<equiv> 2"
abbreviation kVmxMatrixSamplesComplete :: u32 where "kVmxMatrixSamplesComplete \<equiv> 4"
abbreviation kVmxMatrixHasInvalidSamples :: u32 where "kVmxMatrixHasInvalidSamples \<equiv> 8"
abbreviation kVmxMatrixKnownFlagMask :: u32 where
  "kVmxMatrixKnownFlagMask \<equiv> kVmxMatrixAllVmx OR kVmxMatrixIdentityUniform OR
     kVmxMatrixSamplesComplete OR kVmxMatrixHasInvalidSamples"
abbreviation kVmxPrimaryActivateTertiary :: u32 where "kVmxPrimaryActivateTertiary \<equiv> 0x20000"
abbreviation kVmxPrimaryActivateSecondary :: u32 where "kVmxPrimaryActivateSecondary \<equiv> 0x80000000"
abbreviation kVmxSecondaryEnableEpt :: u32 where "kVmxSecondaryEnableEpt \<equiv> 2"
abbreviation kVmxSecondaryEnableVpid :: u32 where "kVmxSecondaryEnableVpid \<equiv> 32"
abbreviation kVmxSecondaryEnableTscScaling :: u32 where "kVmxSecondaryEnableTscScaling \<equiv> 0x2000000"
abbreviation kVmxEptVpidCapEptFourLevel :: u64 where "kVmxEptVpidCapEptFourLevel \<equiv> 0x40"
abbreviation kVmxEptVpidCapEptWriteBack :: u64 where "kVmxEptVpidCapEptWriteBack \<equiv> 0x4000"
abbreviation kVmxEptVpidCapInvept :: u64 where "kVmxEptVpidCapInvept \<equiv> 0x100000"
abbreviation kVmxEptVpidCapInveptSingleContext :: u64 where
  "kVmxEptVpidCapInveptSingleContext \<equiv> 0x2000000"
abbreviation kVmxEptVpidCapInveptAllContext :: u64 where "kVmxEptVpidCapInveptAllContext \<equiv> 0x4000000"
abbreviation kVmxEptVpidCapInvvpid :: u64 where "kVmxEptVpidCapInvvpid \<equiv> 0x100000000"
abbreviation kVmxEptVpidCapInvvpidIndividualAddress :: u64 where
  "kVmxEptVpidCapInvvpidIndividualAddress \<equiv> 0x10000000000"
abbreviation kVmxEptVpidCapInvvpidSingleContext :: u64 where
  "kVmxEptVpidCapInvvpidSingleContext \<equiv> 0x20000000000"
abbreviation kVmxEptVpidCapInvvpidAllContext :: u64 where
  "kVmxEptVpidCapInvvpidAllContext \<equiv> 0x40000000000"
abbreviation kVmxEptVpidCapInvvpidRetainGlobals :: u64 where
  "kVmxEptVpidCapInvvpidRetainGlobals \<equiv> 0x80000000000"
abbreviation kVmxEptVpidCapBasicEpt :: u64 where
  "kVmxEptVpidCapBasicEpt \<equiv> kVmxEptVpidCapEptFourLevel OR kVmxEptVpidCapEptWriteBack"
abbreviation kVmxEptVpidCapFullInvept :: u64 where
  "kVmxEptVpidCapFullInvept \<equiv> kVmxEptVpidCapInvept OR kVmxEptVpidCapInveptSingleContext OR
     kVmxEptVpidCapInveptAllContext"
abbreviation kVmxEptVpidCapFullInvvpid :: u64 where
  "kVmxEptVpidCapFullInvvpid \<equiv> kVmxEptVpidCapInvvpid OR kVmxEptVpidCapInvvpidIndividualAddress OR
     kVmxEptVpidCapInvvpidSingleContext OR kVmxEptVpidCapInvvpidAllContext OR
     kVmxEptVpidCapInvvpidRetainGlobals"
abbreviation kVmxBasicTrueControls :: u64 where "kVmxBasicTrueControls \<equiv> 0x80000000000000"
abbreviation kVmxBasicRevisionMask :: u64 where "kVmxBasicRevisionMask \<equiv> 0x7FFFFFFF"
abbreviation kVmxFeatureControlLock :: u64 where "kVmxFeatureControlLock \<equiv> 1"
abbreviation kVmxFeatureControlVmxonOutsideSmx :: u64 where "kVmxFeatureControlVmxonOutsideSmx \<equiv> 4"
abbreviation kFailureStatusMask :: u32 where
  "kFailureStatusMask \<equiv> kVmxCapabilitySampleMsrReadFailed OR kVmxCapabilitySampleOwnerConflict OR
     kVmxCapabilitySampleFeatureControlBlocked"
abbreviation kKnownEptVpidCaps :: u64 where
  "kKnownEptVpidCaps \<equiv> kVmxEptVpidCapBasicEpt OR kVmxEptVpidCapFullInvept OR
     kVmxEptVpidCapFullInvvpid"

section \<open>Data model\<close>

datatype VmxControlEncoding = Pair32 | AllowedOne64

fun VmxControlEncoding_u32 :: "VmxControlEncoding \<Rightarrow> u32" where
  "VmxControlEncoding_u32 Pair32 = 1"
| "VmxControlEncoding_u32 AllowedOne64 = 2"

datatype VmxCapabilityMatrixState = MatrixEmpty | CompleteUniform | CompleteMixed
  | MatrixIncomplete | MatrixInvalid

fun VmxCapabilityMatrixState_u32 :: "VmxCapabilityMatrixState \<Rightarrow> u32" where
  "VmxCapabilityMatrixState_u32 MatrixEmpty = 0"
| "VmxCapabilityMatrixState_u32 CompleteUniform = 1"
| "VmxCapabilityMatrixState_u32 CompleteMixed = 2"
| "VmxCapabilityMatrixState_u32 MatrixIncomplete = 3"
| "VmxCapabilityMatrixState_u32 MatrixInvalid = 4"

record VmxControlCapability =
  xc_size :: u32
  xc_version :: u32
  xc_encoding :: u32
  xc_reserved :: u32
  xc_mandatory_one :: u64
  xc_allowed_one :: u64

record VmxCapabilitySample =
  xs_size :: u32
  xs_version :: u32
  xs_logical_index :: u32
  xs_processor_group :: u32
  xs_processor_number :: u32
  xs_status :: u32
  xs_reserved0 :: u32
  xs_reserved1 :: u32
  xs_generation :: u64
  xs_vmx_basic :: u64
  xs_feature_control :: u64
  xs_ept_vpid_cap :: u64
  xs_pin_controls :: VmxControlCapability
  xs_primary_controls :: VmxControlCapability
  xs_secondary_controls :: VmxControlCapability
  xs_tertiary_controls :: VmxControlCapability
  xs_exit_controls :: VmxControlCapability
  xs_entry_controls :: VmxControlCapability
  xs_cr0_fixed0 :: u64
  xs_cr0_fixed1 :: u64
  xs_cr4_fixed0 :: u64
  xs_cr4_fixed1 :: u64
  xs_reserved :: "u32 list"

record VmxControlSet =
  xk_size :: u32
  xk_version :: u32
  xk_pin_controls :: u32
  xk_primary_controls :: u32
  xk_secondary_controls :: u32
  xk_exit_controls :: u32
  xk_entry_controls :: u32
  xk_tertiary_controls :: u64

record VmxCapabilityMatrix =
  xm_size :: u32
  xm_version :: u32
  xm_state :: u32
  xm_flags :: u32
  xm_expected_count :: u32
  xm_sample_count :: u32
  xm_valid_count :: u32
  xm_invalid_count :: u32
  xm_feature_intersection :: u64
  xm_feature_union :: u64
  xm_inconsistent_features :: u64
  xm_ept_vpid_intersection :: u64
  xm_ept_vpid_union :: u64
  xm_generation :: u64
  xm_reserved :: "u32 list"

definition zero_control_set :: VmxControlSet where
  "zero_control_set = \<lparr>xk_size = 0, xk_version = 0, xk_pin_controls = 0, xk_primary_controls = 0,
     xk_secondary_controls = 0, xk_exit_controls = 0, xk_entry_controls = 0,
     xk_tertiary_controls = 0\<rparr>"

section \<open>Helpers\<close>

abbreviation capability_versioned :: "u32 \<Rightarrow> u32 \<Rightarrow> u32 \<Rightarrow> bool" where
  "capability_versioned \<equiv> IsVersionedSizeValid kVmxCapabilityContractVersion kVmxCapabilityMaxStructSize"

definition IsEncodingValid :: "u32 \<Rightarrow> bool" where
  "IsEncodingValid encoding \<longleftrightarrow>
     encoding = VmxControlEncoding_u32 Pair32 \<or> encoding = VmxControlEncoding_u32 AllowedOne64"

definition IsPair :: "VmxControlCapability \<Rightarrow> bool" where
  "IsPair capability \<longleftrightarrow> xc_encoding capability = VmxControlEncoding_u32 Pair32"

definition IsAllowedOne64 :: "VmxControlCapability \<Rightarrow> bool" where
  "IsAllowedOne64 capability \<longleftrightarrow> xc_encoding capability = VmxControlEncoding_u32 AllowedOne64"

definition IsCollected :: "VmxCapabilitySample \<Rightarrow> bool" where
  "IsCollected sample \<longleftrightarrow> xs_status sample AND kVmxCapabilitySampleCollected \<noteq> 0 \<and>
     xs_status sample AND kFailureStatusMask = 0"

definition IsFailureStatus :: "u32 \<Rightarrow> bool" where
  "IsFailureStatus status \<longleftrightarrow> status AND kVmxCapabilitySampleCollected = 0 \<and>
     status AND kFailureStatusMask \<noteq> 0"

definition IsControlZero :: "VmxControlCapability \<Rightarrow> bool" where
  "IsControlZero capability \<longleftrightarrow> xc_size capability = 0 \<and> xc_version capability = 0 \<and>
     xc_encoding capability = 0 \<and> xc_reserved capability = 0 \<and>
     xc_mandatory_one capability = 0 \<and> xc_allowed_one capability = 0"

definition IsPayloadZero :: "VmxCapabilitySample \<Rightarrow> bool" where
  "IsPayloadZero sample \<longleftrightarrow> xs_generation sample = 0 \<and> xs_vmx_basic sample = 0 \<and>
     xs_feature_control sample = 0 \<and> xs_ept_vpid_cap sample = 0 \<and>
     IsControlZero (xs_pin_controls sample) \<and> IsControlZero (xs_primary_controls sample) \<and>
     IsControlZero (xs_secondary_controls sample) \<and> IsControlZero (xs_tertiary_controls sample) \<and>
     IsControlZero (xs_exit_controls sample) \<and> IsControlZero (xs_entry_controls sample) \<and>
     xs_cr0_fixed0 sample = 0 \<and> xs_cr0_fixed1 sample = 0 \<and> xs_cr4_fixed0 sample = 0 \<and>
     xs_cr4_fixed1 sample = 0 \<and> xs_reserved sample ! 0 = 0 \<and> xs_reserved sample ! 1 = 0"

definition IsVmxControlCapabilityValid :: "VmxControlCapability option \<Rightarrow> bool" where
  "IsVmxControlCapabilityValid capability = (case capability of None \<Rightarrow> False | Some c \<Rightarrow>
     if \<not> capability_versioned (xc_version c) (xc_size c) 32 \<or> \<not> IsEncodingValid (xc_encoding c) \<or>
        xc_reserved c \<noteq> 0
     then False
     else if IsPair c
     then drop_bit 32 (xc_mandatory_one c) = 0 \<and> drop_bit 32 (xc_allowed_one c) = 0 \<and>
          xc_mandatory_one c AND NOT (xc_allowed_one c) = 0
     else IsAllowedOne64 c \<and> xc_mandatory_one c = 0)"

definition IsControlBitAllowed :: "VmxControlCapability \<Rightarrow> u64 \<Rightarrow> bool" where
  "IsControlBitAllowed capability b \<longleftrightarrow>
     IsVmxControlCapabilityValid (Some capability) \<and> xc_allowed_one capability AND b \<noteq> 0"

definition SameControl :: "VmxControlCapability \<Rightarrow> VmxControlCapability \<Rightarrow> bool" where
  "SameControl left right \<longleftrightarrow> xc_encoding left = xc_encoding right \<and>
     xc_mandatory_one left = xc_mandatory_one right \<and> xc_allowed_one left = xc_allowed_one right"

definition SameIdentity :: "VmxCapabilitySample \<Rightarrow> VmxCapabilitySample \<Rightarrow> bool" where
  "SameIdentity left right \<longleftrightarrow> xs_generation left = xs_generation right \<and>
     xs_vmx_basic left = xs_vmx_basic right \<and> xs_feature_control left = xs_feature_control right \<and>
     xs_ept_vpid_cap left = xs_ept_vpid_cap right \<and>
     SameControl (xs_pin_controls left) (xs_pin_controls right) \<and>
     SameControl (xs_primary_controls left) (xs_primary_controls right) \<and>
     SameControl (xs_secondary_controls left) (xs_secondary_controls right) \<and>
     SameControl (xs_tertiary_controls left) (xs_tertiary_controls right) \<and>
     SameControl (xs_exit_controls left) (xs_exit_controls right) \<and>
     SameControl (xs_entry_controls left) (xs_entry_controls right) \<and>
     xs_cr0_fixed0 left = xs_cr0_fixed0 right \<and> xs_cr0_fixed1 left = xs_cr0_fixed1 right \<and>
     xs_cr4_fixed0 left = xs_cr4_fixed0 right \<and> xs_cr4_fixed1 left = xs_cr4_fixed1 right"

definition InitializeMatrix :: "u32 \<Rightarrow> u32 \<Rightarrow> VmxCapabilityMatrix" where
  "InitializeMatrix expected_count sample_count =
     \<lparr>xm_size = 96, xm_version = kVmxCapabilityContractVersion,
      xm_state = VmxCapabilityMatrixState_u32 MatrixInvalid, xm_flags = 0,
      xm_expected_count = expected_count, xm_sample_count = sample_count, xm_valid_count = 0,
      xm_invalid_count = 0, xm_feature_intersection = 0, xm_feature_union = 0,
      xm_inconsistent_features = 0, xm_ept_vpid_intersection = 0, xm_ept_vpid_union = 0,
      xm_generation = 0, xm_reserved = replicate 4 0\<rparr>"

section \<open>Controls\<close>

definition IsVmxControlValueAllowed :: "VmxControlCapability option \<Rightarrow> u64 \<Rightarrow> bool" where
  "IsVmxControlValueAllowed capability value = (case capability of None \<Rightarrow> False | Some c \<Rightarrow>
     if \<not> IsVmxControlCapabilityValid (Some c) then False
     else if IsPair c \<and> drop_bit 32 value \<noteq> 0 then False
     else value AND NOT (xc_allowed_one c) = 0 \<and> value AND xc_mandatory_one c = xc_mandatory_one c)"

definition NormalizeVmxControlValue ::
  "VmxControlCapability option \<Rightarrow> u64 \<Rightarrow> u64 option \<Rightarrow> bool \<times> u64 option" where
  "NormalizeVmxControlValue capability requested normalized =
   (case normalized of None \<Rightarrow> (False, None) | Some _ \<Rightarrow>
     (case capability of None \<Rightarrow> (False, Some 0) | Some c \<Rightarrow>
       if \<not> IsVmxControlCapabilityValid (Some c) \<or> IsPair c \<and> drop_bit 32 requested \<noteq> 0 \<or>
          requested AND NOT (xc_allowed_one c) \<noteq> 0
       then (False, Some 0)
       else let value = (requested OR xc_mandatory_one c) AND xc_allowed_one c
            in (IsVmxControlValueAllowed (Some c) value, Some value)))"

section \<open>Samples\<close>

definition IsVmxCapabilitySampleValid :: "VmxCapabilitySample option \<Rightarrow> bool" where
  "IsVmxCapabilitySampleValid sample = (case sample of None \<Rightarrow> False | Some s \<Rightarrow>
     if \<not> capability_versioned (xs_version s) (xs_size s) 296 \<or>
        xs_logical_index s \<ge> kVmxCapabilityMaxProcessors \<or> xs_processor_group s > 0xFFFF \<or>
        xs_processor_number s \<ge> 64 \<or> xs_reserved0 s \<noteq> 0 \<or> xs_reserved1 s \<noteq> 0 \<or>
        xs_status s AND NOT kVmxCapabilityKnownSampleStatusMask \<noteq> 0
     then False
     else let collected = IsCollected s; failed = IsFailureStatus (xs_status s)
          in if collected = failed \<or> xs_status s AND kVmxCapabilitySampleCollected \<noteq> 0 \<and>
                                      xs_status s AND kFailureStatusMask \<noteq> 0
             then False
             else if failed then IsPayloadZero s
             else if xs_generation s = 0 \<or> xs_vmx_basic s AND kVmxBasicRevisionMask = 0 \<or>
                     \<not> IsVmxControlCapabilityValid (Some (xs_pin_controls s)) \<or>
                     \<not> IsVmxControlCapabilityValid (Some (xs_primary_controls s)) \<or>
                     \<not> IsVmxControlCapabilityValid (Some (xs_secondary_controls s)) \<or>
                     \<not> IsVmxControlCapabilityValid (Some (xs_tertiary_controls s)) \<or>
                     \<not> IsVmxControlCapabilityValid (Some (xs_exit_controls s)) \<or>
                     \<not> IsVmxControlCapabilityValid (Some (xs_entry_controls s)) \<or>
                     xs_cr0_fixed0 s AND NOT (xs_cr0_fixed1 s) \<noteq> 0 \<or>
                     xs_cr4_fixed0 s AND NOT (xs_cr4_fixed1 s) \<noteq> 0 \<or>
                     xs_reserved s ! 0 \<noteq> 0 \<or> xs_reserved s ! 1 \<noteq> 0
             then False
             else if \<not> IsPair (xs_pin_controls s) \<or> \<not> IsPair (xs_primary_controls s) \<or>
                     \<not> IsPair (xs_secondary_controls s) \<or>
                     \<not> IsAllowedOne64 (xs_tertiary_controls s) \<or>
                     \<not> IsPair (xs_exit_controls s) \<or> \<not> IsPair (xs_entry_controls s)
             then False
             else True)"

definition IsVmxCapabilitySampleUsable :: "VmxCapabilitySample option \<Rightarrow> bool" where
  "IsVmxCapabilitySampleUsable sample = (case sample of None \<Rightarrow> False
     | Some s \<Rightarrow> IsVmxCapabilitySampleValid (Some s) \<and> IsCollected s)"

definition GetVmxCapabilityFeatureFlags :: "VmxCapabilitySample option \<Rightarrow> u64" where
  "GetVmxCapabilityFeatureFlags sample = (case sample of None \<Rightarrow> 0 | Some s \<Rightarrow>
     if \<not> IsVmxCapabilitySampleUsable (Some s) then 0
     else let flags = kVmxFeatureVmx;
              flags = (if xs_vmx_basic s AND kVmxBasicTrueControls \<noteq> 0
                       then flags OR kVmxFeatureTrueControls else flags);
              flags = (if xs_feature_control s AND
                            (kVmxFeatureControlLock OR kVmxFeatureControlVmxonOutsideSmx) =
                          kVmxFeatureControlLock OR kVmxFeatureControlVmxonOutsideSmx
                       then flags OR kVmxFeatureControlReady else flags);
              secondary = IsControlBitAllowed (xs_primary_controls s)
                            (ucast kVmxPrimaryActivateSecondary)
          in if \<not> secondary then flags
             else let flags = flags OR kVmxFeatureSecondaryControls;
                      tertiary = (IsControlBitAllowed (xs_primary_controls s)
                                    (ucast kVmxPrimaryActivateTertiary) \<and>
                                  xc_allowed_one (xs_tertiary_controls s) \<noteq> 0);
                      flags = (if tertiary then flags OR kVmxFeatureTertiaryControls else flags);
                      ept = (IsControlBitAllowed (xs_secondary_controls s)
                               (ucast kVmxSecondaryEnableEpt) \<and>
                             xs_ept_vpid_cap s AND kVmxEptVpidCapBasicEpt = kVmxEptVpidCapBasicEpt);
                      flags = (if ept then flags OR kVmxFeatureEpt else flags);
                      vpid = (IsControlBitAllowed (xs_secondary_controls s)
                                (ucast kVmxSecondaryEnableVpid) \<and>
                              xs_ept_vpid_cap s AND kVmxEptVpidCapInvvpid \<noteq> 0);
                      flags = (if vpid then flags OR kVmxFeatureVpid else flags);
                      flags = (if ept \<and> xs_ept_vpid_cap s AND kVmxEptVpidCapFullInvept =
                                         kVmxEptVpidCapFullInvept
                               then flags OR kVmxFeatureInvept else flags);
                      flags = (if vpid \<and> xs_ept_vpid_cap s AND kVmxEptVpidCapFullInvvpid =
                                          kVmxEptVpidCapFullInvvpid
                               then flags OR kVmxFeatureInvvpid else flags)
                  in if IsControlBitAllowed (xs_secondary_controls s)
                          (ucast kVmxSecondaryEnableTscScaling)
                     then flags OR kVmxFeatureTscScaling else flags)"

section \<open>Normalising a control set\<close>

text \<open>One control word of a set: the value of \<^verbatim>\<open>NormalizeVmxControlValue\<close> where it succeeds.\<close>

definition normalized_value :: "VmxControlCapability \<Rightarrow> u64 \<Rightarrow> u64 option" where
  "normalized_value capability requested =
     (case NormalizeVmxControlValue (Some capability) requested (Some 0) of
        (True, value) \<Rightarrow> value | (False, _) \<Rightarrow> None)"

definition NormalizeVmxControlSet ::
  "VmxCapabilitySample option \<Rightarrow> VmxControlSet option \<Rightarrow> VmxControlSet option \<Rightarrow>
   bool \<times> VmxControlSet option" where
  "NormalizeVmxControlSet sample requested normalized =
   (case normalized of None \<Rightarrow> (False, None) | Some _ \<Rightarrow>
     (case (sample, requested) of
        (Some s, Some r) \<Rightarrow>
          (let required_feature_control =
                 kVmxFeatureControlLock OR kVmxFeatureControlVmxonOutsideSmx;
               failed = (False, Some zero_control_set)
           in if \<not> IsVmxCapabilitySampleUsable (Some s) \<or>
                 \<not> capability_versioned (xk_version r) (xk_size r) 40
              then failed
              else if xs_feature_control s AND required_feature_control \<noteq> required_feature_control
              then failed
              else case (normalized_value (xs_pin_controls s) (ucast (xk_pin_controls r)),
                         normalized_value (xs_primary_controls s) (ucast (xk_primary_controls r)),
                         normalized_value (xs_secondary_controls s) (ucast (xk_secondary_controls r)),
                         normalized_value (xs_exit_controls s) (ucast (xk_exit_controls r)),
                         normalized_value (xs_entry_controls s) (ucast (xk_entry_controls r)),
                         normalized_value (xs_tertiary_controls s) (xk_tertiary_controls r)) of
                (Some pin, Some primary, Some secondary, Some exit_value, Some entry, Some tertiary) \<Rightarrow>
                  (let n = \<lparr>xk_size = 40, xk_version = kVmxCapabilityContractVersion,
                            xk_pin_controls = ucast pin, xk_primary_controls = ucast primary,
                            xk_secondary_controls = ucast secondary,
                            xk_exit_controls = ucast exit_value, xk_entry_controls = ucast entry,
                            xk_tertiary_controls = tertiary\<rparr>
                   in if xk_secondary_controls n \<noteq> 0 \<and>
                         xk_primary_controls n AND kVmxPrimaryActivateSecondary = 0 then failed
                      else if xk_tertiary_controls n \<noteq> 0 \<and>
                              xk_primary_controls n AND kVmxPrimaryActivateTertiary = 0 then failed
                      else if xk_secondary_controls n AND kVmxSecondaryEnableEpt \<noteq> 0 \<and>
                              xs_ept_vpid_cap s AND kVmxEptVpidCapBasicEpt \<noteq> kVmxEptVpidCapBasicEpt
                      then failed
                      else if xk_secondary_controls n AND kVmxSecondaryEnableVpid \<noteq> 0 \<and>
                              xs_ept_vpid_cap s AND kVmxEptVpidCapInvvpid = 0
                      then failed
                      else (True, Some n))
              | _ \<Rightarrow> failed)
      | _ \<Rightarrow> (False, Some zero_control_set)))"

section \<open>The capability matrix\<close>

text \<open>
  The loop over the samples: the matrix so far, the first usable sample, whether all usable samples
  so far have its identity, and the samples already seen. The flag of the result is false where the
  code returns from inside the loop.
\<close>

record matrix_loop_state =
  ml_matrix :: VmxCapabilityMatrix
  ml_first_valid :: "VmxCapabilitySample option"
  ml_identity_uniform :: bool

definition same_processor :: "VmxCapabilitySample \<Rightarrow> VmxCapabilitySample \<Rightarrow> bool" where
  "same_processor sample previous \<longleftrightarrow> xs_logical_index sample = xs_logical_index previous \<or>
     xs_processor_group sample = xs_processor_group previous \<and>
     xs_processor_number sample = xs_processor_number previous"

definition add_sample :: "VmxCapabilitySample \<Rightarrow> matrix_loop_state \<Rightarrow> matrix_loop_state" where
  "add_sample sample l =
     (let m = ml_matrix l
      in if \<not> IsVmxCapabilitySampleUsable (Some sample)
         then l\<lparr>ml_matrix := m\<lparr>xm_invalid_count := xm_invalid_count m + 1\<rparr>\<rparr>
         else let features = GetVmxCapabilityFeatureFlags (Some sample)
              in case ml_first_valid l of
                   None \<Rightarrow> l\<lparr>ml_first_valid := Some sample,
                       ml_matrix := m\<lparr>xm_feature_intersection := features, xm_feature_union := features,
                                      xm_ept_vpid_intersection := xs_ept_vpid_cap sample,
                                      xm_ept_vpid_union := xs_ept_vpid_cap sample,
                                      xm_generation := xs_generation sample\<rparr>\<rparr>
                 | Some first_valid \<Rightarrow>
                     l\<lparr>ml_matrix := m\<lparr>xm_feature_intersection := xm_feature_intersection m AND features,
                                      xm_feature_union := xm_feature_union m OR features,
                                      xm_ept_vpid_intersection :=
                                        xm_ept_vpid_intersection m AND xs_ept_vpid_cap sample,
                                      xm_ept_vpid_union :=
                                        xm_ept_vpid_union m OR xs_ept_vpid_cap sample\<rparr>,
                       ml_identity_uniform :=
                         (if \<not> SameIdentity first_valid sample then False else ml_identity_uniform l)\<rparr>)"

fun matrix_loop :: "VmxCapabilitySample list \<Rightarrow> VmxCapabilitySample list \<Rightarrow> matrix_loop_state \<Rightarrow>
  bool \<times> matrix_loop_state" where
  "matrix_loop [] prior l = (True, l)"
| "matrix_loop (sample # samples) prior l =
     (if \<not> IsVmxCapabilitySampleValid (Some sample) \<or> list_ex (same_processor sample) prior
      then (False, l\<lparr>ml_matrix := (ml_matrix l)\<lparr>xm_state := VmxCapabilityMatrixState_u32 MatrixInvalid\<rparr>\<rparr>)
      else matrix_loop samples (prior @ [sample]) (add_sample sample l))"

definition finish_matrix :: "matrix_loop_state \<Rightarrow> VmxCapabilityMatrix" where
  "finish_matrix l =
     (let m = ml_matrix l;
          valid_count = xm_sample_count m - xm_invalid_count m;
          inconsistent = xm_feature_union m XOR xm_feature_intersection m;
          flags = xm_flags m;
          flags = (if valid_count \<noteq> 0 \<and> xm_feature_intersection m AND kVmxFeatureVmx \<noteq> 0
                   then flags OR kVmxMatrixAllVmx else flags);
          flags = (if ml_identity_uniform l \<and> valid_count \<noteq> 0
                   then flags OR kVmxMatrixIdentityUniform else flags);
          flags = (if xm_invalid_count m \<noteq> 0 then flags OR kVmxMatrixHasInvalidSamples else flags);
          flags = (if xm_sample_count m = xm_expected_count m \<and> valid_count = xm_expected_count m
                   then flags OR kVmxMatrixSamplesComplete else flags);
          state = (if xm_sample_count m \<noteq> xm_expected_count m \<or> xm_invalid_count m \<noteq> 0 \<or>
                      xm_expected_count m = 0
                   then MatrixIncomplete
                   else if \<not> ml_identity_uniform l \<or> inconsistent \<noteq> 0 \<or>
                           xm_ept_vpid_intersection m \<noteq> xm_ept_vpid_union m
                   then CompleteMixed else CompleteUniform)
      in m\<lparr>xm_valid_count := valid_count, xm_inconsistent_features := inconsistent,
           xm_flags := flags, xm_state := VmxCapabilityMatrixState_u32 state\<rparr>)"

definition BuildVmxCapabilityMatrix ::
  "VmxCapabilitySample list option \<Rightarrow> u32 \<Rightarrow> u32 \<Rightarrow> VmxCapabilityMatrix option \<Rightarrow>
   bool \<times> VmxCapabilityMatrix option" where
  "BuildVmxCapabilityMatrix samples sample_count expected_count matrix =
   (case matrix of None \<Rightarrow> (False, None) | Some _ \<Rightarrow>
     (let m = InitializeMatrix expected_count sample_count
      in if sample_count > kVmxCapabilityMaxProcessors \<or> expected_count > kVmxCapabilityMaxProcessors \<or>
            sample_count \<noteq> 0 \<and> samples = None
         then (False, Some m)
         else if sample_count = 0
         then (True, Some (if expected_count = 0
                 then m\<lparr>xm_state := VmxCapabilityMatrixState_u32 MatrixEmpty,
                        xm_flags := xm_flags m OR kVmxMatrixSamplesComplete\<rparr>
                 else m\<lparr>xm_state := VmxCapabilityMatrixState_u32 MatrixIncomplete\<rparr>))
         else case samples of None \<Rightarrow> (False, Some m) | Some xs \<Rightarrow>
           (case matrix_loop (take (unat sample_count) xs) []
                   \<lparr>ml_matrix = m, ml_first_valid = None, ml_identity_uniform = True\<rparr> of
              (False, l) \<Rightarrow> (False, Some (ml_matrix l))
            | (True, l) \<Rightarrow> (True, Some (finish_matrix l)))))"

definition IsVmxCapabilityMatrixValid :: "VmxCapabilityMatrix option \<Rightarrow> bool" where
  "IsVmxCapabilityMatrixValid matrix = (case matrix of None \<Rightarrow> False | Some m \<Rightarrow>
     if \<not> capability_versioned (xm_version m) (xm_size m) 96 \<or>
        xm_state m > VmxCapabilityMatrixState_u32 MatrixInvalid \<or>
        xm_flags m AND NOT kVmxMatrixKnownFlagMask \<noteq> 0 \<or>
        xm_expected_count m > kVmxCapabilityMaxProcessors \<or>
        xm_sample_count m > kVmxCapabilityMaxProcessors \<or>
        xm_valid_count m > xm_sample_count m \<or> xm_invalid_count m > xm_sample_count m \<or>
        xm_valid_count m + xm_invalid_count m \<noteq> xm_sample_count m \<or>
        xm_feature_intersection m AND NOT (xm_feature_union m) \<noteq> 0 \<or>
        xm_feature_intersection m AND NOT kVmxCapabilityKnownFeatureMask \<noteq> 0 \<or>
        xm_feature_union m AND NOT kVmxCapabilityKnownFeatureMask \<noteq> 0 \<or>
        xm_inconsistent_features m \<noteq> xm_feature_union m XOR xm_feature_intersection m \<or>
        xm_ept_vpid_intersection m AND NOT (xm_ept_vpid_union m) \<noteq> 0 \<or>
        xm_reserved m ! 0 \<noteq> 0 \<or> xm_reserved m ! 1 \<noteq> 0 \<or> xm_reserved m ! 2 \<noteq> 0 \<or>
        xm_reserved m ! 3 \<noteq> 0
     then False
     else let all_vmx = (xm_valid_count m \<noteq> 0 \<and> xm_feature_intersection m AND kVmxFeatureVmx \<noteq> 0);
              samples_complete = (xm_expected_count m = xm_sample_count m \<and>
                                  xm_valid_count m = xm_expected_count m);
              has_invalid = (xm_invalid_count m \<noteq> 0)
          in if (xm_flags m AND kVmxMatrixAllVmx \<noteq> 0) \<noteq> all_vmx \<or>
                (xm_flags m AND kVmxMatrixSamplesComplete \<noteq> 0) \<noteq> samples_complete \<or>
                (xm_flags m AND kVmxMatrixHasInvalidSamples \<noteq> 0) \<noteq> has_invalid \<or>
                xm_valid_count m = 0 \<and> xm_flags m AND kVmxMatrixIdentityUniform \<noteq> 0
             then False
             else if xm_state m = VmxCapabilityMatrixState_u32 MatrixEmpty
             then xm_expected_count m = 0 \<and> xm_sample_count m = 0 \<and> xm_valid_count m = 0 \<and>
                  xm_invalid_count m = 0 \<and> xm_generation m = 0
             else if xm_valid_count m = 0 \<and> xm_generation m \<noteq> 0 \<or>
                     xm_valid_count m \<noteq> 0 \<and> xm_generation m = 0
             then False
             else let complete_nonempty =
                        (xm_expected_count m = xm_sample_count m \<and> xm_expected_count m \<noteq> 0 \<and>
                         xm_invalid_count m = 0 \<and> xm_flags m AND kVmxMatrixSamplesComplete \<noteq> 0);
                      uniform_candidate =
                        (xm_flags m AND kVmxMatrixIdentityUniform \<noteq> 0 \<and>
                         xm_inconsistent_features m = 0 \<and>
                         xm_ept_vpid_intersection m = xm_ept_vpid_union m)
                  in if xm_state m = VmxCapabilityMatrixState_u32 CompleteUniform
                     then complete_nonempty \<and> uniform_candidate
                     else if xm_state m = VmxCapabilityMatrixState_u32 CompleteMixed
                     then complete_nonempty \<and> \<not> uniform_candidate
                     else if xm_state m = VmxCapabilityMatrixState_u32 MatrixInvalid then False
                     else if xm_state m = VmxCapabilityMatrixState_u32 MatrixIncomplete \<and>
                             complete_nonempty then False
                     else True)"

definition IsVmxCapabilityMatrixUniform :: "VmxCapabilityMatrix option \<Rightarrow> u64 \<Rightarrow> u64 \<Rightarrow> bool" where
  "IsVmxCapabilityMatrixUniform matrix required_features required_ept_vpid_caps =
   (case matrix of None \<Rightarrow> False | Some m \<Rightarrow>
     IsVmxCapabilityMatrixValid (Some m) \<and>
     xm_state m = VmxCapabilityMatrixState_u32 CompleteUniform \<and>
     required_features AND NOT kVmxCapabilityKnownFeatureMask = 0 \<and>
     required_ept_vpid_caps AND NOT kKnownEptVpidCaps = 0 \<and>
     xm_feature_intersection m AND required_features = required_features \<and>
     xm_ept_vpid_intersection m AND required_ept_vpid_caps = required_ept_vpid_caps)"

section \<open>Normalisation gives the least allowed setting\<close>

lemma bits_le_ucast: "bits_le a b \<Longrightarrow> bits_le (ucast a :: 'b::len word) (ucast b)"
  by (simp add: bits_le_bit bit_simps)

lemma bits_le_ucast_iff: "bits_le (ucast (a :: u32) :: u64) (ucast b) \<longleftrightarrow> bits_le a b"
proof
  assume "bits_le (ucast a :: u64) (ucast b)"
  then have le: "bit (ucast a :: u64) n \<Longrightarrow> bit (ucast b :: u64) n" for n
    by (auto simp: bits_le_bit)
  have "bit b n" if "bit a n" for n
  proof -
    have "n < 32" using bit_imp_le_length [OF that] by simp
    then show ?thesis using le [of n] that by (simp add: bit_simps)
  qed
  then show "bits_le a b" by (simp add: bits_le_bit)
qed (rule bits_le_ucast)

lemma high_clear_le: "drop_bit 32 (y :: u64) = 0 \<Longrightarrow> bits_le x y \<Longrightarrow> drop_bit 32 x = 0"
proof -
  assume y: "drop_bit 32 y = 0" and le: "bits_le x y"
  have "\<not> bit (drop_bit 32 y) n" for n by (simp add: y)
  then show "drop_bit 32 x = 0"
    using le by (auto intro!: bit_word_eqI simp: bits_le_bit bit_drop_bit_eq)
qed

lemma ucast_u32_back: "drop_bit 32 (x :: u64) = 0 \<Longrightarrow> ucast (ucast x :: u32) = x"
proof -
  assume "drop_bit 32 x = 0"
  then have "\<not> bit (drop_bit 32 x) n" for n by simp
  then have h: "\<not> bit x (32 + n)" for n by (simp add: bit_drop_bit_eq)
  have "bit x n \<longrightarrow> n < 32" for n using h [of "n - 32"] by (cases "n < 32") auto
  then show ?thesis by (auto intro!: bit_word_eqI simp: bit_simps)
qed

lemma valid_pair:
  assumes "IsVmxControlCapabilityValid (Some c)"
  shows "bits_le (xc_mandatory_one c) (xc_allowed_one c)"
    and "IsPair c \<Longrightarrow> drop_bit 32 (xc_allowed_one c) = 0"
  using assms by (auto simp: IsVmxControlCapabilityValid_def bits_le_def known_mask_iff split: if_splits)

lemma value_allowed_iff:
  assumes "IsVmxControlCapabilityValid (Some c)"
  shows "IsVmxControlValueAllowed (Some c) v \<longleftrightarrow>
    bits_le (xc_mandatory_one c) v \<and> bits_le v (xc_allowed_one c)"
  using assms valid_pair [OF assms] high_clear_le [of "xc_allowed_one c" v]
  by (auto simp: IsVmxControlValueAllowed_def known_mask_iff bits_le_def and.commute)

lemma normalized_value_eq:
  assumes "IsVmxControlCapabilityValid (Some c)"
  shows "normalized_value c r =
    (if bits_le r (xc_allowed_one c) then Some (r OR xc_mandatory_one c) else None)"
proof (cases "bits_le r (xc_allowed_one c)")
  case True
  note p = valid_pair [OF assms]
  have "(r OR xc_mandatory_one c) AND xc_allowed_one c = r OR xc_mandatory_one c"
    using True p(1) by (simp add: bits_le_def bit.conj_disj_distrib2)
  moreover have "IsVmxControlValueAllowed (Some c) (r OR xc_mandatory_one c)"
    using True p(1) by (auto simp: value_allowed_iff [OF assms] bits_le_bit bit_simps)
  ultimately show ?thesis
    using True assms high_clear_le [of "xc_allowed_one c" r] p(2)
    by (auto simp: normalized_value_def NormalizeVmxControlValue_def known_mask_iff bits_le_def Let_def)
next
  case False
  then show ?thesis
    by (simp add: normalized_value_def NormalizeVmxControlValue_def known_mask_iff bits_le_def)
qed

lemma normalized_value_least:
  assumes "IsVmxControlCapabilityValid (Some c)" and "normalized_value c r = Some v"
  shows "IsVmxControlValueAllowed (Some c) v" and "bits_le r v"
    and "IsVmxControlValueAllowed (Some c) w \<Longrightarrow> bits_le r w \<Longrightarrow> bits_le v w"
    and "normalized_value c v = Some v"
  using assms(2) valid_pair(1) [OF assms(1)]
  by (auto simp: normalized_value_eq [OF assms(1)] value_allowed_iff [OF assms(1)] bits_le_bit bit_simps
      or.assoc split: if_splits)

lemma normalized_value_exists:
  assumes "IsVmxControlCapabilityValid (Some c)" and "IsVmxControlValueAllowed (Some c) w" and "bits_le r w"
  shows "normalized_value c r \<noteq> None"
  using assms(2,3) by (auto simp: normalized_value_eq [OF assms(1)] value_allowed_iff [OF assms(1)] bits_le_bit)

lemma usable_controls:
  assumes "IsVmxCapabilitySampleUsable (Some s)"
  shows "IsVmxControlCapabilityValid (Some (xs_pin_controls s)) \<and> IsPair (xs_pin_controls s)"
    and "IsVmxControlCapabilityValid (Some (xs_primary_controls s)) \<and> IsPair (xs_primary_controls s)"
    and "IsVmxControlCapabilityValid (Some (xs_secondary_controls s)) \<and> IsPair (xs_secondary_controls s)"
    and "IsVmxControlCapabilityValid (Some (xs_exit_controls s)) \<and> IsPair (xs_exit_controls s)"
    and "IsVmxControlCapabilityValid (Some (xs_entry_controls s)) \<and> IsPair (xs_entry_controls s)"
    and "IsVmxControlCapabilityValid (Some (xs_tertiary_controls s))"
    and "xs_generation s \<noteq> 0"
proof -
  have v: "IsVmxCapabilitySampleValid (Some s)" and nf: "\<not> IsFailureStatus (xs_status s)"
    using assms by (auto simp: IsVmxCapabilitySampleUsable_def IsCollected_def IsFailureStatus_def)
  show "IsVmxControlCapabilityValid (Some (xs_pin_controls s)) \<and> IsPair (xs_pin_controls s)"
    "IsVmxControlCapabilityValid (Some (xs_primary_controls s)) \<and> IsPair (xs_primary_controls s)"
    "IsVmxControlCapabilityValid (Some (xs_secondary_controls s)) \<and> IsPair (xs_secondary_controls s)"
    "IsVmxControlCapabilityValid (Some (xs_exit_controls s)) \<and> IsPair (xs_exit_controls s)"
    "IsVmxControlCapabilityValid (Some (xs_entry_controls s)) \<and> IsPair (xs_entry_controls s)"
    "IsVmxControlCapabilityValid (Some (xs_tertiary_controls s))" "xs_generation s \<noteq> 0"
    using v nf by (simp_all add: IsVmxCapabilitySampleValid_def Let_def split: if_splits)
qed

definition control_set_le :: "VmxControlSet \<Rightarrow> VmxControlSet \<Rightarrow> bool" where
  "control_set_le a b \<longleftrightarrow> bits_le (xk_pin_controls a) (xk_pin_controls b) \<and>
     bits_le (xk_primary_controls a) (xk_primary_controls b) \<and>
     bits_le (xk_secondary_controls a) (xk_secondary_controls b) \<and>
     bits_le (xk_exit_controls a) (xk_exit_controls b) \<and>
     bits_le (xk_entry_controls a) (xk_entry_controls b) \<and>
     bits_le (xk_tertiary_controls a) (xk_tertiary_controls b)"

definition control_set_allowed :: "VmxCapabilitySample \<Rightarrow> VmxControlSet \<Rightarrow> bool" where
  "control_set_allowed s k \<longleftrightarrow>
     IsVmxControlValueAllowed (Some (xs_pin_controls s)) (ucast (xk_pin_controls k)) \<and>
     IsVmxControlValueAllowed (Some (xs_primary_controls s)) (ucast (xk_primary_controls k)) \<and>
     IsVmxControlValueAllowed (Some (xs_secondary_controls s)) (ucast (xk_secondary_controls k)) \<and>
     IsVmxControlValueAllowed (Some (xs_exit_controls s)) (ucast (xk_exit_controls k)) \<and>
     IsVmxControlValueAllowed (Some (xs_entry_controls s)) (ucast (xk_entry_controls k)) \<and>
     IsVmxControlValueAllowed (Some (xs_tertiary_controls s)) (xk_tertiary_controls k)"

definition control_set_consistent :: "VmxCapabilitySample \<Rightarrow> VmxControlSet \<Rightarrow> bool" where
  "control_set_consistent s k \<longleftrightarrow>
     (xk_secondary_controls k \<noteq> 0 \<longrightarrow> xk_primary_controls k AND kVmxPrimaryActivateSecondary \<noteq> 0) \<and>
     (xk_tertiary_controls k \<noteq> 0 \<longrightarrow> xk_primary_controls k AND kVmxPrimaryActivateTertiary \<noteq> 0) \<and>
     (xk_secondary_controls k AND kVmxSecondaryEnableEpt \<noteq> 0 \<longrightarrow>
        xs_ept_vpid_cap s AND kVmxEptVpidCapBasicEpt = kVmxEptVpidCapBasicEpt) \<and>
     (xk_secondary_controls k AND kVmxSecondaryEnableVpid \<noteq> 0 \<longrightarrow>
        xs_ept_vpid_cap s AND kVmxEptVpidCapInvvpid \<noteq> 0)"

definition vmx_unlocked :: "VmxCapabilitySample \<Rightarrow> bool" where
  "vmx_unlocked s \<longleftrightarrow> xs_feature_control s AND (kVmxFeatureControlLock OR kVmxFeatureControlVmxonOutsideSmx) =
     kVmxFeatureControlLock OR kVmxFeatureControlVmxonOutsideSmx"

text \<open>The word that one control of a set is normalised to.\<close>

definition normal_word :: "VmxControlCapability \<Rightarrow> u32 \<Rightarrow> u32 option" where
  "normal_word c r = map_option ucast (normalized_value c (ucast r))"

lemma normal_word_SomeD:
  assumes "IsVmxControlCapabilityValid (Some c) \<and> IsPair c" and "normal_word c r = Some v"
  shows "IsVmxControlValueAllowed (Some c) (ucast v)" and "bits_le r v"
    and "IsVmxControlValueAllowed (Some c) (ucast w) \<Longrightarrow> bits_le r w \<Longrightarrow> bits_le v w"
    and "normal_word c v = Some v"
proof -
  obtain x where x: "normalized_value c (ucast r) = Some x" "v = ucast x"
    using assms(2) by (auto simp: normal_word_def)
  have val: "IsVmxControlCapabilityValid (Some c)" using assms(1) by simp
  note l = normalized_value_least [OF val x(1)]
  have "drop_bit 32 x = 0" using l(1) assms(1) by (auto simp: IsVmxControlValueAllowed_def split: if_splits)
  then have cast: "ucast v = x" by (simp add: x(2) ucast_u32_back)
  show "IsVmxControlValueAllowed (Some c) (ucast v)" using l(1) cast by simp
  show "bits_le r v" using l(2) cast by (simp flip: bits_le_ucast_iff)
  show "bits_le v w" if "IsVmxControlValueAllowed (Some c) (ucast w)" "bits_le r w"
    using l(3) [OF that(1)] that(2) cast by (simp flip: bits_le_ucast_iff)
  show "normal_word c v = Some v" using l(4) cast by (simp add: normal_word_def x(2))
qed

lemma normal_word_exists:
  assumes "IsVmxControlCapabilityValid (Some c) \<and> IsPair c"
    and "IsVmxControlValueAllowed (Some c) (ucast w)" and "bits_le r w"
  shows "normal_word c r \<noteq> None"
  using normalized_value_exists [of c "ucast w" "ucast r"] assms by (simp add: normal_word_def bits_le_ucast_iff)

lemma NormalizeVmxControlSet_True_iff:
  "NormalizeVmxControlSet (Some s) (Some r) (Some n0) = (True, Some n) \<longleftrightarrow>
     IsVmxCapabilitySampleUsable (Some s) \<and> capability_versioned (xk_version r) (xk_size r) 40 \<and> vmx_unlocked s \<and>
     normal_word (xs_pin_controls s) (xk_pin_controls r) = Some (xk_pin_controls n) \<and>
     normal_word (xs_primary_controls s) (xk_primary_controls r) = Some (xk_primary_controls n) \<and>
     normal_word (xs_secondary_controls s) (xk_secondary_controls r) = Some (xk_secondary_controls n) \<and>
     normal_word (xs_exit_controls s) (xk_exit_controls r) = Some (xk_exit_controls n) \<and>
     normal_word (xs_entry_controls s) (xk_entry_controls r) = Some (xk_entry_controls n) \<and>
     normalized_value (xs_tertiary_controls s) (xk_tertiary_controls r) = Some (xk_tertiary_controls n) \<and>
     control_set_consistent s n \<and> xk_size n = 40 \<and> xk_version n = 1"
  (is "?L \<longleftrightarrow> ?R")
proof
  assume ?L
  then show ?R
    by (auto simp: NormalizeVmxControlSet_def Let_def normal_word_def control_set_consistent_def vmx_unlocked_def
        split: if_splits option.splits)
next
  assume R: ?R
  obtain a b c d e where w: "normalized_value (xs_pin_controls s) (ucast (xk_pin_controls r)) = Some a"
    "normalized_value (xs_primary_controls s) (ucast (xk_primary_controls r)) = Some b"
    "normalized_value (xs_secondary_controls s) (ucast (xk_secondary_controls r)) = Some c"
    "normalized_value (xs_exit_controls s) (ucast (xk_exit_controls r)) = Some d"
    "normalized_value (xs_entry_controls s) (ucast (xk_entry_controls r)) = Some e"
    "xk_pin_controls n = ucast a" "xk_primary_controls n = ucast b" "xk_secondary_controls n = ucast c"
    "xk_exit_controls n = ucast d" "xk_entry_controls n = ucast e"
    using R by (auto simp: normal_word_def)
  then have n: "n = \<lparr>xk_size = 40, xk_version = 1, xk_pin_controls = ucast a, xk_primary_controls = ucast b,
      xk_secondary_controls = ucast c, xk_exit_controls = ucast d, xk_entry_controls = ucast e,
      xk_tertiary_controls = xk_tertiary_controls n\<rparr>"
    using R by simp
  have dep: "control_set_consistent s n" using R by simp
  show ?L
    using R w(1-5) dep unfolding control_set_consistent_def w(6-10)
    by (subst n) (auto simp: NormalizeVmxControlSet_def Let_def vmx_unlocked_def)
qed

text \<open>What the code asks of a sample and a request before it normalises anything.\<close>

definition normalizable :: "VmxCapabilitySample \<Rightarrow> VmxControlSet \<Rightarrow> bool" where
  "normalizable s r \<longleftrightarrow> IsVmxCapabilitySampleUsable (Some s) \<and> vmx_unlocked s \<and>
     capability_versioned (xk_version r) (xk_size r) 40"

lemma normalized_set_least:
  assumes "NormalizeVmxControlSet (Some s) (Some r) (Some n0) = (True, Some n)"
  shows "normalizable s r" and "control_set_allowed s n" and "control_set_consistent s n" and "control_set_le r n"
    and "control_set_allowed s x \<Longrightarrow> control_set_le r x \<Longrightarrow> control_set_le n x"
    and "NormalizeVmxControlSet (Some s) (Some n) (Some n0) = (True, Some n)"
proof -
  note R = assms [unfolded NormalizeVmxControlSet_True_iff]
  have us: "IsVmxCapabilitySampleUsable (Some s)" using R by simp
  note u = usable_controls [OF us]
  have w: "normal_word (xs_pin_controls s) (xk_pin_controls r) = Some (xk_pin_controls n)"
    "normal_word (xs_primary_controls s) (xk_primary_controls r) = Some (xk_primary_controls n)"
    "normal_word (xs_secondary_controls s) (xk_secondary_controls r) = Some (xk_secondary_controls n)"
    "normal_word (xs_exit_controls s) (xk_exit_controls r) = Some (xk_exit_controls n)"
    "normal_word (xs_entry_controls s) (xk_entry_controls r) = Some (xk_entry_controls n)"
    "normalized_value (xs_tertiary_controls s) (xk_tertiary_controls r) = Some (xk_tertiary_controls n)"
    using R by simp_all
  note l = normal_word_SomeD [OF u(1) w(1)] normal_word_SomeD [OF u(2) w(2)] normal_word_SomeD [OF u(3) w(3)]
    normal_word_SomeD [OF u(4) w(4)] normal_word_SomeD [OF u(5) w(5)] normalized_value_least [OF u(6) w(6)]
  show "normalizable s r" "control_set_consistent s n" using R by (simp_all add: normalizable_def)
  show "control_set_allowed s n" "control_set_le r n"
    using l by (simp_all add: control_set_allowed_def control_set_le_def)
  show "control_set_le n x" if "control_set_allowed s x" "control_set_le r x"
    using that l by (simp add: control_set_allowed_def control_set_le_def)
  show "NormalizeVmxControlSet (Some s) (Some n) (Some n0) = (True, Some n)"
    using R l by (simp add: NormalizeVmxControlSet_True_iff IsVersionedSizeValid_def)
qed

lemma normalized_set_refused:
  assumes "NormalizeVmxControlSet (Some s) (Some r) (Some n0) = (False, Some n)" and "normalizable s r"
    and "control_set_allowed s x" and "control_set_le r x"
  shows "\<exists>v. control_set_allowed s v \<and> control_set_le r v \<and> \<not> control_set_consistent s v \<and>
    (\<forall>w. control_set_allowed s w \<and> control_set_le r w \<longrightarrow> control_set_le v w)"
proof -
  have us: "IsVmxCapabilitySampleUsable (Some s)" using assms(2) by (simp add: normalizable_def)
  note u = usable_controls [OF us]
  have "normal_word (xs_pin_controls s) (xk_pin_controls r) \<noteq> None"
    "normal_word (xs_primary_controls s) (xk_primary_controls r) \<noteq> None"
    "normal_word (xs_secondary_controls s) (xk_secondary_controls r) \<noteq> None"
    "normal_word (xs_exit_controls s) (xk_exit_controls r) \<noteq> None"
    "normal_word (xs_entry_controls s) (xk_entry_controls r) \<noteq> None"
    "normalized_value (xs_tertiary_controls s) (xk_tertiary_controls r) \<noteq> None"
    using assms(3,4) normal_word_exists [OF u(1), of "xk_pin_controls x" "xk_pin_controls r"]
      normal_word_exists [OF u(2), of "xk_primary_controls x" "xk_primary_controls r"]
      normal_word_exists [OF u(3), of "xk_secondary_controls x" "xk_secondary_controls r"]
      normal_word_exists [OF u(4), of "xk_exit_controls x" "xk_exit_controls r"]
      normal_word_exists [OF u(5), of "xk_entry_controls x" "xk_entry_controls r"]
      normalized_value_exists [OF u(6), of "xk_tertiary_controls x" "xk_tertiary_controls r"]
    by (simp_all add: control_set_allowed_def control_set_le_def)
  then obtain p q c d e f where w: "normal_word (xs_pin_controls s) (xk_pin_controls r) = Some p"
    "normal_word (xs_primary_controls s) (xk_primary_controls r) = Some q"
    "normal_word (xs_secondary_controls s) (xk_secondary_controls r) = Some c"
    "normal_word (xs_exit_controls s) (xk_exit_controls r) = Some d"
    "normal_word (xs_entry_controls s) (xk_entry_controls r) = Some e"
    "normalized_value (xs_tertiary_controls s) (xk_tertiary_controls r) = Some f"
    by force
  let ?v = "\<lparr>xk_size = 40, xk_version = 1, xk_pin_controls = p, xk_primary_controls = q,
    xk_secondary_controls = c, xk_exit_controls = d, xk_entry_controls = e, xk_tertiary_controls = f\<rparr>"
  note l = normal_word_SomeD [OF u(1) w(1)] normal_word_SomeD [OF u(2) w(2)] normal_word_SomeD [OF u(3) w(3)]
    normal_word_SomeD [OF u(4) w(4)] normal_word_SomeD [OF u(5) w(5)] normalized_value_least [OF u(6) w(6)]
  have "control_set_allowed s ?v" "control_set_le r ?v"
    using l by (simp_all add: control_set_allowed_def control_set_le_def)
  moreover have "control_set_le ?v y" if "control_set_allowed s y" "control_set_le r y" for y
    using that l by (simp add: control_set_allowed_def control_set_le_def)
  moreover have "\<not> control_set_consistent s ?v"
    using assms(1,2) w NormalizeVmxControlSet_True_iff [of s r n0 ?v] by (auto simp: normalizable_def)
  ultimately show ?thesis by blast
qed

lemma normalized_set_zero:
  "NormalizeVmxControlSet (Some s) (Some r) (Some n0) = (False, Some n) \<Longrightarrow> n = zero_control_set"
  by (auto simp: NormalizeVmxControlSet_def Let_def split: if_splits option.splits)

text \<open>
C34: Normalising a control set succeeds only for a usable sample whose feature control is locked
with VMX enabled and a request of the right version; it then gives the least allowed settings
that contain the requested ones, consistent with the activation bits and the EPT/VPID
capabilities, and is idempotent. It fails, leaving a zeroed set, only when one of those
conditions does not hold, when no allowed settings contain the requested ones, or when the least
such settings are inconsistent.
\<close>

theorem normalized_controls_least:
  assumes "NormalizeVmxControlSet (Some s) (Some r) (Some n0) = (ok, Some n)"
  shows "(ok \<longrightarrow> normalizable s r \<and> control_set_allowed s n \<and> control_set_consistent s n \<and> control_set_le r n \<and>
       (\<forall>w. control_set_allowed s w \<and> control_set_le r w \<longrightarrow> control_set_le n w) \<and>
       NormalizeVmxControlSet (Some s) (Some n) (Some n0) = (True, Some n)) \<and>
    (\<not> ok \<longrightarrow> n = zero_control_set \<and>
       (\<not> normalizable s r \<or> (\<forall>w. control_set_allowed s w \<longrightarrow> \<not> control_set_le r w) \<or>
        (\<exists>v. control_set_allowed s v \<and> control_set_le r v \<and> \<not> control_set_consistent s v \<and>
           (\<forall>w. control_set_allowed s w \<and> control_set_le r w \<longrightarrow> control_set_le v w))))"
proof (cases ok)
  case True
  then have n: "NormalizeVmxControlSet (Some s) (Some r) (Some n0) = (True, Some n)" using assms by simp
  show ?thesis using True normalized_set_least [OF n] by blast
next
  case False
  then have n: "NormalizeVmxControlSet (Some s) (Some r) (Some n0) = (False, Some n)" using assms by simp
  show ?thesis using False normalized_set_zero [OF n] normalized_set_refused [OF n] by blast
qed

section \<open>The loop over the samples\<close>

abbreviation usable :: "VmxCapabilitySample \<Rightarrow> bool" where
  "usable s \<equiv> IsVmxCapabilitySampleUsable (Some s)"

abbreviation features :: "VmxCapabilitySample \<Rightarrow> u64" where
  "features s \<equiv> GetVmxCapabilityFeatureFlags (Some s)"

definition processors_distinct :: "VmxCapabilitySample list \<Rightarrow> bool" where
  "processors_distinct xs \<longleftrightarrow> distinct (map xs_logical_index xs) \<and>
     distinct (map (\<lambda>s. (xs_processor_group s, xs_processor_number s)) xs)"

definition samples_ok :: "VmxCapabilitySample list \<Rightarrow> bool" where
  "samples_ok xs \<longleftrightarrow> (\<forall>s \<in> set xs. IsVmxCapabilitySampleValid (Some s)) \<and> processors_distinct xs"

lemma processors_distinct_snoc:
  "processors_distinct (xs @ [s]) \<longleftrightarrow> processors_distinct xs \<and> \<not> list_ex (same_processor s) xs"
  by (auto simp: processors_distinct_def list_ex_iff same_processor_def)

lemma matrix_loop_fst:
  assumes "samples_ok prior"
  shows "fst (matrix_loop xs prior l) \<longleftrightarrow> samples_ok (prior @ xs)"
  using assms
proof (induction xs arbitrary: prior l)
  case (Cons s xs)
  show ?case
  proof (cases "IsVmxCapabilitySampleValid (Some s) \<and> \<not> list_ex (same_processor s) prior")
    case True
    then have "samples_ok (prior @ [s])"
      using Cons.prems processors_distinct_snoc [of prior s] by (simp add: samples_ok_def)
    then show ?thesis using Cons.IH [of "prior @ [s]"] True by simp
  next
    case False
    then have "\<not> samples_ok (prior @ s # xs)"
      using processors_distinct_snoc [of prior s]
      by (auto simp: samples_ok_def processors_distinct_def)
    then show ?thesis using False by auto
  qed
qed simp

lemma matrix_loop_fold: "fst (matrix_loop xs prior l) \<Longrightarrow> snd (matrix_loop xs prior l) = fold add_sample xs l"
  by (induction xs arbitrary: prior l) (auto split: if_splits)

text \<open>What the loop has gathered after some samples.\<close>

definition summary :: "VmxCapabilityMatrix \<Rightarrow> VmxCapabilitySample list \<Rightarrow> matrix_loop_state \<Rightarrow> bool" where
  "summary m0 xs l \<longleftrightarrow>
     (let us = filter usable xs; m = ml_matrix l
      in ml_first_valid l = (if us = [] then None else Some (hd us)) \<and>
         (ml_identity_uniform l \<longleftrightarrow> (\<forall>u \<in> set us. SameIdentity (hd us) u)) \<and>
         (\<forall>n. bit (xm_feature_intersection m) n \<longleftrightarrow> us \<noteq> [] \<and> (\<forall>u \<in> set us. bit (features u) n)) \<and>
         (\<forall>n. bit (xm_feature_union m) n \<longleftrightarrow> (\<exists>u \<in> set us. bit (features u) n)) \<and>
         (\<forall>n. bit (xm_ept_vpid_intersection m) n \<longleftrightarrow> us \<noteq> [] \<and> (\<forall>u \<in> set us. bit (xs_ept_vpid_cap u) n)) \<and>
         (\<forall>n. bit (xm_ept_vpid_union m) n \<longleftrightarrow> (\<exists>u \<in> set us. bit (xs_ept_vpid_cap u) n)) \<and>
         xm_generation m = (if us = [] then 0 else xs_generation (hd us)) \<and>
         xm_invalid_count m = of_nat (length xs - length us) \<and>
         m0 = m\<lparr>xm_feature_intersection := 0, xm_feature_union := 0, xm_ept_vpid_intersection := 0,
                xm_ept_vpid_union := 0, xm_generation := 0, xm_invalid_count := 0\<rparr>)"

lemma SameIdentity_refl: "SameIdentity s s"
  by (simp add: SameIdentity_def SameControl_def)

lemma summary_snoc:
  assumes "summary m0 xs l"
  shows "summary m0 (xs @ [s]) (add_sample s l)"
proof (cases "usable s")
  case False
  have "length (filter usable xs) \<le> length xs" by simp
  then have "length xs + 1 - length (filter usable xs) = Suc (length xs - length (filter usable xs))" by linarith
  then show ?thesis
    using assms False by (simp add: summary_def add_sample_def Let_def add.commute)
next
  case True
  show ?thesis
  proof (cases "filter usable xs = []")
    case nil: True
    then show ?thesis
      using assms True by (simp add: summary_def add_sample_def Let_def SameIdentity_refl)
  next
    case ne: False
    have "length xs + 1 - length (filter usable xs @ [s]) = length xs - length (filter usable xs)" by simp
    then show ?thesis
      using assms True ne by (auto simp: summary_def add_sample_def Let_def bit_simps)
  qed
qed

lemma summary_fold:
  assumes "m0 = ml_matrix l" and "ml_first_valid l = None" and "ml_identity_uniform l"
    and "m0 = InitializeMatrix e n"
  shows "summary m0 xs (fold add_sample xs l)"
proof (induction xs rule: rev_induct)
  case Nil
  then show ?case using assms(2,3) unfolding assms(1) [symmetric] assms(4)
    by (simp add: summary_def Let_def assms(1) [symmetric] assms(4)) (simp add: InitializeMatrix_def)
next
  case (snoc s xs)
  then show ?case using summary_snoc by simp
qed

section \<open>Feature words\<close>

definition feature_word :: "u64 \<Rightarrow> bool" where
  "feature_word x \<longleftrightarrow> bit x 0 \<and> (\<forall>n \<ge> 10. \<not> bit x n)"

lemma feature_word_or: "feature_word x \<Longrightarrow> y AND NOT 1023 = 0 \<Longrightarrow> feature_word (x OR y)"
proof -
  assume x: "feature_word x" and y: "y AND NOT 1023 = 0"
  have "\<not> bit y n" if n: "n \<ge> 10" for n
  proof
    assume b: "bit y n"
    have m: "(1023 :: u64) = mask 10" by (simp add: mask_eq_exp_minus_1)
    have "bit (y AND NOT 1023) n" using b n bit_imp_le_length [OF b] unfolding m by (simp add: bit_simps)
    then show False using y by simp
  qed
  then show "feature_word (x OR y)" using x by (auto simp: feature_word_def bit_simps)
qed

lemma feature_word_if: "feature_word x \<Longrightarrow> feature_word y \<Longrightarrow> feature_word (if b then x else y)"
  by simp

lemma feature_word_let: "feature_word x \<Longrightarrow> (\<And>y. feature_word y \<Longrightarrow> feature_word (f y)) \<Longrightarrow> feature_word (Let x f)"
  by (simp add: Let_def)

lemma feature_word_let_bool: "(\<And>b. feature_word (f b)) \<Longrightarrow> feature_word (Let (x :: bool) f)"
  by (simp add: Let_def)

lemma feature_word_features:
  assumes "usable s"
  shows "feature_word (features s)"
proof -
  have "feature_word 1" by (auto simp: feature_word_def bit_1_iff)
  then show ?thesis
    using assms unfolding GetVmxCapabilityFeatureFlags_def option.case
    by (simp only: not_True_eq_False if_False)
       (intro feature_word_let_bool feature_word_let feature_word_if feature_word_or; simp)
qed

lemma same_identity_features:
  assumes "SameIdentity u v" and "usable u" and "usable v"
  shows "features u = features v"
proof -
  have bits: "IsControlBitAllowed a b = IsControlBitAllowed c b"
    if "SameControl a c" "IsVmxControlCapabilityValid (Some a)" "IsVmxControlCapabilityValid (Some c)" for a b c
    using that by (simp add: IsControlBitAllowed_def SameControl_def)
  note cu = usable_controls [OF assms(2)] and cv = usable_controls [OF assms(3)]
  have s: "SameControl (xs_primary_controls u) (xs_primary_controls v)"
    "SameControl (xs_secondary_controls u) (xs_secondary_controls v)"
    "SameControl (xs_tertiary_controls u) (xs_tertiary_controls v)"
    "xs_vmx_basic u = xs_vmx_basic v" "xs_feature_control u = xs_feature_control v"
    "xs_ept_vpid_cap u = xs_ept_vpid_cap v"
    using assms(1) by (simp_all add: SameIdentity_def)
  have t: "xc_allowed_one (xs_tertiary_controls u) = xc_allowed_one (xs_tertiary_controls v)"
    using s(3) by (simp add: SameControl_def)
  show ?thesis
    using assms(2,3) bits [OF s(1), of] bits [OF s(2), of] cu(2,3) cv(2,3)
    unfolding GetVmxCapabilityFeatureFlags_def option.case s(4-6) t by simp
qed

lemma same_identity_sym: "SameIdentity u v \<Longrightarrow> SameIdentity v u"
  by (simp add: SameIdentity_def SameControl_def)

lemma same_identity_trans: "SameIdentity u v \<Longrightarrow> SameIdentity v w \<Longrightarrow> SameIdentity u w"
  by (simp add: SameIdentity_def SameControl_def)

section \<open>The matrix of all samples\<close>

definition same_cpus :: "VmxCapabilitySample list \<Rightarrow> bool" where
  "same_cpus xs \<longleftrightarrow> (\<forall>u \<in> set xs. \<forall>v \<in> set xs. SameIdentity u v)"

definition matrix_state :: "VmxCapabilitySample list \<Rightarrow> u32 \<Rightarrow> VmxCapabilityMatrixState" where
  "matrix_state xs expected =
     (if xs = [] \<and> expected = 0 then MatrixEmpty
      else if length xs \<noteq> unat expected \<or> (\<exists>s \<in> set xs. \<not> usable s) then MatrixIncomplete
      else if same_cpus xs then CompleteUniform else CompleteMixed)"

lemma same_cpus_hd: "us \<noteq> [] \<Longrightarrow> (\<forall>u \<in> set us. SameIdentity (hd us) u) \<longleftrightarrow> same_cpus us"
  unfolding same_cpus_def using same_identity_sym same_identity_trans by (meson hd_in_set)

lemma same_cpus_features:
  assumes "summary m0 xs l" and "same_cpus (filter usable xs)"
  shows "xm_feature_union (ml_matrix l) = xm_feature_intersection (ml_matrix l)"
    and "xm_ept_vpid_union (ml_matrix l) = xm_ept_vpid_intersection (ml_matrix l)"
proof -
  let ?us = "filter usable xs"
  have f: "features u = features v" "xs_ept_vpid_cap u = xs_ept_vpid_cap v" if "u \<in> set ?us" "v \<in> set ?us" for u v
  proof -
    have i: "SameIdentity u v" using assms(2) that unfolding same_cpus_def by blast
    have "usable u" "usable v" using that by simp_all
    then show "features u = features v" by (rule same_identity_features [OF i])
    show "xs_ept_vpid_cap u = xs_ept_vpid_cap v" using i by (simp add: SameIdentity_def)
  qed
  have b: "bit (xm_feature_intersection (ml_matrix l)) n \<longleftrightarrow> ?us \<noteq> [] \<and> (\<forall>u \<in> set ?us. bit (features u) n)"
    "bit (xm_feature_union (ml_matrix l)) n \<longleftrightarrow> (\<exists>u \<in> set ?us. bit (features u) n)"
    "bit (xm_ept_vpid_intersection (ml_matrix l)) n \<longleftrightarrow> ?us \<noteq> [] \<and> (\<forall>u \<in> set ?us. bit (xs_ept_vpid_cap u) n)"
    "bit (xm_ept_vpid_union (ml_matrix l)) n \<longleftrightarrow> (\<exists>u \<in> set ?us. bit (xs_ept_vpid_cap u) n)" for n
    using assms(1) unfolding summary_def Let_def by blast+
  have all_ex: "(\<exists>u \<in> set us. P u) \<longleftrightarrow> us \<noteq> [] \<and> (\<forall>u \<in> set us. P u)"
    if "\<And>u v. u \<in> set us \<Longrightarrow> v \<in> set us \<Longrightarrow> P u = P v" for us :: "VmxCapabilitySample list" and P
    by (metis that hd_in_set length_pos_if_in_set list.size(3) less_irrefl)
  show "xm_feature_union (ml_matrix l) = xm_feature_intersection (ml_matrix l)"
    by (rule bit_word_eqI, unfold b(1,2), rule all_ex) (metis f(1))
  show "xm_ept_vpid_union (ml_matrix l) = xm_ept_vpid_intersection (ml_matrix l)"
    by (rule bit_word_eqI, unfold b(3,4), rule all_ex) (metis f(2))
qed

definition matrix_flags :: "bool \<Rightarrow> bool \<Rightarrow> bool \<Rightarrow> bool \<Rightarrow> u32" where
  "matrix_flags all_vmx uniform complete has_invalid =
     (if all_vmx then kVmxMatrixAllVmx else 0) OR (if uniform then kVmxMatrixIdentityUniform else 0) OR
     (if has_invalid then kVmxMatrixHasInvalidSamples else 0) OR (if complete then kVmxMatrixSamplesComplete else 0)"

lemma matrix_flags_bits:
  "matrix_flags a b c d AND 1 \<noteq> 0 \<longleftrightarrow> a" "matrix_flags a b c d AND 2 \<noteq> 0 \<longleftrightarrow> b"
  "matrix_flags a b c d AND 4 \<noteq> 0 \<longleftrightarrow> c" "matrix_flags a b c d AND 8 \<noteq> 0 \<longleftrightarrow> d"
  "matrix_flags a b c d AND NOT kVmxMatrixKnownFlagMask = 0"
  by (cases a; cases b; cases c; cases d; simp add: matrix_flags_def)+

lemma matrix_flags_fold:
  "(let f = 0 :: u32; f = (if a then f OR kVmxMatrixAllVmx else f); f = (if b then f OR kVmxMatrixIdentityUniform else f);
        f = (if d then f OR kVmxMatrixHasInvalidSamples else f)
    in if c then f OR kVmxMatrixSamplesComplete else f) = matrix_flags a b c d"
  by (cases a; cases b; cases c; cases d; simp add: matrix_flags_def Let_def)

text \<open>The matrix that the loop and the final tests leave, as one record.\<close>

lemma finish_matrix_eq:
  assumes "xm_flags (ml_matrix l) = 0"
  shows "finish_matrix l = (let m = ml_matrix l; valid_count = xm_sample_count m - xm_invalid_count m;
        inconsistent = xm_feature_union m XOR xm_feature_intersection m
     in m\<lparr>xm_valid_count := valid_count, xm_inconsistent_features := inconsistent,
          xm_flags := matrix_flags (valid_count \<noteq> 0 \<and> xm_feature_intersection m AND kVmxFeatureVmx \<noteq> 0)
             (ml_identity_uniform l \<and> valid_count \<noteq> 0)
             (xm_sample_count m = xm_expected_count m \<and> valid_count = xm_expected_count m)
             (xm_invalid_count m \<noteq> 0),
          xm_state := VmxCapabilityMatrixState_u32
            (if xm_sample_count m \<noteq> xm_expected_count m \<or> xm_invalid_count m \<noteq> 0 \<or> xm_expected_count m = 0
             then MatrixIncomplete
             else if \<not> ml_identity_uniform l \<or> inconsistent \<noteq> 0 \<or>
                     xm_ept_vpid_intersection m \<noteq> xm_ept_vpid_union m
             then CompleteMixed else CompleteUniform)\<rparr>)"
  unfolding finish_matrix_def matrix_flags_fold [symmetric] Let_def assms ..

definition matrix_sums :: "VmxCapabilitySample list \<Rightarrow> VmxCapabilityMatrix \<Rightarrow> bool" where
  "matrix_sums xs m \<longleftrightarrow>
     unat (xm_sample_count m) = length xs \<and> unat (xm_valid_count m) = length (filter usable xs) \<and>
     (\<forall>n. bit (xm_feature_intersection m) n \<longleftrightarrow> filter usable xs \<noteq> [] \<and> (\<forall>u \<in> set (filter usable xs). bit (features u) n)) \<and>
     (\<forall>n. bit (xm_feature_union m) n \<longleftrightarrow> (\<exists>u \<in> set (filter usable xs). bit (features u) n)) \<and>
     (\<forall>n. bit (xm_ept_vpid_intersection m) n \<longleftrightarrow>
        filter usable xs \<noteq> [] \<and> (\<forall>u \<in> set (filter usable xs). bit (xs_ept_vpid_cap u) n)) \<and>
     (\<forall>n. bit (xm_ept_vpid_union m) n \<longleftrightarrow> (\<exists>u \<in> set (filter usable xs). bit (xs_ept_vpid_cap u) n)) \<and>
     xm_inconsistent_features m = xm_feature_union m XOR xm_feature_intersection m"

lemma summary_frame:
  assumes "summary (InitializeMatrix e n) xs l"
  shows "xm_size (ml_matrix l) = 96" "xm_version (ml_matrix l) = 1" "xm_flags (ml_matrix l) = 0"
    "xm_expected_count (ml_matrix l) = e" "xm_sample_count (ml_matrix l) = n" "xm_reserved (ml_matrix l) = replicate 4 0"
proof -
  define z where "z = (ml_matrix l)\<lparr>xm_feature_intersection := 0, xm_feature_union := 0, xm_ept_vpid_intersection := 0,
                xm_ept_vpid_union := 0, xm_generation := 0, xm_invalid_count := 0\<rparr>"
  have z: "z = InitializeMatrix e n" using assms by (simp add: summary_def Let_def z_def)
  have "xm_size z = 96" "xm_version z = 1" "xm_flags z = 0" "xm_expected_count z = e" "xm_sample_count z = n"
    "xm_reserved z = replicate 4 0"
    by (simp_all add: z InitializeMatrix_def)
  then show "xm_size (ml_matrix l) = 96" "xm_version (ml_matrix l) = 1" "xm_flags (ml_matrix l) = 0"
    "xm_expected_count (ml_matrix l) = e" "xm_sample_count (ml_matrix l) = n" "xm_reserved (ml_matrix l) = replicate 4 0"
    by (simp_all add: z_def)
qed

lemma summary_counts:
  assumes "summary (InitializeMatrix e n) xs l" and "unat n = length xs" and "length xs \<le> 4096"
  shows "unat (xm_invalid_count (ml_matrix l)) = length xs - length (filter usable xs)"
    and "unat (n - xm_invalid_count (ml_matrix l)) = length (filter usable xs)"
    and "xm_invalid_count (ml_matrix l) \<le> n"
proof -
  have "xm_invalid_count (ml_matrix l) = of_nat (length xs - length (filter usable xs))"
    using assms(1) by (simp add: summary_def Let_def)
  then show u: "unat (xm_invalid_count (ml_matrix l)) = length xs - length (filter usable xs)"
    using assms(3) by (simp add: unat_of_nat_u32 del: of_nat_diff)
  then show le: "xm_invalid_count (ml_matrix l) \<le> n"
    using assms(2) by (simp add: word_le_nat_alt)
  have "length (filter usable xs) \<le> length xs" by simp
  then show "unat (n - xm_invalid_count (ml_matrix l)) = length (filter usable xs)"
    using u assms(2) by (simp add: unat_sub [OF le])
qed

lemma summary_bits:
  assumes "summary m0 xs l"
  shows "bit (xm_feature_intersection (ml_matrix l)) n \<longleftrightarrow>
      filter usable xs \<noteq> [] \<and> (\<forall>u \<in> set (filter usable xs). bit (features u) n)"
    and "bit (xm_feature_union (ml_matrix l)) n \<longleftrightarrow> (\<exists>u \<in> set (filter usable xs). bit (features u) n)"
    and "bit (xm_ept_vpid_intersection (ml_matrix l)) n \<longleftrightarrow>
      filter usable xs \<noteq> [] \<and> (\<forall>u \<in> set (filter usable xs). bit (xs_ept_vpid_cap u) n)"
    and "bit (xm_ept_vpid_union (ml_matrix l)) n \<longleftrightarrow> (\<exists>u \<in> set (filter usable xs). bit (xs_ept_vpid_cap u) n)"
  using assms unfolding summary_def Let_def by blast+

lemma inter_union:
  assumes "\<And>n. bit (i :: u64) n \<longleftrightarrow> us \<noteq> [] \<and> (\<forall>u \<in> set us. P u n)" and "\<And>n. bit v n \<longleftrightarrow> (\<exists>u \<in> set us. P u n)"
  shows "i AND NOT v = 0"
proof (rule bit_word_eqI)
  fix n
  have "bit i n \<Longrightarrow> bit v n" unfolding assms by (cases us) auto
  then show "bit (i AND NOT v) n = bit 0 n" by (auto simp: bit_simps)
qed

lemma summary_masks:
  assumes "summary m0 xs l"
  shows "xm_feature_intersection (ml_matrix l) AND NOT (xm_feature_union (ml_matrix l)) = 0"
    and "xm_ept_vpid_intersection (ml_matrix l) AND NOT (xm_ept_vpid_union (ml_matrix l)) = 0"
    and "xm_feature_union (ml_matrix l) AND NOT 1023 = 0"
    and "xm_feature_intersection (ml_matrix l) AND NOT 1023 = 0"
    and "xm_feature_intersection (ml_matrix l) AND 1 \<noteq> 0 \<longleftrightarrow> filter usable xs \<noteq> []"
proof -
  let ?us = "filter usable xs"
  note b = summary_bits [OF assms]
  show i: "xm_feature_intersection (ml_matrix l) AND NOT (xm_feature_union (ml_matrix l)) = 0"
    by (rule inter_union [OF b(1,2)])
  show "xm_ept_vpid_intersection (ml_matrix l) AND NOT (xm_ept_vpid_union (ml_matrix l)) = 0"
    by (rule inter_union [OF b(3,4)])
  have fw: "feature_word (features u)" if "u \<in> set ?us" for u using feature_word_features that by simp
  have m: "(1023 :: u64) = mask 10" by (simp add: mask_eq_exp_minus_1)
  show u: "xm_feature_union (ml_matrix l) AND NOT 1023 = 0"
  proof (rule bit_word_eqI)
    fix n
    have "bit (xm_feature_union (ml_matrix l)) n \<Longrightarrow> n < 10"
      unfolding b(2) using fw by (auto simp: feature_word_def not_le [symmetric])
    then show "bit (xm_feature_union (ml_matrix l) AND NOT 1023) n = bit 0 n"
      unfolding m by (auto simp: bit_simps)
  qed
  show "xm_feature_intersection (ml_matrix l) AND NOT 1023 = 0"
  proof -
    let ?i = "xm_feature_intersection (ml_matrix l)" and ?u = "xm_feature_union (ml_matrix l)"
    have "?i AND NOT 1023 = (?i AND ?u) AND NOT 1023" using i by (simp only: known_mask_iff)
    also have "\<dots> = ?i AND (?u AND NOT 1023)" by (rule and.assoc)
    also have "\<dots> = 0" by (simp only: u bit.conj_zero_right)
    finally show ?thesis .
  qed
  have "bit (xm_feature_intersection (ml_matrix l)) 0 \<longleftrightarrow> ?us \<noteq> []"
    unfolding b(1) using fw by (auto simp: feature_word_def)
  then show "xm_feature_intersection (ml_matrix l) AND 1 \<noteq> 0 \<longleftrightarrow> ?us \<noteq> []"
    by (simp add: and_numeral_flag)
qed

lemma xor_zero_iff: "(a :: u64) XOR b = 0 \<longleftrightarrow> a = b"
  by (auto simp: bit_eq_iff bit_simps)

lemma finish_state:
  assumes "summary (InitializeMatrix e n) xs l" and "unat n = length xs" and "length xs \<le> 4096" and "xs \<noteq> []"
  shows "xm_state (finish_matrix l) = VmxCapabilityMatrixState_u32 (matrix_state xs e)"
proof -
  note fr = summary_frame [OF assms(1)] and c = summary_counts [OF assms(1-3)]
  have inv: "xm_invalid_count (ml_matrix l) \<noteq> 0 \<longleftrightarrow> (\<exists>s \<in> set xs. \<not> usable s)"
  proof -
    have "xm_invalid_count (ml_matrix l) = 0 \<longleftrightarrow> length xs \<le> length (filter usable xs)"
      using c(1) by (simp add: word_unat_eq_iff)
    also have "\<dots> \<longleftrightarrow> filter usable xs = xs"
      using length_filter_le [of usable xs] by (metis le_antisym filter_id_conv length_filter_less nat_less_le order_refl)
    finally show ?thesis by (auto simp: filter_id_conv)
  qed
  have cnt: "n \<noteq> e \<longleftrightarrow> length xs \<noteq> unat e" using assms(2) by (auto simp: word_unat_eq_iff)
  have e0: "e = 0 \<Longrightarrow> length xs \<noteq> unat e" using assms(4) by simp
  show ?thesis
  proof (cases "length xs \<noteq> unat e \<or> (\<exists>s \<in> set xs. \<not> usable s)")
    case True
    then show ?thesis
      using inv cnt assms(4) by (simp add: finish_matrix_eq [OF fr(3)] Let_def fr matrix_state_def)
  next
    case False
    then have us: "filter usable xs = xs" by (simp add: filter_id_conv)
    have id: "ml_identity_uniform l \<longleftrightarrow> same_cpus xs"
      using assms(1,4) same_cpus_hd [of xs] by (simp add: summary_def Let_def us)
    have "(\<not> ml_identity_uniform l \<or> xm_feature_union (ml_matrix l) XOR xm_feature_intersection (ml_matrix l) \<noteq> 0 \<or>
       xm_ept_vpid_intersection (ml_matrix l) \<noteq> xm_ept_vpid_union (ml_matrix l)) \<longleftrightarrow> \<not> same_cpus xs"
      using same_cpus_features [OF assms(1)] id by (auto simp: us xor_zero_iff)
    then show ?thesis
      using False inv cnt e0 assms(4)
      by (auto simp: finish_matrix_eq [OF fr(3)] Let_def fr matrix_state_def)
  qed
qed

lemma finish_sums:
  assumes "summary (InitializeMatrix e n) xs l" and "unat n = length xs" and "length xs \<le> 4096"
  shows "matrix_sums xs (finish_matrix l)"
  using summary_bits [OF assms(1)] summary_counts(2) [OF assms] assms(2) summary_frame [OF assms(1)]
  by (simp add: matrix_sums_def finish_matrix_eq Let_def)

text \<open>The validity test in three parts: the shape, the flags and the state.\<close>

definition matrix_shape :: "VmxCapabilityMatrix \<Rightarrow> bool" where
  "matrix_shape m \<longleftrightarrow> capability_versioned (xm_version m) (xm_size m) 96 \<and> xm_state m \<le> 4 \<and>
     xm_flags m AND NOT kVmxMatrixKnownFlagMask = 0 \<and> xm_expected_count m \<le> 4096 \<and> xm_sample_count m \<le> 4096 \<and>
     xm_valid_count m \<le> xm_sample_count m \<and> xm_invalid_count m \<le> xm_sample_count m \<and>
     xm_valid_count m + xm_invalid_count m = xm_sample_count m \<and>
     xm_feature_intersection m AND NOT (xm_feature_union m) = 0 \<and> xm_feature_intersection m AND NOT 1023 = 0 \<and>
     xm_feature_union m AND NOT 1023 = 0 \<and>
     xm_inconsistent_features m = xm_feature_union m XOR xm_feature_intersection m \<and>
     xm_ept_vpid_intersection m AND NOT (xm_ept_vpid_union m) = 0 \<and> (\<forall>k \<in> {0, 1, 2, 3}. xm_reserved m ! k = 0)"

definition matrix_flags_ok :: "VmxCapabilityMatrix \<Rightarrow> bool" where
  "matrix_flags_ok m \<longleftrightarrow>
     (xm_flags m AND 1 \<noteq> 0) = (xm_valid_count m \<noteq> 0 \<and> xm_feature_intersection m AND 1 \<noteq> 0) \<and>
     (xm_flags m AND 4 \<noteq> 0) = (xm_expected_count m = xm_sample_count m \<and> xm_valid_count m = xm_expected_count m) \<and>
     (xm_flags m AND 8 \<noteq> 0) = (xm_invalid_count m \<noteq> 0) \<and> (xm_flags m AND 2 \<noteq> 0 \<longrightarrow> xm_valid_count m \<noteq> 0)"

definition matrix_state_ok :: "VmxCapabilityMatrix \<Rightarrow> bool" where
  "matrix_state_ok m \<longleftrightarrow>
     (if xm_state m = 0 then xm_expected_count m = 0 \<and> xm_sample_count m = 0 \<and> xm_valid_count m = 0 \<and>
        xm_invalid_count m = 0 \<and> xm_generation m = 0
      else (xm_valid_count m = 0) = (xm_generation m = 0) \<and>
        (let complete = (xm_expected_count m = xm_sample_count m \<and> xm_expected_count m \<noteq> 0 \<and> xm_invalid_count m = 0 \<and>
               xm_flags m AND 4 \<noteq> 0);
             uniform = (xm_flags m AND 2 \<noteq> 0 \<and> xm_inconsistent_features m = 0 \<and>
               xm_ept_vpid_intersection m = xm_ept_vpid_union m)
         in if xm_state m = 1 then complete \<and> uniform
            else if xm_state m = 2 then complete \<and> \<not> uniform
            else xm_state m \<noteq> 4 \<and> (xm_state m = 3 \<longrightarrow> \<not> complete)))"

lemma guardI: "\<not> a \<Longrightarrow> b \<Longrightarrow> (if a then False else b)"
  by simp

lemma matrix_validI:
  assumes "matrix_shape m" and "matrix_flags_ok m" and "matrix_state_ok m"
  shows "IsVmxCapabilityMatrixValid (Some m)"
  unfolding IsVmxCapabilityMatrixValid_def option.case Let_def VmxCapabilityMatrixState_u32.simps
proof (rule guardI, goal_cases)
  case 1
  show ?case using assms(1) unfolding matrix_shape_def by (simp only: not_less de_Morgan_disj not_not) simp
next
  case 2
  show ?case
  proof (rule guardI, goal_cases)
    case 1
    show ?case using assms(2) unfolding matrix_flags_ok_def by blast
  next
    case 2
    show ?case
    proof (cases "xm_state m = 0")
      case True
      then show ?thesis using assms(3) unfolding matrix_state_ok_def by simp
    next
      case False
      have gen: "(xm_valid_count m = 0) = (xm_generation m = 0)"
        using assms(3) False unfolding matrix_state_ok_def by (simp only: if_False)
      then have g: "\<not> (xm_valid_count m = 0 \<and> xm_generation m \<noteq> 0 \<or> xm_valid_count m \<noteq> 0 \<and> xm_generation m = 0)"
        by blast
      show ?thesis
        using assms(3) unfolding matrix_state_ok_def Let_def if_not_P [OF False] if_not_P [OF g] gen [symmetric]
        by (auto split: if_splits)
    qed
  qed
qed

lemma finish_valid:
  assumes "summary (InitializeMatrix e n) xs l" and "unat n = length xs" and "length xs \<le> 4096" and "xs \<noteq> []"
    and "e \<le> 4096"
  shows "IsVmxCapabilityMatrixValid (Some (finish_matrix l))"
proof -
  note fr = summary_frame [OF assms(1)] and c = summary_counts [OF assms(1-3)] and mk = summary_masks [OF assms(1)]
  let ?m = "ml_matrix l"
  define v where "v = n - xm_invalid_count ?m"
  have v0: "v = 0 \<longleftrightarrow> filter usable xs = []" using c(2) by (simp add: v_def word_unat_eq_iff)
  have gen: "(v = 0 \<and> xm_generation ?m \<noteq> 0 \<or> v \<noteq> 0 \<and> xm_generation ?m = 0) = False"
  proof (cases "filter usable xs = []")
    case True
    then show ?thesis using assms(1) v0 by (simp add: summary_def Let_def)
  next
    case False
    then have "usable (hd (filter usable xs))" using hd_in_set [OF False] by simp
    then have "xs_generation (hd (filter usable xs)) \<noteq> 0" by (rule usable_controls(7))
    then show ?thesis using assms(1) v0 False by (simp add: summary_def Let_def)
  qed
  have ucnt: "v \<le> n" "v + xm_invalid_count ?m = n"
    using c(1,2) assms(2) by (simp_all add: v_def word_le_nat_alt)
  have nle: "n \<le> 4096" using assms(2,3) by (simp add: word_le_nat_alt)
  have n0: "n \<noteq> 0" using assms(2,4) by (auto simp: word_unat_eq_iff)
  define st where "st = xm_state (finish_matrix l)"
  have st: "st = (if n \<noteq> e \<or> xm_invalid_count ?m \<noteq> 0 \<or> e = 0 then 3
      else if \<not> ml_identity_uniform l \<or> xm_feature_union ?m XOR xm_feature_intersection ?m \<noteq> 0 \<or>
              xm_ept_vpid_intersection ?m \<noteq> xm_ept_vpid_union ?m then 2 else 1)"
    by (simp add: st_def finish_matrix_eq [OF fr(3)] Let_def fr)
  have f: "finish_matrix l = ?m\<lparr>xm_valid_count := v, xm_inconsistent_features := xm_feature_union ?m XOR xm_feature_intersection ?m,
      xm_flags := matrix_flags (v \<noteq> 0) (ml_identity_uniform l \<and> v \<noteq> 0) (n = e \<and> v = e) (xm_invalid_count ?m \<noteq> 0),
      xm_state := st\<rparr>"
  proof -
    have "(v \<noteq> 0 \<and> xm_feature_intersection ?m AND 1 \<noteq> 0) = (v \<noteq> 0)" using mk(5) v0 by blast
    then show ?thesis
      unfolding st_def finish_matrix_eq [OF fr(3)] Let_def fr v_def [symmetric] by simp
  qed
  have complete: "xm_invalid_count ?m = 0 \<Longrightarrow> v = n" by (simp add: v_def)
  have st4: "st \<le> 4" by (simp add: st)
  have "matrix_shape (finish_matrix l)"
    using ucnt nle c(3) mk(1-4) assms(5) st4 matrix_flags_bits(5)
    unfolding f matrix_shape_def by (simp add: fr IsVersionedSizeValid_def)
  moreover have "matrix_flags_ok (finish_matrix l)"
    using mk(5) v0 unfolding f matrix_flags_ok_def by (simp add: fr matrix_flags_bits) blast
  moreover have "matrix_state_ok (finish_matrix l)"
    using gen n0 complete unfolding f matrix_state_ok_def st Let_def by (simp add: fr matrix_flags_bits) blast
  ultimately show ?thesis by (rule matrix_validI)
qed

lemma matrix_loop_invalid:
  "\<not> fst (matrix_loop xs prior l) \<Longrightarrow>
     xm_state (ml_matrix (snd (matrix_loop xs prior l))) = VmxCapabilityMatrixState_u32 MatrixInvalid"
  by (induction xs arbitrary: prior l) (auto split: if_splits)

lemma empty_matrix:
  assumes "e \<le> 4096"
  shows "\<exists>m. BuildVmxCapabilityMatrix (Some []) 0 e (Some m0) = (True, Some m) \<and>
    xm_state m = VmxCapabilityMatrixState_u32 (matrix_state [] e) \<and> IsVmxCapabilityMatrixValid (Some m) \<and> matrix_sums [] m"
proof -
  let ?m = "InitializeMatrix e 0"
  let ?r = "if e = 0 then ?m\<lparr>xm_state := 0, xm_flags := 4\<rparr> else ?m\<lparr>xm_state := 3\<rparr>"
  have b: "BuildVmxCapabilityMatrix (Some []) 0 e (Some m0) = (True, Some ?r)"
    using assms by (simp add: BuildVmxCapabilityMatrix_def Let_def InitializeMatrix_def)
  have "IsVmxCapabilityMatrixValid (Some ?r)"
  proof (rule matrix_validI)
    show "matrix_shape ?r" using assms by (auto simp: matrix_shape_def InitializeMatrix_def IsVersionedSizeValid_def)
    show "matrix_flags_ok ?r" by (auto simp: matrix_flags_ok_def InitializeMatrix_def)
    show "matrix_state_ok ?r" by (auto simp: matrix_state_ok_def InitializeMatrix_def)
  qed
  moreover have "matrix_sums [] ?r" by (auto simp: matrix_sums_def InitializeMatrix_def)
  moreover have "xm_state ?r = VmxCapabilityMatrixState_u32 (matrix_state [] e)"
    by (auto simp: matrix_state_def word_unat_eq_iff)
  ultimately show ?thesis using b by blast
qed

lemma build_matrix:
  assumes "length xs \<le> 4096" and "e \<le> 4096"
  shows "\<exists>m. BuildVmxCapabilityMatrix (Some xs) (of_nat (length xs)) e (Some m0) = (samples_ok xs, Some m) \<and>
    xm_state m = VmxCapabilityMatrixState_u32 (if samples_ok xs then matrix_state xs e else MatrixInvalid) \<and>
    (samples_ok xs \<longrightarrow> IsVmxCapabilityMatrixValid (Some m) \<and> matrix_sums xs m)"
proof (cases "xs = []")
  case True
  then show ?thesis using empty_matrix [OF assms(2)] by (simp add: samples_ok_def processors_distinct_def)
next
  case ne: False
  let ?n = "of_nat (length xs) :: u32"
  let ?l = "\<lparr>ml_matrix = InitializeMatrix e ?n, ml_first_valid = None, ml_identity_uniform = True\<rparr>"
  have n: "unat ?n = length xs" using assms(1) by (simp add: unat_of_nat_u32)
  have n1: "\<not> 4096 < ?n" "\<not> 4096 < e" using n assms by (simp_all add: word_less_nat_alt word_le_nat_alt)
  have n0: "?n \<noteq> 0" using n ne by (metis length_0_conv unat_0)
  have fst: "fst (matrix_loop xs [] ?l) \<longleftrightarrow> samples_ok xs"
    using matrix_loop_fst [of "[]" xs ?l] by (simp add: samples_ok_def processors_distinct_def)
  have b: "BuildVmxCapabilityMatrix (Some xs) ?n e (Some m0) =
      (case matrix_loop xs [] ?l of (False, l) \<Rightarrow> (False, Some (ml_matrix l)) | (True, l) \<Rightarrow> (True, Some (finish_matrix l)))"
    using n1 n0 by (simp add: BuildVmxCapabilityMatrix_def Let_def n)
  show ?thesis
  proof (cases "samples_ok xs")
    case True
    then have ml: "matrix_loop xs [] ?l = (True, fold add_sample xs ?l)"
      using fst matrix_loop_fold [of xs "[]" ?l] by (simp add: prod_eq_iff)
    have sm: "summary (InitializeMatrix e ?n) xs (fold add_sample xs ?l)"
      by (rule summary_fold [of _ _ e ?n]) simp_all
    show ?thesis
      using True finish_state [OF sm n assms(1) ne] finish_valid [OF sm n assms(1) ne assms(2)] finish_sums [OF sm n assms(1)]
      unfolding b ml by simp
  next
    case False
    then obtain l where ml: "matrix_loop xs [] ?l = (False, l)" using fst by (cases "matrix_loop xs [] ?l") simp
    show ?thesis using False matrix_loop_invalid [of xs "[]" ?l] unfolding b ml by simp
  qed
qed

section \<open>A uniform matrix covers every processor\<close>

lemma same_identity_normalize:
  assumes "SameIdentity s t" and "usable s" and "usable t"
  shows "NormalizeVmxControlSet (Some s) r n = NormalizeVmxControlSet (Some t) r n"
proof -
  have eq: "normalized_value c x = normalized_value d x"
    if "SameControl c d" "IsVmxControlCapabilityValid (Some c)" "IsVmxControlCapabilityValid (Some d)" for c d x
    using that by (simp add: normalized_value_eq SameControl_def)
  have sc: "SameControl (xs_pin_controls s) (xs_pin_controls t)" "SameControl (xs_primary_controls s) (xs_primary_controls t)"
    "SameControl (xs_secondary_controls s) (xs_secondary_controls t)" "SameControl (xs_tertiary_controls s) (xs_tertiary_controls t)"
    "SameControl (xs_exit_controls s) (xs_exit_controls t)" "SameControl (xs_entry_controls s) (xs_entry_controls t)"
    and id: "xs_feature_control s = xs_feature_control t" "xs_ept_vpid_cap s = xs_ept_vpid_cap t"
    using assms(1) by (simp_all add: SameIdentity_def)
  note us = usable_controls [OF assms(2)] and ut = usable_controls [OF assms(3)]
  have nv: "normalized_value (xs_pin_controls s) = normalized_value (xs_pin_controls t)"
    "normalized_value (xs_primary_controls s) = normalized_value (xs_primary_controls t)"
    "normalized_value (xs_secondary_controls s) = normalized_value (xs_secondary_controls t)"
    "normalized_value (xs_tertiary_controls s) = normalized_value (xs_tertiary_controls t)"
    "normalized_value (xs_exit_controls s) = normalized_value (xs_exit_controls t)"
    "normalized_value (xs_entry_controls s) = normalized_value (xs_entry_controls t)"
    using eq [OF sc(1)] eq [OF sc(2)] eq [OF sc(3)] eq [OF sc(4)] eq [OF sc(5)] eq [OF sc(6)] us ut by (simp_all add: fun_eq_iff)
  show ?thesis
    by (cases n; cases r; unfold NormalizeVmxControlSet_def nv id option.case prod.case Let_def)
       (simp_all only: assms(2,3))
qed

text \<open>
C32: When the matrix built from the samples of the processors is accepted as uniform for some
required features, there is exactly one sample per expected processor, each of them is usable
and has every required feature and EPT/VPID capability, and any control set normalises to the
same result on all of them.
\<close>

theorem uniform_matrix_sound:
  assumes "length xs \<le> 4096" and "e \<le> 4096"
    and "BuildVmxCapabilityMatrix (Some xs) (of_nat (length xs)) e (Some m0) = (ok, Some m)"
    and "IsVmxCapabilityMatrixUniform (Some m) required_features required_caps"
  shows "length xs = unat e \<and> processors_distinct xs \<and>
    (\<forall>s \<in> set xs. IsVmxCapabilitySampleUsable (Some s) \<and>
       GetVmxCapabilityFeatureFlags (Some s) AND required_features = required_features \<and>
       xs_ept_vpid_cap s AND required_caps = required_caps) \<and>
    (\<forall>s \<in> set xs. \<forall>t \<in> set xs. \<forall>r n. NormalizeVmxControlSet (Some s) r n = NormalizeVmxControlSet (Some t) r n)"
proof -
  obtain m' where m': "BuildVmxCapabilityMatrix (Some xs) (of_nat (length xs)) e (Some m0) = (samples_ok xs, Some m')"
    "xm_state m' = VmxCapabilityMatrixState_u32 (if samples_ok xs then matrix_state xs e else MatrixInvalid)"
    "samples_ok xs \<longrightarrow> IsVmxCapabilityMatrixValid (Some m') \<and> matrix_sums xs m'"
    using build_matrix [OF assms(1,2), of m0] by blast
  have st: "xm_state m' = 1" and req: "xm_feature_intersection m' AND required_features = required_features"
    "xm_ept_vpid_intersection m' AND required_caps = required_caps"
    using assms(3,4) m'(1) by (auto simp: IsVmxCapabilityMatrixUniform_def)
  have ok: "samples_ok xs" and cu: "matrix_state xs e = CompleteUniform"
    using st m'(2) by (simp_all add: matrix_state_def split: if_splits)
  then have len: "length xs = unat e" and us: "\<forall>s \<in> set xs. usable s" and same: "same_cpus xs"
    by (auto simp: matrix_state_def split: if_splits)
  have fl: "filter usable xs = xs" using us by (simp add: filter_id_conv)
  have sums: "bit (xm_feature_intersection m') k \<Longrightarrow> s \<in> set xs \<Longrightarrow> bit (features s) k"
    "bit (xm_ept_vpid_intersection m') k \<Longrightarrow> s \<in> set xs \<Longrightarrow> bit (xs_ept_vpid_cap s) k" for k s
    using m'(3) ok unfolding matrix_sums_def fl by blast+
  have "features s AND required_features = required_features \<and> xs_ept_vpid_cap s AND required_caps = required_caps"
    if s: "s \<in> set xs" for s
  proof -
    have "bits_le required_features (xm_feature_intersection m')" "bits_le required_caps (xm_ept_vpid_intersection m')"
      using req by (simp_all add: bits_le_def and.commute)
    then have "bits_le required_features (features s)" "bits_le required_caps (xs_ept_vpid_cap s)"
      using sums(1) [OF _ s] sums(2) [OF _ s] unfolding bits_le_bit by blast+
    then show ?thesis unfolding bits_le_def by (simp add: and.commute)
  qed
  moreover have "NormalizeVmxControlSet (Some s) r n = NormalizeVmxControlSet (Some t) r n"
    if "s \<in> set xs" "t \<in> set xs" for s t r n
  proof (rule same_identity_normalize)
    show "SameIdentity s t" using that same unfolding same_cpus_def by blast
    show "usable s" "usable t" using that us by blast+
  qed
  ultimately show ?thesis using len us ok unfolding samples_ok_def by blast
qed


section \<open>Examples\<close>

definition sample_pair :: "u64 \<Rightarrow> u64 \<Rightarrow> VmxControlCapability" where
  "sample_pair mandatory allowed = \<lparr>xc_size = 32, xc_version = 1, xc_encoding = 1, xc_reserved = 0,
     xc_mandatory_one = mandatory, xc_allowed_one = allowed\<rparr>"

definition sample_cpu :: "u32 \<Rightarrow> VmxCapabilitySample" where
  "sample_cpu index = \<lparr>xs_size = 296, xs_version = 1, xs_logical_index = index, xs_processor_group = 0,
     xs_processor_number = index, xs_status = 1, xs_reserved0 = 0, xs_reserved1 = 0, xs_generation = 3, xs_vmx_basic = 4,
     xs_feature_control = 5, xs_ept_vpid_cap = 0x4040, xs_pin_controls = sample_pair 0x16 0x7F,
     xs_primary_controls = sample_pair 0x400 0x80000400, xs_secondary_controls = sample_pair 0 2,
     xs_tertiary_controls = \<lparr>xc_size = 32, xc_version = 1, xc_encoding = 2, xc_reserved = 0, xc_mandatory_one = 0,
       xc_allowed_one = 0\<rparr>,
     xs_exit_controls = sample_pair 0 1, xs_entry_controls = sample_pair 0 1,
     xs_cr0_fixed0 = 1, xs_cr0_fixed1 = 0xFFFFFFFF, xs_cr4_fixed0 = 0, xs_cr4_fixed1 = 0xFFFFFFFF, xs_reserved = [0, 0]\<rparr>"

definition sample_request :: VmxControlSet where
  "sample_request = \<lparr>xk_size = 40, xk_version = 1, xk_pin_controls = 1, xk_primary_controls = 0x80000000,
     xk_secondary_controls = 2, xk_exit_controls = 0, xk_entry_controls = 0, xk_tertiary_controls = 0\<rparr>"

lemmas sample_cpu_defs = sample_cpu_def sample_pair_def IsVmxCapabilitySampleUsable_def IsVmxCapabilitySampleValid_def
  IsCollected_def IsFailureStatus_def IsVersionedSizeValid_def IsVmxControlCapabilityValid_def IsEncodingValid_def
  IsPair_def IsAllowedOne64_def Let_def

lemma sample_cpu_usable: "i < 2 \<Longrightarrow> usable (sample_cpu i)"
proof -
  assume "i < 2"
  then have "i = 0 \<or> i = 1" by (auto simp: word_less_nat_alt word_unat_eq_iff less_2_cases_iff)
  then show ?thesis by (elim disjE) (simp_all add: sample_cpu_defs word_le_nat_alt)
qed

lemma sample_cpus_ok: "samples_ok [sample_cpu 0, sample_cpu 1]"
  using sample_cpu_usable [of 0] sample_cpu_usable [of 1]
  by (simp add: samples_ok_def processors_distinct_def IsVmxCapabilitySampleUsable_def) (simp add: sample_cpu_def)

lemma sample_cpus_state: "matrix_state [sample_cpu 0, sample_cpu 1] 2 = CompleteUniform"
  using sample_cpu_usable [of 0] sample_cpu_usable [of 1]
  by (simp add: matrix_state_def same_cpus_def) (simp add: SameIdentity_def SameControl_def sample_cpu_def)


theorem uniform_matrix_sound_witness:
  "\<exists>m. BuildVmxCapabilityMatrix (Some [sample_cpu 0, sample_cpu 1]) 2 2 (Some (InitializeMatrix 0 0)) = (True, Some m) \<and>
     IsVmxCapabilityMatrixUniform (Some m) 0 0 \<and>
     NormalizeVmxControlSet (Some (sample_cpu 0)) (Some sample_request) (Some zero_control_set) =
     NormalizeVmxControlSet (Some (sample_cpu 1)) (Some sample_request) (Some zero_control_set)"
proof -
  obtain m where m: "BuildVmxCapabilityMatrix (Some [sample_cpu 0, sample_cpu 1]) 2 2 (Some (InitializeMatrix 0 0)) = (True, Some m)"
    "xm_state m = 1" "IsVmxCapabilityMatrixValid (Some m)"
    using build_matrix [of "[sample_cpu 0, sample_cpu 1]" 2 "InitializeMatrix 0 0"]
    by (simp add: sample_cpus_ok sample_cpus_state) blast
  have u: "IsVmxCapabilityMatrixUniform (Some m) 0 0" using m by (simp add: IsVmxCapabilityMatrixUniform_def)
  define xs where "xs = [sample_cpu 0, sample_cpu 1]"
  have le: "length xs \<le> 4096" "(2 :: u32) \<le> 4096" by (simp_all add: xs_def)
  have b: "BuildVmxCapabilityMatrix (Some xs) (of_nat (length xs)) 2 (Some (InitializeMatrix 0 0)) = (True, Some m)"
    using m(1) by (simp add: xs_def)
  have "sample_cpu 0 \<in> set xs" "sample_cpu 1 \<in> set xs" by (simp_all add: xs_def)
  then show ?thesis using uniform_matrix_sound [OF le b u] m(1) u by blast
qed

theorem normalized_controls_least_witness:
  "\<exists>n. NormalizeVmxControlSet (Some (sample_cpu 0)) (Some sample_request) (Some zero_control_set) = (True, Some n) \<and>
     control_set_allowed (sample_cpu 0) n \<and> control_set_le sample_request n"
proof -
  let ?n = "\<lparr>xk_size = 40, xk_version = 1, xk_pin_controls = 0x17, xk_primary_controls = 0x80000400,
     xk_secondary_controls = 2, xk_exit_controls = 0, xk_entry_controls = 0, xk_tertiary_controls = 0\<rparr>"
  note us = usable_controls [OF sample_cpu_usable [of 0]]
  have "NormalizeVmxControlSet (Some (sample_cpu 0)) (Some sample_request) (Some zero_control_set) = (True, Some ?n)"
    using sample_cpu_usable [of 0] us
    by (simp add: NormalizeVmxControlSet_True_iff normal_word_def normalized_value_eq)
       (simp add: sample_request_def sample_cpu_def sample_pair_def vmx_unlocked_def control_set_consistent_def bits_le_def
          IsVersionedSizeValid_def)
  then show ?thesis
    using normalized_controls_least [of "sample_cpu 0" sample_request zero_control_set True ?n] by blast
qed

end
