(* ===== verification/CpuPolicyModel.thy ===== *)
theory CpuPolicyModel
  imports KnhvPrelude
begin

text \<open>
  What a guest sees of the processor: the constants and structures of
  \<^verbatim>\<open>src/src/include/knhv_cpu_policy.h\<close> and the functions of
  \<^verbatim>\<open>src/src/vmx/cpu_policy_model.cpp\<close>, the filter on CPUID and the decision on an access to a
  model-specific register. The loops over the rules run over their indices.
\<close>

section \<open>Constants\<close>

abbreviation kCpuPolicyContractVersion :: u32 where "kCpuPolicyContractVersion \<equiv> 1"
abbreviation kCpuPolicyMaxStructSize :: u32 where "kCpuPolicyMaxStructSize \<equiv> 4096"
abbreviation kCpuPolicyMaxCpuidRules :: nat where "kCpuPolicyMaxCpuidRules \<equiv> 16"
abbreviation kCpuPolicyMaxMsrRules :: nat where "kCpuPolicyMaxMsrRules \<equiv> 32"
abbreviation kCpuidExposeVmx :: u32 where "kCpuidExposeVmx \<equiv> 1"
abbreviation kCpuidExposeHypervisor :: u32 where "kCpuidExposeHypervisor \<equiv> 2"
abbreviation kCpuidPreserveTopology :: u32 where "kCpuidPreserveTopology \<equiv> 4"
abbreviation kCpuidExposeInvariantTsc :: u32 where "kCpuidExposeInvariantTsc \<equiv> 8"
abbreviation kCpuidKnownPolicyMask :: u32 where
  "kCpuidKnownPolicyMask \<equiv> kCpuidExposeVmx OR kCpuidExposeHypervisor OR kCpuidPreserveTopology OR
     kCpuidExposeInvariantTsc"
abbreviation kCpuidLeaf1EcxVmx :: u32 where "kCpuidLeaf1EcxVmx \<equiv> 0x20"
abbreviation kCpuidLeaf1EcxHypervisor :: u32 where "kCpuidLeaf1EcxHypervisor \<equiv> 0x80000000"
abbreviation kCpuidLeaf80000007EdxInvariantTsc :: u32 where "kCpuidLeaf80000007EdxInvariantTsc \<equiv> 0x100"
abbreviation kMsrPolicyAllowPassThrough :: u32 where "kMsrPolicyAllowPassThrough \<equiv> 1"
abbreviation kMsrPolicyAllowTsc :: u32 where "kMsrPolicyAllowTsc \<equiv> 2"
abbreviation kMsrPolicyAllowPat :: u32 where "kMsrPolicyAllowPat \<equiv> 4"
abbreviation kMsrPolicyAllowDebug :: u32 where "kMsrPolicyAllowDebug \<equiv> 8"
abbreviation kMsrPolicyAllowCet :: u32 where "kMsrPolicyAllowCet \<equiv> 16"
abbreviation kMsrPolicyKnownMask :: u32 where
  "kMsrPolicyKnownMask \<equiv> kMsrPolicyAllowPassThrough OR kMsrPolicyAllowTsc OR kMsrPolicyAllowPat OR
     kMsrPolicyAllowDebug OR kMsrPolicyAllowCet"
abbreviation kMsrAccessRead :: u32 where "kMsrAccessRead \<equiv> 0"
abbreviation kMsrAccessWrite :: u32 where "kMsrAccessWrite \<equiv> 1"
abbreviation kMsrIa32Tsc :: u32 where "kMsrIa32Tsc \<equiv> 0x10"
abbreviation kMsrIa32Pat :: u32 where "kMsrIa32Pat \<equiv> 0x277"
abbreviation kMsrIa32Debugctl :: u32 where "kMsrIa32Debugctl \<equiv> 0x1D9"
abbreviation kMsrIa32Efer :: u32 where "kMsrIa32Efer \<equiv> 0xC0000080"
abbreviation kMsrIa32Xss :: u32 where "kMsrIa32Xss \<equiv> 0xDA0"
abbreviation kMsrIa32UCet :: u32 where "kMsrIa32UCet \<equiv> 0x6A0"
abbreviation kMsrIa32SCet :: u32 where "kMsrIa32SCet \<equiv> 0x6A2"

section \<open>Data model\<close>

datatype MsrAction = PassThrough | Virtualized | ActionInjectGp | ActionInjectUd

fun MsrAction_u32 :: "MsrAction \<Rightarrow> u32" where
  "MsrAction_u32 PassThrough = 0"
| "MsrAction_u32 Virtualized = 1"
| "MsrAction_u32 ActionInjectGp = 2"
| "MsrAction_u32 ActionInjectUd = 3"

datatype MsrDecisionStatus = MsrSuccess | MsrInvalidParameter | MsrInjectGp | MsrInjectUd

fun MsrDecisionStatus_u32 :: "MsrDecisionStatus \<Rightarrow> u32" where
  "MsrDecisionStatus_u32 MsrSuccess = 0"
| "MsrDecisionStatus_u32 MsrInvalidParameter = 1"
| "MsrDecisionStatus_u32 MsrInjectGp = 2"
| "MsrDecisionStatus_u32 MsrInjectUd = 3"

record CpuidResult =
  cr_eax :: u32
  cr_ebx :: u32
  cr_ecx :: u32
  cr_edx :: u32

record CpuidRule =
  cu_leaf :: u32
  cu_subleaf :: u32
  cu_eax_and :: u32
  cu_ebx_and :: u32
  cu_ecx_and :: u32
  cu_edx_and :: u32
  cu_reserved :: u32
  cu_reserved2 :: u32

record CpuidPolicy =
  cp_size :: u32
  cp_version :: u32
  cp_level :: u32
  cp_flags :: u32
  cp_rule_count :: u32
  cp_reserved :: u32
  cp_generation :: u64
  cp_max_basic_leaf :: u32
  cp_max_extended_leaf :: u32
  cp_reserved2 :: u32
  cp_reserved3 :: u32
  cp_rules :: "CpuidRule list"
  cp_hypervisor_leaf :: CpuidResult

record MsrRule =
  mu_msr :: u32
  mu_read_action :: u32
  mu_write_action :: u32
  mu_reserved :: u32
  mu_read_mask :: u64
  mu_write_allowed_mask :: u64
  mu_write_required_one :: u64
  mu_reserved2 :: u64

record MsrPolicy =
  mp_size :: u32
  mp_version :: u32
  mp_level :: u32
  mp_flags :: u32
  mp_rule_count :: u32
  mp_reserved :: u32
  mp_generation :: u64
  mp_rules :: "MsrRule list"

record MsrDecision =
  md_size :: u32
  md_version :: u32
  md_status :: u32
  md_action :: u32
  md_msr :: u32
  md_access :: u32
  md_reserved :: u32
  md_reserved2 :: u32
  md_value :: u64
  md_generation :: u64

section \<open>Helpers\<close>

abbreviation policy_versioned :: "u32 \<Rightarrow> u32 \<Rightarrow> u32 \<Rightarrow> bool" where
  "policy_versioned \<equiv> IsVersionedSizeValid kCpuPolicyContractVersion kCpuPolicyMaxStructSize"

definition IsLevelValid :: "u32 \<Rightarrow> bool" where
  "IsLevelValid level \<longleftrightarrow> level = 1 \<or> level = 2"

definition IsMsrActionValid :: "u32 \<Rightarrow> bool" where
  "IsMsrActionValid action \<longleftrightarrow> action \<le> MsrAction_u32 ActionInjectUd"

definition IsSpecialPassThroughAllowed :: "MsrPolicy \<Rightarrow> u32 \<Rightarrow> bool" where
  "IsSpecialPassThroughAllowed policy msr =
     (if mp_flags policy AND kMsrPolicyAllowPassThrough = 0 then False
      else if msr = kMsrIa32Tsc then mp_flags policy AND kMsrPolicyAllowTsc \<noteq> 0
      else if msr = kMsrIa32Pat then mp_flags policy AND kMsrPolicyAllowPat \<noteq> 0
      else if msr = kMsrIa32Debugctl then mp_flags policy AND kMsrPolicyAllowDebug \<noteq> 0
      else if msr = kMsrIa32Xss \<or> msr = kMsrIa32UCet \<or> msr = kMsrIa32SCet
      then mp_flags policy AND kMsrPolicyAllowCet \<noteq> 0
      else msr \<noteq> kMsrIa32Efer)"

fun find_msr :: "MsrRule list \<Rightarrow> nat \<Rightarrow> u32 \<Rightarrow> MsrRule option" where
  "find_msr rules 0 msr = None"
| "find_msr [] (Suc n) msr = None"
| "find_msr (rule # rules) (Suc n) msr = (if mu_msr rule = msr then Some rule else find_msr rules n msr)"

definition FindMsrRule :: "MsrPolicy \<Rightarrow> u32 \<Rightarrow> MsrRule option" where
  "FindMsrRule policy msr = find_msr (mp_rules policy) (unat (mp_rule_count policy)) msr"

definition ClearCpuid :: CpuidResult where
  "ClearCpuid = \<lparr>cr_eax = 0, cr_ebx = 0, cr_ecx = 0, cr_edx = 0\<rparr>"

definition InitializeMsrDecision :: "u32 \<Rightarrow> bool \<Rightarrow> u64 \<Rightarrow> MsrDecision" where
  "InitializeMsrDecision msr write generation =
     \<lparr>md_size = 48, md_version = kCpuPolicyContractVersion, md_status = 0, md_action = 0, md_msr = msr,
      md_access = (if write then kMsrAccessWrite else kMsrAccessRead), md_reserved = 0,
      md_reserved2 = 0, md_value = 0, md_generation = generation\<rparr>"

definition SetMsrDecision :: "MsrDecision \<Rightarrow> MsrDecisionStatus \<Rightarrow> u32 \<Rightarrow> u64 \<Rightarrow> MsrDecision" where
  "SetMsrDecision decision status action value =
     decision\<lparr>md_status := MsrDecisionStatus_u32 status, md_action := action, md_value := value\<rparr>"

section \<open>CPUID\<close>

definition IsCpuidPolicyValid :: "CpuidPolicy option \<Rightarrow> bool" where
  "IsCpuidPolicyValid policy = (case policy of None \<Rightarrow> False | Some p \<Rightarrow>
     if \<not> policy_versioned (cp_version p) (cp_size p) 576 \<or> \<not> IsLevelValid (cp_level p) \<or>
        cp_flags p AND NOT kCpuidKnownPolicyMask \<noteq> 0 \<or>
        cp_rule_count p > of_nat kCpuPolicyMaxCpuidRules \<or> cp_reserved p \<noteq> 0 \<or>
        cp_generation p = 0 \<or> cp_max_basic_leaf p = 0 \<or> cp_max_basic_leaf p \<ge> 0x80000000 \<or>
        cp_max_extended_leaf p < 0x80000000 \<or> cp_reserved2 p \<noteq> 0 \<or> cp_reserved3 p \<noteq> 0
     then False
     else if (if cp_flags p AND kCpuidExposeHypervisor \<noteq> 0
              then cr_eax (cp_hypervisor_leaf p) < 0x40000000
              else cr_eax (cp_hypervisor_leaf p) \<noteq> 0 \<or> cr_ebx (cp_hypervisor_leaf p) \<noteq> 0 \<or>
                   cr_ecx (cp_hypervisor_leaf p) \<noteq> 0 \<or> cr_edx (cp_hypervisor_leaf p) \<noteq> 0)
     then False
     else list_all (\<lambda>index. let rule = cp_rules p ! index in
              cu_reserved rule = 0 \<and> cu_reserved2 rule = 0 \<and>
              \<not> (cu_leaf rule \<ge> 0x40000000 \<and> cu_leaf rule < 0x80000000) \<and>
              list_all (\<lambda>prior. \<not> (cu_leaf (cp_rules p ! prior) = cu_leaf rule \<and>
                                   cu_subleaf (cp_rules p ! prior) = cu_subleaf rule)) [0..<index])
            [0..<unat (cp_rule_count p)] \<and>
          list_all (\<lambda>index. let rule = cp_rules p ! index in
              cu_leaf rule = 0 \<and> cu_subleaf rule = 0 \<and> cu_eax_and rule = 0 \<and> cu_ebx_and rule = 0 \<and>
              cu_ecx_and rule = 0 \<and> cu_edx_and rule = 0 \<and> cu_reserved rule = 0 \<and> cu_reserved2 rule = 0)
            [unat (cp_rule_count p)..<kCpuPolicyMaxCpuidRules])"

text \<open>The loop that applies the first rule for a leaf and subleaf.\<close>

fun apply_cpuid_rule :: "CpuidRule list \<Rightarrow> nat \<Rightarrow> u32 \<Rightarrow> u32 \<Rightarrow> CpuidResult \<Rightarrow> CpuidResult" where
  "apply_cpuid_rule rules 0 leaf subleaf guest = guest"
| "apply_cpuid_rule [] (Suc n) leaf subleaf guest = guest"
| "apply_cpuid_rule (rule # rules) (Suc n) leaf subleaf guest =
     (if cu_leaf rule = leaf \<and> cu_subleaf rule = subleaf
      then guest\<lparr>cr_eax := cr_eax guest AND cu_eax_and rule, cr_ebx := cr_ebx guest AND cu_ebx_and rule,
                 cr_ecx := cr_ecx guest AND cu_ecx_and rule, cr_edx := cr_edx guest AND cu_edx_and rule\<rparr>
      else apply_cpuid_rule rules n leaf subleaf guest)"

definition FilterCpuid ::
  "CpuidPolicy option \<Rightarrow> u32 \<Rightarrow> u32 \<Rightarrow> CpuidResult option \<Rightarrow> CpuidResult option \<Rightarrow> bool \<times> CpuidResult option" where
  "FilterCpuid policy leaf subleaf host guest = (case (policy, host, guest) of
     (Some p, Some h, Some g0) \<Rightarrow>
       (if \<not> IsCpuidPolicyValid (Some p) then (False, Some g0)
        else if leaf = 0x40000000
        then (True, Some (if cp_flags p AND kCpuidExposeHypervisor \<noteq> 0 then cp_hypervisor_leaf p else ClearCpuid))
        else if (if leaf < 0x80000000 then leaf > cp_max_basic_leaf p else leaf > cp_max_extended_leaf p)
        then (True, Some ClearCpuid)
        else let g = h;
                 g = (if leaf = 0
                      then if cr_eax g > cp_max_basic_leaf p then g\<lparr>cr_eax := cp_max_basic_leaf p\<rparr> else g
                      else if leaf = 0x80000000 \<and> cr_eax g > cp_max_extended_leaf p
                      then g\<lparr>cr_eax := cp_max_extended_leaf p\<rparr> else g);
                 g = apply_cpuid_rule (cp_rules p) (unat (cp_rule_count p)) leaf subleaf g;
                 g = (if leaf = 1
                      then let g = (if cp_flags p AND kCpuidExposeVmx \<noteq> 0 \<and> cr_ecx h AND kCpuidLeaf1EcxVmx \<noteq> 0
                                    then g\<lparr>cr_ecx := cr_ecx g OR kCpuidLeaf1EcxVmx\<rparr>
                                    else g\<lparr>cr_ecx := cr_ecx g AND NOT kCpuidLeaf1EcxVmx\<rparr>)
                           in (if cp_flags p AND kCpuidExposeHypervisor \<noteq> 0
                               then g\<lparr>cr_ecx := cr_ecx g OR kCpuidLeaf1EcxHypervisor\<rparr>
                               else g\<lparr>cr_ecx := cr_ecx g AND NOT kCpuidLeaf1EcxHypervisor\<rparr>)
                      else g);
                 g = (if leaf = 0x80000007 \<and> cp_flags p AND kCpuidExposeInvariantTsc = 0
                      then g\<lparr>cr_edx := cr_edx g AND NOT kCpuidLeaf80000007EdxInvariantTsc\<rparr> else g);
                 g = (if (leaf = 0xB \<or> leaf = 0x1F) \<and> cp_flags p AND kCpuidPreserveTopology = 0
                      then ClearCpuid else g)
             in (True, Some g))
   | _ \<Rightarrow> (False, guest))"

section \<open>Model-specific registers\<close>

definition msr_rule_ok :: "MsrPolicy \<Rightarrow> nat \<Rightarrow> bool" where
  "msr_rule_ok p index = (let rule = mp_rules p ! index in
     if \<not> IsMsrActionValid (mu_read_action rule) \<or> \<not> IsMsrActionValid (mu_write_action rule) \<or>
        mu_reserved rule \<noteq> 0 \<or> mu_reserved2 rule \<noteq> 0 \<or>
        mu_write_required_one rule AND NOT (mu_write_allowed_mask rule) \<noteq> 0
     then False
     else if (mu_read_action rule = MsrAction_u32 ActionInjectGp \<or>
              mu_read_action rule = MsrAction_u32 ActionInjectUd) \<and> mu_read_mask rule \<noteq> 0
     then False
     else if (mu_write_action rule = MsrAction_u32 ActionInjectGp \<or>
              mu_write_action rule = MsrAction_u32 ActionInjectUd) \<and>
             (mu_write_allowed_mask rule \<noteq> 0 \<or> mu_write_required_one rule \<noteq> 0)
     then False
     else if mu_read_action rule = MsrAction_u32 PassThrough \<and>
             \<not> IsSpecialPassThroughAllowed p (mu_msr rule) then False
     else if mu_write_action rule = MsrAction_u32 PassThrough \<and>
             \<not> IsSpecialPassThroughAllowed p (mu_msr rule) then False
     else list_all (\<lambda>prior. mu_msr (mp_rules p ! prior) \<noteq> mu_msr rule) [0..<index])"

definition IsMsrPolicyValid :: "MsrPolicy option \<Rightarrow> bool" where
  "IsMsrPolicyValid policy = (case policy of None \<Rightarrow> False | Some p \<Rightarrow>
     if \<not> policy_versioned (mp_version p) (mp_size p) 1568 \<or> \<not> IsLevelValid (mp_level p) \<or>
        mp_flags p AND NOT kMsrPolicyKnownMask \<noteq> 0 \<or>
        mp_rule_count p > of_nat kCpuPolicyMaxMsrRules \<or> mp_reserved p \<noteq> 0 \<or> mp_generation p = 0
     then False
     else list_all (msr_rule_ok p) [0..<unat (mp_rule_count p)] \<and>
          list_all (\<lambda>index. let rule = mp_rules p ! index in
              mu_msr rule = 0 \<and> mu_read_action rule = 0 \<and> mu_write_action rule = 0 \<and> mu_reserved rule = 0 \<and>
              mu_read_mask rule = 0 \<and> mu_write_allowed_mask rule = 0 \<and> mu_write_required_one rule = 0 \<and>
              mu_reserved2 rule = 0)
            [unat (mp_rule_count p)..<kCpuPolicyMaxMsrRules])"

definition EvaluateMsrAccess ::
  "MsrPolicy option \<Rightarrow> u32 \<Rightarrow> bool \<Rightarrow> u64 \<Rightarrow> MsrDecision option \<Rightarrow> bool \<times> MsrDecision option" where
  "EvaluateMsrAccess policy msr write value decision = (case decision of None \<Rightarrow> (False, None) | Some _ \<Rightarrow>
     (let d = InitializeMsrDecision msr write (case policy of None \<Rightarrow> 0 | Some p \<Rightarrow> mp_generation p);
          inject_gp = SetMsrDecision d MsrInjectGp (MsrAction_u32 ActionInjectGp) 0
      in case policy of
           None \<Rightarrow> (False, Some (SetMsrDecision d MsrInvalidParameter (MsrAction_u32 ActionInjectGp) 0))
         | Some p \<Rightarrow>
           if \<not> IsMsrPolicyValid (Some p)
           then (False, Some (SetMsrDecision d MsrInvalidParameter (MsrAction_u32 ActionInjectGp) 0))
           else case FindMsrRule p msr of None \<Rightarrow> (True, Some inject_gp)
            | Some rule \<Rightarrow>
              let action = (if write then mu_write_action rule else mu_read_action rule)
              in if action = MsrAction_u32 PassThrough \<and> \<not> IsSpecialPassThroughAllowed p msr
                 then (True, Some inject_gp)
                 else if action = MsrAction_u32 Virtualized
                 then if write
                      then if value AND NOT (mu_write_allowed_mask rule) \<noteq> 0 then (True, Some inject_gp)
                           else (True, Some (SetMsrDecision d MsrSuccess action
                                   (value AND mu_write_allowed_mask rule OR mu_write_required_one rule)))
                      else (True, Some (SetMsrDecision d MsrSuccess action (value AND mu_read_mask rule)))
                 else if action = MsrAction_u32 PassThrough
                 then (True, Some (SetMsrDecision d MsrSuccess action value))
                 else if action = MsrAction_u32 ActionInjectUd
                 then (True, Some (SetMsrDecision d MsrInjectUd action 0))
                 else (True, Some (SetMsrDecision d MsrInjectGp action 0))))"

section \<open>What CPUID shows\<close>

definition shows_flag :: "CpuidPolicy \<Rightarrow> u32 \<Rightarrow> bool" where
  "shows_flag p f \<longleftrightarrow> cp_flags p AND f \<noteq> 0"

definition leaf_hidden :: "CpuidPolicy \<Rightarrow> u32 \<Rightarrow> bool" where
  "leaf_hidden p leaf \<longleftrightarrow>
     (if leaf < 0x80000000 then leaf > cp_max_basic_leaf p else leaf > cp_max_extended_leaf p) \<or>
     (leaf = 0xB \<or> leaf = 0x1F) \<and> \<not> shows_flag p kCpuidPreserveTopology"

lemma apply_rule_masks:
  assumes "k < n" and "k < length rules" and "cu_leaf (rules ! k) = leaf" and "cu_subleaf (rules ! k) = subleaf"
    and "\<And>i. i < k \<Longrightarrow> \<not> (cu_leaf (rules ! i) = leaf \<and> cu_subleaf (rules ! i) = subleaf)"
  shows "apply_cpuid_rule rules n leaf subleaf g =
    g\<lparr>cr_eax := cr_eax g AND cu_eax_and (rules ! k), cr_ebx := cr_ebx g AND cu_ebx_and (rules ! k),
      cr_ecx := cr_ecx g AND cu_ecx_and (rules ! k), cr_edx := cr_edx g AND cu_edx_and (rules ! k)\<rparr>"
  using assms
proof (induction rules n leaf subleaf g arbitrary: k rule: apply_cpuid_rule.induct)
  case (3 rule rules n leaf subleaf guest)
  show ?case
  proof (cases k)
    case 0
    then show ?thesis using 3(4,5) by simp
  next
    case (Suc j)
    have "\<not> (cu_leaf rule = leaf \<and> cu_subleaf rule = subleaf)" using 3(6) [of 0] Suc by simp
    moreover have "\<not> (cu_leaf (rules ! i) = leaf \<and> cu_subleaf (rules ! i) = subleaf)" if "i < j" for i
      using 3(6) [of "Suc i"] Suc that by simp
    ultimately show ?thesis using 3(1) [of j] 3(2-5) Suc by auto
  qed
qed simp_all

text \<open>The stages of the filter.\<close>

definition clamp_leaf :: "CpuidPolicy \<Rightarrow> u32 \<Rightarrow> CpuidResult \<Rightarrow> CpuidResult" where
  "clamp_leaf p leaf g = (if leaf = 0
     then if cr_eax g > cp_max_basic_leaf p then g\<lparr>cr_eax := cp_max_basic_leaf p\<rparr> else g
     else if leaf = 0x80000000 \<and> cr_eax g > cp_max_extended_leaf p
     then g\<lparr>cr_eax := cp_max_extended_leaf p\<rparr> else g)"

definition leaf1_bits :: "CpuidPolicy \<Rightarrow> u32 \<Rightarrow> u32 \<Rightarrow> u32" where
  "leaf1_bits p host guest =
     (let guest = (if shows_flag p kCpuidExposeVmx \<and> host AND kCpuidLeaf1EcxVmx \<noteq> 0
                   then guest OR kCpuidLeaf1EcxVmx else guest AND NOT kCpuidLeaf1EcxVmx)
      in if shows_flag p kCpuidExposeHypervisor then guest OR kCpuidLeaf1EcxHypervisor
         else guest AND NOT kCpuidLeaf1EcxHypervisor)"

definition tsc_bits :: "CpuidPolicy \<Rightarrow> u32 \<Rightarrow> CpuidResult \<Rightarrow> CpuidResult" where
  "tsc_bits p leaf g = (if leaf = 0x80000007 \<and> \<not> shows_flag p kCpuidExposeInvariantTsc
     then g\<lparr>cr_edx := cr_edx g AND NOT kCpuidLeaf80000007EdxInvariantTsc\<rparr> else g)"

lemma FilterCpuid_eq:
  assumes "IsCpuidPolicyValid (Some p)" and "leaf \<noteq> 0x40000000"
  shows "FilterCpuid (Some p) leaf subleaf (Some h) (Some g0) =
    (True, Some (if leaf_hidden p leaf then ClearCpuid
       else let g = apply_cpuid_rule (cp_rules p) (unat (cp_rule_count p)) leaf subleaf (clamp_leaf p leaf h)
            in tsc_bits p leaf (if leaf = 1 then g\<lparr>cr_ecx := leaf1_bits p (cr_ecx h) (cr_ecx g)\<rparr> else g)))"
  using assms
  by (simp add: FilterCpuid_def leaf_hidden_def clamp_leaf_def leaf1_bits_def tsc_bits_def shows_flag_def Let_def)

lemma flag_word_bit: "(x :: u32) AND 0x20 = 0 \<longleftrightarrow> \<not> bit x 5" "x AND 0x80000000 = 0 \<longleftrightarrow> \<not> bit x 31"
  "x AND 0x100 = 0 \<longleftrightarrow> \<not> bit x 8"
  using and_exp_eq_0_iff_not_bit [of x 5] and_exp_eq_0_iff_not_bit [of x 31] and_exp_eq_0_iff_not_bit [of x 8] by simp_all

lemma word_bits: "bit (0x20 :: u32) n \<longleftrightarrow> n = 5" "bit (0x80000000 :: u32) n \<longleftrightarrow> n = 31" "bit (0x100 :: u32) n \<longleftrightarrow> n = 8"
  using bit_exp_iff [where 'a = u32, of 5 n] bit_exp_iff [where 'a = u32, of 31 n] bit_exp_iff [where 'a = u32, of 8 n]
  by (auto simp: possible_bit_word)

lemma set_clear_bits:
  "bit (x OR (0x20 :: u32)) n \<longleftrightarrow> bit x n \<or> n = 5" "bit (x AND NOT (0x20 :: u32)) n \<longleftrightarrow> bit x n \<and> n \<noteq> 5"
  "bit (x OR (0x80000000 :: u32)) n \<longleftrightarrow> bit x n \<or> n = 31" "bit (x AND NOT (0x80000000 :: u32)) n \<longleftrightarrow> bit x n \<and> n \<noteq> 31"
  "bit (x AND NOT (0x100 :: u32)) n \<longleftrightarrow> bit x n \<and> n \<noteq> 8"
  unfolding bit_or_iff bit_and_iff bit_not_iff word_bits possible_bit_word using bit_imp_le_length [of x n] by auto

lemma leaf1_bits_exact:
  "bit (leaf1_bits p h g) n \<longleftrightarrow> (if n = 5 then shows_flag p kCpuidExposeVmx \<and> bit h 5
     else if n = 31 then shows_flag p kCpuidExposeHypervisor else bit g n)"
  unfolding leaf1_bits_def Let_def flag_word_bit if_distrib [where f = "\<lambda>x. bit x n"] set_clear_bits by auto

text \<open>
  What a shown leaf holds, bit by bit: the host value under the masks of the rule \<open>m\<close>, with the
  number of leaves cut to that of the policy and the bits that the policy decides itself.
\<close>

definition cpuid_shown :: "CpuidPolicy \<Rightarrow> u32 \<Rightarrow> CpuidRule \<Rightarrow> CpuidResult \<Rightarrow> CpuidResult \<Rightarrow> bool" where
  "cpuid_shown p leaf m h g \<longleftrightarrow>
     cr_eax g = (if leaf = 0 then min (cr_eax h) (cp_max_basic_leaf p)
                 else if leaf = 0x80000000 then min (cr_eax h) (cp_max_extended_leaf p)
                 else cr_eax h) AND cu_eax_and m \<and>
     cr_ebx g = cr_ebx h AND cu_ebx_and m \<and>
     (\<forall>n. bit (cr_ecx g) n \<longleftrightarrow>
        (if leaf = 1 \<and> n = 5 then shows_flag p kCpuidExposeVmx \<and> bit (cr_ecx h) 5
         else if leaf = 1 \<and> n = 31 then shows_flag p kCpuidExposeHypervisor
         else bit (cr_ecx h) n \<and> bit (cu_ecx_and m) n)) \<and>
     (\<forall>n. bit (cr_edx g) n \<longleftrightarrow> bit (cr_edx h) n \<and> bit (cu_edx_and m) n \<and>
        \<not> (leaf = 0x80000007 \<and> n = 8 \<and> \<not> shows_flag p kCpuidExposeInvariantTsc))"

definition cpuid_rule_for :: "CpuidPolicy \<Rightarrow> u32 \<Rightarrow> u32 \<Rightarrow> nat \<Rightarrow> bool" where
  "cpuid_rule_for p leaf subleaf k \<longleftrightarrow> k < unat (cp_rule_count p) \<and> cu_leaf (cp_rules p ! k) = leaf \<and>
     cu_subleaf (cp_rules p ! k) = subleaf"

definition unmasked_rule :: CpuidRule where
  "unmasked_rule = \<lparr>cu_leaf = 0, cu_subleaf = 0, cu_eax_and = NOT 0, cu_ebx_and = NOT 0, cu_ecx_and = NOT 0,
     cu_edx_and = NOT 0, cu_reserved = 0, cu_reserved2 = 0\<rparr>"

abbreviation masked :: "CpuidRule \<Rightarrow> CpuidResult \<Rightarrow> CpuidResult" where
  "masked m g \<equiv> g\<lparr>cr_eax := cr_eax g AND cu_eax_and m, cr_ebx := cr_ebx g AND cu_ebx_and m,
     cr_ecx := cr_ecx g AND cu_ecx_and m, cr_edx := cr_edx g AND cu_edx_and m\<rparr>"

lemma apply_rule_none:
  assumes "\<And>i. i < n \<Longrightarrow> i < length rules \<Longrightarrow> \<not> (cu_leaf (rules ! i) = leaf \<and> cu_subleaf (rules ! i) = subleaf)"
  shows "apply_cpuid_rule rules n leaf subleaf g = g"
  using assms
proof (induction rules n leaf subleaf g rule: apply_cpuid_rule.induct)
  case (3 rule rules n leaf subleaf guest)
  have "\<not> (cu_leaf (rules ! i) = leaf \<and> cu_subleaf (rules ! i) = subleaf)" if "i < n" "i < length rules" for i
    using 3(2) [of "Suc i"] that by simp
  then show ?case using 3(1) 3(2) [of 0] by auto
qed simp_all

lemma rule_lookup:
  assumes "IsCpuidPolicyValid (Some p)" and "k < unat (cp_rule_count p)"
    and "cu_leaf (cp_rules p ! k) = leaf" and "cu_subleaf (cp_rules p ! k) = subleaf" and "i < k"
  shows "\<not> (cu_leaf (cp_rules p ! i) = leaf \<and> cu_subleaf (cp_rules p ! i) = subleaf)"
  using assms by (auto simp: IsCpuidPolicyValid_def list_all_iff Let_def split: if_splits)

lemma clamp_leaf_same [simp]:
  "cr_ebx (clamp_leaf p leaf h) = cr_ebx h" "cr_ecx (clamp_leaf p leaf h) = cr_ecx h" "cr_edx (clamp_leaf p leaf h) = cr_edx h"
  by (simp_all add: clamp_leaf_def)

lemma masked_shown:
  assumes "r = masked m (clamp_leaf p leaf h)"
  shows "cpuid_shown p leaf m h
    (tsc_bits p leaf (if leaf = 1 then r\<lparr>cr_ecx := leaf1_bits p (cr_ecx h) (cr_ecx r)\<rparr> else r))" (is "cpuid_shown p leaf m h ?g")
proof -
  have c: "cr_eax (clamp_leaf p leaf h) = (if leaf = 0 then min (cr_eax h) (cp_max_basic_leaf p)
      else if leaf = 0x80000000 then min (cr_eax h) (cp_max_extended_leaf p) else cr_eax h)"
    by (simp add: clamp_leaf_def min_def not_less [symmetric])
  have g: "cr_eax ?g = cr_eax r" "cr_ebx ?g = cr_ebx r"
    "cr_ecx ?g = (if leaf = 1 then leaf1_bits p (cr_ecx h) (cr_ecx r) else cr_ecx r)"
    "cr_edx ?g = (if leaf = 0x80000007 \<and> \<not> shows_flag p kCpuidExposeInvariantTsc
       then cr_edx r AND NOT 0x100 else cr_edx r)"
    by (simp_all add: tsc_bits_def)
  have x: "bit (cr_ecx ?g) n \<longleftrightarrow> (if leaf = 1 \<and> n = 5 then shows_flag p kCpuidExposeVmx \<and> bit (cr_ecx h) 5
      else if leaf = 1 \<and> n = 31 then shows_flag p kCpuidExposeHypervisor
      else bit (cr_ecx h) n \<and> bit (cu_ecx_and m) n)" for n
    unfolding g(3) by (simp add: leaf1_bits_exact assms bit_and_iff)
  have d: "bit (cr_edx ?g) n \<longleftrightarrow> bit (cr_edx h) n \<and> bit (cu_edx_and m) n \<and>
      \<not> (leaf = 0x80000007 \<and> n = 8 \<and> \<not> shows_flag p kCpuidExposeInvariantTsc)" for n
    unfolding g(4) if_distrib [where f = "\<lambda>x. bit x n"] set_clear_bits by (auto simp: assms bit_and_iff)
  show ?thesis
    unfolding cpuid_shown_def using x d by (simp add: g(1,2) assms c)
qed

lemma filter_rule:
  assumes "IsCpuidPolicyValid (Some p)" and "length (cp_rules p) = 16" and "cpuid_rule_for p leaf subleaf k"
  shows "apply_cpuid_rule (cp_rules p) (unat (cp_rule_count p)) leaf subleaf g = masked (cp_rules p ! k) g"
proof -
  have k: "k < unat (cp_rule_count p)" "cu_leaf (cp_rules p ! k) = leaf" "cu_subleaf (cp_rules p ! k) = subleaf"
    using assms(3) by (simp_all add: cpuid_rule_for_def)
  have "unat (cp_rule_count p) \<le> 16"
    using assms(1) by (auto simp: IsCpuidPolicyValid_def word_less_nat_alt not_less split: if_splits)
  then have "k < length (cp_rules p)" using k(1) assms(2) by simp
  then show ?thesis by (rule apply_rule_masks [OF k(1) _ k(2,3) rule_lookup [OF assms(1) k]])
qed

text \<open>
C35: Under a valid policy FilterCpuid answers every leaf: 0x40000000 with the hypervisor leaf of
the policy or zeros, the hidden leaves with zeros, and any other leaf bit by bit with the host
value under the masks of the rule for that leaf and subleaf, or unmasked if there is none, where
EAX of the two leaves that count leaves is first cut to the maximum of the policy, VMX is shown
exactly when the policy exposes it and the host has it, the hypervisor bit exactly when it is
exposed, and the invariant TSC only when it is exposed.
\<close>

theorem cpuid_filter_exact:
  assumes "IsCpuidPolicyValid (Some p)" and "length (cp_rules p) = 16"
  shows "\<exists>g. FilterCpuid (Some p) leaf subleaf (Some h) (Some g0) = (True, Some g) \<and>
    (if leaf = 0x40000000
     then g = (if shows_flag p kCpuidExposeHypervisor then cp_hypervisor_leaf p else ClearCpuid)
     else if leaf_hidden p leaf then g = ClearCpuid
     else (\<forall>k. cpuid_rule_for p leaf subleaf k \<longrightarrow> cpuid_shown p leaf (cp_rules p ! k) h g) \<and>
          ((\<forall>k. \<not> cpuid_rule_for p leaf subleaf k) \<longrightarrow> cpuid_shown p leaf unmasked_rule h g))"
proof (cases "leaf = 0x40000000 \<or> leaf_hidden p leaf")
  case True
  then show ?thesis
    using FilterCpuid_eq [OF assms(1), of leaf subleaf h g0] assms(1)
    by (cases "leaf = 0x40000000") (simp_all add: FilterCpuid_def shows_flag_def)
next
  case False
  then have l: "leaf \<noteq> 0x40000000" "\<not> leaf_hidden p leaf" by simp_all
  define r where "r = apply_cpuid_rule (cp_rules p) (unat (cp_rule_count p)) leaf subleaf (clamp_leaf p leaf h)"
  define g where "g = tsc_bits p leaf (if leaf = 1 then r\<lparr>cr_ecx := leaf1_bits p (cr_ecx h) (cr_ecx r)\<rparr> else r)"
  have f: "FilterCpuid (Some p) leaf subleaf (Some h) (Some g0) = (True, Some g)"
    using l by (simp add: FilterCpuid_eq [OF assms(1)] Let_def r_def [symmetric] g_def [symmetric])
  have "cpuid_shown p leaf (cp_rules p ! k) h g" if "cpuid_rule_for p leaf subleaf k" for k
    unfolding g_def by (rule masked_shown) (simp add: r_def filter_rule [OF assms that])
  moreover have "cpuid_shown p leaf unmasked_rule h g" if "\<forall>k. \<not> cpuid_rule_for p leaf subleaf k"
  proof -
    have "r = masked unmasked_rule (clamp_leaf p leaf h)"
      unfolding r_def using that by (subst apply_rule_none) (auto simp: cpuid_rule_for_def unmasked_rule_def)
    then show ?thesis unfolding g_def by (rule masked_shown)
  qed
  ultimately show ?thesis using f l by auto
qed

section \<open>Access to model-specific registers\<close>

lemma find_msr_Some:
  "find_msr rules n msr = Some r \<Longrightarrow> \<exists>k < n. k < length rules \<and> rules ! k = r \<and> mu_msr r = msr"
proof (induction rules n msr rule: find_msr.induct)
  case (3 rule rules n msr)
  show ?case
  proof (cases "mu_msr rule = msr")
    case True
    then show ?thesis using 3(2) by (intro exI [of _ 0]) simp
  next
    case False
    then obtain k where "k < n" "k < length rules" "rules ! k = r" "mu_msr r = msr" using 3 by auto
    then show ?thesis by (intro exI [of _ "Suc k"]) simp
  qed
qed simp_all

lemma find_msr_None: "find_msr rules n msr = None \<Longrightarrow> k < n \<Longrightarrow> k < length rules \<Longrightarrow> mu_msr (rules ! k) \<noteq> msr"
proof (induction rules n msr arbitrary: k rule: find_msr.induct)
  case (3 rule rules n msr)
  then show ?case by (cases k) (auto split: if_splits)
qed simp_all

lemma msr_rule_valid:
  assumes "IsMsrPolicyValid (Some p)" and "k < unat (mp_rule_count p)"
  shows "msr_rule_ok p k" and "unat (mp_rule_count p) \<le> 32"
  using assms by (auto simp: IsMsrPolicyValid_def list_all_iff word_less_nat_alt not_less split: if_splits)

lemma msr_rule_unique:
  assumes "IsMsrPolicyValid (Some p)" and "i < unat (mp_rule_count p)" and "k < unat (mp_rule_count p)"
    and "mu_msr (mp_rules p ! i) = mu_msr (mp_rules p ! k)"
  shows "i = k"
proof -
  have "mu_msr (mp_rules p ! a) \<noteq> mu_msr (mp_rules p ! b)" if "a < b" "b < unat (mp_rule_count p)" for a b
    using msr_rule_valid(1) [OF assms(1) that(2)] that(1)
    by (auto simp: msr_rule_ok_def Let_def list_all_iff split: if_splits)
  then show ?thesis using assms(2-4) by (metis linorder_neqE_nat)
qed

text \<open>The outcome that a rule prescribes, without the tests that a valid policy makes superfluous.\<close>

definition msr_outcome :: "MsrRule \<Rightarrow> bool \<Rightarrow> u64 \<Rightarrow> MsrDecisionStatus \<times> MsrAction \<times> u64" where
  "msr_outcome r write value =
     (let action = (if write then mu_write_action r else mu_read_action r)
      in if action = 0 then (MsrSuccess, PassThrough, value)
         else if action = 1
         then if \<not> write then (MsrSuccess, Virtualized, value AND mu_read_mask r)
              else if bits_le value (mu_write_allowed_mask r)
              then (MsrSuccess, Virtualized, value OR mu_write_required_one r)
              else (MsrInjectGp, ActionInjectGp, 0)
         else if action = 2 then (MsrInjectGp, ActionInjectGp, 0) else (MsrInjectUd, ActionInjectUd, 0))"

definition decides :: "MsrDecision \<Rightarrow> MsrDecisionStatus \<times> MsrAction \<times> u64 \<Rightarrow> bool" where
  "decides d t \<longleftrightarrow> (case t of (status, action, v) \<Rightarrow> md_status d = MsrDecisionStatus_u32 status \<and>
     md_action d = MsrAction_u32 action \<and> md_value d = v)"

lemma action_cases: "(a :: u32) \<le> 3 \<Longrightarrow> a = 0 \<or> a = 1 \<or> a = 2 \<or> a = 3"
proof -
  assume "a \<le> 3"
  then have "unat a \<le> 3" by (simp add: word_le_nat_alt)
  then have "unat a = 0 \<or> unat a = 1 \<or> unat a = 2 \<or> unat a = 3" by arith
  then show ?thesis by (auto simp: word_unat_eq_iff)
qed

lemma evaluate_rule:
  assumes "IsMsrPolicyValid (Some p)" and "FindMsrRule p msr = Some r" and "mu_msr r = msr"
    and "msr_rule_ok p k" and "r = mp_rules p ! k"
  shows "\<exists>d. EvaluateMsrAccess (Some p) msr write value (Some d0) = (True, Some d) \<and> decides d (msr_outcome r write value) \<and>
    md_msr d = msr \<and> md_access d = (if write then 1 else 0) \<and> md_generation d = mp_generation p"
proof -
  have ok: "mu_read_action r \<le> 3" "mu_write_action r \<le> 3"
    "mu_read_action r = 0 \<Longrightarrow> IsSpecialPassThroughAllowed p msr" "mu_write_action r = 0 \<Longrightarrow> IsSpecialPassThroughAllowed p msr"
    using assms(3,4) unfolding assms(5) by (auto simp: msr_rule_ok_def Let_def IsMsrActionValid_def split: if_splits)
  define a where "a = (if write then mu_write_action r else mu_read_action r)"
  have a: "a = 0 \<or> a = 1 \<or> a = 2 \<or> a = 3" "a = 0 \<Longrightarrow> IsSpecialPassThroughAllowed p msr"
    using action_cases [OF ok(1)] action_cases [OF ok(2)] ok(3,4) unfolding a_def by (cases "write"; simp)+
  have e: "EvaluateMsrAccess (Some p) msr write value (Some d0) =
    (let d = InitializeMsrDecision msr write (mp_generation p); gp = SetMsrDecision d MsrInjectGp 2 0
     in if a = 0 \<and> \<not> IsSpecialPassThroughAllowed p msr then (True, Some gp)
        else if a = 1
        then if write then if value AND NOT (mu_write_allowed_mask r) \<noteq> 0 then (True, Some gp)
               else (True, Some (SetMsrDecision d MsrSuccess a (value AND mu_write_allowed_mask r OR mu_write_required_one r)))
             else (True, Some (SetMsrDecision d MsrSuccess a (value AND mu_read_mask r)))
        else if a = 0 then (True, Some (SetMsrDecision d MsrSuccess a value))
        else if a = 3 then (True, Some (SetMsrDecision d MsrInjectUd a 0))
        else (True, Some (SetMsrDecision d MsrInjectGp a 0)))"
    using assms(1,2) by (simp add: EvaluateMsrAccess_def Let_def a_def)
  have w: "value AND NOT (mu_write_allowed_mask r) = 0 \<longleftrightarrow> bits_le value (mu_write_allowed_mask r)"
    "bits_le value (mu_write_allowed_mask r) \<Longrightarrow> value AND mu_write_allowed_mask r = value"
    by (simp_all add: known_mask_iff bits_le_def)
  show ?thesis
    unfolding e msr_outcome_def a_def [symmetric] decides_def w(1)
    using a w(2) by (auto simp: Let_def SetMsrDecision_def InitializeMsrDecision_def)
qed

text \<open>
C36: Under a valid policy every MSR access is decided: as the unique rule of that register says
for the direction of the access, with write masks checked bit by bit, and by a general
protection fault when there is no rule; a register is passed through only where the policy
allows it, and IA32_EFER never.
\<close>

theorem msr_decision_exact:
  assumes "IsMsrPolicyValid (Some p)" and "length (mp_rules p) = 32"
  shows "\<exists>d. EvaluateMsrAccess (Some p) msr write value (Some d0) = (True, Some d) \<and>
    md_msr d = msr \<and> md_access d = (if write then 1 else 0) \<and> md_generation d = mp_generation p \<and>
    (\<forall>k < unat (mp_rule_count p). mu_msr (mp_rules p ! k) = msr \<longrightarrow>
       decides d (msr_outcome (mp_rules p ! k) write value)) \<and>
    ((\<forall>k < unat (mp_rule_count p). mu_msr (mp_rules p ! k) \<noteq> msr) \<longrightarrow> decides d (MsrInjectGp, ActionInjectGp, 0)) \<and>
    (md_status d = 0 \<and> md_action d = MsrAction_u32 PassThrough \<longrightarrow> IsSpecialPassThroughAllowed p msr \<and> msr \<noteq> kMsrIa32Efer)"
proof (cases "FindMsrRule p msr")
  case None
  have n: "unat (mp_rule_count p) \<le> 32"
    using assms(1) by (auto simp: IsMsrPolicyValid_def word_less_nat_alt not_less split: if_splits)
  have no: "mu_msr (mp_rules p ! k) \<noteq> msr" if "k < unat (mp_rule_count p)" for k
    using find_msr_None [OF None [unfolded FindMsrRule_def] that] that n assms(2) by simp
  show ?thesis
    using no assms(1) None by (auto simp: EvaluateMsrAccess_def Let_def decides_def SetMsrDecision_def InitializeMsrDecision_def)
next
  case (Some r)
  obtain k where k: "k < unat (mp_rule_count p)" "mp_rules p ! k = r" "mu_msr r = msr"
    using find_msr_Some [OF Some [unfolded FindMsrRule_def]] by blast
  note ok = msr_rule_valid(1) [OF assms(1) k(1)]
  obtain d where d: "EvaluateMsrAccess (Some p) msr write value (Some d0) = (True, Some d)" "decides d (msr_outcome r write value)"
    "md_msr d = msr" "md_access d = (if write then 1 else 0)" "md_generation d = mp_generation p"
    using evaluate_rule [OF assms(1) Some k(3) ok sym [OF k(2)]] by blast
  have u: "mp_rules p ! i = r" if "i < unat (mp_rule_count p)" "mu_msr (mp_rules p ! i) = msr" for i
    using msr_rule_unique [OF assms(1) that(1) k(1)] that(2) k(2,3) by simp
  have pass: "IsSpecialPassThroughAllowed p msr \<and> msr \<noteq> kMsrIa32Efer"
    if "md_status d = 0" "md_action d = MsrAction_u32 PassThrough"
  proof -
    have "(if write then mu_write_action r else mu_read_action r) = 0"
      using d(2) that by (auto simp: decides_def msr_outcome_def Let_def split: if_splits)
    then have "IsSpecialPassThroughAllowed p msr"
      using ok k(2,3) by (auto simp: msr_rule_ok_def Let_def split: if_splits)
    then show ?thesis by (auto simp: IsSpecialPassThroughAllowed_def split: if_splits)
  qed
  have "\<forall>i < unat (mp_rule_count p). mu_msr (mp_rules p ! i) = msr \<longrightarrow> decides d (msr_outcome (mp_rules p ! i) write value)"
    using u d(2) by metis
  moreover have "\<not> (\<forall>i < unat (mp_rule_count p). mu_msr (mp_rules p ! i) \<noteq> msr)" using k by blast
  ultimately show ?thesis using d(1,3-5) pass by blast
qed

section \<open>Examples\<close>

definition sample_cpuid_rule :: CpuidRule where
  "sample_cpuid_rule = \<lparr>cu_leaf = 1, cu_subleaf = 0, cu_eax_and = NOT 0, cu_ebx_and = NOT 0, cu_ecx_and = 0xFF,
     cu_edx_and = NOT 0, cu_reserved = 0, cu_reserved2 = 0\<rparr>"

definition zero_cpuid_rule :: CpuidRule where
  "zero_cpuid_rule = \<lparr>cu_leaf = 0, cu_subleaf = 0, cu_eax_and = 0, cu_ebx_and = 0, cu_ecx_and = 0, cu_edx_and = 0,
     cu_reserved = 0, cu_reserved2 = 0\<rparr>"

definition sample_cpuid_policy :: CpuidPolicy where
  "sample_cpuid_policy = \<lparr>cp_size = 576, cp_version = 1, cp_level = 1, cp_flags = 1, cp_rule_count = 1, cp_reserved = 0,
     cp_generation = 1, cp_max_basic_leaf = 0x16, cp_max_extended_leaf = 0x80000008, cp_reserved2 = 0, cp_reserved3 = 0,
     cp_rules = sample_cpuid_rule # replicate 15 zero_cpuid_rule, cp_hypervisor_leaf = ClearCpuid\<rparr>"

lemma sample_cpuid_valid: "IsCpuidPolicyValid (Some sample_cpuid_policy)"
proof -
  have "list_all (\<lambda>index. let rule = cp_rules sample_cpuid_policy ! index in
              cu_leaf rule = 0 \<and> cu_subleaf rule = 0 \<and> cu_eax_and rule = 0 \<and> cu_ebx_and rule = 0 \<and>
              cu_ecx_and rule = 0 \<and> cu_edx_and rule = 0 \<and> cu_reserved rule = 0 \<and> cu_reserved2 rule = 0) [1..<16]"
    by (auto simp: list_all_iff sample_cpuid_policy_def zero_cpuid_rule_def nth_Cons' Let_def)
  moreover have "\<not> (0x40000000 :: u32) \<le> 1" by (simp add: word_le_nat_alt)
  ultimately show ?thesis
    unfolding IsCpuidPolicyValid_def
    by (simp add: sample_cpuid_policy_def sample_cpuid_rule_def ClearCpuid_def IsVersionedSizeValid_def IsLevelValid_def)
qed

theorem cpuid_filter_exact_witness:
  "\<exists>g. FilterCpuid (Some sample_cpuid_policy) 1 0 (Some \<lparr>cr_eax = 0xA0671, cr_ebx = 0, cr_ecx = NOT 0, cr_edx = 0\<rparr>)
       (Some ClearCpuid) = (True, Some g) \<and> cr_eax g = 0xA0671 \<and> bit (cr_ecx g) 5 \<and> bit (cr_ecx g) 7 \<and>
     \<not> bit (cr_ecx g) 8 \<and> \<not> bit (cr_ecx g) 31"
proof -
  let ?h = "\<lparr>cr_eax = 0xA0671, cr_ebx = 0, cr_ecx = NOT 0, cr_edx = 0\<rparr>"
  have l: "length (cp_rules sample_cpuid_policy) = 16" by (simp add: sample_cpuid_policy_def)
  have k: "cpuid_rule_for sample_cpuid_policy 1 0 0" "\<not> leaf_hidden sample_cpuid_policy 1" "(1 :: u32) \<noteq> 0x40000000"
    "cp_rules sample_cpuid_policy ! 0 = sample_cpuid_rule"
    by (simp_all add: cpuid_rule_for_def leaf_hidden_def sample_cpuid_policy_def sample_cpuid_rule_def word_less_nat_alt)
  obtain g where g: "FilterCpuid (Some sample_cpuid_policy) 1 0 (Some ?h) (Some ClearCpuid) = (True, Some g)"
    "cpuid_shown sample_cpuid_policy 1 sample_cpuid_rule ?h g"
    using cpuid_filter_exact [OF sample_cpuid_valid l, of 1 0 ?h ClearCpuid] k by metis
  have f: "shows_flag sample_cpuid_policy kCpuidExposeVmx" "\<not> shows_flag sample_cpuid_policy kCpuidExposeHypervisor"
    by (simp_all add: shows_flag_def sample_cpuid_policy_def)
  have "bit (0xFF :: u32) 7" "\<not> bit (0xFF :: u32) 8" by code_simp+
  then show ?thesis
    using g f by (intro exI [of _ g]) (simp add: cpuid_shown_def sample_cpuid_rule_def)
qed

definition zero_msr_rule :: MsrRule where
  "zero_msr_rule = \<lparr>mu_msr = 0, mu_read_action = 0, mu_write_action = 0, mu_reserved = 0, mu_read_mask = 0,
     mu_write_allowed_mask = 0, mu_write_required_one = 0, mu_reserved2 = 0\<rparr>"

definition sample_msr_policy :: MsrPolicy where
  "sample_msr_policy = \<lparr>mp_size = 1568, mp_version = 1, mp_level = 1, mp_flags = 1, mp_rule_count = 1, mp_reserved = 0,
     mp_generation = 1, mp_rules = zero_msr_rule\<lparr>mu_msr := kMsrIa32Efer, mu_read_action := 1, mu_write_action := 1,
       mu_read_mask := 0xFFF, mu_write_allowed_mask := 0xD01, mu_write_required_one := 0x100\<rparr> # replicate 31 zero_msr_rule\<rparr>"

lemma sample_msr_valid: "IsMsrPolicyValid (Some sample_msr_policy)"
proof -
  have "list_all (\<lambda>index. let rule = mp_rules sample_msr_policy ! index in
              mu_msr rule = 0 \<and> mu_read_action rule = 0 \<and> mu_write_action rule = 0 \<and> mu_reserved rule = 0 \<and>
              mu_read_mask rule = 0 \<and> mu_write_allowed_mask rule = 0 \<and> mu_write_required_one rule = 0 \<and>
              mu_reserved2 rule = 0) [1..<32]"
    by (auto simp: list_all_iff sample_msr_policy_def zero_msr_rule_def nth_Cons' Let_def)
  then show ?thesis
    unfolding IsMsrPolicyValid_def
    by (simp add: sample_msr_policy_def zero_msr_rule_def msr_rule_ok_def IsMsrActionValid_def IsVersionedSizeValid_def
        IsLevelValid_def)
qed

theorem msr_decision_exact_witness:
  "\<exists>d. EvaluateMsrAccess (Some sample_msr_policy) kMsrIa32Efer True 0x801 (Some (InitializeMsrDecision 0 False 0)) = (True, Some d) \<and>
     decides d (MsrSuccess, Virtualized, 0x901)"
proof -
  have l: "length (mp_rules sample_msr_policy) = 32" by (simp add: sample_msr_policy_def)
  have o: "msr_outcome (mp_rules sample_msr_policy ! 0) True 0x801 = (MsrSuccess, Virtualized, 0x901)"
    by (simp add: msr_outcome_def sample_msr_policy_def zero_msr_rule_def bits_le_def)
  have k: "0 < unat (mp_rule_count sample_msr_policy)" "mu_msr (mp_rules sample_msr_policy ! 0) = kMsrIa32Efer"
    by (simp_all add: sample_msr_policy_def)
  show ?thesis
    using msr_decision_exact [OF sample_msr_valid l, of kMsrIa32Efer True "0x801" "InitializeMsrDecision 0 False 0"] k o by metis
qed

end
