(* ===== verification/WhpModel.thy ===== *)
theory WhpModel
  imports KnhvPrelude
begin

text \<open>
  Partitions of the Windows Hypervisor Platform: the constants and structures of
  \<^verbatim>\<open>src/src/include/knhv_whp.h\<close> and the functions of \<^verbatim>\<open>src/src/whp/whp_model.cpp\<close>: the life
  cycle of a partition and of its virtual CPUs, guest memory mappings and the decision on an exit.
\<close>

section \<open>Constants\<close>

abbreviation kWhpContractVersion :: u32 where "kWhpContractVersion \<equiv> 1"
abbreviation kWhpMaxStructSize :: u32 where "kWhpMaxStructSize \<equiv> 4096"
abbreviation kWhpPageSize :: u64 where "kWhpPageSize \<equiv> 4096"
abbreviation kWhpMaxPhysicalAddressBits :: u32 where "kWhpMaxPhysicalAddressBits \<equiv> 52"
abbreviation kWhpMaxVcpus :: u32 where "kWhpMaxVcpus \<equiv> 256"
abbreviation kWhpMaxMappings :: u32 where "kWhpMaxMappings \<equiv> 1024"
abbreviation kWhpCapPartition :: u64 where "kWhpCapPartition \<equiv> 1"
abbreviation kWhpCapLocalApic :: u64 where "kWhpCapLocalApic \<equiv> 2"
abbreviation kWhpCapXsave :: u64 where "kWhpCapXsave \<equiv> 4"
abbreviation kWhpCapDirtyPageTracking :: u64 where "kWhpCapDirtyPageTracking \<equiv> 8"
abbreviation kWhpCapVirtualPci :: u64 where "kWhpCapVirtualPci \<equiv> 16"
abbreviation kWhpCapIommu :: u64 where "kWhpCapIommu \<equiv> 32"
abbreviation kWhpCapNestedVmx :: u64 where "kWhpCapNestedVmx \<equiv> 64"
abbreviation kWhpCapReferenceTime :: u64 where "kWhpCapReferenceTime \<equiv> 128"
abbreviation kWhpCapExtendedExits :: u64 where "kWhpCapExtendedExits \<equiv> 256"
abbreviation kWhpKnownCapabilityMask :: u64 where
  "kWhpKnownCapabilityMask \<equiv> kWhpCapPartition OR kWhpCapLocalApic OR kWhpCapXsave OR
     kWhpCapDirtyPageTracking OR kWhpCapVirtualPci OR kWhpCapIommu OR kWhpCapNestedVmx OR
     kWhpCapReferenceTime OR kWhpCapExtendedExits"
abbreviation kWhpKnownExtendedExitMask :: u64 where "kWhpKnownExtendedExitMask \<equiv> 0x7FFF"
abbreviation kWhpPartitionEnableNestedVmx :: u32 where "kWhpPartitionEnableNestedVmx \<equiv> 1"
abbreviation kWhpPartitionEnableLocalApic :: u32 where "kWhpPartitionEnableLocalApic \<equiv> 2"
abbreviation kWhpPartitionEnableReferenceTime :: u32 where "kWhpPartitionEnableReferenceTime \<equiv> 4"
abbreviation kWhpPartitionRequireIsolation :: u32 where "kWhpPartitionRequireIsolation \<equiv> 8"
abbreviation kWhpKnownPartitionFlagMask :: u32 where
  "kWhpKnownPartitionFlagMask \<equiv> kWhpPartitionEnableNestedVmx OR kWhpPartitionEnableLocalApic OR
     kWhpPartitionEnableReferenceTime OR kWhpPartitionRequireIsolation"
abbreviation kWhpMappingRead :: u32 where "kWhpMappingRead \<equiv> 1"
abbreviation kWhpMappingWrite :: u32 where "kWhpMappingWrite \<equiv> 2"
abbreviation kWhpMappingExecute :: u32 where "kWhpMappingExecute \<equiv> 4"
abbreviation kWhpKnownMappingPermissionMask :: u32 where
  "kWhpKnownMappingPermissionMask \<equiv> kWhpMappingRead OR kWhpMappingWrite OR kWhpMappingExecute"
abbreviation kWhpMappingPrivate :: u32 where "kWhpMappingPrivate \<equiv> 1"
abbreviation kWhpMappingDirtyTrack :: u32 where "kWhpMappingDirtyTrack \<equiv> 2"
abbreviation kWhpKnownMappingFlagMask :: u32 where
  "kWhpKnownMappingFlagMask \<equiv> kWhpMappingPrivate OR kWhpMappingDirtyTrack"

section \<open>Data model\<close>

datatype WhpStatus = WhpSuccess | WhpInvalidParameter | WhpCapabilityMismatch | WhpStateConflict
  | WhpGenerationMismatch | WhpAddressInvalid | WhpLimitExceeded | WhpExitUnsupported | WhpStatusQuarantined

fun WhpStatus_u32 :: "WhpStatus \<Rightarrow> u32" where
  "WhpStatus_u32 WhpSuccess = 0"
| "WhpStatus_u32 WhpInvalidParameter = 1"
| "WhpStatus_u32 WhpCapabilityMismatch = 2"
| "WhpStatus_u32 WhpStateConflict = 3"
| "WhpStatus_u32 WhpGenerationMismatch = 4"
| "WhpStatus_u32 WhpAddressInvalid = 5"
| "WhpStatus_u32 WhpLimitExceeded = 6"
| "WhpStatus_u32 WhpExitUnsupported = 7"
| "WhpStatus_u32 WhpStatusQuarantined = 8"

datatype WhpPartitionState = PartitionEmpty | PartitionCreated | PartitionConfigured | PartitionRunning
  | PartitionDraining | PartitionClosed | PartitionQuarantined

fun WhpPartitionState_u32 :: "WhpPartitionState \<Rightarrow> u32" where
  "WhpPartitionState_u32 PartitionEmpty = 0"
| "WhpPartitionState_u32 PartitionCreated = 1"
| "WhpPartitionState_u32 PartitionConfigured = 2"
| "WhpPartitionState_u32 PartitionRunning = 3"
| "WhpPartitionState_u32 PartitionDraining = 4"
| "WhpPartitionState_u32 PartitionClosed = 5"
| "WhpPartitionState_u32 PartitionQuarantined = 6"

datatype WhpVcpuState = VcpuEmpty | VcpuCreated | VcpuRunning | VcpuStopped | VcpuFailed

fun WhpVcpuState_u32 :: "WhpVcpuState \<Rightarrow> u32" where
  "WhpVcpuState_u32 VcpuEmpty = 0"
| "WhpVcpuState_u32 VcpuCreated = 1"
| "WhpVcpuState_u32 VcpuRunning = 2"
| "WhpVcpuState_u32 VcpuStopped = 3"
| "WhpVcpuState_u32 VcpuFailed = 4"

datatype WhpExitReason = ReasonNone | MemoryAccess | IoPortAccess | UnrecoverableException
  | InvalidVpRegisterValue | UnsupportedFeature | InterruptWindow | Halt | ApicEoi | MsrAccess | Cpuid
  | ReasonException | Rdtsc | Hypercall | Canceled

fun WhpExitReason_u32 :: "WhpExitReason \<Rightarrow> u32" where
  "WhpExitReason_u32 ReasonNone = 0"
| "WhpExitReason_u32 MemoryAccess = 1"
| "WhpExitReason_u32 IoPortAccess = 2"
| "WhpExitReason_u32 UnrecoverableException = 4"
| "WhpExitReason_u32 InvalidVpRegisterValue = 5"
| "WhpExitReason_u32 UnsupportedFeature = 6"
| "WhpExitReason_u32 InterruptWindow = 7"
| "WhpExitReason_u32 Halt = 8"
| "WhpExitReason_u32 ApicEoi = 9"
| "WhpExitReason_u32 MsrAccess = 0x1000"
| "WhpExitReason_u32 Cpuid = 0x1001"
| "WhpExitReason_u32 ReasonException = 0x1002"
| "WhpExitReason_u32 Rdtsc = 0x1003"
| "WhpExitReason_u32 Hypercall = 0x1005"
| "WhpExitReason_u32 Canceled = 0x2001"

datatype WhpExitAction = Resume | HandleMemory | HandleIo | HandleCpu | InjectException | Stop | Quarantine

fun WhpExitAction_u32 :: "WhpExitAction \<Rightarrow> u32" where
  "WhpExitAction_u32 Resume = 0"
| "WhpExitAction_u32 HandleMemory = 1"
| "WhpExitAction_u32 HandleIo = 2"
| "WhpExitAction_u32 HandleCpu = 3"
| "WhpExitAction_u32 InjectException = 4"
| "WhpExitAction_u32 Stop = 5"
| "WhpExitAction_u32 Quarantine = 6"

record WhpCapabilities =
  wc_size :: u32
  wc_version :: u32
  wc_feature_flags :: u64
  wc_extended_exit_flags :: u64
  wc_api_version :: u32
  wc_physical_address_bits :: u32
  wc_max_vcpus :: u32
  wc_reserved :: u32
  wc_processor_clock_hz :: u64
  wc_generation :: u64

record WhpPartitionConfig =
  wf_size :: u32
  wf_version :: u32
  wf_owner_id :: u64
  wf_generation :: u64
  wf_max_vcpus :: u32
  wf_physical_address_bits :: u32
  wf_flags :: u32
  wf_reserved :: u32

record WhpPartition =
  wp_size :: u32
  wp_version :: u32
  wp_partition_id :: u64
  wp_owner_id :: u64
  wp_generation :: u64
  wp_state :: u32
  wp_flags :: u32
  wp_max_vcpus :: u32
  wp_configured_vcpus :: u32
  wp_mapping_count :: u32
  wp_reserved :: u32
  wp_mapped_pages :: u64

record WhpMemoryMapping =
  wm_size :: u32
  wm_version :: u32
  wm_guest_physical :: u64
  wm_host_address :: u64
  wm_page_count :: u64
  wm_permissions :: u32
  wm_flags :: u32
  wm_generation :: u64

record WhpVcpu =
  wv_size :: u32
  wv_version :: u32
  wv_index :: u32
  wv_state :: u32
  wv_generation :: u64
  wv_run_count :: u64
  wv_exit_count :: u64

record WhpExitRecord =
  we_size :: u32
  we_version :: u32
  we_reason :: u32
  we_vcpu_index :: u32
  we_instruction_length :: u32
  we_reserved :: u32
  we_qualification :: u64
  we_guest_physical :: u64
  we_guest_linear :: u64
  we_generation :: u64

record WhpExitDecision =
  wd_size :: u32
  wd_version :: u32
  wd_status :: u32
  wd_action :: u32
  wd_reason :: u32
  wd_reserved :: u32
  wd_generation :: u64

section \<open>Helpers\<close>

abbreviation whp_versioned :: "u32 \<Rightarrow> u32 \<Rightarrow> u32 \<Rightarrow> bool" where
  "whp_versioned \<equiv> IsVersionedSizeValid kWhpContractVersion kWhpMaxStructSize"

definition IsAddressValid :: "u64 \<Rightarrow> u32 \<Rightarrow> bool" where
  "IsAddressValid address bits \<longleftrightarrow> bits \<ge> 12 \<and> bits \<le> kWhpMaxPhysicalAddressBits \<and>
     drop_bit (unat bits) address = 0"

definition IsPartitionStateValidValue :: "u32 \<Rightarrow> bool" where
  "IsPartitionStateValidValue value \<longleftrightarrow> value \<le> WhpPartitionState_u32 PartitionQuarantined"

definition IsVcpuStateValidValue :: "u32 \<Rightarrow> bool" where
  "IsVcpuStateValidValue value \<longleftrightarrow> value \<le> WhpVcpuState_u32 VcpuFailed"

definition IsReasonValid :: "u32 \<Rightarrow> bool" where
  "IsReasonValid value \<longleftrightarrow> value \<in> set (map WhpExitReason_u32
     [MemoryAccess, IoPortAccess, UnrecoverableException, InvalidVpRegisterValue, UnsupportedFeature,
      InterruptWindow, Halt, ApicEoi, MsrAccess, Cpuid, ReasonException, Rdtsc, Hypercall, Canceled])"

definition InitializePartition :: WhpPartition where
  "InitializePartition = \<lparr>wp_size = 64, wp_version = kWhpContractVersion, wp_partition_id = 0,
     wp_owner_id = 0, wp_generation = 0, wp_state = WhpPartitionState_u32 PartitionEmpty, wp_flags = 0,
     wp_max_vcpus = 0, wp_configured_vcpus = 0, wp_mapping_count = 0, wp_reserved = 0,
     wp_mapped_pages = 0\<rparr>"

definition InitializeVcpu :: WhpVcpu where
  "InitializeVcpu = \<lparr>wv_size = 40, wv_version = kWhpContractVersion, wv_index = 0,
     wv_state = WhpVcpuState_u32 VcpuEmpty, wv_generation = 0, wv_run_count = 0, wv_exit_count = 0\<rparr>"

definition WhpInitializeDecision :: "WhpExitRecord option \<Rightarrow> WhpExitDecision" where
  "WhpInitializeDecision record_ptr = \<lparr>wd_size = 32, wd_version = kWhpContractVersion, wd_status = 0,
     wd_action = 0, wd_reason = (case record_ptr of None \<Rightarrow> 0 | Some r \<Rightarrow> we_reason r), wd_reserved = 0,
     wd_generation = (case record_ptr of None \<Rightarrow> 0 | Some r \<Rightarrow> we_generation r)\<rparr>"

definition WhpSetDecision :: "WhpExitDecision \<Rightarrow> WhpStatus \<Rightarrow> WhpExitAction \<Rightarrow> WhpExitDecision" where
  "WhpSetDecision decision status action =
     decision\<lparr>wd_status := WhpStatus_u32 status, wd_action := WhpExitAction_u32 action\<rparr>"

section \<open>Validation\<close>

definition IsWhpCapabilitiesValid :: "WhpCapabilities option \<Rightarrow> bool" where
  "IsWhpCapabilitiesValid capabilities = (case capabilities of None \<Rightarrow> False | Some c \<Rightarrow>
     whp_versioned (wc_version c) (wc_size c) 56 \<and>
     wc_feature_flags c AND NOT kWhpKnownCapabilityMask = 0 \<and>
     wc_extended_exit_flags c AND NOT kWhpKnownExtendedExitMask = 0 \<and> wc_api_version c \<noteq> 0 \<and>
     wc_physical_address_bits c \<ge> 12 \<and> wc_physical_address_bits c \<le> kWhpMaxPhysicalAddressBits \<and>
     wc_max_vcpus c \<noteq> 0 \<and> wc_max_vcpus c \<le> kWhpMaxVcpus \<and> wc_reserved c = 0 \<and> wc_generation c \<noteq> 0)"

definition IsWhpPartitionConfigValid :: "WhpPartitionConfig option \<Rightarrow> bool" where
  "IsWhpPartitionConfigValid config = (case config of None \<Rightarrow> False | Some f \<Rightarrow>
     whp_versioned (wf_version f) (wf_size f) 40 \<and> wf_owner_id f \<noteq> 0 \<and> wf_generation f \<noteq> 0 \<and>
     wf_max_vcpus f \<noteq> 0 \<and> wf_max_vcpus f \<le> kWhpMaxVcpus \<and> wf_physical_address_bits f \<ge> 12 \<and>
     wf_physical_address_bits f \<le> kWhpMaxPhysicalAddressBits \<and>
     wf_flags f AND NOT kWhpKnownPartitionFlagMask = 0 \<and> wf_reserved f = 0)"

definition IsWhpPartitionValid :: "WhpPartition option \<Rightarrow> bool" where
  "IsWhpPartitionValid partition_ptr = (case partition_ptr of None \<Rightarrow> False | Some p \<Rightarrow>
     if \<not> whp_versioned (wp_version p) (wp_size p) 64 \<or> wp_partition_id p = 0 \<or> wp_owner_id p = 0 \<or>
        wp_generation p = 0 \<or> \<not> IsPartitionStateValidValue (wp_state p) \<or>
        wp_flags p AND NOT kWhpKnownPartitionFlagMask \<noteq> 0 \<or> wp_max_vcpus p = 0 \<or>
        wp_max_vcpus p > kWhpMaxVcpus \<or> wp_configured_vcpus p > wp_max_vcpus p \<or>
        wp_mapping_count p > kWhpMaxMappings \<or> wp_reserved p \<noteq> 0
     then False
     else if wp_state p = WhpPartitionState_u32 PartitionEmpty
     then wp_configured_vcpus p = 0 \<and> wp_mapping_count p = 0 \<and> wp_mapped_pages p = 0
     else True)"

definition IsWhpMemoryMappingValid :: "WhpMemoryMapping option \<Rightarrow> u32 \<Rightarrow> bool" where
  "IsWhpMemoryMappingValid mapping physical_address_bits = (case mapping of None \<Rightarrow> False | Some m \<Rightarrow>
     if \<not> whp_versioned (wm_version m) (wm_size m) 48 \<or> wm_host_address m = 0 \<or> wm_page_count m = 0 \<or>
        wm_page_count m > 0x100000 \<or> wm_permissions m AND NOT kWhpKnownMappingPermissionMask \<noteq> 0 \<or>
        wm_permissions m = 0 \<or> wm_flags m AND NOT kWhpKnownMappingFlagMask \<noteq> 0 \<or>
        wm_generation m = 0 \<or> wm_guest_physical m AND (kWhpPageSize - 1) \<noteq> 0 \<or>
        wm_host_address m AND (kWhpPageSize - 1) \<noteq> 0 \<or>
        \<not> IsAddressValid (wm_guest_physical m) physical_address_bits
     then False
     else let span = wm_page_count m * kWhpPageSize
          in case AddOverflow (wm_guest_physical m) (span - 1) of None \<Rightarrow> False
             | Some final \<Rightarrow> IsAddressValid final physical_address_bits \<and>
                 AddOverflow (wm_host_address m) (span - 1) \<noteq> None)"

definition IsWhpVcpuValid :: "WhpVcpu option \<Rightarrow> bool" where
  "IsWhpVcpuValid vcpu = (case vcpu of None \<Rightarrow> False | Some v \<Rightarrow>
     if \<not> whp_versioned (wv_version v) (wv_size v) 40 \<or> \<not> IsVcpuStateValidValue (wv_state v) \<or>
        wv_generation v = 0
     then False
     else if wv_state v = WhpVcpuState_u32 VcpuEmpty
     then wv_index v = 0 \<and> wv_run_count v = 0 \<and> wv_exit_count v = 0
     else wv_index v < kWhpMaxVcpus)"

definition IsWhpExitRecordValid :: "WhpExitRecord option \<Rightarrow> bool" where
  "IsWhpExitRecordValid record_ptr = (case record_ptr of None \<Rightarrow> False | Some r \<Rightarrow>
     whp_versioned (we_version r) (we_size r) 56 \<and> IsReasonValid (we_reason r) \<and>
     we_vcpu_index r < kWhpMaxVcpus \<and> we_instruction_length r \<le> 15 \<and> we_reserved r = 0 \<and>
     we_generation r \<noteq> 0 \<and> IsAddressValid (we_guest_physical r) kWhpMaxPhysicalAddressBits)"

section \<open>Partitions\<close>

definition CreateWhpPartition ::
  "WhpCapabilities option \<Rightarrow> WhpPartitionConfig option \<Rightarrow> u64 \<Rightarrow> WhpPartition option \<Rightarrow>
   WhpStatus \<times> WhpPartition option" where
  "CreateWhpPartition capabilities config partition_id partition_ptr =
   (case partition_ptr of None \<Rightarrow> (WhpInvalidParameter, None) | Some _ \<Rightarrow>
     (let p = InitializePartition; mismatch = (WhpCapabilityMismatch, Some p)
      in case (capabilities, config) of
        (Some c, Some f) \<Rightarrow>
          (if \<not> IsWhpCapabilitiesValid (Some c) \<or> \<not> IsWhpPartitionConfigValid (Some f) \<or>
              partition_id = 0 \<or> wc_generation c \<noteq> wf_generation f \<or>
              wc_feature_flags c AND kWhpCapPartition = 0 \<or> wf_max_vcpus f > wc_max_vcpus c \<or>
              wf_physical_address_bits f > wc_physical_address_bits c
           then mismatch
           else if wf_flags f AND kWhpPartitionEnableNestedVmx \<noteq> 0 \<and>
                   wc_feature_flags c AND kWhpCapNestedVmx = 0 then mismatch
           else if wf_flags f AND kWhpPartitionEnableLocalApic \<noteq> 0 \<and>
                   wc_feature_flags c AND kWhpCapLocalApic = 0 then mismatch
           else if wf_flags f AND kWhpPartitionEnableReferenceTime \<noteq> 0 \<and>
                   wc_feature_flags c AND kWhpCapReferenceTime = 0 then mismatch
           else if wf_flags f AND kWhpPartitionRequireIsolation \<noteq> 0 \<and>
                   wc_feature_flags c AND kWhpCapIommu = 0 then mismatch
           else (WhpSuccess, Some (p\<lparr>wp_partition_id := partition_id, wp_owner_id := wf_owner_id f,
                   wp_generation := wf_generation f, wp_flags := wf_flags f,
                   wp_max_vcpus := wf_max_vcpus f,
                   wp_state := WhpPartitionState_u32 PartitionCreated\<rparr>)))
      | _ \<Rightarrow> mismatch))"

definition ConfigureWhpPartition ::
  "WhpPartition option \<Rightarrow> u64 \<Rightarrow> u32 \<Rightarrow> WhpStatus \<times> WhpPartition option" where
  "ConfigureWhpPartition partition_ptr generation vcpu_count =
   (case partition_ptr of None \<Rightarrow> (WhpStateConflict, None) | Some p \<Rightarrow>
     if \<not> IsWhpPartitionValid (Some p) \<or> generation = 0 \<or> wp_generation p \<noteq> generation \<or>
        wp_state p \<noteq> WhpPartitionState_u32 PartitionCreated \<or> vcpu_count = 0 \<or>
        vcpu_count > wp_max_vcpus p
     then (WhpStateConflict, Some p)
     else (WhpSuccess, Some (p\<lparr>wp_configured_vcpus := vcpu_count,
             wp_state := WhpPartitionState_u32 PartitionConfigured\<rparr>)))"

definition MapWhpGpa ::
  "WhpPartition option \<Rightarrow> WhpMemoryMapping option \<Rightarrow> u64 \<Rightarrow> u32 \<Rightarrow> WhpStatus \<times> WhpPartition option" where
  "MapWhpGpa partition_ptr mapping generation physical_address_bits = (case (partition_ptr, mapping) of
     (Some p, Some m) \<Rightarrow>
       (if \<not> IsWhpPartitionValid (Some p) \<or> \<not> IsWhpMemoryMappingValid (Some m) physical_address_bits
        then (WhpInvalidParameter, Some p)
        else if wp_generation p \<noteq> generation \<or> wm_generation m \<noteq> generation
        then (WhpGenerationMismatch, Some p)
        else if wp_state p \<noteq> WhpPartitionState_u32 PartitionCreated \<and>
                wp_state p \<noteq> WhpPartitionState_u32 PartitionConfigured
        then (WhpStateConflict, Some p)
        else if wp_mapping_count p \<ge> kWhpMaxMappings \<or> wp_mapped_pages p > NOT 0 - wm_page_count m
        then (WhpLimitExceeded, Some p)
        else (WhpSuccess, Some (p\<lparr>wp_mapping_count := wp_mapping_count p + 1,
                wp_mapped_pages := wp_mapped_pages p + wm_page_count m\<rparr>)))
   | _ \<Rightarrow> (WhpInvalidParameter, partition_ptr))"

definition StartWhpPartition :: "WhpPartition option \<Rightarrow> u64 \<Rightarrow> bool \<times> WhpPartition option" where
  "StartWhpPartition partition_ptr generation = (case partition_ptr of None \<Rightarrow> (False, None) | Some p \<Rightarrow>
     if \<not> IsWhpPartitionValid (Some p) \<or> generation = 0 \<or> wp_generation p \<noteq> generation \<or>
        wp_state p \<noteq> WhpPartitionState_u32 PartitionConfigured \<or> wp_configured_vcpus p = 0
     then (False, Some p)
     else (True, Some (p\<lparr>wp_state := WhpPartitionState_u32 PartitionRunning\<rparr>)))"

definition BeginWhpDrain :: "WhpPartition option \<Rightarrow> u64 \<Rightarrow> bool \<times> WhpPartition option" where
  "BeginWhpDrain partition_ptr generation = (case partition_ptr of None \<Rightarrow> (False, None) | Some p \<Rightarrow>
     if \<not> IsWhpPartitionValid (Some p) \<or> generation = 0 \<or> wp_generation p \<noteq> generation \<or>
        wp_state p \<noteq> WhpPartitionState_u32 PartitionRunning \<and>
        wp_state p \<noteq> WhpPartitionState_u32 PartitionConfigured
     then (False, Some p)
     else (True, Some (p\<lparr>wp_state := WhpPartitionState_u32 PartitionDraining\<rparr>)))"

definition CloseWhpPartition :: "WhpPartition option \<Rightarrow> u64 \<Rightarrow> bool \<times> WhpPartition option" where
  "CloseWhpPartition partition_ptr generation = (case partition_ptr of None \<Rightarrow> (False, None) | Some p \<Rightarrow>
     if \<not> IsWhpPartitionValid (Some p) \<or> generation = 0 \<or> wp_generation p \<noteq> generation \<or>
        wp_state p \<noteq> WhpPartitionState_u32 PartitionCreated \<and>
        wp_state p \<noteq> WhpPartitionState_u32 PartitionConfigured \<and>
        wp_state p \<noteq> WhpPartitionState_u32 PartitionDraining
     then (False, Some p)
     else (True, Some (p\<lparr>wp_state := WhpPartitionState_u32 PartitionClosed\<rparr>)))"

definition QuarantineWhpPartition :: "WhpPartition option \<Rightarrow> u64 \<Rightarrow> bool \<times> WhpPartition option" where
  "QuarantineWhpPartition partition_ptr generation = (case partition_ptr of None \<Rightarrow> (False, None) | Some p \<Rightarrow>
     if \<not> IsWhpPartitionValid (Some p) \<or> generation = 0 \<or> wp_generation p \<noteq> generation \<or>
        wp_state p = WhpPartitionState_u32 PartitionClosed \<or>
        wp_state p = WhpPartitionState_u32 PartitionQuarantined
     then (False, Some p)
     else (True, Some (p\<lparr>wp_state := WhpPartitionState_u32 PartitionQuarantined\<rparr>)))"

section \<open>Virtual CPUs\<close>

definition CreateWhpVcpu ::
  "WhpPartition option \<Rightarrow> WhpVcpu option \<Rightarrow> u32 \<Rightarrow> u64 \<Rightarrow> WhpStatus \<times> WhpVcpu option" where
  "CreateWhpVcpu partition_ptr vcpu index generation =
   (case vcpu of None \<Rightarrow> (WhpInvalidParameter, None) | Some _ \<Rightarrow>
     (case partition_ptr of None \<Rightarrow> (WhpStateConflict, Some InitializeVcpu) | Some p \<Rightarrow>
       if \<not> IsWhpPartitionValid (Some p) \<or> generation = 0 \<or> wp_generation p \<noteq> generation \<or>
          wp_state p \<noteq> WhpPartitionState_u32 PartitionConfigured \<or> index \<ge> wp_configured_vcpus p
       then (WhpStateConflict, Some InitializeVcpu)
       else (WhpSuccess, Some (InitializeVcpu\<lparr>wv_index := index, wv_generation := generation,
               wv_state := WhpVcpuState_u32 VcpuCreated\<rparr>))))"

definition StartWhpVcpu ::
  "WhpPartition option \<Rightarrow> WhpVcpu option \<Rightarrow> u64 \<Rightarrow> WhpStatus \<times> WhpVcpu option" where
  "StartWhpVcpu partition_ptr vcpu generation = (case (partition_ptr, vcpu) of
     (Some p, Some v) \<Rightarrow>
       (if \<not> IsWhpPartitionValid (Some p) \<or> \<not> IsWhpVcpuValid (Some v) \<or> generation = 0 \<or>
           wp_generation p \<noteq> generation \<or> wv_generation v \<noteq> generation \<or>
           wp_state p \<noteq> WhpPartitionState_u32 PartitionRunning \<or> wv_index v \<ge> wp_configured_vcpus p \<or>
           wv_state v \<noteq> WhpVcpuState_u32 VcpuCreated \<and> wv_state v \<noteq> WhpVcpuState_u32 VcpuStopped \<or>
           wv_run_count v = NOT 0
        then (WhpStateConflict, Some v)
        else (WhpSuccess, Some (v\<lparr>wv_state := WhpVcpuState_u32 VcpuRunning,
                wv_run_count := wv_run_count v + 1\<rparr>)))
   | _ \<Rightarrow> (WhpStateConflict, vcpu))"

definition StopWhpVcpu ::
  "WhpPartition option \<Rightarrow> WhpVcpu option \<Rightarrow> u64 \<Rightarrow> WhpStatus \<times> WhpVcpu option" where
  "StopWhpVcpu partition_ptr vcpu generation = (case (partition_ptr, vcpu) of
     (Some p, Some v) \<Rightarrow>
       (if \<not> IsWhpPartitionValid (Some p) \<or> \<not> IsWhpVcpuValid (Some v) \<or> generation = 0 \<or>
           wp_generation p \<noteq> generation \<or> wv_generation v \<noteq> generation \<or>
           wp_state p \<noteq> WhpPartitionState_u32 PartitionRunning \<and>
           wp_state p \<noteq> WhpPartitionState_u32 PartitionDraining \<or>
           wv_state v \<noteq> WhpVcpuState_u32 VcpuRunning
        then (WhpStateConflict, Some v)
        else (WhpSuccess, Some (v\<lparr>wv_state := WhpVcpuState_u32 VcpuStopped\<rparr>)))
   | _ \<Rightarrow> (WhpStateConflict, vcpu))"

section \<open>Exits\<close>

definition whp_exit_outcome :: "u32 \<Rightarrow> WhpStatus \<times> WhpExitAction" where
  "whp_exit_outcome reason =
     (if reason = WhpExitReason_u32 MemoryAccess then (WhpSuccess, HandleMemory)
      else if reason = WhpExitReason_u32 IoPortAccess then (WhpSuccess, HandleIo)
      else if reason = WhpExitReason_u32 MsrAccess \<or> reason = WhpExitReason_u32 Cpuid \<or>
              reason = WhpExitReason_u32 ReasonException \<or> reason = WhpExitReason_u32 Rdtsc \<or>
              reason = WhpExitReason_u32 Hypercall \<or> reason = WhpExitReason_u32 InterruptWindow \<or>
              reason = WhpExitReason_u32 ApicEoi
      then (WhpSuccess, HandleCpu)
      else if reason = WhpExitReason_u32 Halt \<or> reason = WhpExitReason_u32 Canceled
      then (WhpSuccess, Stop)
      else (WhpExitUnsupported, Quarantine))"

definition EvaluateWhpExit ::
  "WhpPartition option \<Rightarrow> WhpExitRecord option \<Rightarrow> u64 \<Rightarrow> WhpExitDecision option \<Rightarrow>
   bool \<times> WhpExitDecision option" where
  "EvaluateWhpExit partition_ptr record_ptr generation decision =
   (case decision of None \<Rightarrow> (False, None) | Some _ \<Rightarrow>
     (let d = WhpInitializeDecision record_ptr
      in case (partition_ptr, record_ptr) of
        (Some p, Some r) \<Rightarrow>
          (if \<not> IsWhpPartitionValid (Some p) \<or> \<not> IsWhpExitRecordValid (Some r)
           then (False, Some (WhpSetDecision d WhpInvalidParameter Quarantine))
           else if generation = 0 \<or> wp_generation p \<noteq> generation \<or> we_generation r \<noteq> generation
           then (True, Some (WhpSetDecision d WhpGenerationMismatch Quarantine))
           else if wp_state p \<noteq> WhpPartitionState_u32 PartitionRunning \<or>
                   we_vcpu_index r \<ge> wp_configured_vcpus p
           then (True, Some (WhpSetDecision d WhpStateConflict Quarantine))
           else (case whp_exit_outcome (we_reason r) of
                   (status, action) \<Rightarrow> (True, Some (WhpSetDecision d status action))))
      | _ \<Rightarrow> (False, Some (WhpSetDecision d WhpInvalidParameter Quarantine))))"

section \<open>Runs of a partition and its virtual CPUs\<close>

record whp_system =
  ws_partition :: WhpPartition
  ws_vcpus :: "WhpVcpu list"

inductive whp_step :: "whp_system \<Rightarrow> whp_system \<Rightarrow> bool" where
  step_configure: "ConfigureWhpPartition (Some (ws_partition s)) g n = (WhpSuccess, Some p) \<Longrightarrow>
     whp_step s (s\<lparr>ws_partition := p\<rparr>)"
| step_map: "MapWhpGpa (Some (ws_partition s)) m g b = (WhpSuccess, Some p) \<Longrightarrow> whp_step s (s\<lparr>ws_partition := p\<rparr>)"
| step_start: "StartWhpPartition (Some (ws_partition s)) g = (True, Some p) \<Longrightarrow> whp_step s (s\<lparr>ws_partition := p\<rparr>)"
| step_drain: "BeginWhpDrain (Some (ws_partition s)) g = (True, Some p) \<Longrightarrow> whp_step s (s\<lparr>ws_partition := p\<rparr>)"
| step_close: "CloseWhpPartition (Some (ws_partition s)) g = (True, Some p) \<Longrightarrow> whp_step s (s\<lparr>ws_partition := p\<rparr>)"
| step_quarantine: "QuarantineWhpPartition (Some (ws_partition s)) g = (True, Some p) \<Longrightarrow> whp_step s (s\<lparr>ws_partition := p\<rparr>)"
| step_create_vcpu: "CreateWhpVcpu (Some (ws_partition s)) (Some v0) k g = (WhpSuccess, Some v) \<Longrightarrow>
     whp_step s (s\<lparr>ws_vcpus := ws_vcpus s @ [v]\<rparr>)"
| step_start_vcpu: "i < length (ws_vcpus s) \<Longrightarrow>
     StartWhpVcpu (Some (ws_partition s)) (Some (ws_vcpus s ! i)) g = (WhpSuccess, Some v) \<Longrightarrow>
     whp_step s (s\<lparr>ws_vcpus := (ws_vcpus s)[i := v]\<rparr>)"
| step_stop_vcpu: "i < length (ws_vcpus s) \<Longrightarrow>
     StopWhpVcpu (Some (ws_partition s)) (Some (ws_vcpus s ! i)) g = (WhpSuccess, Some v) \<Longrightarrow>
     whp_step s (s\<lparr>ws_vcpus := (ws_vcpus s)[i := v]\<rparr>)"

text \<open>The numbers of the states, for short.\<close>

lemmas whp_states = WhpPartitionState_u32.simps WhpVcpuState_u32.simps

definition vcpu_ok :: "WhpPartition \<Rightarrow> WhpVcpu \<Rightarrow> bool" where
  "vcpu_ok p v \<longleftrightarrow> IsWhpVcpuValid (Some v) \<and> wv_generation v = wp_generation p \<and> wv_index v < wp_configured_vcpus p \<and>
     wv_state v \<noteq> WhpVcpuState_u32 VcpuEmpty"

definition partition_ok :: "WhpPartition \<Rightarrow> bool" where
  "partition_ok p \<longleftrightarrow> IsWhpPartitionValid (Some p) \<and> wp_state p \<noteq> WhpPartitionState_u32 PartitionEmpty \<and>
     unat (wp_mapped_pages p) \<le> unat (wp_mapping_count p) * 2 ^ 20 \<and>
     (wp_state p = WhpPartitionState_u32 PartitionCreated \<longrightarrow> wp_configured_vcpus p = 0)"

definition whp_inv :: "whp_system \<Rightarrow> bool" where
  "whp_inv s \<longleftrightarrow> partition_ok (ws_partition s) \<and> (\<forall>v \<in> set (ws_vcpus s). vcpu_ok (ws_partition s) v)"

lemma vcpus_empty:
  assumes "whp_inv s" and "wp_state (ws_partition s) = WhpPartitionState_u32 PartitionCreated"
  shows "ws_vcpus s = []"
proof (rule ccontr)
  assume "ws_vcpus s \<noteq> []"
  then have "vcpu_ok (ws_partition s) (hd (ws_vcpus s))" using assms(1) by (simp add: whp_inv_def)
  then show False using assms by (simp add: whp_inv_def partition_ok_def vcpu_ok_def)
qed

lemma partition_valid_counts:
  assumes "IsWhpPartitionValid (Some p)"
  shows "unat (wp_mapping_count p) \<le> 1024" "unat (wp_max_vcpus p) \<le> 256" "wp_configured_vcpus p \<le> wp_max_vcpus p"
    "wp_generation p \<noteq> 0"
  using assms by (auto simp: IsWhpPartitionValid_def word_less_nat_alt not_less word_le_nat_alt split: if_splits)

lemma map_partition:
  assumes "MapWhpGpa (Some p) m g b = (WhpSuccess, Some q)" and "partition_ok p"
  shows "partition_ok q \<and> wp_state q = wp_state p \<and> wp_configured_vcpus q = wp_configured_vcpus p \<and>
    wp_generation q = wp_generation p"
proof -
  obtain mm where m: "m = Some mm" "IsWhpMemoryMappingValid (Some mm) b" "wp_mapping_count p < 1024"
    "q = p\<lparr>wp_mapping_count := wp_mapping_count p + 1, wp_mapped_pages := wp_mapped_pages p + wm_page_count mm\<rparr>"
    using assms(1) by (auto simp: MapWhpGpa_def not_le split: option.splits if_splits)
  have pc: "unat (wm_page_count mm) \<le> 2 ^ 20"
    using m(2) by (auto simp: IsWhpMemoryMappingValid_def word_less_nat_alt not_less split: if_splits)
  have mc: "unat (wp_mapping_count p) < 1024" using m(3) by (simp add: word_less_nat_alt)
  have inc: "unat (wp_mapping_count p + 1) = unat (wp_mapping_count p) + 1"
    using mc by (simp add: unat_word_ariths)
  have mp: "unat (wp_mapped_pages p) \<le> unat (wp_mapping_count p) * 2 ^ 20" using assms(2) by (simp add: partition_ok_def)
  have "unat (wp_mapped_pages p) + unat (wm_page_count mm) < 2 ^ 64" using mp mc pc by simp
  then have "unat (wp_mapped_pages p + wm_page_count mm) \<le> (unat (wp_mapping_count p) + 1) * 2 ^ 20"
    using mp pc by (simp add: unat_add_small)
  moreover have "wp_mapping_count p + 1 \<le> 1024" using inc mc by (simp add: word_le_nat_alt)
  ultimately show ?thesis
    using assms(2) inc unfolding m(4)
    by (auto simp: partition_ok_def IsWhpPartitionValid_def not_le not_less split: if_splits)
qed

lemma partition_state_ok:
  assumes "partition_ok p" and "x \<le> 6" and "2 \<le> x"
  shows "partition_ok (p\<lparr>wp_state := x\<rparr>)"
proof -
  have "x \<noteq> 0" "x \<noteq> 1" using assms(3) by (auto simp: word_le_nat_alt)
  then show ?thesis
    using assms(1,2) by (auto simp: partition_ok_def IsWhpPartitionValid_def IsPartitionStateValidValue_def split: if_splits)
qed

lemma vcpu_ok_state:
  assumes "vcpu_ok p v"
  shows "vcpu_ok (p\<lparr>wp_state := x\<rparr>) v"
  using assms by (simp add: vcpu_ok_def)

lemma whp_step_inv:
  assumes "whp_step s t" and "whp_inv s"
  shows "whp_inv t"
  using assms
proof (cases rule: whp_step.cases)
  case (step_configure g n p)
  note e = vcpus_empty [OF assms(2)]
  have c: "wp_state (ws_partition s) = 1" "n \<le> wp_max_vcpus (ws_partition s)"
    "p = (ws_partition s)\<lparr>wp_configured_vcpus := n, wp_state := 2\<rparr>"
    using step_configure(2) by (auto simp: ConfigureWhpPartition_def not_less split: if_splits)
  then have "partition_ok p"
    using assms(2) by (auto simp: whp_inv_def partition_ok_def IsWhpPartitionValid_def IsPartitionStateValidValue_def not_less
        split: if_splits)
  then show ?thesis using e c(1) step_configure(1) by (simp add: whp_inv_def)
next
  case (step_map m g b p)
  then show ?thesis using map_partition [OF step_map(2)] assms(2) by (auto simp: whp_inv_def vcpu_ok_def)
next
  case (step_start g p)
  have "p = (ws_partition s)\<lparr>wp_state := 3\<rparr>"
    using step_start(2) by (auto simp: StartWhpPartition_def split: if_splits)
  then show ?thesis
    using assms(2) step_start(1) partition_state_ok [of "ws_partition s" 3] vcpu_ok_state by (auto simp: whp_inv_def)
next
  case (step_drain g p)
  have "p = (ws_partition s)\<lparr>wp_state := 4\<rparr>"
    using step_drain(2) by (auto simp: BeginWhpDrain_def split: if_splits)
  then show ?thesis
    using assms(2) step_drain(1) partition_state_ok [of "ws_partition s" 4] vcpu_ok_state by (auto simp: whp_inv_def)
next
  case (step_close g p)
  have "p = (ws_partition s)\<lparr>wp_state := 5\<rparr>"
    using step_close(2) by (auto simp: CloseWhpPartition_def split: if_splits)
  then show ?thesis
    using assms(2) step_close(1) partition_state_ok [of "ws_partition s" 5] vcpu_ok_state by (auto simp: whp_inv_def)
next
  case (step_quarantine g p)
  have "p = (ws_partition s)\<lparr>wp_state := 6\<rparr>"
    using step_quarantine(2) by (auto simp: QuarantineWhpPartition_def split: if_splits)
  then show ?thesis
    using assms(2) step_quarantine(1) partition_state_ok [of "ws_partition s" 6] vcpu_ok_state by (auto simp: whp_inv_def)
next
  case (step_create_vcpu v0 k g v)
  have v: "v = InitializeVcpu\<lparr>wv_index := k, wv_generation := g, wv_state := 1\<rparr>" "g \<noteq> 0" "wp_generation (ws_partition s) = g"
    "k < wp_configured_vcpus (ws_partition s)" "IsWhpPartitionValid (Some (ws_partition s))"
    using step_create_vcpu(2) by (auto simp: CreateWhpVcpu_def not_le split: if_splits)
  have "k < 256" using partition_valid_counts(2,3) [OF v(5)] v(4) by (simp add: word_less_nat_alt word_le_nat_alt)
  then have "vcpu_ok (ws_partition s) v"
    using v(2-4) by (simp add: v(1) vcpu_ok_def IsWhpVcpuValid_def InitializeVcpu_def IsVersionedSizeValid_def IsVcpuStateValidValue_def)
  then show ?thesis using assms(2) step_create_vcpu(1) by (auto simp: whp_inv_def)
next
  case (step_start_vcpu i g v)
  let ?v = "ws_vcpus s ! i"
  have old: "vcpu_ok (ws_partition s) ?v" using assms(2) step_start_vcpu(2) by (simp add: whp_inv_def)
  have "v = ?v\<lparr>wv_state := 2, wv_run_count := wv_run_count ?v + 1\<rparr>" "wp_state (ws_partition s) = 3"
    using step_start_vcpu(3) by (auto simp: StartWhpVcpu_def split: if_splits)
  then have "vcpu_ok (ws_partition s) v"
    using old by (auto simp: vcpu_ok_def IsWhpVcpuValid_def IsVcpuStateValidValue_def split: if_splits)
  then show ?thesis
    using assms(2) step_start_vcpu(1) set_update_subset_insert [of "ws_vcpus s" i v] by (auto simp: whp_inv_def)
next
  case (step_stop_vcpu i g v)
  let ?v = "ws_vcpus s ! i"
  have old: "vcpu_ok (ws_partition s) ?v" using assms(2) step_stop_vcpu(2) by (simp add: whp_inv_def)
  have "v = ?v\<lparr>wv_state := 3\<rparr>" using step_stop_vcpu(3) by (auto simp: StopWhpVcpu_def split: if_splits)
  then have "vcpu_ok (ws_partition s) v"
    using old by (auto simp: vcpu_ok_def IsWhpVcpuValid_def IsVcpuStateValidValue_def split: if_splits)
  then show ?thesis
    using assms(2) step_stop_vcpu(1) set_update_subset_insert [of "ws_vcpus s" i v] by (auto simp: whp_inv_def)
qed

interpretation whp: invariant_machine whp_step whp_inv
  using whp_step_inv by unfold_locales

section \<open>What holds along every run\<close>

definition whp_identity :: "whp_system \<Rightarrow> u64 \<times> u64 \<times> u64 \<times> u32 \<times> u32" where
  "whp_identity s = (let p = ws_partition s
     in (wp_partition_id p, wp_owner_id p, wp_generation p, wp_flags p, wp_max_vcpus p))"

lemmas whp_op_defs = ConfigureWhpPartition_def MapWhpGpa_def StartWhpPartition_def BeginWhpDrain_def
  CloseWhpPartition_def QuarantineWhpPartition_def CreateWhpVcpu_def StartWhpVcpu_def StopWhpVcpu_def

lemma whp_step_identity: "whp_step s t \<Longrightarrow> whp_identity t = whp_identity s"
  by (erule whp_step.cases; simp add: whp_op_defs whp_identity_def Let_def split: if_splits option.splits)
    (auto simp: whp_identity_def)

lemma partition_state_cases:
  "partition_ok p \<Longrightarrow> wp_state p \<le> 6"
  by (auto simp: partition_ok_def IsWhpPartitionValid_def IsPartitionStateValidValue_def split: if_splits)

lemma whp_step_order:
  assumes "whp_step s t" and "whp_inv s"
  shows "wp_state (ws_partition s) \<le> wp_state (ws_partition t) \<and> wp_state (ws_partition s) \<le> 4"
proof -
  have top: "wp_state (ws_partition s) \<le> 6"
    using assms(2) partition_state_cases by (simp add: whp_inv_def)
  have four: "wp_state (ws_partition s) \<noteq> 5 \<Longrightarrow> wp_state (ws_partition s) \<noteq> 6 \<Longrightarrow> wp_state (ws_partition s) \<le> 4"
    using top by (simp add: word_le_nat_alt word_unat_eq_iff)
  from assms(1) show ?thesis
    by (cases rule: whp_step.cases) (use top four in \<open>auto simp: whp_op_defs split: if_splits option.splits\<close>)
qed

lemma whp_run_order:
  assumes "whp_step\<^sup>*\<^sup>* s t" and "whp_inv s"
  shows "wp_state (ws_partition s) \<le> wp_state (ws_partition t)"
  using assms(1)
proof (induction rule: rtranclp_induct)
  case (step y z)
  then show ?case using whp_step_order [OF step(2)] whp.star_inv [OF step(1) assms(2)] order_trans by blast
qed simp

lemma whp_final:
  assumes "whp_step\<^sup>*\<^sup>* s t" and "whp_inv s" and "5 \<le> wp_state (ws_partition s)"
  shows "t = s"
  using assms(1)
proof (cases rule: converse_rtranclpE)
  case (step y)
  then have "wp_state (ws_partition s) \<le> 4" using whp_step_order assms(2) by blast
  then have "(5::u32) \<le> 4" using assms(3) order_trans by blast
  then show ?thesis by (simp add: word_le_nat_alt)
qed simp

lemma create_partition:
  assumes "CreateWhpPartition c f k (Some q) = (WhpSuccess, Some p)"
  shows "\<exists>cf. f = Some cf \<and> IsWhpPartitionConfigValid (Some cf) \<and> k \<noteq> 0 \<and>
    p = InitializePartition\<lparr>wp_partition_id := k, wp_owner_id := wf_owner_id cf, wp_generation := wf_generation cf,
      wp_flags := wf_flags cf, wp_max_vcpus := wf_max_vcpus cf, wp_state := 1\<rparr>"
  using assms unfolding CreateWhpPartition_def Let_def by (simp split: option.splits if_splits)

lemma create_inv:
  assumes "CreateWhpPartition c f k (Some q) = (WhpSuccess, Some p)"
  shows "whp_inv \<lparr>ws_partition = p, ws_vcpus = []\<rparr>"
proof -
  obtain cf where p: "IsWhpPartitionConfigValid (Some cf)" "k \<noteq> 0"
    "p = InitializePartition\<lparr>wp_partition_id := k, wp_owner_id := wf_owner_id cf, wp_generation := wf_generation cf,
      wp_flags := wf_flags cf, wp_max_vcpus := wf_max_vcpus cf, wp_state := 1\<rparr>"
    using create_partition [OF assms] by blast
  have "IsWhpPartitionValid (Some p)"
    using p(1,2) unfolding p(3) IsWhpPartitionValid_def IsWhpPartitionConfigValid_def InitializePartition_def
      IsPartitionStateValidValue_def option.case WhpPartition.simps
    by (simp add: IsVersionedSizeValid_def not_less)
  then show ?thesis by (simp add: whp_inv_def partition_ok_def p(3) InitializePartition_def)
qed

lemma map_limit:
  assumes "partition_ok p" and "fst (MapWhpGpa (Some p) m g b) = WhpLimitExceeded"
  shows "wp_mapping_count p = 1024"
proof -
  obtain mm where m: "IsWhpMemoryMappingValid (Some mm) b" "wp_mapping_count p \<ge> 1024 \<or> wp_mapped_pages p > NOT 0 - wm_page_count mm"
    using assms(2) by (auto simp: MapWhpGpa_def split: option.splits if_splits)
  have pc: "unat (wm_page_count mm) \<le> 2 ^ 20"
    using m(1) by (auto simp: IsWhpMemoryMappingValid_def word_less_nat_alt not_less split: if_splits)
  have cnt: "unat (wp_mapping_count p) \<le> 1024" using assms(1) partition_valid_counts(1) by (simp add: partition_ok_def)
  have mp: "unat (wp_mapped_pages p) \<le> unat (wp_mapping_count p) * 2 ^ 20" using assms(1) by (simp add: partition_ok_def)
  have "wp_mapped_pages p \<le> NOT 0 - wm_page_count mm"
    using mp cnt pc by (simp add: le_max_minus_iff)
  then have "wp_mapping_count p \<ge> 1024" using m(2) by (simp add: not_less [symmetric])
  then show ?thesis using cnt by (simp add: word_le_nat_alt word_unat_eq_iff)
qed

lemma vcpu_ok_run:
  assumes "whp_inv t" and "v \<in> set (ws_vcpus t)"
  shows "IsWhpVcpuValid (Some v) \<and> wv_index v < wp_configured_vcpus (ws_partition t) \<and>
    wv_generation v = wp_generation (ws_partition t)"
  using assms by (simp add: whp_inv_def vcpu_ok_def)

text \<open>A virtual CPU leaves its first state only in a running partition, so that the partition was started before.\<close>

lemma start_vcpu_running:
  "StartWhpVcpu (Some p) v g = (WhpSuccess, w) \<Longrightarrow> wp_state p = WhpPartitionState_u32 PartitionRunning"
  by (auto simp: StartWhpVcpu_def split: option.splits if_splits)

lemma stop_vcpu_running:
  "StopWhpVcpu p (Some v) g = (WhpSuccess, w) \<Longrightarrow> wv_state v = WhpVcpuState_u32 VcpuRunning"
  by (auto simp: StopWhpVcpu_def split: option.splits if_splits)

lemma whp_step_vcpu:
  assumes "whp_step s t" and "v \<in> set (ws_vcpus t)" and "wv_state v \<noteq> WhpVcpuState_u32 VcpuCreated"
  shows "wp_state (ws_partition s) = WhpPartitionState_u32 PartitionRunning \<or>
    (\<exists>u \<in> set (ws_vcpus s). wv_state u \<noteq> WhpVcpuState_u32 VcpuCreated)"
  using assms(1)
proof (cases rule: whp_step.cases)
  case (step_create_vcpu v0 k g w)
  have "wv_state w = WhpVcpuState_u32 VcpuCreated"
    using step_create_vcpu(2) by (auto simp: CreateWhpVcpu_def split: if_splits)
  then have "v \<in> set (ws_vcpus s)" using assms(2,3) step_create_vcpu(1) by auto
  then show ?thesis using assms(3) by blast
next
  case (step_start_vcpu i g w)
  show ?thesis by (rule disjI1, rule start_vcpu_running [OF step_start_vcpu(3)])
next
  case (step_stop_vcpu i g w)
  have "wv_state (ws_vcpus s ! i) \<noteq> WhpVcpuState_u32 VcpuCreated"
    using stop_vcpu_running [OF step_stop_vcpu(3)] by simp
  then show ?thesis using nth_mem [OF step_stop_vcpu(2)] by blast
qed (use assms(2,3) in \<open>simp_all, blast+\<close>)

lemma whp_started_before:
  assumes "whp_step\<^sup>*\<^sup>* s t" and "ws_vcpus s = []"
    and "\<exists>v \<in> set (ws_vcpus t). wv_state v \<noteq> WhpVcpuState_u32 VcpuCreated"
  shows "\<exists>u. whp_step\<^sup>*\<^sup>* s u \<and> wp_state (ws_partition u) = WhpPartitionState_u32 PartitionRunning \<and> whp_step\<^sup>*\<^sup>* u t"
  using assms(1,3)
proof (induction rule: rtranclp_induct)
  case base
  then show ?case using assms(2) by simp
next
  case (step y z)
  then consider "wp_state (ws_partition y) = WhpPartitionState_u32 PartitionRunning"
    | "\<exists>u \<in> set (ws_vcpus y). wv_state u \<noteq> WhpVcpuState_u32 VcpuCreated"
    using whp_step_vcpu by blast
  then show ?case
  proof cases
    case 1
    then show ?thesis using step(1) r_into_rtranclp [of whp_step y z] step(2) by blast
  next
    case 2
    then obtain u where u: "whp_step\<^sup>*\<^sup>* s u" "wp_state (ws_partition u) = WhpPartitionState_u32 PartitionRunning" "whp_step\<^sup>*\<^sup>* u y"
      using step(3) by blast
    then show ?thesis using rtranclp.rtrancl_into_rtrancl [OF u(3) step(2)] by blast
  qed
qed

text \<open>
C37: From a partition that CreateWhpPartition made, every run of configuration, mapping, start,
drain, close, quarantine and virtual CPU operations keeps the partition valid with its identity
unchanged; mapped pages are bounded by the mapping count, so that a mapping is refused for a
limit only at 1024 mappings; virtual CPUs are valid, of the generation of the partition and
below the configured count, a virtual CPU that runs or has run implies that the partition was in
the running state before on that run, and one can be started only while the partition is
running; the number of the state never decreases, and a closed or quarantined partition never
changes again.
\<close>

theorem whp_lifecycle:
  assumes "CreateWhpPartition caps config k (Some q) = (WhpSuccess, Some p)"
    and "whp_step\<^sup>*\<^sup>* \<lparr>ws_partition = p, ws_vcpus = []\<rparr> s" and "whp_step\<^sup>*\<^sup>* s t"
  shows "IsWhpPartitionValid (Some (ws_partition t)) \<and> whp_identity t = whp_identity \<lparr>ws_partition = p, ws_vcpus = []\<rparr> \<and>
    unat (wp_mapped_pages (ws_partition t)) \<le> unat (wp_mapping_count (ws_partition t)) * 2 ^ 20 \<and>
    (\<forall>m g b. fst (MapWhpGpa (Some (ws_partition t)) m g b) = WhpLimitExceeded \<longrightarrow>
       wp_mapping_count (ws_partition t) = kWhpMaxMappings) \<and>
    (\<forall>v \<in> set (ws_vcpus t). IsWhpVcpuValid (Some v) \<and> wv_index v < wp_configured_vcpus (ws_partition t) \<and>
       wv_generation v = wp_generation (ws_partition t) \<and>
       (wv_state v \<noteq> WhpVcpuState_u32 VcpuCreated \<longrightarrow> (\<exists>u. whp_step\<^sup>*\<^sup>* \<lparr>ws_partition = p, ws_vcpus = []\<rparr> u \<and>
          wp_state (ws_partition u) = WhpPartitionState_u32 PartitionRunning \<and> whp_step\<^sup>*\<^sup>* u t))) \<and>
    (\<forall>v g. fst (StartWhpVcpu (Some (ws_partition t)) (Some v) g) = WhpSuccess \<longrightarrow>
       wp_state (ws_partition t) = WhpPartitionState_u32 PartitionRunning) \<and>
    wp_state (ws_partition s) \<le> wp_state (ws_partition t) \<and>
    (WhpPartitionState_u32 PartitionClosed \<le> wp_state (ws_partition s) \<longrightarrow> t = s)"
proof -
  note i0 = create_inv [OF assms(1)]
  note inv_s = whp.star_inv [OF assms(2) i0]
  note inv_t = whp.star_inv [OF assms(3) inv_s]
  have pok: "partition_ok (ws_partition t)" using inv_t by (simp add: whp_inv_def)
  have "IsWhpPartitionValid (Some (ws_partition t))"
    "unat (wp_mapped_pages (ws_partition t)) \<le> unat (wp_mapping_count (ws_partition t)) * 2 ^ 20"
    using pok by (simp_all add: partition_ok_def)
  moreover have "whp_identity t = whp_identity \<lparr>ws_partition = p, ws_vcpus = []\<rparr>"
    using whp.star_frame [OF rtranclp_trans [OF assms(2,3)] i0] whp_step_identity by blast
  moreover have "WhpPartitionState_u32 PartitionClosed \<le> wp_state (ws_partition s) \<longrightarrow> t = s"
    using whp_final [OF assms(3) inv_s] by simp
  moreover have "\<forall>v g. fst (StartWhpVcpu (Some (ws_partition t)) (Some v) g) = WhpSuccess \<longrightarrow>
      wp_state (ws_partition t) = WhpPartitionState_u32 PartitionRunning"
    using start_vcpu_running by (metis prod.collapse)
  moreover have "\<exists>u. whp_step\<^sup>*\<^sup>* \<lparr>ws_partition = p, ws_vcpus = []\<rparr> u \<and>
      wp_state (ws_partition u) = WhpPartitionState_u32 PartitionRunning \<and> whp_step\<^sup>*\<^sup>* u t"
    if "v \<in> set (ws_vcpus t)" "wv_state v \<noteq> WhpVcpuState_u32 VcpuCreated" for v
    using whp_started_before [OF rtranclp_trans [OF assms(2,3)]] that by auto
  ultimately show ?thesis using map_limit [OF pok] vcpu_ok_run [OF inv_t] whp_run_order [OF assms(3) inv_s] by blast
qed

text \<open>
  The step that the model leaves open: a draining partition can be closed while a virtual CPU still runs, and no
  operation ever stops that virtual CPU again.
\<close>

theorem whp_close_strands_vcpu:
  assumes "IsWhpPartitionValid (Some p)" and "wp_state p = WhpPartitionState_u32 PartitionDraining"
    and "wv_state v = WhpVcpuState_u32 VcpuRunning"
  shows "\<exists>p'. CloseWhpPartition (Some p) (wp_generation p) = (True, Some p') \<and>
    (\<forall>g. StopWhpVcpu (Some p') (Some v) g = (WhpStateConflict, Some v)) \<and>
    (\<forall>g. QuarantineWhpPartition (Some p') g = (False, Some p'))"
  using assms partition_valid_counts(4) [OF assms(1)]
  by (simp add: CloseWhpPartition_def StopWhpVcpu_def QuarantineWhpPartition_def)


section \<open>A sample partition\<close>

definition whp_sample_caps :: WhpCapabilities where
  "whp_sample_caps = \<lparr>wc_size = 56, wc_version = 1, wc_feature_flags = 3, wc_extended_exit_flags = 0, wc_api_version = 1,
     wc_physical_address_bits = 40, wc_max_vcpus = 4, wc_reserved = 0, wc_processor_clock_hz = 0, wc_generation = 7\<rparr>"

definition whp_sample_config :: WhpPartitionConfig where
  "whp_sample_config = \<lparr>wf_size = 40, wf_version = 1, wf_owner_id = 9, wf_generation = 7, wf_max_vcpus = 2,
     wf_physical_address_bits = 40, wf_flags = 2, wf_reserved = 0\<rparr>"

definition whp_sample_partition :: "u32 \<Rightarrow> u32 \<Rightarrow> WhpPartition" where
  "whp_sample_partition state n = InitializePartition\<lparr>wp_partition_id := 5, wp_owner_id := 9, wp_generation := 7,
     wp_flags := 2, wp_max_vcpus := 2, wp_state := state, wp_configured_vcpus := n\<rparr>"

definition whp_sample_vcpu :: "u32 \<Rightarrow> u64 \<Rightarrow> WhpVcpu" where
  "whp_sample_vcpu state runs = InitializeVcpu\<lparr>wv_index := 1, wv_generation := 7, wv_state := state, wv_run_count := runs\<rparr>"

lemma whp_sample_run:
  "CreateWhpPartition (Some whp_sample_caps) (Some whp_sample_config) 5 (Some InitializePartition) = (WhpSuccess, Some (whp_sample_partition 1 0))"
  "ConfigureWhpPartition (Some (whp_sample_partition 1 0)) 7 2 = (WhpSuccess, Some (whp_sample_partition 2 2))"
  "CreateWhpVcpu (Some (whp_sample_partition 2 2)) (Some InitializeVcpu) 1 7 = (WhpSuccess, Some (whp_sample_vcpu 1 0))"
  "StartWhpPartition (Some (whp_sample_partition 2 2)) 7 = (True, Some (whp_sample_partition 3 2))"
  "StartWhpVcpu (Some (whp_sample_partition 3 2)) (Some (whp_sample_vcpu 1 0)) 7 = (WhpSuccess, Some (whp_sample_vcpu 2 1))"
  "IsWhpPartitionValid (Some (whp_sample_partition 4 2))"
  by code_simp+

theorem whp_lifecycle_witness:
  "\<exists>s. whp_step\<^sup>*\<^sup>* \<lparr>ws_partition = whp_sample_partition 1 0, ws_vcpus = []\<rparr> s \<and> ws_vcpus s = [whp_sample_vcpu 2 1] \<and>
     IsWhpPartitionValid (Some (ws_partition s)) \<and> wv_state (whp_sample_vcpu 2 1) = WhpVcpuState_u32 VcpuRunning \<and>
     (\<exists>u. wp_state (ws_partition u) = WhpPartitionState_u32 PartitionRunning \<and> whp_step\<^sup>*\<^sup>* u s)"
proof -
  let ?a = "\<lparr>ws_partition = whp_sample_partition 1 0, ws_vcpus = []\<rparr>"
  let ?b = "?a\<lparr>ws_partition := whp_sample_partition 2 2\<rparr>"
  let ?c = "?b\<lparr>ws_vcpus := ws_vcpus ?b @ [whp_sample_vcpu 1 0]\<rparr>"
  let ?d = "?c\<lparr>ws_partition := whp_sample_partition 3 2\<rparr>"
  let ?e = "?d\<lparr>ws_vcpus := (ws_vcpus ?d)[0 := whp_sample_vcpu 2 1]\<rparr>"
  have "whp_step ?a ?b" by (rule step_configure [of _ 7 2]) (simp add: whp_sample_run)
  moreover have "whp_step ?b ?c" by (rule step_create_vcpu [of _ InitializeVcpu 1 7]) (simp add: whp_sample_run)
  moreover have "whp_step ?c ?d" by (rule step_start [of _ 7]) (simp add: whp_sample_run)
  moreover have "whp_step ?d ?e" by (rule step_start_vcpu [of 0 _ 7]) (simp_all add: whp_sample_run)
  ultimately have run: "whp_step\<^sup>*\<^sup>* ?a ?e" by (meson converse_rtranclp_into_rtranclp rtranclp.rtrancl_refl)
  have "wv_state (whp_sample_vcpu 2 1) = WhpVcpuState_u32 VcpuRunning" by (simp add: whp_sample_vcpu_def)
  then show ?thesis
    using run whp_lifecycle [OF whp_sample_run(1) run rtranclp.rtrancl_refl] by (intro exI [of _ ?e]) auto
qed

theorem whp_close_strands_vcpu_witness:
  "\<exists>p'. CloseWhpPartition (Some (whp_sample_partition 4 2)) 7 = (True, Some p') \<and>
     StopWhpVcpu (Some p') (Some (whp_sample_vcpu 2 1)) 7 = (WhpStateConflict, Some (whp_sample_vcpu 2 1))"
proof -
  have "wp_state (whp_sample_partition 4 2) = WhpPartitionState_u32 PartitionDraining"
    "wv_state (whp_sample_vcpu 2 1) = WhpVcpuState_u32 VcpuRunning" "wp_generation (whp_sample_partition 4 2) = 7"
    by (simp_all add: whp_sample_partition_def whp_sample_vcpu_def)
  then show ?thesis using whp_close_strands_vcpu [OF whp_sample_run(6)] by metis
qed

end
