(* ===== verification/OwnerGateModel.thy ===== *)
theory OwnerGateModel
  imports ProviderModel
begin

text \<open>
  The gate on the ownership of the virtualization hardware: the structures of
  \<^verbatim>\<open>src/src/include/knhv_owner_observation.h\<close> and the functions of
  \<^verbatim>\<open>src/src/provider/owner_observation.cpp\<close>. Evidence, owners, states and status codes that arrive
  in structures are kept as integers.
\<close>

section \<open>Constants and enumerations\<close>

abbreviation kOwnerObservationContractVersion :: u32 where "kOwnerObservationContractVersion \<equiv> 1"
abbreviation kOwnerObservationMaxStructSize :: u32 where "kOwnerObservationMaxStructSize \<equiv> 4096"
abbreviation kOwnerGateFlagEvidenceComplete :: u32 where "kOwnerGateFlagEvidenceComplete \<equiv> 1"
abbreviation kOwnerGateFlagExclusive :: u32 where "kOwnerGateFlagExclusive \<equiv> 2"
abbreviation kOwnerGateFlagFallback :: u32 where "kOwnerGateFlagFallback \<equiv> 4"
abbreviation kOwnerGateFlagConflict :: u32 where "kOwnerGateFlagConflict \<equiv> 8"
abbreviation kOwnerGateKnownFlagMask :: u32 where
  "kOwnerGateKnownFlagMask \<equiv> kOwnerGateFlagEvidenceComplete OR kOwnerGateFlagExclusive OR
     kOwnerGateFlagFallback OR kOwnerGateFlagConflict"

fun HvStatus_u32 :: "HvStatus \<Rightarrow> u32" where
  "HvStatus_u32 Success = 0"
| "HvStatus_u32 InvalidParameter = 1"
| "HvStatus_u32 UnsupportedMode = 2"
| "HvStatus_u32 CapabilityMismatch = 3"
| "HvStatus_u32 HardwareOwnerConflict = 4"
| "HvStatus_u32 NestedUnavailable = 5"
| "HvStatus_u32 VmfailInvalid = 6"
| "HvStatus_u32 VmfailValid = 7"
| "HvStatus_u32 Cancelled = 8"
| "HvStatus_u32 Timeout = 9"
| "HvStatus_u32 Quarantined = 10"
| "HvStatus_u32 LoadOnly = 11"
| "HvStatus_u32 IncompatibleProvider = 12"
| "HvStatus_u32 VirtualUnsupported = 13"
| "HvStatus_u32 ArchUnsupported = 14"
| "HvStatus_u32 BootHandoffFailed = 15"
| "HvStatus_u32 RecoveryRequired = 16"
| "HvStatus_u32 HardwareUnsupported = 17"
| "HvStatus_u32 BufferTooSmall = 18"
| "HvStatus_u32 Busy = 19"

datatype OwnerEvidenceState = EvidenceUnknown | EvidenceClear | EvidencePresent

fun OwnerEvidenceState_u32 :: "OwnerEvidenceState \<Rightarrow> u32" where
  "OwnerEvidenceState_u32 EvidenceUnknown = 0"
| "OwnerEvidenceState_u32 EvidenceClear = 1"
| "OwnerEvidenceState_u32 EvidencePresent = 2"

datatype OwnerGateAction = GateBlock | AcquireNative | UseExternalProvider | UseWhp | UseSynthetic

fun OwnerGateAction_u32 :: "OwnerGateAction \<Rightarrow> u32" where
  "OwnerGateAction_u32 GateBlock = 0"
| "OwnerGateAction_u32 AcquireNative = 1"
| "OwnerGateAction_u32 UseExternalProvider = 2"
| "OwnerGateAction_u32 UseWhp = 3"
| "OwnerGateAction_u32 UseSynthetic = 4"

datatype OwnerGateReason = GateNone | InvalidObservation | UnknownOwner | ContradictoryEvidence
  | WindowsHypervisorActive | VbsActive | HvciActive | ExternalOwnerActive | KnhvHandoffMissing
  | KnhvOwnerReady | WhpFallback | SyntheticFallback | ProviderUnavailable | GenerationMissing
  | ProviderStateInvalid

fun OwnerGateReason_u32 :: "OwnerGateReason \<Rightarrow> u32" where
  "OwnerGateReason_u32 GateNone = 0"
| "OwnerGateReason_u32 InvalidObservation = 1"
| "OwnerGateReason_u32 UnknownOwner = 2"
| "OwnerGateReason_u32 ContradictoryEvidence = 3"
| "OwnerGateReason_u32 WindowsHypervisorActive = 4"
| "OwnerGateReason_u32 VbsActive = 5"
| "OwnerGateReason_u32 HvciActive = 6"
| "OwnerGateReason_u32 ExternalOwnerActive = 7"
| "OwnerGateReason_u32 KnhvHandoffMissing = 8"
| "OwnerGateReason_u32 KnhvOwnerReady = 9"
| "OwnerGateReason_u32 WhpFallback = 10"
| "OwnerGateReason_u32 SyntheticFallback = 11"
| "OwnerGateReason_u32 ProviderUnavailable = 12"
| "OwnerGateReason_u32 GenerationMissing = 13"
| "OwnerGateReason_u32 ProviderStateInvalid = 14"

record OwnerObservation =
  oo_size :: u32
  oo_version :: u32
  oo_cpuid_hypervisor :: u32
  oo_windows_hypervisor :: u32
  oo_vbs :: u32
  oo_hvci :: u32
  oo_whp_available :: u32
  oo_provider_device :: u32
  oo_boot_handoff :: u32
  oo_provider_owner :: u32
  oo_provider_state :: u32
  oo_reserved :: u32
  oo_generation :: u64

record OwnerGateResult =
  og_size :: u32
  og_version :: u32
  og_action :: u32
  og_reason :: u32
  og_status :: u32
  og_owner :: u32
  og_flags :: u32
  og_reserved :: u32
  og_generation :: u64

section \<open>Helpers\<close>

abbreviation owner_versioned :: "u32 \<Rightarrow> u32 \<Rightarrow> u32 \<Rightarrow> bool" where
  "owner_versioned \<equiv> IsVersionedSizeValid kOwnerObservationContractVersion kOwnerObservationMaxStructSize"

definition IsEvidenceStateValid :: "u32 \<Rightarrow> bool" where
  "IsEvidenceStateValid value \<longleftrightarrow> value \<le> OwnerEvidenceState_u32 EvidencePresent"

definition OwnerIsOwnerKindValid :: "u32 \<Rightarrow> bool" where
  "OwnerIsOwnerKindValid value \<longleftrightarrow> value \<le> HvOwnerKindV2_u32 OwnerSyntheticLab"

definition OwnerIsProviderStateValid :: "u32 \<Rightarrow> bool" where
  "OwnerIsProviderStateValid value \<longleftrightarrow> value \<le> HvProviderStateV2_u32 StateQuarantined"

definition OwnerIsStatusValid :: "u32 \<Rightarrow> bool" where
  "OwnerIsStatusValid status \<longleftrightarrow> status \<le> HvStatus_u32 Busy"

definition OwnerIsActionValid :: "u32 \<Rightarrow> bool" where
  "OwnerIsActionValid value \<longleftrightarrow> value \<le> OwnerGateAction_u32 UseSynthetic"

definition OwnerIsReasonValid :: "u32 \<Rightarrow> bool" where
  "OwnerIsReasonValid value \<longleftrightarrow> value \<le> OwnerGateReason_u32 ProviderStateInvalid"

definition IsPresent :: "OwnerObservation \<Rightarrow> (OwnerObservation \<Rightarrow> u32) \<Rightarrow> bool" where
  "IsPresent observation member_ptr \<longleftrightarrow> member_ptr observation = OwnerEvidenceState_u32 EvidencePresent"

definition IsClear :: "OwnerObservation \<Rightarrow> (OwnerObservation \<Rightarrow> u32) \<Rightarrow> bool" where
  "IsClear observation member_ptr \<longleftrightarrow> member_ptr observation = OwnerEvidenceState_u32 EvidenceClear"

definition HasNativeEvidence :: "OwnerObservation \<Rightarrow> bool" where
  "HasNativeEvidence observation \<longleftrightarrow> IsClear observation oo_cpuid_hypervisor \<and>
     IsClear observation oo_windows_hypervisor \<and> IsClear observation oo_vbs \<and> IsClear observation oo_hvci \<and>
     IsPresent observation oo_provider_device \<and> IsPresent observation oo_boot_handoff"

definition IsNativeOwner :: "OwnerObservation \<Rightarrow> bool" where
  "IsNativeOwner observation \<longleftrightarrow> oo_provider_owner observation = HvOwnerKindV2_u32 OwnerKnhvBootL0"

definition IsExternalOwner :: "OwnerObservation \<Rightarrow> bool" where
  "IsExternalOwner observation \<longleftrightarrow> oo_provider_owner observation = HvOwnerKindV2_u32 OwnerExternalL0"

definition IsWhpOwner :: "OwnerObservation \<Rightarrow> bool" where
  "IsWhpOwner observation \<longleftrightarrow> oo_provider_owner observation = HvOwnerKindV2_u32 OwnerWhpManaged"

definition IsSyntheticOwner :: "OwnerObservation \<Rightarrow> bool" where
  "IsSyntheticOwner observation \<longleftrightarrow> oo_provider_owner observation = HvOwnerKindV2_u32 OwnerSyntheticLab"

definition IsAvailableOrActive :: "OwnerObservation \<Rightarrow> bool" where
  "IsAvailableOrActive observation \<longleftrightarrow>
     oo_provider_state observation = HvProviderStateV2_u32 StateAvailable \<or>
     oo_provider_state observation = HvProviderStateV2_u32 StateActive"

definition HasContradictoryEvidence :: "OwnerObservation \<Rightarrow> bool" where
  "HasContradictoryEvidence observation =
     (if IsPresent observation oo_boot_handoff \<and> \<not> IsNativeOwner observation then True
      else if IsNativeOwner observation \<and>
              (IsPresent observation oo_cpuid_hypervisor \<or> IsPresent observation oo_windows_hypervisor \<or>
               oo_provider_state observation = HvProviderStateV2_u32 StateConflict \<or>
               oo_provider_state observation = HvProviderStateV2_u32 StateQuarantined) then True
      else IsExternalOwner observation \<and>
           oo_provider_state observation \<noteq> HvProviderStateV2_u32 StateConflict \<and>
           oo_provider_state observation \<noteq> HvProviderStateV2_u32 StateActive)"

definition OwnerInitializeResult :: OwnerGateResult where
  "OwnerInitializeResult = \<lparr>og_size = 40, og_version = kOwnerObservationContractVersion,
     og_action = OwnerGateAction_u32 GateBlock, og_reason = OwnerGateReason_u32 InvalidObservation,
     og_status = HvStatus_u32 InvalidParameter, og_owner = 0, og_flags = 0, og_reserved = 0,
     og_generation = 0\<rparr>"

definition OwnerSetResult ::
  "OwnerGateResult \<Rightarrow> OwnerGateAction \<Rightarrow> OwnerGateReason \<Rightarrow> HvStatus \<Rightarrow> u32 \<Rightarrow> u32 \<Rightarrow> u64 \<Rightarrow> OwnerGateResult" where
  "OwnerSetResult result action reason status owner flags generation =
     result\<lparr>og_action := OwnerGateAction_u32 action, og_reason := OwnerGateReason_u32 reason,
       og_status := HvStatus_u32 status, og_owner := owner, og_flags := flags,
       og_generation := generation\<rparr>"

definition IsBlockedResultConsistent :: "OwnerGateResult \<Rightarrow> bool" where
  "IsBlockedResultConsistent result \<longleftrightarrow> og_action result = OwnerGateAction_u32 GateBlock \<and>
     og_status result \<noteq> HvStatus_u32 Success \<and> og_reason result \<noteq> OwnerGateReason_u32 GateNone \<and>
     og_flags result AND (kOwnerGateFlagExclusive OR kOwnerGateFlagFallback) = 0"

section \<open>The gate\<close>

definition IsOwnerObservationValid :: "OwnerObservation option \<Rightarrow> bool" where
  "IsOwnerObservationValid observation = (case observation of None \<Rightarrow> False | Some ob \<Rightarrow>
     if \<not> owner_versioned (oo_version ob) (oo_size ob) 56 \<or>
        \<not> IsEvidenceStateValid (oo_cpuid_hypervisor ob) \<or> \<not> IsEvidenceStateValid (oo_windows_hypervisor ob) \<or>
        \<not> IsEvidenceStateValid (oo_vbs ob) \<or> \<not> IsEvidenceStateValid (oo_hvci ob) \<or>
        \<not> IsEvidenceStateValid (oo_whp_available ob) \<or> \<not> IsEvidenceStateValid (oo_provider_device ob) \<or>
        \<not> IsEvidenceStateValid (oo_boot_handoff ob) \<or> \<not> OwnerIsOwnerKindValid (oo_provider_owner ob) \<or>
        \<not> OwnerIsProviderStateValid (oo_provider_state ob) \<or> oo_reserved ob \<noteq> 0
     then False
     else let provider_known = (oo_provider_owner ob \<noteq> HvOwnerKindV2_u32 OwnerUnknown \<or>
                                oo_provider_state ob \<noteq> HvProviderStateV2_u32 StateUnknown)
          in if provider_known \<and> oo_provider_device ob \<noteq> OwnerEvidenceState_u32 EvidencePresent then False
             else oo_provider_state ob \<noteq> HvProviderStateV2_u32 StateActive \<or>
                  oo_provider_owner ob \<noteq> HvOwnerKindV2_u32 OwnerUnknown \<and> oo_generation ob \<noteq> 0)"

definition native_gate :: "OwnerObservation \<Rightarrow> OwnerGateAction \<times> OwnerGateReason \<times> HvStatus \<times> u32" where
  "native_gate input =
     (if \<not> IsPresent input oo_provider_device then (GateBlock, ProviderUnavailable, NestedUnavailable, 0)
      else if oo_generation input = 0 then (GateBlock, GenerationMissing, BootHandoffFailed, 0)
      else if \<not> IsPresent input oo_boot_handoff then (GateBlock, KnhvHandoffMissing, BootHandoffFailed, 0)
      else if oo_provider_state input \<noteq> HvProviderStateV2_u32 StateActive
      then (GateBlock, ProviderStateInvalid, BootHandoffFailed, 0)
      else if IsPresent input oo_vbs then (GateBlock, VbsActive, HardwareOwnerConflict, kOwnerGateFlagConflict)
      else if IsPresent input oo_hvci then (GateBlock, HvciActive, HardwareOwnerConflict, kOwnerGateFlagConflict)
      else if \<not> HasNativeEvidence input then (GateBlock, UnknownOwner, NestedUnavailable, 0)
      else (AcquireNative, KnhvOwnerReady, Success, kOwnerGateFlagEvidenceComplete OR kOwnerGateFlagExclusive))"

definition unowned_gate :: "OwnerObservation \<Rightarrow> OwnerGateAction \<times> OwnerGateReason \<times> HvStatus \<times> u32" where
  "unowned_gate input =
     (if IsPresent input oo_vbs then (GateBlock, VbsActive, HardwareOwnerConflict, kOwnerGateFlagConflict)
      else if IsPresent input oo_hvci then (GateBlock, HvciActive, HardwareOwnerConflict, kOwnerGateFlagConflict)
      else if IsPresent input oo_windows_hypervisor
      then (GateBlock, WindowsHypervisorActive, HardwareOwnerConflict, kOwnerGateFlagConflict)
      else if IsPresent input oo_cpuid_hypervisor
      then (GateBlock, ExternalOwnerActive, HardwareOwnerConflict, kOwnerGateFlagConflict)
      else if \<not> IsPresent input oo_provider_device then (GateBlock, ProviderUnavailable, NestedUnavailable, 0)
      else (GateBlock, UnknownOwner, NestedUnavailable, 0))"

definition owner_gate :: "OwnerObservation \<Rightarrow> OwnerGateAction \<times> OwnerGateReason \<times> HvStatus \<times> u32" where
  "owner_gate input =
     (if HasContradictoryEvidence input
      then (GateBlock, ContradictoryEvidence, HardwareOwnerConflict, kOwnerGateFlagConflict)
      else if IsNativeOwner input then native_gate input
      else if IsExternalOwner input
      then if oo_generation input = 0 then (GateBlock, GenerationMissing, IncompatibleProvider, 0)
           else (UseExternalProvider, ExternalOwnerActive, IncompatibleProvider,
                 kOwnerGateFlagFallback OR kOwnerGateFlagConflict)
      else if IsWhpOwner input
      then if oo_generation input = 0 then (GateBlock, GenerationMissing, NestedUnavailable, 0)
           else if \<not> IsAvailableOrActive input \<or> \<not> IsPresent input oo_whp_available
           then (GateBlock, ProviderUnavailable, NestedUnavailable, 0)
           else (UseWhp, WhpFallback, Success, kOwnerGateFlagFallback)
      else if IsSyntheticOwner input
      then if oo_generation input = 0 \<or> \<not> IsAvailableOrActive input
           then (GateBlock, ProviderStateInvalid, NestedUnavailable, 0)
           else (UseSynthetic, SyntheticFallback, Success, kOwnerGateFlagFallback)
      else unowned_gate input)"

definition EvaluateOwnerGate ::
  "OwnerObservation option \<Rightarrow> OwnerGateResult option \<Rightarrow> bool \<times> OwnerGateResult option" where
  "EvaluateOwnerGate observation result = (case result of None \<Rightarrow> (False, None) | Some _ \<Rightarrow>
     (case observation of None \<Rightarrow> (False, Some OwnerInitializeResult) | Some input \<Rightarrow>
       if \<not> IsOwnerObservationValid (Some input) then (False, Some OwnerInitializeResult)
       else case owner_gate input of (action, reason, status, flags) \<Rightarrow>
              (True, Some (OwnerSetResult (OwnerInitializeResult\<lparr>og_owner := oo_provider_owner input,
                 og_generation := oo_generation input\<rparr>) action reason status (oo_provider_owner input) flags
                 (oo_generation input)))))"

definition IsOwnerGateResultValid :: "OwnerGateResult option \<Rightarrow> bool" where
  "IsOwnerGateResultValid result = (case result of None \<Rightarrow> False | Some r \<Rightarrow>
     if \<not> owner_versioned (og_version r) (og_size r) 40 \<or> \<not> OwnerIsActionValid (og_action r) \<or>
        \<not> OwnerIsReasonValid (og_reason r) \<or> \<not> OwnerIsStatusValid (og_status r) \<or>
        \<not> OwnerIsOwnerKindValid (og_owner r) \<or> og_flags r AND NOT kOwnerGateKnownFlagMask \<noteq> 0 \<or>
        og_reserved r \<noteq> 0
     then False
     else if og_action r = OwnerGateAction_u32 AcquireNative
     then og_status r = HvStatus_u32 Success \<and> og_reason r = OwnerGateReason_u32 KnhvOwnerReady \<and>
          og_owner r = HvOwnerKindV2_u32 OwnerKnhvBootL0 \<and> og_generation r \<noteq> 0 \<and>
          og_flags r = kOwnerGateFlagEvidenceComplete OR kOwnerGateFlagExclusive
     else if og_action r = OwnerGateAction_u32 UseExternalProvider
     then og_status r = HvStatus_u32 IncompatibleProvider \<and>
          og_reason r = OwnerGateReason_u32 ExternalOwnerActive \<and>
          og_owner r = HvOwnerKindV2_u32 OwnerExternalL0 \<and> og_generation r \<noteq> 0 \<and>
          og_flags r = kOwnerGateFlagFallback OR kOwnerGateFlagConflict
     else if og_action r = OwnerGateAction_u32 UseWhp
     then og_status r = HvStatus_u32 Success \<and> og_reason r = OwnerGateReason_u32 WhpFallback \<and>
          og_owner r = HvOwnerKindV2_u32 OwnerWhpManaged \<and> og_generation r \<noteq> 0 \<and>
          og_flags r = kOwnerGateFlagFallback
     else if og_action r = OwnerGateAction_u32 UseSynthetic
     then og_status r = HvStatus_u32 Success \<and> og_reason r = OwnerGateReason_u32 SyntheticFallback \<and>
          og_owner r = HvOwnerKindV2_u32 OwnerSyntheticLab \<and> og_generation r \<noteq> 0 \<and>
          og_flags r = kOwnerGateFlagFallback
     else IsBlockedResultConsistent r)"

section \<open>Texts\<close>

text \<open>
  The texts of the enumerations: a table and the text of every other value that the cast of an
  integer can give.
\<close>

definition text_of :: "(u32 \<times> string) list \<Rightarrow> string \<Rightarrow> u32 \<Rightarrow> string" where
  "text_of table other e = (case map_of table e of Some t \<Rightarrow> t | None \<Rightarrow> other)"

lemma text_of_inj:
  assumes "distinct (map fst table)" and "distinct (other # map snd table)"
    and "x \<in> fst ` set table" and "text_of table other x = text_of table other y"
  shows "x = y"
proof -
  obtain t where t: "(x, t) \<in> set table" using assms(3) by auto
  then have x: "text_of table other x = t" using assms(1) by (simp add: text_of_def)
  show ?thesis
  proof (cases "map_of table y")
    case None
    then show ?thesis using x t assms(2,4) by (force simp: text_of_def)
  next
    case (Some u)
    then have "(y, t) \<in> set table" using x assms(4) by (simp add: text_of_def map_of_SomeD)
    moreover have "inj_on snd (set table)" using assms(2) by (simp add: distinct_map)
    ultimately show ?thesis using t inj_onD [of snd "set table" "(x, t)" "(y, t)"] by simp
  qed
qed

definition OwnerGateActionText :: "u32 \<Rightarrow> string" where
  "OwnerGateActionText = text_of
    [(OwnerGateAction_u32 GateBlock, ''block''),
     (OwnerGateAction_u32 AcquireNative, ''acquire-native''),
     (OwnerGateAction_u32 UseExternalProvider, ''use-external-provider''),
     (OwnerGateAction_u32 UseWhp, ''use-whp''),
     (OwnerGateAction_u32 UseSynthetic, ''use-synthetic'')]
    ''invalid''"

definition OwnerGateReasonText :: "u32 \<Rightarrow> string" where
  "OwnerGateReasonText = text_of
    [(OwnerGateReason_u32 GateNone, ''none''),
     (OwnerGateReason_u32 InvalidObservation, ''invalid-observation''),
     (OwnerGateReason_u32 UnknownOwner, ''unknown-owner''),
     (OwnerGateReason_u32 ContradictoryEvidence, ''contradictory-evidence''),
     (OwnerGateReason_u32 WindowsHypervisorActive, ''windows-hypervisor-active''),
     (OwnerGateReason_u32 VbsActive, ''vbs-active''),
     (OwnerGateReason_u32 HvciActive, ''hvci-active''),
     (OwnerGateReason_u32 ExternalOwnerActive, ''external-owner-active''),
     (OwnerGateReason_u32 KnhvHandoffMissing, ''knhv-handoff-missing''),
     (OwnerGateReason_u32 KnhvOwnerReady, ''knhv-owner-ready''),
     (OwnerGateReason_u32 WhpFallback, ''whp-fallback''),
     (OwnerGateReason_u32 SyntheticFallback, ''synthetic-fallback''),
     (OwnerGateReason_u32 ProviderUnavailable, ''provider-unavailable''),
     (OwnerGateReason_u32 GenerationMissing, ''generation-missing''),
     (OwnerGateReason_u32 ProviderStateInvalid, ''provider-state-invalid'')]
    ''invalid''"

definition OwnerKindText :: "u32 \<Rightarrow> string" where
  "OwnerKindText = text_of
    [(HvOwnerKindV2_u32 OwnerUnknown, ''unknown''),
     (HvOwnerKindV2_u32 OwnerExternalL0, ''external-l0''),
     (HvOwnerKindV2_u32 OwnerKnhvBootL0, ''knhv-boot-l0''),
     (HvOwnerKindV2_u32 OwnerWhpManaged, ''whp-managed''),
     (HvOwnerKindV2_u32 OwnerSyntheticLab, ''synthetic-lab'')]
    ''invalid''"

lemma OwnerGateReasonText_inj:
  assumes "OwnerGateReasonText (OwnerGateReason_u32 a) = OwnerGateReasonText (OwnerGateReason_u32 b)"
  shows "a = b"
proof -
  have "OwnerGateReason_u32 a = OwnerGateReason_u32 b"
    by (rule text_of_inj [OF _ _ _ assms [unfolded OwnerGateReasonText_def]]) (simp, simp, (cases a; simp))
  then show ?thesis by (cases a; cases b; simp)
qed

section \<open>What the gate decides\<close>

text \<open>
  The evidence that each action needs: the hardware is acquired only with a verified hand-over and
  every sign of another hypervisor ruled out, not merely unobserved.
\<close>

definition native_ready :: "OwnerObservation \<Rightarrow> bool" where
  "native_ready ob \<longleftrightarrow> oo_provider_owner ob = HvOwnerKindV2_u32 OwnerKnhvBootL0 \<and>
     oo_provider_state ob = HvProviderStateV2_u32 StateActive \<and> oo_generation ob \<noteq> 0 \<and>
     oo_provider_device ob = OwnerEvidenceState_u32 EvidencePresent \<and>
     oo_boot_handoff ob = OwnerEvidenceState_u32 EvidencePresent \<and>
     (\<forall>evidence \<in> {oo_cpuid_hypervisor, oo_windows_hypervisor, oo_vbs, oo_hvci}.
        evidence ob = OwnerEvidenceState_u32 EvidenceClear)"

definition fallback_ready :: "OwnerObservation \<Rightarrow> HvOwnerKindV2 \<Rightarrow> HvProviderStateV2 set \<Rightarrow> bool" where
  "fallback_ready ob owner states \<longleftrightarrow> oo_provider_owner ob = HvOwnerKindV2_u32 owner \<and>
     oo_provider_state ob \<in> HvProviderStateV2_u32 ` states \<and> oo_generation ob \<noteq> 0 \<and>
     oo_boot_handoff ob \<noteq> OwnerEvidenceState_u32 EvidencePresent"

lemmas owner_gate_defs = owner_gate_def native_gate_def unowned_gate_def HasContradictoryEvidence_def
  HasNativeEvidence_def IsPresent_def IsClear_def IsNativeOwner_def IsExternalOwner_def IsWhpOwner_def
  IsSyntheticOwner_def IsAvailableOrActive_def

lemma gate_native_iff: "fst (owner_gate ob) = AcquireNative \<longleftrightarrow> native_ready ob"
  by (simp add: owner_gate_defs native_ready_def)

lemma gate_external_iff:
  "fst (owner_gate ob) = UseExternalProvider \<longleftrightarrow> fallback_ready ob OwnerExternalL0 {StateActive, StateConflict}"
  by (simp add: owner_gate_defs fallback_ready_def)

lemma gate_whp_iff:
  "fst (owner_gate ob) = UseWhp \<longleftrightarrow> fallback_ready ob OwnerWhpManaged {StateAvailable, StateActive} \<and>
     oo_whp_available ob = OwnerEvidenceState_u32 EvidencePresent"
  by (simp add: owner_gate_defs fallback_ready_def)

lemma gate_synthetic_iff:
  "fst (owner_gate ob) = UseSynthetic \<longleftrightarrow> fallback_ready ob OwnerSyntheticLab {StateAvailable, StateActive}"
  by (simp add: owner_gate_defs fallback_ready_def)

text \<open>The status, reason and flags that go with an action.\<close>

definition gate_consistent :: "OwnerObservation \<Rightarrow> OwnerGateAction \<times> OwnerGateReason \<times> HvStatus \<times> u32 \<Rightarrow> bool" where
  "gate_consistent ob g = (case g of
     (AcquireNative, reason, status, flags) \<Rightarrow> reason = KnhvOwnerReady \<and> status = Success \<and> flags = 3 \<and>
        oo_provider_owner ob = 2 \<and> oo_generation ob \<noteq> 0
   | (UseExternalProvider, reason, status, flags) \<Rightarrow> reason = ExternalOwnerActive \<and>
        status = IncompatibleProvider \<and> flags = 12 \<and> oo_provider_owner ob = 1 \<and> oo_generation ob \<noteq> 0
   | (UseWhp, reason, status, flags) \<Rightarrow> reason = WhpFallback \<and> status = Success \<and> flags = 4 \<and>
        oo_provider_owner ob = 3 \<and> oo_generation ob \<noteq> 0
   | (UseSynthetic, reason, status, flags) \<Rightarrow> reason = SyntheticFallback \<and> status = Success \<and> flags = 4 \<and>
        oo_provider_owner ob = 4 \<and> oo_generation ob \<noteq> 0
   | (GateBlock, reason, status, flags) \<Rightarrow> reason \<noteq> GateNone \<and> status \<noteq> Success \<and> (flags = 0 \<or> flags = 8))"

lemma owner_gate_consistent: "gate_consistent ob (owner_gate ob)"
  unfolding owner_gate_defs gate_consistent_def by simp

lemma enum_bounds:
  "HvStatus_u32 st \<le> 19" "OwnerGateReason_u32 r \<le> 14" "OwnerGateAction_u32 a \<le> 4"
  "HvStatus_u32 st = 0 \<longleftrightarrow> st = Success" "OwnerGateReason_u32 r = 0 \<longleftrightarrow> r = GateNone"
proof -
  show "HvStatus_u32 st \<le> 19" "HvStatus_u32 st = 0 \<longleftrightarrow> st = Success" by (cases st; simp)+
  show "OwnerGateReason_u32 r \<le> 14" "OwnerGateReason_u32 r = 0 \<longleftrightarrow> r = GateNone" by (cases r; simp)+
  show "OwnerGateAction_u32 a \<le> 4" by (cases a; simp)
qed

lemma gate_result_valid:
  assumes "gate_consistent ob (a, r, st, f)" and "oo_provider_owner ob \<le> 4"
  shows "IsOwnerGateResultValid (Some (OwnerSetResult (OwnerInitializeResult\<lparr>og_owner := oo_provider_owner ob,
     og_generation := oo_generation ob\<rparr>) a r st (oo_provider_owner ob) f (oo_generation ob)))"
  using assms enum_bounds
  by (cases a) (auto simp: gate_consistent_def IsOwnerGateResultValid_def OwnerSetResult_def OwnerInitializeResult_def
      IsVersionedSizeValid_def OwnerIsActionValid_def OwnerIsReasonValid_def OwnerIsStatusValid_def
      OwnerIsOwnerKindValid_def IsBlockedResultConsistent_def)

text \<open>
C38: The owner gate decides every valid observation with a result that passes its own validity
test: the hardware is acquired exactly when the boot provider is active, its hand-over is
present and every sign of another hypervisor is observed to be absent, not merely unobserved; an
external provider, WHP or the synthetic lab is used exactly when the observation names it as the
owner with consistent evidence, a generation and a usable state; only acquisition, WHP and
synthetic report success.
\<close>

theorem owner_gate_exact:
  assumes "IsOwnerObservationValid (Some ob)"
  shows "\<exists>r. EvaluateOwnerGate (Some ob) (Some r0) = (True, Some r) \<and> IsOwnerGateResultValid (Some r) \<and>
    og_owner r = oo_provider_owner ob \<and> og_generation r = oo_generation ob \<and>
    (og_action r = OwnerGateAction_u32 AcquireNative \<longleftrightarrow> native_ready ob) \<and>
    (og_action r = OwnerGateAction_u32 UseExternalProvider \<longleftrightarrow>
       fallback_ready ob OwnerExternalL0 {StateActive, StateConflict}) \<and>
    (og_action r = OwnerGateAction_u32 UseWhp \<longleftrightarrow>
       fallback_ready ob OwnerWhpManaged {StateAvailable, StateActive} \<and>
       oo_whp_available ob = OwnerEvidenceState_u32 EvidencePresent) \<and>
    (og_action r = OwnerGateAction_u32 UseSynthetic \<longleftrightarrow>
       fallback_ready ob OwnerSyntheticLab {StateAvailable, StateActive}) \<and>
    (og_status r = HvStatus_u32 Success \<longleftrightarrow> og_action r \<in> OwnerGateAction_u32 ` {AcquireNative, UseWhp, UseSynthetic})"
proof -
  obtain a rs st f where g: "owner_gate ob = (a, rs, st, f)" by (cases "owner_gate ob") auto
  have c: "gate_consistent ob (a, rs, st, f)" using owner_gate_consistent [of ob] g by simp
  have own: "oo_provider_owner ob \<le> 4"
    using assms by (auto simp: IsOwnerObservationValid_def OwnerIsOwnerKindValid_def split: if_splits)
  have act: "OwnerGateAction_u32 a = OwnerGateAction_u32 b \<longleftrightarrow> a = b" for b by (cases a; cases b) simp_all
  have "st = Success \<longleftrightarrow> a \<in> {AcquireNative, UseWhp, UseSynthetic}"
    using c by (cases a) (auto simp: gate_consistent_def)
  then have st: "HvStatus_u32 st = HvStatus_u32 Success \<longleftrightarrow>
      OwnerGateAction_u32 a \<in> OwnerGateAction_u32 ` {AcquireNative, UseWhp, UseSynthetic}"
    using enum_bounds(4) [of st] act by (simp only: HvStatus_u32.simps image_iff insert_iff empty_iff) blast
  let ?r = "OwnerSetResult (OwnerInitializeResult\<lparr>og_owner := oo_provider_owner ob,
     og_generation := oo_generation ob\<rparr>) a rs st (oo_provider_owner ob) f (oo_generation ob)"
  have sel: "og_action ?r = OwnerGateAction_u32 a" "og_status ?r = HvStatus_u32 st" "og_owner ?r = oo_provider_owner ob"
    "og_generation ?r = oo_generation ob"
    by (simp_all add: OwnerSetResult_def)
  have ev: "EvaluateOwnerGate (Some ob) (Some r0) = (True, Some ?r)"
    using assms by (simp add: EvaluateOwnerGate_def g)
  have acts: "a = AcquireNative \<longleftrightarrow> native_ready ob"
    "a = UseExternalProvider \<longleftrightarrow> fallback_ready ob OwnerExternalL0 {StateActive, StateConflict}"
    "a = UseWhp \<longleftrightarrow> fallback_ready ob OwnerWhpManaged {StateAvailable, StateActive} \<and>
       oo_whp_available ob = OwnerEvidenceState_u32 EvidencePresent"
    "a = UseSynthetic \<longleftrightarrow> fallback_ready ob OwnerSyntheticLab {StateAvailable, StateActive}"
    using gate_native_iff [of ob] gate_external_iff [of ob] gate_whp_iff [of ob] gate_synthetic_iff [of ob]
    unfolding g fst_conv .
  show ?thesis
    by (rule exI [of _ ?r], unfold sel act acts, intro conjI ev gate_result_valid [OF c own] st refl)
qed

definition sample_observation :: OwnerObservation where
  "sample_observation = \<lparr>oo_size = 56, oo_version = 1, oo_cpuid_hypervisor = 1, oo_windows_hypervisor = 1, oo_vbs = 1,
     oo_hvci = 1, oo_whp_available = 0, oo_provider_device = 2, oo_boot_handoff = 2, oo_provider_owner = 2,
     oo_provider_state = 2, oo_reserved = 0, oo_generation = 5\<rparr>"

theorem owner_gate_exact_witness:
  "\<exists>r. EvaluateOwnerGate (Some sample_observation) (Some OwnerInitializeResult) = (True, Some r) \<and>
     og_action r = OwnerGateAction_u32 AcquireNative"
proof -
  have "IsOwnerObservationValid (Some sample_observation)" "native_ready sample_observation"
    by (simp_all add: sample_observation_def IsOwnerObservationValid_def IsVersionedSizeValid_def IsEvidenceStateValid_def
        OwnerIsOwnerKindValid_def OwnerIsProviderStateValid_def native_ready_def)
  then show ?thesis using owner_gate_exact by blast
qed

end
