(* ===== verification/EvidenceModel.thy ===== *)
theory EvidenceModel
  imports OwnerGateModel
begin

text \<open>
  Evidence of a target machine: the manifest and the release gate of
  \<^verbatim>\<open>src/src/validation/target_evidence.cpp\<close>, with the structures of
  \<^verbatim>\<open>src/src/include/knhv_target_evidence.h\<close>.
\<close>

section \<open>Constants and enumerations\<close>

abbreviation kTargetEvidenceContractVersion :: u32 where "kTargetEvidenceContractVersion \<equiv> 1"
abbreviation kTargetEvidenceMaxStructSize :: u32 where "kTargetEvidenceMaxStructSize \<equiv> 4096"
abbreviation kTargetEvidenceMaxProcessors :: u32 where "kTargetEvidenceMaxProcessors \<equiv> 4096"
abbreviation kTargetEvidenceMaxArtifacts :: u32 where "kTargetEvidenceMaxArtifacts \<equiv> 65535"
abbreviation kTargetEvidenceFlagSourceClean :: u32 where "kTargetEvidenceFlagSourceClean \<equiv> 1"
abbreviation kTargetEvidenceFlagArtifactsVerified :: u32 where "kTargetEvidenceFlagArtifactsVerified \<equiv> 2"
abbreviation kTargetEvidenceFlagSignatureVerified :: u32 where "kTargetEvidenceFlagSignatureVerified \<equiv> 4"
abbreviation kTargetEvidenceFlagPdbMatched :: u32 where "kTargetEvidenceFlagPdbMatched \<equiv> 8"
abbreviation kTargetEvidenceFlagCapabilityComplete :: u32 where "kTargetEvidenceFlagCapabilityComplete \<equiv> 16"
abbreviation kTargetEvidenceFlagOwnerVerified :: u32 where "kTargetEvidenceFlagOwnerVerified \<equiv> 32"
abbreviation kTargetEvidenceFlagTimeSynchronized :: u32 where "kTargetEvidenceFlagTimeSynchronized \<equiv> 64"
abbreviation kTargetEvidenceFlagTelemetryComplete :: u32 where "kTargetEvidenceFlagTelemetryComplete \<equiv> 128"
abbreviation kTargetEvidenceFlagRecoveryReady :: u32 where "kTargetEvidenceFlagRecoveryReady \<equiv> 256"
abbreviation kTargetEvidenceFlagNoCriticalFaults :: u32 where "kTargetEvidenceFlagNoCriticalFaults \<equiv> 512"
abbreviation kTargetEvidenceFlagHardwareTarget :: u32 where "kTargetEvidenceFlagHardwareTarget \<equiv> 1024"
abbreviation kTargetEvidenceFlagKdConnected :: u32 where "kTargetEvidenceFlagKdConnected \<equiv> 2048"
abbreviation kTargetEvidenceFlagDeviceProfilesVerified :: u32 where
  "kTargetEvidenceFlagDeviceProfilesVerified \<equiv> 4096"
abbreviation kTargetEvidenceFlagPerformanceComparable :: u32 where
  "kTargetEvidenceFlagPerformanceComparable \<equiv> 8192"
abbreviation kTargetEvidenceFlagWarningsClear :: u32 where "kTargetEvidenceFlagWarningsClear \<equiv> 16384"
abbreviation kTargetEvidenceKnownFlagMask :: u32 where "kTargetEvidenceKnownFlagMask \<equiv> 32767"

datatype TargetEvidenceProfile = ProfileUnknown | NativeIntelL0 | ProfileWhpManaged | ProfileExternalL0
  | ProfileSyntheticLab

fun TargetEvidenceProfile_u32 :: "TargetEvidenceProfile \<Rightarrow> u32" where
  "TargetEvidenceProfile_u32 ProfileUnknown = 0"
| "TargetEvidenceProfile_u32 NativeIntelL0 = 1"
| "TargetEvidenceProfile_u32 ProfileWhpManaged = 2"
| "TargetEvidenceProfile_u32 ProfileExternalL0 = 3"
| "TargetEvidenceProfile_u32 ProfileSyntheticLab = 4"

datatype TargetEvidenceStage = Inventory | Preflight | Capability | Boot | Nested | Device | Performance
  | Reliability | Release

fun TargetEvidenceStage_u32 :: "TargetEvidenceStage \<Rightarrow> u32" where
  "TargetEvidenceStage_u32 Inventory = 0"
| "TargetEvidenceStage_u32 Preflight = 1"
| "TargetEvidenceStage_u32 Capability = 2"
| "TargetEvidenceStage_u32 Boot = 3"
| "TargetEvidenceStage_u32 Nested = 4"
| "TargetEvidenceStage_u32 Device = 5"
| "TargetEvidenceStage_u32 Performance = 6"
| "TargetEvidenceStage_u32 Reliability = 7"
| "TargetEvidenceStage_u32 Release = 8"

datatype TargetEvidenceVerdict = NotStarted | VerdictReady | VerdictRunning | Pass | Fail | VerdictBlocked
  | NotRun | RolledBack | NotComparable

fun TargetEvidenceVerdict_u32 :: "TargetEvidenceVerdict \<Rightarrow> u32" where
  "TargetEvidenceVerdict_u32 NotStarted = 0"
| "TargetEvidenceVerdict_u32 VerdictReady = 1"
| "TargetEvidenceVerdict_u32 VerdictRunning = 2"
| "TargetEvidenceVerdict_u32 Pass = 3"
| "TargetEvidenceVerdict_u32 Fail = 4"
| "TargetEvidenceVerdict_u32 VerdictBlocked = 5"
| "TargetEvidenceVerdict_u32 NotRun = 6"
| "TargetEvidenceVerdict_u32 RolledBack = 7"
| "TargetEvidenceVerdict_u32 NotComparable = 8"

datatype TargetEvidenceReason = EvidenceNone | InvalidManifest | InvalidRequest | ProfileMismatch
  | StageIncomplete | VerdictNotPass | EvidenceGenerationMismatch | MissingFlags | OwnerUnverified
  | CapabilityIncomplete | ArtifactsUnverified | SignatureUnverified | TimeUnsynchronized
  | TelemetryIncomplete | RecoveryUnavailable | CriticalFault | CpuIncomplete | HashMissing
  | DeviceProfileMissing | PerformanceNotComparable | SourceDirty | WarningsPresent | OwnerStateInvalid

fun TargetEvidenceReason_u32 :: "TargetEvidenceReason \<Rightarrow> u32" where
  "TargetEvidenceReason_u32 EvidenceNone = 0"
| "TargetEvidenceReason_u32 InvalidManifest = 1"
| "TargetEvidenceReason_u32 InvalidRequest = 2"
| "TargetEvidenceReason_u32 ProfileMismatch = 3"
| "TargetEvidenceReason_u32 StageIncomplete = 4"
| "TargetEvidenceReason_u32 VerdictNotPass = 5"
| "TargetEvidenceReason_u32 EvidenceGenerationMismatch = 6"
| "TargetEvidenceReason_u32 MissingFlags = 7"
| "TargetEvidenceReason_u32 OwnerUnverified = 8"
| "TargetEvidenceReason_u32 CapabilityIncomplete = 9"
| "TargetEvidenceReason_u32 ArtifactsUnverified = 10"
| "TargetEvidenceReason_u32 SignatureUnverified = 11"
| "TargetEvidenceReason_u32 TimeUnsynchronized = 12"
| "TargetEvidenceReason_u32 TelemetryIncomplete = 13"
| "TargetEvidenceReason_u32 RecoveryUnavailable = 14"
| "TargetEvidenceReason_u32 CriticalFault = 15"
| "TargetEvidenceReason_u32 CpuIncomplete = 16"
| "TargetEvidenceReason_u32 HashMissing = 17"
| "TargetEvidenceReason_u32 DeviceProfileMissing = 18"
| "TargetEvidenceReason_u32 PerformanceNotComparable = 19"
| "TargetEvidenceReason_u32 SourceDirty = 20"
| "TargetEvidenceReason_u32 WarningsPresent = 21"
| "TargetEvidenceReason_u32 OwnerStateInvalid = 22"

section \<open>Structures\<close>

text \<open>The byte arrays of the manifest have 32 elements, its reserved array has four.\<close>

record TargetEvidenceManifest =
  tm_size :: u32
  tm_version :: u32
  tm_profile :: u32
  tm_stage :: u32
  tm_verdict :: u32
  tm_flags :: u32
  tm_owner_kind :: u32
  tm_owner_state :: u32
  tm_cpu_count :: u32
  tm_cpu_valid_count :: u32
  tm_artifact_count :: u32
  tm_warning_count :: u32
  tm_error_count :: u32
  tm_reserved0 :: u32
  tm_generation :: u64
  tm_started_tsc :: u64
  tm_ended_tsc :: u64
  tm_machine_id :: "u8 list"
  tm_build_id :: "u8 list"
  tm_artifact_hash :: "u8 list"
  tm_capability_hash :: "u8 list"
  tm_manifest_hash :: "u8 list"
  tm_reserved :: "u32 list"

record TargetEvidenceGateRequest =
  tq_size :: u32
  tq_version :: u32
  tq_profile :: u32
  tq_minimum_stage :: u32
  tq_required_flags :: u32
  tq_reserved :: u32
  tq_expected_generation :: u64

record TargetEvidenceGateResult =
  tr_size :: u32
  tr_version :: u32
  tr_status :: u32
  tr_reason :: u32
  tr_missing_flags :: u32
  tr_observed_flags :: u32
  tr_reserved :: u32
  tr_generation :: u64

section \<open>Helpers of the gate\<close>

abbreviation evidence_versioned :: "u32 \<Rightarrow> u32 \<Rightarrow> u32 \<Rightarrow> bool" where
  "evidence_versioned \<equiv> IsVersionedSizeValid kTargetEvidenceContractVersion kTargetEvidenceMaxStructSize"

definition IsProfileValid :: "u32 \<Rightarrow> bool" where
  "IsProfileValid value \<longleftrightarrow> value \<ge> TargetEvidenceProfile_u32 NativeIntelL0 \<and>
     value \<le> TargetEvidenceProfile_u32 ProfileSyntheticLab"

definition IsStageValid :: "u32 \<Rightarrow> bool" where
  "IsStageValid value \<longleftrightarrow> value \<le> TargetEvidenceStage_u32 Release"

definition IsVerdictValid :: "u32 \<Rightarrow> bool" where
  "IsVerdictValid value \<longleftrightarrow> value \<le> TargetEvidenceVerdict_u32 NotComparable"

definition IsOwnerValid :: "u32 \<Rightarrow> bool" where
  "IsOwnerValid value \<longleftrightarrow> value \<le> HvOwnerKindV2_u32 OwnerSyntheticLab"

definition EvidenceIsProviderStateValid :: "u32 \<Rightarrow> bool" where
  "EvidenceIsProviderStateValid value \<longleftrightarrow> value \<le> HvProviderStateV2_u32 StateQuarantined"

definition EvidenceIsStatusValid :: "u32 \<Rightarrow> bool" where
  "EvidenceIsStatusValid status \<longleftrightarrow> status \<le> HvStatus_u32 Busy"

definition EvidenceIsReasonValid :: "u32 \<Rightarrow> bool" where
  "EvidenceIsReasonValid value \<longleftrightarrow> value \<le> TargetEvidenceReason_u32 OwnerStateInvalid"

definition IsDigestNonZero :: "u8 list \<Rightarrow> bool" where
  "IsDigestNonZero digest \<longleftrightarrow> list_ex (\<lambda>b. b \<noteq> 0) (take 32 digest)"

definition IsStageAtLeast :: "u32 \<Rightarrow> TargetEvidenceStage \<Rightarrow> bool" where
  "IsStageAtLeast stage minimum \<longleftrightarrow> stage \<ge> TargetEvidenceStage_u32 minimum"

definition IsOwnerStateUsable :: "u32 \<Rightarrow> u32 \<Rightarrow> u32 \<Rightarrow> bool" where
  "IsOwnerStateUsable profile owner state =
     (if profile = TargetEvidenceProfile_u32 NativeIntelL0
      then owner = HvOwnerKindV2_u32 OwnerKnhvBootL0 \<and> state = HvProviderStateV2_u32 StateActive
      else if profile = TargetEvidenceProfile_u32 ProfileWhpManaged
      then owner = HvOwnerKindV2_u32 OwnerWhpManaged \<and>
           (state = HvProviderStateV2_u32 StateAvailable \<or> state = HvProviderStateV2_u32 StateActive)
      else if profile = TargetEvidenceProfile_u32 ProfileExternalL0
      then owner = HvOwnerKindV2_u32 OwnerExternalL0 \<and> state \<noteq> HvProviderStateV2_u32 StateUnknown \<and>
           state \<noteq> HvProviderStateV2_u32 StateBlocked \<and> state \<noteq> HvProviderStateV2_u32 StateQuarantined
      else if profile = TargetEvidenceProfile_u32 ProfileSyntheticLab
      then owner = HvOwnerKindV2_u32 OwnerSyntheticLab \<and>
           (state = HvProviderStateV2_u32 StateAvailable \<or> state = HvProviderStateV2_u32 StateActive)
      else False)"

definition EvidenceInitializeResult :: TargetEvidenceGateResult where
  "EvidenceInitializeResult = \<lparr>tr_size = 40, tr_version = kTargetEvidenceContractVersion,
     tr_status = HvStatus_u32 InvalidParameter, tr_reason = TargetEvidenceReason_u32 InvalidRequest,
     tr_missing_flags = 0, tr_observed_flags = 0, tr_reserved = 0, tr_generation = 0\<rparr>"

definition EvidenceSetResult ::
  "TargetEvidenceGateResult \<Rightarrow> HvStatus \<Rightarrow> TargetEvidenceReason \<Rightarrow> u32 \<Rightarrow> u32 \<Rightarrow> u64 \<Rightarrow> TargetEvidenceGateResult" where
  "EvidenceSetResult result status reason missing_flags observed generation =
     result\<lparr>tr_status := HvStatus_u32 status, tr_reason := TargetEvidenceReason_u32 reason,
       tr_missing_flags := missing_flags, tr_observed_flags := observed, tr_generation := generation\<rparr>"

definition MissingReason :: "u32 \<Rightarrow> TargetEvidenceReason" where
  "MissingReason missing_flags =
     (if missing_flags AND kTargetEvidenceFlagSourceClean \<noteq> 0 then SourceDirty
      else if missing_flags AND kTargetEvidenceFlagArtifactsVerified \<noteq> 0 \<or>
              missing_flags AND kTargetEvidenceFlagPdbMatched \<noteq> 0 then ArtifactsUnverified
      else if missing_flags AND kTargetEvidenceFlagSignatureVerified \<noteq> 0 then SignatureUnverified
      else if missing_flags AND kTargetEvidenceFlagCapabilityComplete \<noteq> 0 then CapabilityIncomplete
      else if missing_flags AND kTargetEvidenceFlagOwnerVerified \<noteq> 0 then OwnerUnverified
      else if missing_flags AND kTargetEvidenceFlagTimeSynchronized \<noteq> 0 then TimeUnsynchronized
      else if missing_flags AND kTargetEvidenceFlagTelemetryComplete \<noteq> 0 then TelemetryIncomplete
      else if missing_flags AND kTargetEvidenceFlagRecoveryReady \<noteq> 0 then RecoveryUnavailable
      else if missing_flags AND kTargetEvidenceFlagNoCriticalFaults \<noteq> 0 then CriticalFault
      else if missing_flags AND kTargetEvidenceFlagHardwareTarget \<noteq> 0 \<or>
              missing_flags AND kTargetEvidenceFlagKdConnected \<noteq> 0 then CapabilityIncomplete
      else if missing_flags AND kTargetEvidenceFlagDeviceProfilesVerified \<noteq> 0 then DeviceProfileMissing
      else if missing_flags AND kTargetEvidenceFlagPerformanceComparable \<noteq> 0 then PerformanceNotComparable
      else if missing_flags AND kTargetEvidenceFlagWarningsClear \<noteq> 0 then WarningsPresent
      else MissingFlags)"

definition StatusForVerdict :: "u32 \<Rightarrow> HvStatus" where
  "StatusForVerdict verdict =
     (if verdict = TargetEvidenceVerdict_u32 RolledBack then RecoveryRequired
      else if verdict = TargetEvidenceVerdict_u32 VerdictBlocked then HardwareOwnerConflict
      else if verdict = TargetEvidenceVerdict_u32 Fail then CapabilityMismatch
      else if verdict = TargetEvidenceVerdict_u32 NotComparable then CapabilityMismatch
      else if verdict = TargetEvidenceVerdict_u32 VerdictReady \<or>
              verdict = TargetEvidenceVerdict_u32 VerdictRunning then Busy
      else NestedUnavailable)"

section \<open>Validation\<close>

definition manifest_shape_ok :: "TargetEvidenceManifest \<Rightarrow> bool" where
  "manifest_shape_ok m \<longleftrightarrow> \<not> (\<not> evidence_versioned (tm_version m) (tm_size m) 256 \<or>
     \<not> IsProfileValid (tm_profile m) \<or> \<not> IsStageValid (tm_stage m) \<or> \<not> IsVerdictValid (tm_verdict m) \<or>
     \<not> IsOwnerValid (tm_owner_kind m) \<or> \<not> EvidenceIsProviderStateValid (tm_owner_state m) \<or>
     tm_flags m AND NOT kTargetEvidenceKnownFlagMask \<noteq> 0 \<or> tm_reserved0 m \<noteq> 0 \<or>
     tm_reserved m ! 0 \<noteq> 0 \<or> tm_reserved m ! 1 \<noteq> 0 \<or> tm_reserved m ! 2 \<noteq> 0 \<or> tm_reserved m ! 3 \<noteq> 0 \<or>
     tm_cpu_count m > kTargetEvidenceMaxProcessors \<or> tm_cpu_valid_count m > tm_cpu_count m \<or>
     tm_artifact_count m > kTargetEvidenceMaxArtifacts \<or>
     tm_ended_tsc m \<noteq> 0 \<and> tm_started_tsc m > tm_ended_tsc m)"

definition IsTargetEvidenceManifestValid :: "TargetEvidenceManifest option \<Rightarrow> bool" where
  "IsTargetEvidenceManifestValid manifest = (case manifest of None \<Rightarrow> False | Some m \<Rightarrow>
     if \<not> manifest_shape_ok m then False
     else if tm_flags m AND kTargetEvidenceFlagPdbMatched \<noteq> 0 \<and>
             tm_flags m AND kTargetEvidenceFlagArtifactsVerified = 0 then False
     else if tm_flags m AND kTargetEvidenceFlagArtifactsVerified \<noteq> 0 \<and>
             (tm_artifact_count m = 0 \<or> \<not> IsDigestNonZero (tm_artifact_hash m)) then False
     else if tm_flags m AND kTargetEvidenceFlagCapabilityComplete \<noteq> 0 \<and>
             (tm_cpu_count m = 0 \<or> tm_cpu_valid_count m \<noteq> tm_cpu_count m \<or>
              \<not> IsDigestNonZero (tm_capability_hash m)) then False
     else if tm_flags m AND kTargetEvidenceFlagOwnerVerified \<noteq> 0 \<and>
             (\<not> IsOwnerStateUsable (tm_profile m) (tm_owner_kind m) (tm_owner_state m) \<or>
              tm_generation m = 0) then False
     else if tm_flags m AND kTargetEvidenceFlagSignatureVerified \<noteq> 0 \<and>
             \<not> IsDigestNonZero (tm_manifest_hash m) then False
     else if tm_flags m AND kTargetEvidenceFlagSourceClean \<noteq> 0 \<and>
             \<not> IsDigestNonZero (tm_build_id m) then False
     else if tm_flags m AND kTargetEvidenceFlagHardwareTarget \<noteq> 0 \<and>
             \<not> IsDigestNonZero (tm_machine_id m) then False
     else if tm_flags m AND kTargetEvidenceFlagDeviceProfilesVerified \<noteq> 0 \<and>
             (tm_flags m AND kTargetEvidenceFlagHardwareTarget = 0 \<or>
              tm_flags m AND kTargetEvidenceFlagCapabilityComplete = 0) then False
     else if tm_flags m AND kTargetEvidenceFlagPerformanceComparable \<noteq> 0 \<and>
             (tm_flags m AND kTargetEvidenceFlagTimeSynchronized = 0 \<or>
              tm_flags m AND kTargetEvidenceFlagTelemetryComplete = 0) then False
     else if tm_flags m AND kTargetEvidenceFlagWarningsClear \<noteq> 0 \<and> tm_warning_count m \<noteq> 0 then False
     else if tm_flags m AND kTargetEvidenceFlagNoCriticalFaults \<noteq> 0 \<and> tm_error_count m \<noteq> 0 then False
     else if tm_verdict m = TargetEvidenceVerdict_u32 Pass \<and> tm_error_count m \<noteq> 0 then False
     else if tm_owner_kind m = HvOwnerKindV2_u32 OwnerUnknown \<and>
             tm_owner_state m \<noteq> HvProviderStateV2_u32 StateUnknown then False
     else if tm_stage m \<noteq> TargetEvidenceStage_u32 Inventory \<and>
             tm_verdict m = TargetEvidenceVerdict_u32 Pass \<and> tm_generation m = 0 then False
     else True)"

definition IsTargetEvidenceGateRequestValid :: "TargetEvidenceGateRequest option \<Rightarrow> bool" where
  "IsTargetEvidenceGateRequestValid request = (case request of None \<Rightarrow> False | Some q \<Rightarrow>
     evidence_versioned (tq_version q) (tq_size q) 32 \<and> IsProfileValid (tq_profile q) \<and>
     IsStageValid (tq_minimum_stage q) \<and> tq_required_flags q AND NOT kTargetEvidenceKnownFlagMask = 0 \<and>
     tq_reserved q = 0)"

definition IsTargetEvidenceGateResultValid :: "TargetEvidenceGateResult option \<Rightarrow> bool" where
  "IsTargetEvidenceGateResultValid result = (case result of None \<Rightarrow> False | Some r \<Rightarrow>
     if \<not> evidence_versioned (tr_version r) (tr_size r) 40 \<or> \<not> EvidenceIsStatusValid (tr_status r) \<or>
        \<not> EvidenceIsReasonValid (tr_reason r) \<or>
        tr_missing_flags r AND NOT kTargetEvidenceKnownFlagMask \<noteq> 0 \<or>
        tr_observed_flags r AND NOT kTargetEvidenceKnownFlagMask \<noteq> 0 \<or> tr_reserved r \<noteq> 0
     then False
     else if tr_status r = HvStatus_u32 Success
     then tr_reason r = TargetEvidenceReason_u32 EvidenceNone \<and> tr_missing_flags r = 0 \<and> tr_generation r \<noteq> 0
     else tr_reason r \<noteq> TargetEvidenceReason_u32 EvidenceNone)"

definition RequiredTargetEvidenceFlags :: "u32 \<Rightarrow> u32 \<Rightarrow> u32" where
  "RequiredTargetEvidenceFlags profile stage =
     (if \<not> IsProfileValid profile \<or> \<not> IsStageValid stage then 0
      else if stage = TargetEvidenceStage_u32 Inventory \<or> stage = TargetEvidenceStage_u32 Preflight then 0
      else let flags = (if profile = TargetEvidenceProfile_u32 NativeIntelL0
                        then kTargetEvidenceFlagCapabilityComplete OR kTargetEvidenceFlagHardwareTarget
                        else if profile = TargetEvidenceProfile_u32 ProfileWhpManaged
                        then kTargetEvidenceFlagCapabilityComplete
                        else kTargetEvidenceFlagOwnerVerified);
               flags = (if IsStageAtLeast stage Boot
                        then (let f = flags OR (kTargetEvidenceFlagOwnerVerified OR kTargetEvidenceFlagRecoveryReady)
                              in if profile = TargetEvidenceProfile_u32 NativeIntelL0
                                 then f OR kTargetEvidenceFlagKdConnected else f)
                        else flags);
               flags = (if IsStageAtLeast stage Nested
                        then flags OR (kTargetEvidenceFlagTimeSynchronized OR
                               kTargetEvidenceFlagTelemetryComplete OR kTargetEvidenceFlagNoCriticalFaults)
                        else flags);
               flags = (if IsStageAtLeast stage Boot
                        then flags OR (kTargetEvidenceFlagArtifactsVerified OR kTargetEvidenceFlagPdbMatched)
                        else flags);
               flags = (if IsStageAtLeast stage Device \<and> profile = TargetEvidenceProfile_u32 NativeIntelL0
                        then flags OR kTargetEvidenceFlagDeviceProfilesVerified else flags);
               flags = (if IsStageAtLeast stage Performance
                        then flags OR kTargetEvidenceFlagPerformanceComparable else flags)
           in if IsStageAtLeast stage Release
              then flags OR (kTargetEvidenceFlagSourceClean OR kTargetEvidenceFlagSignatureVerified OR
                     kTargetEvidenceFlagWarningsClear)
              else flags)"

section \<open>The gate\<close>

definition gate_flags :: "TargetEvidenceGateRequest \<Rightarrow> u32" where
  "gate_flags request =
     (if tq_required_flags request \<noteq> 0 then tq_required_flags request
      else RequiredTargetEvidenceFlags (tq_profile request) (tq_minimum_stage request))"

definition EvaluateTargetEvidenceGate ::
  "TargetEvidenceManifest option \<Rightarrow> TargetEvidenceGateRequest option \<Rightarrow> TargetEvidenceGateResult option \<Rightarrow>
   bool \<times> TargetEvidenceGateResult option" where
  "EvaluateTargetEvidenceGate manifest request result = (case result of None \<Rightarrow> (False, None) | Some _ \<Rightarrow>
    (case request of None \<Rightarrow> (False, Some EvidenceInitializeResult) | Some q \<Rightarrow>
     if \<not> IsTargetEvidenceGateRequestValid (Some q) then (False, Some EvidenceInitializeResult)
     else (let refused = (False, Some (EvidenceInitializeResult
                            \<lparr>tr_reason := TargetEvidenceReason_u32 InvalidManifest\<rparr>))
      in case manifest of None \<Rightarrow> refused | Some m \<Rightarrow>
        if \<not> IsTargetEvidenceManifestValid (Some m) then refused
        else let r = EvidenceInitializeResult\<lparr>tr_observed_flags := tm_flags m, tr_generation := tm_generation m\<rparr>;
                 answer = (\<lambda>status reason missing.
                   (True, Some (EvidenceSetResult r status reason missing (tm_flags m) (tm_generation m))))
             in if tm_profile m \<noteq> tq_profile q then answer IncompatibleProvider ProfileMismatch 0
                else if tm_stage m < tq_minimum_stage q then answer CapabilityMismatch StageIncomplete 0
                else if tq_expected_generation q \<noteq> 0 \<and> tq_expected_generation q \<noteq> tm_generation m
                then answer BootHandoffFailed EvidenceGenerationMismatch 0
                else if tm_verdict m \<noteq> TargetEvidenceVerdict_u32 Pass
                then answer (StatusForVerdict (tm_verdict m))
                       (if tm_verdict m = TargetEvidenceVerdict_u32 NotComparable
                        then PerformanceNotComparable else VerdictNotPass) 0
                else let required_flags = gate_flags q;
                         missing_flags = required_flags AND NOT (tm_flags m)
                     in if missing_flags \<noteq> 0
                        then answer CapabilityMismatch (MissingReason missing_flags) missing_flags
                        else if required_flags AND kTargetEvidenceFlagOwnerVerified \<noteq> 0 \<and>
                                \<not> IsOwnerStateUsable (tq_profile q) (tm_owner_kind m) (tm_owner_state m)
                        then answer HardwareOwnerConflict OwnerStateInvalid 0
                        else if tm_generation m = 0
                        then answer BootHandoffFailed EvidenceGenerationMismatch 0
                        else answer Success EvidenceNone 0)))"

section \<open>Texts\<close>

definition TargetEvidenceProfileText :: "u32 \<Rightarrow> string" where
  "TargetEvidenceProfileText = text_of
    [(TargetEvidenceProfile_u32 NativeIntelL0, ''native-intel-l0''),
     (TargetEvidenceProfile_u32 ProfileWhpManaged, ''whp-managed''),
     (TargetEvidenceProfile_u32 ProfileExternalL0, ''external-l0''),
     (TargetEvidenceProfile_u32 ProfileSyntheticLab, ''synthetic-lab'')]
    ''unknown''"

definition TargetEvidenceStageText :: "u32 \<Rightarrow> string" where
  "TargetEvidenceStageText = text_of
    [(TargetEvidenceStage_u32 Inventory, ''inventory''),
     (TargetEvidenceStage_u32 Preflight, ''preflight''),
     (TargetEvidenceStage_u32 Capability, ''capability''),
     (TargetEvidenceStage_u32 Boot, ''boot''),
     (TargetEvidenceStage_u32 Nested, ''nested''),
     (TargetEvidenceStage_u32 Device, ''device''),
     (TargetEvidenceStage_u32 Performance, ''performance''),
     (TargetEvidenceStage_u32 Reliability, ''reliability''),
     (TargetEvidenceStage_u32 Release, ''release'')]
    ''invalid''"

definition TargetEvidenceVerdictText :: "u32 \<Rightarrow> string" where
  "TargetEvidenceVerdictText = text_of
    [(TargetEvidenceVerdict_u32 NotStarted, ''not-started''),
     (TargetEvidenceVerdict_u32 VerdictReady, ''ready''),
     (TargetEvidenceVerdict_u32 VerdictRunning, ''running''),
     (TargetEvidenceVerdict_u32 Pass, ''pass''),
     (TargetEvidenceVerdict_u32 Fail, ''fail''),
     (TargetEvidenceVerdict_u32 VerdictBlocked, ''blocked''),
     (TargetEvidenceVerdict_u32 NotRun, ''not-run''),
     (TargetEvidenceVerdict_u32 RolledBack, ''rolled-back''),
     (TargetEvidenceVerdict_u32 NotComparable, ''not-comparable'')]
    ''invalid''"

definition TargetEvidenceReasonText :: "u32 \<Rightarrow> string" where
  "TargetEvidenceReasonText = text_of
    [(TargetEvidenceReason_u32 EvidenceNone, ''none''),
     (TargetEvidenceReason_u32 InvalidManifest, ''invalid-manifest''),
     (TargetEvidenceReason_u32 InvalidRequest, ''invalid-request''),
     (TargetEvidenceReason_u32 ProfileMismatch, ''profile-mismatch''),
     (TargetEvidenceReason_u32 StageIncomplete, ''stage-incomplete''),
     (TargetEvidenceReason_u32 VerdictNotPass, ''verdict-not-pass''),
     (TargetEvidenceReason_u32 EvidenceGenerationMismatch, ''generation-mismatch''),
     (TargetEvidenceReason_u32 MissingFlags, ''missing-flags''),
     (TargetEvidenceReason_u32 OwnerUnverified, ''owner-unverified''),
     (TargetEvidenceReason_u32 CapabilityIncomplete, ''capability-incomplete''),
     (TargetEvidenceReason_u32 ArtifactsUnverified, ''artifacts-unverified''),
     (TargetEvidenceReason_u32 SignatureUnverified, ''signature-unverified''),
     (TargetEvidenceReason_u32 TimeUnsynchronized, ''time-unsynchronized''),
     (TargetEvidenceReason_u32 TelemetryIncomplete, ''telemetry-incomplete''),
     (TargetEvidenceReason_u32 RecoveryUnavailable, ''recovery-unavailable''),
     (TargetEvidenceReason_u32 CriticalFault, ''critical-fault''),
     (TargetEvidenceReason_u32 CpuIncomplete, ''cpu-incomplete''),
     (TargetEvidenceReason_u32 HashMissing, ''hash-missing''),
     (TargetEvidenceReason_u32 DeviceProfileMissing, ''device-profile-missing''),
     (TargetEvidenceReason_u32 PerformanceNotComparable, ''performance-not-comparable''),
     (TargetEvidenceReason_u32 SourceDirty, ''source-dirty''),
     (TargetEvidenceReason_u32 WarningsPresent, ''warnings-present''),
     (TargetEvidenceReason_u32 OwnerStateInvalid, ''owner-state-invalid'')]
    ''invalid''"

lemma TargetEvidenceReasonText_inj:
  assumes "TargetEvidenceReasonText (TargetEvidenceReason_u32 a) = TargetEvidenceReasonText (TargetEvidenceReason_u32 b)"
  shows "a = b"
proof -
  have "TargetEvidenceReason_u32 a = TargetEvidenceReason_u32 b"
    by (rule text_of_inj [OF _ _ _ assms [unfolded TargetEvidenceReasonText_def]]) (simp, simp, (cases a; simp))
  then show ?thesis by (cases a; cases b; simp)
qed

section \<open>What the gate decides\<close>

definition gate_passes :: "TargetEvidenceManifest \<Rightarrow> TargetEvidenceGateRequest \<Rightarrow> bool" where
  "gate_passes m q \<longleftrightarrow> tm_profile m = tq_profile q \<and> tq_minimum_stage q \<le> tm_stage m \<and>
     (tq_expected_generation q = 0 \<or> tq_expected_generation q = tm_generation m) \<and>
     tm_verdict m = TargetEvidenceVerdict_u32 Pass \<and> bits_le (gate_flags q) (tm_flags m) \<and> tm_generation m \<noteq> 0"

lemma missing_none: "a AND NOT b = 0 \<longleftrightarrow> bits_le a (b :: 'a::len word)"
  by (simp add: known_mask_iff bits_le_def)

lemma known_flags: "x AND - 32768 = 0 \<longleftrightarrow> bits_le x (kTargetEvidenceKnownFlagMask :: u32)"
  using missing_none [of x 32767] by simp

lemma bits_le_flag: "bits_le a b \<Longrightarrow> a AND f \<noteq> 0 \<Longrightarrow> b AND f \<noteq> (0 :: 'a::len word)"
proof
  assume le: "bits_le a b" and a: "a AND f \<noteq> 0" and b: "b AND f = 0"
  obtain n where "bit (a AND f) n" using a by (metis bit_eqI bit_0_eq bot_apply bot_bool_def)
  then have "bit (b AND f) n" using le by (auto simp: bits_le_bit bit_simps)
  then show False using b by simp
qed

lemma manifest_owner:
  assumes "IsTargetEvidenceManifestValid (Some m)" and "tm_flags m AND kTargetEvidenceFlagOwnerVerified \<noteq> 0"
  shows "IsOwnerStateUsable (tm_profile m) (tm_owner_kind m) (tm_owner_state m) \<and> tm_generation m \<noteq> 0"
  using assms by (simp add: IsTargetEvidenceManifestValid_def split: if_splits)

lemma required_known: "bits_le (RequiredTargetEvidenceFlags p s) kTargetEvidenceKnownFlagMask"
  unfolding RequiredTargetEvidenceFlags_def Let_def by (simp add: bits_le_def bit.conj_disj_distrib2)

lemma gate_flags_known:
  assumes "IsTargetEvidenceGateRequestValid (Some q)"
  shows "bits_le (gate_flags q) kTargetEvidenceKnownFlagMask"
proof (cases "tq_required_flags q = 0")
  case False
  then show ?thesis
    using assms by (simp add: gate_flags_def IsTargetEvidenceGateRequestValid_def known_flags)
qed (simp add: gate_flags_def required_known)

lemma reason_bounds:
  "TargetEvidenceReason_u32 r \<le> 22" "TargetEvidenceReason_u32 r = 0 \<longleftrightarrow> r = EvidenceNone"
  "TargetEvidenceReason_u32 r = 22 \<longleftrightarrow> r = OwnerStateInvalid"
  by (cases r; simp)+

lemma missing_reason: "MissingReason f \<noteq> EvidenceNone" "MissingReason f \<noteq> OwnerStateInvalid"
  by (simp_all add: MissingReason_def)

lemma verdict_status: "StatusForVerdict v \<noteq> Success"
  by (simp add: StatusForVerdict_def)

lemma set_result_valid:
  assumes "bits_le missing kTargetEvidenceKnownFlagMask" and "bits_le observed kTargetEvidenceKnownFlagMask"
    and "st = Success \<longleftrightarrow> rs = EvidenceNone" and "st = Success \<Longrightarrow> missing = 0 \<and> g \<noteq> 0"
  shows "IsTargetEvidenceGateResultValid (Some (EvidenceSetResult (EvidenceInitializeResult
    \<lparr>tr_observed_flags := o1, tr_generation := g1\<rparr>) st rs missing observed g))"
  using assms enum_bounds(1,4) [of st] reason_bounds(1,2) [of rs]
  by (simp add: IsTargetEvidenceGateResultValid_def EvidenceSetResult_def EvidenceInitializeResult_def
      IsVersionedSizeValid_def EvidenceIsStatusValid_def EvidenceIsReasonValid_def known_flags bits_le_def)


text \<open>The answer of the gate on a valid manifest, as a status, a reason and the missing flags.\<close>

definition gate_answer :: "TargetEvidenceManifest \<Rightarrow> TargetEvidenceGateRequest \<Rightarrow>
    HvStatus \<times> TargetEvidenceReason \<times> u32" where
  "gate_answer m q =
     (if tm_profile m \<noteq> tq_profile q then (IncompatibleProvider, ProfileMismatch, 0)
      else if tm_stage m < tq_minimum_stage q then (CapabilityMismatch, StageIncomplete, 0)
      else if tq_expected_generation q \<noteq> 0 \<and> tq_expected_generation q \<noteq> tm_generation m
      then (BootHandoffFailed, EvidenceGenerationMismatch, 0)
      else if tm_verdict m \<noteq> TargetEvidenceVerdict_u32 Pass
      then (StatusForVerdict (tm_verdict m),
            if tm_verdict m = TargetEvidenceVerdict_u32 NotComparable then PerformanceNotComparable
            else VerdictNotPass, 0)
      else if \<not> bits_le (gate_flags q) (tm_flags m)
      then (CapabilityMismatch, MissingReason (gate_flags q AND NOT (tm_flags m)), gate_flags q AND NOT (tm_flags m))
      else if tm_generation m = 0 then (BootHandoffFailed, EvidenceGenerationMismatch, 0)
      else (Success, EvidenceNone, 0))"

lemma owner_branch_dead:
  assumes "IsTargetEvidenceManifestValid (Some m)" and "bits_le f (tm_flags m)" and "tm_profile m = p"
    and "f AND kTargetEvidenceFlagOwnerVerified \<noteq> 0"
  shows "IsOwnerStateUsable p (tm_owner_kind m) (tm_owner_state m)"
  using manifest_owner [OF assms(1) bits_le_flag [OF assms(2,4)]] assms(3) by simp

lemma evaluate_answer:
  assumes "IsTargetEvidenceManifestValid (Some m)" and "IsTargetEvidenceGateRequestValid (Some q)"
    and "gate_answer m q = (st, rs, missing)"
  shows "EvaluateTargetEvidenceGate (Some m) (Some q) (Some r0) = (True, Some (EvidenceSetResult
    (EvidenceInitializeResult\<lparr>tr_observed_flags := tm_flags m, tr_generation := tm_generation m\<rparr>)
    st rs missing (tm_flags m) (tm_generation m)))"
proof -
  note dead = owner_branch_dead [OF assms(1), of "gate_flags q" "tq_profile q"]
  have d: "bits_le (gate_flags q) (tm_flags m) \<Longrightarrow> tm_profile m = tq_profile q \<Longrightarrow>
      (gate_flags q AND 32 \<noteq> 0 \<and> \<not> IsOwnerStateUsable (tq_profile q) (tm_owner_kind m) (tm_owner_state m)) = False"
    using dead by blast
  show ?thesis
    using assms(1,2) assms(3) [unfolded gate_answer_def]
    unfolding EvaluateTargetEvidenceGate_def option.case Let_def missing_none
    by (simp only: not_True_eq_False if_False split: if_splits) (simp add: d | (elim conjE, simp))+
qed

lemma gate_answer_facts:
  assumes "gate_answer m q = (st, rs, missing)"
  shows "st = Success \<longleftrightarrow> gate_passes m q" "st = Success \<longleftrightarrow> rs = EvidenceNone" "rs \<noteq> OwnerStateInvalid"
    "missing = 0 \<or> missing = gate_flags q AND NOT (tm_flags m) \<and> st \<noteq> Success"
  using assms missing_reason verdict_status
  by (auto simp: gate_answer_def gate_passes_def not_less split: if_splits)

text \<open>
C39: The evidence gate answers every valid request on a valid manifest with a valid result,
which is a success exactly when the profile is the requested one, the stage is reached, the
generation is not zero and the expected one (an expected generation of zero stands for any), the
verdict is a pass and every required flag is set; a reported set of missing flags is exactly the
set of required flags that the manifest lacks, and the owner-state answer is never given,
because the validity of the manifest rules it out.
\<close>

theorem evidence_gate_exact:
  assumes "IsTargetEvidenceManifestValid (Some m)" and "IsTargetEvidenceGateRequestValid (Some q)"
  shows "\<exists>r. EvaluateTargetEvidenceGate (Some m) (Some q) (Some r0) = (True, Some r) \<and>
    IsTargetEvidenceGateResultValid (Some r) \<and> tr_observed_flags r = tm_flags m \<and> tr_generation r = tm_generation m \<and>
    (tr_status r = HvStatus_u32 Success \<longleftrightarrow> gate_passes m q) \<and>
    (tr_missing_flags r = 0 \<or> tr_missing_flags r = gate_flags q AND NOT (tm_flags m)) \<and>
    tr_reason r \<noteq> TargetEvidenceReason_u32 OwnerStateInvalid"
proof -
  obtain st rs missing where a: "gate_answer m q = (st, rs, missing)" by (cases "gate_answer m q") auto
  note f = gate_answer_facts [OF a]
  have obs: "bits_le (tm_flags m) kTargetEvidenceKnownFlagMask"
    using assms(1) by (simp add: IsTargetEvidenceManifestValid_def manifest_shape_ok_def known_flags split: if_splits)
  have "bits_le (gate_flags q AND NOT (tm_flags m)) kTargetEvidenceKnownFlagMask"
    using gate_flags_known [OF assms(2)] by (auto simp: bits_le_bit bit_simps)
  then have mis: "bits_le missing kTargetEvidenceKnownFlagMask" using f(4) by (auto simp: bits_le_def)
  have "st = Success \<Longrightarrow> missing = 0 \<and> tm_generation m \<noteq> 0" using f by (auto simp: gate_passes_def)
  note valid = set_result_valid [OF mis obs f(2) this]
  show ?thesis
    using evaluate_answer [OF assms a] valid f enum_bounds(4) [of st] reason_bounds(3) [of rs]
    by (auto simp: EvidenceSetResult_def)
qed

section \<open>Stages build on each other\<close>

definition stages :: "u32 list" where "stages = [0, 1, 2, 3, 4, 5, 6, 7, 8]"

lemma stage_cases: "IsStageValid s \<Longrightarrow> s \<in> set stages"
proof -
  assume "IsStageValid s"
  then have "unat s \<le> 8" by (simp add: IsStageValid_def word_le_nat_alt)
  then have "unat s \<in> {0, 1, 2, 3, 4, 5, 6, 7, 8}" by auto
  then show ?thesis by (auto simp: stages_def word_unat_eq_iff)
qed

lemma profile_cases: "IsProfileValid p \<Longrightarrow> p \<in> set [1, 2, 3, 4]"
proof -
  assume "IsProfileValid p"
  then have "1 \<le> unat p \<and> unat p \<le> 4" by (simp add: IsProfileValid_def word_le_nat_alt)
  then have "unat p \<in> {1, 2, 3, 4}" by auto
  then show ?thesis by (auto simp: word_unat_eq_iff)
qed

lemma required_mono_table:
  "list_all (\<lambda>p. list_all (\<lambda>a. list_all (\<lambda>b. a \<le> b \<longrightarrow>
     bits_le (RequiredTargetEvidenceFlags p a) (RequiredTargetEvidenceFlags p b)) stages) stages) [1, 2, 3, 4]"
  by code_simp

lemma required_mono:
  assumes "IsStageValid b" and "a \<le> b"
  shows "bits_le (RequiredTargetEvidenceFlags p a) (RequiredTargetEvidenceFlags p b)"
proof (cases "IsProfileValid p")
  case True
  have "IsStageValid a" using assms by (simp add: IsStageValid_def)
  then show ?thesis
    using required_mono_table profile_cases [OF True] stage_cases [OF assms(1)] stage_cases [of a] assms(2)
    unfolding list_all_iff by blast
qed (simp add: RequiredTargetEvidenceFlags_def bits_le_def)

lemma gate_passes_earlier:
  assumes "gate_passes m q" and "IsTargetEvidenceGateRequestValid (Some q)" and "tq_required_flags q = 0"
    and "stage \<le> tq_minimum_stage q"
  shows "gate_passes m (q\<lparr>tq_minimum_stage := stage\<rparr>)"
proof -
  have "IsStageValid (tq_minimum_stage q)" using assms(2) by (simp add: IsTargetEvidenceGateRequestValid_def)
  note le = required_mono [OF this assms(4), of "tq_profile q"]
  show ?thesis
    using assms(1,3,4) bits_le_trans [OF le] by (auto simp: gate_passes_def gate_flags_def intro: order_trans)
qed

text \<open>What a valid manifest with every flag set has shown.\<close>

definition manifest_proven :: "TargetEvidenceManifest \<Rightarrow> bool" where
  "manifest_proven m \<longleftrightarrow> tm_error_count m = 0 \<and> tm_warning_count m = 0 \<and> tm_generation m \<noteq> 0 \<and>
     tm_artifact_count m \<noteq> 0 \<and> tm_cpu_count m \<noteq> 0 \<and> tm_cpu_valid_count m = tm_cpu_count m \<and>
     tm_owner_kind m = HvOwnerKindV2_u32 OwnerKnhvBootL0 \<and> tm_owner_state m = HvProviderStateV2_u32 StateActive \<and>
     IsDigestNonZero (tm_machine_id m) \<and> IsDigestNonZero (tm_build_id m) \<and> IsDigestNonZero (tm_artifact_hash m) \<and>
     IsDigestNonZero (tm_capability_hash m) \<and> IsDigestNonZero (tm_manifest_hash m)"

lemma native_release_flags: "RequiredTargetEvidenceFlags 1 8 = kTargetEvidenceKnownFlagMask"
  by code_simp

lemma all_flags:
  assumes "bits_le kTargetEvidenceKnownFlagMask f"
  shows "f AND 1 \<noteq> 0" "f AND 2 \<noteq> 0" "f AND 4 \<noteq> 0" "f AND 16 \<noteq> 0" "f AND 32 \<noteq> 0" "f AND 512 \<noteq> 0" "f AND 1024 \<noteq> 0"
    "f AND 16384 \<noteq> (0 :: u32)"
  using bits_le_flag [OF assms] by simp_all

lemma native_release_proven:
  assumes "IsTargetEvidenceManifestValid (Some m)" and "gate_passes m q" and "tq_required_flags q = 0"
    and "tq_profile q = TargetEvidenceProfile_u32 NativeIntelL0"
    and "tq_minimum_stage q = TargetEvidenceStage_u32 Release"
  shows "manifest_proven m"
proof -
  have "bits_le kTargetEvidenceKnownFlagMask (tm_flags m)" and p: "tm_profile m = 1"
    using assms(2-5) native_release_flags by (simp_all add: gate_passes_def gate_flags_def)
  note f = all_flags [OF this(1)]
  have "IsOwnerStateUsable 1 (tm_owner_kind m) (tm_owner_state m) \<and> tm_generation m \<noteq> 0"
    using manifest_owner [OF assms(1) f(5)] p by simp
  then have "tm_owner_kind m = 2" "tm_owner_state m = 2" "tm_generation m \<noteq> 0" by (simp_all add: IsOwnerStateUsable_def)
  moreover have "IsDigestNonZero (tm_build_id m)" "IsDigestNonZero (tm_manifest_hash m)" "IsDigestNonZero (tm_machine_id m)"
    "IsDigestNonZero (tm_artifact_hash m)" "IsDigestNonZero (tm_capability_hash m)" "tm_artifact_count m \<noteq> 0"
    "tm_cpu_count m \<noteq> 0" "tm_cpu_valid_count m = tm_cpu_count m" "tm_warning_count m = 0" "tm_error_count m = 0"
    using assms(1) f by (simp_all add: IsTargetEvidenceManifestValid_def split: if_splits)
  ultimately show ?thesis by (simp add: manifest_proven_def)
qed


section \<open>A sample manifest\<close>

definition sample_manifest :: TargetEvidenceManifest where
  "sample_manifest = \<lparr>tm_size = 256, tm_version = 1, tm_profile = 1, tm_stage = 8, tm_verdict = 3, tm_flags = 32767,
     tm_owner_kind = 2, tm_owner_state = 2, tm_cpu_count = 4, tm_cpu_valid_count = 4, tm_artifact_count = 2,
     tm_warning_count = 0, tm_error_count = 0, tm_reserved0 = 0, tm_generation = 5, tm_started_tsc = 10, tm_ended_tsc = 20,
     tm_machine_id = replicate 32 1, tm_build_id = replicate 32 2, tm_artifact_hash = replicate 32 3,
     tm_capability_hash = replicate 32 4, tm_manifest_hash = replicate 32 5, tm_reserved = replicate 4 0\<rparr>"

definition sample_gate_request :: TargetEvidenceGateRequest where
  "sample_gate_request = \<lparr>tq_size = 32, tq_version = 1, tq_profile = 1, tq_minimum_stage = 8, tq_required_flags = 0,
     tq_reserved = 0, tq_expected_generation = 5\<rparr>"

lemma sample_gate_ok:
  "IsTargetEvidenceManifestValid (Some sample_manifest)" "IsTargetEvidenceGateRequestValid (Some sample_gate_request)"
  "gate_passes sample_manifest sample_gate_request"
proof -
  show "IsTargetEvidenceManifestValid (Some sample_manifest)"
    "IsTargetEvidenceGateRequestValid (Some sample_gate_request)" by code_simp+
  show "gate_passes sample_manifest sample_gate_request"
    by (simp add: gate_passes_def gate_flags_def sample_gate_request_def sample_manifest_def native_release_flags bits_le_def)
qed

theorem evidence_gate_exact_witness:
  "\<exists>r. EvaluateTargetEvidenceGate (Some sample_manifest) (Some sample_gate_request) (Some EvidenceInitializeResult) =
     (True, Some r) \<and> tr_status r = HvStatus_u32 Success"
  using evidence_gate_exact [OF sample_gate_ok(1,2), of EvidenceInitializeResult] sample_gate_ok(3) by blast

end
