(* ===== verification/EvidenceWriter.thy ===== *)
theory EvidenceWriter
  imports EvidenceModel
begin

text \<open>
  The signature results of \<^verbatim>\<open>src/src/validation/target_evidence_signature.cpp\<close> and the manifest
  writer of \<^verbatim>\<open>src/src/validation/target_evidence_writer.cpp\<close>, with the structures of
  \<^verbatim>\<open>src/src/include/knhv_target_evidence_signature.h\<close> and
  \<^verbatim>\<open>src/src/include/knhv_target_evidence_writer.h\<close>. The file system and the trust provider of the
  operating system are arguments: the attributes of a file, if it exists, the status of the
  verification, and the status codes of the platform.
\<close>

section \<open>Signature results\<close>

abbreviation kTargetEvidenceSignatureContractVersion :: u32 where "kTargetEvidenceSignatureContractVersion \<equiv> 1"
abbreviation kTargetEvidenceSignatureMaxPath :: nat where "kTargetEvidenceSignatureMaxPath \<equiv> 32768"
abbreviation kTargetEvidenceSignatureMaxStructSize :: u32 where "kTargetEvidenceSignatureMaxStructSize \<equiv> 4096"
abbreviation kTargetEvidenceSignatureFlagAllowPrivateTestRoot :: u32 where
  "kTargetEvidenceSignatureFlagAllowPrivateTestRoot \<equiv> 1"
abbreviation kTargetEvidenceSignatureKnownFlagMask :: u32 where
  "kTargetEvidenceSignatureKnownFlagMask \<equiv> kTargetEvidenceSignatureFlagAllowPrivateTestRoot"
abbreviation kTargetEvidenceSignatureResultPrivateRootAccepted :: u32 where
  "kTargetEvidenceSignatureResultPrivateRootAccepted \<equiv> 1"

datatype TargetEvidenceSignatureStatus = Trusted | SignatureInvalidArgument | FileNotFound | NotSigned
  | Untrusted | PrivateTestRoot | VerificationUnavailable

fun TargetEvidenceSignatureStatus_u32 :: "TargetEvidenceSignatureStatus \<Rightarrow> u32" where
  "TargetEvidenceSignatureStatus_u32 Trusted = 0"
| "TargetEvidenceSignatureStatus_u32 SignatureInvalidArgument = 1"
| "TargetEvidenceSignatureStatus_u32 FileNotFound = 2"
| "TargetEvidenceSignatureStatus_u32 NotSigned = 3"
| "TargetEvidenceSignatureStatus_u32 Untrusted = 4"
| "TargetEvidenceSignatureStatus_u32 PrivateTestRoot = 5"
| "TargetEvidenceSignatureStatus_u32 VerificationUnavailable = 6"

record TargetEvidenceSignatureRequest =
  sq_size :: u32
  sq_version :: u32
  sq_flags :: u32
  sq_reserved :: u32

record TargetEvidenceSignatureResult =
  sg_size :: u32
  sg_version :: u32
  sg_status :: u32
  sg_wintrust_status :: u32
  sg_result_flags :: u32
  sg_reserved :: u32

abbreviation signature_versioned :: "u32 \<Rightarrow> u32 \<Rightarrow> u32 \<Rightarrow> bool" where
  "signature_versioned \<equiv>
     IsVersionedSizeValid kTargetEvidenceSignatureContractVersion kTargetEvidenceSignatureMaxStructSize"

definition SignatureIsStatusValid :: "u32 \<Rightarrow> bool" where
  "SignatureIsStatusValid value \<longleftrightarrow> value \<le> TargetEvidenceSignatureStatus_u32 VerificationUnavailable"

text \<open>A path is a list of 16-bit characters without its terminator.\<close>

definition IsPathValid :: "u16 list option \<Rightarrow> bool" where
  "IsPathValid path = (case path of None \<Rightarrow> False | Some p \<Rightarrow>
     p \<noteq> [] \<and> length p \<le> kTargetEvidenceSignatureMaxPath)"

definition SignatureInitializeResult :: TargetEvidenceSignatureResult where
  "SignatureInitializeResult = \<lparr>sg_size = 24, sg_version = kTargetEvidenceSignatureContractVersion,
     sg_status = TargetEvidenceSignatureStatus_u32 SignatureInvalidArgument, sg_wintrust_status = 0,
     sg_result_flags = 0, sg_reserved = 0\<rparr>"

text \<open>
  The status codes that the trust provider of the operating system reports, and the attribute bit of
  a directory, are those of the platform.
\<close>

record wintrust_codes =
  TRUST_E_SUBJECT_NOT_TRUSTED :: u32
  CERT_E_UNTRUSTEDROOT :: u32
  CERT_E_CHAINING :: u32
  CERT_E_UNTRUSTEDTESTROOT :: u32
  TRUST_E_NOSIGNATURE :: u32
  TRUST_E_SUBJECT_FORM_UNKNOWN :: u32
  TRUST_E_PROVIDER_UNKNOWN :: u32
  E_NOTIMPL :: u32
  ERROR_CALL_NOT_IMPLEMENTED :: u32
  HRESULT_ERROR_PROC_NOT_FOUND :: u32
  HRESULT_ERROR_MOD_NOT_FOUND :: u32
  FILE_ATTRIBUTE_DIRECTORY :: u32

definition IsPrivateTestRootStatus :: "wintrust_codes \<Rightarrow> u32 \<Rightarrow> bool" where
  "IsPrivateTestRootStatus codes status \<longleftrightarrow> status = TRUST_E_SUBJECT_NOT_TRUSTED codes \<or>
     status = CERT_E_UNTRUSTEDROOT codes \<or> status = CERT_E_CHAINING codes \<or>
     status = CERT_E_UNTRUSTEDTESTROOT codes"

definition IsVerificationUnavailableStatus :: "wintrust_codes \<Rightarrow> u32 \<Rightarrow> bool" where
  "IsVerificationUnavailableStatus codes status \<longleftrightarrow> status = E_NOTIMPL codes \<or>
     status = ERROR_CALL_NOT_IMPLEMENTED codes \<or> status = HRESULT_ERROR_PROC_NOT_FOUND codes \<or>
     status = HRESULT_ERROR_MOD_NOT_FOUND codes"

definition MapWinTrustStatus :: "wintrust_codes \<Rightarrow> u32 \<Rightarrow> bool \<Rightarrow> TargetEvidenceSignatureStatus \<times> u32" where
  "MapWinTrustStatus codes status allow_private_root =
     (if status = 0 then (Trusted, 0)
      else if status = TRUST_E_NOSIGNATURE codes \<or> status = TRUST_E_SUBJECT_FORM_UNKNOWN codes \<or>
              status = TRUST_E_PROVIDER_UNKNOWN codes then (NotSigned, 0)
      else if IsPrivateTestRootStatus codes status
      then if allow_private_root then (PrivateTestRoot, kTargetEvidenceSignatureResultPrivateRootAccepted)
           else (Untrusted, 0)
      else if IsVerificationUnavailableStatus codes status then (VerificationUnavailable, 0)
      else (Untrusted, 0))"

definition IsTargetEvidenceSignatureRequestValid :: "TargetEvidenceSignatureRequest option \<Rightarrow> bool" where
  "IsTargetEvidenceSignatureRequestValid request = (case request of None \<Rightarrow> False | Some q \<Rightarrow>
     signature_versioned (sq_version q) (sq_size q) 16 \<and>
     sq_flags q AND NOT kTargetEvidenceSignatureKnownFlagMask = 0 \<and> sq_reserved q = 0)"

definition IsTargetEvidenceSignatureResultValid :: "TargetEvidenceSignatureResult option \<Rightarrow> bool" where
  "IsTargetEvidenceSignatureResultValid result = (case result of None \<Rightarrow> False | Some r \<Rightarrow>
     if \<not> signature_versioned (sg_version r) (sg_size r) 24 \<or> \<not> SignatureIsStatusValid (sg_status r) \<or>
        sg_result_flags r AND NOT kTargetEvidenceSignatureResultPrivateRootAccepted \<noteq> 0 \<or> sg_reserved r \<noteq> 0
     then False
     else let private_root_accepted =
                (sg_result_flags r AND kTargetEvidenceSignatureResultPrivateRootAccepted \<noteq> 0)
          in if sg_status r = TargetEvidenceSignatureStatus_u32 Trusted
             then sg_wintrust_status r = 0 \<and> \<not> private_root_accepted
             else if sg_status r = TargetEvidenceSignatureStatus_u32 PrivateTestRoot
             then sg_wintrust_status r \<noteq> 0 \<and> private_root_accepted
             else if private_root_accepted then False
             else if sg_status r = TargetEvidenceSignatureStatus_u32 SignatureInvalidArgument \<or>
                     sg_status r = TargetEvidenceSignatureStatus_u32 FileNotFound
             then sg_wintrust_status r = 0
             else if sg_status r = TargetEvidenceSignatureStatus_u32 NotSigned \<or>
                     sg_status r = TargetEvidenceSignatureStatus_u32 Untrusted \<or>
                     sg_status r = TargetEvidenceSignatureStatus_u32 VerificationUnavailable
             then sg_wintrust_status r \<noteq> 0
             else False)"

definition VerifyTargetEvidenceFileSignature ::
  "wintrust_codes \<Rightarrow> (u16 list \<Rightarrow> u32 option) \<Rightarrow> (u16 list \<Rightarrow> u32) \<Rightarrow> u16 list option \<Rightarrow>
   TargetEvidenceSignatureRequest option \<Rightarrow> TargetEvidenceSignatureResult option \<Rightarrow>
   TargetEvidenceSignatureStatus \<times> TargetEvidenceSignatureResult option" where
  "VerifyTargetEvidenceFileSignature codes file_attributes win_verify_trust path request result =
   (case result of None \<Rightarrow> (SignatureInvalidArgument, None) | Some _ \<Rightarrow>
     (let r = SignatureInitializeResult
      in case (path, request) of
           (Some p, Some q) \<Rightarrow>
             (if \<not> IsTargetEvidenceSignatureRequestValid (Some q) \<or> \<not> IsPathValid (Some p)
              then (SignatureInvalidArgument, Some r)
              else let missing = (FileNotFound, Some (r\<lparr>sg_status := TargetEvidenceSignatureStatus_u32 FileNotFound\<rparr>))
                   in case file_attributes p of None \<Rightarrow> missing | Some attributes \<Rightarrow>
                     if attributes AND FILE_ATTRIBUTE_DIRECTORY codes \<noteq> 0 then missing
                     else let trust_status = win_verify_trust p;
                              allow_private_root =
                                (sq_flags q AND kTargetEvidenceSignatureFlagAllowPrivateTestRoot \<noteq> 0)
                          in case MapWinTrustStatus codes trust_status allow_private_root of (mapped, flags) \<Rightarrow>
                               (mapped, Some (r\<lparr>sg_wintrust_status := trust_status, sg_result_flags := flags,
                                  sg_status := TargetEvidenceSignatureStatus_u32 mapped\<rparr>)))
         | _ \<Rightarrow> (SignatureInvalidArgument, Some r)))"

section \<open>The manifest writer\<close>

abbreviation kTargetEvidenceWriterContractVersion :: u32 where "kTargetEvidenceWriterContractVersion \<equiv> 1"
abbreviation kTargetEvidenceWriterMaxStructSize :: u32 where "kTargetEvidenceWriterMaxStructSize \<equiv> 4096"
abbreviation kTargetEvidenceWriterFlagAllowSynthetic :: u32 where "kTargetEvidenceWriterFlagAllowSynthetic \<equiv> 1"
abbreviation kTargetEvidenceWriterFlagAllowPrivateTestRoot :: u32 where
  "kTargetEvidenceWriterFlagAllowPrivateTestRoot \<equiv> 2"
abbreviation kTargetEvidenceWriterFlagHardwareEvidence :: u32 where "kTargetEvidenceWriterFlagHardwareEvidence \<equiv> 4"
abbreviation kTargetEvidenceWriterFlagSourceCleanObserved :: u32 where
  "kTargetEvidenceWriterFlagSourceCleanObserved \<equiv> 8"
abbreviation kTargetEvidenceWriterFlagCommitSignature :: u32 where "kTargetEvidenceWriterFlagCommitSignature \<equiv> 16"
abbreviation kTargetEvidenceWriterKnownFlagMask :: u32 where "kTargetEvidenceWriterKnownFlagMask \<equiv> 31"

datatype TargetEvidenceWriterStatus = WriterSuccess | WriterInvalidArgument | WriterInvalidManifest
  | SignatureRequired | SignatureUntrusted | HardwareEvidenceRequired | SyntheticPolicyViolation
  | WriterSourceDirty | GenerationInvalid

fun TargetEvidenceWriterStatus_u32 :: "TargetEvidenceWriterStatus \<Rightarrow> u32" where
  "TargetEvidenceWriterStatus_u32 WriterSuccess = 0"
| "TargetEvidenceWriterStatus_u32 WriterInvalidArgument = 1"
| "TargetEvidenceWriterStatus_u32 WriterInvalidManifest = 2"
| "TargetEvidenceWriterStatus_u32 SignatureRequired = 3"
| "TargetEvidenceWriterStatus_u32 SignatureUntrusted = 4"
| "TargetEvidenceWriterStatus_u32 HardwareEvidenceRequired = 5"
| "TargetEvidenceWriterStatus_u32 SyntheticPolicyViolation = 6"
| "TargetEvidenceWriterStatus_u32 WriterSourceDirty = 7"
| "TargetEvidenceWriterStatus_u32 GenerationInvalid = 8"

record TargetEvidenceManifestWriteRequest =
  wq_size :: u32
  wq_version :: u32
  wq_flags :: u32
  wq_reserved :: u32
  wq_candidate :: TargetEvidenceManifest
  wq_signature :: TargetEvidenceSignatureResult

record TargetEvidenceManifestWriteResult =
  wr_size :: u32
  wr_version :: u32
  wr_status :: u32
  wr_reason :: u32
  wr_reserved :: u32
  wr_manifest :: TargetEvidenceManifest

abbreviation writer_versioned :: "u32 \<Rightarrow> u32 \<Rightarrow> u32 \<Rightarrow> bool" where
  "writer_versioned \<equiv> IsVersionedSizeValid kTargetEvidenceWriterContractVersion kTargetEvidenceWriterMaxStructSize"

definition zero_manifest :: TargetEvidenceManifest where
  "zero_manifest = \<lparr>tm_size = 0, tm_version = 0, tm_profile = 0, tm_stage = 0, tm_verdict = 0, tm_flags = 0,
     tm_owner_kind = 0, tm_owner_state = 0, tm_cpu_count = 0, tm_cpu_valid_count = 0, tm_artifact_count = 0,
     tm_warning_count = 0, tm_error_count = 0, tm_reserved0 = 0, tm_generation = 0, tm_started_tsc = 0,
     tm_ended_tsc = 0, tm_machine_id = replicate 32 0, tm_build_id = replicate 32 0,
     tm_artifact_hash = replicate 32 0, tm_capability_hash = replicate 32 0, tm_manifest_hash = replicate 32 0,
     tm_reserved = replicate 4 0\<rparr>"

definition WriterIsStatusValid :: "u32 \<Rightarrow> bool" where
  "WriterIsStatusValid value \<longleftrightarrow> value \<le> TargetEvidenceWriterStatus_u32 GenerationInvalid"

definition WriterIsReasonValid :: "u32 \<Rightarrow> bool" where
  "WriterIsReasonValid value \<longleftrightarrow> value \<le> TargetEvidenceReason_u32 OwnerStateInvalid"

definition IsSyntheticProfile :: "TargetEvidenceManifest \<Rightarrow> bool" where
  "IsSyntheticProfile manifest \<longleftrightarrow> tm_profile manifest = TargetEvidenceProfile_u32 ProfileSyntheticLab"

definition IsHardwareProfile :: "TargetEvidenceManifest \<Rightarrow> bool" where
  "IsHardwareProfile manifest \<longleftrightarrow> tm_profile manifest = TargetEvidenceProfile_u32 NativeIntelL0"

definition IsAtLeastCapability :: "TargetEvidenceManifest \<Rightarrow> bool" where
  "IsAtLeastCapability manifest \<longleftrightarrow> tm_stage manifest \<ge> TargetEvidenceStage_u32 Capability"

definition IsRelease :: "TargetEvidenceManifest \<Rightarrow> bool" where
  "IsRelease manifest \<longleftrightarrow> tm_stage manifest = TargetEvidenceStage_u32 Release"

definition WriterHasFlag :: "TargetEvidenceManifest \<Rightarrow> u32 \<Rightarrow> bool" where
  "WriterHasFlag manifest flag \<longleftrightarrow> tm_flags manifest AND flag \<noteq> 0"

definition HasWriterFlag :: "TargetEvidenceManifestWriteRequest \<Rightarrow> u32 \<Rightarrow> bool" where
  "HasWriterFlag request flag \<longleftrightarrow> wq_flags request AND flag \<noteq> 0"

definition WriterInitializeResult :: TargetEvidenceManifestWriteResult where
  "WriterInitializeResult = \<lparr>wr_size = 280, wr_version = kTargetEvidenceWriterContractVersion,
     wr_status = TargetEvidenceWriterStatus_u32 WriterInvalidArgument,
     wr_reason = TargetEvidenceReason_u32 InvalidRequest, wr_reserved = 0, wr_manifest = zero_manifest\<rparr>"

definition IsTrusted :: "TargetEvidenceSignatureResult \<Rightarrow> bool" where
  "IsTrusted signature \<longleftrightarrow> sg_status signature = TargetEvidenceSignatureStatus_u32 Trusted \<and>
     sg_wintrust_status signature = 0"

definition IsAcceptedPrivateRoot :: "TargetEvidenceSignatureResult \<Rightarrow> bool" where
  "IsAcceptedPrivateRoot signature \<longleftrightarrow> sg_status signature = TargetEvidenceSignatureStatus_u32 PrivateTestRoot \<and>
     sg_wintrust_status signature \<noteq> 0 \<and>
     sg_result_flags signature AND kTargetEvidenceSignatureResultPrivateRootAccepted \<noteq> 0"

definition WriterSetFailure ::
  "TargetEvidenceManifestWriteResult \<Rightarrow> TargetEvidenceWriterStatus \<Rightarrow> TargetEvidenceReason \<Rightarrow>
   TargetEvidenceManifestWriteResult" where
  "WriterSetFailure result status reason =
     result\<lparr>wr_status := TargetEvidenceWriterStatus_u32 status, wr_reason := TargetEvidenceReason_u32 reason\<rparr>"

definition IsZeroManifest :: "TargetEvidenceManifest \<Rightarrow> bool" where
  "IsZeroManifest manifest \<longleftrightarrow> manifest = zero_manifest"

definition IsTargetEvidenceManifestWriteRequestValid :: "TargetEvidenceManifestWriteRequest option \<Rightarrow> bool" where
  "IsTargetEvidenceManifestWriteRequestValid request = (case request of None \<Rightarrow> False | Some q \<Rightarrow>
     writer_versioned (wq_version q) (wq_size q) 296 \<and>
     wq_flags q AND NOT kTargetEvidenceWriterKnownFlagMask = 0 \<and> wq_reserved q = 0 \<and>
     IsTargetEvidenceManifestValid (Some (wq_candidate q)) \<and>
     IsTargetEvidenceSignatureResultValid (Some (wq_signature q)))"

definition IsTargetEvidenceManifestWriteResultValid :: "TargetEvidenceManifestWriteResult option \<Rightarrow> bool" where
  "IsTargetEvidenceManifestWriteResultValid result = (case result of None \<Rightarrow> False | Some r \<Rightarrow>
     if \<not> writer_versioned (wr_version r) (wr_size r) 280 \<or> \<not> WriterIsStatusValid (wr_status r) \<or>
        \<not> WriterIsReasonValid (wr_reason r) \<or> wr_reserved r \<noteq> 0
     then False
     else if wr_status r = TargetEvidenceWriterStatus_u32 WriterSuccess
     then wr_reason r = TargetEvidenceReason_u32 EvidenceNone \<and>
          IsTargetEvidenceManifestValid (Some (wr_manifest r))
     else if wr_reason r = TargetEvidenceReason_u32 EvidenceNone then False
     else IsZeroManifest (wr_manifest r) \<or> IsTargetEvidenceManifestValid (Some (wr_manifest r)))"

definition signature_usable :: "TargetEvidenceManifestWriteRequest \<Rightarrow> bool" where
  "signature_usable request \<longleftrightarrow> IsTrusted (wq_signature request) \<or>
     IsSyntheticProfile (wq_candidate request) \<and> IsAcceptedPrivateRoot (wq_signature request) \<and>
     HasWriterFlag request kTargetEvidenceWriterFlagAllowPrivateTestRoot"

definition BuildTargetEvidenceManifest ::
  "TargetEvidenceManifestWriteRequest option \<Rightarrow> TargetEvidenceManifestWriteResult option \<Rightarrow>
   bool \<times> TargetEvidenceManifestWriteResult option" where
  "BuildTargetEvidenceManifest request result = (case result of None \<Rightarrow> (False, None) | Some _ \<Rightarrow>
    (case request of None \<Rightarrow> (False, Some WriterInitializeResult) | Some q \<Rightarrow>
     if \<not> IsTargetEvidenceManifestWriteRequestValid (Some q) then (False, Some WriterInitializeResult)
     else let candidate = wq_candidate q;
              r = WriterInitializeResult\<lparr>wr_manifest := candidate\<rparr>;
              failure = (\<lambda>r status reason. (True, Some (WriterSetFailure r status reason)));
              synthetic = IsSyntheticProfile candidate;
              hardware = WriterHasFlag candidate kTargetEvidenceFlagHardwareTarget
          in if synthetic \<and> (\<not> HasWriterFlag q kTargetEvidenceWriterFlagAllowSynthetic \<or>
                HasWriterFlag q kTargetEvidenceWriterFlagHardwareEvidence \<or> hardware)
             then failure r SyntheticPolicyViolation InvalidRequest
             else if \<not> synthetic \<and> HasWriterFlag q kTargetEvidenceWriterFlagAllowSynthetic
             then failure r SyntheticPolicyViolation InvalidRequest
             else if hardware \<and> \<not> HasWriterFlag q kTargetEvidenceWriterFlagHardwareEvidence
             then failure r HardwareEvidenceRequired CapabilityIncomplete
             else if \<not> synthetic \<and> IsHardwareProfile candidate \<and> IsAtLeastCapability candidate \<and>
                     \<not> HasWriterFlag q kTargetEvidenceWriterFlagHardwareEvidence
             then failure r HardwareEvidenceRequired CapabilityIncomplete
             else if WriterHasFlag candidate kTargetEvidenceFlagSourceClean \<and>
                     \<not> HasWriterFlag q kTargetEvidenceWriterFlagSourceCleanObserved
             then failure r WriterSourceDirty SourceDirty
             else let signature_flag = WriterHasFlag candidate kTargetEvidenceFlagSignatureVerified;
                      commit_signature = HasWriterFlag q kTargetEvidenceWriterFlagCommitSignature
                  in if (signature_flag \<or> commit_signature \<or> IsRelease candidate \<and> \<not> synthetic) \<and>
                        \<not> signature_usable q
                     then failure r (if sg_status (wq_signature q) =
                                        TargetEvidenceSignatureStatus_u32 SignatureInvalidArgument
                                     then SignatureRequired else SignatureUntrusted) SignatureUnverified
                     else if commit_signature \<and> \<not> signature_usable q
                     then failure r SignatureRequired SignatureUnverified
                     else let m = (if commit_signature
                                   then candidate\<lparr>tm_flags := tm_flags candidate OR
                                          kTargetEvidenceFlagSignatureVerified\<rparr>
                                   else candidate);
                              r = r\<lparr>wr_manifest := m\<rparr>
                          in if tm_generation m = 0 \<and> tm_stage m \<noteq> TargetEvidenceStage_u32 Inventory \<and>
                                tm_verdict m = TargetEvidenceVerdict_u32 Pass
                             then failure r GenerationInvalid EvidenceGenerationMismatch
                             else if \<not> IsTargetEvidenceManifestValid (Some m)
                             then failure r WriterInvalidManifest InvalidManifest
                             else (True, Some (r\<lparr>wr_status := TargetEvidenceWriterStatus_u32 WriterSuccess,
                                    wr_reason := TargetEvidenceReason_u32 EvidenceNone\<rparr>))))"

section \<open>Texts\<close>

definition TargetEvidenceSignatureStatusText :: "u32 \<Rightarrow> string" where
  "TargetEvidenceSignatureStatusText = text_of
    [(TargetEvidenceSignatureStatus_u32 Trusted, ''trusted''),
     (TargetEvidenceSignatureStatus_u32 SignatureInvalidArgument, ''invalid-argument''),
     (TargetEvidenceSignatureStatus_u32 FileNotFound, ''file-not-found''),
     (TargetEvidenceSignatureStatus_u32 NotSigned, ''not-signed''),
     (TargetEvidenceSignatureStatus_u32 Untrusted, ''untrusted''),
     (TargetEvidenceSignatureStatus_u32 PrivateTestRoot, ''private-test-root''),
     (TargetEvidenceSignatureStatus_u32 VerificationUnavailable, ''verification-unavailable'')]
    ''unknown''"

definition TargetEvidenceWriterStatusText :: "u32 \<Rightarrow> string" where
  "TargetEvidenceWriterStatusText = text_of
    [(TargetEvidenceWriterStatus_u32 WriterSuccess, ''success''),
     (TargetEvidenceWriterStatus_u32 WriterInvalidArgument, ''invalid-argument''),
     (TargetEvidenceWriterStatus_u32 WriterInvalidManifest, ''invalid-manifest''),
     (TargetEvidenceWriterStatus_u32 SignatureRequired, ''signature-required''),
     (TargetEvidenceWriterStatus_u32 SignatureUntrusted, ''signature-untrusted''),
     (TargetEvidenceWriterStatus_u32 HardwareEvidenceRequired, ''hardware-evidence-required''),
     (TargetEvidenceWriterStatus_u32 SyntheticPolicyViolation, ''synthetic-policy-violation''),
     (TargetEvidenceWriterStatus_u32 WriterSourceDirty, ''source-dirty''),
     (TargetEvidenceWriterStatus_u32 GenerationInvalid, ''generation-invalid'')]
    ''unknown''"

section \<open>What the writer accepts\<close>

definition writer_policy_ok :: "TargetEvidenceManifestWriteRequest \<Rightarrow> bool" where
  "writer_policy_ok q \<longleftrightarrow>
     (let m = wq_candidate q; synthetic = IsSyntheticProfile m;
          observed_hardware = HasWriterFlag q kTargetEvidenceWriterFlagHardwareEvidence;
          commit = HasWriterFlag q kTargetEvidenceWriterFlagCommitSignature
      in (synthetic \<longleftrightarrow> HasWriterFlag q kTargetEvidenceWriterFlagAllowSynthetic) \<and>
         (synthetic \<longrightarrow> \<not> observed_hardware \<and> \<not> WriterHasFlag m kTargetEvidenceFlagHardwareTarget) \<and>
         (WriterHasFlag m kTargetEvidenceFlagHardwareTarget \<longrightarrow> observed_hardware) \<and>
         (IsHardwareProfile m \<and> IsAtLeastCapability m \<longrightarrow> observed_hardware) \<and>
         (WriterHasFlag m kTargetEvidenceFlagSourceClean \<longrightarrow>
            HasWriterFlag q kTargetEvidenceWriterFlagSourceCleanObserved) \<and>
         (WriterHasFlag m kTargetEvidenceFlagSignatureVerified \<or> commit \<or> IsRelease m \<and> \<not> synthetic \<longrightarrow>
            signature_usable q))"

lemma guard_iff: "(if c then False else x) \<longleftrightarrow> \<not> c \<and> x"
  by simp

lemmas manifest_valid_iff = IsTargetEvidenceManifestValid_def [of "Some m" for m, unfolded option.case guard_iff]

lemma sign_valid:
  assumes "IsTargetEvidenceManifestValid (Some m)"
  shows "IsTargetEvidenceManifestValid (Some (m\<lparr>tm_flags := tm_flags m OR kTargetEvidenceFlagSignatureVerified\<rparr>)) \<longleftrightarrow>
    IsDigestNonZero (tm_manifest_hash m)"
proof -
  let ?f = "tm_flags m"
  have flags: "(?f OR 4) AND 1 = ?f AND 1" "(?f OR 4) AND 2 = ?f AND 2" "(?f OR 4) AND 8 = ?f AND 8"
    "(?f OR 4) AND 16 = ?f AND 16" "(?f OR 4) AND 32 = ?f AND 32" "(?f OR 4) AND 64 = ?f AND 64"
    "(?f OR 4) AND 128 = ?f AND 128" "(?f OR 4) AND 512 = ?f AND 512" "(?f OR 4) AND 1024 = ?f AND 1024"
    "(?f OR 4) AND 4096 = ?f AND 4096" "(?f OR 4) AND 8192 = ?f AND 8192" "(?f OR 4) AND 16384 = ?f AND 16384"
    by (simp_all add: bit.conj_disj_distrib2)
  have four: "(?f OR 4) AND 4 \<noteq> 0" using bits_le_flag [of 4 "?f OR 4" 4] by (simp add: bits_le_bit bit_simps)
  have sh: "manifest_shape_ok (m\<lparr>tm_flags := ?f OR 4\<rparr>) \<longleftrightarrow> manifest_shape_ok m"
    by (simp add: manifest_shape_ok_def bit.conj_disj_distrib2)
  have sel: "tm_flags (m\<lparr>tm_flags := ?f OR 4\<rparr>) = ?f OR 4" by simp
  show ?thesis
    using assms four unfolding manifest_valid_iff sh sel flags
    by simp
qed

lemma manifest_generation:
  assumes "IsTargetEvidenceManifestValid (Some m)"
  shows "\<not> (tm_generation m = 0 \<and> tm_stage m \<noteq> TargetEvidenceStage_u32 Inventory \<and>
    tm_verdict m = TargetEvidenceVerdict_u32 Pass)"
  using assms by (auto simp: IsTargetEvidenceManifestValid_def split: if_splits)

lemma writer_not_hardware: "IsSyntheticProfile m \<Longrightarrow> \<not> IsHardwareProfile m"
  by (simp add: IsSyntheticProfile_def IsHardwareProfile_def)

definition committed :: "TargetEvidenceManifestWriteRequest \<Rightarrow> TargetEvidenceManifest" where
  "committed q = (if HasWriterFlag q kTargetEvidenceWriterFlagCommitSignature
     then (wq_candidate q)\<lparr>tm_flags := tm_flags (wq_candidate q) OR kTargetEvidenceFlagSignatureVerified\<rparr>
     else wq_candidate q)"

text \<open>The refusal of a request by the policy of the writer, in the order of its tests.\<close>

definition writer_failure :: "TargetEvidenceManifestWriteRequest \<Rightarrow>
    (TargetEvidenceWriterStatus \<times> TargetEvidenceReason) option" where
  "writer_failure q =
     (let m = wq_candidate q; synthetic = IsSyntheticProfile m;
          hardware = WriterHasFlag m kTargetEvidenceFlagHardwareTarget;
          observed_hardware = HasWriterFlag q kTargetEvidenceWriterFlagHardwareEvidence
      in if synthetic \<and> (\<not> HasWriterFlag q kTargetEvidenceWriterFlagAllowSynthetic \<or> observed_hardware \<or> hardware)
         then Some (SyntheticPolicyViolation, InvalidRequest)
         else if \<not> synthetic \<and> HasWriterFlag q kTargetEvidenceWriterFlagAllowSynthetic
         then Some (SyntheticPolicyViolation, InvalidRequest)
         else if hardware \<and> \<not> observed_hardware \<or>
                 \<not> synthetic \<and> IsHardwareProfile m \<and> IsAtLeastCapability m \<and> \<not> observed_hardware
         then Some (HardwareEvidenceRequired, CapabilityIncomplete)
         else if WriterHasFlag m kTargetEvidenceFlagSourceClean \<and>
                 \<not> HasWriterFlag q kTargetEvidenceWriterFlagSourceCleanObserved
         then Some (WriterSourceDirty, SourceDirty)
         else if (WriterHasFlag m kTargetEvidenceFlagSignatureVerified \<or>
                  HasWriterFlag q kTargetEvidenceWriterFlagCommitSignature \<or> IsRelease m \<and> \<not> synthetic) \<and>
                 \<not> signature_usable q
         then Some (if sg_status (wq_signature q) = TargetEvidenceSignatureStatus_u32 SignatureInvalidArgument
                    then SignatureRequired else SignatureUntrusted, SignatureUnverified)
         else None)"

lemma writer_failure_None: "writer_failure q = None \<longleftrightarrow> writer_policy_ok q"
  unfolding writer_failure_def writer_policy_ok_def Let_def using writer_not_hardware [of "wq_candidate q"]
  by (simp only: if_split_eq1 option.simps simp_thms) blast

lemma writer_failure_Some:
  "writer_failure q = Some (st, rs) \<Longrightarrow>
     st \<in> {SyntheticPolicyViolation, HardwareEvidenceRequired, WriterSourceDirty, SignatureRequired, SignatureUntrusted} \<and>
     rs \<in> {InvalidRequest, CapabilityIncomplete, SourceDirty, SignatureUnverified}"
  unfolding writer_failure_def Let_def by (simp split: if_splits)

lemma writer_eq:
  assumes "IsTargetEvidenceManifestWriteRequestValid (Some q)"
  shows "BuildTargetEvidenceManifest (Some q) (Some r0) = (True, Some (case writer_failure q of
      Some (st, rs) \<Rightarrow> WriterSetFailure (WriterInitializeResult\<lparr>wr_manifest := wq_candidate q\<rparr>) st rs
    | None \<Rightarrow> if IsTargetEvidenceManifestValid (Some (committed q))
       then WriterInitializeResult\<lparr>wr_manifest := committed q, wr_status := 0, wr_reason := 0\<rparr>
       else WriterSetFailure (WriterInitializeResult\<lparr>wr_manifest := committed q\<rparr>) WriterInvalidManifest InvalidManifest))"
proof -
  have "IsTargetEvidenceManifestValid (Some (wq_candidate q))"
    using assms by (simp add: IsTargetEvidenceManifestWriteRequestValid_def)
  note g = manifest_generation [OF this]
  have g2: "(tm_generation (committed q) = 0 \<and> tm_stage (committed q) \<noteq> TargetEvidenceStage_u32 Inventory \<and>
      tm_verdict (committed q) = TargetEvidenceVerdict_u32 Pass) = False"
    using g by (simp add: committed_def)
  show ?thesis
    unfolding BuildTargetEvidenceManifest_def writer_failure_def Let_def committed_def [symmetric] option.case g2
    using assms by (simp split: if_split)
qed

lemma refused_result:
  assumes "writer_failure q = Some (st, rs)" and "IsTargetEvidenceManifestValid (Some m)"
    and "r = WriterSetFailure (WriterInitializeResult\<lparr>wr_manifest := m\<rparr>) st rs"
  shows "wr_status r \<noteq> 0" "wr_status r \<noteq> 2" "wr_status r \<noteq> 8" "IsTargetEvidenceManifestWriteResultValid (Some r)"
proof -
  have "wr_status r \<in> {3, 4, 5, 6, 7}" "wr_reason r \<in> {2, 9, 11, 20}" "wr_manifest r = m" "wr_size r = 280"
    "wr_version r = 1" "wr_reserved r = 0"
    using writer_failure_Some [OF assms(1)] by (auto simp: assms(3) WriterSetFailure_def WriterInitializeResult_def)
  then show "wr_status r \<noteq> 0" "wr_status r \<noteq> 2" "wr_status r \<noteq> 8" "IsTargetEvidenceManifestWriteResultValid (Some r)"
    using assms(2) by (auto simp: IsTargetEvidenceManifestWriteResultValid_def IsVersionedSizeValid_def
        WriterIsStatusValid_def WriterIsReasonValid_def)
qed

lemma accepted_result:
  assumes "r = (if IsTargetEvidenceManifestValid (Some m)
     then WriterInitializeResult\<lparr>wr_manifest := m, wr_status := 0, wr_reason := 0\<rparr>
     else WriterSetFailure (WriterInitializeResult\<lparr>wr_manifest := m\<rparr>) WriterInvalidManifest InvalidManifest)"
    and "m \<noteq> zero_manifest"
  shows "wr_status r = (if IsTargetEvidenceManifestValid (Some m) then 0 else 2)" "wr_manifest r = m"
    "IsTargetEvidenceManifestWriteResultValid (Some r) \<longleftrightarrow> IsTargetEvidenceManifestValid (Some m)"
  using assms(2) by (auto simp: assms(1) WriterSetFailure_def WriterInitializeResult_def IsZeroManifest_def
      IsTargetEvidenceManifestWriteResultValid_def IsVersionedSizeValid_def WriterIsStatusValid_def WriterIsReasonValid_def)

text \<open>
C40: The writer answers every valid request: it succeeds exactly when the policy on synthetic
and hardware evidence, source state and signature is met and, where a signature is to be
committed, the manifest has a hash, and it then returns the candidate with just the signature
flag added; a refused request is reported with a result that passes its validity test, except
when the commitment makes the manifest invalid.
\<close>

theorem evidence_writer_exact:
  assumes "IsTargetEvidenceManifestWriteRequestValid (Some q)"
  shows "\<exists>r. BuildTargetEvidenceManifest (Some q) (Some r0) = (True, Some r) \<and>
    (wr_status r = TargetEvidenceWriterStatus_u32 WriterSuccess \<longleftrightarrow> writer_policy_ok q \<and>
       (HasWriterFlag q kTargetEvidenceWriterFlagCommitSignature \<longrightarrow> IsDigestNonZero (tm_manifest_hash (wq_candidate q)))) \<and>
    (wr_status r = TargetEvidenceWriterStatus_u32 WriterSuccess \<longrightarrow> wr_manifest r = committed q) \<and>
    wr_status r \<noteq> TargetEvidenceWriterStatus_u32 GenerationInvalid \<and>
    (IsTargetEvidenceManifestWriteResultValid (Some r) \<longleftrightarrow>
       wr_status r \<noteq> TargetEvidenceWriterStatus_u32 WriterInvalidManifest)"
proof (cases "writer_policy_ok q")
  case False
  then obtain st rs where f: "writer_failure q = Some (st, rs)" using writer_failure_None [of q] by force
  have v: "IsTargetEvidenceManifestValid (Some (wq_candidate q))"
    using assms by (simp add: IsTargetEvidenceManifestWriteRequestValid_def)
  define r where "r = WriterSetFailure (WriterInitializeResult\<lparr>wr_manifest := wq_candidate q\<rparr>) st rs"
  have "BuildTargetEvidenceManifest (Some q) (Some r0) = (True, Some r)" using writer_eq [OF assms, of r0] by (simp add: f r_def)
  then show ?thesis using refused_result [OF f v r_def] False
    unfolding TargetEvidenceWriterStatus_u32.simps by blast
next
  case True
  have v: "IsTargetEvidenceManifestValid (Some (wq_candidate q))"
    using assms by (simp add: IsTargetEvidenceManifestWriteRequestValid_def)
  have c: "IsTargetEvidenceManifestValid (Some (committed q)) \<longleftrightarrow>
      (HasWriterFlag q kTargetEvidenceWriterFlagCommitSignature \<longrightarrow> IsDigestNonZero (tm_manifest_hash (wq_candidate q)))"
    using v sign_valid [OF v] by (simp add: committed_def)
  have "manifest_shape_ok (wq_candidate q)" using v unfolding manifest_valid_iff by simp
  then have "tm_size (wq_candidate q) \<noteq> 0" by (auto simp: manifest_shape_ok_def IsVersionedSizeValid_def)
  then have "tm_size (committed q) \<noteq> tm_size zero_manifest" by (simp add: committed_def zero_manifest_def)
  then have z: "committed q \<noteq> zero_manifest" by metis
  define r where "r = (if IsTargetEvidenceManifestValid (Some (committed q))
     then WriterInitializeResult\<lparr>wr_manifest := committed q, wr_status := 0, wr_reason := 0\<rparr>
     else WriterSetFailure (WriterInitializeResult\<lparr>wr_manifest := committed q\<rparr>) WriterInvalidManifest InvalidManifest)"
  have "BuildTargetEvidenceManifest (Some q) (Some r0) = (True, Some r)"
    unfolding r_def using writer_eq [OF assms, of r0] writer_failure_None [of q] True by simp
  then show ?thesis using accepted_result [OF r_def z] c True
    unfolding TargetEvidenceWriterStatus_u32.simps by (intro exI [of _ r]) (auto simp del: not_None_eq)
qed


text \<open>A signature result is accepted by the writer only when it is consistent; the verification makes such results.\<close>

lemma MapWinTrustStatus_cases:
  "MapWinTrustStatus codes status allow = (st, f) \<Longrightarrow>
     (st = Trusted \<and> status = 0 \<and> f = 0) \<or> (st = PrivateTestRoot \<and> status \<noteq> 0 \<and> f = 1 \<and> allow) \<or>
     (st \<in> {NotSigned, Untrusted, VerificationUnavailable} \<and> status \<noteq> 0 \<and> f = 0)"
  by (auto simp: MapWinTrustStatus_def split: if_splits)

lemma signature_record_valid:
  assumes "r = SignatureInitializeResult\<lparr>sg_wintrust_status := w, sg_result_flags := f,
      sg_status := TargetEvidenceSignatureStatus_u32 st\<rparr>"
    and "(st = Trusted \<and> w = 0 \<and> f = 0) \<or> (st = PrivateTestRoot \<and> w \<noteq> 0 \<and> f = 1 \<and> allow) \<or>
      (st \<in> {NotSigned, Untrusted, VerificationUnavailable} \<and> w \<noteq> 0 \<and> f = 0) \<or>
      (st \<in> {SignatureInvalidArgument, FileNotFound} \<and> w = 0 \<and> f = 0)"
  shows "IsTargetEvidenceSignatureResultValid (Some r)" "IsTrusted r \<Longrightarrow> w = 0 \<and> st = Trusted"
    "IsAcceptedPrivateRoot r \<Longrightarrow> allow"
  using assms(2)
  by (auto simp: assms(1) IsTargetEvidenceSignatureResultValid_def SignatureInitializeResult_def IsVersionedSizeValid_def
      SignatureIsStatusValid_def IsTrusted_def IsAcceptedPrivateRoot_def)

lemma signature_result_valid:
  assumes "VerifyTargetEvidenceFileSignature codes attributes trust path request (Some r0) = (st, Some r)"
  shows "IsTargetEvidenceSignatureResultValid (Some r) \<and> (IsTrusted r \<longrightarrow> (\<exists>p. path = Some p \<and> trust p = 0)) \<and>
    (IsAcceptedPrivateRoot r \<longrightarrow> (\<exists>q. request = Some q \<and> sq_flags q AND 1 \<noteq> 0))"
proof -
  have none: "r = SignatureInitializeResult\<lparr>sg_status := TargetEvidenceSignatureStatus_u32 st\<rparr> \<Longrightarrow>
      st \<in> {SignatureInvalidArgument, FileNotFound} \<Longrightarrow> ?thesis"
    by (auto simp: IsTargetEvidenceSignatureResultValid_def SignatureInitializeResult_def IsVersionedSizeValid_def
        SignatureIsStatusValid_def IsTrusted_def IsAcceptedPrivateRoot_def)
  have init: "SignatureInitializeResult = SignatureInitializeResult\<lparr>sg_status :=
      TargetEvidenceSignatureStatus_u32 SignatureInvalidArgument\<rparr>"
    by (simp add: SignatureInitializeResult_def)
  consider "r = SignatureInitializeResult\<lparr>sg_status := TargetEvidenceSignatureStatus_u32 st\<rparr>"
      "st \<in> {SignatureInvalidArgument, FileNotFound}"
    | p q f where "path = Some p" "request = Some q"
      "MapWinTrustStatus codes (trust p) (sq_flags q AND 1 \<noteq> 0) = (st, f)"
      "r = SignatureInitializeResult\<lparr>sg_wintrust_status := trust p, sg_result_flags := f,
         sg_status := TargetEvidenceSignatureStatus_u32 st\<rparr>"
    using assms init unfolding VerifyTargetEvidenceFileSignature_def Let_def
    by (simp split: option.splits if_splits prod.splits)
  then show ?thesis
  proof cases
    case 2
    have "(st = Trusted \<and> trust p = 0 \<and> f = 0) \<or> (st = PrivateTestRoot \<and> trust p \<noteq> 0 \<and> f = 1 \<and> sq_flags q AND 1 \<noteq> 0) \<or>
      (st \<in> {NotSigned, Untrusted, VerificationUnavailable} \<and> trust p \<noteq> 0 \<and> f = 0) \<or>
      (st \<in> {SignatureInvalidArgument, FileNotFound} \<and> trust p = 0 \<and> f = 0)"
      using MapWinTrustStatus_cases [OF 2(3)] by metis
    note v = signature_record_valid [OF 2(4) this]
    have "\<exists>x. path = Some x \<and> trust x = 0" if "IsTrusted r" using v(2) [OF that] 2(1) by simp
    moreover have "\<exists>x. request = Some x \<and> sq_flags x AND 1 \<noteq> 0" if "IsAcceptedPrivateRoot r"
      using v(3) [OF that] 2(2) by simp
    ultimately show ?thesis using v(1) by iprover
  qed (rule none)
qed

section \<open>Sample requests\<close>

definition sample_write_request :: "u32 \<Rightarrow> TargetEvidenceManifest \<Rightarrow> TargetEvidenceManifestWriteRequest" where
  "sample_write_request flags m = \<lparr>wq_size = 296, wq_version = 1, wq_flags = flags, wq_reserved = 0, wq_candidate = m,
     wq_signature = SignatureInitializeResult\<lparr>sg_status := 0\<rparr>\<rparr>"

lemma sample_write_valid: "IsTargetEvidenceManifestWriteRequestValid (Some (sample_write_request 28 sample_manifest))"
  by code_simp

text \<open>A signature committed to a manifest without a hash: the writer answers, and rejects its own answer.\<close>

lemma sample_unhashed_valid:
  "IsTargetEvidenceManifestWriteRequestValid (Some (sample_write_request 28
     (sample_manifest\<lparr>tm_flags := 32763, tm_manifest_hash := replicate 32 0\<rparr>)))"
  by code_simp

theorem evidence_writer_exact_witness:
  "(\<exists>r. BuildTargetEvidenceManifest (Some (sample_write_request 28 sample_manifest)) (Some WriterInitializeResult) =
      (True, Some r) \<and> wr_status r = TargetEvidenceWriterStatus_u32 WriterSuccess) \<and>
   (\<exists>r. BuildTargetEvidenceManifest (Some (sample_write_request 28
      (sample_manifest\<lparr>tm_flags := 32763, tm_manifest_hash := replicate 32 0\<rparr>))) (Some WriterInitializeResult) =
      (True, Some r) \<and> wr_status r \<noteq> TargetEvidenceWriterStatus_u32 WriterSuccess)"
proof -
  have a: "writer_policy_ok (sample_write_request 28 sample_manifest)"
    "IsDigestNonZero (tm_manifest_hash (wq_candidate (sample_write_request 28 sample_manifest)))"
    by code_simp+
  have b: "HasWriterFlag (sample_write_request 28 m) kTargetEvidenceWriterFlagCommitSignature" for m
    by (simp add: HasWriterFlag_def sample_write_request_def)
  have c: "\<not> IsDigestNonZero (tm_manifest_hash (wq_candidate (sample_write_request 28
     (sample_manifest\<lparr>tm_flags := 32763, tm_manifest_hash := replicate 32 0\<rparr>))))"
    by (simp add: sample_write_request_def IsDigestNonZero_def list_ex_iff)
  show ?thesis
    using evidence_writer_exact [OF sample_write_valid, of WriterInitializeResult]
      evidence_writer_exact [OF sample_unhashed_valid, of WriterInitializeResult] a b c by blast
qed

end
