(* ===== verification/Spec2Isabelle.thy ===== *)
theory Spec2Isabelle
  imports EptModel IommuModel ControlRuns VpidModel InterruptModel TimeModel BootModel ExitModel
    Vmcs02Model VmcsShadowModel VmxCapabilityModel CpuPolicyModel WhpModel
    EvidenceWriter
begin

text \<open>
  KNHV, a hypervisor research driver for Windows on x64: a verification library of its contract
  models.

  \<^bold>\<open>The program.\<close> The repository holds a kernel driver, its user-mode tools and, at the core of
  both, a set of contract models in C++: pure functions over versioned structures that decide what
  the driver may do. The control device (\<^verbatim>\<open>src/src/control\<close>) serves requests of user-mode
  clients; it selects a provider (\<^verbatim>\<open>src/src/provider\<close>) and, with the test driver, runs a nested
  virtual CPU (\<^verbatim>\<open>src/src/nested\<close>) whose guest memory is a buffer of the session. The nested CPU
  emulates VMX instructions on a virtual VMCS; a VMCS with which L2 is entered is merged with the
  policy of the host into VMCS02, and selected fields of it are shadowed. Around them are the models
  of extended page tables, of the IOMMU, of VPIDs and TLB shootdown, of interrupts, of virtual time,
  of VM exits, of the VMX capabilities of the processors, of the CPUID and MSR policy, of partitions
  of the Windows Hypervisor Platform, of the hand-over at boot, of the owner of the hardware and of
  the evidence that a target machine has to show before a release.

  \<^bold>\<open>Theories and sources.\<close> Every definition keeps the name of the C++ function, structure or
  constant it translates; a prefix is added where two files use the same name.
  \<^item> \<open>KnhvPrelude\<close>: machine integers, the helpers that the contract models repeat, word lemmas, and
    the interfaces \<open>mapped_range\<close> and \<open>two_stage\<close> (address mappings), \<open>invariant_machine\<close> and
    \<open>guarded_machine\<close> (step relations).
  \<^item> \<open>EptModel\<close>: \<^verbatim>\<open>ept/ept_model.cpp\<close>. EPT pointers, the nested walk as the composition of two
    partial address functions, hook transactions and generations.
  \<^item> \<open>IommuModel\<close>: \<^verbatim>\<open>iommu/iommu_model.cpp\<close>. The nested DMA walk and the life cycle of a device
    assignment.
  \<^item> \<open>KnhvAbi\<close>, \<open>NestedLinear\<close>, \<open>NestedVmcs\<close>, \<open>NestedInstr\<close>: \<^verbatim>\<open>include/knhv_abi.h\<close>,
    \<^verbatim>\<open>nested/nested_memory.cpp\<close>, \<^verbatim>\<open>nested/nested_vmcs.cpp\<close>,
    \<^verbatim>\<open>nested/nested_instructions.cpp\<close>. Guest memory through callbacks, the VMCS field store and
    its entry validation, and every VMX instruction. The callbacks of the memory interface are
    fields of the record, as in the code; the locales \<open>guest_memory\<close> and \<open>flat_memory\<close> state what
    a client needs of them, and the control device provides them.
  \<^item> \<open>ProviderModel\<close>: \<^verbatim>\<open>provider/provider_selection.cpp\<close> and \<^verbatim>\<open>provider/provider_v2.cpp\<close>.
  \<^item> \<open>ControlDevice\<close> and \<open>ControlRuns\<close>: \<^verbatim>\<open>control/control_device.cpp\<close>, the request handlers and
    the device as a step relation over create, close, device control and unload.
  \<^item> \<open>VpidModel\<close>: \<^verbatim>\<open>vmx/vpid_model.cpp\<close>. VPID leases and the shootdown hand-shake.
  \<^item> \<open>InterruptModel\<close>: \<^verbatim>\<open>interrupt/interrupt_model.cpp\<close>. The event queue and posted interrupts.
  \<^item> \<open>TimeModel\<close>: \<^verbatim>\<open>time/time_contract.cpp\<close>. TSC transforms with 128-bit intermediate values.
  \<^item> \<open>BootModel\<close>: \<^verbatim>\<open>boot/boot_contract.cpp\<close>. The owner of the hardware at boot.
  \<^item> \<open>ExitModel\<close>: \<^verbatim>\<open>exit/exit_model.cpp\<close>. The decision on a VM exit.
  \<^item> \<open>Vmcs02Model\<close>: \<^verbatim>\<open>nested/vmcs02_model.cpp\<close>. VMCS12 and policy merged into VMCS02.
  \<^item> \<open>VmcsShadowModel\<close>: \<^verbatim>\<open>nested/vmcs_shadow_model.cpp\<close>. The shadow image of a VMCS.
  \<^item> \<open>VmxCapabilityModel\<close>: \<^verbatim>\<open>vmx/vmx_capability_model.cpp\<close>. Control normalisation and the
    capability matrix.
  \<^item> \<open>CpuPolicyModel\<close>: \<^verbatim>\<open>vmx/cpu_policy_model.cpp\<close>. The CPUID filter and the MSR policy.
  \<^item> \<open>WhpModel\<close>: \<^verbatim>\<open>whp/whp_model.cpp\<close>. Partitions of the Windows Hypervisor Platform.
  \<^item> \<open>OwnerGateModel\<close>: \<^verbatim>\<open>provider/owner_observation.cpp\<close>. The gate on who owns the hardware.
  \<^item> \<open>EvidenceModel\<close> and \<open>EvidenceWriter\<close>: \<^verbatim>\<open>validation/target_evidence.cpp\<close>,
    \<^verbatim>\<open>target_evidence_signature.cpp\<close> and \<^verbatim>\<open>target_evidence_writer.cpp\<close>. Evidence manifests of
    a target machine, their release gate, the results of signature verification (the platform's
    status codes and the outcome of the verification are arguments) and the writer.

  \<^bold>\<open>Conventions.\<close> Integers are words of the width of the code, so that every wrap-around is that of
  the code. A nullable pointer is an \<open>option\<close>, a fallible function returns its status, and an
  operation that writes through a pointer returns the object afterwards, so that what a refused call
  leaves behind is part of the model. An enumeration is a datatype with its integer cast; a structure
  field that any integer may arrive in is kept as that integer. A fixed-length array is a list, with
  its length as part of the invariant. Loops are structural recursions over the list or the index;
  \<open>region_scan\<close> and the page loops of \<open>NestedLinear\<close> have termination proofs, so that no fuel is
  used anywhere in the development.

  \<^bold>\<open>What the theorems show.\<close> The state machines (hook transactions, device
  assignments, nested CPU, control device, VPID pool, interrupt queue, boot contract, shadow image,
  platform partition) have their invariants by rule induction over all runs, as interpretations of
  the two machine locales; hook transactions and assignments also have a bound on the length of a
  run. The walks, the queue, the shadow image, the VMCS02 construction and the lease selection are
  refinements of short abstract descriptions. The decision functions (exit policy, entry validation,
  control normalisation, capability matrix, CPUID filter, MSR policy, owner gate, evidence gate and
  writer) are characterised exactly, errors included. The composition of components is proved where
  they meet: the control device over the nested CPU and the provider selection, VMCS02 over the
  nested VMCS store and the EPT pointer format, the shadow image against VMREAD and VMWRITE.

  \<^bold>\<open>Not modelled.\<close> The CPUID matrix
  (\<^verbatim>\<open>vmx/cpu_matrix_model.cpp\<close>), the evidence snapshots and collector
  (\<^verbatim>\<open>validation/target_snapshot*.cpp\<close>,
  \<^verbatim>\<open>validation/target_collector.cpp\<close>) and the wire formats of the evidence
  (\<^verbatim>\<open>validation/*_codec.cpp\<close>) are left for an extension of the library; the
  codecs need the digests of the operating system as a parameter. Also the code that runs on the
  hardware and the kernel itself: launching, exiting and stopping VMX operation, VMCS set-up,
  diagnostics and crash capture (the files \<^verbatim>\<open>src/src/vmx/vmx_*.cpp\<close> other than
  \<^verbatim>\<open>vmx_capability_model.cpp\<close>, \<^verbatim>\<open>src/src/core\<close>, \<^verbatim>\<open>src/src/asm\<close>) read and write
  processor state through intrinsics and inter-processor callbacks, for which the repository has no
  model; the tools, probes and benchmarks (\<^verbatim>\<open>src/src/broker\<close>,
  \<^verbatim>\<open>src/tools\<close>, \<^verbatim>\<open>src/preflight\<close>,
  \<^verbatim>\<open>src/benchmarks\<close>, \<^verbatim>\<open>src/HV_PROBE_TESTER\<close>) are
  input and output around the contract models.
\<close>

end
